(* ===== verification/Prelude.thy ===== *)
theory Prelude
  imports Main "HOL-Library.Word"
begin

unbundle bit_operations_syntax

text \<open>
  The vocabulary shared by every component: Python exceptions as values of a sum type,
  the sequencing of fallible steps, strings and bytes, dictionaries as association lists in
  insertion order, and the list facts the component proofs rest on.

  A Python \<open>str\<close> is a HOL \<open>string\<close> whose characters are code points below 256; \<open>bytes\<close> are
  lists of 8-bit words. Exception messages keep the literal text of the source; fields an
  f-string interpolates are dropped.
\<close>

named_theorems res_simps \<open>inversion rules for fallible computations\<close>

section \<open>Bytes, exceptions and fallible results\<close>

type_synonym bytes = "8 word list"

record native_error =
  ne_stage :: string
  ne_status :: int
  ne_status_name :: string
  ne_diagnostic :: bytes
  ne_stdout :: bytes
  ne_stderr :: bytes

datatype pyexn =
    ValueError string
  | TypeError string
  | RuntimeError string
  | KeyError string
  | IndexError
  | AttributeError
  | FileNotFoundError string
  | OSError string
  | StructError string
  | NativeError native_error

type_synonym 'a res = "pyexn + 'a"

fun bind_res :: "'a res \<Rightarrow> ('a \<Rightarrow> 'b res) \<Rightarrow> 'b res" where
  "bind_res (Inl e) f = Inl e"
| "bind_res (Inr x) f = f x"

text \<open>A loop or comprehension whose body may raise: the first exception ends it.\<close>

fun map_res :: "('a \<Rightarrow> 'b res) \<Rightarrow> 'a list \<Rightarrow> 'b list res" where
  "map_res f [] = Inr []"
| "map_res f (x # xs) =
     bind_res (f x) (\<lambda>y. bind_res (map_res f xs) (\<lambda>ys. Inr (y # ys)))"

fun fold_res :: "('a \<Rightarrow> 's \<Rightarrow> 's res) \<Rightarrow> 'a list \<Rightarrow> 's \<Rightarrow> 's res" where
  "fold_res f [] s = Inr s"
| "fold_res f (x # xs) s = bind_res (f x s) (fold_res f xs)"

definition from_option :: "pyexn \<Rightarrow> 'a option \<Rightarrow> 'a res" where
  "from_option e v = (case v of None \<Rightarrow> Inl e | Some x \<Rightarrow> Inr x)"

lemma bind_res_eq_Inr [res_simps]:
  "bind_res m f = Inr y \<longleftrightarrow> (\<exists>x. m = Inr x \<and> f x = Inr y)"
  by (cases m) auto

lemma bind_res_eq_Inl [res_simps]:
  "bind_res m f = Inl e \<longleftrightarrow> m = Inl e \<or> (\<exists>x. m = Inr x \<and> f x = Inl e)"
  by (cases m) auto

lemma bind_res_assoc: "bind_res (bind_res m f) g = bind_res m (\<lambda>x. bind_res (f x) g)"
  by (cases m) simp_all

lemma bind_res_cong [fundef_cong]:
  "m = m' \<Longrightarrow> (\<And>x. m' = Inr x \<Longrightarrow> f x = g x) \<Longrightarrow> bind_res m f = bind_res m' g"
  by (cases m') auto

lemma map_res_eq_Inr [res_simps]:
  "map_res f xs = Inr ys \<longleftrightarrow> list_all2 (\<lambda>x y. f x = Inr y) xs ys"
  by (induction xs arbitrary: ys) (auto simp: res_simps list_all2_Cons1)

lemma map_res_raises: "map_res f xs = Inl e \<Longrightarrow> \<exists>x \<in> set xs. f x = Inl e"
  by (induction xs) (auto simp: res_simps)

lemma map_res_raises_iff: "(\<exists>e. map_res f xs = Inl e) \<longleftrightarrow> (\<exists>x \<in> set xs. \<exists>e. f x = Inl e)"
proof (induction xs)
  case (Cons x xs)
  then show ?case by (cases "f x"; cases "map_res f xs") auto
qed simp

lemma map_res_succeeds: "(\<exists>ys. map_res f xs = Inr ys) \<longleftrightarrow> (\<forall>x \<in> set xs. \<exists>y. f x = Inr y)"
  by (induction xs) (auto simp: res_simps)

lemma map_res_length: "map_res f xs = Inr ys \<Longrightarrow> length ys = length xs"
  by (auto simp: res_simps dest: list_all2_lengthD)

lemma map_res_nth:
  "map_res f xs = Inr ys \<Longrightarrow> i < length xs \<Longrightarrow> f (xs ! i) = Inr (ys ! i)"
  by (auto simp: res_simps list_all2_conv_all_nth)

lemma map_res_total: "(\<And>x. x \<in> set xs \<Longrightarrow> f x = Inr (g x)) \<Longrightarrow> map_res f xs = Inr (map g xs)"
  by (induction xs) auto

lemma map_res_list_all: "map_res f xs = Inr ys \<Longrightarrow> (\<And>x y. f x = Inr y \<Longrightarrow> P y) \<Longrightarrow> list_all P ys"
  by (induction xs arbitrary: ys) (auto simp: res_simps)

lemma map_res_inverse: "(\<And>y. y \<in> set ys \<Longrightarrow> f (g y) = Inr y) \<Longrightarrow> map_res f (map g ys) = Inr ys"
  by (induction ys) auto

lemma if_Inl_Inr [res_simps]: "(if b then Inl e else m) = Inr r \<longleftrightarrow> \<not> b \<and> m = Inr r"
  by auto

lemma map_res_unit: "(\<exists>us. map_res f xs = Inr us) \<longleftrightarrow> (\<forall>x \<in> set xs. f x = Inr ())"
  by (induction xs) (auto simp: res_simps)

lemma map_res_cong [fundef_cong]:
  "xs = ys \<Longrightarrow> (\<And>x. x \<in> set ys \<Longrightarrow> f x = g x) \<Longrightarrow> map_res f xs = map_res g ys"
  by (induction xs arbitrary: ys) auto

lemma fold_res_append:
  "fold_res f (xs @ ys) s = bind_res (fold_res f xs s) (fold_res f ys)"
proof (induction xs arbitrary: s)
  case (Cons x xs)
  then show ?case by (cases "f x s") auto
qed simp

lemma fold_res_invariant:
  assumes "fold_res f xs s = Inr t" and "P s"
    and "\<And>x s t. x \<in> set xs \<Longrightarrow> P s \<Longrightarrow> f x s = Inr t \<Longrightarrow> P t"
  shows "P t"
  using assms by (induction xs arbitrary: s) (auto simp: res_simps)

lemma from_option_eq_Inr [res_simps]: "from_option e v = Inr x \<longleftrightarrow> v = Some x"
  by (auto simp: from_option_def split: option.splits)

lemma from_option_eq_Inl [res_simps]: "from_option e v = Inl e' \<longleftrightarrow> v = None \<and> e' = e"
  by (auto simp: from_option_def split: option.splits)

section \<open>Codecs\<close>

text \<open>The contract of every pair of functions that write and read a value: a well-formed value can be encoded and
  decodes to itself, and whatever decodes is well formed.\<close>

locale codec =
  fixes wf :: "'a \<Rightarrow> bool" and encode :: "'a \<Rightarrow> 'w res" and decode :: "'w \<Rightarrow> 'a res"
  assumes decode_wf: "decode w = Inr x \<Longrightarrow> wf x"
    and encode_decode: "wf x \<Longrightarrow> \<exists>w. encode x = Inr w \<and> decode w = Inr x"
begin

lemma encode_inj: "wf x \<Longrightarrow> wf y \<Longrightarrow> encode x = encode y \<Longrightarrow> x = y"
  by (metis encode_decode sum.inject(2))

lemma encode_all: "list_all wf xs \<Longrightarrow> \<exists>ws. map_res encode xs = Inr ws \<and> map_res decode ws = Inr xs"
proof (induction xs)
  case (Cons x xs)
  then obtain ws where "map_res encode xs = Inr ws" "map_res decode ws = Inr xs" by auto
  moreover obtain w where "encode x = Inr w" "decode w = Inr x" using encode_decode Cons.prems by auto
  ultimately show ?case by auto
qed simp

end

section \<open>Strings\<close>

text \<open>\<open>str.isspace\<close>, \<open>str.strip\<close> and \<open>str.lower\<close> on code points below 256.\<close>

definition isspace :: "char \<Rightarrow> bool" where
  "isspace c = (let n = (of_char c :: nat)
     in (9 \<le> n \<and> n \<le> 13) \<or> (28 \<le> n \<and> n \<le> 32) \<or> n = 133 \<or> n = 160)"

definition lstrip :: "string \<Rightarrow> string" where
  "lstrip s = dropWhile isspace s"

definition strip :: "string \<Rightarrow> string" where
  "strip s = rev (lstrip (rev (lstrip s)))"

definition lower_char :: "char \<Rightarrow> char" where
  "lower_char c = (let n = (of_char c :: nat)
     in if (65 \<le> n \<and> n \<le> 90) \<or> (192 \<le> n \<and> n \<le> 222 \<and> n \<noteq> 215) then char_of (n + 32) else c)"

definition lower :: "string \<Rightarrow> string" where
  "lower s = map lower_char s"

text \<open>The number of bytes \<open>str.encode("utf-8")\<close> yields.\<close>

definition utf8_length :: "string \<Rightarrow> nat" where
  "utf8_length s = sum_list (map (\<lambda>c. if (of_char c :: nat) < 128 then 1 else 2) s)"

fun str_join :: "string \<Rightarrow> string list \<Rightarrow> string" where
  "str_join sep [] = []"
| "str_join sep [s] = s"
| "str_join sep (s # ss) = s @ sep @ str_join sep ss"

definition startswith :: "string \<Rightarrow> string \<Rightarrow> bool" where
  "startswith s p \<longleftrightarrow> take (length p) s = p"

fun contains_str :: "string \<Rightarrow> string \<Rightarrow> bool" where
  "contains_str p [] = (p = [])"
| "contains_str p (c # cs) = (startswith (c # cs) p \<or> contains_str p cs)"

text \<open>\<open>str.partition\<close> at a one-character separator: the text before it, whether it occurs, and
  the text after it.\<close>

definition partition_str :: "char \<Rightarrow> string \<Rightarrow> string \<times> bool \<times> string" where
  "partition_str c s = (takeWhile (\<lambda>x. x \<noteq> c) s, c \<in> set s, drop 1 (dropWhile (\<lambda>x. x \<noteq> c) s))"

lemma partition_str_recombine:
  "c \<in> set s \<Longrightarrow> partition_str c s = (a, b, d) \<Longrightarrow> s = a @ c # d"
proof -
  assume c: "c \<in> set s" and p: "partition_str c s = (a, b, d)"
  from c obtain us vs where "s = us @ c # vs" and "c \<notin> set us"
    by (auto dest: split_list_first)
  then have "takeWhile (\<lambda>x. x \<noteq> c) s = us" "dropWhile (\<lambda>x. x \<noteq> c) s = c # vs"
    by (auto simp: takeWhile_append dropWhile_append intro!: takeWhile_eq_all_conv [THEN iffD2])
  with p \<open>s = us @ c # vs\<close> show ?thesis
    by (simp add: partition_str_def)
qed

subsection \<open>UTF-8\<close>

text \<open>\<open>str.encode("utf-8")\<close> and \<open>bytes.decode("utf-8")\<close>. Strings stop at U+00FF here, so longer
  sequences are outside the model and decode like invalid ones.\<close>

definition utf8 :: "string \<Rightarrow> bytes" where
  "utf8 s = concat (map (\<lambda>c. let n = (of_char c :: nat) in
     if n < 128 then [word_of_nat n] else [word_of_nat (192 + n div 64), word_of_nat (128 + n mod 64)]) s)"

fun utf8_decode :: "bytes \<Rightarrow> string option" where
  "utf8_decode [] = Some []"
| "utf8_decode (b # bs) =
     (if unat b < 128 then map_option (Cons (char_of (unat b))) (utf8_decode bs)
      else if unat b = 194 \<or> unat b = 195 then
        (case bs of
           c # cs \<Rightarrow> if 128 \<le> unat c \<and> unat c < 192
             then map_option (Cons (char_of ((unat b - 192) * 64 + (unat c - 128)))) (utf8_decode cs) else None
         | [] \<Rightarrow> None)
      else None)"

subsection \<open>Decimal rendering\<close>

definition digit_char :: "nat \<Rightarrow> char" where
  "digit_char d = ''0123456789'' ! d"

fun nat_str :: "nat \<Rightarrow> string" where
  "nat_str n = (if n < 10 then [digit_char n] else nat_str (n div 10) @ [digit_char (n mod 10)])"

declare nat_str.simps [simp del]

definition int_str :: "int \<Rightarrow> string" where
  "int_str i = (if i < 0 then CHR ''-'' # nat_str (nat (- i)) else nat_str (nat i))"

definition char_digit :: "char \<Rightarrow> nat" where
  "char_digit c = (of_char c :: nat) - 48"

definition str_nat :: "string \<Rightarrow> nat" where
  "str_nat s = foldl (\<lambda>n c. 10 * n + char_digit c) 0 s"

definition is_digit :: "char \<Rightarrow> bool" where
  "is_digit c \<longleftrightarrow> c \<in> set ''0123456789''"

lemma digit_cases:
  assumes "(d::nat) < 10"
  shows "d = 0 \<or> d = 1 \<or> d = 2 \<or> d = 3 \<or> d = 4 \<or> d = 5 \<or> d = 6 \<or> d = 7 \<or> d = 8 \<or> d = 9"
  using assms by arith

lemma char_digit_digit_char: "d < 10 \<Longrightarrow> char_digit (digit_char d) = d"
  using digit_cases [of d] by (auto simp: char_digit_def digit_char_def)

lemma is_digit_digit_char: "d < 10 \<Longrightarrow> is_digit (digit_char d)"
  using digit_cases [of d] by (auto simp: is_digit_def digit_char_def)

lemma str_nat_nat_str [simp]: "str_nat (nat_str n) = n"
proof (induction n rule: nat_str.induct)
  case (1 n)
  then show ?case
    by (subst nat_str.simps) (auto simp: str_nat_def char_digit_digit_char)
qed

lemma nat_str_digits: "c \<in> set (nat_str n) \<Longrightarrow> is_digit c"
proof (induction n rule: nat_str.induct)
  case (1 n)
  then show ?case
    by (cases "n < 10") (auto simp: nat_str.simps [of n] is_digit_digit_char)
qed

lemma nat_str_nonempty [simp]: "nat_str n \<noteq> []"
  by (subst nat_str.simps) simp

lemma nat_str_inject [simp]: "nat_str m = nat_str n \<longleftrightarrow> m = n"
  by (metis str_nat_nat_str)

lemma not_is_digit_minus: "\<not> is_digit (CHR ''-'')"
  by (simp add: is_digit_def)

lemma nat_str_not_minus: "nat_str n \<noteq> CHR ''-'' # s"
  by (metis list.set_intros(1) nat_str_digits not_is_digit_minus)

lemma int_str_inject [simp]: "int_str i = int_str j \<longleftrightarrow> i = j"
  by (auto simp: int_str_def nat_str_not_minus nat_str_not_minus [symmetric])

lemma unat_of_nat_byte: "n < 256 \<Longrightarrow> unat (word_of_nat n :: 8 word) = n"
  by (simp add: unat_of_nat)

lemma utf8_decode_utf8 [simp]: "utf8_decode (utf8 s) = Some s"
proof (induction s)
  case (Cons c s)
  let ?n = "of_char c :: nat"
  show ?case
  proof (cases "?n < 128")
    case True
    then show ?thesis using Cons by (simp add: utf8_def unat_of_nat_byte)
  next
    case False
    have lead: "?n div 64 = 2 \<or> ?n div 64 = 3" using False nat_of_char_less_256 [of c] by linarith
    then have "unat (word_of_nat (192 + ?n div 64) :: 8 word) = 192 + ?n div 64"
      by (intro unat_of_nat_byte) auto
    moreover have "unat (word_of_nat (128 + ?n mod 64) :: 8 word) = 128 + ?n mod 64"
      using mod_less_divisor [of 64 ?n] by (intro unat_of_nat_byte) linarith
    moreover have "128 + ?n mod 64 < 192" using mod_less_divisor [of 64 ?n] by linarith
    ultimately show ?thesis
      using Cons False lead div_mult_mod_eq [of ?n 64] by (auto simp: utf8_def Let_def)
  qed
qed (simp add: utf8_def)

section \<open>Dictionaries in insertion order\<close>

type_synonym ('k, 'v) dict = "('k \<times> 'v) list"

fun dict_set :: "'k \<Rightarrow> 'v \<Rightarrow> ('k, 'v) dict \<Rightarrow> ('k, 'v) dict" where
  "dict_set k v [] = [(k, v)]"
| "dict_set k v ((k', v') # d) =
     (if k = k' then (k, v) # d else (k', v') # dict_set k v d)"

definition setdefault :: "'k \<Rightarrow> 'v \<Rightarrow> ('k, 'v) dict \<Rightarrow> ('k, 'v) dict" where
  "setdefault k v d = (case map_of d k of None \<Rightarrow> d @ [(k, v)] | Some _ \<Rightarrow> d)"

definition keys :: "('k, 'v) dict \<Rightarrow> 'k list" where
  "keys d = map fst d"

lemma map_of_dict_set [simp]: "map_of (dict_set k v d) = (map_of d)(k \<mapsto> v)"
  by (induction d) auto

lemma map_of_setdefault:
  "map_of (setdefault k v d) k' = (if k' = k \<and> map_of d k = None then Some v else map_of d k')"
  by (auto simp: setdefault_def map_add_def split: option.splits)

lemma keys_Nil [simp]: "keys [] = []"
  and keys_Cons [simp]: "keys (p # d) = fst p # keys d"
  by (simp_all add: keys_def)

lemma set_keys_dict_set: "set (keys (dict_set k v d)) = insert k (set (keys d))"
proof (induction d)
  case (Cons p d)
  then show ?case by (cases p) auto
qed simp

lemma dict_set_fresh: "k \<notin> set (keys d) \<Longrightarrow> dict_set k v d = d @ [(k, v)]"
  by (induction d) (auto simp: keys_def)

lemma distinct_keys_dict_set: "distinct (keys d) \<Longrightarrow> distinct (keys (dict_set k v d))"
proof (induction d)
  case (Cons p d)
  then show ?case by (cases p) (auto simp: set_keys_dict_set)
qed simp

section \<open>Python list and set idioms\<close>

text \<open>\<open>values = {...}; next(iter(values)) if len(values) == 1 else None\<close>\<close>

definition the_unique :: "'a list \<Rightarrow> 'a option" where
  "the_unique xs = (case remdups xs of [x] \<Rightarrow> Some x | _ \<Rightarrow> None)"

lemma distinct_singleton: "distinct xs \<Longrightarrow> set xs = {x} \<longleftrightarrow> xs = [x]"
  by (cases xs; cases "tl xs") auto

lemma the_unique_Some: "the_unique xs = Some x \<longleftrightarrow> xs \<noteq> [] \<and> (\<forall>y \<in> set xs. y = x)"
proof -
  have "the_unique xs = Some x \<longleftrightarrow> remdups xs = [x]"
    by (auto simp: the_unique_def split: list.splits)
  also have "\<dots> \<longleftrightarrow> set (remdups xs) = {x}"
    using distinct_singleton [OF distinct_remdups, of xs x] by blast
  also have "\<dots> \<longleftrightarrow> xs \<noteq> [] \<and> (\<forall>y \<in> set xs. y = x)"
    by (cases xs) auto
  finally show ?thesis .
qed

text \<open>\<open>xs[i]\<close> with Python's negative indices; \<open>None\<close> where Python raises \<open>IndexError\<close>.\<close>

definition py_nth :: "'a list \<Rightarrow> int \<Rightarrow> 'a option" where
  "py_nth xs i = (let n = int (length xs); j = (if i < 0 then i + n else i)
     in if 0 \<le> j \<and> j < n then Some (xs ! nat j) else None)"

lemma py_nth_nonneg: "i < length xs \<Longrightarrow> py_nth xs (int i) = Some (xs ! i)"
  by (simp add: py_nth_def)

text \<open>\<open>zip\<close>-and-enumerate of a list, the index first.\<close>

abbreviation enum :: "'a list \<Rightarrow> (nat \<times> 'a) list" where
  "enum xs \<equiv> List.enumerate 0 xs"

lemma in_set_enum: "(i, x) \<in> set (enum xs) \<longleftrightarrow> i < length xs \<and> xs ! i = x"
  by (auto simp: in_set_enumerate_eq)

lemma list_all_enum: "list_all P (enum xs) \<longleftrightarrow> (\<forall>i < length xs. P (i, xs ! i))"
  by (auto simp: list_all_iff in_set_enum)

lemma prod_list_update:
  fixes xs :: "'a::comm_monoid_mult list"
  assumes "i < length xs" and "xs ! i = 1"
  shows "prod_list (xs[i := v]) = v * prod_list xs"
  using assms
proof (induction xs arbitrary: i)
  case (Cons x xs)
  then show ?case by (cases i) (auto simp: ac_simps)
qed simp

lemma prod_list_pos:
  fixes xs :: "int list"
  shows "(\<And>x. x \<in> set xs \<Longrightarrow> 0 < x) \<Longrightarrow> 0 < prod_list xs"
  by (induction xs) auto

end
