(* ===== verification/Values.thy ===== *)
theory Values
  imports Complex_Main Prelude
begin

text \<open>
  The Python values the program passes around: the frozen data classes of \<open>tensor\<close>, \<open>kernel\<close> and
  \<open>_native\<close> as records, and the universe \<open>pyval\<close> of dynamically typed arguments and parsed JSON
  values, with Python's \<open>==\<close>, \<open>isinstance\<close> tests and iteration on it.
\<close>

section \<open>Data classes\<close>

record tensor_spec =
  ts_shape :: "int list"
  ts_dtype :: string

text \<open>What the program observes of a NumPy array: its shape, the text and the kind of its dtype
  (\<open>str(dtype)\<close> names the native byte order only: a swapped \<open>int32\<close> is \<open>>i4\<close>), its values in C order
  when they are integers, and \<open>tobytes(order="C")\<close>.\<close>

record ndarray =
  nd_shape :: "nat list"
  nd_dtype :: string
  nd_kind :: string
  nd_ints :: "int list"
  nd_bytes :: bytes

record kernel_spec =
  ks_source :: bytes
  ks_definitions :: "string list"
  ks_linker_script :: "bytes option"
  ks_source_name :: string

record compiled_kernel =
  ck_elf :: bytes
  ck_elf_name :: string

datatype kernel = KSpec kernel_spec | KCompiled compiled_kernel

record patch_target =
  pt_invocation_index :: int
  pt_range_index :: int
  pt_input_count :: int
  pt_element_count :: int
  pt_span_bytes :: int
  pt_contract_flags :: int

record patch_tensor_contract =
  tc_role :: string
  tc_index :: int
  tc_dtype :: string
  tc_element_count :: int
  tc_span_bytes :: int
  tc_observed_flags :: int

record patch_target_v2 =
  p2_invocation_index :: int
  p2_range_index :: int
  p2_tensors :: "patch_tensor_contract list"
  p2_target_flags :: int

datatype target = TargetV1 patch_target | TargetV2 patch_target_v2

section \<open>Dynamically typed values\<close>

text \<open>A finite \<open>float\<close> carries its value and its \<open>repr\<close>; an object of any other class carries its
  class name and its \<open>str\<close>.\<close>

datatype pyfloat = PyFin rat string | PyNaN | PyInf bool

datatype pyval =
    PNone
  | PBool bool
  | PInt int
  | PFloat pyfloat
  | PStr string
  | PBytes bytes
  | PPath string
  | PTuple "pyval list"
  | PList "pyval list"
  | PDict "(string \<times> pyval) list"
  | PArray ndarray
  | PSpec tensor_spec
  | PKernel kernel
  | PTarget target
  | PObject string string

fun is_none :: "pyval \<Rightarrow> bool" where
  "is_none PNone = True"
| "is_none _ = False"

text \<open>\<open>isinstance(v, int) and not isinstance(v, bool)\<close>\<close>

fun is_int :: "pyval \<Rightarrow> bool" where
  "is_int (PInt _) = True"
| "is_int _ = False"

fun is_bool :: "pyval \<Rightarrow> bool" where
  "is_bool (PBool _) = True"
| "is_bool _ = False"

fun is_str :: "pyval \<Rightarrow> bool" where
  "is_str (PStr _) = True"
| "is_str _ = False"

fun is_dict :: "pyval \<Rightarrow> bool" where
  "is_dict (PDict _) = True"
| "is_dict _ = False"

text \<open>\<open>a[i]\<close> on an array of at least one dimension: a NumPy scalar, which is no Python \<open>int\<close>, or a row.\<close>

definition array_row :: "ndarray \<Rightarrow> nat \<Rightarrow> pyval" where
  "array_row a i =
     (case nd_shape a of
        n # d # ds \<Rightarrow>
          let k = prod_list (d # ds); b = length (nd_bytes a) div n
          in PArray (a\<lparr>nd_shape := d # ds, nd_ints := take k (drop (i * k) (nd_ints a)),
                       nd_bytes := take b (drop (i * b) (nd_bytes a))\<rparr>)
      | _ \<Rightarrow> PObject ''numpy'' '''')"

text \<open>The elements \<open>tuple(v)\<close> collects; \<open>None\<close> where it raises \<open>TypeError\<close>.\<close>

fun py_iter :: "pyval \<Rightarrow> pyval list option" where
  "py_iter (PTuple vs) = Some vs"
| "py_iter (PList vs) = Some vs"
| "py_iter (PDict d) = Some (map (\<lambda>(k, _). PStr k) d)"
| "py_iter (PStr s) = Some (map (\<lambda>c. PStr [c]) s)"
| "py_iter (PBytes b) = Some (map (\<lambda>w. PInt (uint w)) b)"
| "py_iter (PArray a) =
     (case nd_shape a of [] \<Rightarrow> None | n # _ \<Rightarrow> Some (map (array_row a) [0..<n]))"
| "py_iter _ = None"

text \<open>\<open>v[i]\<close> for a literal \<open>i \<ge> 0\<close>; no dictionary of the program has integer keys.\<close>

definition py_index :: "pyval \<Rightarrow> nat \<Rightarrow> pyval res" where
  "py_index v i =
     (case v of
        PDict _ \<Rightarrow> Inl (KeyError (nat_str i))
      | _ \<Rightarrow> (case py_iter v of
            Some vs \<Rightarrow> if i < length vs then Inr (vs ! i) else Inl IndexError
          | None \<Rightarrow> Inl (case v of PArray _ \<Rightarrow> IndexError
                                | _ \<Rightarrow> TypeError ''object is not subscriptable'')))"

text \<open>\<open>bool(v)\<close>; the program never asks it of an array.\<close>

fun truthy :: "pyval \<Rightarrow> bool" where
  "truthy PNone = False"
| "truthy (PBool b) = b"
| "truthy (PInt i) = (i \<noteq> 0)"
| "truthy (PFloat f) = (case f of PyFin q _ \<Rightarrow> q \<noteq> 0 | _ \<Rightarrow> True)"
| "truthy (PStr s) = (s \<noteq> [])"
| "truthy (PBytes b) = (b \<noteq> [])"
| "truthy (PTuple vs) = (vs \<noteq> [])"
| "truthy (PList vs) = (vs \<noteq> [])"
| "truthy (PDict d) = (d \<noteq> [])"
| "truthy _ = True"

text \<open>\<open>d.get(k)\<close> on a mapping, and \<open>d[k]\<close>.\<close>

definition dget :: "(string \<times> pyval) list \<Rightarrow> string \<Rightarrow> pyval" where
  "dget d k = (case map_of d k of None \<Rightarrow> PNone | Some v \<Rightarrow> v)"

definition dget_item :: "(string \<times> pyval) list \<Rightarrow> string \<Rightarrow> pyval res" where
  "dget_item d k = from_option (KeyError k) (map_of d k)"

subsection \<open>Equality\<close>

fun num_val :: "pyval \<Rightarrow> rat option" where
  "num_val (PBool b) = Some (of_bool b)"
| "num_val (PInt i) = Some (of_int i)"
| "num_val (PFloat (PyFin q _)) = Some q"
| "num_val _ = None"

lemma size_zip_fst [termination_simp]: "(a, b) \<in> set (zip xs ys) \<Longrightarrow> size a < Suc (size_list size xs)"
  using size_list_estimation' [of a xs "size a" size] by (auto dest: set_zip_leftD)

text \<open>\<open>==\<close> compares \<open>bool\<close>, \<open>int\<close> and \<open>float\<close> by value, sequences of one kind element by element
  and dictionaries by their entries, whatever the order.\<close>

fun py_eq :: "pyval \<Rightarrow> pyval \<Rightarrow> bool" where
  "py_eq (PBool b) w = (num_val w = Some (of_bool b))"
| "py_eq (PInt i) w = (num_val w = Some (of_int i))"
| "py_eq (PFloat f) w =
     (case f of PyFin q _ \<Rightarrow> num_val w = Some q | PyInf b \<Rightarrow> w = PFloat (PyInf b) | PyNaN \<Rightarrow> False)"
| "py_eq (PTuple xs) w =
     (case w of
        PTuple ys \<Rightarrow> length xs = length ys \<and> list_all (\<lambda>(x, y). py_eq x y) (zip xs ys)
      | _ \<Rightarrow> False)"
| "py_eq (PList xs) w =
     (case w of
        PList ys \<Rightarrow> length xs = length ys \<and> list_all (\<lambda>(x, y). py_eq x y) (zip xs ys)
      | _ \<Rightarrow> False)"
| "py_eq (PDict a) w =
     (case w of
        PDict b \<Rightarrow> length a = length b \<and>
          list_all (\<lambda>(k, v). case map_of b k of None \<Rightarrow> False | Some u \<Rightarrow> py_eq v u) a
      | _ \<Rightarrow> False)"
| "py_eq PNone w = (w = PNone)"
| "py_eq (PStr s) w = (w = PStr s)"
| "py_eq (PBytes s) w = (w = PBytes s)"
| "py_eq (PPath s) w = (w = PPath s)"
| "py_eq (PArray s) w = (w = PArray s)"
| "py_eq (PSpec s) w = (w = PSpec s)"
| "py_eq (PKernel s) w = (w = PKernel s)"
| "py_eq (PTarget s) w = (w = PTarget s)"
| "py_eq (PObject s t) w = (w = PObject s t)"

text \<open>JSON text parsed by \<open>json.loads\<close>: no tuples, bytes or objects, and string keys without
  duplicates. A JSON value without floats is \<open>plain\<close>.\<close>

fun plain_json :: "pyval \<Rightarrow> bool" where
  "plain_json (PNone) = True"
| "plain_json (PBool _) = True"
| "plain_json (PInt _) = True"
| "plain_json (PStr _) = True"
| "plain_json (PList vs) = list_all plain_json vs"
| "plain_json (PDict d) = (distinct (map fst d) \<and> list_all (\<lambda>(_, v). plain_json v) d)"
| "plain_json _ = False"

lemma py_eq_refl: "plain_json v \<Longrightarrow> py_eq v v"
proof (induction v rule: plain_json.induct)
  case (5 vs)
  then show ?case by (auto simp: list_all_iff zip_same)
next
  case (6 d)
  then show ?case by (fastforce simp: list_all_iff)
qed auto

lemma py_eq_PStr [simp]: "py_eq v (PStr s) \<longleftrightarrow> v = PStr s"
  by (cases v) (auto split: pyfloat.splits)

lemma py_eq_PNone [simp]: "py_eq v PNone \<longleftrightarrow> v = PNone"
  by (cases v) (auto split: pyfloat.splits)

lemma is_int_iff: "is_int v \<longleftrightarrow> (\<exists>i. v = PInt i)"
  by (cases v) auto

lemma is_str_iff: "is_str v \<longleftrightarrow> (\<exists>s. v = PStr s)"
  by (cases v) auto

lemma is_dict_iff: "is_dict v \<longleftrightarrow> (\<exists>d. v = PDict d)"
  by (cases v) auto

lemma tuple2_case_Inr [res_simps]:
  "(case v of PTuple [x, y] \<Rightarrow> F x y | _ \<Rightarrow> Inl e) = Inr r \<longleftrightarrow> (\<exists>x y. v = PTuple [x, y] \<and> F x y = Inr r)"
  by (cases v) (auto split: list.splits)

lemma list2_case_Inr [res_simps]:
  "(case v of PList [x, y] \<Rightarrow> F x y | _ \<Rightarrow> Inl e) = Inr r \<longleftrightarrow> (\<exists>x y. v = PList [x, y] \<and> F x y = Inr r)"
  by (cases v) (auto split: list.splits)

lemma dict_case_Inr [res_simps]:
  "(case v of PDict d \<Rightarrow> F d | _ \<Rightarrow> Inl e) = Inr r \<longleftrightarrow> (\<exists>d. v = PDict d \<and> F d = Inr r)"
  by (cases v) auto

lemma str_case_Inr [res_simps]:
  "(case v of PStr s \<Rightarrow> F s | _ \<Rightarrow> Inl e) = Inr r \<longleftrightarrow> (\<exists>s. v = PStr s \<and> F s = Inr r)"
  by (cases v) auto

lemma dget_Some: "map_of d k = Some v \<Longrightarrow> dget d k = v"
  by (simp add: dget_def)

end
