(* ===== verification/Tensor.thy ===== *)
theory Tensor
  imports Values
begin

text \<open>
  \<open>tensor.py\<close>: normalisation of shapes and element types, and the \<open>TensorSpec\<close> constructor. Every
  \<open>TensorSpec\<close> in existence is well formed (\<open>wf_spec\<close>), the type invariant of the whole graph layer.
\<close>

definition tensor_dtypes :: "string list" where
  "tensor_dtypes =
    [''boolean'', ''f16'', ''f32'', ''f64'', ''i8'', ''i16'', ''i32'', ''i64'', ''u8'', ''u16'', ''u32'', ''u64'']"

text \<open>A dimension that \<open>normalize_shape\<close> lets through.\<close>

fun static_dim :: "pyval \<Rightarrow> bool" where
  "static_dim (PInt d) = (0 < d)"
| "static_dim _ = False"

fun the_int :: "pyval \<Rightarrow> int" where
  "the_int (PInt i) = i"
| "the_int _ = 0"

definition shape_type_error :: pyexn where
  "shape_type_error = TypeError ''shape must be an iterable of positive integers''"

definition normalize_shape :: "pyval \<Rightarrow> int list res" where
  "normalize_shape shape =
     (case shape of
        PStr _ \<Rightarrow> Inl shape_type_error
      | PBytes _ \<Rightarrow> Inl shape_type_error
      | _ \<Rightarrow> (case py_iter shape of
            None \<Rightarrow> Inl shape_type_error
          | Some normalized \<Rightarrow>
              if \<not> list_all static_dim normalized
              then Inl (ValueError ''only static positive dimensions are supported'')
              else Inr (map the_int normalized)))"

definition dtype_aliases :: "(string \<times> string) list" where
  "dtype_aliases =
    [(''bool'', ''boolean''), (''float16'', ''f16''), (''float32'', ''f32''), (''float64'', ''f64'')]"

text \<open>\<open>str(dtype)\<close> for a string or an object such as a NumPy dtype. The \<open>str\<close> of every other value
  (a number, a container, \<open>None\<close>, a data class) is the name of no element type, as the empty text
  is.\<close>

fun dtype_text :: "pyval \<Rightarrow> string" where
  "dtype_text (PStr s) = s"
| "dtype_text (PObject _ s) = s"
| "dtype_text (PPath s) = s"
| "dtype_text _ = ''''"

definition normalize_dtype :: "pyval \<Rightarrow> string res" where
  "normalize_dtype dtype =
     (let text = lower (dtype_text dtype);
          name = (case map_of dtype_aliases text of Some a \<Rightarrow> a | None \<Rightarrow> text)
      in if name \<notin> set tensor_dtypes then Inl (ValueError ''unsupported IR element type'')
         else Inr name)"

text \<open>\<open>TensorSpec(shape, dtype)\<close>\<close>

definition TensorSpec :: "pyval \<Rightarrow> pyval \<Rightarrow> tensor_spec res" where
  "TensorSpec shape dtype =
     bind_res (normalize_shape shape) (\<lambda>s.
     bind_res (normalize_dtype dtype) (\<lambda>d.
     Inr \<lparr>ts_shape = s, ts_dtype = d\<rparr>))"

abbreviation shape_val :: "int list \<Rightarrow> pyval" where
  "shape_val s \<equiv> PTuple (map PInt s)"

section \<open>The type invariant\<close>

definition wf_shape :: "int list \<Rightarrow> bool" where
  "wf_shape s \<longleftrightarrow> list_all (\<lambda>d. 0 < d) s"

definition wf_spec :: "tensor_spec \<Rightarrow> bool" where
  "wf_spec t \<longleftrightarrow> wf_shape (ts_shape t) \<and> ts_dtype t \<in> set tensor_dtypes"

lemma static_dim_iff: "static_dim v \<longleftrightarrow> (\<exists>d. v = PInt d \<and> 0 < d)"
  by (cases v) auto

lemma normalize_shape_InrD:
  "normalize_shape v = Inr s \<Longrightarrow> \<exists>vs. py_iter v = Some vs \<and> list_all static_dim vs \<and> s = map the_int vs"
  by (cases v) (auto simp: normalize_shape_def split: option.splits list.splits if_splits)

lemma wf_shape_static_dims: "list_all static_dim vs \<Longrightarrow> wf_shape (map the_int vs)"
  by (induction vs) (auto simp: wf_shape_def static_dim_iff)

lemma normalize_shape_wf: "normalize_shape v = Inr s \<Longrightarrow> wf_shape s"
  by (auto dest!: normalize_shape_InrD intro: wf_shape_static_dims)

lemma normalize_shape_val [simp]: "wf_shape s \<Longrightarrow> normalize_shape (shape_val s) = Inr s"
  by (auto simp: normalize_shape_def wf_shape_def list_all_iff static_dim_iff comp_def)

lemma normalize_dtype_wf: "normalize_dtype v = Inr d \<Longrightarrow> d \<in> set tensor_dtypes"
  by (auto simp: normalize_dtype_def Let_def split: if_splits option.splits)

lemma tensor_dtypes_canonical:
  "list_all (\<lambda>d. lower d = d \<and> map_of dtype_aliases d = None) tensor_dtypes"
  by code_simp

lemma tensor_dtypes_lower:
  "d \<in> set tensor_dtypes \<Longrightarrow> lower d = d \<and> map_of dtype_aliases d = None"
  using tensor_dtypes_canonical by (simp add: list_all_iff)

lemma normalize_dtype_val [simp]: "d \<in> set tensor_dtypes \<Longrightarrow> normalize_dtype (PStr d) = Inr d"
  by (simp add: normalize_dtype_def Let_def tensor_dtypes_lower)

lemma TensorSpec_wf: "TensorSpec s d = Inr t \<Longrightarrow> wf_spec t"
  by (auto simp: TensorSpec_def res_simps wf_spec_def intro: normalize_shape_wf normalize_dtype_wf)

text \<open>The constructor rebuilds a well-formed spec from its own fields.\<close>

lemma TensorSpec_val [simp]:
  "wf_shape s \<Longrightarrow> d \<in> set tensor_dtypes \<Longrightarrow>
   TensorSpec (shape_val s) (PStr d) = Inr \<lparr>ts_shape = s, ts_dtype = d\<rparr>"
  by (simp add: TensorSpec_def)

lemma TensorSpec_of_fields:
  "wf_spec t \<Longrightarrow> TensorSpec (shape_val (ts_shape t)) (PStr (ts_dtype t)) = Inr t"
  by (simp add: wf_spec_def)

lemma TensorSpec_shape_only:
  "TensorSpec (shape_val s) (PStr d) = Inr t \<Longrightarrow> ts_shape t = s \<and> wf_shape s"
  by (auto simp: TensorSpec_def res_simps normalize_shape_def wf_shape_def list_all_iff
      static_dim_iff comp_def split: if_splits)

lemma wf_shape_prod_pos: "wf_shape s \<Longrightarrow> 0 < prod_list s"
  by (auto simp: wf_shape_def list_all_iff intro: prod_list_pos)

lemma wf_shape_append [simp]: "wf_shape (s @ t) \<longleftrightarrow> wf_shape s \<and> wf_shape t"
  by (simp add: wf_shape_def)

lemma wf_shape_Cons [simp]: "wf_shape (d # s) \<longleftrightarrow> 0 < d \<and> wf_shape s"
  and wf_shape_Nil [simp]: "wf_shape []"
  by (simp_all add: wf_shape_def)

lemma wf_shape_nth: "wf_shape s \<Longrightarrow> i < length s \<Longrightarrow> 0 < s ! i"
  by (simp add: wf_shape_def list_all_length)

lemma wf_shape_take_drop: "wf_shape s \<Longrightarrow> wf_shape (take n s)" "wf_shape s \<Longrightarrow> wf_shape (drop n s)"
  by (auto simp: wf_shape_def list_all_iff dest: in_set_takeD in_set_dropD)

end
