(* ===== verification/Sha256.thy ===== *)
theory Sha256
  imports Prelude
begin

text \<open>
  \<open>hashlib.sha256(data).hexdigest()\<close>: the SHA-256 function of FIPS 180-4 on byte strings and its
  rendering as 64 lowercase hexadecimal characters, and the digest format check that the
  modules \<open>contracts\<close>, \<open>external\<close>, \<open>cache\<close> and the bundle loaders repeat.
\<close>

unbundle bit_operations_syntax

type_synonym u32 = "32 word"

definition rotr32 :: "nat \<Rightarrow> u32 \<Rightarrow> u32" where
  "rotr32 n x = drop_bit n x OR push_bit (32 - n) x"

definition sha_ch :: "u32 \<Rightarrow> u32 \<Rightarrow> u32 \<Rightarrow> u32" where
  "sha_ch x y z = (x AND y) XOR (NOT x AND z)"

definition sha_maj :: "u32 \<Rightarrow> u32 \<Rightarrow> u32 \<Rightarrow> u32" where
  "sha_maj x y z = (x AND y) XOR (x AND z) XOR (y AND z)"

definition sha_S0 :: "u32 \<Rightarrow> u32" where
  "sha_S0 x = rotr32 2 x XOR rotr32 13 x XOR rotr32 22 x"

definition sha_S1 :: "u32 \<Rightarrow> u32" where
  "sha_S1 x = rotr32 6 x XOR rotr32 11 x XOR rotr32 25 x"

definition sha_s0 :: "u32 \<Rightarrow> u32" where
  "sha_s0 x = rotr32 7 x XOR rotr32 18 x XOR drop_bit 3 x"

definition sha_s1 :: "u32 \<Rightarrow> u32" where
  "sha_s1 x = rotr32 17 x XOR rotr32 19 x XOR drop_bit 10 x"

text \<open>The round constants are the first 32 bits of the fractional parts of the cube roots of the first
  64 primes, the initial state those of the square roots of the first eight: \<open>int_root k n i r\<close> finds
  the largest \<open>r\<close> with \<open>r ^ k \<le> n\<close> bit by bit, from bit \<open>i - 1\<close> down.\<close>

fun int_root :: "nat \<Rightarrow> nat \<Rightarrow> nat \<Rightarrow> nat \<Rightarrow> nat" where
  "int_root k n 0 r = r"
| "int_root k n (Suc i) r = int_root k n i (if (r + 2 ^ i) ^ k \<le> n then r + 2 ^ i else r)"

definition sha_primes :: "nat list" where
  "sha_primes =
    [2, 3, 5, 7, 11, 13, 17, 19, 23, 29, 31, 37, 41, 43, 47, 53,
     59, 61, 67, 71, 73, 79, 83, 89, 97, 101, 103, 107, 109, 113, 127, 131,
     137, 139, 149, 151, 157, 163, 167, 173, 179, 181, 191, 193, 197, 199, 211, 223,
     227, 229, 233, 239, 241, 251, 257, 263, 269, 271, 277, 281, 283, 293, 307, 311]"

definition sha_K :: "u32 list" where
  "sha_K = map (\<lambda>p. word_of_nat (int_root 3 (p * 2 ^ 96) 40 0)) sha_primes"

definition sha_H0 :: "u32 list" where
  "sha_H0 = map (\<lambda>p. word_of_nat (int_root 2 (p * 2 ^ 64) 40 0)) (take 8 sha_primes)"

fun be_word :: "bytes \<Rightarrow> u32" where
  "be_word [] = 0"
| "be_word (b # bs) = push_bit (8 * length bs) (ucast b) OR be_word bs"

fun be_words :: "bytes \<Rightarrow> u32 list" where
  "be_words (a # b # c # d # bs) = be_word [a, b, c, d] # be_words bs"
| "be_words bs = []"

definition be_length :: "nat \<Rightarrow> bytes" where
  "be_length n =
     map (\<lambda>i. ucast (drop_bit i (word_of_nat (8 * n) :: 64 word))) [56, 48, 40, 32, 24, 16, 8, 0]"

definition sha_pad :: "bytes \<Rightarrow> bytes" where
  "sha_pad m = m @ [0x80] @ replicate ((119 - length m mod 64) mod 64) 0 @ be_length (length m)"

text \<open>The message schedule is kept newest word first.\<close>

primrec sha_schedule :: "nat \<Rightarrow> u32 list \<Rightarrow> u32 list" where
  "sha_schedule 0 w = w"
| "sha_schedule (Suc k) w =
     sha_schedule k ((sha_s1 (w ! 1) + w ! 6 + sha_s0 (w ! 14) + w ! 15) # w)"

fun sha_round :: "u32 \<times> u32 \<Rightarrow> u32 list \<Rightarrow> u32 list" where
  "sha_round (k, w) [a, b, c, d, e, f, g, h] =
     (let t1 = h + sha_S1 e + sha_ch e f g + k + w; t2 = sha_S0 a + sha_maj a b c
      in [t1 + t2, a, b, c, d + t1, e, f, g])"
| "sha_round _ st = st"

definition sha_block :: "u32 list \<Rightarrow> bytes \<Rightarrow> u32 list" where
  "sha_block st blk =
     map2 (+) st (fold sha_round (zip sha_K (rev (sha_schedule 48 (rev (be_words blk))))) st)"

function sha_blocks :: "u32 list \<Rightarrow> bytes \<Rightarrow> u32 list" where
  "sha_blocks st m = (if m = [] then st else sha_blocks (sha_block st (take 64 m)) (drop 64 m))"
  by pat_completeness auto
termination
  by (relation "measure (\<lambda>(st, m). length m)") auto

declare sha_blocks.simps [simp del]

definition hex_char :: "nat \<Rightarrow> char" where
  "hex_char d = ''0123456789abcdef'' ! d"

definition hex_word :: "u32 \<Rightarrow> string" where
  "hex_word x =
     map (\<lambda>i. hex_char (unat (drop_bit i x AND 15) mod 16)) [28, 24, 20, 16, 12, 8, 4, 0]"

definition sha256 :: "bytes \<Rightarrow> string" where
  "sha256 m = concat (map hex_word (sha_blocks sha_H0 (sha_pad m)))"

section \<open>The digest format\<close>

definition is_hex :: "char \<Rightarrow> bool" where
  "is_hex c \<longleftrightarrow> c \<in> set ''0123456789abcdef''"

text \<open>\<open>len(value) == 64\<close> and every character in \<open>"0123456789abcdef"\<close>.\<close>

definition is_digest :: "string \<Rightarrow> bool" where
  "is_digest s \<longleftrightarrow> length s = 64 \<and> list_all is_hex s"

lemma sha_round_length: "length (sha_round kw st) = length st"
  by (induction kw st rule: sha_round.induct) (simp_all add: Let_def)

lemma sha_rounds_length: "length (fold sha_round kws st) = length st"
  by (induction kws arbitrary: st) (simp_all add: sha_round_length)

lemma sha_block_length: "length (sha_block st blk) = length st"
  by (simp add: sha_block_def sha_rounds_length)

lemma sha_blocks_length: "length (sha_blocks st m) = length st"
proof (induction st m rule: sha_blocks.induct)
  case (1 st m)
  then show ?case
    by (subst sha_blocks.simps) (simp add: sha_block_length)
qed

lemma is_hex_hex_char: "d < 16 \<Longrightarrow> is_hex (hex_char d)"
  by (simp only: is_hex_def hex_char_def) (rule nth_mem, simp)

lemma hex_word_length: "length (hex_word x) = 8"
  by (simp add: hex_word_def)

lemma hex_word_hex: "list_all is_hex (hex_word x)"
  by (simp add: hex_word_def list_all_iff is_hex_hex_char)

lemma concat_hex_words: "list_all is_hex (concat (map hex_word ws))"
  "length (concat (map hex_word ws)) = 8 * length ws"
  using hex_word_hex by (induction ws) (auto simp: hex_word_length)

lemma is_digest_sha256 [simp]: "is_digest (sha256 m)"
  by (simp add: is_digest_def sha256_def concat_hex_words sha_blocks_length sha_H0_def sha_primes_def)

end
