(* ===== verification/Kernel.thy ===== *)
theory Kernel
  imports Values Sha256
begin

text \<open>
  \<open>kernel.py\<close>: snapshotted kernel sources, compiler definitions and linker scripts. The file
  system is the argument \<open>fs\<close>, which gives the bytes of a readable file.
\<close>

type_synonym file_reader = "string \<Rightarrow> bytes option"

definition read_bytes :: "file_reader \<Rightarrow> string \<Rightarrow> bytes res" where
  "read_bytes fs path = from_option (FileNotFoundError path) (fs path)"

definition kernel_source :: "file_reader \<Rightarrow> pyval \<Rightarrow> bytes res" where
  "kernel_source fs v =
     bind_res
       (case v of
          PBytes b \<Rightarrow> Inr b
        | PStr p \<Rightarrow> read_bytes fs p
        | PPath p \<Rightarrow> read_bytes fs p
        | _ \<Rightarrow> Inl (TypeError ''custom kernel source must be bytes or a filesystem path''))
       (\<lambda>source. if source = [] then Inl (ValueError ''custom kernel source must not be empty'')
                 else Inr source)"

definition non_empty :: "bytes \<Rightarrow> bytes option" where
  "non_empty b = (if b = [] then None else Some b)"

definition linker_script :: "file_reader \<Rightarrow> pyval \<Rightarrow> bytes option res" where
  "linker_script fs v =
     (case v of
        PNone \<Rightarrow> Inr None
      | PBytes b \<Rightarrow> Inr (non_empty b)
      | PStr p \<Rightarrow> bind_res (read_bytes fs p) (\<lambda>b. Inr (non_empty b))
      | PPath p \<Rightarrow> bind_res (read_bytes fs p) (\<lambda>b. Inr (non_empty b))
      | _ \<Rightarrow> Inl (TypeError ''linker_script must be bytes, a filesystem path, or None''))"

definition upper_letter :: "char \<Rightarrow> bool" where
  "upper_letter c = (let n = (of_char c :: nat) in 65 \<le> n \<and> n \<le> 90)"

definition decimal_digit :: "char \<Rightarrow> bool" where
  "decimal_digit c = (let n = (of_char c :: nat) in 48 \<le> n \<and> n \<le> 57)"

text \<open>The body of the loop over the definitions, on one string.\<close>

definition definition_rejected :: "string \<Rightarrow> bool" where
  "definition_rejected s =
     (case partition_str (CHR ''='') s of (name, separator, val) \<Rightarrow>
        \<not> separator
      \<or> name = []
      \<or> \<not> upper_letter (hd name)
      \<or> \<not> list_all (\<lambda>c. upper_letter c \<or> decimal_digit c \<or> c = CHR ''_'') name
      \<or> val = []
      \<or> \<not> list_all decimal_digit val
      \<or> 255 < utf8_length s)"

definition check_definition :: "pyval \<Rightarrow> string res" where
  "check_definition v =
     (case v of
        PStr s \<Rightarrow>
          if definition_rejected s
          then Inl (ValueError ''compiler definitions must use the uppercase NAME=DECIMAL form'')
          else Inr s
      | _ \<Rightarrow> Inl (TypeError ''compiler definitions must be strings''))"

definition compiler_definitions :: "pyval \<Rightarrow> string list res" where
  "compiler_definitions v =
     (case py_iter v of
        None \<Rightarrow> Inl (TypeError ''object is not iterable'')
      | Some definitions \<Rightarrow>
          if 64 < length definitions
          then Inl (ValueError ''at most 64 compiler definitions are supported'')
          else map_res check_definition definitions)"

text \<open>\<open>os.fspath(source) if isinstance(source, (str, os.PathLike)) else "<bytes>"\<close>\<close>

fun display_name :: "pyval \<Rightarrow> string" where
  "display_name (PStr p) = p"
| "display_name (PPath p) = p"
| "display_name _ = ''<bytes>''"

definition KernelSpec :: "file_reader \<Rightarrow> pyval \<Rightarrow> pyval \<Rightarrow> pyval \<Rightarrow> kernel_spec res" where
  "KernelSpec fs source definitions script =
     bind_res (kernel_source fs source) (\<lambda>src.
     bind_res (compiler_definitions definitions) (\<lambda>defs.
     bind_res (linker_script fs script) (\<lambda>ls.
     Inr \<lparr>ks_source = src, ks_definitions = defs, ks_linker_script = ls,
          ks_source_name = display_name source\<rparr>)))"

definition CompiledKernel :: "file_reader \<Rightarrow> pyval \<Rightarrow> compiled_kernel res" where
  "CompiledKernel fs elf =
     bind_res
       (case elf of
          PBytes b \<Rightarrow> Inr b
        | PStr p \<Rightarrow> read_bytes fs p
        | PPath p \<Rightarrow> read_bytes fs p
        | _ \<Rightarrow> Inl (TypeError ''compiled kernel must be ELF bytes or a filesystem path''))
       (\<lambda>b. if b = [] then Inl (ValueError ''compiled kernel ELF must not be empty'')
            else Inr \<lparr>ck_elf = b, ck_elf_name = display_name elf\<rparr>)"

definition source_sha256 :: "kernel_spec \<Rightarrow> string" where
  "source_sha256 k = sha256 (ks_source k)"

definition linker_script_sha256 :: "kernel_spec \<Rightarrow> string option" where
  "linker_script_sha256 k = map_option sha256 (ks_linker_script k)"

definition elf_sha256 :: "compiled_kernel \<Rightarrow> string" where
  "elf_sha256 k = sha256 (ck_elf k)"

text \<open>\<open>CompiledKernel.save\<close>: the destination now holds the ELF, every other file is as it was.\<close>

definition save_kernel :: "compiled_kernel \<Rightarrow> string \<Rightarrow> file_reader \<Rightarrow> file_reader" where
  "save_kernel k destination fs = fs(destination \<mapsto> ck_elf k)"

text \<open>\<open>source_name\<close> is declared with \<open>compare=False\<close>: equality and hashing of kernel specs, and so
  the keys of the ELF cache, ignore it.\<close>

definition kernel_key :: "kernel_spec \<Rightarrow> bytes \<times> string list \<times> bytes option" where
  "kernel_key k = (ks_source k, ks_definitions k, ks_linker_script k)"

section \<open>Invariants of the constructors\<close>

definition definition_form :: "string \<Rightarrow> bool" where
  "definition_form s \<longleftrightarrow> (\<exists>c name val. s = (c # name) @ CHR ''='' # val \<and> upper_letter c \<and>
     list_all (\<lambda>c. upper_letter c \<or> decimal_digit c \<or> c = CHR ''_'') name \<and>
     val \<noteq> [] \<and> list_all decimal_digit val \<and> length s \<le> 255)"

definition wf_kernel_spec :: "kernel_spec \<Rightarrow> bool" where
  "wf_kernel_spec k \<longleftrightarrow> ks_source k \<noteq> [] \<and> length (ks_definitions k) \<le> 64 \<and>
     list_all definition_form (ks_definitions k) \<and> ks_linker_script k \<noteq> Some []"

lemma utf8_length_ascii: "list_all (\<lambda>c. (of_char c :: nat) < 128) s \<Longrightarrow> utf8_length s = length s"
  by (induction s) (auto simp: utf8_length_def)

lemma definition_chars_ascii:
  "list_all (\<lambda>c. upper_letter c \<or> decimal_digit c \<or> c = CHR ''_'') s \<Longrightarrow>
   list_all (\<lambda>c. (of_char c :: nat) < 128) s"
  "list_all decimal_digit s \<Longrightarrow> list_all (\<lambda>c. (of_char c :: nat) < 128) s"
  by (auto simp: list_all_iff upper_letter_def decimal_digit_def Let_def)

lemma upper_letter_ascii: "upper_letter c \<Longrightarrow> (of_char c :: nat) < 128"
  by (auto simp: upper_letter_def Let_def)

lemma partition_str_split:
  "CHR ''='' \<notin> set a \<Longrightarrow> partition_str (CHR ''='') (a @ CHR ''='' # b) = (a, True, b)"
  by (auto simp: partition_str_def takeWhile_append dropWhile_append)

lemma name_chars_no_equals:
  "list_all (\<lambda>c. upper_letter c \<or> decimal_digit c \<or> c = CHR ''_'') s \<Longrightarrow> CHR ''='' \<notin> set s"
  by (auto simp: list_all_iff upper_letter_def decimal_digit_def Let_def)

lemma definition_accepted_iff: "\<not> definition_rejected s \<longleftrightarrow> definition_form s"
proof
  assume acc: "\<not> definition_rejected s"
  obtain name sep val where p: "partition_str (CHR ''='') s = (name, sep, val)"
    by (cases "partition_str (CHR ''='') s")
  with acc have parts: "sep" "name \<noteq> []" "upper_letter (hd name)"
      "list_all (\<lambda>c. upper_letter c \<or> decimal_digit c \<or> c = CHR ''_'') name"
      "val \<noteq> []" "list_all decimal_digit val" "utf8_length s \<le> 255"
    by (auto simp: definition_rejected_def)
  from parts(1) p have eq: "s = name @ CHR ''='' # val"
    by (intro partition_str_recombine) (auto simp: partition_str_def)
  have "list_all (\<lambda>c. (of_char c :: nat) < 128) s"
    using parts(4,6) by (auto simp: eq definition_chars_ascii)
  with parts(7) have "length s \<le> 255" by (simp add: utf8_length_ascii)
  with parts eq show "definition_form s"
    unfolding definition_form_def
    by (intro exI [of _ "hd name"] exI [of _ "tl name"] exI [of _ val]) (cases name; auto)
next
  assume "definition_form s"
  then obtain c name val where eq: "s = (c # name) @ CHR ''='' # val"
    and parts: "upper_letter c" "list_all (\<lambda>c. upper_letter c \<or> decimal_digit c \<or> c = CHR ''_'') name"
      "val \<noteq> []" "list_all decimal_digit val" "length s \<le> 255"
    by (auto simp: definition_form_def)
  have cs: "list_all (\<lambda>c. upper_letter c \<or> decimal_digit c \<or> c = CHR ''_'') (c # name)"
    using parts by simp
  have "list_all (\<lambda>c. (of_char c :: nat) < 128) s"
    using parts definition_chars_ascii(1) [OF cs]
    by (auto simp: eq definition_chars_ascii)
  with parts(5) have "utf8_length s \<le> 255" by (simp add: utf8_length_ascii)
  with parts cs show "\<not> definition_rejected s"
    unfolding definition_rejected_def eq
    by (simp only: partition_str_split [OF name_chars_no_equals [OF cs]]) simp
qed

lemma kernel_source_nonempty: "kernel_source fs v = Inr src \<Longrightarrow> src \<noteq> []"
  by (auto simp: kernel_source_def res_simps split: if_splits)

lemma check_definition_Inr: "check_definition v = Inr s \<longleftrightarrow> v = PStr s \<and> definition_form s"
  by (cases v) (auto simp: check_definition_def definition_accepted_iff [symmetric])

lemma compiler_definitions_Inr:
  "compiler_definitions v = Inr ds \<longleftrightarrow>
     py_iter v = Some (map PStr ds) \<and> length ds \<le> 64 \<and> list_all definition_form ds"
proof -
  have *: "list_all2 (\<lambda>x y. x = PStr y \<and> definition_form y) vs ds \<longleftrightarrow>
      vs = map PStr ds \<and> list_all definition_form ds" for vs
    by (auto simp: list_all2_conv_all_nth list_all_length intro: nth_equalityI)
  show ?thesis
    by (auto simp: compiler_definitions_def res_simps check_definition_Inr * split: option.splits)
qed

lemma linker_script_nonempty: "linker_script fs v = Inr ls \<Longrightarrow> ls \<noteq> Some []"
  by (cases v) (auto simp: linker_script_def res_simps non_empty_def split: if_splits)

lemma KernelSpec_wf: "KernelSpec fs s d l = Inr k \<Longrightarrow> wf_kernel_spec k"
  by (auto simp: KernelSpec_def res_simps wf_kernel_spec_def compiler_definitions_Inr
      dest: kernel_source_nonempty linker_script_nonempty)

lemma CompiledKernel_nonempty: "CompiledKernel fs e = Inr k \<Longrightarrow> ck_elf k \<noteq> []"
  by (auto simp: CompiledKernel_def res_simps split: if_splits)

end
