(* ===== verification/Symbolic_Graph.thy ===== *)
theory Symbolic_Graph
  imports Tensor Kernel
begin

text \<open>
  The object graph of \<open>graph.py\<close>: \<open>Tensor\<close>, \<open>Node\<close>, \<open>_topological_nodes\<close> and \<open>Graph\<close>.

  \<open>Node\<close> and \<open>Tensor\<close> compare by identity, so the nodes live in a store, the list of all nodes
  created so far, and a node is its position there. A tensor names its producer by that position;
  two tensors of a store are the same object exactly when they are the same record. Every
  constructor appends to the store; nothing in the package removes or changes a node.

  The depth-first visit runs on an arbitrary store, cyclic ones included: \<open>limit\<close> is the number of
  interpreter frames left, and the visit raises \<open>RecursionError\<close> when it is used up, as Python does.
\<close>

section \<open>Tensors, nodes and the store\<close>

record tensor =
  t_producer :: nat
  t_output_index :: nat
  t_spec :: tensor_spec
  t_name :: "string option"

record node =
  n_op :: string
  n_inputs :: "tensor list"
  n_attrs :: "(string \<times> pyval) list"
  n_output_specs :: "tensor_spec list"
  n_name :: "string option"
  n_metadata :: "(string \<times> pyval) list"

type_synonym store = "node list"

text \<open>An argument where the code expects a symbolic \<open>Tensor\<close>.\<close>

datatype symbolic = Symbolic tensor | NotSymbolic pyval

fun is_symbolic :: "symbolic \<Rightarrow> bool" where
  "is_symbolic (Symbolic _) = True"
| "is_symbolic (NotSymbolic _) = False"

fun the_symbolic :: "symbolic \<Rightarrow> tensor list" where
  "the_symbolic (Symbolic t) = [t]"
| "the_symbolic (NotSymbolic _) = []"

abbreviation symbolic_tensors :: "symbolic list \<Rightarrow> tensor list" where
  "symbolic_tensors args \<equiv> concat (map the_symbolic args)"

abbreviation t_shape :: "tensor \<Rightarrow> int list" where
  "t_shape t \<equiv> ts_shape (t_spec t)"

abbreviation t_dtype :: "tensor \<Rightarrow> string" where
  "t_dtype t \<equiv> ts_dtype (t_spec t)"

text \<open>\<open>Node.__post_init__\<close>: the output tensors of the node at position \<open>nid\<close>.\<close>

definition node_outputs :: "nat \<Rightarrow> node \<Rightarrow> tensor list" where
  "node_outputs nid n =
     map (\<lambda>(i, spec). \<lparr>t_producer = nid, t_output_index = i, t_spec = spec,
            t_name = (if length (n_output_specs n) = 1 then n_name n else None)\<rparr>)
         (enum (n_output_specs n))"

definition missing_node :: node where
  "missing_node = \<lparr>n_op = '''', n_inputs = [], n_attrs = [], n_output_specs = [], n_name = None,
     n_metadata = []\<rparr>"

text \<open>The node at a position; stores never refer to a position they do not have (\<open>wf_store\<close>).\<close>

definition node_at :: "store \<Rightarrow> nat \<Rightarrow> node" where
  "node_at st i = (if i < length st then st ! i else missing_node)"

abbreviation producer_op :: "store \<Rightarrow> tensor \<Rightarrow> string" where
  "producer_op st t \<equiv> n_op (node_at st (t_producer t))"

definition producers :: "store \<Rightarrow> nat \<Rightarrow> nat list" where
  "producers st i = map t_producer (n_inputs (node_at st i))"

text \<open>\<open>Node(...)\<close>: the extended store and the outputs of the new node.\<close>

definition Node :: "store \<Rightarrow> node \<Rightarrow> store \<times> tensor list" where
  "Node st n = (st @ [n], node_outputs (length st) n)"

definition valid_operator_name :: "string \<Rightarrow> bool" where
  "valid_operator_name s \<longleftrightarrow> s \<noteq> [] \<and> \<not> list_ex isspace s"

definition validate_operator_name :: "pyval \<Rightarrow> string res" where
  "validate_operator_name name =
     (case name of
        PStr s \<Rightarrow>
          if s = [] \<or> list_ex isspace s
          then Inl (ValueError ''operator name must be a non-empty string without whitespace'')
          else Inr s
      | _ \<Rightarrow> Inl (ValueError ''operator name must be a non-empty string without whitespace''))"

section \<open>Topological order\<close>

record visit_state =
  vs_ordered :: "nat list"
  vs_active :: "nat list"
  vs_complete :: "nat list"

definition recursion_error :: pyexn where
  "recursion_error = RuntimeError ''maximum recursion depth exceeded''"

definition cycle_error :: pyexn where
  "cycle_error = ValueError ''symbolic graph contains a cycle''"

text \<open>\<open>visit\<close>: \<open>active\<close> and \<open>complete\<close> are sets, kept as lists without duplicates.\<close>

fun visit :: "(nat \<Rightarrow> nat list) \<Rightarrow> nat \<Rightarrow> nat \<Rightarrow> visit_state \<Rightarrow> visit_state res" where
  "visit succs 0 n s = Inl recursion_error"
| "visit succs (Suc limit) n s =
     (if n \<in> set (vs_complete s) then Inr s
      else if n \<in> set (vs_active s) then Inl cycle_error
      else bind_res
        (fold_res (visit succs limit) (succs n) (s\<lparr>vs_active := n # vs_active s\<rparr>)) (\<lambda>t.
        Inr (t\<lparr>vs_active := removeAll n (vs_active t), vs_complete := n # vs_complete t,
               vs_ordered := vs_ordered t @ [n]\<rparr>)))"

definition visit_start :: visit_state where
  "visit_start = \<lparr>vs_ordered = [], vs_active = [], vs_complete = []\<rparr>"

definition visit_output :: "store \<Rightarrow> nat \<Rightarrow> symbolic \<Rightarrow> visit_state \<Rightarrow> visit_state res" where
  "visit_output st limit output s =
     (case output of
        NotSymbolic _ \<Rightarrow> Inl (TypeError ''Graph outputs must be symbolic Tensor objects'')
      | Symbolic t \<Rightarrow> visit (producers st) limit (t_producer t) s)"

definition topological_nodes :: "store \<Rightarrow> nat \<Rightarrow> symbolic list \<Rightarrow> nat list res" where
  "topological_nodes st limit outputs =
     bind_res (fold_res (visit_output st limit) outputs visit_start) (\<lambda>s. Inr (vs_ordered s))"

section \<open>Graphs\<close>

record graph =
  g_inputs :: "tensor list"
  g_outputs :: "tensor list"
  g_name :: string

text \<open>\<open>any(value.producer.op != "Parameter" for value in values)\<close>: a value without \<open>producer\<close> raises
  before any later value is looked at.\<close>

fun any_not_parameter :: "store \<Rightarrow> symbolic list \<Rightarrow> bool res" where
  "any_not_parameter st [] = Inr False"
| "any_not_parameter st (NotSymbolic _ # vs) = Inl AttributeError"
| "any_not_parameter st (Symbolic t # vs) =
     (if producer_op st t \<noteq> ''Parameter'' then Inr True else any_not_parameter st vs)"

definition graph_reachable :: "store \<Rightarrow> nat list \<Rightarrow> tensor list \<Rightarrow> tensor list" where
  "graph_reachable st nodes outputs = concat (map (\<lambda>n. n_inputs (node_at st n)) nodes) @ outputs"

definition missing_inputs :: "store \<Rightarrow> nat list \<Rightarrow> tensor list \<Rightarrow> tensor list \<Rightarrow> tensor list" where
  "missing_inputs st nodes inputs outputs =
     filter (\<lambda>v. v \<notin> set (graph_reachable st nodes outputs)) inputs"

text \<open>A \<open>Parameter\<close> node without outputs would raise \<open>IndexError\<close> at \<open>outputs[0]\<close>; \<open>input\<close> and \<open>op\<close>
  make none (\<open>wf_store\<close>).\<close>

definition undeclared_inputs :: "store \<Rightarrow> nat list \<Rightarrow> tensor list \<Rightarrow> nat list" where
  "undeclared_inputs st nodes inputs =
     filter (\<lambda>n. n_op (node_at st n) = ''Parameter'' \<and>
       \<not> list_ex (\<lambda>t. t \<in> set inputs) (take 1 (node_outputs n (node_at st n)))) nodes"

definition Graph :: "store \<Rightarrow> nat \<Rightarrow> symbolic list \<Rightarrow> symbolic list \<Rightarrow> pyval \<Rightarrow> graph res" where
  "Graph st limit inputs outputs name =
     (if inputs = [] \<or> outputs = []
      then Inl (ValueError ''Graph requires at least one input and one output'')
      else bind_res (any_not_parameter st inputs) (\<lambda>foreign.
        if foreign then Inl (ValueError ''Graph inputs must come from input()'')
        else if \<not> distinct (symbolic_tensors inputs) then Inl (ValueError ''Graph inputs must be unique'')
        else case name of
          PStr g \<Rightarrow>
            if g = [] then Inl (ValueError ''Graph name must be a non-empty string'')
            else bind_res (topological_nodes st limit outputs) (\<lambda>nodes.
              let ins = symbolic_tensors inputs; outs = symbolic_tensors outputs in
              if missing_inputs st nodes ins outs \<noteq> []
              then Inl (ValueError ''Graph inputs are not connected to an output'')
              else if undeclared_inputs st nodes ins \<noteq> []
              then Inl (ValueError ''Graph uses undeclared inputs'')
              else Inr \<lparr>g_inputs = ins, g_outputs = outs, g_name = g\<rparr>)
        | _ \<Rightarrow> Inl (ValueError ''Graph name must be a non-empty string'')))"

text \<open>\<open>Graph.nodes\<close> recomputes the order from the outputs.\<close>

definition graph_nodes :: "store \<Rightarrow> nat \<Rightarrow> graph \<Rightarrow> nat list res" where
  "graph_nodes st limit g = topological_nodes st limit (map Symbolic (g_outputs g))"

section \<open>Well-formed stores\<close>

text \<open>A tensor of the store: one of the outputs of a node in it.\<close>

definition tensor_of :: "store \<Rightarrow> tensor \<Rightarrow> bool" where
  "tensor_of st t \<longleftrightarrow> t_producer t < length st \<and>
     t \<in> set (node_outputs (t_producer t) (node_at st (t_producer t)))"

text \<open>Closed: every input of a node is a tensor of the store. Well formed: closed, made in creation
  order, every node with at least one output and well-formed output specs.\<close>

definition closed_store :: "store \<Rightarrow> bool" where
  "closed_store st \<longleftrightarrow> list_all (\<lambda>n. list_all (tensor_of st) (n_inputs n)) st"

definition wf_store :: "store \<Rightarrow> bool" where
  "wf_store st \<longleftrightarrow> list_all (\<lambda>(i, n).
     list_all (\<lambda>t. tensor_of st t \<and> t_producer t < i) (n_inputs n) \<and>
     n_output_specs n \<noteq> [] \<and> list_all wf_spec (n_output_specs n)) (enum st)"


text \<open>The order the visit promises: the successors of an element stand before it.\<close>

definition topo_sorted :: "(nat \<Rightarrow> nat list) \<Rightarrow> nat list \<Rightarrow> bool" where
  "topo_sorted succs xs \<longleftrightarrow> list_all (\<lambda>i. set (succs (xs ! i)) \<subseteq> set (take i xs)) [0..<length xs]"

definition edges :: "(nat \<Rightarrow> nat list) \<Rightarrow> (nat \<times> nat) set" where
  "edges succs = {(n, m). m \<in> set (succs n)}"

definition reach :: "(nat \<Rightarrow> nat list) \<Rightarrow> nat list \<Rightarrow> nat set" where
  "reach succs ns = (edges succs)\<^sup>* `` set ns"

definition visit_inv :: "(nat \<Rightarrow> nat list) \<Rightarrow> visit_state \<Rightarrow> bool" where
  "visit_inv succs s \<longleftrightarrow> distinct (vs_ordered s) \<and> topo_sorted succs (vs_ordered s) \<and>
     set (vs_complete s) = set (vs_ordered s) \<and> distinct (vs_active s) \<and>
     set (vs_active s) \<inter> set (vs_ordered s) = {}"

section \<open>The visit is a topological sort\<close>

lemma topo_sorted_Nil [simp]: "topo_sorted succs []"
  by (simp add: topo_sorted_def)

lemma topo_sorted_snoc:
  "topo_sorted succs (xs @ [x]) \<longleftrightarrow> topo_sorted succs xs \<and> set (succs x) \<subseteq> set xs"
  by (auto simp: topo_sorted_def list_all_iff nth_append subset_iff)

lemma topo_sorted_nth:
  "topo_sorted succs xs \<Longrightarrow> i < length xs \<Longrightarrow> m \<in> set (succs (xs ! i)) \<Longrightarrow> \<exists>j<i. xs ! j = m"
  by (fastforce simp: topo_sorted_def list_all_iff in_set_conv_nth)

lemma topo_sorted_trancl:
  assumes "topo_sorted succs xs" and "(a, b) \<in> (edges succs)\<^sup>+"
  shows "i < length xs \<Longrightarrow> xs ! i = a \<Longrightarrow> \<exists>j<i. xs ! j = b"
  using assms(2)
proof (induction rule: trancl_induct)
  case (base b)
  then show ?case using topo_sorted_nth [OF assms(1)] by (auto simp: edges_def)
next
  case (step b c)
  then obtain j where "j < i" "xs ! j = b" by blast
  with step.prems step.hyps(2) topo_sorted_nth [OF assms(1), of j c] obtain k where "k < j" "xs ! k = c"
    by (auto simp: edges_def)
  with \<open>j < i\<close> show ?case by (auto intro: less_trans)
qed

lemma topo_sorted_acyclic:
  "topo_sorted succs xs \<Longrightarrow> distinct xs \<Longrightarrow> a \<in> set xs \<Longrightarrow> (a, a) \<notin> (edges succs)\<^sup>+"
  using topo_sorted_trancl [of succs xs a a] by (fastforce simp: in_set_conv_nth nth_eq_iff_index_eq)

lemma topo_sorted_closed: "topo_sorted succs xs \<Longrightarrow> set ns \<subseteq> set xs \<Longrightarrow> reach succs ns \<subseteq> set xs"
proof
  fix m assume ts: "topo_sorted succs xs" and sub: "set ns \<subseteq> set xs" and "m \<in> reach succs ns"
  then obtain n where "n \<in> set xs" and "(n, m) \<in> (edges succs)\<^sup>*"
    by (auto simp: reach_def)
  from this(2,1) show "m \<in> set xs"
  proof (induction rule: rtrancl_induct)
    case (step b c)
    then obtain i where "i < length xs" "xs ! i = b" by (auto simp: in_set_conv_nth)
    moreover from this step.hyps obtain j where "j < i" "xs ! j = c"
      using topo_sorted_nth [OF ts, of i c] by (auto simp: edges_def)
    ultimately show ?case by auto
  qed
qed

text \<open>What a successful visit of the nodes \<open>ns\<close> does to the state.\<close>

definition visited :: "(nat \<Rightarrow> nat list) \<Rightarrow> nat list \<Rightarrow> visit_state \<Rightarrow> visit_state \<Rightarrow> bool" where
  "visited succs ns s t \<longleftrightarrow> visit_inv succs t \<and> vs_active t = vs_active s \<and>
     set (vs_ordered s) \<subseteq> set (vs_ordered t) \<and> set ns \<subseteq> set (vs_ordered t) \<and>
     set (vs_ordered t) \<subseteq> set (vs_ordered s) \<union> reach succs ns"

lemma reach_Cons: "reach succs (n # ns) = reach succs [n] \<union> reach succs ns"
  by (auto simp: reach_def)

lemma visited_seq:
  "visited succs [n] s t \<Longrightarrow> visited succs ns t u \<Longrightarrow> visited succs (n # ns) s u"
  unfolding visited_def reach_Cons [of succs n ns] by auto

lemma fold_visit_visited:
  assumes "\<And>n s t. visit succs limit n s = Inr t \<Longrightarrow> visit_inv succs s \<Longrightarrow> visited succs [n] s t"
    and "fold_res (visit succs limit) ns s = Inr t" and "visit_inv succs s"
  shows "visited succs ns s t"
  using assms(2,3)
proof (induction ns arbitrary: s)
  case Nil
  then show ?case by (simp add: visited_def reach_def)
next
  case (Cons n ns)
  then obtain u where u: "visit succs limit n s = Inr u" "fold_res (visit succs limit) ns u = Inr t"
    by (auto simp: res_simps)
  from assms(1) [OF u(1) Cons.prems(2)] have vu: "visited succs [n] s u" .
  then have "visited succs ns u t" using Cons.IH [OF u(2)] by (simp add: visited_def)
  with vu show ?case by (rule visited_seq)
qed

lemma reach_succs: "reach succs [n] = insert n (reach succs (succs n))"
  by (auto simp: reach_def edges_def intro: converse_rtrancl_into_rtrancl elim: converse_rtranclE)

lemma visit_visited:
  "visit succs limit n s = Inr t \<Longrightarrow> visit_inv succs s \<Longrightarrow> visited succs [n] s t"
proof (induction limit arbitrary: n s t)
  case (Suc limit)
  show ?case
  proof (cases "n \<in> set (vs_complete s)")
    case True
    with Suc.prems have "t = s" by simp
    with True Suc.prems(2) show ?thesis by (simp add: visited_def visit_inv_def)
  next
    case False
    with Suc.prems(1) obtain u where na: "n \<notin> set (vs_active s)"
      and u: "fold_res (visit succs limit) (succs n) (s\<lparr>vs_active := n # vs_active s\<rparr>) = Inr u"
      and t: "t = u\<lparr>vs_active := removeAll n (vs_active u), vs_complete := n # vs_complete u,
                 vs_ordered := vs_ordered u @ [n]\<rparr>"
      by (auto simp: res_simps split: if_splits)
    have "visit_inv succs (s\<lparr>vs_active := n # vs_active s\<rparr>)"
      using Suc.prems(2) False na by (simp add: visit_inv_def)
    from fold_visit_visited [OF Suc.IH u this]
    have vu: "visited succs (succs n) (s\<lparr>vs_active := n # vs_active s\<rparr>) u" .
    then have "removeAll n (vs_active u) = vs_active s"
      using na by (simp add: visited_def)
    with vu na t show ?thesis
      by (auto simp: visited_def visit_inv_def topo_sorted_snoc reach_succs [of succs n])
  qed
qed simp

text \<open>Why a visit with enough frames fails: it meets an active node, or a cycle.\<close>

definition blocked :: "(nat \<Rightarrow> nat list) \<Rightarrow> nat list \<Rightarrow> visit_state \<Rightarrow> bool" where
  "blocked succs ns s \<longleftrightarrow>
     (\<exists>m \<in> reach succs ns. m \<in> set (vs_active s) \<or> (m, m) \<in> (edges succs)\<^sup>+)"

lemma fold_visit_blocked:
  assumes "\<And>n s. n < b \<Longrightarrow> visit succs limit n s = Inl e \<Longrightarrow> visit_inv succs s \<Longrightarrow>
      set (vs_active s) \<subseteq> {..<b} \<Longrightarrow> b < limit + length (vs_active s) \<Longrightarrow>
      e = cycle_error \<and> blocked succs [n] s"
    and "fold_res (visit succs limit) ns s = Inl e" and "visit_inv succs s" and "set ns \<subseteq> {..<b}"
    and "set (vs_active s) \<subseteq> {..<b}" and "b < limit + length (vs_active s)"
  shows "e = cycle_error \<and> blocked succs ns s"
  using assms(2-)
proof (induction ns arbitrary: s)
  case (Cons n ns)
  from Cons.prems(1) consider (here) "visit succs limit n s = Inl e"
    | (later) u where "visit succs limit n s = Inr u" "fold_res (visit succs limit) ns u = Inl e"
    by (auto simp: res_simps)
  then show ?case
  proof cases
    case here
    with assms(1) [OF _ here Cons.prems(2,4,5)] Cons.prems(3) show ?thesis
      by (auto simp: blocked_def reach_Cons [of succs n ns])
  next
    case later
    from visit_visited [OF later(1) Cons.prems(2)]
    have "visit_inv succs u" "vs_active u = vs_active s" by (auto simp: visited_def)
    with Cons.IH [OF later(2)] Cons.prems(3-5) show ?thesis
      by (auto simp: blocked_def reach_Cons [of succs n ns])
  qed
qed simp

lemma reach_edge_back: "m \<in> reach succs (succs n) \<Longrightarrow> m = n \<Longrightarrow> (n, n) \<in> (edges succs)\<^sup>+"
  by (auto simp: reach_def edges_def intro: rtrancl_into_trancl2)

lemma visit_blocked:
  assumes closed: "\<And>n m. n < b \<Longrightarrow> m \<in> set (succs n) \<Longrightarrow> m < b"
  shows "n < b \<Longrightarrow> visit succs limit n s = Inl e \<Longrightarrow> visit_inv succs s \<Longrightarrow>
    set (vs_active s) \<subseteq> {..<b} \<Longrightarrow> b < limit + length (vs_active s) \<Longrightarrow>
    e = cycle_error \<and> blocked succs [n] s"
proof (induction limit arbitrary: n s)
  case 0
  then have "length (vs_active s) \<le> b"
    using card_mono [of "{..<b}" "set (vs_active s)"] by (simp add: visit_inv_def distinct_card)
  with 0 show ?case by simp
next
  case (Suc limit)
  show ?case
  proof (cases "n \<in> set (vs_active s)")
    case True
    with Suc.prems(2,3) show ?thesis
      by (auto simp: blocked_def reach_succs [of succs n] split: if_splits)
  next
    case False
    let ?s = "s\<lparr>vs_active := n # vs_active s\<rparr>"
    from Suc.prems(2) False have nc: "n \<notin> set (vs_complete s)"
      and f: "fold_res (visit succs limit) (succs n) ?s = Inl e"
      by (auto simp: res_simps split: if_splits)
    have "e = cycle_error \<and> blocked succs (succs n) ?s"
    proof (rule fold_visit_blocked [OF Suc.IH f])
      show "visit_inv succs ?s" using Suc.prems(3) False nc by (simp add: visit_inv_def)
      show "set (succs n) \<subseteq> {..<b}" using closed [OF Suc.prems(1)] by auto
      show "set (vs_active ?s) \<subseteq> {..<b}" using Suc.prems(1,4) by auto
      show "b < limit + length (vs_active ?s)" using Suc.prems(5) by simp
    qed simp_all
    then show ?thesis
      by (auto simp: blocked_def reach_succs [of succs n] dest: reach_edge_back)
  qed
qed

section \<open>Stores as directed graphs\<close>

text \<open>What the visit needs of a store: successors stay inside it.\<close>

locale closed_digraph =
  fixes wf :: "'s \<Rightarrow> bool" and order :: "'s \<Rightarrow> nat" and succs :: "'s \<Rightarrow> nat \<Rightarrow> nat list"
  assumes succs_closed: "wf st \<Longrightarrow> n < order st \<Longrightarrow> m \<in> set (succs st n) \<Longrightarrow> m < order st"
begin

lemma visit_all_sound:
  assumes "fold_res (visit (succs st) limit) ns visit_start = Inr s"
  shows "distinct (vs_ordered s) \<and> topo_sorted (succs st) (vs_ordered s) \<and>
    set (vs_ordered s) = reach (succs st) ns"
proof -
  have "visit_inv (succs st) visit_start" by (simp add: visit_inv_def visit_start_def)
  from fold_visit_visited [OF visit_visited assms this]
  have v: "visited (succs st) ns visit_start s" .
  then have "topo_sorted (succs st) (vs_ordered s)" "set ns \<subseteq> set (vs_ordered s)"
    by (auto simp: visited_def visit_inv_def)
  from topo_sorted_closed [OF this] v show ?thesis
    by (auto simp: visited_def visit_inv_def visit_start_def)
qed

lemma visit_all_fails:
  assumes wf: "wf st" and "set ns \<subseteq> {..<order st}" and "order st < limit"
    and "fold_res (visit (succs st) limit) ns visit_start = Inl e"
  shows "e = cycle_error \<and> (\<exists>m \<in> reach (succs st) ns. (m, m) \<in> (edges (succs st))\<^sup>+)"
proof -
  have "visit_inv (succs st) visit_start" by (simp add: visit_inv_def visit_start_def)
  from fold_visit_blocked [OF visit_blocked [OF succs_closed [OF wf]] assms(4) this assms(2)] assms(3)
  show ?thesis by (auto simp: blocked_def visit_start_def)
qed

lemma visit_all_succeeds_iff:
  assumes "wf st" and "set ns \<subseteq> {..<order st}" and "order st < limit"
  shows "(\<exists>s. fold_res (visit (succs st) limit) ns visit_start = Inr s) \<longleftrightarrow>
    (\<forall>m \<in> reach (succs st) ns. (m, m) \<notin> (edges (succs st))\<^sup>+)"
proof (cases "fold_res (visit (succs st) limit) ns visit_start")
  case (Inl e)
  with visit_all_fails [OF assms Inl] show ?thesis by auto
next
  case (Inr s)
  with visit_all_sound [OF Inr] show ?thesis by (auto dest: topo_sorted_acyclic)
qed

end

text \<open>A store filled in creation order: successors are older, so there are no cycles.\<close>

locale grown_digraph = closed_digraph +
  assumes succs_older: "wf st \<Longrightarrow> m \<in> set (succs st n) \<Longrightarrow> m < n"
begin

lemma edges_older: "wf st \<Longrightarrow> (n, m) \<in> (edges (succs st))\<^sup>+ \<Longrightarrow> m < n"
  by (erule trancl_induct) (auto simp: edges_def dest: succs_older)

lemma visit_all_total:
  assumes "wf st" and "set ns \<subseteq> {..<order st}" and "order st < limit"
  shows "\<exists>s. fold_res (visit (succs st) limit) ns visit_start = Inr s"
  using visit_all_succeeds_iff [OF assms] edges_older [OF assms(1)] by (meson less_irrefl)

end

lemma producers_closed:
  "closed_store st \<Longrightarrow> n < length st \<Longrightarrow> m \<in> set (producers st n) \<Longrightarrow> m < length st"
  by (auto simp: closed_store_def producers_def node_at_def list_all_iff tensor_of_def)

lemma wf_store_nth:
  assumes "wf_store st" and "i < length st"
  shows "list_all (\<lambda>t. tensor_of st t \<and> t_producer t < i) (n_inputs (st ! i))"
    and "n_output_specs (st ! i) \<noteq> []" and "list_all wf_spec (n_output_specs (st ! i))"
  using assms by (auto simp: wf_store_def list_all_enum)

lemma wf_store_closed: "wf_store st \<Longrightarrow> closed_store st"
  using wf_store_nth(1) by (fastforce simp: closed_store_def list_all_iff in_set_conv_nth [of _ st])

lemma producers_older: "wf_store st \<Longrightarrow> m \<in> set (producers st n) \<Longrightarrow> m < n"
  using wf_store_nth(1) [of st n]
  by (auto simp: producers_def node_at_def missing_node_def list_all_iff split: if_splits)

interpretation any_store: closed_digraph closed_store length producers
  by unfold_locales (rule producers_closed)

interpretation built_store: grown_digraph wf_store length producers
  by unfold_locales (auto intro: producers_closed wf_store_closed producers_older)

lemma visit_output_Symbolic:
  "fold_res (visit_output st limit) (map Symbolic outs) s =
   fold_res (visit (producers st) limit) (map t_producer outs) s"
  by (induction outs arbitrary: s) (auto simp: visit_output_def intro: bind_res_cong)

lemma topological_nodes_Symbolic:
  "topological_nodes st limit (map Symbolic outs) =
   bind_res (fold_res (visit (producers st) limit) (map t_producer outs) visit_start)
     (\<lambda>s. Inr (vs_ordered s))"
  by (simp add: topological_nodes_def visit_output_Symbolic)

abbreviation reachable_nodes :: "store \<Rightarrow> tensor list \<Rightarrow> nat set" where
  "reachable_nodes st outs \<equiv> reach (producers st) (map t_producer outs)"

lemma tensors_in_range: "list_all (tensor_of st) outs \<Longrightarrow> set (map t_producer outs) \<subseteq> {..<length st}"
  by (auto simp: list_all_iff tensor_of_def)

lemma topological_nodes_sound:
  "topological_nodes st limit (map Symbolic outs) = Inr ns \<Longrightarrow>
   distinct ns \<and> topo_sorted (producers st) ns \<and> set ns = reachable_nodes st outs"
  by (auto simp: topological_nodes_Symbolic res_simps dest: any_store.visit_all_sound)

lemma topological_nodes_total:
  "wf_store st \<Longrightarrow> list_all (tensor_of st) outs \<Longrightarrow> length st < limit \<Longrightarrow>
   \<exists>ns. topological_nodes st limit (map Symbolic outs) = Inr ns"
  using built_store.visit_all_total [OF _ tensors_in_range, of st outs limit]
  by (auto simp: topological_nodes_Symbolic)

text \<open>C1 On any closed store, cyclic ones included, and with enough stack, the visit either returns the
  nodes reachable from the outputs, once each, with the producers of every node before it, or
  raises the cycle error; and it raises exactly when a reachable node is on a cycle.\<close>

theorem topological_order_correct:
  assumes "closed_store st" and "list_all (tensor_of st) outs" and "length st < limit"
  shows "case topological_nodes st limit (map Symbolic outs) of
      Inr ns \<Rightarrow> distinct ns \<and> topo_sorted (producers st) ns \<and> set ns = reachable_nodes st outs \<and>
        (\<forall>m \<in> set ns. (m, m) \<notin> (edges (producers st))\<^sup>+)
    | Inl e \<Rightarrow> e = cycle_error \<and> (\<exists>m \<in> reachable_nodes st outs. (m, m) \<in> (edges (producers st))\<^sup>+)"
proof (cases "topological_nodes st limit (map Symbolic outs)")
  case (Inl e)
  then have "fold_res (visit (producers st) limit) (map t_producer outs) visit_start = Inl e"
    by (simp add: topological_nodes_Symbolic res_simps)
  from any_store.visit_all_fails [OF assms(1) tensors_in_range [OF assms(2)] assms(3) this] Inl
  show ?thesis by simp
next
  case (Inr ns)
  with topological_nodes_sound [OF Inr] show ?thesis by (auto dest: topo_sorted_acyclic)
qed


text \<open>A three-node store: a parameter, a constant and their sum.\<close>

definition sum_store :: store where
  "sum_store =
    (let spec = \<lparr>ts_shape = [2], ts_dtype = ''f16''\<rparr>;
         x = \<lparr>n_op = ''Parameter'', n_inputs = [], n_attrs = [], n_output_specs = [spec],
              n_name = Some ''x'', n_metadata = [(''kind'', PStr ''input'')]\<rparr>;
         c = x\<lparr>n_op := ''Const'', n_name := None, n_metadata := [(''kind'', PStr ''constant'')]\<rparr>
     in [x, c, x\<lparr>n_op := ''Add'', n_inputs := node_outputs 0 x @ node_outputs 1 c, n_name := None,
                 n_metadata := []\<rparr>])"

abbreviation sum_output :: "tensor list" where
  "sum_output \<equiv> node_outputs 2 (node_at sum_store 2)"

theorem topological_order_correct_witness:
  "closed_store sum_store \<and> topological_nodes sum_store 4 (map Symbolic sum_output) = Inr [0, 1, 2] \<and>
   reachable_nodes sum_store sum_output = {0, 1, 2}"
proof -
  have c: "closed_store sum_store" by code_simp
  have o: "list_all (tensor_of sum_store) sum_output" by code_simp
  have l: "length sum_store < 4" by code_simp
  have r: "topological_nodes sum_store 4 (map Symbolic sum_output) = Inr [0, 1, 2]" by code_simp
  from topological_order_correct [OF c o l] r c show ?thesis by auto
qed

section \<open>Which graphs are accepted\<close>

lemma any_not_parameter_Symbolic:
  "any_not_parameter st (map Symbolic ins) = Inr (list_ex (\<lambda>t. producer_op st t \<noteq> ''Parameter'') ins)"
  by (induction ins) auto

lemma symbolic_tensors_Symbolic [simp]: "concat (map (the_symbolic \<circ> Symbolic) ts) = ts"
  by (induction ts) auto

lemma take_1_nonempty: "xs \<noteq> [] \<Longrightarrow> list_ex P (take (Suc 0) xs) \<longleftrightarrow> P (hd xs)"
  by (cases xs) auto

lemma reach_in_range:
  assumes "closed_store st" and "set ns \<subseteq> {..<length st}"
  shows "reach (producers st) ns \<subseteq> {..<length st}"
proof
  fix m assume "m \<in> reach (producers st) ns"
  then obtain n where "(n, m) \<in> (edges (producers st))\<^sup>*" "n \<in> set ns" by (auto simp: reach_def)
  then have "n < length st" using assms(2) by auto
  with \<open>(n, m) \<in> _\<close> have "m < length st"
    by (induction rule: rtrancl_induct) (auto simp: edges_def dest: producers_closed [OF assms(1)])
  then show "m \<in> {..<length st}" by simp
qed

lemma wf_store_outputs_nonempty:
  "wf_store st \<Longrightarrow> n < length st \<Longrightarrow> node_outputs n (node_at st n) \<noteq> []"
  using wf_store_nth(2) [of st n] by (simp add: node_at_def node_outputs_def flip: length_greater_0_conv)

text \<open>C2 On a store the constructors built, \<open>Graph\<close> succeeds exactly when the inputs are distinct
  tensors of parameters, each of them is an output or read by a node the outputs depend on, and no
  parameter the outputs depend on is left undeclared.\<close>

theorem Graph_accepts_iff:
  assumes wf: "wf_store st" and ins: "list_all (tensor_of st) ins"
    and outs: "list_all (tensor_of st) outs" and limit: "length st < limit"
  shows "Graph st limit (map Symbolic ins) (map Symbolic outs) (PStr g) = Inr gr \<longleftrightarrow>
    gr = \<lparr>g_inputs = ins, g_outputs = outs, g_name = g\<rparr> \<and> ins \<noteq> [] \<and> outs \<noteq> [] \<and> g \<noteq> [] \<and>
    distinct ins \<and> (\<forall>t \<in> set ins. producer_op st t = ''Parameter'') \<and>
    (\<forall>t \<in> set ins. t \<in> set outs \<or> (\<exists>n \<in> reachable_nodes st outs. t \<in> set (n_inputs (node_at st n)))) \<and>
    (\<forall>n \<in> reachable_nodes st outs. n_op (node_at st n) = ''Parameter'' \<longrightarrow>
      hd (node_outputs n (node_at st n)) \<in> set ins)"
proof -
  obtain ns where ns: "topological_nodes st limit (map Symbolic outs) = Inr ns"
    using topological_nodes_total [OF wf outs limit] by blast
  then have set_ns: "set ns = reachable_nodes st outs" using topological_nodes_sound by blast
  have range: "n \<in> set ns \<Longrightarrow> n < length st" for n
    using reach_in_range [OF wf_store_closed [OF wf] tensors_in_range [OF outs]] set_ns by auto
  have miss: "missing_inputs st ns ins outs = [] \<longleftrightarrow> (\<forall>t \<in> set ins. t \<in> set outs \<or>
      (\<exists>n \<in> reachable_nodes st outs. t \<in> set (n_inputs (node_at st n))))"
    unfolding missing_inputs_def graph_reachable_def filter_empty_conv set_ns [symmetric] by auto
  have undecl: "undeclared_inputs st ns ins = [] \<longleftrightarrow> (\<forall>n \<in> reachable_nodes st outs.
      n_op (node_at st n) = ''Parameter'' \<longrightarrow> hd (node_outputs n (node_at st n)) \<in> set ins)"
    unfolding undeclared_inputs_def filter_empty_conv set_ns [symmetric]
    using wf_store_outputs_nonempty [OF wf range] by (simp add: take_1_nonempty)
  show ?thesis
    unfolding miss [symmetric] undecl [symmetric]
    by (auto simp: Graph_def any_not_parameter_Symbolic ns list_ex_iff Let_def)
qed

theorem Graph_accepts_iff_witness:
  "Graph sum_store 4 (map Symbolic (node_outputs 0 (node_at sum_store 0))) (map Symbolic sum_output)
     (PStr ''g'') = Inr \<lparr>g_inputs = node_outputs 0 (node_at sum_store 0), g_outputs = sum_output,
       g_name = ''g''\<rparr> \<and> hd (node_outputs 0 (node_at sum_store 0)) \<notin> set sum_output"
proof -
  have wf: "wf_store sum_store" by code_simp
  have i: "list_all (tensor_of sum_store) (node_outputs 0 (node_at sum_store 0))" by code_simp
  have o: "list_all (tensor_of sum_store) sum_output" by code_simp
  have l: "length sum_store < 4" by code_simp
  have n: "hd (node_outputs 0 (node_at sum_store 0)) \<notin> set sum_output" by code_simp
  have "Graph sum_store 4 (map Symbolic (node_outputs 0 (node_at sum_store 0)))
      (map Symbolic sum_output) (PStr ''g'') = Inr \<lparr>g_inputs = node_outputs 0 (node_at sum_store 0),
      g_outputs = sum_output, g_name = ''g''\<rparr>" by code_simp
  with Graph_accepts_iff [OF wf i o l] n show ?thesis by blast
qed

end
