(* ===== verification/Shape_Inference.thy ===== *)
theory Shape_Inference
  imports Symbolic_Graph
begin

text \<open>
  The constructors of \<open>graph.py\<close> and the operator sugar of \<open>tensor.py\<close>: shape inference
  (\<open>_output_specs\<close>, one definition per operator of the source's chain of \<open>if\<close>s), \<open>op\<close>, \<open>input\<close>,
  \<open>constant\<close> and \<open>custom\<close>. Each constructor takes the store and returns the extended store with the
  output tensors of the node it made. \<open>numpy.asarray\<close> is the argument \<open>asarray\<close>.
\<close>

definition reserved :: "string list" where
  "reserved = [''_shape'', ''_dtype'', ''_name'', ''_outputs'', ''_kernel'', ''_carrier'', ''_patch_targets'']"

definition same_spec_unary :: "string list" where
  "same_spec_unary = [''Abs'', ''Exp'', ''Log'', ''Relu'', ''Sigmoid'', ''Sqrt'', ''Tanh'']"

definition same_spec_binary :: "string list" where
  "same_spec_binary = [''Add'', ''Divide'', ''Maximum'', ''Minimum'', ''Multiply'', ''Subtract'']"

section \<open>Broadcasting\<close>

text \<open>The loop over \<open>offset\<close> walks both shapes from their last dimension.\<close>

fun broadcast_rev :: "int list \<Rightarrow> int list \<Rightarrow> int list res" where
  "broadcast_rev [] [] = Inr []"
| "broadcast_rev [] (r # rs) = bind_res (broadcast_rev [] rs) (\<lambda>result. Inr (max 1 r # result))"
| "broadcast_rev (l # ls) [] = bind_res (broadcast_rev ls []) (\<lambda>result. Inr (max l 1 # result))"
| "broadcast_rev (l # ls) (r # rs) =
     (if l \<noteq> r \<and> l \<noteq> 1 \<and> r \<noteq> 1
      then Inl (ValueError ''custom() cannot infer a broadcast output shape'')
      else bind_res (broadcast_rev ls rs) (\<lambda>result. Inr (max l r # result)))"

definition broadcast_shape :: "int list \<Rightarrow> int list \<Rightarrow> int list res" where
  "broadcast_shape left right =
     bind_res (broadcast_rev (rev left) (rev right)) (\<lambda>result. Inr (rev result))"

section \<open>Inference\<close>

definition spec_of :: "int list \<Rightarrow> string \<Rightarrow> tensor_spec res" where
  "spec_of shape dtype = TensorSpec (shape_val shape) (PStr dtype)"

definition one_spec :: "tensor_spec res \<Rightarrow> tensor_spec list res" where
  "one_spec r = bind_res r (\<lambda>s. Inr [s])"

text \<open>\<open>axis + rank if axis < 0 else axis\<close>\<close>

definition norm_axis :: "nat \<Rightarrow> int \<Rightarrow> int" where
  "norm_axis rank axis = (if axis < 0 then axis + int rank else axis)"

definition constant_array :: "store \<Rightarrow> tensor \<Rightarrow> string \<Rightarrow> string \<Rightarrow> pyval res" where
  "constant_array st t operator role =
     (if producer_op st t \<noteq> ''Const''
      then Inl (ValueError (''automatic '' @ operator @ '' inference requires a constant '' @ role @ '' tensor''))
      else let array = dget (n_metadata (node_at st (t_producer t))) ''value''
        in if is_none array then Inl (ValueError (operator @ '' '' @ role @ '' constant has no value''))
           else Inr array)"

definition constant_integer_vector :: "store \<Rightarrow> tensor \<Rightarrow> string \<Rightarrow> string \<Rightarrow> int list res" where
  "constant_integer_vector st t operator role =
     bind_res (constant_array st t operator role) (\<lambda>v.
       let e = ValueError (operator @ '' '' @ role @ '' must be a one-dimensional integer constant'')
       in case v of
         PArray a \<Rightarrow> if length (nd_shape a) \<noteq> 1 \<or> nd_kind a \<notin> {''i'', ''u''} then Inl e else Inr (nd_ints a)
       | _ \<Rightarrow> Inl e)"

definition constant_integer_scalar :: "store \<Rightarrow> tensor \<Rightarrow> string \<Rightarrow> string \<Rightarrow> int res" where
  "constant_integer_scalar st t operator role =
     bind_res (constant_array st t operator role) (\<lambda>v.
       let e = ValueError (operator @ '' '' @ role @ '' must be a scalar integer constant'')
       in case v of
         PArray a \<Rightarrow> if nd_shape a \<noteq> [] \<or> nd_kind a \<notin> {''i'', ''u''} then Inl e
                     else from_option IndexError (py_nth (nd_ints a) 0)
       | _ \<Rightarrow> Inl e)"

text \<open>The explicit \<open>_outputs\<close>. \<open>except (TypeError, IndexError)\<close> turns those two into one \<open>TypeError\<close>.\<close>

definition output_item :: "pyval \<Rightarrow> tensor_spec res" where
  "output_item item =
     (case item of
        PSpec s \<Rightarrow> Inr s
      | _ \<Rightarrow> bind_res (py_index item 0) (\<lambda>s. bind_res (py_index item 1) (\<lambda>d. TensorSpec s d)))"

definition explicit_outputs :: "(string \<times> pyval) list \<Rightarrow> pyval \<Rightarrow> tensor_spec list res" where
  "explicit_outputs metadata outputs =
     (if \<not> is_none (dget metadata ''_shape'') \<or> \<not> is_none (dget metadata ''_dtype'')
      then Inl (ValueError ''_outputs cannot be combined with _shape or _dtype'')
      else case bind_res (from_option (TypeError ''object is not iterable'') (py_iter outputs))
                  (map_res output_item) of
          Inl (TypeError _) \<Rightarrow> Inl (TypeError ''_outputs must contain TensorSpec or (shape, dtype) pairs'')
        | Inl IndexError \<Rightarrow> Inl (TypeError ''_outputs must contain TensorSpec or (shape, dtype) pairs'')
        | Inl e \<Rightarrow> Inl e
        | Inr specs \<Rightarrow> if specs = [] then Inl (ValueError ''_outputs must not be empty'') else Inr specs)"

definition explicit_spec :: "(string \<times> pyval) list \<Rightarrow> tensor_spec list res" where
  "explicit_spec metadata =
     (if map_of metadata ''_shape'' = None \<or> map_of metadata ''_dtype'' = None
      then Inl (ValueError ''ordinary operator overrides require both _shape and _dtype'')
      else one_spec (TensorSpec (dget metadata ''_shape'') (dget metadata ''_dtype'')))"

definition oriented :: "pyval \<Rightarrow> int list \<Rightarrow> int list" where
  "oriented flipped shape = (if truthy flipped then [shape ! 1, shape ! 0] else shape)"

definition infer_matmul :: "tensor \<Rightarrow> tensor \<Rightarrow> (string \<times> pyval) list \<Rightarrow> tensor_spec list res" where
  "infer_matmul left right attributes =
     (if length (t_shape left) \<noteq> 2 \<or> length (t_shape right) \<noteq> 2
      then Inl (ValueError ''automatic MatMul inference is limited to two rank-2 tensors'')
      else if t_dtype left \<noteq> t_dtype right
      then Inl (ValueError ''automatic MatMul inference requires matching input dtypes'')
      else bind_res (dget_item attributes ''transpose_a'') (\<lambda>a.
           bind_res (dget_item attributes ''transpose_b'') (\<lambda>b.
           let l = oriented a (t_shape left); r = oriented b (t_shape right)
           in if l ! 1 \<noteq> r ! 0
              then Inl (ValueError ''MatMul inner dimensions do not match after transpose'')
              else one_spec (spec_of [l ! 0, r ! 1] (t_dtype left)))))"

definition infer_convert :: "tensor \<Rightarrow> (string \<times> pyval) list \<Rightarrow> tensor_spec list res" where
  "infer_convert data attributes =
     (case map_of attributes ''destination_type'' of
        None \<Rightarrow> Inl (ValueError ''automatic Convert inference requires destination_type'')
      | Some d \<Rightarrow> bind_res (normalize_dtype d) (\<lambda>dtype. one_spec (spec_of (t_shape data) dtype)))"

definition concat_step :: "nat \<Rightarrow> int list \<Rightarrow> tensor \<Rightarrow> int list \<Rightarrow> int list res" where
  "concat_step axis expected v shape =
     (if list_ex (\<lambda>(dimension, actual, wanted). dimension \<noteq> axis \<and> actual \<noteq> wanted)
           (enum (zip (t_shape v) expected))
      then Inl (ValueError ''automatic Concat inference requires equal non-axis dimensions'')
      else Inr (shape[axis := shape ! axis + t_shape v ! axis]))"

definition infer_concat :: "tensor list \<Rightarrow> (string \<times> pyval) list \<Rightarrow> tensor_spec list res" where
  "infer_concat inputs attributes =
     (case dget attributes ''axis'' of
        PInt axis \<Rightarrow>
          let first = hd inputs; rank = length (t_shape first); normalized = norm_axis rank axis in
          if \<not> (0 \<le> normalized \<and> normalized < int rank)
          then Inl (ValueError ''Concat axis is out of range for rank'')
          else if list_ex (\<lambda>v. t_dtype v \<noteq> t_dtype first \<or> length (t_shape v) \<noteq> rank) (tl inputs)
          then Inl (ValueError ''automatic Concat inference requires matching input dtypes and ranks'')
          else bind_res (fold_res (concat_step (nat normalized) (t_shape first)) inputs
                  ((t_shape first)[nat normalized := 0])) (\<lambda>shape.
               one_spec (spec_of shape (t_dtype first)))
      | _ \<Rightarrow> Inl (TypeError ''automatic Concat inference requires an integer axis''))"

definition infer_transpose :: "store \<Rightarrow> tensor \<Rightarrow> tensor \<Rightarrow> tensor_spec list res" where
  "infer_transpose st data order_tensor =
     bind_res (constant_integer_vector st order_tensor ''Transpose'' ''order'') (\<lambda>order.
       if length order \<noteq> length (t_shape data) \<or> set order \<noteq> set (map int [0..<length (t_shape data)])
       then Inl (ValueError ''Transpose order must be a permutation of every input axis'')
       else one_spec (spec_of (map (\<lambda>axis. t_shape data ! nat axis) order) (t_dtype data)))"

record reshape_state =
  rs_inferred :: "nat option"
  rs_output :: "int list"
  rs_known :: int

definition reshape_step :: "bool \<Rightarrow> int list \<Rightarrow> nat \<times> int \<Rightarrow> reshape_state \<Rightarrow> reshape_state res" where
  "reshape_step special_zero shape = (\<lambda>(index, dimension) s.
     if dimension = -1 then
       if rs_inferred s \<noteq> None
       then Inl (ValueError ''Reshape pattern may contain at most one inferred dimension'')
       else Inr (s\<lparr>rs_inferred := Some index, rs_output := rs_output s @ [1]\<rparr>)
     else if dimension = 0 then
       if \<not> special_zero then Inl (ValueError ''Reshape zero dimensions require special_zero=True'')
       else if length shape \<le> index
       then Inl (ValueError ''Reshape special-zero dimension exceeds the input rank'')
       else Inr (s\<lparr>rs_output := rs_output s @ [shape ! index], rs_known := rs_known s * shape ! index\<rparr>)
     else if dimension < 0
     then Inl (ValueError ''Reshape pattern dimensions must be positive, zero, or -1'')
     else Inr (s\<lparr>rs_output := rs_output s @ [dimension], rs_known := rs_known s * dimension\<rparr>))"

definition reshape_shape :: "bool \<Rightarrow> int list \<Rightarrow> int list \<Rightarrow> int list res" where
  "reshape_shape special_zero shape pattern =
     bind_res (fold_res (reshape_step special_zero shape) (enum pattern)
         \<lparr>rs_inferred = None, rs_output = [], rs_known = 1\<rparr>) (\<lambda>s.
       let input_elements = prod_list shape in
       case rs_inferred s of
         Some i \<Rightarrow>
           if rs_known s = 0 \<or> input_elements mod rs_known s \<noteq> 0
           then Inl (ValueError ''Reshape inferred dimension does not divide the input element count'')
           else Inr ((rs_output s)[i := input_elements div rs_known s])
       | None \<Rightarrow>
           if rs_known s \<noteq> input_elements
           then Inl (ValueError ''Reshape input and output element counts do not match'')
           else Inr (rs_output s))"

definition infer_reshape :: "store \<Rightarrow> tensor list \<Rightarrow> (string \<times> pyval) list \<Rightarrow> tensor_spec list res" where
  "infer_reshape st inputs attributes =
     (case inputs of
        [data, pattern_tensor] \<Rightarrow>
          bind_res (constant_integer_vector st pattern_tensor ''Reshape'' ''pattern'') (\<lambda>pattern.
          bind_res (dget_item attributes ''special_zero'') (\<lambda>special_zero.
          bind_res (reshape_shape (truthy special_zero) (t_shape data) pattern) (\<lambda>output_shape.
          one_spec (spec_of output_shape (t_dtype data)))))
      | _ \<Rightarrow> Inl (ValueError ''automatic Reshape inference requires data and pattern tensors''))"

text \<open>The normalised axes of \<open>Squeeze\<close>, \<open>Unsqueeze\<close> and \<open>Slice\<close>: in range and without repetition.\<close>

definition checked_axes :: "string \<Rightarrow> nat \<Rightarrow> int list \<Rightarrow> nat list res" where
  "checked_axes operator rank axes =
     (let normalized = map (norm_axis rank) axes in
      if list_ex (\<lambda>axis. axis < 0 \<or> int rank \<le> axis) normalized
      then Inl (ValueError (operator @ '' axis is out of range''))
      else if length (remdups normalized) \<noteq> length normalized
      then Inl (ValueError (operator @ '' axes must be unique''))
      else Inr (map nat normalized))"

definition squeeze_shape :: "int list \<Rightarrow> nat list \<Rightarrow> int list" where
  "squeeze_shape shape axes = map snd (filter (\<lambda>(index, _). index \<notin> set axes) (enum shape))"

definition infer_squeeze :: "store \<Rightarrow> tensor list \<Rightarrow> tensor_spec list res" where
  "infer_squeeze st inputs =
     (case inputs of
        [data, axes_tensor] \<Rightarrow>
          bind_res (constant_integer_vector st axes_tensor ''Squeeze'' ''axes'') (\<lambda>axes.
            if axes = [] then Inl (ValueError ''automatic Squeeze inference requires at least one axis'')
            else bind_res (checked_axes ''Squeeze'' (length (t_shape data)) axes) (\<lambda>normalized.
              if list_ex (\<lambda>axis. t_shape data ! axis \<noteq> 1) normalized
              then Inl (ValueError ''Squeeze axes must select dimensions of size one'')
              else let output_shape = squeeze_shape (t_shape data) normalized in
                if output_shape = []
                then Inl (ValueError ''automatic Squeeze inference does not produce scalar tensors'')
                else one_spec (spec_of output_shape (t_dtype data))))
      | _ \<Rightarrow> Inl (ValueError ''automatic Squeeze inference requires data and axes tensors''))"

text \<open>\<open>tuple(1 if axis in inserted else next(source_dimensions) for axis in range(output_rank))\<close>: an
  exhausted iterator inside the generator is a \<open>RuntimeError\<close>.\<close>

fun unsqueeze_shape :: "nat list \<Rightarrow> nat list \<Rightarrow> int list \<Rightarrow> int list res" where
  "unsqueeze_shape inserted [] source = Inr []"
| "unsqueeze_shape inserted (axis # rest) source =
     (if axis \<in> set inserted
      then bind_res (unsqueeze_shape inserted rest source) (\<lambda>s. Inr (1 # s))
      else case source of
        [] \<Rightarrow> Inl (RuntimeError ''generator raised StopIteration'')
      | d # ds \<Rightarrow> bind_res (unsqueeze_shape inserted rest ds) (\<lambda>s. Inr (d # s)))"

definition infer_unsqueeze :: "store \<Rightarrow> tensor list \<Rightarrow> tensor_spec list res" where
  "infer_unsqueeze st inputs =
     (case inputs of
        [data, axes_tensor] \<Rightarrow>
          bind_res (constant_integer_vector st axes_tensor ''Unsqueeze'' ''axes'') (\<lambda>axes.
            if axes = [] then Inl (ValueError ''automatic Unsqueeze inference requires at least one axis'')
            else let output_rank = length (t_shape data) + length axes in
              bind_res (checked_axes ''Unsqueeze'' output_rank axes) (\<lambda>inserted.
              bind_res (unsqueeze_shape inserted [0..<output_rank] (t_shape data)) (\<lambda>output_shape.
              one_spec (spec_of output_shape (t_dtype data)))))
      | _ \<Rightarrow> Inl (ValueError ''automatic Unsqueeze inference requires data and axes tensors''))"

definition checked_axis :: "string \<Rightarrow> nat \<Rightarrow> int \<Rightarrow> nat res" where
  "checked_axis operator rank axis =
     (let normalized = norm_axis rank axis in
      if normalized < 0 \<or> int rank \<le> normalized
      then Inl (ValueError (operator @ '' axis is out of range'')) else Inr (nat normalized))"

definition infer_split :: "store \<Rightarrow> tensor list \<Rightarrow> (string \<times> pyval) list \<Rightarrow> tensor_spec list res" where
  "infer_split st inputs attributes =
     (case inputs of
        [data, axis_tensor] \<Rightarrow>
          bind_res (constant_integer_scalar st axis_tensor ''Split'' ''axis'') (\<lambda>axis.
          bind_res (checked_axis ''Split'' (length (t_shape data)) axis) (\<lambda>axis.
          let e = ValueError ''automatic Split inference requires a positive integer num_splits'' in
          case dget attributes ''num_splits'' of
            PInt num_splits \<Rightarrow>
              if num_splits \<le> 0 then Inl e
              else if t_shape data ! axis mod num_splits \<noteq> 0
              then Inl (ValueError ''Split axis dimension must be divisible by num_splits'')
              else let output_shape = (t_shape data)[axis := t_shape data ! axis div num_splits]
                in map_res (\<lambda>_. spec_of output_shape (t_dtype data)) [0..<nat num_splits]
          | _ \<Rightarrow> Inl e))
      | _ \<Rightarrow> Inl (ValueError ''automatic Split inference requires data and axis tensors''))"

definition split_lengths :: "int \<Rightarrow> int list \<Rightarrow> int list res" where
  "split_lengths axis_size lengths =
     (if lengths = [] then Inl (ValueError ''VariadicSplit requires at least one split length'')
      else let inferred = map fst (filter (\<lambda>(_, l). l = -1) (enum lengths)) in
      if 1 < length inferred
      then Inl (ValueError ''VariadicSplit permits at most one inferred split length'')
      else if list_ex (\<lambda>l. l = 0 \<or> l < -1) lengths
      then Inl (ValueError ''VariadicSplit lengths must be positive or one -1'')
      else let known = sum_list (filter (\<lambda>l. 0 < l) lengths) in
      case inferred of
        i # _ \<Rightarrow>
          if axis_size - known \<le> 0 then Inl (ValueError ''VariadicSplit inferred length must be positive'')
          else Inr (lengths[i := axis_size - known])
      | [] \<Rightarrow>
          if known \<noteq> axis_size
          then Inl (ValueError ''VariadicSplit lengths must sum to the selected dimension'')
          else Inr lengths)"

definition infer_variadic_split :: "store \<Rightarrow> tensor list \<Rightarrow> tensor_spec list res" where
  "infer_variadic_split st inputs =
     (case inputs of
        [data, axis_tensor, lengths_tensor] \<Rightarrow>
          bind_res (constant_integer_scalar st axis_tensor ''VariadicSplit'' ''axis'') (\<lambda>axis.
          bind_res (checked_axis ''VariadicSplit'' (length (t_shape data)) axis) (\<lambda>axis.
          bind_res (constant_integer_vector st lengths_tensor ''VariadicSplit'' ''split lengths'') (\<lambda>given.
          bind_res (split_lengths (t_shape data ! axis) given) (\<lambda>lengths.
          map_res (\<lambda>l. spec_of (take axis (t_shape data) @ [l] @ drop (Suc axis) (t_shape data))
            (t_dtype data)) lengths))))
      | _ \<Rightarrow> Inl (ValueError ''automatic VariadicSplit inference requires data, axis, and split-length tensors''))"

definition infer_pad :: "store \<Rightarrow> tensor list \<Rightarrow> (string \<times> pyval) list \<Rightarrow> tensor_spec list res" where
  "infer_pad st inputs attributes =
     (case inputs of
        [data, begin_tensor, end_tensor, pad_value] \<Rightarrow>
          bind_res (dget_item attributes ''mode'') (\<lambda>mode.
          if mode \<noteq> PStr ''constant''
          then Inl (ValueError ''automatic Pad inference supports only constant mode'')
          else bind_res (constant_integer_vector st begin_tensor ''Pad'' ''pads_begin'') (\<lambda>pads_begin.
          bind_res (constant_integer_vector st end_tensor ''Pad'' ''pads_end'') (\<lambda>pads_end.
          if length pads_begin \<noteq> length (t_shape data) \<or> length pads_end \<noteq> length (t_shape data)
          then Inl (ValueError ''Pad begin/end vectors must contain one value per data axis'')
          else if list_ex (\<lambda>v. v < 0) (pads_begin @ pads_end)
          then Inl (ValueError ''automatic Pad inference supports only nonnegative pads'')
          else if producer_op st pad_value \<noteq> ''Const'' \<or> t_shape pad_value \<noteq> []
          then Inl (ValueError ''automatic Pad inference requires a scalar constant pad_value'')
          else if t_dtype pad_value \<noteq> t_dtype data
          then Inl (ValueError ''Pad data and pad_value dtypes must match'')
          else one_spec (spec_of
            (map (\<lambda>(dimension, b, e). dimension + b + e) (zip (t_shape data) (zip pads_begin pads_end)))
            (t_dtype data)))))
      | _ \<Rightarrow> Inl (ValueError ''automatic Pad inference requires data, pads_begin, pads_end, and pad_value tensors''))"

text \<open>\<open>slice(start, stop, step).indices(n)\<close> for \<open>step > 0\<close> clips both bounds into \<open>0..n\<close>, and
  \<open>len(range(start, stop, step))\<close>.\<close>

definition slice_bound :: "int \<Rightarrow> int \<Rightarrow> int" where
  "slice_bound n b = (if b < 0 then max 0 (b + n) else min b n)"

definition range_length :: "int \<Rightarrow> int \<Rightarrow> int \<Rightarrow> int" where
  "range_length start stop step = (if start < stop then (stop - start - 1) div step + 1 else 0)"

definition slice_step :: "int list \<Rightarrow> int \<times> int \<times> int \<times> nat \<Rightarrow> int list \<Rightarrow> int list res" where
  "slice_step shape = (\<lambda>(start, stop, step, axis) output_shape.
     let n = shape ! axis; dimension = range_length (slice_bound n start) (slice_bound n stop) step
     in if dimension = 0
        then Inl (ValueError ''automatic Slice inference does not produce zero-sized dimensions'')
        else Inr (output_shape[axis := dimension]))"

definition infer_slice :: "store \<Rightarrow> tensor list \<Rightarrow> tensor_spec list res" where
  "infer_slice st inputs =
     (case inputs of
        [data, starts_tensor, stops_tensor, steps_tensor, axes_tensor] \<Rightarrow>
          bind_res (constant_integer_vector st starts_tensor ''Slice'' ''starts'') (\<lambda>starts.
          bind_res (constant_integer_vector st stops_tensor ''Slice'' ''stops'') (\<lambda>stops.
          bind_res (constant_integer_vector st steps_tensor ''Slice'' ''steps'') (\<lambda>steps.
          bind_res (constant_integer_vector st axes_tensor ''Slice'' ''axes'') (\<lambda>axes.
          if starts = [] \<or> \<not> (length starts = length stops \<and> length stops = length steps \<and>
               length steps = length axes)
          then Inl (ValueError ''Slice starts, stops, steps, and axes must have the same nonzero length'')
          else if list_ex (\<lambda>step. step \<le> 0) steps
          then Inl (ValueError ''automatic Slice inference supports only positive steps'')
          else bind_res (checked_axes ''Slice'' (length (t_shape data)) axes) (\<lambda>normalized.
          bind_res (fold_res (slice_step (t_shape data)) (zip starts (zip stops (zip steps normalized)))
              (t_shape data)) (\<lambda>output_shape.
          one_spec (spec_of output_shape (t_dtype data))))))))
      | _ \<Rightarrow> Inl (ValueError ''automatic Slice inference requires data, starts, stops, steps, and axes tensors''))"

definition infer_gather :: "store \<Rightarrow> tensor list \<Rightarrow> (string \<times> pyval) list \<Rightarrow> tensor_spec list res" where
  "infer_gather st inputs attributes =
     (case inputs of
        [data, indices, axis_tensor] \<Rightarrow>
          if t_dtype indices \<notin> {''i32'', ''i64''}
          then Inl (ValueError ''automatic Gather inference requires I32 or I64 indices'')
          else bind_res (dget_item attributes ''batch_dims'') (\<lambda>batch_dims.
          if \<not> py_eq batch_dims (PInt 0)
          then Inl (ValueError ''automatic Gather inference supports only batch_dims=0'')
          else bind_res (constant_integer_scalar st axis_tensor ''Gather'' ''axis'') (\<lambda>axis.
          bind_res (checked_axis ''Gather'' (length (t_shape data)) axis) (\<lambda>axis.
          one_spec (spec_of (take axis (t_shape data) @ t_shape indices @ drop (Suc axis) (t_shape data))
            (t_dtype data)))))
      | _ \<Rightarrow> Inl (ValueError ''automatic Gather inference requires data, indices, and axis tensors''))"

text \<open>The chain of operator cases after the overrides.\<close>

definition infer_specs ::
  "store \<Rightarrow> string \<Rightarrow> tensor list \<Rightarrow> (string \<times> pyval) list \<Rightarrow> tensor_spec list res" where
  "infer_specs st operator inputs attributes =
     (if operator \<in> set same_spec_unary \<and> length inputs = 1 then Inr [t_spec (inputs ! 0)]
      else if operator \<in> set same_spec_binary \<and> length inputs = 2 \<and> t_spec (inputs ! 0) = t_spec (inputs ! 1)
      then Inr [t_spec (inputs ! 0)]
      else if operator = ''MatMul'' \<and> length inputs = 2 then infer_matmul (inputs ! 0) (inputs ! 1) attributes
      else if operator = ''Convert'' \<and> length inputs = 1 then infer_convert (inputs ! 0) attributes
      else if operator = ''Concat'' \<and> inputs \<noteq> [] then infer_concat inputs attributes
      else if operator = ''Transpose'' \<and> length inputs = 2 then infer_transpose st (inputs ! 0) (inputs ! 1)
      else if operator = ''Reshape'' then infer_reshape st inputs attributes
      else if operator = ''Squeeze'' then infer_squeeze st inputs
      else if operator = ''Unsqueeze'' then infer_unsqueeze st inputs
      else if operator = ''Split'' then infer_split st inputs attributes
      else if operator = ''VariadicSplit'' then infer_variadic_split st inputs
      else if operator = ''Pad'' then infer_pad st inputs attributes
      else if operator = ''Slice'' then infer_slice st inputs
      else if operator = ''Gather'' then infer_gather st inputs attributes
      else Inl (ValueError ''operator requires _shape and _dtype, or _outputs; automatic inference is limited to documented same-spec operators''))"

definition output_specs :: "store \<Rightarrow> string \<Rightarrow> tensor list \<Rightarrow> (string \<times> pyval) list \<Rightarrow>
    (string \<times> pyval) list \<Rightarrow> tensor_spec list res" where
  "output_specs st operator inputs metadata attributes =
     (if \<not> is_none (dget metadata ''_outputs'') then explicit_outputs metadata (dget metadata ''_outputs'')
      else if map_of metadata ''_shape'' \<noteq> None \<or> map_of metadata ''_dtype'' \<noteq> None
      then explicit_spec metadata
      else infer_specs st operator inputs attributes)"

section \<open>Constructors\<close>

text \<open>The defaults and type checks \<open>op\<close> applies to the attributes of some operators.\<close>

definition default_attribute ::
  "string \<Rightarrow> pyval \<Rightarrow> (pyval \<Rightarrow> bool) \<Rightarrow> string \<Rightarrow> (string \<times> pyval) list \<Rightarrow> (string \<times> pyval) list res" where
  "default_attribute key fallback ok message attributes =
     (let updated = setdefault key fallback attributes
      in if ok (dget updated key) then Inr updated else Inl (TypeError message))"

definition operator_attributes :: "string \<Rightarrow> (string \<times> pyval) list \<Rightarrow> (string \<times> pyval) list res" where
  "operator_attributes operator attributes =
     (if operator = ''MatMul'' then
        bind_res (default_attribute ''transpose_a'' (PBool False) is_bool ''MatMul transpose_a must be bool'' attributes)
          (default_attribute ''transpose_b'' (PBool False) is_bool ''MatMul transpose_b must be bool'')
      else if operator = ''Convert'' \<and> map_of attributes ''destination_type'' \<noteq> None then
        bind_res (normalize_dtype (dget attributes ''destination_type'')) (\<lambda>d.
          Inr (dict_set ''destination_type'' (PStr d) attributes))
      else if operator = ''Reshape'' then
        default_attribute ''special_zero'' (PBool False) is_bool ''Reshape special_zero must be bool'' attributes
      else if operator = ''Gather'' then
        default_attribute ''batch_dims'' (PInt 0) is_int ''Gather batch_dims must be an integer'' attributes
      else if operator = ''Pad'' then
        default_attribute ''mode'' (PStr ''constant'') is_str ''Pad mode must be a string'' attributes
      else Inr attributes)"

definition optional_name :: "string \<Rightarrow> pyval \<Rightarrow> string option res" where
  "optional_name message v =
     (case v of PNone \<Rightarrow> Inr None | PStr s \<Rightarrow> Inr (Some s) | _ \<Rightarrow> Inl (TypeError message))"

definition op :: "store \<Rightarrow> pyval \<Rightarrow> symbolic list \<Rightarrow> (string \<times> pyval) list \<Rightarrow> (store \<times> tensor list) res" where
  "op st name args keywords =
     bind_res (validate_operator_name name) (\<lambda>operator.
     if list_ex (\<lambda>v. \<not> is_symbolic v) args
     then Inl (TypeError ''operator positional arguments must be symbolic Tensor objects'')
     else
       let inputs = symbolic_tensors args;
           metadata = filter (\<lambda>(key, _). startswith key ''_'') keywords;
           given = filter (\<lambda>(key, _). \<not> startswith key ''_'') keywords
       in if list_ex (\<lambda>key. key \<notin> set reserved) (keys metadata)
          then Inl (TypeError ''unknown npunlock metadata'')
          else bind_res (operator_attributes operator given) (\<lambda>attributes.
          bind_res (output_specs st operator inputs metadata attributes) (\<lambda>specs.
          bind_res (optional_name ''_name must be a string or None'' (dget metadata ''_name'')) (\<lambda>node_name.
          Inr (Node st \<lparr>n_op = operator, n_inputs = inputs, n_attrs = attributes, n_output_specs = specs,
            n_name = node_name, n_metadata = metadata\<rparr>)))))"

definition input_node :: "store \<Rightarrow> pyval \<Rightarrow> pyval \<Rightarrow> pyval \<Rightarrow> (store \<times> tensor list) res" where
  "input_node st name shape dtype =
     (case name of
        PStr s \<Rightarrow>
          if s = [] then Inl (ValueError ''input name must be a non-empty string'')
          else bind_res (TensorSpec shape dtype) (\<lambda>spec.
            Inr (Node st \<lparr>n_op = ''Parameter'', n_inputs = [], n_attrs = [], n_output_specs = [spec],
              n_name = Some s, n_metadata = [(''kind'', PStr ''input'')]\<rparr>))
      | _ \<Rightarrow> Inl (ValueError ''input name must be a non-empty string''))"

definition numpy_dtypes :: "(string \<times> string) list" where
  "numpy_dtypes =
    [(''bool'', ''boolean''), (''float16'', ''f16''), (''float32'', ''f32''), (''float64'', ''f64''),
     (''int8'', ''i8''), (''int16'', ''i16''), (''int32'', ''i32''), (''int64'', ''i64''),
     (''uint8'', ''u8''), (''uint16'', ''u16''), (''uint32'', ''u32''), (''uint64'', ''u64'')]"

definition normalize_numpy_dtype :: "string \<Rightarrow> string res" where
  "normalize_numpy_dtype dtype =
     from_option (ValueError ''NumPy dtype cannot be serialized to IR'') (map_of numpy_dtypes dtype)"

text \<open>\<open>np.ascontiguousarray\<close> changes the memory layout only, which no field of \<open>ndarray\<close> shows.\<close>

definition constant_node :: "(pyval \<Rightarrow> ndarray) \<Rightarrow> store \<Rightarrow> pyval \<Rightarrow> string option \<Rightarrow> (store \<times> tensor list) res" where
  "constant_node asarray st v name =
     (let array = asarray v in
      bind_res (normalize_numpy_dtype (nd_dtype array)) (\<lambda>dtype.
      bind_res (TensorSpec (shape_val (map int (nd_shape array))) (PStr dtype)) (\<lambda>spec.
      Inr (Node st \<lparr>n_op = ''Const'', n_inputs = [], n_attrs = [], n_output_specs = [spec],
        n_name = name, n_metadata = [(''kind'', PStr ''constant''), (''value'', PArray array)]\<rparr>))))"

record custom_args =
  ca_source :: pyval
  ca_kernel :: pyval
  ca_carrier :: pyval
  ca_shape :: pyval
  ca_dtype :: pyval
  ca_outputs :: pyval
  ca_name :: pyval
  ca__name :: pyval
  ca_patch_targets :: pyval
  ca_attributes :: "(string \<times> pyval) list"

fun is_kernel :: "pyval \<Rightarrow> bool" where
  "is_kernel (PKernel _) = True"
| "is_kernel _ = False"

definition custom_shape :: "string \<Rightarrow> tensor list \<Rightarrow> pyval \<Rightarrow> pyval res" where
  "custom_shape carrier inputs shape =
     (if \<not> is_none shape then Inr shape
      else if carrier \<in> set same_spec_binary \<and> length inputs = 2
      then bind_res (broadcast_shape (t_shape (inputs ! 0)) (t_shape (inputs ! 1))) (\<lambda>s. Inr (shape_val s))
      else Inr (shape_val (t_shape (inputs ! 0))))"

definition custom_dtype :: "string \<Rightarrow> tensor list \<Rightarrow> (string \<times> pyval) list \<Rightarrow> pyval \<Rightarrow> pyval res" where
  "custom_dtype carrier inputs attributes dtype =
     (if \<not> is_none dtype then Inr dtype
      else if carrier = ''Convert'' \<and> map_of attributes ''destination_type'' \<noteq> None
      then bind_res (normalize_dtype (dget attributes ''destination_type'')) (\<lambda>d. Inr (PStr d))
      else Inr (PStr (t_dtype (inputs ! 0))))"

definition custom_outputs :: "string \<Rightarrow> tensor list \<Rightarrow> custom_args \<Rightarrow> (string \<times> pyval) list res" where
  "custom_outputs carrier inputs a =
     (if \<not> is_none (ca_outputs a) then Inr [(''_outputs'', ca_outputs a)]
      else if (is_none (ca_shape a) \<or> is_none (ca_dtype a)) \<and> inputs = []
      then Inl (ValueError ''custom() requires an input to infer omitted _shape or _dtype'')
      else bind_res (custom_shape carrier inputs (ca_shape a)) (\<lambda>shape.
           bind_res (custom_dtype carrier inputs (ca_attributes a) (ca_dtype a)) (\<lambda>dtype.
           Inr [(''_shape'', shape), (''_dtype'', dtype)])))"

definition custom_targets :: "pyval \<Rightarrow> (string \<times> pyval) list res" where
  "custom_targets v =
     (if is_none v then Inr []
      else bind_res (from_option (TypeError ''object is not iterable'') (py_iter v)) (\<lambda>targets.
        Inr [(''_patch_targets'', PTuple targets)]))"

text \<open>A keyword given both in \<open>**attributes\<close> and in \<open>**metadata\<close> is a \<open>TypeError\<close> of the call.\<close>

definition custom :: "store \<Rightarrow> symbolic list \<Rightarrow> custom_args \<Rightarrow> (store \<times> tensor list) res" where
  "custom st args a =
     (if \<not> is_none (ca_source a) \<and> \<not> is_none (ca_kernel a)
      then Inl (ValueError ''custom() accepts source or kernel, not both'')
      else if \<not> is_none (ca_kernel a) \<and> \<not> is_kernel (ca_kernel a)
      then Inl (TypeError ''custom() kernel must be a KernelSpec or CompiledKernel'')
      else if \<not> is_none (ca_name a) \<and> \<not> is_none (ca__name a)
      then Inl (ValueError ''custom() accepts name or _name, not both'')
      else if \<not> is_none (ca_name a) \<and> \<not> is_str (ca_name a)
      then Inl (TypeError ''custom() name must be a string or None'')
      else bind_res (validate_operator_name (ca_carrier a)) (\<lambda>carrier.
        if list_ex (\<lambda>v. \<not> is_symbolic v) args
        then Inl (TypeError ''custom() inputs must be symbolic Tensor objects'')
        else bind_res (custom_outputs carrier (symbolic_tensors args) a) (\<lambda>outputs.
          bind_res (custom_targets (ca_patch_targets a)) (\<lambda>targets.
          let metadata =
               [(''_kernel'', if is_none (ca_kernel a) then ca_source a else ca_kernel a),
                (''_carrier'', PStr carrier),
                (''_name'', if is_none (ca_name a) then ca__name a else ca_name a)] @ outputs @ targets
          in if list_ex (\<lambda>key. key \<in> set (keys metadata)) (keys (ca_attributes a))
             then Inl (TypeError ''got multiple values for keyword argument'')
             else op st (PStr ''Custom'') args (ca_attributes a @ metadata)))))"

section \<open>Operator sugar of \<open>Tensor\<close>\<close>

text \<open>An operator method that returns \<open>NotImplemented\<close> makes the expression raise \<open>TypeError\<close>.\<close>

definition unsupported_operand :: pyexn where
  "unsupported_operand = TypeError ''unsupported operand type(s)''"

definition tensor_binary :: "store \<Rightarrow> string \<Rightarrow> tensor \<Rightarrow> symbolic \<Rightarrow> (store \<times> tensor list) res" where
  "tensor_binary st operator this other =
     (case other of
        NotSymbolic _ \<Rightarrow> Inl unsupported_operand
      | Symbolic t \<Rightarrow>
          if t_spec this \<noteq> t_spec t
          then Inl (ValueError (operator @ '' sugar requires matching symbolic tensor specs''))
          else op st (PStr operator) [Symbolic this, other]
            [(''_shape'', shape_val (t_shape this)), (''_dtype'', PStr (t_dtype this))])"

definition tensor_add :: "store \<Rightarrow> tensor \<Rightarrow> symbolic \<Rightarrow> (store \<times> tensor list) res" where
  "tensor_add st this other = tensor_binary st ''Add'' this other"

definition tensor_mul :: "store \<Rightarrow> tensor \<Rightarrow> symbolic \<Rightarrow> (store \<times> tensor list) res" where
  "tensor_mul st this other = tensor_binary st ''Multiply'' this other"

definition tensor_matmul :: "store \<Rightarrow> tensor \<Rightarrow> symbolic \<Rightarrow> (store \<times> tensor list) res" where
  "tensor_matmul st this other =
     (case other of
        NotSymbolic _ \<Rightarrow> Inl unsupported_operand
      | Symbolic t \<Rightarrow> op st (PStr ''MatMul'') [Symbolic this, other]
          [(''transpose_a'', PBool False), (''transpose_b'', PBool False)])"

section \<open>Every inferred spec is well formed\<close>

text \<open>The type invariant of arguments: a \<open>TensorSpec\<close> object inside a value came from its constructor.\<close>

fun wf_val :: "pyval \<Rightarrow> bool" where
  "wf_val (PSpec s) = wf_spec s"
| "wf_val (PTuple vs) = list_all wf_val vs"
| "wf_val (PList vs) = list_all wf_val vs"
| "wf_val _ = True"

definition wf_specs :: "tensor_spec list \<Rightarrow> bool" where
  "wf_specs specs \<longleftrightarrow> specs \<noteq> [] \<and> list_all wf_spec specs"

lemma spec_of_Inr: "spec_of s d = Inr t \<Longrightarrow> wf_spec t \<and> ts_shape t = s"
  unfolding spec_of_def using TensorSpec_wf TensorSpec_shape_only by blast

lemma one_spec_Inr [res_simps]: "one_spec r = Inr specs \<longleftrightarrow> (\<exists>s. r = Inr s \<and> specs = [s])"
  by (auto simp: one_spec_def res_simps)

lemma one_spec_of_wf: "one_spec (spec_of s d) = Inr specs \<Longrightarrow> wf_specs specs"
  by (auto simp: res_simps wf_specs_def dest: spec_of_Inr)

lemma map_spec_of_wf:
  "map_res (\<lambda>x. spec_of (f x) d) xs = Inr specs \<Longrightarrow> xs \<noteq> [] \<Longrightarrow> wf_specs specs"
  by (auto simp: res_simps wf_specs_def list_all2_conv_all_nth list_all_length dest!: spec_of_Inr)

lemma wf_val_py_iter: "wf_val v \<Longrightarrow> py_iter v = Some vs \<Longrightarrow> PSpec s \<in> set vs \<Longrightarrow> wf_spec s"
  by (cases v) (auto simp: list_all_iff array_row_def Let_def split: list.splits)

lemma output_item_wf: "output_item v = Inr t \<Longrightarrow> (\<And>s. v = PSpec s \<Longrightarrow> wf_spec s) \<Longrightarrow> wf_spec t"
  by (cases v) (auto simp: output_item_def res_simps dest: TensorSpec_wf)

lemma explicit_outputs_wf:
  assumes "explicit_outputs metadata v = Inr specs" and "wf_val v"
  shows "wf_specs specs"
proof -
  from assms(1) obtain vs where vs: "py_iter v = Some vs" "map_res output_item vs = Inr specs" "specs \<noteq> []"
    by (auto simp: explicit_outputs_def res_simps split: if_splits sum.splits pyexn.splits)
  from vs(2) have l: "length specs = length vs" by (rule map_res_length)
  have "wf_spec (specs ! i)" if "i < length specs" for i
    using output_item_wf [OF map_res_nth [OF vs(2)]] that wf_val_py_iter [OF assms(2) vs(1)] l
    by (metis nth_mem)
  with vs(3) show ?thesis by (simp add: wf_specs_def list_all_length)
qed

lemma explicit_spec_wf: "explicit_spec metadata = Inr specs \<Longrightarrow> wf_specs specs"
  by (auto simp: explicit_spec_def res_simps wf_specs_def dest: TensorSpec_wf split: if_splits)

lemma split_lengths_nonempty: "split_lengths n ls = Inr ks \<Longrightarrow> ks \<noteq> []"
  by (auto simp: split_lengths_def Let_def split: if_splits list.splits)

lemma infer_matmul_wf: "infer_matmul l r a = Inr specs \<Longrightarrow> wf_specs specs"
  by (auto simp: infer_matmul_def Let_def bind_res_eq_Inr dest: one_spec_of_wf split: if_splits)

lemma infer_convert_wf: "infer_convert d a = Inr specs \<Longrightarrow> wf_specs specs"
  by (auto simp: infer_convert_def bind_res_eq_Inr dest: one_spec_of_wf split: option.splits)

lemma infer_concat_wf: "infer_concat i a = Inr specs \<Longrightarrow> wf_specs specs"
  by (cases "dget a ''axis''")
     (auto simp: infer_concat_def Let_def bind_res_eq_Inr dest: one_spec_of_wf split: if_splits)

lemma infer_transpose_wf: "infer_transpose st d t = Inr specs \<Longrightarrow> wf_specs specs"
  by (auto simp: infer_transpose_def bind_res_eq_Inr dest: one_spec_of_wf split: if_splits)

lemma infer_reshape_wf: "infer_reshape st i a = Inr specs \<Longrightarrow> wf_specs specs"
  by (auto simp: infer_reshape_def bind_res_eq_Inr dest: one_spec_of_wf split: list.splits)

lemma infer_squeeze_wf: "infer_squeeze st i = Inr specs \<Longrightarrow> wf_specs specs"
  by (auto simp: infer_squeeze_def Let_def bind_res_eq_Inr dest: one_spec_of_wf
      split: list.splits if_splits)

lemma infer_unsqueeze_wf: "infer_unsqueeze st i = Inr specs \<Longrightarrow> wf_specs specs"
  by (auto simp: infer_unsqueeze_def Let_def bind_res_eq_Inr dest: one_spec_of_wf
      split: list.splits if_splits)

lemma infer_split_InrD:
  assumes "infer_split st inputs a = Inr specs"
  obtains data axis_tensor given axis k where "inputs = [data, axis_tensor]"
    and "constant_integer_scalar st axis_tensor ''Split'' ''axis'' = Inr given"
    and "checked_axis ''Split'' (length (t_shape data)) given = Inr axis"
    and "dget a ''num_splits'' = PInt k" and "0 < k" and "t_shape data ! axis mod k = 0"
    and "map_res (\<lambda>_. spec_of ((t_shape data)[axis := t_shape data ! axis div k]) (t_dtype data))
           [0..<nat k] = Inr specs"
  using assms
  by (cases "dget a ''num_splits''")
     (auto simp: infer_split_def Let_def bind_res_eq_Inr split: list.splits if_splits)

lemma infer_split_wf: "infer_split st i a = Inr specs \<Longrightarrow> wf_specs specs"
  by (elim infer_split_InrD) (rule map_spec_of_wf, auto)

lemma infer_variadic_split_wf: "infer_variadic_split st i = Inr specs \<Longrightarrow> wf_specs specs"
  by (auto simp: infer_variadic_split_def bind_res_eq_Inr
      dest!: map_spec_of_wf dest: split_lengths_nonempty split: list.splits)

lemma infer_pad_wf: "infer_pad st i a = Inr specs \<Longrightarrow> wf_specs specs"
  by (auto simp: infer_pad_def bind_res_eq_Inr dest: one_spec_of_wf split: list.splits if_splits)

lemma infer_slice_wf: "infer_slice st i = Inr specs \<Longrightarrow> wf_specs specs"
  by (auto simp: infer_slice_def bind_res_eq_Inr dest: one_spec_of_wf split: list.splits if_splits)

lemma infer_gather_wf: "infer_gather st i a = Inr specs \<Longrightarrow> wf_specs specs"
  by (auto simp: infer_gather_def bind_res_eq_Inr dest: one_spec_of_wf split: list.splits if_splits)

lemmas infer_wf = infer_matmul_wf infer_convert_wf infer_concat_wf infer_transpose_wf
  infer_reshape_wf infer_squeeze_wf infer_unsqueeze_wf infer_split_wf infer_variadic_split_wf
  infer_pad_wf infer_slice_wf infer_gather_wf

lemma if_InrE:
  "(if c then x else y) = Inr s \<Longrightarrow> (c \<Longrightarrow> x = Inr s \<Longrightarrow> P) \<Longrightarrow> (\<not> c \<Longrightarrow> y = Inr s \<Longrightarrow> P) \<Longrightarrow> P"
  by (cases c) auto

lemma infer_specs_wf:
  assumes "infer_specs st operator inputs a = Inr specs" and "list_all (\<lambda>t. wf_spec (t_spec t)) inputs"
  shows "wf_specs specs"
proof -
  have "wf_spec (t_spec (inputs ! 0))" if "inputs \<noteq> []"
    using assms(2) that by (cases inputs) auto
  then have same: "wf_specs [t_spec (inputs ! 0)]" if "inputs \<noteq> []"
    using that by (simp add: wf_specs_def)
  from assms(1) show ?thesis
    unfolding infer_specs_def
    by (elim if_InrE) (erule infer_wf | use same in force)+
qed

lemma output_specs_wf:
  assumes "output_specs st operator inputs metadata a = Inr specs"
    and "list_all (\<lambda>t. wf_spec (t_spec t)) inputs" and "wf_val (dget metadata ''_outputs'')"
  shows "wf_specs specs"
  using assms(1) unfolding output_specs_def
  by (elim if_InrE) (auto intro: explicit_outputs_wf explicit_spec_wf infer_specs_wf assms(2,3))

section \<open>The constructors keep the store well formed\<close>

lemma node_at_append: "i < length st \<Longrightarrow> node_at (st @ ns) i = node_at st i"
  by (simp add: node_at_def nth_append)

lemma tensor_of_append: "tensor_of st t \<Longrightarrow> tensor_of (st @ ns) t"
  by (simp add: tensor_of_def node_at_append)

lemma node_outputs_spec: "t \<in> set (node_outputs i n) \<Longrightarrow> t_spec t \<in> set (n_output_specs n)"
  by (auto simp: node_outputs_def in_set_enum)

lemma tensor_of_wf: "wf_store st \<Longrightarrow> tensor_of st t \<Longrightarrow> wf_spec (t_spec t)"
  using wf_store_nth(3) [of st "t_producer t"] node_outputs_spec [of t "t_producer t" "st ! t_producer t"]
  by (auto simp: tensor_of_def node_at_def list_all_iff)

lemma node_outputs_producer: "t \<in> set (node_outputs i n) \<Longrightarrow> t_producer t = i"
  by (auto simp: node_outputs_def)

definition grown :: "store \<Rightarrow> store \<times> tensor list \<Rightarrow> bool" where
  "grown st r \<longleftrightarrow> (\<exists>n. fst r = st @ [n]) \<and> wf_store (fst r) \<and> list_all (tensor_of (fst r)) (snd r) \<and> snd r \<noteq> []"

lemma Node_grown:
  assumes "wf_store st" and "list_all (tensor_of st) (n_inputs n)" and "wf_specs (n_output_specs n)"
  shows "grown st (Node st n)"
proof -
  have "list_all (\<lambda>t. tensor_of (st @ [n]) t \<and> t_producer t < length st) (n_inputs n)"
    using assms(2) by (auto simp: list_all_iff intro: tensor_of_append) (simp add: tensor_of_def)
  moreover have "list_all (\<lambda>t. tensor_of (st @ [n]) t \<and> t_producer t < i) (n_inputs (st ! i))"
    if "i < length st" for i
    using wf_store_nth(1) [OF assms(1) that] by (auto simp: list_all_iff intro: tensor_of_append)
  ultimately have "wf_store (st @ [n])"
    using assms(3) wf_store_nth(2,3) [OF assms(1)]
    by (auto simp: wf_store_def list_all_enum nth_append less_Suc_eq wf_specs_def)
  moreover have "list_all (tensor_of (st @ [n])) (node_outputs (length st) n)"
    by (auto simp: list_all_iff tensor_of_def node_outputs_producer node_at_def)
  ultimately show ?thesis
    using assms(3)
    by (auto simp: grown_def Node_def wf_specs_def node_outputs_def simp flip: length_greater_0_conv)
qed

definition valid_args :: "store \<Rightarrow> symbolic list \<Rightarrow> bool" where
  "valid_args st args \<longleftrightarrow> list_all (tensor_of st) (symbolic_tensors args)"

lemma dget_filter_reserved:
  "dget (filter (\<lambda>(key, _). startswith key ''_'') d) ''_outputs'' = dget d ''_outputs''"
  by (induction d) (auto simp: dget_def startswith_def)

lemma op_grown:
  assumes "op st name args keywords = Inr r" and "wf_store st" and "valid_args st args"
    and "wf_val (dget keywords ''_outputs'')"
  shows "grown st r"
proof -
  have wf: "list_all (\<lambda>t. wf_spec (t_spec t)) (symbolic_tensors args)"
    using assms(2,3) by (auto simp: valid_args_def list_all_iff intro: tensor_of_wf)
  from assms(1) show ?thesis
    unfolding op_def
    by (auto simp: bind_res_eq_Inr Let_def dget_filter_reserved assms(4) wf assms(3) [unfolded valid_args_def]
        intro!: Node_grown [OF assms(2)] dest!: output_specs_wf split: if_splits)
qed

lemma input_node_grown: "input_node st name s d = Inr r \<Longrightarrow> wf_store st \<Longrightarrow> grown st r"
  by (cases name)
     (auto simp: input_node_def bind_res_eq_Inr wf_specs_def intro!: Node_grown dest!: TensorSpec_wf
      split: if_splits)

lemma constant_node_grown: "constant_node asarray st v name = Inr r \<Longrightarrow> wf_store st \<Longrightarrow> grown st r"
  by (auto simp: constant_node_def bind_res_eq_Inr Let_def wf_specs_def intro!: Node_grown
      dest!: TensorSpec_wf)

text \<open>Python binds a named parameter before it collects \<open>**attributes\<close>.\<close>

definition custom_call :: "custom_args \<Rightarrow> bool" where
  "custom_call a \<longleftrightarrow> wf_val (ca_outputs a) \<and> list_all (\<lambda>k. k \<notin> set (keys (ca_attributes a)))
     [''source'', ''kernel'', ''carrier'', ''_shape'', ''_dtype'', ''_outputs'', ''name'', ''_name'',
      ''_patch_targets'']"

lemma map_of_not_key: "k \<notin> set (keys d) \<Longrightarrow> map_of d k = None"
  by (simp add: keys_def map_of_eq_None_iff)

lemma custom_outputs_dget:
  "custom_outputs c i a = Inr outs \<Longrightarrow>
   (case map_of outs ''_outputs'' of None \<Rightarrow> PNone | Some v \<Rightarrow> v) = ca_outputs a"
  by (cases "ca_outputs a") (auto simp: custom_outputs_def bind_res_eq_Inr split: if_splits)

lemma custom_targets_no_outputs: "custom_targets v = Inr ts \<Longrightarrow> map_of ts ''_outputs'' = None"
  by (auto simp: custom_targets_def bind_res_eq_Inr split: if_splits)

lemma custom_calls_op:
  assumes "custom st args a = Inr r" and "custom_call a"
  obtains kws where "op st (PStr ''Custom'') args kws = Inr r"
    and "dget kws ''_outputs'' = ca_outputs a"
proof -
  from assms(1) obtain c outs ts kernel name where o: "custom_outputs c (symbolic_tensors args) a = Inr outs"
    and t: "custom_targets (ca_patch_targets a) = Inr ts"
    and op: "op st (PStr ''Custom'') args (ca_attributes a @
      [(''_kernel'', kernel), (''_carrier'', PStr c), (''_name'', name)] @ outs @ ts) = Inr r"
    unfolding custom_def by (auto simp: bind_res_eq_Inr Let_def split: if_splits)
  have "map_of (ca_attributes a) ''_outputs'' = None"
    using assms(2) by (simp add: custom_call_def map_of_not_key)
  with custom_outputs_dget [OF o] custom_targets_no_outputs [OF t]
  have "dget (ca_attributes a @ [(''_kernel'', kernel), (''_carrier'', PStr c), (''_name'', name)] @
      outs @ ts) ''_outputs'' = ca_outputs a"
    by (auto simp: dget_def map_add_def split: option.splits)
  with op that show ?thesis by blast
qed

lemma custom_grown:
  assumes "custom st args a = Inr r" and "wf_store st" and "valid_args st args" and "custom_call a"
  shows "grown st r"
  using custom_calls_op [OF assms(1,4)] op_grown [OF _ assms(2,3)] assms(4)
  by (metis custom_call_def)

lemma tensor_binary_grown:
  "tensor_binary st operator this other = Inr r \<Longrightarrow> wf_store st \<Longrightarrow> valid_args st [Symbolic this, other] \<Longrightarrow>
   grown st r"
  by (cases other) (auto simp: tensor_binary_def dget_def split: if_splits elim!: op_grown)

lemma tensor_matmul_grown:
  "tensor_matmul st this other = Inr r \<Longrightarrow> wf_store st \<Longrightarrow> valid_args st [Symbolic this, other] \<Longrightarrow>
   grown st r"
  by (cases other) (auto simp: tensor_matmul_def dget_def elim!: op_grown)

section \<open>Programs that build graphs\<close>

text \<open>The stores a program can reach: any sequence of successful constructor calls on tensors it
  already holds.\<close>

inductive built :: "(pyval \<Rightarrow> ndarray) \<Rightarrow> store \<Rightarrow> bool" for asarray where
  built_empty: "built asarray []"
| built_op: "built asarray st \<Longrightarrow> valid_args st args \<Longrightarrow> wf_val (dget keywords ''_outputs'') \<Longrightarrow>
    op st name args keywords = Inr (st', ts) \<Longrightarrow> built asarray st'"
| built_input: "built asarray st \<Longrightarrow> input_node st name shape dtype = Inr (st', ts) \<Longrightarrow> built asarray st'"
| built_constant: "built asarray st \<Longrightarrow> constant_node asarray st v cname = Inr (st', ts) \<Longrightarrow> built asarray st'"
| built_custom: "built asarray st \<Longrightarrow> valid_args st args \<Longrightarrow> custom_call a \<Longrightarrow>
    custom st args a = Inr (st', ts) \<Longrightarrow> built asarray st'"
| built_add: "built asarray st \<Longrightarrow> valid_args st [Symbolic this, other] \<Longrightarrow>
    tensor_add st this other = Inr (st', ts) \<Longrightarrow> built asarray st'"
| built_mul: "built asarray st \<Longrightarrow> valid_args st [Symbolic this, other] \<Longrightarrow>
    tensor_mul st this other = Inr (st', ts) \<Longrightarrow> built asarray st'"
| built_matmul: "built asarray st \<Longrightarrow> valid_args st [Symbolic this, other] \<Longrightarrow>
    tensor_matmul st this other = Inr (st', ts) \<Longrightarrow> built asarray st'"

lemma grown_wf: "grown st (st', ts) \<Longrightarrow> wf_store st'"
  by (simp add: grown_def)

lemma built_wf: "built asarray st \<Longrightarrow> wf_store st"
proof (induction rule: built.induct)
  case built_empty
  then show ?case by (simp add: wf_store_def)
qed (auto intro: grown_wf op_grown input_node_grown constant_node_grown custom_grown
    tensor_binary_grown tensor_matmul_grown simp: tensor_add_def tensor_mul_def)

text \<open>C9 Every graph a program can build through \<open>op\<close>, \<open>input\<close>, \<open>constant\<close>, \<open>custom\<close> and the tensor
  operators has only static positive shapes and known element types, and its nodes can be put in
  topological order: no sequence of calls makes a cycle.\<close>

theorem built_graphs_sort:
  assumes "built asarray st" and "list_all (tensor_of st) outs" and "length st < limit"
  shows "\<exists>ns. topological_nodes st limit (map Symbolic outs) = Inr ns \<and> distinct ns \<and>
    topo_sorted (producers st) ns \<and> set ns = reachable_nodes st outs \<and>
    (\<forall>n \<in> set ns. list_all wf_spec (n_output_specs (node_at st n)))"
proof -
  have wf: "wf_store st" using assms(1) by (rule built_wf)
  obtain ns where ns: "topological_nodes st limit (map Symbolic outs) = Inr ns"
    using topological_nodes_total [OF wf assms(2,3)] by blast
  note sound = topological_nodes_sound [OF ns]
  then have "n < length st" if "n \<in> set ns" for n
    using that reach_in_range [OF wf_store_closed [OF wf] tensors_in_range [OF assms(2)]] by auto
  then have "\<forall>n \<in> set ns. list_all wf_spec (n_output_specs (node_at st n))"
    using wf_store_nth(3) [OF wf] by (simp add: node_at_def)
  with ns sound show ?thesis by blast
qed

text \<open>The program \<open>op("Relu", input("x", shape=(2, 3), dtype="f16"))\<close>.\<close>

definition relu_input :: tensor where
  "relu_input = \<lparr>t_producer = 0, t_output_index = 0, t_spec = \<lparr>ts_shape = [2, 3], ts_dtype = ''f16''\<rparr>,
     t_name = Some ''x''\<rparr>"

definition relu_store :: store where
  "relu_store =
    [\<lparr>n_op = ''Parameter'', n_inputs = [], n_attrs = [], n_output_specs = [t_spec relu_input],
      n_name = Some ''x'', n_metadata = [(''kind'', PStr ''input'')]\<rparr>,
     \<lparr>n_op = ''Relu'', n_inputs = [relu_input], n_attrs = [], n_output_specs = [t_spec relu_input],
      n_name = None, n_metadata = []\<rparr>]"

abbreviation relu_output :: tensor where
  "relu_output \<equiv> relu_input\<lparr>t_producer := 1, t_name := None\<rparr>"

lemma relu_store_built: "built asarray relu_store"
proof -
  have i: "input_node [] (PStr ''x'') (shape_val [2, 3]) (PStr ''f16'') = Inr (take 1 relu_store, [relu_input])"
    by code_simp
  have o: "op (take 1 relu_store) (PStr ''Relu'') [Symbolic relu_input] [] = Inr (relu_store, [relu_output])"
    by code_simp
  have v: "valid_args (take 1 relu_store) [Symbolic relu_input]" by code_simp
  have w: "wf_val (dget [] ''_outputs'')" by code_simp
  show ?thesis by (rule built_op [OF built_input [OF built_empty i] v w o])
qed

theorem built_graphs_sort_witness:
  "\<exists>ns. topological_nodes relu_store 3 [Symbolic relu_output] = Inr ns \<and> set ns = {0, 1} \<and>
    topo_sorted (producers relu_store) ns"
proof -
  have o: "list_all (tensor_of relu_store) [relu_output]" by code_simp
  have l: "length relu_store < 3" by code_simp
  have r: "topological_nodes relu_store 3 [Symbolic relu_output] = Inr [0, 1]" by code_simp
  from built_graphs_sort [OF relu_store_built o l] r show ?thesis by auto
qed

end
