(* ===== verification/Shape_Laws.thy ===== *)
theory Shape_Laws
  imports Shape_Inference "HOL-Library.Multiset"
begin

text \<open>
  Correctness of the inferred shapes: element counts, the round trips between splitting and
  concatenating and between inserting and removing axes, the meaning of slices, and the
  broadcasting rule.
\<close>

section \<open>Reshape\<close>

definition reshape_inv :: "reshape_state \<Rightarrow> bool" where
  "reshape_inv s \<longleftrightarrow> prod_list (rs_output s) = rs_known s \<and>
     (\<forall>i. rs_inferred s = Some i \<longrightarrow> i < length (rs_output s) \<and> rs_output s ! i = 1)"

lemma reshape_step_inv:
  "reshape_step z shape (length (rs_output s), d) s = Inr t \<Longrightarrow> reshape_inv s \<Longrightarrow>
   reshape_inv t \<and> length (rs_output t) = Suc (length (rs_output s))"
  by (auto simp: reshape_step_def reshape_inv_def nth_append split: if_splits)

lemma reshape_fold_inv:
  "fold_res (reshape_step z shape) (List.enumerate (length (rs_output s)) pat) s = Inr t \<Longrightarrow>
   reshape_inv s \<Longrightarrow> reshape_inv t"
proof (induction pat arbitrary: s)
  case (Cons d pat)
  from Cons.prems(1) obtain u where u: "reshape_step z shape (length (rs_output s), d) s = Inr u"
    and rest: "fold_res (reshape_step z shape) (List.enumerate (Suc (length (rs_output s))) pat) u = Inr t"
    by (auto simp: res_simps)
  from reshape_step_inv [OF u Cons.prems(2)] rest show ?case by (metis Cons.IH)
qed simp

lemma reshape_shape_elements: "reshape_shape z shape pat = Inr out \<Longrightarrow> prod_list out = prod_list shape"
proof -
  assume "reshape_shape z shape pat = Inr out"
  then obtain s where f: "fold_res (reshape_step z shape) (enum pat)
        \<lparr>rs_inferred = None, rs_output = [], rs_known = 1\<rparr> = Inr s"
    and out: "(let input_elements = prod_list shape in
       case rs_inferred s of
         Some i \<Rightarrow>
           if rs_known s = 0 \<or> input_elements mod rs_known s \<noteq> 0
           then Inl (ValueError ''Reshape inferred dimension does not divide the input element count'')
           else Inr ((rs_output s)[i := input_elements div rs_known s])
       | None \<Rightarrow>
           if rs_known s \<noteq> input_elements
           then Inl (ValueError ''Reshape input and output element counts do not match'')
           else Inr (rs_output s)) = Inr out"
    unfolding reshape_shape_def bind_res_eq_Inr by blast
  have "reshape_inv s"
    using reshape_fold_inv [of z shape "\<lparr>rs_inferred = None, rs_output = [], rs_known = 1\<rparr>" pat s] f
    by (simp add: reshape_inv_def)
  with out show ?thesis
    by (cases "rs_inferred s") (auto simp: reshape_inv_def prod_list_update Let_def split: if_splits)
qed

section \<open>Transpose\<close>

lemma permuted_shape:
  assumes "length order = length shape" and "set order = set (map int [0..<length shape])"
  shows "mset (map (\<lambda>a. shape ! nat a) order) = mset shape"
proof -
  have "card (set order) = length order" using assms by (simp add: card_image)
  then have "distinct order" by (rule card_distinct)
  then have "mset order = mset (map int [0..<length shape])"
    using assms(2) by (subst set_eq_iff_mset_eq_distinct [symmetric]) (auto simp: distinct_map)
  then have "mset (map (\<lambda>a. shape ! nat a) order) =
      mset (map (\<lambda>a. shape ! nat a) (map int [0..<length shape]))"
    by (metis mset_map)
  also have "map (\<lambda>a. shape ! nat a) (map int [0..<length shape]) = shape"
    by (simp add: comp_def map_nth)
  finally show ?thesis .
qed

lemma mset_prod_list: "mset xs = mset ys \<Longrightarrow> prod_list xs = prod_list (ys :: int list)"
  by (metis prod_mset_prod_list)

section \<open>Squeeze and unsqueeze\<close>

lemma prod_list_filter_ones:
  "(\<And>i d. (i, d) \<in> set ps \<Longrightarrow> \<not> P (i, d) \<Longrightarrow> d = 1) \<Longrightarrow>
   prod_list (map snd (filter P ps)) = prod_list (map snd ps :: int list)"
proof (induction ps)
  case (Cons p ps)
  then have "prod_list (map snd (filter P ps)) = prod_list (map snd ps)" by auto
  with Cons.prems [of "fst p" "snd p"] show ?case by auto
qed simp

lemma map_snd_enum: "map snd (enum xs) = xs"
  by (simp add: enumerate_eq_zip)

lemma squeeze_elements:
  assumes "\<not> list_ex (\<lambda>axis. shape ! axis \<noteq> 1) axes"
  shows "prod_list (squeeze_shape shape axes) = prod_list shape"
proof -
  have "prod_list (map snd (filter (\<lambda>(i, _). i \<notin> set axes) (enum shape))) = prod_list (map snd (enum shape))"
    using assms by (intro prod_list_filter_ones) (auto simp: in_set_enum list_ex_iff)
  then show ?thesis by (simp add: squeeze_shape_def map_snd_enum)
qed

lemma unsqueeze_shape_spec:
  "unsqueeze_shape ins axes src = Inr out \<Longrightarrow>
   length out = length axes \<and>
   map snd (filter (\<lambda>(a, _). a \<notin> set ins) (zip axes out)) = take (length (filter (\<lambda>a. a \<notin> set ins) axes)) src \<and>
   (\<forall>(a, d) \<in> set (zip axes out). a \<in> set ins \<longrightarrow> d = 1)"
proof (induction axes arbitrary: src out)
  case (Cons a axes)
  show ?case
  proof (cases "a \<in> set ins")
    case True
    with Cons.prems obtain o' where "unsqueeze_shape ins axes src = Inr o'" "out = 1 # o'"
      by (auto simp: res_simps)
    with Cons.IH [of src o'] True show ?thesis by auto
  next
    case False
    with Cons.prems obtain d ds o' where "src = d # ds" "unsqueeze_shape ins axes ds = Inr o'" "out = d # o'"
      by (auto simp: res_simps split: list.splits)
    with Cons.IH [of ds o'] False show ?thesis by auto
  qed
qed simp

lemma unsqueeze_shape_total:
  "length (filter (\<lambda>a. a \<notin> set ins) axes) \<le> length src \<Longrightarrow> \<exists>out. unsqueeze_shape ins axes src = Inr out"
proof (induction axes arbitrary: src)
  case (Cons a axes)
  show ?case
  proof (cases "a \<in> set ins")
    case True
    with Cons.IH [of src] Cons.prems show ?thesis by auto
  next
    case False
    with Cons.prems obtain d ds where "src = d # ds" by (cases src) auto
    with Cons.IH [of ds] Cons.prems False show ?thesis by auto
  qed
qed simp

lemma kept_axes: "distinct ins \<Longrightarrow> set ins \<subseteq> {..<n} \<Longrightarrow> length (filter (\<lambda>a. a \<notin> set ins) [0..<n]) = n - length ins"
proof -
  assume ins: "distinct ins" "set ins \<subseteq> {..<n}"
  have "length (filter (\<lambda>a. a \<notin> set ins) [0..<n]) = card ({..<n} - set ins)"
    by (subst distinct_card [symmetric]) (auto intro: arg_cong [where f = card])
  also have "\<dots> = n - length ins" using ins by (simp add: card_Diff_subset distinct_card)
  finally show ?thesis .
qed

lemma checked_axes_Inr:
  assumes "checked_axes oper rank axes = Inr ns"
  shows "distinct ns \<and> set ns \<subseteq> {..<rank} \<and> length ns = length axes"
proof -
  let ?m = "map (norm_axis rank) axes"
  from assms have r: "\<forall>a \<in> set ?m. 0 \<le> a \<and> a < int rank" and d: "distinct ?m" and ns: "ns = map nat ?m"
    by (auto simp: checked_axes_def Let_def list_ex_iff not_le card_distinct length_remdups_card_conv
        split: if_splits)
  from r have "inj_on nat (set ?m)" by (intro inj_onI) (metis eq_nat_nat_iff)
  with d r ns show ?thesis by (auto simp: distinct_map intro: comp_inj_on)
qed

lemma checked_axes_map: "checked_axes oper rank axes = Inr ns \<Longrightarrow> ns = map (\<lambda>a. nat (norm_axis rank a)) axes"
  by (auto simp: checked_axes_def Let_def split: if_splits)

lemma unsqueeze_then_squeeze:
  assumes "distinct ins" and "set ins \<subseteq> {..<length src + length ins}"
  obtains out where "unsqueeze_shape ins [0..<length src + length ins] src = Inr out"
    and "length out = length src + length ins" and "\<forall>a \<in> set ins. out ! a = 1"
    and "squeeze_shape out ins = src"
proof -
  let ?n = "length src + length ins"
  have k: "length (filter (\<lambda>a. a \<notin> set ins) [0..<?n]) = length src"
    using kept_axes [OF assms] by simp
  then obtain out where out: "unsqueeze_shape ins [0..<?n] src = Inr out"
    using unsqueeze_shape_total [of ins "[0..<?n]" src] by auto
  note spec = unsqueeze_shape_spec [OF out]
  have len: "length out = ?n" using spec by simp
  have ones: "\<forall>a \<in> set ins. out ! a = 1"
  proof
    fix a assume a: "a \<in> set ins"
    then have "a < ?n" using assms(2) by auto
    then have "(a, out ! a) \<in> set (zip [0..<?n] out)" using len by (auto simp: set_zip intro!: exI [of _ a])
    with spec a show "out ! a = 1" by auto
  qed
  have "squeeze_shape out ins = src"
    using spec k len by (simp add: squeeze_shape_def enumerate_eq_zip)
  with that [OF out len ones] show ?thesis by blast
qed


lemma constant_integer_vector_any:
  "constant_integer_vector st t operator role = Inr v \<Longrightarrow> constant_integer_vector st t operator' role' = Inr v"
  by (auto simp: constant_integer_vector_def constant_array_def bind_res_eq_Inr Let_def
      split: if_splits pyval.splits)

lemma checked_axes_any:
  "checked_axes operator rank axes = Inr ns \<Longrightarrow> checked_axes operator' rank axes = Inr ns"
  by (auto simp: checked_axes_def Let_def split: if_splits)

definition no_override :: "(string \<times> pyval) list \<Rightarrow> bool" where
  "no_override metadata \<longleftrightarrow> list_all (\<lambda>k. map_of metadata k = None) [''_outputs'', ''_shape'', ''_dtype'']"

lemma output_specs_infer:
  "no_override metadata \<Longrightarrow> output_specs st operator inputs metadata a = infer_specs st operator inputs a"
  by (simp add: no_override_def output_specs_def dget_def)

text \<open>Which inference an operator name selects.\<close>

lemma infer_specs_select:
  "infer_specs st ''Reshape'' i a = infer_reshape st i a"
  "infer_specs st ''Squeeze'' i a = infer_squeeze st i"
  "infer_specs st ''Unsqueeze'' i a = infer_unsqueeze st i"
  "infer_specs st ''Split'' i a = infer_split st i a"
  "infer_specs st ''VariadicSplit'' i a = infer_variadic_split st i"
  "infer_specs st ''Slice'' i a = infer_slice st i"
  "infer_specs st ''Pad'' i a = infer_pad st i a"
  "infer_specs st ''Gather'' i a = infer_gather st i a"
  "i \<noteq> [] \<Longrightarrow> infer_specs st ''Concat'' i a = infer_concat i a"
  "infer_specs st ''Transpose'' [d, t] a = infer_transpose st d t"
  by (simp_all add: infer_specs_def same_spec_unary_def same_spec_binary_def)

lemma spec_of_wf: "wf_shape s \<Longrightarrow> d \<in> set tensor_dtypes \<Longrightarrow> spec_of s d = Inr \<lparr>ts_shape = s, ts_dtype = d\<rparr>"
  by (simp add: spec_of_def)

lemma spec_of_dtype:
  "spec_of s (ts_dtype t) = Inr u \<Longrightarrow> wf_spec t \<Longrightarrow> wf_shape s \<and> u = \<lparr>ts_shape = s, ts_dtype = ts_dtype t\<rparr>"
  using spec_of_Inr [of s "ts_dtype t" u] spec_of_wf [of s "ts_dtype t"] by (auto simp: wf_spec_def)

lemma infer_squeeze_elements:
  "infer_squeeze st [data, t] = Inr specs \<Longrightarrow> wf_spec (t_spec data) \<Longrightarrow>
   \<exists>s. specs = [\<lparr>ts_shape = s, ts_dtype = t_dtype data\<rparr>] \<and> prod_list s = prod_list (t_shape data)"
  by (auto simp: infer_squeeze_def bind_res_eq_Inr Let_def one_spec_Inr squeeze_elements
      dest!: spec_of_dtype split: if_splits)

lemma infer_unsqueeze_elements:
  assumes "infer_unsqueeze st [data, t] = Inr specs" and wf: "wf_spec (t_spec data)"
  shows "\<exists>s. specs = [\<lparr>ts_shape = s, ts_dtype = t_dtype data\<rparr>] \<and> prod_list s = prod_list (t_shape data)"
proof -
  let ?src = "t_shape data"
  from assms(1) obtain axes ins s u where ins: "checked_axes ''Unsqueeze'' (length ?src + length axes) axes = Inr ins"
    and s: "unsqueeze_shape ins [0..<length ?src + length axes] ?src = Inr s"
    and u: "spec_of s (t_dtype data) = Inr u" "specs = [u]"
    by (auto simp: infer_unsqueeze_def bind_res_eq_Inr Let_def one_spec_Inr split: if_splits)
  have axes: "distinct ins" "set ins \<subseteq> {..<length ?src + length ins}" "length ins = length axes"
    using checked_axes_Inr [OF ins] by auto
  from unsqueeze_then_squeeze [OF axes(1,2)] s axes(3)
  have "\<forall>a \<in> set ins. s ! a = 1" and "squeeze_shape s ins = ?src" by auto
  then have "prod_list s = prod_list ?src"
    using squeeze_elements [of s ins] by (simp add: list_ex_iff)
  with spec_of_dtype [OF u(1) wf] u(2) show ?thesis by auto
qed

lemma infer_reshape_elements:
  "infer_reshape st [data, t] a = Inr specs \<Longrightarrow> wf_spec (t_spec data) \<Longrightarrow>
   \<exists>s. specs = [\<lparr>ts_shape = s, ts_dtype = t_dtype data\<rparr>] \<and> prod_list s = prod_list (t_shape data)"
  by (auto simp: infer_reshape_def bind_res_eq_Inr one_spec_Inr dest!: spec_of_dtype
      dest: reshape_shape_elements)

lemma infer_transpose_elements:
  "infer_transpose st data t = Inr specs \<Longrightarrow> wf_spec (t_spec data) \<Longrightarrow>
   \<exists>s. specs = [\<lparr>ts_shape = s, ts_dtype = t_dtype data\<rparr>] \<and> prod_list s = prod_list (t_shape data)"
  by (auto simp: infer_transpose_def bind_res_eq_Inr one_spec_Inr dest!: spec_of_dtype
      intro!: mset_prod_list permuted_shape split: if_splits)

text \<open>C10 The operators that only rearrange elements keep their number: whatever \<open>Reshape\<close>,
  \<open>Transpose\<close>, \<open>Squeeze\<close> and \<open>Unsqueeze\<close> infer is one tensor with as many elements as the data
  tensor, and of its element type.\<close>

theorem rearranging_keeps_elements:
  assumes "output_specs st operator [data, arg] metadata a = Inr specs" and "no_override metadata"
    and "operator \<in> {''Reshape'', ''Transpose'', ''Squeeze'', ''Unsqueeze''}" and "wf_spec (t_spec data)"
  shows "\<exists>s. specs = [\<lparr>ts_shape = s, ts_dtype = t_dtype data\<rparr>] \<and> prod_list s = prod_list (t_shape data)"
  using assms(1,3,4) unfolding output_specs_infer [OF assms(2)]
  by (auto simp: infer_specs_select dest: infer_reshape_elements infer_transpose_elements
      infer_squeeze_elements infer_unsqueeze_elements)

text \<open>Inserting axes and removing the same axes again gives back the spec: when the axes are
  valid for the larger rank, \<open>Unsqueeze\<close> infers a spec (its generator never runs dry), and
  \<open>Squeeze\<close> with the same axes tensor infers the original spec from it.\<close>

theorem unsqueeze_squeeze_roundtrip:
  assumes wf: "wf_spec (t_spec data)" and data: "t_shape data \<noteq> []" and axes: "axes \<noteq> []"
    and const: "constant_integer_vector st axes_tensor ''Unsqueeze'' ''axes'' = Inr axes"
    and ns: "checked_axes ''Unsqueeze'' (length (t_shape data) + length axes) axes = Inr ns"
  shows "\<exists>spec. output_specs st ''Unsqueeze'' [data, axes_tensor] [] a = Inr [spec] \<and>
    (\<forall>wide. t_spec wide = spec \<longrightarrow>
      output_specs st ''Squeeze'' [wide, axes_tensor] [] a = Inr [t_spec data])"
proof -
  have n: "distinct ns" "set ns \<subseteq> {..<length (t_shape data) + length ns}" "length ns = length axes"
    using checked_axes_Inr [OF ns] by auto
  obtain out where out: "unsqueeze_shape ns [0..<length (t_shape data) + length axes] (t_shape data) = Inr out"
    and len: "length out = length (t_shape data) + length axes"
    and ones: "\<forall>i \<in> set ns. out ! i = 1" and undo: "squeeze_shape out ns = t_shape data"
    using unsqueeze_then_squeeze [OF n(1,2)] n(3) by metis
  have wfd: "wf_shape (t_shape data)" "t_dtype data \<in> set tensor_dtypes"
    using wf by (simp_all add: wf_spec_def)
  have "wf_shape out"
    unfolding wf_shape_def list_all_length
  proof (intro allI impI)
    fix i assume i: "i < length out"
    show "0 < out ! i"
    proof (cases "i \<in> set ns")
      case False
      with i have "(i, out ! i) \<in> set (filter (\<lambda>(i, _). i \<notin> set ns) (enum out))"
        by (simp add: in_set_enum)
      then have "out ! i \<in> set (squeeze_shape out ns)" by (force simp: squeeze_shape_def)
      with undo wfd(1) show ?thesis by (simp add: wf_shape_def list_all_iff)
    qed (use ones in simp)
  qed
  with out axes const ns wfd
  have "infer_unsqueeze st [data, axes_tensor] = Inr [\<lparr>ts_shape = out, ts_dtype = t_dtype data\<rparr>]"
    by (simp add: infer_unsqueeze_def one_spec_def spec_of_wf)
  moreover have "infer_squeeze st [wide, axes_tensor] = Inr [t_spec data]"
    if "t_spec wide = \<lparr>ts_shape = out, ts_dtype = t_dtype data\<rparr>" for wide
    using that axes constant_integer_vector_any [OF const] checked_axes_any [OF ns] len ones undo wfd data
    by (simp add: infer_squeeze_def one_spec_def spec_of_wf list_ex_iff)
  ultimately show ?thesis
    by (auto simp: output_specs_infer no_override_def infer_specs_select)
qed

section \<open>Splitting and concatenating\<close>

lemma checked_axis_Inr:
  "checked_axis oper rank axis = Inr k \<Longrightarrow> k < rank \<and> norm_axis rank axis = int k"
  by (auto simp: checked_axis_def Let_def split: if_splits)

text \<open>Parts that differ from a shape along one axis only.\<close>

definition parts_of :: "tensor_spec \<Rightarrow> nat \<Rightarrow> int list \<Rightarrow> tensor_spec list" where
  "parts_of spec k ls = map (\<lambda>l. spec\<lparr>ts_shape := (ts_shape spec)[k := l]\<rparr>) ls"

lemma concat_step_part:
  "k < length s \<Longrightarrow> t_shape v = s[k := l] \<Longrightarrow>
   concat_step k (s[k := l']) v acc = Inr (acc[k := acc ! k + l])"
  by (auto simp: concat_step_def list_ex_iff in_set_enum)

lemma concat_fold_parts:
  assumes "k < length s" and "k < length acc"
  shows "map t_shape vs = map (\<lambda>l. s[k := l]) ls \<Longrightarrow>
    fold_res (concat_step k (s[k := l'])) vs acc = Inr (acc[k := acc ! k + sum_list ls])"
  using assms(2)
proof (induction vs arbitrary: ls acc)
  case (Cons v vs)
  then obtain l ls' where ls: "ls = l # ls'" "t_shape v = s[k := l]" "map t_shape vs = map (\<lambda>l. s[k := l]) ls'"
    by (cases ls) auto
  have "concat_step k (s[k := l']) v acc = Inr (acc[k := acc ! k + l])"
    using assms(1) ls(2) by (rule concat_step_part)
  with Cons.IH [OF ls(3), of "acc[k := acc ! k + l]"] Cons.prems(2) ls(1) show ?case
    by (simp add: ac_simps)
qed simp

lemma concat_parts:
  assumes wf: "wf_spec spec" and k: "norm_axis (length (ts_shape spec)) axis = int k" "k < length (ts_shape spec)"
    and vs: "map t_spec vs = parts_of spec k ls" and ls: "ls \<noteq> []" "sum_list ls = ts_shape spec ! k"
  shows "infer_concat vs [(''axis'', PInt axis)] = Inr [spec]"
proof -
  let ?s = "ts_shape spec"
  have shapes: "map t_shape vs = map (\<lambda>l. ?s[k := l]) ls"
    using arg_cong [OF vs, of "map ts_shape"] by (simp add: parts_of_def comp_def)
  have part: "\<exists>l. t_spec v = spec\<lparr>ts_shape := ?s[k := l]\<rparr>" if "v \<in> set vs" for v
    using arg_cong [OF vs, of set] that by (auto simp: parts_of_def set_eq_iff image_iff)
  have dtypes: "\<forall>v \<in> set vs. t_dtype v = ts_dtype spec" and ranks: "\<forall>v \<in> set vs. length (t_shape v) = length ?s"
    using part by (metis tensor_spec.select_convs(2) tensor_spec.surjective tensor_spec.update_convs(1),
        metis length_list_update tensor_spec.select_convs(1) tensor_spec.surjective tensor_spec.update_convs(1))
  obtain l0 rest v0 vs' where l0: "ls = l0 # rest" and v0: "vs = v0 # vs'"
    using ls(1) shapes by (cases ls; cases vs) auto
  have s0: "t_shape v0 = ?s[k := l0]" using shapes l0 v0 by simp
  have "fold_res (concat_step k (?s[k := l0])) vs (?s[k := l0, k := 0]) = Inr (?s[k := sum_list ls])"
    using concat_fold_parts [OF k(2) _ shapes, of "?s[k := l0, k := 0]" l0] k(2) by simp
  with ls(2) have f: "fold_res (concat_step k (?s[k := l0])) vs ((?s[k := l0])[k := 0]) = Inr ?s"
    by simp
  have ok: "\<not> list_ex (\<lambda>v. t_dtype v \<noteq> t_dtype v0 \<or> length (t_shape v) \<noteq> length ?s) vs'"
    using dtypes ranks v0 by (auto simp: list_ex_iff)
  have "spec_of ?s (t_dtype v0) = Inr spec"
    using dtypes v0 wf by (simp add: spec_of_def TensorSpec_of_fields)
  then show ?thesis
    using k f ok v0 s0
    by (simp add: infer_concat_def dget_def Let_def one_spec_def)
qed

lemma sum_list_update_int:
  "k < length xs \<Longrightarrow> sum_list (xs[k := v]) = sum_list xs - xs ! k + (v :: int)"
proof (induction xs arbitrary: k)
  case (Cons x xs)
  then show ?case by (cases k) auto
qed simp

lemma filter_positive_sum:
  "(\<And>l. l \<in> set ls \<Longrightarrow> 0 < l \<or> l = -1) \<Longrightarrow>
   sum_list (filter (\<lambda>l. 0 < l) ls) = sum_list ls + int (length (filter (\<lambda>l. l = -1) ls))"
  by (induction ls) fastforce+

lemma length_filter_enum: "length (filter (\<lambda>(_, l). P l) (List.enumerate n ls)) = length (filter P ls)"
  by (induction ls arbitrary: n) auto

lemma split_lengths_sum:
  assumes "split_lengths n ls = Inr ks"
  shows "ks \<noteq> [] \<and> sum_list ks = n"
proof -
  let ?inferred = "filter (\<lambda>(_, l). l = -1) (enum ls)"
  from assms have one: "length ?inferred \<le> 1" and valid: "\<And>l. l \<in> set ls \<Longrightarrow> 0 < l \<or> l = -1" and ne: "ls \<noteq> []"
    by (force simp: split_lengths_def Let_def list_ex_iff split: if_splits)+
  have sum: "sum_list (filter (\<lambda>l. 0 < l) ls) = sum_list ls + int (length ?inferred)"
    using filter_positive_sum [OF valid] by (simp add: length_filter_enum [of "\<lambda>l. l = -1"])
  show ?thesis
  proof (cases ?inferred)
    case Nil
    with assms sum ne show ?thesis by (auto simp: split_lengths_def Let_def split: if_splits)
  next
    case (Cons p ps)
    with one have p: "?inferred = [p]" by simp
    then have "p \<in> set ?inferred" by simp
    then have i: "fst p < length ls" "ls ! fst p = -1" by (auto simp: in_set_enum)
    have "ks = ls[fst p := n - sum_list (filter (\<lambda>l. 0 < l) ls)]"
      using assms p by (auto simp: split_lengths_def Let_def split: if_splits)
    with i p sum ne show ?thesis by (auto simp: sum_list_update_int)
  qed
qed

lemma map_res_spec_of:
  assumes "map_res (\<lambda>x. spec_of (f x) (ts_dtype spec)) xs = Inr specs" and "wf_spec spec"
  shows "specs = map (\<lambda>x. \<lparr>ts_shape = f x, ts_dtype = ts_dtype spec\<rparr>) xs"
  using map_res_length [OF assms(1)] spec_of_dtype [OF map_res_nth [OF assms(1)] assms(2)]
  by (auto intro!: nth_equalityI)

lemma constant_integer_scalar_any:
  "constant_integer_scalar st t operator role = Inr v \<Longrightarrow> constant_integer_scalar st t operator' role' = Inr v"
  by (auto simp: constant_integer_scalar_def constant_array_def bind_res_eq_Inr Let_def from_option_eq_Inr
      split: if_splits pyval.splits)

lemma splits_are_parts:
  assumes split: "operator = ''Split'' \<or> operator = ''VariadicSplit''"
    and specs: "infer_specs st operator (data # axis_tensor # rest) a = Inr specs"
    and wf: "wf_spec (t_spec data)"
    and axis: "constant_integer_scalar st axis_tensor operator ''axis'' = Inr axis"
  obtains k ls where "norm_axis (length (t_shape data)) axis = int k" and "k < length (t_shape data)"
    and "specs = parts_of (t_spec data) k ls" and "ls \<noteq> []" and "sum_list ls = t_shape data ! k"
  using split
proof
  assume o: "operator = ''Split''"
  with specs have "infer_split st (data # axis_tensor # rest) a = Inr specs" by (simp add: infer_specs_select)
  then obtain k m where k: "checked_axis ''Split'' (length (t_shape data)) axis = Inr k"
    and m: "0 < m" "t_shape data ! k mod m = 0"
    and r: "map_res (\<lambda>_. spec_of ((t_shape data)[k := t_shape data ! k div m]) (t_dtype data)) [0..<nat m] = Inr specs"
    using axis o by (auto elim!: infer_split_InrD)
  have "specs = parts_of (t_spec data) k (replicate (nat m) (t_shape data ! k div m))"
    using map_res_spec_of [OF r wf] by (simp add: parts_of_def map_replicate_const)
  moreover have "sum_list (replicate (nat m) (t_shape data ! k div m)) = t_shape data ! k"
    using m mult_div_mod_eq [of m "t_shape data ! k"] by (simp add: sum_list_replicate)
  moreover have "replicate (nat m) (t_shape data ! k div m) \<noteq> []" using m by simp
  ultimately show thesis using that checked_axis_Inr [OF k] by blast
next
  assume o: "operator = ''VariadicSplit''"
  with specs axis obtain k ls where k: "checked_axis ''VariadicSplit'' (length (t_shape data)) axis = Inr k"
    and ls: "\<exists>given. split_lengths (t_shape data ! k) given = Inr ls"
    and r: "map_res (\<lambda>l. spec_of (take k (t_shape data) @ [l] @ drop (Suc k) (t_shape data)) (t_dtype data)) ls
      = Inr specs"
    by (auto simp: infer_specs_select infer_variadic_split_def bind_res_eq_Inr split: list.splits)
  have k': "k < length (t_shape data)" using checked_axis_Inr [OF k] by simp
  have "specs = parts_of (t_spec data) k ls"
    using map_res_spec_of [OF r wf] k' by (simp add: parts_of_def upd_conv_take_nth_drop)
  with ls split_lengths_sum that checked_axis_Inr [OF k] show thesis by blast
qed

text \<open>C11 Concatenating the outputs that \<open>Split\<close> or \<open>VariadicSplit\<close> infer, along the axis they were
  split on, infers the spec of the tensor that was split: no element is lost or duplicated, an
  inferred length included.\<close>

theorem split_concat_roundtrip:
  assumes split: "operator = ''Split'' \<or> operator = ''VariadicSplit''"
    and specs: "output_specs st operator (data # axis_tensor # rest) [] a = Inr specs"
    and wf: "wf_spec (t_spec data)"
    and axis: "constant_integer_scalar st axis_tensor operator ''axis'' = Inr axis"
    and parts: "map t_spec parts = specs"
  shows "output_specs st' ''Concat'' parts [] [(''axis'', PInt axis)] = Inr [t_spec data]"
proof -
  have "infer_specs st operator (data # axis_tensor # rest) a = Inr specs"
    using specs by (simp add: output_specs_infer no_override_def)
  from splits_are_parts [OF split this wf axis]
  obtain k ls where k: "norm_axis (length (t_shape data)) axis = int k" "k < length (t_shape data)"
    and ls: "map t_spec parts = parts_of (t_spec data) k ls" "ls \<noteq> []" "sum_list ls = t_shape data ! k"
    using parts by metis
  then have "parts \<noteq> []" by (auto simp: parts_of_def)
  with concat_parts [OF wf k ls] show ?thesis
    by (simp add: output_specs_infer no_override_def infer_specs_select)
qed

section \<open>Slices\<close>

text \<open>The positions a slice selects.\<close>

definition slice_positions :: "int \<Rightarrow> int \<Rightarrow> int \<Rightarrow> int set" where
  "slice_positions start stop step = {i. start \<le> i \<and> i < stop \<and> step dvd (i - start)}"

lemma range_length_card:
  assumes "0 < step"
  shows "range_length start stop step = int (card (slice_positions start stop step))"
proof (cases "start < stop")
  case False
  then have "slice_positions start stop step = {}" by (auto simp: slice_positions_def)
  with False show ?thesis by (simp add: range_length_def)
next
  case True
  let ?m = "(stop - start - 1) div step"
  have "slice_positions start stop step = (\<lambda>k. start + k * step) ` {0..?m}"
  proof (intro set_eqI iffI)
    fix i assume "i \<in> slice_positions start stop step"
    then obtain k where k: "i = start + k * step" "start \<le> i" "i < stop"
      by (auto simp: slice_positions_def dvd_def algebra_simps)
    then have "0 \<le> k" using assms by (simp add: zero_le_mult_iff)
    moreover have "k * step div step \<le> ?m" using k assms by (intro zdiv_mono1) auto
    ultimately have "0 \<le> k" "k \<le> ?m" using assms by auto
    with k show "i \<in> (\<lambda>k. start + k * step) ` {0..?m}" by auto
  next
    fix i assume "i \<in> (\<lambda>k. start + k * step) ` {0..?m}"
    then obtain k where k: "i = start + k * step" "0 \<le> k" "k \<le> ?m"
      by (auto simp only: image_iff atLeastAtMost_iff)
    have "k * step \<le> stop - start - 1"
      using mult_right_mono [OF k(3), of step] assms div_mult_mod_eq [of "stop - start - 1" step]
        pos_mod_sign [OF assms, of "stop - start - 1"] by linarith
    with k assms show "i \<in> slice_positions start stop step" by (simp add: slice_positions_def)
  qed
  moreover have "inj_on (\<lambda>k. start + k * step) {0..?m}" using assms by (auto simp: inj_on_def)
  moreover have "0 \<le> ?m" using True assms by (simp add: pos_imp_zdiv_nonneg_iff)
  ultimately show ?thesis using True by (simp add: range_length_def card_image)
qed

lemma slice_bound_range: "0 < n \<Longrightarrow> 0 \<le> slice_bound n b \<and> slice_bound n b \<le> n"
  by (auto simp: slice_bound_def)

definition slice_dimension :: "int \<Rightarrow> int \<Rightarrow> int \<Rightarrow> int \<Rightarrow> int" where
  "slice_dimension n start stop step = range_length (slice_bound n start) (slice_bound n stop) step"

lemma slice_fold:
  assumes "fold_res (slice_step shape) ps acc = Inr out"
    and "distinct (map (\<lambda>(_, _, _, k). k) ps)" and "\<forall>(_, _, _, k) \<in> set ps. k < length acc"
  shows "length out = length acc \<and> (\<forall>(b, e, t, k) \<in> set ps. out ! k = slice_dimension (shape ! k) b e t) \<and>
    (\<forall>k. k \<notin> (\<lambda>(_, _, _, k). k) ` set ps \<longrightarrow> out ! k = acc ! k)"
  using assms
proof (induction ps arbitrary: acc)
  case (Cons p ps)
  obtain b e t k where p: "p = (b, e, t, k)" by (cases p)
  let ?acc = "acc[k := slice_dimension (shape ! k) b e t]"
  have r: "fold_res (slice_step shape) ps ?acc = Inr out"
    using Cons.prems(1) by (auto simp: p slice_step_def slice_dimension_def res_simps Let_def split: if_splits)
  have k: "k < length acc" "k \<notin> (\<lambda>(_, _, _, k). k) ` set ps" using Cons.prems(2,3) by (auto simp: p)
  from Cons.IH [OF r] Cons.prems(2,3) have "length out = length acc"
    "\<forall>(b, e, t, k) \<in> set ps. out ! k = slice_dimension (shape ! k) b e t"
    "\<forall>j. j \<notin> (\<lambda>(_, _, _, k). k) ` set ps \<longrightarrow> out ! j = ?acc ! j"
    by auto
  with k show ?case by (auto simp: p nth_list_update)
qed simp

text \<open>C12 \<open>Slice\<close> infers, along each listed axis, the number of positions inside the tensor that the
  slice selects (bounds counted from the end when negative and clipped to the dimension), and
  leaves every other dimension as it is.\<close>

theorem slice_counts_positions:
  assumes specs: "output_specs st ''Slice'' [data, b_t, e_t, s_t, k_t] [] a = Inr specs"
    and wf: "wf_spec (t_spec data)"
    and b: "constant_integer_vector st b_t ''Slice'' ''starts'' = Inr starts"
    and e: "constant_integer_vector st e_t ''Slice'' ''stops'' = Inr stops"
    and s: "constant_integer_vector st s_t ''Slice'' ''steps'' = Inr steps"
    and x: "constant_integer_vector st k_t ''Slice'' ''axes'' = Inr axes"
  shows "\<exists>shape axis. specs = [\<lparr>ts_shape = shape, ts_dtype = t_dtype data\<rparr>] \<and>
    length shape = length (t_shape data) \<and> axis = map (\<lambda>k. nat (norm_axis (length shape) k)) axes \<and>
    distinct axis \<and>
    (\<forall>j < length axes. let n = t_shape data ! (axis ! j);
       selected = slice_positions (slice_bound n (starts ! j)) (slice_bound n (stops ! j)) (steps ! j)
       in axis ! j < length shape \<and> selected \<subseteq> {0..<n} \<and> shape ! (axis ! j) = int (card selected)) \<and>
    (\<forall>k < length shape. k \<notin> set axis \<longrightarrow> shape ! k = t_shape data ! k)"
proof -
  let ?d = "t_shape data"
  have "infer_slice st [data, b_t, e_t, s_t, k_t] = Inr specs"
    using specs by (simp add: output_specs_infer no_override_def infer_specs_select)
  then obtain axis shape where lens: "length starts = length stops" "length stops = length steps" "length steps = length axes"
    and pos: "\<forall>t \<in> set steps. 0 < t"
    and axis: "checked_axes ''Slice'' (length ?d) axes = Inr axis"
    and fold: "fold_res (slice_step ?d) (zip starts (zip stops (zip steps axis))) ?d = Inr shape"
    and one: "one_spec (spec_of shape (t_dtype data)) = Inr specs"
    by (auto simp: infer_slice_def b e s x bind_res_eq_Inr list_ex_iff not_le split: if_splits)
  let ?ps = "zip starts (zip stops (zip steps axis))"
  have ax: "distinct axis" "set axis \<subseteq> {..<length ?d}" "length axis = length axes"
    using checked_axes_Inr [OF axis] by auto
  have ks: "map (\<lambda>(_, _, _, k). k) ?ps = axis"
    using lens ax(3) by (auto intro!: nth_equalityI)
  then have kset: "(\<lambda>(_, _, _, k). k) ` set ?ps = set axis" by (metis list.set_map)
  have "\<forall>(_, _, _, k) \<in> set ?ps. k < length ?d" using kset ax(2) by (force simp: image_iff)
  from slice_fold [OF fold _ this] ks ax(1) have f: "length shape = length ?d"
      "\<And>b e t k. (b, e, t, k) \<in> set ?ps \<Longrightarrow> shape ! k = slice_dimension (?d ! k) b e t"
      "\<forall>k. k \<notin> set axis \<longrightarrow> shape ! k = ?d ! k"
    unfolding kset by auto
  have sel: "slice_positions (slice_bound n u) (slice_bound n v) t \<subseteq> {0..<n}" if "0 < n" for n u v t
    using slice_bound_range [OF that, of u] slice_bound_range [OF that, of v] by (auto simp: slice_positions_def)
  have "let n = ?d ! (axis ! j);
       selected = slice_positions (slice_bound n (starts ! j)) (slice_bound n (stops ! j)) (steps ! j)
       in axis ! j < length shape \<and> selected \<subseteq> {0..<n} \<and> shape ! (axis ! j) = int (card selected)"
    if "j < length axes" for j
  proof -
    have "(starts ! j, stops ! j, steps ! j, axis ! j) \<in> set ?ps"
      using that lens ax(3) by (auto simp: set_zip)
    from f(2) [OF this] have "shape ! (axis ! j) = slice_dimension (?d ! (axis ! j)) (starts ! j) (stops ! j) (steps ! j)" .
    moreover have "0 < steps ! j" using pos that lens by simp
    moreover have "axis ! j < length ?d" using ax(2,3) that by (metis lessThan_iff nth_mem subsetD)
    ultimately show ?thesis
      using sel [OF wf_shape_nth] wf f(1) by (simp add: Let_def slice_dimension_def range_length_card wf_spec_def)
  qed
  moreover have "axis = map (\<lambda>k. nat (norm_axis (length shape) k)) axes"
    using checked_axes_map [OF axis] f(1) by simp
  moreover have "specs = [\<lparr>ts_shape = shape, ts_dtype = t_dtype data\<rparr>]"
    using one wf by (auto simp: one_spec_Inr dest: spec_of_dtype)
  ultimately show ?thesis using ax(1) f(1,3) by blast
qed

section \<open>Broadcasting\<close>

definition compatible_dims :: "int \<times> int \<Rightarrow> bool" where
  "compatible_dims = (\<lambda>(l, r). l = r \<or> l = 1 \<or> r = 1)"

lemma broadcast_rev_pad:
  "broadcast_rev ls rs =
    (let n = max (length ls) (length rs);
         ps = zip (ls @ replicate (n - length ls) 1) (rs @ replicate (n - length rs) 1)
     in if list_all compatible_dims ps then Inr (map (\<lambda>(l, r). max l r) ps)
        else Inl (ValueError ''custom() cannot infer a broadcast output shape''))"
  by (induction ls rs rule: broadcast_rev.induct) (auto simp: Let_def compatible_dims_def)

definition left_padded :: "nat \<Rightarrow> int list \<Rightarrow> int list" where
  "left_padded n s = replicate (n - length s) 1 @ s"

text \<open>The output shape \<open>custom\<close> infers for a binary carrier is NumPy's: both shapes are padded
  with ones on the left to the larger rank, every pair of dimensions must be equal or contain a
  one, and the result takes the larger of each pair; every other pair of shapes is refused.\<close>

theorem broadcast_shape_numpy:
  "broadcast_shape l r =
    (let n = max (length l) (length r); ps = zip (left_padded n l) (left_padded n r)
     in if list_all compatible_dims ps then Inr (map (\<lambda>(x, y). max x y) ps)
        else Inl (ValueError ''custom() cannot infer a broadcast output shape''))"
proof -
  let ?n = "max (length l) (length r)"
  have "zip (rev l @ replicate (?n - length l) 1) (rev r @ replicate (?n - length r) 1) =
      rev (zip (left_padded ?n l) (left_padded ?n r))"
    by (subst zip_rev [symmetric]) (auto simp: left_padded_def)
  then show ?thesis
    by (simp add: broadcast_shape_def broadcast_rev_pad Let_def list_all_rev rev_map)
qed

section \<open>Examples\<close>

text \<open>A store with a data tensor of shape \<open>(2, 6)\<close> and integer constants.\<close>

definition int_const :: "nat list \<Rightarrow> int list \<Rightarrow> node" where
  "int_const shape ints = \<lparr>n_op = ''Const'', n_inputs = [], n_attrs = [],
     n_output_specs = [\<lparr>ts_shape = map int shape, ts_dtype = ''i64''\<rparr>], n_name = None,
     n_metadata = [(''kind'', PStr ''constant''), (''value'', PArray \<lparr>nd_shape = shape, nd_dtype = ''int64'',
       nd_kind = ''i'', nd_ints = ints, nd_bytes = []\<rparr>)]\<rparr>"

definition shape_store :: store where
  "shape_store =
    [\<lparr>n_op = ''Parameter'', n_inputs = [], n_attrs = [], n_output_specs = [\<lparr>ts_shape = [2, 6], ts_dtype = ''f16''\<rparr>],
      n_name = Some ''x'', n_metadata = [(''kind'', PStr ''input'')]\<rparr>,
     int_const [2] [3, -1], int_const [] [1], int_const [1] [1], int_const [1] [-1], int_const [1] [2]]"

definition shape_tensor :: "nat \<Rightarrow> tensor" where
  "shape_tensor i = hd (node_outputs i (node_at shape_store i))"

theorem rearranging_keeps_elements_witness:
  "output_specs shape_store ''Reshape'' [shape_tensor 0, shape_tensor 1] [] [(''special_zero'', PBool False)]
     = Inr [\<lparr>ts_shape = [3, 4], ts_dtype = ''f16''\<rparr>] \<and> prod_list [3, 4] = prod_list (t_shape (shape_tensor 0))"
proof -
  have o: "output_specs shape_store ''Reshape'' [shape_tensor 0, shape_tensor 1] [] [(''special_zero'', PBool False)]
     = Inr [\<lparr>ts_shape = [3, 4], ts_dtype = ''f16''\<rparr>]" by code_simp
  have n: "no_override []" by code_simp
  have w: "wf_spec (t_spec (shape_tensor 0))" by code_simp
  from rearranging_keeps_elements [OF o n _ w] o show ?thesis by simp
qed

theorem unsqueeze_squeeze_roundtrip_witness:
  "\<exists>spec. output_specs shape_store ''Unsqueeze'' [shape_tensor 0, shape_tensor 4] [] [] = Inr [spec] \<and>
    ts_shape spec = [2, 6, 1] \<and>
    output_specs shape_store ''Squeeze'' [(shape_tensor 0)\<lparr>t_spec := spec\<rparr>, shape_tensor 4] [] []
      = Inr [t_spec (shape_tensor 0)]"
proof -
  have w: "wf_spec (t_spec (shape_tensor 0))" by code_simp
  have d: "t_shape (shape_tensor 0) \<noteq> []" by code_simp
  have x: "[- 1] \<noteq> ([] :: int list)" by simp
  have c: "constant_integer_vector shape_store (shape_tensor 4) ''Unsqueeze'' ''axes'' = Inr [-1]" by code_simp
  have n: "checked_axes ''Unsqueeze'' (length (t_shape (shape_tensor 0)) + length [- 1 :: int]) [-1] = Inr [2]"
    by code_simp
  have u: "output_specs shape_store ''Unsqueeze'' [shape_tensor 0, shape_tensor 4] [] []
      = Inr [\<lparr>ts_shape = [2, 6, 1], ts_dtype = ''f16''\<rparr>]" by code_simp
  from unsqueeze_squeeze_roundtrip [OF w d x c n, of "[]"] u show ?thesis by auto
qed

theorem split_concat_roundtrip_witness:
  "\<exists>specs. output_specs shape_store ''VariadicSplit'' [shape_tensor 0, shape_tensor 2, shape_tensor 1] [] [] = Inr specs \<and>
    map ts_shape specs = [[2, 3], [2, 3]] \<and>
    output_specs [] ''Concat'' (map (\<lambda>s. (shape_tensor 0)\<lparr>t_spec := s\<rparr>) specs) [] [(''axis'', PInt 1)]
      = Inr [t_spec (shape_tensor 0)]"
proof -
  let ?specs = "replicate 2 \<lparr>ts_shape = [2, 3], ts_dtype = ''f16''\<rparr>"
  have o: "output_specs shape_store ''VariadicSplit'' [shape_tensor 0, shape_tensor 2, shape_tensor 1] [] [] = Inr ?specs"
    by code_simp
  have w: "wf_spec (t_spec (shape_tensor 0))" by code_simp
  have c: "constant_integer_scalar shape_store (shape_tensor 2) ''VariadicSplit'' ''axis'' = Inr 1" by code_simp
  have p: "map t_spec (map (\<lambda>s. (shape_tensor 0)\<lparr>t_spec := s\<rparr>) ?specs) = ?specs" by simp
  from split_concat_roundtrip [OF _ o w c p, of "[]"] o show ?thesis by (auto simp: numeral_2_eq_2)
qed

theorem slice_counts_positions_witness:
  "\<exists>shape. output_specs shape_store ''Slice'' [shape_tensor 0, shape_tensor 3, shape_tensor 4, shape_tensor 5, shape_tensor 3]
      [] [] = Inr [\<lparr>ts_shape = shape, ts_dtype = ''f16''\<rparr>] \<and> shape = [2, 2] \<and>
    2 = int (card (slice_positions (slice_bound 6 1) (slice_bound 6 (- 1)) 2))"
proof -
  have o: "output_specs shape_store ''Slice'' [shape_tensor 0, shape_tensor 3, shape_tensor 4, shape_tensor 5, shape_tensor 3]
      [] [] = Inr [\<lparr>ts_shape = [2, 2], ts_dtype = ''f16''\<rparr>]" by code_simp
  have w: "wf_spec (t_spec (shape_tensor 0))" by code_simp
  have b: "constant_integer_vector shape_store (shape_tensor 3) ''Slice'' ''starts'' = Inr [1]" by code_simp
  have e: "constant_integer_vector shape_store (shape_tensor 4) ''Slice'' ''stops'' = Inr [-1]" by code_simp
  have s: "constant_integer_vector shape_store (shape_tensor 5) ''Slice'' ''steps'' = Inr [2]" by code_simp
  have x: "constant_integer_vector shape_store (shape_tensor 3) ''Slice'' ''axes'' = Inr [1]" by code_simp
  have d: "t_spec (shape_tensor 0) = \<lparr>ts_shape = [2, 6], ts_dtype = ''f16''\<rparr>" by code_simp
  from slice_counts_positions [OF o w b e s x] o d show ?thesis
    by (auto simp: norm_axis_def Let_def)
qed

end
