(* ===== verification/Native.thy ===== *)
theory Native
  imports Values
begin

text \<open>
  The data classes of \<open>_native.py\<close>: patch targets of both contract versions with the checks of their
  \<open>__post_init__\<close>, compilation results, graph comparisons, per-group completeness and coverage
  reports with the names of their flags, exact relations and graph I/O symbols.
\<close>

unbundle bit_operations_syntax

section \<open>Patch targets\<close>

definition u32_max :: int where
  "u32_max = 0xFFFFFFFF"

definition u64_max :: int where
  "u64_max = 0xFFFFFFFFFFFFFFFF"

fun fits_u32 :: "pyval \<Rightarrow> bool" where
  "fits_u32 (PInt i) = (0 \<le> i \<and> i \<le> u32_max)"
| "fits_u32 _ = False"

fun positive_u64 :: "pyval \<Rightarrow> bool" where
  "positive_u64 (PInt i) = (0 < i \<and> i \<le> u64_max)"
| "positive_u64 _ = False"

fun int_of :: "pyval \<Rightarrow> int" where
  "int_of (PInt i) = i"
| "int_of _ = 0"

text \<open>The loops over the field names: the first field that does not fit raises.\<close>

fun check_fields :: "(pyval \<Rightarrow> bool) \<Rightarrow> string \<Rightarrow> (string \<times> pyval) list \<Rightarrow> unit res" where
  "check_fields ok message [] = Inr ()"
| "check_fields ok message ((name, v) # rest) =
     (if ok v then check_fields ok message rest else Inl (ValueError (name @ message)))"

definition PatchTarget :: "pyval \<Rightarrow> pyval \<Rightarrow> pyval \<Rightarrow> pyval \<Rightarrow> pyval \<Rightarrow> pyval \<Rightarrow> patch_target res" where
  "PatchTarget invocation_index range_index input_count element_count span_bytes contract_flags =
     bind_res (check_fields fits_u32 '' must fit uint32''
       [(''invocation_index'', invocation_index), (''range_index'', range_index), (''input_count'', input_count),
        (''contract_flags'', contract_flags)]) (\<lambda>_.
     bind_res (check_fields positive_u64 '' must be a positive uint64''
       [(''element_count'', element_count), (''span_bytes'', span_bytes)]) (\<lambda>_.
     if int_of input_count = 0 then Inl (ValueError ''input_count must be positive'')
     else Inr \<lparr>pt_invocation_index = int_of invocation_index, pt_range_index = int_of range_index,
       pt_input_count = int_of input_count, pt_element_count = int_of element_count,
       pt_span_bytes = int_of span_bytes, pt_contract_flags = int_of contract_flags\<rparr>))"

text \<open>\<open>v in {...}\<close> for a set of strings: an unhashable value raises \<open>TypeError\<close>.\<close>

fun hashable :: "pyval \<Rightarrow> bool" where
  "hashable (PList _) = False"
| "hashable (PDict _) = False"
| "hashable (PArray _) = False"
| "hashable (PTuple vs) = list_all hashable vs"
| "hashable _ = True"

definition in_strings :: "pyval \<Rightarrow> string list \<Rightarrow> bool res" where
  "in_strings v names =
     (if \<not> hashable v then Inl (TypeError ''unhashable type'')
      else Inr (case v of PStr s \<Rightarrow> s \<in> set names | _ \<Rightarrow> False))"

fun str_of :: "pyval \<Rightarrow> string" where
  "str_of (PStr s) = s"
| "str_of _ = ''''"

definition target_dtypes :: "string list" where
  "target_dtypes = [''f16'', ''f32'', ''u8'', ''u16'', ''u32'', ''i32'', ''i16'', ''i8'']"

definition PatchTensorContract ::
  "pyval \<Rightarrow> pyval \<Rightarrow> pyval \<Rightarrow> pyval \<Rightarrow> pyval \<Rightarrow> pyval \<Rightarrow> patch_tensor_contract res" where
  "PatchTensorContract role index dtype element_count span_bytes observed_flags =
     bind_res (in_strings role [''input'', ''output'']) (\<lambda>role_ok.
     if \<not> role_ok then Inl (ValueError ''tensor role must be input or output'')
     else bind_res (in_strings dtype target_dtypes) (\<lambda>dtype_ok.
     if \<not> dtype_ok then Inl (ValueError ''tensor dtype must be f16, f32, u8, u16, u32, i32, i16, or i8'')
     else bind_res (check_fields fits_u32 '' must fit uint32''
       [(''index'', index), (''observed_flags'', observed_flags)]) (\<lambda>_.
     bind_res (check_fields positive_u64 '' must be a positive uint64''
       [(''element_count'', element_count), (''span_bytes'', span_bytes)]) (\<lambda>_.
     Inr \<lparr>tc_role = str_of role, tc_index = int_of index, tc_dtype = str_of dtype,
       tc_element_count = int_of element_count, tc_span_bytes = int_of span_bytes,
       tc_observed_flags = int_of observed_flags\<rparr>))))"

text \<open>An element of \<open>tensors\<close> that is no \<open>PatchTensorContract\<close> is \<open>None\<close>.\<close>

definition PatchTargetV2 ::
  "pyval \<Rightarrow> pyval \<Rightarrow> patch_tensor_contract option list \<Rightarrow> pyval \<Rightarrow> patch_target_v2 res" where
  "PatchTargetV2 invocation_index range_index tensors target_flags =
     bind_res (check_fields fits_u32 '' must fit uint32''
       [(''invocation_index'', invocation_index), (''range_index'', range_index), (''target_flags'', target_flags)]) (\<lambda>_.
     if \<not> (2 \<le> length tensors \<and> length tensors \<le> 9) \<or> list_ex (\<lambda>t. t = None) tensors
     then Inl (ValueError ''version 2 targets require two to nine tensor contracts'')
     else Inr \<lparr>p2_invocation_index = int_of invocation_index, p2_range_index = int_of range_index,
       p2_tensors = map the tensors, p2_target_flags = int_of target_flags\<rparr>)"

definition v2_input_count :: "patch_target_v2 \<Rightarrow> int" where
  "v2_input_count t = int (length (filter (\<lambda>v. tc_role v = ''input'') (p2_tensors t)))"

definition v2_output :: "patch_target_v2 \<Rightarrow> patch_tensor_contract res" where
  "v2_output t =
     (case filter (\<lambda>v. tc_role v = ''output'') (p2_tensors t) of
        [tensor] \<Rightarrow> Inr tensor
      | _ \<Rightarrow> Inl (ValueError ''version 2 target must contain exactly one output''))"

section \<open>Results and reports\<close>

record ir_compile_result =
  ic_graph_blob :: bytes
  ic_driver_index :: int
  ic_device_index :: int
  ic_driver_version :: int
  ic_vendor_id :: int
  ic_device_id :: int
  ic_graph_extension_version :: int
  ic_compiler_version :: "int \<times> int"

record patch_result =
  pr_graph_blob :: bytes
  pr_report_json :: bytes

record graph_comparison =
  gc_mismatch_flags :: int
  gc_changed_group_indices :: "int list"
  gc_contract_stable :: bool
  gc_unique_changed_group :: bool

text \<open>\<open>tuple(name for flag, name in names.items() if flags & flag)\<close>\<close>

definition flag_names :: "string list \<Rightarrow> int \<Rightarrow> string list" where
  "flag_names names flags =
     map snd (filter (\<lambda>(i, _). flags AND push_bit i 1 \<noteq> 0) (enum names))"

definition comparison_mismatch_names :: "string list" where
  "comparison_mismatch_names =
    [''structure'', ''invocation_contract'', ''output_routing'', ''act_relations'', ''dpu'',
     ''act_dpu_relations'', ''partial_group_code_change'', ''dma'', ''act_dma_relations'',
     ''act_dma_dpu_relations'', ''act_dma_act_relations'', ''graph_io'']"

definition comparison_accepted :: "graph_comparison \<Rightarrow> bool" where
  "comparison_accepted c \<longleftrightarrow>
     gc_contract_stable c \<and> gc_unique_changed_group c \<and> length (gc_changed_group_indices c) = 1"

definition mismatch_names :: "graph_comparison \<Rightarrow> string list" where
  "mismatch_names c = flag_names comparison_mismatch_names (gc_mismatch_flags c)"

definition group_completeness_flag_names :: "string list" where
  "group_completeness_flag_names =
    [''output_symbol_ambiguous'', ''output_cover_unresolved'', ''route_ambiguous'', ''replica_unresolved'',
     ''invocation_unclassified'']"

record act_group_completeness =
  cm_group_index :: int
  cm_state :: string
  cm_output_symbol_raw :: int
  cm_invocation_count :: int
  cm_routed_invocation_count :: int
  cm_replica_invocation_count :: int
  cm_unresolved_invocation_count :: int
  cm_unresolved_flags :: int

definition completeness_observed :: "act_group_completeness \<Rightarrow> bool" where
  "completeness_observed c \<longleftrightarrow> cm_state c \<noteq> ''not_observed''"

definition completeness_complete :: "act_group_completeness \<Rightarrow> bool" where
  "completeness_complete c \<longleftrightarrow> cm_state c = ''complete''"

definition completeness_unresolved_names :: "act_group_completeness \<Rightarrow> string list" where
  "completeness_unresolved_names c = flag_names group_completeness_flag_names (cm_unresolved_flags c)"

definition act_consumer_flag_names :: "string list" where
  "act_consumer_flag_names = [''edge_ambiguous'', ''producer_unclassified'', ''input_duplicated'']"

definition dpu_consumer_flag_names :: "string list" where
  "dpu_consumer_flag_names =
    [''consumer_ambiguous'', ''invocation_unclassified'', ''slice_overlap'', ''union_mismatch'']"

definition dma_dpu_consumer_flag_names :: "string list" where
  "dma_dpu_consumer_flag_names =
    [''fanin_unresolved'', ''tile_set_unresolved'', ''input_ambiguous'', ''input_reused'']"

definition dma_act_consumer_flag_names :: "string list" where
  "dma_act_consumer_flag_names =
    [''source_unclassified'', ''source_ambiguous'', ''replica_unresolved'', ''ddr_cover_unresolved'',
     ''consumer_ambiguous'', ''reload_task_reused'']"

record act_group_coverage =
  cv_group_index :: int
  cv_invocation_count :: int
  cv_direct_output_state :: string
  cv_act_consumer_state :: string
  cv_dpu_consumer_state :: string
  cv_direct_output_unresolved_flags :: int
  cv_act_consumer_unresolved_flags :: int
  cv_dpu_consumer_unresolved_flags :: int
  cv_direct_routed_invocation_count :: int
  cv_direct_replica_invocation_count :: int
  cv_act_matched_invocation_count :: int
  cv_act_consumer_group_count :: int
  cv_act_consumer_input_count :: int
  cv_dpu_matched_invocation_count :: int
  cv_dpu_input_count :: int
  cv_dma_dpu_consumer_state :: string
  cv_dma_dpu_consumer_unresolved_flags :: int
  cv_dma_dpu_tile_count_expected :: int
  cv_dma_dpu_translated_tile_count :: int
  cv_dma_dpu_matched_input_count :: int
  cv_dma_act_consumer_state :: string
  cv_dma_act_consumer_unresolved_flags :: int
  cv_dma_act_routed_invocation_count :: int
  cv_dma_act_replica_invocation_count :: int
  cv_dma_act_consumer_group_count :: int
  cv_dma_act_consumer_input_count :: int
  cv_dma_act_ddr_span_bytes :: int

definition coverage_states :: "act_group_coverage \<Rightarrow> (string \<times> string) list" where
  "coverage_states c =
    [(''direct_output'', cv_direct_output_state c), (''act_consumer'', cv_act_consumer_state c),
     (''dpu_consumer'', cv_dpu_consumer_state c), (''dma_dpu_consumer'', cv_dma_dpu_consumer_state c),
     (''dma_act_consumer'', cv_dma_act_consumer_state c)]"

definition observed_kinds :: "act_group_coverage \<Rightarrow> string list" where
  "observed_kinds c = map fst (filter (\<lambda>(_, state). state \<noteq> ''not_observed'') (coverage_states c))"

definition complete_kinds :: "act_group_coverage \<Rightarrow> string list" where
  "complete_kinds c = map fst (filter (\<lambda>(_, state). state = ''complete'') (coverage_states c))"

definition direct_output_unresolved_names :: "act_group_coverage \<Rightarrow> string list" where
  "direct_output_unresolved_names c = flag_names group_completeness_flag_names (cv_direct_output_unresolved_flags c)"

definition act_consumer_unresolved_names :: "act_group_coverage \<Rightarrow> string list" where
  "act_consumer_unresolved_names c = flag_names act_consumer_flag_names (cv_act_consumer_unresolved_flags c)"

definition dpu_consumer_unresolved_names :: "act_group_coverage \<Rightarrow> string list" where
  "dpu_consumer_unresolved_names c = flag_names dpu_consumer_flag_names (cv_dpu_consumer_unresolved_flags c)"

definition dma_dpu_consumer_unresolved_names :: "act_group_coverage \<Rightarrow> string list" where
  "dma_dpu_consumer_unresolved_names c =
     flag_names dma_dpu_consumer_flag_names (cv_dma_dpu_consumer_unresolved_flags c)"

definition dma_act_consumer_unresolved_names :: "act_group_coverage \<Rightarrow> string list" where
  "dma_act_consumer_unresolved_names c =
     flag_names dma_act_consumer_flag_names (cv_dma_act_consumer_unresolved_flags c)"

record graph_relation_endpoint =
  ep_kind :: string
  ep_primary_index :: int
  ep_secondary_index :: "int option"

record exact_graph_relation =
  er_kind :: string
  er_source :: graph_relation_endpoint
  er_destination :: graph_relation_endpoint
  er_evidence_count :: int

record graph_io_symbol =
  io_kind :: string
  io_symbol_table_index :: int
  io_symbol_index :: int
  io_size_bytes :: int
  io_name :: string

section \<open>Inference values\<close>

record inference_input =
  ii_selector :: pyval
  ii_data :: bytes

text \<open>\<open>data\<close> is bytes-like: \<open>bytes\<close>, or a buffer that is C-contiguous or not.\<close>

datatype data_arg = DataBytes bytes | DataView bytes bool | DataOther

definition InferenceInput :: "pyval \<Rightarrow> data_arg \<Rightarrow> inference_input res" where
  "InferenceInput selector data =
     bind_res
       (case selector of
          PInt i \<Rightarrow> if 0 \<le> i \<and> i < u32_max then Inr ()
                     else Inl (ValueError ''inference argument index must fit uint32'')
        | PStr s \<Rightarrow> if s = [] then Inl (ValueError ''inference argument name must not be empty'') else Inr ()
        | _ \<Rightarrow> Inl (TypeError ''inference selector must be an argument index or name'')) (\<lambda>_.
     let e = ValueError ''inference input data must be non-empty and C-contiguous'' in
     case data of
       DataOther \<Rightarrow> Inl (TypeError ''inference input data must be bytes-like'')
     | DataBytes b \<Rightarrow> if b = [] then Inl e else Inr \<lparr>ii_selector = selector, ii_data = b\<rparr>
     | DataView b contiguous \<Rightarrow>
         if b = [] \<or> \<not> contiguous then Inl e else Inr \<lparr>ii_selector = selector, ii_data = b\<rparr>)"

record inference_output =
  io_argument_index :: int
  io_argument_name :: string
  io_shape :: "int list"
  io_dtype :: string
  io_data :: bytes

record inference_result =
  ir_outputs :: "inference_output list"
  ir_driver_index :: int
  ir_device_index :: int
  ir_driver_version :: int
  ir_vendor_id :: int
  ir_device_id :: int

section \<open>Type invariants\<close>

definition wf_patch_target :: "patch_target \<Rightarrow> bool" where
  "wf_patch_target t \<longleftrightarrow>
     list_all (\<lambda>i. 0 \<le> i \<and> i \<le> u32_max) [pt_invocation_index t, pt_range_index t, pt_input_count t, pt_contract_flags t] \<and>
     list_all (\<lambda>i. 0 < i \<and> i \<le> u64_max) [pt_element_count t, pt_span_bytes t] \<and> 0 < pt_input_count t"

definition wf_contract :: "patch_tensor_contract \<Rightarrow> bool" where
  "wf_contract c \<longleftrightarrow> tc_role c \<in> {''input'', ''output''} \<and> tc_dtype c \<in> set target_dtypes \<and>
     list_all (\<lambda>i. 0 \<le> i \<and> i \<le> u32_max) [tc_index c, tc_observed_flags c] \<and>
     list_all (\<lambda>i. 0 < i \<and> i \<le> u64_max) [tc_element_count c, tc_span_bytes c]"

definition wf_patch_target_v2 :: "patch_target_v2 \<Rightarrow> bool" where
  "wf_patch_target_v2 t \<longleftrightarrow>
     list_all (\<lambda>i. 0 \<le> i \<and> i \<le> u32_max) [p2_invocation_index t, p2_range_index t, p2_target_flags t] \<and>
     2 \<le> length (p2_tensors t) \<and> length (p2_tensors t) \<le> 9 \<and> list_all wf_contract (p2_tensors t)"

lemma fits_u32_iff: "fits_u32 v \<longleftrightarrow> (\<exists>i. v = PInt i \<and> 0 \<le> i \<and> i \<le> u32_max)"
  by (cases v) auto

lemma positive_u64_iff: "positive_u64 v \<longleftrightarrow> (\<exists>i. v = PInt i \<and> 0 < i \<and> i \<le> u64_max)"
  by (cases v) auto

lemma check_fields_Inr: "check_fields ok m fs = Inr u \<longleftrightarrow> list_all (\<lambda>(_, v). ok v) fs"
  by (induction fs) (auto split: if_splits)

lemma in_strings_Inr_True: "in_strings v names = Inr True \<longleftrightarrow> (\<exists>s. v = PStr s \<and> s \<in> set names)"
  by (cases v) (auto simp: in_strings_def)

lemma PatchTarget_wf: "PatchTarget a b c d e f = Inr t \<Longrightarrow> wf_patch_target t"
  by (auto simp: PatchTarget_def bind_res_eq_Inr check_fields_Inr fits_u32_iff positive_u64_iff
      wf_patch_target_def split: if_splits)

lemma PatchTarget_of_fields:
  "wf_patch_target t \<Longrightarrow> PatchTarget (PInt (pt_invocation_index t)) (PInt (pt_range_index t)) (PInt (pt_input_count t))
     (PInt (pt_element_count t)) (PInt (pt_span_bytes t)) (PInt (pt_contract_flags t)) = Inr t"
  by (simp add: PatchTarget_def wf_patch_target_def)

lemma PatchTensorContract_wf: "PatchTensorContract a b c d e f = Inr t \<Longrightarrow> wf_contract t"
  by (auto simp: PatchTensorContract_def bind_res_eq_Inr check_fields_Inr fits_u32_iff positive_u64_iff
      wf_contract_def in_strings_Inr_True split: if_splits)

lemma PatchTensorContract_of_fields:
  "wf_contract c \<Longrightarrow> PatchTensorContract (PStr (tc_role c)) (PInt (tc_index c)) (PStr (tc_dtype c))
     (PInt (tc_element_count c)) (PInt (tc_span_bytes c)) (PInt (tc_observed_flags c)) = Inr c"
  by (auto simp: PatchTensorContract_def wf_contract_def in_strings_def)

lemma PatchTargetV2_wf:
  "PatchTargetV2 a b ts f = Inr t \<Longrightarrow> (\<And>c. Some c \<in> set ts \<Longrightarrow> wf_contract c) \<Longrightarrow> wf_patch_target_v2 t"
  by (auto simp: PatchTargetV2_def bind_res_eq_Inr check_fields_Inr fits_u32_iff wf_patch_target_v2_def
      list_all_iff list_ex_iff split: if_splits) (metis option.exhaust_sel)

lemma PatchTargetV2_of_fields:
  "wf_patch_target_v2 t \<Longrightarrow> PatchTargetV2 (PInt (p2_invocation_index t)) (PInt (p2_range_index t))
     (map Some (p2_tensors t)) (PInt (p2_target_flags t)) = Inr t"
  by (simp add: PatchTargetV2_def wf_patch_target_v2_def list_ex_iff comp_def)

lemma v2_output_Inr: "v2_output t = Inr c \<longleftrightarrow> filter (\<lambda>v. tc_role v = ''output'') (p2_tensors t) = [c]"
  by (auto simp: v2_output_def split: list.splits)

lemma complete_kinds_observed: "set (complete_kinds c) \<subseteq> set (observed_kinds c)"
  by (auto simp: complete_kinds_def observed_kinds_def)

end
