(* ===== verification/Act_Group.thy ===== *)
theory Act_Group
  imports Native Symbolic_Graph
begin

text \<open>
  The ACT groups of \<open>__init__.py\<close>: the derived properties of \<open>ActGroup\<close>, the compatibility test
  between a custom node and the targets of a group (\<open>_custom_targets_mismatch\<close>), the flattening of
  operations the compiler split over several groups, and the projection of version 2 targets to
  version 1. Reading \<open>output\<close> of a version 2 target raises when it has not exactly one.
\<close>

section \<open>Targets of either version\<close>

fun tg_invocation_index :: "target \<Rightarrow> int" where
  "tg_invocation_index (TargetV1 t) = pt_invocation_index t"
| "tg_invocation_index (TargetV2 t) = p2_invocation_index t"

fun tg_range_index :: "target \<Rightarrow> int" where
  "tg_range_index (TargetV1 t) = pt_range_index t"
| "tg_range_index (TargetV2 t) = p2_range_index t"

fun tg_input_count :: "target \<Rightarrow> int" where
  "tg_input_count (TargetV1 t) = pt_input_count t"
| "tg_input_count (TargetV2 t) = v2_input_count t"

fun is_v2 :: "target \<Rightarrow> bool" where
  "is_v2 (TargetV2 _) = True"
| "is_v2 (TargetV1 _) = False"

fun the_v1 :: "target \<Rightarrow> patch_target list" where
  "the_v1 (TargetV1 t) = [t]"
| "the_v1 (TargetV2 _) = []"

fun the_v2 :: "target \<Rightarrow> patch_target_v2 list" where
  "the_v2 (TargetV2 t) = [t]"
| "the_v2 (TargetV1 _) = []"

abbreviation v1s :: "target list \<Rightarrow> patch_target list" where
  "v1s ts \<equiv> concat (map the_v1 ts)"

abbreviation v2s :: "target list \<Rightarrow> patch_target_v2 list" where
  "v2s ts \<equiv> concat (map the_v2 ts)"

definition has_flag :: "int \<Rightarrow> int \<Rightarrow> bool" where
  "has_flag flags bits \<longleftrightarrow> flags AND bits \<noteq> 0"

definition legacy_target_dtype :: "patch_target \<Rightarrow> string option" where
  "legacy_target_dtype t =
     (let fp16 = has_flag (pt_contract_flags t) 0x04; fp32 = has_flag (pt_contract_flags t) 0x20
      in if fp16 = fp32 then None else if fp16 then Some ''f16'' else Some ''f32'')"

definition v2_inputs :: "patch_target_v2 \<Rightarrow> patch_tensor_contract list" where
  "v2_inputs t = filter (\<lambda>v. tc_role v = ''input'') (p2_tensors t)"

text \<open>The positions of the scalar inputs of one invocation.\<close>

definition v2_scalar_inputs :: "patch_target_v2 \<Rightarrow> int list res" where
  "v2_scalar_inputs t =
     bind_res (map_res (\<lambda>v. if tc_role v = ''input'' \<and> tc_element_count v = 1
         then bind_res (v2_output t) (\<lambda>out. Inr (if 1 < tc_element_count out then [tc_index v] else []))
         else Inr []) (p2_tensors t))
       (\<lambda>parts. Inr (concat parts))"

section \<open>Groups\<close>

record act_group =
  ag_index :: nat
  ag_targets :: "target list"

definition ag_input_count :: "act_group \<Rightarrow> int option" where
  "ag_input_count g = the_unique (map tg_input_count (ag_targets g))"

definition ag_dtype :: "act_group \<Rightarrow> string option" where
  "ag_dtype g =
     (if list_ex is_v2 (ag_targets g)
      then the_unique (concat (map (\<lambda>t. map tc_dtype (p2_tensors t)) (v2s (ag_targets g))))
      else case the_unique (map legacy_target_dtype (v1s (ag_targets g))) of Some d \<Rightarrow> d | None \<Rightarrow> None)"

definition all_v2 :: "target list \<Rightarrow> bool" where
  "all_v2 ts \<longleftrightarrow> ts \<noteq> [] \<and> list_all is_v2 ts"

definition sum_targets :: "(patch_target \<Rightarrow> int) \<Rightarrow> (patch_tensor_contract \<Rightarrow> int) \<Rightarrow> target list \<Rightarrow> int res" where
  "sum_targets f1 f2 ts =
     (if all_v2 ts
      then bind_res (map_res (\<lambda>t. bind_res (v2_output t) (\<lambda>out. Inr (f2 out))) (v2s ts)) (\<lambda>xs. Inr (sum_list xs))
      else bind_res (map_res (\<lambda>t. case t of TargetV1 v \<Rightarrow> Inr (f1 v) | TargetV2 _ \<Rightarrow> Inl AttributeError) ts)
        (\<lambda>xs. Inr (sum_list xs)))"

definition ag_element_count :: "act_group \<Rightarrow> int res" where
  "ag_element_count g = sum_targets pt_element_count tc_element_count (ag_targets g)"

definition ag_span_bytes :: "act_group \<Rightarrow> int res" where
  "ag_span_bytes g = sum_targets pt_span_bytes tc_span_bytes (ag_targets g)"

definition ag_contract_flags :: "act_group \<Rightarrow> int option" where
  "ag_contract_flags g =
     (if list_ex is_v2 (ag_targets g) then None else the_unique (map pt_contract_flags (v1s (ag_targets g))))"

definition ag_invocation_indices :: "act_group \<Rightarrow> int list" where
  "ag_invocation_indices g = map tg_invocation_index (ag_targets g)"

definition ag_range_indices :: "act_group \<Rightarrow> int list" where
  "ag_range_indices g = map tg_range_index (ag_targets g)"

definition ag_scalar_input_indices :: "act_group \<Rightarrow> int list option res" where
  "ag_scalar_input_indices g =
     (if ag_targets g = [] then Inr None
      else if list_all is_v2 (ag_targets g)
      then bind_res (map_res v2_scalar_inputs (v2s (ag_targets g))) (\<lambda>xs. Inr (the_unique xs))
      else Inr (Some (case ag_contract_flags g of
          Some flags \<Rightarrow> if has_flag flags 0x40 then [1] else [] | None \<Rightarrow> [])))"

definition ag_input_1_scalar :: "act_group \<Rightarrow> bool res" where
  "ag_input_1_scalar g =
     bind_res (ag_scalar_input_indices g) (\<lambda>v. Inr (case v of Some xs \<Rightarrow> 1 \<in> set xs | None \<Rightarrow> False))"

definition ag_input_dtypes :: "act_group \<Rightarrow> string list option" where
  "ag_input_dtypes g =
     (if \<not> all_v2 (ag_targets g)
      then case (ag_dtype g, ag_input_count g) of
          (Some d, Some n) \<Rightarrow> Some (replicate (nat n) d)
        | _ \<Rightarrow> None
      else the_unique (map (\<lambda>t. map tc_dtype (v2_inputs t)) (v2s (ag_targets g))))"

text \<open>The loop returns \<open>None\<close> at the first version 1 target with an unsupported arity.\<close>

definition target_input_counts :: "target \<Rightarrow> int list option" where
  "target_input_counts t =
     (case t of
        TargetV2 v \<Rightarrow> Some (map tc_element_count (v2_inputs v))
      | TargetV1 v \<Rightarrow>
          if \<not> (1 \<le> pt_input_count v \<and> pt_input_count v \<le> 8) then None
          else if pt_input_count v = 2 \<and> has_flag (pt_contract_flags v) 0x40 then Some [pt_element_count v, 1]
          else Some (replicate (nat (pt_input_count v)) (pt_element_count v)))"

definition ag_input_element_counts :: "act_group \<Rightarrow> int list option" where
  "ag_input_element_counts g =
     (if list_ex (\<lambda>t. target_input_counts t = None) (ag_targets g) then None
      else the_unique (map (the \<circ> target_input_counts) (ag_targets g)))"

definition target_output_count :: "target \<Rightarrow> int res" where
  "target_output_count t =
     (case t of TargetV2 v \<Rightarrow> bind_res (v2_output v) (\<lambda>out. Inr (tc_element_count out))
              | TargetV1 v \<Rightarrow> Inr (pt_element_count v))"

definition ag_output_element_count :: "act_group \<Rightarrow> int option res" where
  "ag_output_element_count g =
     bind_res (map_res target_output_count (ag_targets g)) (\<lambda>xs. Inr (the_unique xs))"

definition ag_output_dtype :: "act_group \<Rightarrow> string option res" where
  "ag_output_dtype g =
     (if \<not> all_v2 (ag_targets g) then Inr (ag_dtype g)
      else bind_res (map_res (\<lambda>t. bind_res (v2_output t) (\<lambda>out. Inr (tc_dtype out))) (v2s (ag_targets g)))
        (\<lambda>xs. Inr (the_unique xs)))"

definition ag_unary_conversion :: "act_group \<Rightarrow> bool" where
  "ag_unary_conversion g \<longleftrightarrow> ag_targets g \<noteq> [] \<and>
     list_all (\<lambda>t. case t of TargetV2 v \<Rightarrow> p2_target_flags v = 1 | TargetV1 _ \<Rightarrow> False) (ag_targets g)"

text \<open>\<open>str\<close> of a tuple of integers and of an optional value.\<close>

definition tuple_text :: "int list \<Rightarrow> string" where
  "tuple_text xs = (case xs of [x] \<Rightarrow> ''('' @ int_str x @ '',)'' | _ \<Rightarrow> ''('' @ str_join '', '' (map int_str xs) @ '')'')"

definition option_text :: "('a \<Rightarrow> string) \<Rightarrow> 'a option \<Rightarrow> string" where
  "option_text f v = (case v of Some x \<Rightarrow> f x | None \<Rightarrow> ''None'')"

definition act_group_summary :: "act_group \<Rightarrow> string res" where
  "act_group_summary g =
     bind_res (ag_output_element_count g) (\<lambda>output_elements.
     bind_res (ag_output_dtype g) (\<lambda>output_dtype.
     bind_res (ag_element_count g) (\<lambda>element_count.
     bind_res (ag_scalar_input_indices g) (\<lambda>scalars.
     Inr (''group['' @ nat_str (ag_index g) @ ''](inputs='' @ option_text int_str (ag_input_count g) @
       '', input_dtypes='' @ (case ag_input_dtypes g of Some ds \<Rightarrow> str_join '','' ds | None \<Rightarrow> ''unknown'') @
       '', output_dtype='' @ (case output_dtype of Some d \<Rightarrow> d | None \<Rightarrow> ''unknown'') @
       '', descriptor_elements='' @ int_str element_count @ '', invocation_elements=('' @
       (case ag_input_element_counts g of Some xs \<Rightarrow> str_join '','' (map int_str xs) | None \<Rightarrow> ''varies'') @ '')->'' @
       (case output_elements of Some n \<Rightarrow> int_str n | None \<Rightarrow> ''varies'') @
       '', scalar_inputs='' @ option_text tuple_text scalars @
       '', invocations='' @ tuple_text (ag_invocation_indices g) @ '')'')))))"

section \<open>Compatibility of a node with targets\<close>

abbreviation out_shape :: "node \<Rightarrow> int list" where
  "out_shape n \<equiv> ts_shape (n_output_specs n ! 0)"

abbreviation out_dtype :: "node \<Rightarrow> string" where
  "out_dtype n \<equiv> ts_dtype (n_output_specs n ! 0)"

definition custom_scalar_input_indices :: "node \<Rightarrow> int list" where
  "custom_scalar_input_indices n =
     (let shape = out_shape n; ins = map t_shape (n_inputs n) in
      if prod_list shape \<le> 1 then []
      else if length ins = 5 then
        let graph_global = shape = [1, 32] \<and> ins ! 0 = [1, 32] \<and> list_all (\<lambda>s. s = [1, 1]) (drop 1 ins);
            per_row = shape = [4, 8] \<and> ins ! 0 = [4, 8] \<and> list_all (\<lambda>s. s = [4, 1]) (drop 1 ins);
            hybrid_per_row = shape = [4, 8] \<and> ins ! 0 = [4, 8] \<and> ins ! 1 = [4, 8] \<and>
              list_all (\<lambda>s. s = [4, 1]) (drop 2 ins);
            hybrid_graph_global = shape = [1, 32] \<and> ins ! 0 = [1, 32] \<and> ins ! 1 = [1, 32] \<and>
              list_all (\<lambda>s. s = [1, 1]) (drop 2 ins)
        in if graph_global \<or> per_row then [1, 2, 3, 4]
           else if hybrid_per_row \<or> hybrid_graph_global then [2, 3, 4] else []
      else map (\<lambda>(i, _). int i) (filter (\<lambda>(_, s). length ins = 2 \<and>
        (prod_list s = 1 \<or> (shape = [4, 8] \<and> s = [4, 1]))) (enum ins)))"

definition node_input_dtypes :: "node \<Rightarrow> string list" where
  "node_input_dtypes n = map t_dtype (n_inputs n)"

definition legacy_scalars :: "patch_target \<Rightarrow> int list" where
  "legacy_scalars t = (if has_flag (pt_contract_flags t) 0x40 then [1] else [])"

text \<open>The version 1 branch: \<open>Some\<close> reason, or \<open>None\<close> with the element counts still to be compared.\<close>

definition legacy_mismatch :: "node \<Rightarrow> patch_target list \<Rightarrow> string option" where
  "legacy_mismatch n legacy =
     (let expected = node_input_dtypes n in
      if \<not> list_all (\<lambda>t. pt_input_count t = int (length expected)) legacy
      then Some ''ACT group does not match its input arity''
      else case the_unique (map legacy_target_dtype legacy) of
        Some (Some dtype) \<Rightarrow>
          if expected \<noteq> replicate (length expected) dtype \<or> out_dtype n \<noteq> dtype
          then Some ''ACT tensor precisions do not match the custom node''
          else if \<not> list_all (\<lambda>t. legacy_scalars t = custom_scalar_input_indices n) legacy
          then Some ''ACT scalar input positions do not match the custom node''
          else None
      | _ \<Rightarrow> Some ''ACT target precision flags are inconsistent or unsupported'')"

text \<open>The version 2 branch: the first target that does not fit gives the reason.\<close>

fun v2_mismatch :: "node \<Rightarrow> patch_target_v2 list \<Rightarrow> string option res" where
  "v2_mismatch n [] = Inr None"
| "v2_mismatch n (t # ts) =
     (if map tc_dtype (v2_inputs t) \<noteq> node_input_dtypes n
      then Inr (Some ''ACT tensor precisions do not match the custom node'')
      else bind_res (v2_output t) (\<lambda>out.
        if tc_dtype out \<noteq> out_dtype n
        then Inr (Some ''ACT tensor precisions do not match the custom node'')
        else bind_res (v2_scalar_inputs t) (\<lambda>scalars.
          if scalars \<noteq> custom_scalar_input_indices n
          then Inr (Some ''ACT scalar input positions do not match the custom node'')
          else v2_mismatch n ts)))"

definition cover_mismatch :: "bool \<Rightarrow> node \<Rightarrow> int list \<Rightarrow> string option" where
  "cover_mismatch require_partition_cover n counts =
     (if require_partition_cover \<and> sum_list counts \<noteq> prod_list (out_shape n)
      then Some ''ACT targets do not match the custom node's logical output coverage'' else None)"

definition custom_targets_mismatch :: "bool \<Rightarrow> node \<Rightarrow> target list \<Rightarrow> string option res" where
  "custom_targets_mismatch require_partition_cover n targets =
     (if length (n_output_specs n) \<noteq> 1 \<or> targets = []
      then Inr (Some ''custom mapping requires one output and at least one ACT target'')
      else if list_all (\<lambda>t. \<not> is_v2 t) targets
      then (case legacy_mismatch n (v1s targets) of
          Some reason \<Rightarrow> Inr (Some reason)
        | None \<Rightarrow> Inr (cover_mismatch require_partition_cover n (map pt_element_count (v1s targets))))
      else if list_all is_v2 targets
      then bind_res (v2_mismatch n (v2s targets)) (\<lambda>reason.
        case reason of
          Some r \<Rightarrow> Inr (Some r)
        | None \<Rightarrow> bind_res (map_res (\<lambda>t. bind_res (v2_output t) (\<lambda>out. Inr (tc_element_count out))) (v2s targets))
            (\<lambda>counts. Inr (cover_mismatch require_partition_cover n counts)))
      else Inr (Some ''ACT targets mix incompatible contract versions''))"

section \<open>Operations split over several groups\<close>

definition consecutive :: "int list \<Rightarrow> bool" where
  "consecutive xs \<longleftrightarrow> xs = map (\<lambda>i. hd xs + int i) [0..<length xs]"

definition item_size :: "string \<Rightarrow> int option" where
  "item_size dtype = map_of [(''f16'', 2), (''f32'', 4)] dtype"

definition combined_custom_targets :: "node \<Rightarrow> patch_target list list \<Rightarrow> patch_target list option" where
  "combined_custom_targets n groups =
     (if length groups < 2 \<or> length (n_output_specs n) \<noteq> 1 then None
      else case item_size (out_dtype n) of
        None \<Rightarrow> None
      | Some item_bytes \<Rightarrow>
          let targets = concat groups in
          if targets = [] then None
          else if list_ex (\<lambda>t. pt_input_count t \<noteq> int (length (n_inputs n)) \<or>
              pt_span_bytes t \<noteq> pt_element_count t * item_bytes \<or>
              pt_contract_flags t \<noteq> pt_contract_flags (hd targets)) targets then None
          else if \<not> consecutive (map pt_invocation_index targets) then None
          else if \<not> consecutive (map pt_range_index targets) then None
          else if \<not> distinct (map (\<lambda>t. (pt_invocation_index t, pt_range_index t)) targets) then None
          else if custom_targets_mismatch True n (map TargetV1 targets) \<noteq> Inr None then None
          else Some targets)"

definition hybrid_tensors :: "patch_tensor_contract list" where
  "hybrid_tensors =
     map (\<lambda>(role, index, elements, bytes_used, flags).
       \<lparr>tc_role = role, tc_index = index, tc_dtype = ''f16'', tc_element_count = elements, tc_span_bytes = bytes_used,
        tc_observed_flags = flags\<rparr>)
     [(''input'', 0, 4, 8, 0x07), (''input'', 1, 4, 8, 0x07), (''input'', 2, 1, 2, 0x07), (''input'', 3, 1, 2, 0x07),
      (''input'', 4, 1, 2, 0x07), (''output'', 0, 4, 8, 0x0F)]"

definition combined_hybrid_per_row_targets_v2 ::
  "node \<Rightarrow> patch_target_v2 list list \<Rightarrow> patch_target_v2 list option" where
  "combined_hybrid_per_row_targets_v2 n groups =
     (if length groups \<noteq> 4 \<or> length (n_output_specs n) \<noteq> 1 \<or> out_shape n \<noteq> [4, 8] \<or> out_dtype n \<noteq> ''f16'' \<or>
         map t_shape (n_inputs n) \<noteq> [[4, 8], [4, 8], [4, 1], [4, 1], [4, 1]] \<or>
         list_ex (\<lambda>t. t_dtype t \<noteq> ''f16'') (n_inputs n) \<or> list_ex (\<lambda>g. length g \<noteq> 4) groups
      then None
      else
        let targets = concat groups in
        if list_ex (\<lambda>t. p2_target_flags t \<noteq> 0 \<or> p2_tensors t \<noteq> hybrid_tensors) targets then None
        else if \<not> consecutive (map p2_invocation_index targets) then None
        else if \<not> distinct (map (\<lambda>t. (p2_invocation_index t, p2_range_index t)) targets) then None
        else Some targets)"

section \<open>Projection to version 1\<close>

definition legacy_target_from_v2 :: "patch_target_v2 \<Rightarrow> patch_target option res" where
  "legacy_target_from_v2 t =
     (let count = v2_input_count t; ins = v2_inputs t;
          outs = filter (\<lambda>v. tc_role v = ''output'') (p2_tensors t) in
      if p2_target_flags t \<noteq> 0 \<or> count \<notin> {1, 2} then Inr None
      else if map tc_index ins \<noteq> map int [0..<nat count] \<or> length outs \<noteq> 1 \<or> tc_index (hd outs) \<noteq> 0 \<or>
        list_ex (\<lambda>v. tc_observed_flags v \<noteq> 0x07) ins \<or> tc_observed_flags (hd outs) \<noteq> 0x0F then Inr None
      else
        let out = hd outs in
        if tc_dtype out \<notin> {''f16'', ''f32''} \<or> list_ex (\<lambda>v. tc_dtype v \<noteq> tc_dtype out) ins then Inr None
        else
          let element_size = (if tc_dtype out = ''f16'' then 2 else 4) in
          if tc_span_bytes out \<noteq> tc_element_count out * element_size \<or> tc_element_count (ins ! 0) \<noteq> tc_element_count out \<or>
             tc_span_bytes (ins ! 0) \<noteq> tc_span_bytes out then Inr None
          else
            let scalar = count = 2 \<and> tc_element_count (ins ! 1) = 1 \<and> 1 < tc_element_count out in
            if count = 2 \<and> scalar \<and> tc_span_bytes (ins ! 1) \<noteq> element_size then Inr None
            else if count = 2 \<and> \<not> scalar \<and> (tc_element_count (ins ! 1) \<noteq> tc_element_count out \<or>
              tc_span_bytes (ins ! 1) \<noteq> tc_span_bytes out) then Inr None
            else
              let flags = (0x1B OR (if tc_dtype out = ''f16'' then 0x04 else 0x20)) OR (if scalar then 0x40 else 0) in
              bind_res (PatchTarget (PInt (p2_invocation_index t)) (PInt (p2_range_index t)) (PInt count)
                (PInt (tc_element_count out)) (PInt (tc_span_bytes out)) (PInt flags)) (\<lambda>p. Inr (Some p)))"

fun legacy_targets_from_v2 :: "patch_target_v2 list \<Rightarrow> patch_target list option res" where
  "legacy_targets_from_v2 [] = Inr (Some [])"
| "legacy_targets_from_v2 (t # ts) =
     bind_res (legacy_target_from_v2 t) (\<lambda>p.
       case p of
         None \<Rightarrow> Inr None
       | Some q \<Rightarrow> bind_res (legacy_targets_from_v2 ts) (\<lambda>rest. Inr (map_option (Cons q) rest)))"

section \<open>The projection keeps the contract\<close>

lemma v2_scalar_inputs_eq:
  assumes "v2_output t = Inr out"
  shows "v2_scalar_inputs t =
    Inr (if 1 < tc_element_count out then map tc_index (filter (\<lambda>v. tc_element_count v = 1) (v2_inputs t)) else [])"
proof -
  let ?f = "\<lambda>v. if tc_role v = ''input'' \<and> tc_element_count v = 1 \<and> 1 < tc_element_count out then [tc_index v] else []"
  have m: "map_res (\<lambda>v. if tc_role v = ''input'' \<and> tc_element_count v = 1
      then bind_res (v2_output t) (\<lambda>out. Inr (if 1 < tc_element_count out then [tc_index v] else [])) else Inr [])
      (p2_tensors t) = Inr (map ?f (p2_tensors t))"
    by (rule map_res_total) (simp add: assms)
  have c: "concat (map ?f vs) = (if 1 < tc_element_count out then
      map tc_index (filter (\<lambda>v. tc_element_count v = 1) (filter (\<lambda>v. tc_role v = ''input'') vs)) else [])" for vs
    by (induction vs) auto
  show ?thesis unfolding v2_scalar_inputs_def v2_inputs_def m bind_res.simps c ..
qed

text \<open>What a projected target has in common with the target it came from.\<close>

definition projects :: "patch_target_v2 \<Rightarrow> patch_target \<Rightarrow> bool" where
  "projects t p \<longleftrightarrow> (\<exists>out. v2_output t = Inr out \<and>
     map tc_dtype (v2_inputs t) = replicate (length (v2_inputs t)) (tc_dtype out) \<and>
     legacy_target_dtype p = Some (tc_dtype out) \<and> pt_input_count p = int (length (v2_inputs t)) \<and>
     0 < length (v2_inputs t) \<and>
     pt_element_count p = tc_element_count out \<and> pt_span_bytes p = tc_span_bytes out \<and>
     v2_scalar_inputs t = Inr (legacy_scalars p) \<and>
     pt_invocation_index p = p2_invocation_index t \<and> pt_range_index p = p2_range_index t)"

lemma projected_flags:
  fixes scalar :: bool
  assumes "d = ''f16'' \<or> d = ''f32''"
    and "flags = (0x1B OR (if d = ''f16'' then 0x04 else 0x20)) OR (if scalar then 0x40 else 0 :: int)"
    and "pt_contract_flags p = flags"
  shows "legacy_target_dtype p = Some d \<and> legacy_scalars p = (if scalar then [1] else [])"
  using assms by (auto simp: legacy_target_dtype_def legacy_scalars_def has_flag_def)

lemma PatchTarget_Inr_fields:
  "PatchTarget (PInt a) (PInt b) (PInt c) (PInt d) (PInt e) (PInt f) = Inr p \<Longrightarrow>
   p = \<lparr>pt_invocation_index = a, pt_range_index = b, pt_input_count = c, pt_element_count = d, pt_span_bytes = e,
     pt_contract_flags = f\<rparr>"
  by (auto simp: PatchTarget_def bind_res_eq_Inr split: if_splits)

lemma legacy_target_from_v2_projects:
  assumes "legacy_target_from_v2 t = Inr (Some p)"
  shows "projects t p"
proof -
  let ?ins = "v2_inputs t" and ?count = "v2_input_count t"
  let ?outs = "filter (\<lambda>v. tc_role v = ''output'') (p2_tensors t)"
  define out where "out = hd ?outs"
  define scalar where "scalar \<longleftrightarrow> ?count = 2 \<and> tc_element_count (?ins ! 1) = 1 \<and> 1 < tc_element_count out"
  define flags :: int where
    "flags = (0x1B OR (if tc_dtype out = ''f16'' then 0x04 else 0x20)) OR (if scalar then 0x40 else 0)"
  from assms have c: "?count = 1 \<or> ?count = 2" and idx: "map tc_index ?ins = map int [0..<nat ?count]"
    and outs: "length ?outs = 1" and d: "tc_dtype out = ''f16'' \<or> tc_dtype out = ''f32''"
    and same: "\<forall>v \<in> set ?ins. tc_dtype v = tc_dtype out" and first: "tc_element_count (?ins ! 0) = tc_element_count out"
    and p: "PatchTarget (PInt (p2_invocation_index t)) (PInt (p2_range_index t)) (PInt ?count)
        (PInt (tc_element_count out)) (PInt (tc_span_bytes out)) (PInt flags) = Inr p"
    unfolding legacy_target_from_v2_def Let_def out_def [symmetric] scalar_def [symmetric] flags_def
    by (auto simp: bind_res_eq_Inr list_ex_iff split: if_splits)
  have count: "?count = int (length ?ins)" by (simp add: v2_input_count_def v2_inputs_def)
  have out: "v2_output t = Inr out" using outs unfolding v2_output_def out_def by (cases ?outs) auto
  note p' = PatchTarget_Inr_fields [OF p]
  have fl: "legacy_target_dtype p = Some (tc_dtype out) \<and> legacy_scalars p = (if scalar then [1] else [])"
    by (rule projected_flags [OF d flags_def]) (simp add: p')
  have "v2_scalar_inputs t = Inr (if scalar then [1] else [])"
  proof (cases "?count = 1")
    case True
    with count obtain a where "?ins = [a]" by (cases ?ins) auto
    with True first show ?thesis by (simp add: v2_scalar_inputs_eq [OF out] scalar_def)
  next
    case False
    with c count obtain a b where "?ins = [a, b]"
      by (cases ?ins; cases "tl ?ins") auto
    with False c idx first show ?thesis
      by (auto simp: v2_scalar_inputs_eq [OF out] scalar_def upt_rec)
  qed
  moreover have "map tc_dtype ?ins = replicate (length ?ins) (tc_dtype out)"
    using same by (auto intro: nth_equalityI)
  moreover have "0 < length ?ins" using c count by auto
  ultimately show ?thesis using out fl p' count by (auto simp: projects_def)
qed

lemma legacy_targets_from_v2_projects:
  "legacy_targets_from_v2 ts = Inr (Some ps) \<Longrightarrow> list_all2 projects ts ps"
proof (induction ts arbitrary: ps)
  case (Cons t ts)
  then show ?case
    by (auto simp: bind_res_eq_Inr split: option.splits dest: legacy_target_from_v2_projects)
qed simp

lemma v2_mismatch_projected:
  assumes "list_all2 projects ts ps"
  shows "v2_mismatch n ts = Inr None \<longleftrightarrow> list_all2 (\<lambda>t p. replicate (nat (pt_input_count p)) (the (legacy_target_dtype p)) = node_input_dtypes n \<and>
    legacy_target_dtype p = Some (out_dtype n) \<and> legacy_scalars p = custom_scalar_input_indices n) ts ps"
  using assms
proof (induction ts ps rule: list_all2_induct)
  case (Cons t ts p ps)
  then obtain out where "v2_output t = Inr out" "legacy_target_dtype p = Some (tc_dtype out)"
    "map tc_dtype (v2_inputs t) = replicate (length (v2_inputs t)) (tc_dtype out)"
    "pt_input_count p = int (length (v2_inputs t))" "v2_scalar_inputs t = Inr (legacy_scalars p)"
    by (auto simp: projects_def)
  with Cons.IH show ?case by simp
qed simp

lemma projected_counts:
  "list_all2 projects ts ps \<Longrightarrow>
   map_res (\<lambda>t. bind_res (v2_output t) (\<lambda>out. Inr (tc_element_count out))) ts = Inr (map pt_element_count ps)"
  by (induction rule: list_all2_induct) (auto simp: projects_def)

lemma legacy_mismatch_None:
  assumes "ps \<noteq> []" and "\<forall>p \<in> set ps. 0 < pt_input_count p"
  shows "legacy_mismatch n ps = None \<longleftrightarrow> (\<forall>p \<in> set ps.
    replicate (nat (pt_input_count p)) (the (legacy_target_dtype p)) = node_input_dtypes n \<and>
    legacy_target_dtype p = Some (out_dtype n) \<and> legacy_scalars p = custom_scalar_input_indices n)"
proof
  assume "legacy_mismatch n ps = None"
  then obtain d where a: "\<forall>p \<in> set ps. pt_input_count p = int (length (node_input_dtypes n))"
    and u: "the_unique (map legacy_target_dtype ps) = Some (Some d)"
    and e: "node_input_dtypes n = replicate (length (node_input_dtypes n)) d" "out_dtype n = d"
    and s: "\<forall>p \<in> set ps. legacy_scalars p = custom_scalar_input_indices n"
    by (auto simp: legacy_mismatch_def Let_def list_all_iff split: if_splits option.splits)
  from u have "\<forall>p \<in> set ps. legacy_target_dtype p = Some d" by (auto simp: the_unique_Some)
  with a e s show "\<forall>p \<in> set ps. replicate (nat (pt_input_count p)) (the (legacy_target_dtype p)) = node_input_dtypes n \<and>
    legacy_target_dtype p = Some (out_dtype n) \<and> legacy_scalars p = custom_scalar_input_indices n" by auto
next
  assume *: "\<forall>p \<in> set ps. replicate (nat (pt_input_count p)) (the (legacy_target_dtype p)) = node_input_dtypes n \<and>
    legacy_target_dtype p = Some (out_dtype n) \<and> legacy_scalars p = custom_scalar_input_indices n"
  then have "\<forall>p \<in> set ps. pt_input_count p = int (length (node_input_dtypes n))"
    using assms(2) by (metis length_replicate less_imp_le nat_0_le)
  moreover have "the_unique (map legacy_target_dtype ps) = Some (Some (out_dtype n))"
    using * assms(1) by (auto simp: the_unique_Some)
  moreover obtain p where "p \<in> set ps" using assms(1) by (cases ps) auto
  ultimately show "legacy_mismatch n ps = None"
    using * by (auto simp: legacy_mismatch_def Let_def list_all_iff)
qed

lemma v2s_TargetV2 [simp]: "concat (map (the_v2 \<circ> TargetV2) ts) = ts"
  by (induction ts) auto

lemma v1s_TargetV1 [simp]: "concat (map (the_v1 \<circ> TargetV1) ts) = ts"
  by (induction ts) auto

text \<open>C8 Projecting version 2 targets to version 1 does not change which custom nodes they fit: whenever
  the projection exists, the mapping test accepts the projected targets for a node exactly when it
  accepts the originals, with and without the coverage requirement.\<close>

theorem legacy_projection_agrees:
  assumes "legacy_targets_from_v2 ts = Inr (Some ps)"
  shows "custom_targets_mismatch cover n (map TargetV1 ps) = Inr None \<longleftrightarrow>
    custom_targets_mismatch cover n (map TargetV2 ts) = Inr None"
proof (cases "ts = [] \<or> length (n_output_specs n) \<noteq> 1")
  case True
  with legacy_targets_from_v2_projects [OF assms] show ?thesis by (auto simp: custom_targets_mismatch_def)
next
  case False
  note pr = legacy_targets_from_v2_projects [OF assms]
  with False have ps: "ps \<noteq> []" and len: "length ts = length ps" by (auto dest: list_all2_lengthD)
  from pr have pos: "\<forall>p \<in> set ps. 0 < pt_input_count p"
    by (fastforce simp: list_all2_conv_all_nth in_set_conv_nth projects_def)
  have "v2_mismatch n ts = Inr None \<longleftrightarrow> legacy_mismatch n ps = None"
    unfolding v2_mismatch_projected [OF pr] legacy_mismatch_None [OF ps pos]
    using len by (auto simp: list_all2_conv_all_nth all_set_conv_all_nth)
  with False ps projected_counts [OF pr] show ?thesis
    by (auto simp: custom_targets_mismatch_def list_all_iff bind_res_eq_Inr split: option.splits)
qed

text \<open>A unary FP16 node over eight elements and a target that fits it.\<close>

definition unary_node :: node where
  "unary_node =
    (let spec = \<lparr>ts_shape = [8], ts_dtype = ''f16''\<rparr> in
     \<lparr>n_op = ''Custom'', n_inputs = [\<lparr>t_producer = 0, t_output_index = 0, t_spec = spec, t_name = Some ''x''\<rparr>],
      n_attrs = [], n_output_specs = [spec], n_name = None,
      n_metadata = [(''_kernel'', PNone), (''_carrier'', PStr ''Relu''), (''_name'', PNone)]\<rparr>)"

definition unary_target :: "int \<Rightarrow> patch_target_v2" where
  "unary_target i = \<lparr>p2_invocation_index = i, p2_range_index = i,
     p2_tensors = [\<lparr>tc_role = ''input'', tc_index = 0, tc_dtype = ''f16'', tc_element_count = 8, tc_span_bytes = 16,
        tc_observed_flags = 0x07\<rparr>,
       \<lparr>tc_role = ''output'', tc_index = 0, tc_dtype = ''f16'', tc_element_count = 8, tc_span_bytes = 16,
        tc_observed_flags = 0x0F\<rparr>],
     p2_target_flags = 0\<rparr>"

theorem legacy_projection_agrees_witness:
  "\<exists>ps. legacy_targets_from_v2 [unary_target 0] = Inr (Some ps) \<and> ps \<noteq> [] \<and>
     custom_targets_mismatch True unary_node (map TargetV1 ps) = Inr None \<and>
     custom_targets_mismatch True unary_node (map TargetV2 [unary_target 0]) = Inr None"
proof -
  let ?ps = "[\<lparr>pt_invocation_index = 0, pt_range_index = 0, pt_input_count = 1, pt_element_count = 8,
    pt_span_bytes = 16, pt_contract_flags = 0x1F\<rparr>]"
  have p: "legacy_targets_from_v2 [unary_target 0] = Inr (Some ?ps)" by code_simp
  have m: "custom_targets_mismatch True unary_node (map TargetV2 [unary_target 0]) = Inr None" by code_simp
  from legacy_projection_agrees [OF p, of True unary_node] p m show ?thesis by blast
qed

end
