(* ===== verification/Group_Mapping.thy ===== *)
theory Group_Mapping
  imports Act_Group
begin

text \<open>
  \<open>_automatic_group_indices\<close> of \<open>__init__.py\<close>: the assignment of discovered ACT groups to the custom
  nodes of a graph, positional when there are as many groups as computational nodes and otherwise by
  a search over the ways to cut the groups into consecutive blocks. The search stops as soon as it
  has two solutions. The reason strings leave out the node name. The theorems compare the search with
  the set of all valid cuts.
\<close>

definition computational_nodes :: "store \<Rightarrow> nat list \<Rightarrow> nat list" where
  "computational_nodes st nodes = filter (\<lambda>n. n_op (node_at st n) \<notin> {''Parameter'', ''Const''}) nodes"

text \<open>May the node take this block of groups?\<close>

definition take_fits :: "store \<Rightarrow> nat list \<Rightarrow> nat \<Rightarrow> target list list \<Rightarrow> bool res" where
  "take_fits st custom n groups =
     (if length groups = 1 then
        let targets = hd groups in
        if targets = [] then Inr False
        else if n \<in> set custom
        then bind_res (custom_targets_mismatch False (node_at st n) targets) (\<lambda>m. Inr (m = None))
        else Inr True
      else if list_all (list_all (\<lambda>t. \<not> is_v2 t)) groups
      then Inr (combined_custom_targets (node_at st n) (map v1s groups) \<noteq> None)
      else if list_all (list_all is_v2) groups
      then Inr (combined_hybrid_per_row_targets_v2 (node_at st n) (map v2s groups) \<noteq> None)
      else Inr False)"

type_synonym selection = "(nat \<times> nat list) list"

definition take_values :: "nat list \<Rightarrow> nat \<Rightarrow> nat \<Rightarrow> nat list" where
  "take_values custom n maximum = (if n \<in> set custom then [1..<Suc maximum] else [1])"

definition block :: "target list list \<Rightarrow> nat \<Rightarrow> nat \<Rightarrow> target list list" where
  "block groups group_index k = take k (drop group_index groups)"

definition select :: "nat list \<Rightarrow> nat \<Rightarrow> nat \<Rightarrow> nat \<Rightarrow> selection \<Rightarrow> selection" where
  "select custom n group_index k selected =
     (if n \<in> set custom then selected @ [(n, [group_index..<group_index + k])] else selected)"

text \<open>The nested \<open>visit\<close>, on the computational nodes that are left.\<close>

fun visit_groups :: "store \<Rightarrow> nat list \<Rightarrow> target list list \<Rightarrow> nat list \<Rightarrow> nat \<Rightarrow> selection \<Rightarrow>
    selection list \<Rightarrow> selection list res" where
  "visit_groups st custom groups [] group_index selected solutions =
     (if 1 < length solutions then Inr solutions
      else if group_index = length groups then Inr (solutions @ [selected])
      else Inr solutions)"
| "visit_groups st custom groups (n # ns) group_index selected solutions =
     (if 1 < length solutions then Inr solutions
      else if length groups < group_index + length ns + 1 then Inr solutions
      else fold_res (\<lambda>k sols.
          bind_res (take_fits st custom n (block groups group_index k)) (\<lambda>fits.
            if fits
            then visit_groups st custom groups ns (group_index + k) (select custom n group_index k selected) sols
            else Inr sols))
        (take_values custom n (length groups - group_index - length ns)) solutions)"

text \<open>The loop of the positional case: the first incompatible custom node gives the reason.\<close>

fun positional_mismatch :: "store \<Rightarrow> target list list \<Rightarrow> (nat \<times> nat) list \<Rightarrow> string option res" where
  "positional_mismatch st groups [] = Inr None"
| "positional_mismatch st groups ((n, index) # rest) =
     bind_res (custom_targets_mismatch False (node_at st n) (groups ! index)) (\<lambda>mismatch.
       case mismatch of
         Some reason \<Rightarrow> Inr (Some (''discovered ACT group '' @ nat_str index @ '' for custom node is incompatible: '' @ reason))
       | None \<Rightarrow> positional_mismatch st groups rest)"

fun position_in :: "'a list \<Rightarrow> 'a \<Rightarrow> nat option" where
  "position_in [] x = None"
| "position_in (y # ys) x = (if y = x then Some 0 else map_option Suc (position_in ys x))"

definition automatic_group_indices ::
  "store \<Rightarrow> nat list \<Rightarrow> nat list \<Rightarrow> target list list \<Rightarrow> (nat list list option \<times> string) res" where
  "automatic_group_indices st nodes custom groups =
     (let computational = computational_nodes st nodes in
      if length groups = length computational then
        bind_res (map_res (\<lambda>n. from_option (KeyError ''node'') (position_in computational n)) custom) (\<lambda>selected.
        bind_res (positional_mismatch st groups (zip custom selected)) (\<lambda>mismatch.
        case mismatch of
          Some reason \<Rightarrow> Inr (None, reason)
        | None \<Rightarrow> Inr (Some (map (\<lambda>i. [i]) selected), ''one-to-one positional mapping'')))
      else
        bind_res (visit_groups st custom groups computational 0 [] []) (\<lambda>solutions.
        case solutions of
          [solution] \<Rightarrow>
            bind_res (map_res (\<lambda>n. from_option (KeyError ''node'') (map_of solution n)) custom) (\<lambda>selected.
              Inr (Some selected, ''unique validated multi-group mapping''))
        | _ \<Rightarrow> Inr (None, ''native graph has '' @ nat_str (length groups) @ '' positional ACT groups for '' @
            nat_str (length computational) @ '' computational nodes and '' @
            (if solutions = [] then ''no'' else ''multiple'') @
            '' valid mapping; automatic selection requires a one-to-one positional mapping or one unique validated multi-group mapping'')))"

section \<open>All valid cuts\<close>

text \<open>One block size per node, from \<open>group_index\<close> on, with nothing left over.\<close>

fun valid_takes :: "store \<Rightarrow> nat list \<Rightarrow> target list list \<Rightarrow> nat list \<Rightarrow> nat \<Rightarrow> nat list \<Rightarrow> bool" where
  "valid_takes st custom groups [] group_index [] = (group_index = length groups)"
| "valid_takes st custom groups (n # ns) group_index (k # ks) =
     (1 \<le> k \<and> (n \<in> set custom \<or> k = 1) \<and> group_index + k \<le> length groups \<and>
      take_fits st custom n (block groups group_index k) = Inr True \<and>
      valid_takes st custom groups ns (group_index + k) ks)"
| "valid_takes st custom groups _ _ _ = False"

fun all_takes :: "store \<Rightarrow> nat list \<Rightarrow> target list list \<Rightarrow> nat list \<Rightarrow> nat \<Rightarrow> nat list list" where
  "all_takes st custom groups [] group_index = (if group_index = length groups then [[]] else [])"
| "all_takes st custom groups (n # ns) group_index =
     (if length groups < group_index + length ns + 1 then []
      else concat (map (\<lambda>k. if take_fits st custom n (block groups group_index k) = Inr True
             then map (Cons k) (all_takes st custom groups ns (group_index + k)) else [])
           (take_values custom n (length groups - group_index - length ns))))"

text \<open>The selection a cut stands for.\<close>

fun selection_of :: "nat list \<Rightarrow> nat list \<Rightarrow> nat \<Rightarrow> nat list \<Rightarrow> selection" where
  "selection_of custom (n # ns) group_index (k # ks) =
     select custom n group_index k [] @ selection_of custom ns (group_index + k) ks"
| "selection_of custom _ _ _ = []"

text \<open>Targets whose \<open>output\<close> can be read.\<close>

fun readable :: "target \<Rightarrow> bool" where
  "readable (TargetV1 _) = True"
| "readable (TargetV2 t) = (length (filter (\<lambda>v. tc_role v = ''output'') (p2_tensors t)) = 1)"

lemma readable_output: "readable (TargetV2 t) \<Longrightarrow> \<exists>out. v2_output t = Inr out"
  by (auto simp: v2_output_def length_Suc_conv)

lemma v2_scalar_inputs_total: "readable (TargetV2 t) \<Longrightarrow> \<exists>s. v2_scalar_inputs t = Inr s"
  using readable_output v2_scalar_inputs_eq by blast

lemma v2_mismatch_total: "list_all (\<lambda>t. readable (TargetV2 t)) ts \<Longrightarrow> \<exists>m. v2_mismatch n ts = Inr m"
proof (induction ts)
  case (Cons t ts)
  then have "readable (TargetV2 t)" "\<exists>m. v2_mismatch n ts = Inr m" by auto
  then obtain out s m where "v2_output t = Inr out" "v2_scalar_inputs t = Inr s" "v2_mismatch n ts = Inr m"
    using readable_output v2_scalar_inputs_total by blast
  then show ?case by simp
qed simp

lemma v2s_readable: "list_all readable ts \<Longrightarrow> list_all (\<lambda>t. readable (TargetV2 t)) (v2s ts)"
proof (induction ts)
  case (Cons t ts)
  then show ?case by (cases t) auto
qed simp

lemma v2_counts_total:
  "list_all (\<lambda>t. readable (TargetV2 t)) ts \<Longrightarrow>
   \<exists>cs. map_res (\<lambda>t. bind_res (v2_output t) (\<lambda>out. Inr (tc_element_count out))) ts = Inr cs"
proof (induction ts)
  case (Cons t ts)
  then obtain out cs where "v2_output t = Inr out"
    "map_res (\<lambda>t. bind_res (v2_output t) (\<lambda>out. Inr (tc_element_count out))) ts = Inr cs"
    using readable_output [of t] by auto
  then show ?case by simp
qed simp

lemma custom_targets_mismatch_total:
  assumes "list_all readable ts"
  shows "\<exists>m. custom_targets_mismatch cover n ts = Inr m"
proof -
  obtain m cs where "v2_mismatch n (v2s ts) = Inr m"
    "map_res (\<lambda>t. bind_res (v2_output t) (\<lambda>out. Inr (tc_element_count out))) (v2s ts) = Inr cs"
    using v2_mismatch_total v2_counts_total v2s_readable [OF assms] by meson
  then show ?thesis by (cases m; cases "legacy_mismatch n (v1s ts)") (auto simp: custom_targets_mismatch_def)
qed

lemma take_fits_total:
  assumes "list_all (list_all readable) groups"
  shows "\<exists>b. take_fits st custom n (block groups i k) = Inr b"
proof -
  have "list_all (list_all readable) (block groups i k)"
    using assms by (auto simp: block_def list_all_iff dest: in_set_takeD in_set_dropD)
  then have "\<exists>m. custom_targets_mismatch False (node_at st n) (hd (block groups i k)) = Inr m"
    if "length (block groups i k) = 1"
    using that by (intro custom_targets_mismatch_total) (cases "block groups i k"; simp)
  then show ?thesis by (auto simp: take_fits_def Let_def)
qed

lemma valid_takes_room: "valid_takes st custom groups ns i ks \<Longrightarrow> i + length ns \<le> length groups \<and> length ks = length ns"
  by (induction st custom groups ns i ks rule: valid_takes.induct) auto

lemma Cons_in_choices:
  "k # ks \<in> set (concat (map (\<lambda>k. if P k then map (Cons k) (f k) else []) xs)) \<longleftrightarrow>
   k \<in> set xs \<and> P k \<and> ks \<in> set (f k)"
  by (induction xs) auto

lemma Nil_in_choices: "[] \<notin> set (concat (map (\<lambda>k. if P k then map (Cons k) (f k) else []) xs))"
  by (induction xs) auto

lemma all_takes_valid: "ks \<in> set (all_takes st custom groups ns i) \<longleftrightarrow> valid_takes st custom groups ns i ks"
proof (induction ns arbitrary: i ks)
  case Nil
  then show ?case by (cases ks) auto
next
  case (Cons n ns)
  show ?case
  proof (cases ks)
    case Nil
    then show ?thesis using Nil_in_choices by auto
  next
    case (Cons k ks')
    have room: "valid_takes st custom groups ns (i + k) ks' \<Longrightarrow> i + k + length ns \<le> length groups"
      using valid_takes_room by blast
    show ?thesis
      unfolding Cons all_takes.simps using room
      by (auto simp only: Cons_in_choices Cons.IH valid_takes.simps take_values_def split: if_splits) auto
  qed
qed

lemma all_takes_distinct: "distinct (all_takes st custom groups ns i)"
proof (induction ns arbitrary: i)
  case (Cons n ns)
  have "distinct (concat (map (\<lambda>k. if P k then map (Cons k) (all_takes st custom groups ns (i + k)) else []) ks))"
    if "distinct ks" for P ks
    using that by (induction ks) (auto simp: distinct_map Cons.IH)
  then show ?case by (auto simp: take_values_def)
qed simp

section \<open>The search finds the first two\<close>

lemma take_take_append: "take n (take n xs @ ys) = take n (xs @ ys)"
  by (simp add: min_def)

lemma visit_groups_takes:
  assumes "list_all (list_all readable) groups"
  shows "length sols \<le> 2 \<Longrightarrow> visit_groups st custom groups ns i sel sols =
    Inr (take 2 (sols @ map (\<lambda>ks. sel @ selection_of custom ns i ks) (all_takes st custom groups ns i)))"
proof (induction ns arbitrary: i sel sols)
  case Nil
  then show ?case by (cases "length sols = 2") (auto simp: le_less_Suc_eq numeral_2_eq_2 less_Suc_eq_le)
next
  case (Cons n ns)
  let ?fit = "\<lambda>k. take_fits st custom n (block groups i k) = Inr True"
  let ?found = "\<lambda>k. if ?fit k then map (\<lambda>ks. sel @ selection_of custom (n # ns) i ks)
      (map (Cons k) (all_takes st custom groups ns (i + k))) else []"
  let ?step = "\<lambda>k sols. bind_res (take_fits st custom n (block groups i k)) (\<lambda>fits.
      if fits then visit_groups st custom groups ns (i + k) (select custom n i k sel) sols else Inr sols)"
  have step: "?step k s = Inr (take 2 (s @ ?found k))" if "length s \<le> 2" for k s
  proof -
    obtain b where b: "take_fits st custom n (block groups i k) = Inr b" using take_fits_total [OF assms] by blast
    have "select custom n i k sel @ r = sel @ select custom n i k [] @ r" for r
      by (simp add: select_def)
    with b Cons.IH [OF that, of "i + k" "select custom n i k sel"] that show ?thesis
      by (cases b) (simp_all add: comp_def)
  qed
  have loop: "fold_res ?step ks s = Inr (take 2 (s @ concat (map ?found ks)))" if "length s \<le> 2" for ks s
    using that
  proof (induction ks arbitrary: s)
    case (Cons k ks)
    have "length (take 2 (s @ ?found k)) \<le> 2" by simp
    from Cons.IH [OF this] step [OF Cons.prems, of k] show ?case
      by (simp only: fold_res.simps bind_res.simps take_take_append append_assoc list.map concat.simps)
  qed simp
  have flat: "map (\<lambda>ks. sel @ selection_of custom (n # ns) i ks) (concat (map (\<lambda>k. if ?fit k
      then map (Cons k) (all_takes st custom groups ns (i + k)) else []) ks)) = concat (map ?found ks)" for ks
    by (induction ks) auto
  show ?case
  proof (cases "1 < length sols")
    case True
    with Cons.prems show ?thesis by simp
  next
    case False
    with loop [OF Cons.prems] Cons.prems show ?thesis
      by (simp add: flat del: selection_of.simps)
  qed
qed

lemma selection_of_domain:
  "valid_takes st custom groups ns i ks \<Longrightarrow> set custom \<inter> set ns \<subseteq> fst ` set (selection_of custom ns i ks)"
  by (induction st custom groups ns i ks rule: valid_takes.induct) (auto simp: select_def)

text \<open>C3 When the positional rule does not apply, automatic selection succeeds exactly when there is one
  and only one way to cut the discovered groups into consecutive blocks, one for each computational
  node, such that every block fits its node; it then selects, for every custom node, the groups of
  its block. The early exit after two solutions does not change the answer.\<close>

theorem automatic_mapping_unique:
  assumes readable: "list_all (list_all readable) groups"
    and count: "length groups \<noteq> length (computational_nodes st nodes)"
    and custom: "set custom \<subseteq> set (computational_nodes st nodes)"
  shows "\<exists>r reason. automatic_group_indices st nodes custom groups = Inr (r, reason) \<and>
    (case r of
       Some selected \<Rightarrow> \<exists>ks. {ks. valid_takes st custom groups (computational_nodes st nodes) 0 ks} = {ks} \<and>
         map Some selected = map (map_of (selection_of custom (computational_nodes st nodes) 0 ks)) custom
     | None \<Rightarrow> \<not> (\<exists>ks. {ks. valid_takes st custom groups (computational_nodes st nodes) 0 ks} = {ks}))"
proof -
  let ?comp = "computational_nodes st nodes"
  let ?all = "all_takes st custom groups ?comp 0"
  have set_all: "{ks. valid_takes st custom groups ?comp 0 ks} = set ?all" using all_takes_valid by blast
  have single: "(\<exists>ks. set ?all = {ks}) \<longleftrightarrow> length ?all = 1"
    using distinct_singleton [OF all_takes_distinct] by (metis length_Suc_conv One_nat_def length_0_conv)
  have v: "visit_groups st custom groups ?comp 0 [] [] = Inr (take 2 (map (selection_of custom ?comp 0) ?all))"
    using visit_groups_takes [OF readable, of "[]" st custom ?comp 0 "[]"] by simp
  show ?thesis
  proof (cases "length ?all = 1")
    case True
    then obtain ks where ks: "?all = [ks]" by (auto simp: length_Suc_conv)
    have "valid_takes st custom groups ?comp 0 ks" using all_takes_valid ks by (metis list.set_intros(1))
    from selection_of_domain [OF this] custom
    have dom: "\<forall>n \<in> set custom. map_of (selection_of custom ?comp 0 ks) n \<noteq> None"
      by (auto simp: map_of_eq_None_iff)
    then have "map_res (\<lambda>n. from_option (KeyError ''node'') (map_of (selection_of custom ?comp 0 ks) n)) custom =
        Inr (map (\<lambda>n. the (map_of (selection_of custom ?comp 0 ks) n)) custom)"
      by (intro map_res_total) (auto simp: from_option_def)
    then have r: "automatic_group_indices st nodes custom groups =
        Inr (Some (map (\<lambda>n. the (map_of (selection_of custom ?comp 0 ks) n)) custom), ''unique validated multi-group mapping'')"
      using count by (simp add: automatic_group_indices_def Let_def v ks)
    have "map Some (map (\<lambda>n. the (map_of (selection_of custom ?comp 0 ks) n)) custom) =
        map (map_of (selection_of custom ?comp 0 ks)) custom"
      using dom by auto
    with r set_all ks show ?thesis by auto
  next
    case False
    define sols where "sols = take 2 (map (selection_of custom ?comp 0) ?all)"
    from False have "length sols \<noteq> 1" by (simp add: sols_def)
    then have "\<exists>reason. automatic_group_indices st nodes custom groups = Inr (None, reason)"
      using count v unfolding sols_def [symmetric]
      by (cases sols; cases "tl sols") (auto simp: automatic_group_indices_def Let_def)
    with False single set_all show ?thesis by auto
  qed
qed

text \<open>A custom node of sixteen elements, an ordinary node, and three groups of eight elements each: the
  custom node takes the first two.\<close>

definition wide_node :: node where
  "wide_node = unary_node\<lparr>n_inputs := map (\<lambda>t. t\<lparr>t_spec := \<lparr>ts_shape = [16], ts_dtype = ''f16''\<rparr>\<rparr>) (n_inputs unary_node),
     n_output_specs := [\<lparr>ts_shape = [16], ts_dtype = ''f16''\<rparr>]\<rparr>"

definition split_store :: store where
  "split_store = [unary_node\<lparr>n_op := ''Parameter'', n_inputs := []\<rparr>, wide_node, unary_node\<lparr>n_op := ''Relu''\<rparr>]"

definition split_groups :: "target list list" where
  "split_groups = map (\<lambda>i. [TargetV1 \<lparr>pt_invocation_index = i, pt_range_index = i, pt_input_count = 1,
     pt_element_count = 8, pt_span_bytes = 16, pt_contract_flags = 0x1F\<rparr>]) [0, 1, 2]"

lemma selected_case:
  "\<exists>r reason. (Inr (Some x, y) :: ('a option \<times> 'b) res) = Inr (r, reason) \<and>
     (case r of Some s \<Rightarrow> P s | None \<Rightarrow> Q) \<Longrightarrow> P x"
  by auto

theorem automatic_mapping_unique_witness:
  "automatic_group_indices split_store [0, 1, 2] [1] split_groups =
     Inr (Some [[0, 1]], ''unique validated multi-group mapping'') \<and>
   {ks. valid_takes split_store [1] split_groups [1, 2] 0 ks} = {[2, 1]}"
proof -
  have r: "list_all (list_all readable) split_groups" by code_simp
  have c: "computational_nodes split_store [0, 1, 2] = [1, 2]" by code_simp
  have n: "length split_groups \<noteq> length (computational_nodes split_store [0, 1, 2])" by code_simp
  have s: "set [1] \<subseteq> set (computational_nodes split_store [0, 1, 2])" unfolding c by simp
  have a: "automatic_group_indices split_store [0, 1, 2] [1] split_groups =
     Inr (Some [[0, 1]], ''unique validated multi-group mapping'')" by code_simp
  have v: "valid_takes split_store [1] split_groups [1, 2] 0 [2, 1]" by code_simp
  have "\<exists>ks. {ks. valid_takes split_store [1] split_groups [1, 2] 0 ks} = {ks}"
    using selected_case [OF automatic_mapping_unique [OF r n s, unfolded a c]] by (elim exE conjE) (rule exI)
  then obtain ks where ks: "{ks. valid_takes split_store [1] split_groups [1, 2] 0 ks} = {ks}" ..
  have "[2, 1] \<in> {ks}" unfolding ks [symmetric] by (rule CollectI, rule v)
  then have "ks = [2, 1]" by (simp only: singleton_iff)
  with a ks show ?thesis by (simp only:)
qed

end
