(* ===== verification/Topology.thy ===== *)
theory Topology
  imports Group_Mapping
begin

text \<open>
  \<open>_propose_native_topology_mapping\<close> of \<open>__init__.py\<close>: candidate assignments of one ACT group to each
  custom node, restricted by the tensor contracts, by the names of graph inputs and outputs and by
  reachability in the exact relations of the native graph. Python sets are lists here; the order in
  which a set is walked does not matter for any result. The cache of \<open>reachable_from\<close> only avoids
  recomputation and is left out.
\<close>

section \<open>Reachability in the native graph\<close>

definition relation_targets :: "exact_graph_relation list \<Rightarrow> graph_relation_endpoint \<Rightarrow> graph_relation_endpoint list" where
  "relation_targets rels e = map er_destination (filter (\<lambda>r. er_source r = e) rels)"

text \<open>The \<open>while pending\<close> loop; the end of the Python list is the head here.\<close>

function reach_loop :: "exact_graph_relation list \<Rightarrow> graph_relation_endpoint list \<Rightarrow> graph_relation_endpoint list \<Rightarrow>
    graph_relation_endpoint list" where
  "reach_loop rels [] reached = reached"
| "reach_loop rels (e # pending) reached =
     (if e \<in> set reached then reach_loop rels pending reached
      else reach_loop rels (relation_targets rels e @ pending) (e # reached))"
  by pat_completeness auto

termination
proof (relation "measures [\<lambda>(rels, pending, reached). card ((er_destination ` set rels \<union> set pending) - set reached),
    \<lambda>(rels, pending, reached). length pending]")
  fix rels :: "exact_graph_relation list" and e pending reached
  let ?u = "\<lambda>p r. (er_destination ` set rels \<union> set p) - set r"
  show "((rels, pending, reached), rels, e # pending, reached) \<in> measures
      [\<lambda>(rels, pending, reached). card ((er_destination ` set rels \<union> set pending) - set reached),
       \<lambda>(rels, pending, reached). length pending]" if "e \<in> set reached"
  proof -
    have "?u pending reached = ?u (e # pending) reached" using that by auto
    then show ?thesis by simp
  qed
  show "((rels, relation_targets rels e @ pending, e # reached), rels, e # pending, reached) \<in> measures
      [\<lambda>(rels, pending, reached). card ((er_destination ` set rels \<union> set pending) - set reached),
       \<lambda>(rels, pending, reached). length pending]" if "e \<notin> set reached"
  proof -
    have "?u (relation_targets rels e @ pending) (e # reached) \<subset> ?u (e # pending) reached"
      using that by (auto simp: relation_targets_def)
    then have "card (?u (relation_targets rels e @ pending) (e # reached)) < card (?u (e # pending) reached)"
      by (rule psubset_card_mono [rotated]) simp
    then show ?thesis by simp
  qed
qed simp

definition reachable_from :: "exact_graph_relation list \<Rightarrow> graph_relation_endpoint \<Rightarrow> graph_relation_endpoint list" where
  "reachable_from rels start = reach_loop rels (relation_targets rels start) []"

definition act_endpoint :: "nat \<Rightarrow> graph_relation_endpoint" where
  "act_endpoint index = \<lparr>ep_kind = ''act_group'', ep_primary_index = int index, ep_secondary_index = None\<rparr>"

section \<open>Ancestors in the symbolic graph\<close>

text \<open>The loop over the nodes in topological order; the dictionary maps a node to its ancestors.\<close>

definition add_ancestors :: "store \<Rightarrow> nat \<Rightarrow> (nat \<Rightarrow> nat list option) \<Rightarrow> (nat \<Rightarrow> nat list option)" where
  "add_ancestors st n anc =
     anc(n \<mapsto> concat (map (\<lambda>p. p # (case anc p of Some a \<Rightarrow> a | None \<Rightarrow> [])) (producers st n)))"

definition ancestor_table :: "store \<Rightarrow> nat list \<Rightarrow> nat \<Rightarrow> nat list option" where
  "ancestor_table st nodes = fold (add_ancestors st) nodes Map.empty"

definition ancestors :: "store \<Rightarrow> nat list \<Rightarrow> nat \<Rightarrow> nat list" where
  "ancestors st nodes n = (case ancestor_table st nodes n of Some a \<Rightarrow> a | None \<Rightarrow> [])"

section \<open>Candidates\<close>

definition endpoints_of_kind :: "string \<Rightarrow> exact_graph_relation list \<Rightarrow> graph_relation_endpoint list" where
  "endpoints_of_kind kind rels =
     filter (\<lambda>e. ep_kind e = kind) (concat (map (\<lambda>r. [er_source r, er_destination r]) rels))"

definition io_endpoint :: "graph_io_symbol \<Rightarrow> graph_relation_endpoint" where
  "io_endpoint s =
     (if io_kind s = ''input''
      then \<lparr>ep_kind = ''graph_input'', ep_primary_index = io_symbol_index s,
            ep_secondary_index = Some (io_symbol_table_index s)\<rparr>
      else \<lparr>ep_kind = ''graph_output'', ep_primary_index = io_symbol_index s, ep_secondary_index = None\<rparr>)"

definition native_names :: "graph_io_symbol list \<Rightarrow> (graph_relation_endpoint, string) dict" where
  "native_names symbols =
     fold (\<lambda>s d. if count_list (map (\<lambda>t. (io_kind t, io_name t)) symbols) (io_kind s, io_name s) \<noteq> 1 then d
       else dict_set (io_endpoint s) (io_name s) d) symbols []"

text \<open>The names that exactly one tensor has.\<close>

definition known_names :: "tensor list \<Rightarrow> string list" where
  "known_names ts =
     (let named = concat (map (\<lambda>t. case t_name t of Some n \<Rightarrow> if n = [] then [] else [n] | None \<Rightarrow> []) ts)
      in filter (\<lambda>n. count_list named n = 1) named)"

record topology_input =
  ti_store :: store
  ti_nodes :: "nat list"
  ti_graph :: graph
  ti_custom :: "nat list"
  ti_relations :: "exact_graph_relation list"
  ti_symbols :: "graph_io_symbol list"

definition contract_candidates :: "store \<Rightarrow> act_group list \<Rightarrow> nat \<Rightarrow> nat list res" where
  "contract_candidates st groups n =
     bind_res (map_res (\<lambda>g. bind_res (custom_targets_mismatch False (node_at st n) (ag_targets g)) (\<lambda>m.
         Inr (if m = None then [ag_index g] else []))) groups)
       (\<lambda>parts. Inr (concat parts))"

definition named_in :: "tensor \<Rightarrow> string list \<Rightarrow> string list" where
  "named_in t names = (case t_name t of Some n \<Rightarrow> if n \<in> set names then [n] else [] | None \<Rightarrow> [])"

definition symbolic_inputs :: "topology_input \<Rightarrow> nat \<Rightarrow> string list" where
  "symbolic_inputs ti n =
     concat (map (\<lambda>a. if n_op (node_at (ti_store ti) a) = ''Parameter''
         then named_in (hd (node_outputs a (node_at (ti_store ti) a))) (known_names (g_inputs (ti_graph ti))) else [])
       (ancestors (ti_store ti) (ti_nodes ti) n))"

definition symbolic_outputs :: "topology_input \<Rightarrow> nat \<Rightarrow> string list" where
  "symbolic_outputs ti n =
     concat (map (\<lambda>t. if t_producer t = n \<or> n \<in> set (ancestors (ti_store ti) (ti_nodes ti) (t_producer t))
         then named_in t (known_names (g_outputs (ti_graph ti))) else [])
       (g_outputs (ti_graph ti)))"

definition native_name_in :: "topology_input \<Rightarrow> string list \<Rightarrow> graph_relation_endpoint \<Rightarrow> string list" where
  "native_name_in ti names e =
     (case map_of (native_names (ti_symbols ti)) e of Some n \<Rightarrow> if n \<in> set names then [n] else [] | None \<Rightarrow> [])"

definition viable :: "topology_input \<Rightarrow> nat \<Rightarrow> nat \<Rightarrow> bool" where
  "viable ti n index =
     (let g = act_endpoint index; rels = ti_relations ti; reached = reachable_from rels g;
          outs = filter (\<lambda>e. e \<in> set reached) (endpoints_of_kind ''graph_output'' rels);
          observed_outputs = concat (map (native_name_in ti (known_names (g_outputs (ti_graph ti)))) outs);
          observed_inputs = concat (map (native_name_in ti (known_names (g_inputs (ti_graph ti))))
            (filter (\<lambda>e. g \<in> set (reachable_from rels e)) (endpoints_of_kind ''graph_input'' rels)))
      in outs \<noteq> [] \<and> set observed_outputs \<subseteq> set (symbolic_outputs ti n) \<and>
         set observed_inputs \<subseteq> set (symbolic_inputs ti n))"

section \<open>Assignments\<close>

record assign_state =
  as_assignments :: "nat list list"
  as_truncated :: bool

definition maximum_assignments :: nat where
  "maximum_assignments = 256"

text \<open>Does the choice of group \<open>g\<close> for node \<open>n\<close> respect the dependencies on the nodes chosen before?\<close>

definition compatible_with :: "topology_input \<Rightarrow> (nat \<times> nat) list \<Rightarrow> nat \<Rightarrow> nat \<Rightarrow> bool" where
  "compatible_with ti selected n g \<longleftrightarrow>
     list_all (\<lambda>(prior, prior_group). prior \<in> set (ancestors (ti_store ti) (ti_nodes ti) n) \<longrightarrow>
       act_endpoint g \<in> set (reachable_from (ti_relations ti) (act_endpoint prior_group))) selected"

text \<open>The nested \<open>visit\<close> over the custom nodes that are left, each with its viable candidates;
  \<open>selected\<close> pairs the nodes before with their groups, and \<open>used\<close> is its second half.\<close>

fun visit_assign :: "topology_input \<Rightarrow> (nat \<times> nat list) list \<Rightarrow> (nat \<times> nat) list \<Rightarrow> assign_state \<Rightarrow> assign_state" where
  "visit_assign ti [] selected s =
     (if as_truncated s then s
      else if length (as_assignments s) = maximum_assignments then s\<lparr>as_truncated := True\<rparr>
      else s\<lparr>as_assignments := as_assignments s @ [map snd selected]\<rparr>)"
| "visit_assign ti ((n, candidates) # rest) selected s =
     (if as_truncated s then s
      else fold (\<lambda>g s. if g \<in> snd ` set selected \<or> \<not> compatible_with ti selected n g then s
                       else visit_assign ti rest (selected @ [(n, g)]) s) candidates s)"

record topology_proposal =
  tp_outputs :: "tensor list"
  tp_names :: "string list"
  tp_contract_candidates :: "nat list list"
  tp_viable_candidates :: "nat list list"
  tp_assignments :: "nat list list"
  tp_relations :: "exact_graph_relation list"
  tp_io_symbols :: "graph_io_symbol list"
  tp_reason :: string
  tp_truncated :: bool

definition proposal_status :: "topology_proposal \<Rightarrow> string" where
  "proposal_status p =
     (if tp_assignments p = [] then ''none''
      else if length (tp_assignments p) = 1 \<and> \<not> tp_truncated p then ''unique'' else ''ambiguous'')"

definition unique_group_indices :: "topology_proposal \<Rightarrow> nat list option" where
  "unique_group_indices p = (if proposal_status p = ''unique'' then Some (tp_assignments p ! 0) else None)"

definition shown_name :: "string option \<Rightarrow> string" where
  "shown_name name = (case name of Some n \<Rightarrow> if n = [] then ''<unnamed>'' else n | None \<Rightarrow> ''<unnamed>'')"

definition missing_names :: "string list \<Rightarrow> nat list list \<Rightarrow> string" where
  "missing_names names candidates = str_join '', '' (map fst (filter (\<lambda>(_, c). c = []) (zip names candidates)))"

definition proposal_reason :: "topology_input \<Rightarrow> string list \<Rightarrow> nat list list \<Rightarrow> nat list list \<Rightarrow> assign_state \<Rightarrow> string" where
  "proposal_reason ti names contract viables s =
     (if ti_custom ti = [] then ''the graph has no custom nodes''
      else if ti_relations ti = [] then ''the native graph exposes no complete exact relations''
      else if endpoints_of_kind ''graph_output'' (ti_relations ti) = []
      then ''the exact relation graph exposes no graph-output endpoint''
      else if list_ex (\<lambda>c. c = []) contract
      then ''no tensor-contract candidate exists for: '' @ missing_names names contract
      else if list_ex (\<lambda>c. c = []) viables
      then ''no candidate has a complete native path to a graph output for: '' @ missing_names names viables
      else if as_assignments s = []
      then ''no injective assignment preserves every positive custom-node dependency''
      else if length (as_assignments s) = 1 \<and> \<not> as_truncated s
      then ''one assignment satisfies tensor contracts, named I/O evidence, and positive native reachability''
      else ''multiple assignments remain after unique native I/O names and positive reachability'')"

definition find_assignments :: "topology_input \<Rightarrow> nat list list \<Rightarrow> assign_state" where
  "find_assignments ti viables =
     (let start = \<lparr>as_assignments = [], as_truncated = False\<rparr> in
      if ti_custom ti \<noteq> [] \<and> endpoints_of_kind ''graph_output'' (ti_relations ti) \<noteq> []
      then visit_assign ti (zip (ti_custom ti) viables) [] start else start)"

definition propose_native_topology_mapping :: "topology_input \<Rightarrow> act_group list \<Rightarrow> topology_proposal res" where
  "propose_native_topology_mapping ti groups =
     bind_res (map_res (contract_candidates (ti_store ti) groups) (ti_custom ti)) (\<lambda>contract.
       let names = map (\<lambda>n. shown_name (n_name (node_at (ti_store ti) n))) (ti_custom ti);
           viables = map (\<lambda>(n, candidates). filter (viable ti n) candidates) (zip (ti_custom ti) contract);
           s = find_assignments ti viables
       in Inr \<lparr>tp_outputs = map (\<lambda>n. hd (node_outputs n (node_at (ti_store ti) n))) (ti_custom ti), tp_names = names,
            tp_contract_candidates = contract, tp_viable_candidates = viables, tp_assignments = as_assignments s,
            tp_relations = ti_relations ti, tp_io_symbols = ti_symbols ti,
            tp_reason = proposal_reason ti names contract viables s, tp_truncated = as_truncated s\<rparr>)"

section \<open>The loops compute transitive closures\<close>

definition relation_edges :: "exact_graph_relation list \<Rightarrow> (graph_relation_endpoint \<times> graph_relation_endpoint) set" where
  "relation_edges rels = (\<lambda>r. (er_source r, er_destination r)) ` set rels"

lemma set_relation_targets: "set (relation_targets rels e) = {d. (e, d) \<in> relation_edges rels}"
  by (auto simp: relation_targets_def relation_edges_def)

lemma reach_loop_closed:
  assumes "\<And>x d. x \<in> set reached \<Longrightarrow> (x, d) \<in> relation_edges rels \<Longrightarrow> d \<in> set reached \<union> set pending"
  shows "set reached \<union> set pending \<subseteq> set (reach_loop rels pending reached) \<and>
    (\<forall>x d. x \<in> set (reach_loop rels pending reached) \<longrightarrow> (x, d) \<in> relation_edges rels \<longrightarrow>
      d \<in> set (reach_loop rels pending reached))"
  using assms
proof (induction rels pending reached rule: reach_loop.induct)
  case (2 rels e pending reached)
  show ?case
  proof (cases "e \<in> set reached")
    case True
    with 2 show ?thesis by auto
  next
    case False
    have "set (e # reached) \<union> set (relation_targets rels e @ pending)
          \<subseteq> set (reach_loop rels (relation_targets rels e @ pending) (e # reached)) \<and>
        (\<forall>x d. x \<in> set (reach_loop rels (relation_targets rels e @ pending) (e # reached)) \<longrightarrow>
          (x, d) \<in> relation_edges rels \<longrightarrow> d \<in> set (reach_loop rels (relation_targets rels e @ pending) (e # reached)))"
      using 2(3) by (intro 2(2) [OF False]) (auto simp: set_relation_targets)
    with False show ?thesis by auto
  qed
qed simp

lemma reach_loop_sound:
  "set (reach_loop rels pending reached) \<subseteq> set reached \<union> (relation_edges rels)\<^sup>* `` set pending"
proof (induction rels pending reached rule: reach_loop.induct)
  case (2 rels e pending reached)
  show ?case
  proof (cases "e \<in> set reached")
    case True
    with 2(1) show ?thesis by auto
  next
    case False
    have "(relation_edges rels)\<^sup>* `` set (relation_targets rels e @ pending) \<subseteq> (relation_edges rels)\<^sup>* `` set (e # pending)"
      by (auto simp: set_relation_targets intro: converse_rtrancl_into_rtrancl)
    with 2(2) [OF False] False show ?thesis by fastforce
  qed
qed simp

lemma reachable_from_trancl: "set (reachable_from rels start) = {d. (start, d) \<in> (relation_edges rels)\<^sup>+}"
proof
  let ?r = "set (reach_loop rels (relation_targets rels start) [])"
  have closed: "set (relation_targets rels start) \<subseteq> ?r" "\<And>x d. x \<in> ?r \<Longrightarrow> (x, d) \<in> relation_edges rels \<Longrightarrow> d \<in> ?r"
    using reach_loop_closed [of "[]" rels "relation_targets rels start"] by auto
  show "{d. (start, d) \<in> (relation_edges rels)\<^sup>+} \<subseteq> set (reachable_from rels start)"
  proof clarify
    fix d assume "(start, d) \<in> (relation_edges rels)\<^sup>+"
    then show "d \<in> set (reachable_from rels start)"
      unfolding reachable_from_def
      by (induction rule: trancl_induct) (use closed in \<open>auto simp: set_relation_targets\<close>)
  qed
  show "set (reachable_from rels start) \<subseteq> {d. (start, d) \<in> (relation_edges rels)\<^sup>+}"
    using reach_loop_sound [of rels "relation_targets rels start" "[]"]
    by (auto simp: reachable_from_def set_relation_targets intro: rtrancl_into_trancl2)
qed

lemma ancestor_table_snoc: "ancestor_table st (xs @ [x]) = add_ancestors st x (ancestor_table st xs)"
  by (simp add: ancestor_table_def)

lemma trancl_by_first: "{m. (x, m) \<in> E\<^sup>+} = (\<Union>p \<in> {p. (x, p) \<in> E}. insert p {m. (p, m) \<in> E\<^sup>+})"
  by (auto intro: trancl_into_trancl2 elim: converse_tranclE)

lemma ancestor_table_spec:
  "topo_sorted (producers st) nodes \<Longrightarrow> distinct nodes \<Longrightarrow>
   (\<forall>n \<in> set nodes. \<exists>a. ancestor_table st nodes n = Some a \<and> set a = {m. (n, m) \<in> (edges (producers st))\<^sup>+})"
proof (induction nodes rule: rev_induct)
  case (snoc x xs)
  let ?E = "edges (producers st)"
  have ih: "\<forall>n \<in> set xs. \<exists>a. ancestor_table st xs n = Some a \<and> set a = {m. (n, m) \<in> ?E\<^sup>+}"
    using snoc by (simp add: topo_sorted_snoc)
  have sub: "set (producers st x) \<subseteq> set xs" using snoc.prems(1) by (simp add: topo_sorted_snoc)
  let ?a = "concat (map (\<lambda>p. p # (case ancestor_table st xs p of Some a \<Rightarrow> a | None \<Rightarrow> [])) (producers st x))"
  have "set ?a = (\<Union>p \<in> set (producers st x). insert p {m. (p, m) \<in> ?E\<^sup>+})"
  proof -
    have "set (p # (case ancestor_table st xs p of Some a \<Rightarrow> a | None \<Rightarrow> [])) = insert p {m. (p, m) \<in> ?E\<^sup>+}"
      if "p \<in> set (producers st x)" for p
      using ih sub that by (metis (mono_tags, lifting) list.simps(15) option.simps(5) subsetD)
    then show ?thesis by simp
  qed
  also have "\<dots> = {m. (x, m) \<in> ?E\<^sup>+}"
    by (subst trancl_by_first) (simp add: edges_def)
  finally have "set ?a = {m. (x, m) \<in> ?E\<^sup>+}" .
  with ih snoc.prems(2) show ?case by (auto simp: ancestor_table_snoc add_ancestors_def)
qed (simp add: ancestor_table_def)

lemma ancestors_trancl:
  "topo_sorted (producers st) nodes \<Longrightarrow> distinct nodes \<Longrightarrow> n \<in> set nodes \<Longrightarrow>
   set (ancestors st nodes n) = {m. (n, m) \<in> (edges (producers st))\<^sup>+}"
  using ancestor_table_spec [of st nodes] by (fastforce simp: ancestors_def)

section \<open>The search lists the valid assignments\<close>

fun all_assign :: "topology_input \<Rightarrow> (nat \<times> nat list) list \<Rightarrow> (nat \<times> nat) list \<Rightarrow> nat list list" where
  "all_assign ti [] selected = [[]]"
| "all_assign ti ((n, candidates) # rest) selected =
     concat (map (\<lambda>g. if \<not> (g \<in> snd ` set selected \<or> \<not> compatible_with ti selected n g)
       then map (Cons g) (all_assign ti rest (selected @ [(n, g)])) else []) candidates)"

definition extend :: "assign_state \<Rightarrow> nat list list \<Rightarrow> assign_state" where
  "extend s found =
     (if as_truncated s then s
      else \<lparr>as_assignments = take maximum_assignments (as_assignments s @ found),
            as_truncated = maximum_assignments < length (as_assignments s @ found)\<rparr>)"

lemma extend_Nil: "length (as_assignments s) \<le> maximum_assignments \<Longrightarrow> extend s [] = s"
  by (cases s) (simp add: extend_def)

lemma extend_extend:
  "length (as_assignments s) \<le> maximum_assignments \<Longrightarrow> extend (extend s a) b = extend s (a @ b)"
  by (auto simp: extend_def)

lemma extend_room: "length (as_assignments s) \<le> maximum_assignments \<Longrightarrow> length (as_assignments (extend s a)) \<le> maximum_assignments"
  by (auto simp: extend_def min_def)

lemma visit_assign_extends:
  "length (as_assignments s) \<le> maximum_assignments \<Longrightarrow>
   visit_assign ti rest sel s = extend s (map (\<lambda>gs. map snd sel @ gs) (all_assign ti rest sel))"
proof (induction rest arbitrary: sel s)
  case Nil
  then show ?case by (cases s) (auto simp: extend_def maximum_assignments_def)
next
  case (Cons p rest)
  obtain n cs where p: "p = (n, cs)" by (cases p)
  let ?ok = "\<lambda>g. \<not> (g \<in> snd ` set sel \<or> \<not> compatible_with ti sel n g)"
  let ?found = "\<lambda>g. if ?ok g then map (\<lambda>gs. map snd sel @ gs) (map (Cons g) (all_assign ti rest (sel @ [(n, g)]))) else []"
  let ?step = "\<lambda>g s. if g \<in> snd ` set sel \<or> \<not> compatible_with ti sel n g then s
      else visit_assign ti rest (sel @ [(n, g)]) s"
  have step: "?step g s = extend s (?found g)" if "length (as_assignments s) \<le> maximum_assignments" for g s
    using Cons.IH [OF that, of "sel @ [(n, g)]"] extend_Nil [OF that] by (auto simp: comp_def)
  have loop: "fold ?step gs s = extend s (concat (map ?found gs))"
    if "length (as_assignments s) \<le> maximum_assignments" for gs s
    using that
  proof (induction gs arbitrary: s)
    case (Cons g gs)
    have "fold ?step (g # gs) s = fold ?step gs (extend s (?found g))" by (simp only: fold_simps step [OF Cons.prems])
    also have "\<dots> = extend (extend s (?found g)) (concat (map ?found gs))"
      by (rule Cons.IH [OF extend_room [OF Cons.prems]])
    finally show ?case by (simp only: extend_extend [OF Cons.prems] list.map concat.simps)
  qed (simp add: extend_Nil)
  have flat: "map (\<lambda>gs. map snd sel @ gs) (concat (map (\<lambda>g. if ?ok g
      then map (Cons g) (all_assign ti rest (sel @ [(n, g)])) else []) gs)) = concat (map ?found gs)" for gs
    by (induction gs) auto
  show ?case
  proof (cases "as_truncated s")
    case True
    then show ?thesis by (simp add: p extend_def)
  next
    case False
    with loop [OF Cons.prems, of cs] show ?thesis by (simp only: p visit_assign.simps all_assign.simps flat if_False)
  qed
qed

text \<open>The assignments in closed form, for nodes paired with candidates and after the choices \<open>sel\<close>.\<close>

definition assignment_ok :: "topology_input \<Rightarrow> (nat \<times> nat list) list \<Rightarrow> nat list \<Rightarrow> bool" where
  "assignment_ok ti ps gs \<longleftrightarrow> length gs = length ps \<and> distinct gs \<and>
     (\<forall>i < length ps. gs ! i \<in> set (snd (ps ! i))) \<and>
     (\<forall>j < length ps. \<forall>i < j. fst (ps ! i) \<in> set (ancestors (ti_store ti) (ti_nodes ti) (fst (ps ! j))) \<longrightarrow>
        (act_endpoint (gs ! i), act_endpoint (gs ! j)) \<in> (relation_edges (ti_relations ti))\<^sup>+)"

fun valid_assign :: "topology_input \<Rightarrow> (nat \<times> nat list) list \<Rightarrow> (nat \<times> nat) list \<Rightarrow> nat list \<Rightarrow> bool" where
  "valid_assign ti [] selected gs = (gs = [])"
| "valid_assign ti ((n, candidates) # rest) selected gs =
     (case gs of [] \<Rightarrow> False
      | g # gs' \<Rightarrow> g \<in> set candidates \<and> g \<notin> snd ` set selected \<and> compatible_with ti selected n g \<and>
          valid_assign ti rest (selected @ [(n, g)]) gs')"

lemma all_assign_valid: "gs \<in> set (all_assign ti ps sel) \<longleftrightarrow> valid_assign ti ps sel gs"
proof (induction ps arbitrary: sel gs)
  case (Cons p ps)
  obtain n cs where p: "p = (n, cs)" by (cases p)
  show ?case
  proof (cases gs)
    case Nil
    then show ?thesis using Nil_in_choices by (simp add: p)
  next
    case (Cons g gs')
    show ?thesis
      by (auto simp only: p Cons all_assign.simps Cons_in_choices Cons.IH valid_assign.simps list.case)
  qed
qed auto

lemma all_assign_distinct: "list_all (\<lambda>(_, cs). distinct cs) ps \<Longrightarrow> distinct (all_assign ti ps sel)"
proof (induction ps arbitrary: sel)
  case (Cons p ps)
  have "distinct (concat (map (\<lambda>g. if P g then map (Cons g) (all_assign ti ps (sel' g)) else []) cs))"
    if "distinct cs" for P cs sel'
    using that by (induction cs) (use Cons in \<open>auto simp: distinct_map\<close>)
  with Cons.prems show ?case by (cases p) simp
qed simp

lemma valid_assign_closed:
  "valid_assign ti ps sel gs \<longleftrightarrow> length gs = length ps \<and>
    (\<forall>i < length ps. gs ! i \<in> set (snd (ps ! i)) \<and> gs ! i \<notin> snd ` set sel \<and> gs ! i \<notin> set (take i gs) \<and>
      compatible_with ti (sel @ zip (map fst (take i ps)) (take i gs)) (fst (ps ! i)) (gs ! i))"
proof (induction ps arbitrary: sel gs)
  case (Cons p ps)
  obtain n cs where p: "p = (n, cs)" by (cases p)
  show ?case
  proof (cases gs)
    case (Cons g gs')
    show ?thesis by (auto simp: p Cons Cons.IH All_less_Suc2)
  qed (simp add: p)
qed simp

lemma distinct_take: "distinct gs \<longleftrightarrow> (\<forall>i < length gs. gs ! i \<notin> set (take i gs))"
  by (induction gs rule: rev_induct) (auto simp: nth_append less_Suc_eq)

lemma valid_assign_ok: "valid_assign ti ps [] gs \<longleftrightarrow> assignment_ok ti ps gs"
proof -
  have "compatible_with ti (zip (map fst (take i ps)) (take i gs)) n g \<longleftrightarrow>
      (\<forall>k < i. fst (ps ! k) \<in> set (ancestors (ti_store ti) (ti_nodes ti) n) \<longrightarrow>
        (act_endpoint (gs ! k), act_endpoint g) \<in> (relation_edges (ti_relations ti))\<^sup>+)"
    if "i < length ps" "length gs = length ps" for i n g
    using that by (auto simp: compatible_with_def list_all_length reachable_from_trancl)
  then show ?thesis
    unfolding valid_assign_closed assignment_ok_def distinct_take by auto
qed

lemma contract_candidates_distinct:
  assumes "contract_candidates st groups n = Inr cs" and "distinct (map ag_index groups)"
  shows "distinct cs"
proof -
  from assms(1) obtain parts where m: "map_res (\<lambda>g. bind_res (custom_targets_mismatch False (node_at st n) (ag_targets g))
      (\<lambda>m. Inr (if m = None then [ag_index g] else []))) groups = Inr parts" and cs: "cs = concat parts"
    by (auto simp: contract_candidates_def bind_res_eq_Inr)
  have parts: "list_all2 (\<lambda>g part. part = [ag_index g] \<or> part = []) groups parts"
    unfolding list_all2_conv_all_nth
  proof (intro conjI allI impI)
    fix i assume "i < length groups"
    from map_res_nth [OF m this] show "parts ! i = [ag_index (groups ! i)] \<or> parts ! i = []"
      by (auto simp: bind_res_eq_Inr split: if_splits)
  qed (simp add: map_res_length [OF m])
  from parts assms(2) have "distinct (concat parts) \<and> set (concat parts) \<subseteq> ag_index ` set groups"
  proof (induction rule: list_all2_induct)
    case (Cons g gs part ps)
    then have IH: "distinct (concat ps)" "set (concat ps) \<subseteq> ag_index ` set gs" and new: "ag_index g \<notin> ag_index ` set gs"
      by auto
    then have "ag_index g \<notin> set (concat ps)" by (meson subsetD)
    with Cons.hyps(1) IH show ?case by (elim disjE) auto
  qed simp
  with cs show ?thesis by simp
qed

lemma propose_assignments:
  assumes "propose_native_topology_mapping ti groups = Inr p" and "ti_custom ti \<noteq> []"
    and "endpoints_of_kind ''graph_output'' (ti_relations ti) \<noteq> []"
  defines "ps \<equiv> zip (ti_custom ti) (tp_viable_candidates p)"
  shows "tp_assignments p = take maximum_assignments (all_assign ti ps []) \<and>
    tp_truncated p = (maximum_assignments < length (all_assign ti ps []))"
  using assms(1-3) visit_assign_extends [of "\<lparr>as_assignments = [], as_truncated = False\<rparr>" ti ps "[]"]
  by (auto simp: propose_native_topology_mapping_def find_assignments_def bind_res_eq_Inr Let_def extend_def ps_def)

lemma propose_candidates_distinct:
  assumes "propose_native_topology_mapping ti groups = Inr p" and "distinct (map ag_index groups)"
  shows "list_all (\<lambda>(_, cs). distinct cs) (zip (ti_custom ti) (tp_viable_candidates p))"
proof -
  from assms(1) obtain contract where c: "map_res (contract_candidates (ti_store ti) groups) (ti_custom ti) = Inr contract"
    and v: "tp_viable_candidates p = map (\<lambda>(n, cs). filter (viable ti n) cs) (zip (ti_custom ti) contract)"
    by (auto simp: propose_native_topology_mapping_def bind_res_eq_Inr Let_def)
  have "distinct (contract ! i)" if "i < length contract" for i
    using map_res_nth [OF c] map_res_length [OF c] that contract_candidates_distinct [OF _ assms(2)] by metis
  then show ?thesis by (auto simp: v list_all_length)
qed

text \<open>C4 The topology proposal is unique exactly when one assignment is: with a custom node, a graph output
  among the exact relations and distinct group indices, the proposal has status \<open>unique\<close> if and only
  if there is exactly one choice of pairwise different viable groups under which every custom node
  that depends on another one gets a group reachable, in the native graph, from the group of the
  other; and it then reports that choice.\<close>

theorem topology_proposal_unique:
  assumes p: "propose_native_topology_mapping ti groups = Inr p" and "ti_custom ti \<noteq> []"
    and "endpoints_of_kind ''graph_output'' (ti_relations ti) \<noteq> []" and idx: "distinct (map ag_index groups)"
  shows "(case unique_group_indices p of
      Some gs \<Rightarrow> {gs. assignment_ok ti (zip (ti_custom ti) (tp_viable_candidates p)) gs} = {gs}
    | None \<Rightarrow> \<not> (\<exists>gs. {gs. assignment_ok ti (zip (ti_custom ti) (tp_viable_candidates p)) gs} = {gs})) \<and>
    list_all (assignment_ok ti (zip (ti_custom ti) (tp_viable_candidates p))) (tp_assignments p)"
proof -
  let ?ps = "zip (ti_custom ti) (tp_viable_candidates p)"
  let ?all = "all_assign ti ?ps []"
  have set_all: "set ?all = {gs. assignment_ok ti ?ps gs}"
    using all_assign_valid [of _ ti ?ps "[]"] valid_assign_ok [of ti ?ps] by blast
  have d: "distinct ?all" by (rule all_assign_distinct [OF propose_candidates_distinct [OF p idx]])
  note as = propose_assignments [OF p assms(2,3)]
  have "unique_group_indices p = (if length ?all = 1 then Some (?all ! 0) else None)"
    using as by (auto simp: unique_group_indices_def proposal_status_def maximum_assignments_def)
  moreover have "set ?all = {gs} \<longleftrightarrow> ?all = [gs]" for gs by (rule distinct_singleton [OF d])
  moreover have "length ?all = 1 \<longleftrightarrow> (\<exists>gs. ?all = [gs])" by (auto simp: length_Suc_conv)
  moreover have "set (tp_assignments p) \<subseteq> set ?all" using as by (auto dest: in_set_takeD)
  ultimately show ?thesis
    unfolding set_all [symmetric] using set_all by (auto simp: list_all_iff)
qed

text \<open>Two custom nodes in a row over one group graph: group 1 feeds group 0, which feeds the output. Both
  groups fit both nodes; the dependency leaves one assignment.\<close>

definition chain_store :: store where
  "chain_store =
    (let x = unary_node\<lparr>n_op := ''Parameter'', n_inputs := [], n_name := Some ''x'', n_metadata := []\<rparr>
     in [x, unary_node\<lparr>n_inputs := node_outputs 0 x\<rparr>, unary_node\<lparr>n_inputs := node_outputs 1 unary_node\<rparr>])"

definition chain_relation :: "graph_relation_endpoint \<Rightarrow> graph_relation_endpoint \<Rightarrow> exact_graph_relation" where
  "chain_relation a b = \<lparr>er_kind = ''act_to_act'', er_source = a, er_destination = b, er_evidence_count = 1\<rparr>"

definition chain_input :: topology_input where
  "chain_input = \<lparr>ti_store = chain_store, ti_nodes = [0, 1, 2],
     ti_graph = \<lparr>g_inputs = node_outputs 0 (node_at chain_store 0), g_outputs = node_outputs 2 (node_at chain_store 2),
       g_name = ''g''\<rparr>,
     ti_custom = [1, 2],
     ti_relations = [chain_relation (act_endpoint 1) (act_endpoint 0),
       chain_relation (act_endpoint 0) \<lparr>ep_kind = ''graph_output'', ep_primary_index = 1, ep_secondary_index = None\<rparr>],
     ti_symbols = []\<rparr>"

definition chain_groups :: "act_group list" where
  "chain_groups = map (\<lambda>i. \<lparr>ag_index = i, ag_targets = [TargetV2 (unary_target (int i))]\<rparr>) [0, 1]"

definition chain_proposal :: topology_proposal where
  "chain_proposal = (case propose_native_topology_mapping chain_input chain_groups of Inr p \<Rightarrow> p | Inl _ \<Rightarrow>
     \<lparr>tp_outputs = [], tp_names = [], tp_contract_candidates = [], tp_viable_candidates = [], tp_assignments = [],
      tp_relations = [], tp_io_symbols = [], tp_reason = '''', tp_truncated = False\<rparr>)"

theorem topology_proposal_unique_witness:
  "unique_group_indices chain_proposal = Some [1, 0] \<and>
   {gs. assignment_ok chain_input (zip (ti_custom chain_input) (tp_viable_candidates chain_proposal)) gs} = {[1, 0]}"
proof -
  have "case propose_native_topology_mapping chain_input chain_groups of Inr p \<Rightarrow> True | Inl _ \<Rightarrow> False" by code_simp
  then have p: "propose_native_topology_mapping chain_input chain_groups = Inr chain_proposal"
    by (simp add: chain_proposal_def split: sum.splits)
  have c: "ti_custom chain_input \<noteq> []" by code_simp
  have o: "endpoints_of_kind ''graph_output'' (ti_relations chain_input) \<noteq> []" by code_simp
  have d: "distinct (map ag_index chain_groups)" by code_simp
  have u: "unique_group_indices chain_proposal = Some [1, 0]" by code_simp
  from topology_proposal_unique [OF p c o d] u show ?thesis by (simp only: option.case)
qed

end
