(* ===== verification/Ir.thy ===== *)
theory Ir
  imports Shape_Inference
begin

text \<open>
  \<open>ir.py\<close>: serialisation of a graph to the XML and the weights of an OpenVINO IR. The document is
  built as an element tree and printed the way \<open>ElementTree.indent\<close> and \<open>ElementTree.tostring\<close> do.
\<close>

section \<open>Element trees and their printing\<close>

datatype element = Element (e_tag: string) (e_attrib: "(string \<times> string) list") (e_text: "string option")
  (e_children: "element list")

definition escape_with :: "(char \<times> string) list \<Rightarrow> string \<Rightarrow> string" where
  "escape_with table s = concat (map (\<lambda>c. case map_of table c of Some t \<Rightarrow> t | None \<Rightarrow> [c]) s)"

definition escape_cdata :: "string \<Rightarrow> string" where
  "escape_cdata = escape_with [(CHR ''&'', ''&amp;''), (CHR ''<'', ''&lt;''), (CHR ''>'', ''&gt;'')]"

definition escape_attrib :: "string \<Rightarrow> string" where
  "escape_attrib = escape_with [(CHR ''&'', ''&amp;''), (CHR ''<'', ''&lt;''), (CHR ''>'', ''&gt;''),
     (CHR 0x22, ''&quot;''), (CHR 0x0D, ''&#13;''), (CHR 0x0A, ''&#10;''), (CHR 0x09, ''&#09;'')]"

definition indentation :: "nat \<Rightarrow> string" where
  "indentation level = CHR 0x0A # concat (replicate level ''  '')"

definition open_tag :: "string \<Rightarrow> (string \<times> string) list \<Rightarrow> string" where
  "open_tag tag attrib = CHR ''<'' # tag @
     concat (map (\<lambda>(k, v). CHR '' '' # k @ ''='' @ CHR 0x22 # escape_attrib v @ [CHR 0x22]) attrib)"

text \<open>An element with children gets line breaks around them; one without is left as it is.\<close>

fun render :: "nat \<Rightarrow> element \<Rightarrow> string" where
  "render level (Element tag attrib text children) =
     open_tag tag attrib @
     (if children \<noteq> [] then
        ''>'' @ concat (map (\<lambda>c. indentation (Suc level) @ render (Suc level) c) children) @
        indentation level @ ''</'' @ tag @ ''>''
      else case text of
        Some t \<Rightarrow> if t = [] then '' />'' else ''>'' @ escape_cdata t @ ''</'' @ tag @ ''>''
      | None \<Rightarrow> '' />'')"

definition xml_bytes :: "element \<Rightarrow> bytes" where
  "xml_bytes doc =
     utf8 (''<?xml version='' @ CHR 0x27 # ''1.0'' @ CHR 0x27 # '' encoding='' @ CHR 0x27 # ''utf-8'' @
       CHR 0x27 # ''?>'' @ CHR 0x0A # render 0 doc)"

section \<open>Serialisation\<close>

definition precisions :: "(string \<times> string) list" where
  "precisions =
    [(''boolean'', ''BOOL''), (''f16'', ''FP16''), (''f32'', ''FP32''), (''f64'', ''FP64''),
     (''i8'', ''I8''), (''i16'', ''I16''), (''i32'', ''I32''), (''i64'', ''I64''),
     (''u8'', ''U8''), (''u16'', ''U16''), (''u32'', ''U32''), (''u64'', ''U64'')]"

definition opset_version :: "string \<Rightarrow> string" where
  "opset_version layer_type = (case map_of [(''Slice'', ''opset8'')] layer_type of Some v \<Rightarrow> v | None \<Rightarrow> ''opset1'')"

record serialized_ir =
  si_xml :: bytes
  si_weights :: bytes
  si_custom_nodes :: "nat list"

definition shape_text :: "tensor_spec \<Rightarrow> string" where
  "shape_text spec = str_join '','' (map int_str (ts_shape spec))"

fun float_text :: "pyfloat \<Rightarrow> string" where
  "float_text (PyFin _ text) = text"
| "float_text PyNaN = ''nan''"
| "float_text (PyInf negative) = (if negative then ''-inf'' else ''inf'')"

fun scalar_text :: "pyval \<Rightarrow> string option" where
  "scalar_text (PBool b) = Some (if b then ''true'' else ''false'')"
| "scalar_text (PStr s) = Some s"
| "scalar_text (PInt i) = Some (int_str i)"
| "scalar_text (PFloat f) = Some (float_text f)"
| "scalar_text _ = None"

definition attribute_text :: "pyval \<Rightarrow> string res" where
  "attribute_text v =
     (let e = TypeError ''IR attribute value is not serializable'';
          joined = (\<lambda>items. if list_all (\<lambda>i. scalar_text i \<noteq> None) items
                            then Inr (str_join '','' (map (the \<circ> scalar_text) items)) else Inl e)
      in case scalar_text v of
           Some t \<Rightarrow> Inr t
         | None \<Rightarrow> (case v of PTuple items \<Rightarrow> joined items | PList items \<Rightarrow> joined items | _ \<Rightarrow> Inl e))"

definition port :: "nat \<Rightarrow> tensor \<Rightarrow> string option \<Rightarrow> element res" where
  "port port_id t names =
     bind_res (from_option (KeyError (t_dtype t)) (map_of precisions (t_dtype t))) (\<lambda>precision.
       Inr (Element ''port''
         ([(''id'', nat_str port_id), (''precision'', precision)] @
          (case names of Some n \<Rightarrow> if n = [] then [] else [(''names'', n)] | None \<Rightarrow> []))
         None (map (\<lambda>d. Element ''dim'' [] (Some (int_str d)) []) (t_shape t))))"

text \<open>\<open>_carrier_overrides\<close>: absent, no mapping at all, or pairs of a key (\<open>None\<close> for a key that is no
  \<open>Node\<close>) and a value.\<close>

datatype carrier_overrides = NoOverrides | NotAMapping | Overrides "(nat option \<times> pyval) list"

definition check_override :: "nat list \<Rightarrow> nat option \<times> pyval \<Rightarrow> (nat \<times> string) res" where
  "check_override custom_nodes = (\<lambda>(key, carrier).
     case key of
       None \<Rightarrow> Inl (ValueError ''carrier override keys must be custom nodes in this graph'')
     | Some n \<Rightarrow>
         if n \<notin> set custom_nodes
         then Inl (ValueError ''carrier override keys must be custom nodes in this graph'')
         else case carrier of
           PStr s \<Rightarrow>
             if s = [] \<or> list_ex isspace s
             then Inl (ValueError ''carrier override values must be non-empty operator names without whitespace'')
             else Inr (n, s)
         | _ \<Rightarrow> Inl (ValueError ''carrier override values must be non-empty operator names without whitespace''))"

definition checked_overrides :: "nat list \<Rightarrow> carrier_overrides \<Rightarrow> (nat \<times> string) list res" where
  "checked_overrides custom_nodes given =
     (case given of
        NoOverrides \<Rightarrow> Inr []
      | NotAMapping \<Rightarrow> Inl (TypeError ''_carrier_overrides must map custom Node objects to operator names'')
      | Overrides pairs \<Rightarrow> map_res (check_override custom_nodes) pairs)"

definition or_default :: "string option \<Rightarrow> string \<Rightarrow> string" where
  "or_default name default_name = (case name of Some n \<Rightarrow> if n = [] then default_name else n | None \<Rightarrow> default_name)"

text \<open>The \<open>type\<close> of a layer: the operator, or the carrier of a custom node.\<close>

definition layer_type :: "(nat \<times> string) list \<Rightarrow> nat \<Rightarrow> node \<Rightarrow> string res" where
  "layer_type overrides nid n =
     (if n_op n \<noteq> ''Custom'' then Inr (n_op n)
      else case map_of overrides nid of
        Some carrier \<Rightarrow> Inr carrier
      | None \<Rightarrow> (case dget (n_metadata n) ''_carrier'' of
          PStr carrier \<Rightarrow> Inr carrier
        | _ \<Rightarrow> Inl (ValueError ''custom node is missing a carrier operator'')))"

text \<open>The \<open>data\<close> element of a layer and the bytes a constant appends to the weights.\<close>

definition layer_data :: "node \<Rightarrow> nat \<Rightarrow> (element list \<times> bytes) res" where
  "layer_data n offset =
     (if n_op n = ''Parameter'' then
        (case n_output_specs n of
           spec # _ \<Rightarrow> Inr ([Element ''data'' [(''shape'', shape_text spec), (''element_type'', ts_dtype spec)] None []], [])
         | [] \<Rightarrow> Inl IndexError)
      else if n_op n = ''Const'' then
        (case dget (n_metadata n) ''value'' of
           PNone \<Rightarrow> Inl (ValueError ''constant node has no value'')
         | PArray a \<Rightarrow>
             (case n_output_specs n of
                spec # _ \<Rightarrow> Inr ([Element ''data'' [(''element_type'', ts_dtype spec), (''shape'', shape_text spec),
                  (''offset'', nat_str offset), (''size'', nat_str (length (nd_bytes a)))] None []], nd_bytes a)
              | [] \<Rightarrow> Inl IndexError)
         | _ \<Rightarrow> Inl AttributeError)
      else if n_attrs n \<noteq> [] then
        bind_res (map_res (\<lambda>(key, v). bind_res (attribute_text v) (\<lambda>t. Inr (key, t))) (n_attrs n)) (\<lambda>attrib.
          Inr ([Element ''data'' attrib None []], []))
      else Inr ([], []))"

definition layer_rt_info :: "nat \<Rightarrow> node \<Rightarrow> element list" where
  "layer_rt_info nid n =
     (if n_op n = ''Custom'' \<and> list_ex (\<lambda>t. t_dtype t = ''f32'') (node_outputs nid n)
      then [Element ''rt_info'' [] None
        [Element ''attribute'' [(''name'', ''DisablePrecisionConversion''), (''version'', ''0''),
          (''value'', ''dynamic:f16'')] None []]]
      else [])"

definition layer_inputs :: "node \<Rightarrow> element list res" where
  "layer_inputs n =
     (if n_inputs n = [] then Inr []
      else bind_res (map_res (\<lambda>(i, t). port i t None) (enum (n_inputs n))) (\<lambda>ports.
        Inr [Element ''input'' [] None ports]))"

definition layer_outputs :: "nat \<Rightarrow> node \<Rightarrow> element res" where
  "layer_outputs nid n =
     bind_res (map_res (\<lambda>(i, t). port (length (n_inputs n) + i) t (t_name t)) (enum (node_outputs nid n)))
       (\<lambda>ports. Inr (Element ''output'' [] None ports))"

definition layer_element :: "(nat \<times> string) list \<Rightarrow> store \<Rightarrow> nat \<Rightarrow> nat \<Rightarrow> nat \<Rightarrow> (element \<times> bytes) res" where
  "layer_element overrides st node_id nid offset =
     (let n = node_at st nid; name = or_default (n_name n) (n_op n @ ''_'' @ nat_str node_id) in
      bind_res (layer_type overrides nid n) (\<lambda>type.
      bind_res (layer_data n offset) (\<lambda>(data, raw).
      bind_res (layer_inputs n) (\<lambda>inputs.
      bind_res (layer_outputs nid n) (\<lambda>outputs.
      Inr (Element ''layer''
        [(''id'', nat_str node_id), (''name'', name), (''type'', type), (''version'', opset_version type)]
        None (data @ layer_rt_info nid n @ inputs @ [outputs]), raw))))))"

record layers_state =
  ls_layers :: "element list"
  ls_weights :: bytes
  ls_custom :: "nat list"

text \<open>One turn of the loop over the nodes.\<close>

definition add_layer :: "(nat \<times> string) list \<Rightarrow> store \<Rightarrow> nat \<times> nat \<Rightarrow> layers_state \<Rightarrow> layers_state res" where
  "add_layer overrides st = (\<lambda>(node_id, nid) s.
     bind_res (layer_element overrides st node_id nid (length (ls_weights s))) (\<lambda>(layer, raw).
       Inr (s\<lparr>ls_layers := ls_layers s @ [layer], ls_weights := ls_weights s @ raw,
              ls_custom := ls_custom s @ (if n_op (node_at st nid) = ''Custom'' then [nid] else [])\<rparr>)))"

definition result_layer :: "nat \<Rightarrow> nat \<times> tensor \<Rightarrow> element res" where
  "result_layer base = (\<lambda>(output_index, t).
     let result_name = or_default (t_name t) (''Result_'' @ nat_str output_index) in
     bind_res (port 0 t None) (\<lambda>p.
       Inr (Element ''layer''
         [(''id'', nat_str (base + output_index)), (''name'', result_name), (''type'', ''Result''),
          (''version'', ''opset1''), (''output_names'', result_name)]
         None [Element ''input'' [] None [p]])))"

fun index_of :: "'a list \<Rightarrow> 'a \<Rightarrow> nat" where
  "index_of [] x = 0"
| "index_of (y # ys) x = (if y = x then 0 else Suc (index_of ys x))"

text \<open>The edges as (from-layer, from-port, to-layer, to-port).\<close>

type_synonym edge = "nat \<times> nat \<times> nat \<times> nat"

definition edge_from :: "store \<Rightarrow> nat list \<Rightarrow> tensor \<Rightarrow> nat \<times> nat" where
  "edge_from st nodes t =
     (index_of nodes (t_producer t), length (n_inputs (node_at st (t_producer t))) + t_output_index t)"

definition node_edges :: "store \<Rightarrow> nat list \<Rightarrow> edge list" where
  "node_edges st nodes = concat (map (\<lambda>n. map (\<lambda>(i, t). case edge_from st nodes t of
     (layer, fp) \<Rightarrow> (layer, fp, index_of nodes n, i)) (enum (n_inputs (node_at st n)))) nodes)"

definition result_edges :: "store \<Rightarrow> nat list \<Rightarrow> tensor list \<Rightarrow> edge list" where
  "result_edges st nodes outs = map (\<lambda>(i, t). case edge_from st nodes t of
     (layer, fp) \<Rightarrow> (layer, fp, length nodes + i, 0)) (enum outs)"

definition edge_element :: "edge \<Rightarrow> element" where
  "edge_element = (\<lambda>(fl, fp, tl, tp).
     Element ''edge'' [(''from-layer'', nat_str fl), (''from-port'', nat_str fp), (''to-layer'', nat_str tl),
       (''to-port'', nat_str tp)] None [])"

definition ir_edges :: "store \<Rightarrow> nat list \<Rightarrow> tensor list \<Rightarrow> edge list" where
  "ir_edges st nodes outs = node_edges st nodes @ result_edges st nodes outs"

definition net_element :: "string \<Rightarrow> element list \<Rightarrow> edge list \<Rightarrow> element" where
  "net_element name layers edge_list =
     Element ''net'' [(''name'', name), (''version'', ''11'')] None
       [Element ''layers'' [] None layers, Element ''edges'' [] None (map edge_element edge_list),
        Element ''rt_info'' [] None []]"

definition serialize_layers :: "(nat \<times> string) list \<Rightarrow> store \<Rightarrow> nat list \<Rightarrow> layers_state res" where
  "serialize_layers overrides st nodes =
     fold_res (add_layer overrides st) (enum nodes) \<lparr>ls_layers = [], ls_weights = [], ls_custom = []\<rparr>"

definition custom_node_list :: "store \<Rightarrow> nat list \<Rightarrow> nat list" where
  "custom_node_list st nodes = filter (\<lambda>n. n_op (node_at st n) = ''Custom'') nodes"

definition serialize_ir :: "store \<Rightarrow> nat \<Rightarrow> graph \<Rightarrow> carrier_overrides \<Rightarrow> serialized_ir res" where
  "serialize_ir st limit g given =
     bind_res (graph_nodes st limit g) (\<lambda>nodes.
     bind_res (checked_overrides (custom_node_list st nodes) given) (\<lambda>overrides.
     bind_res (serialize_layers overrides st nodes) (\<lambda>s.
     bind_res (map_res (result_layer (length nodes)) (enum (g_outputs g))) (\<lambda>results.
     Inr \<lparr>si_xml = xml_bytes (net_element (g_name g) (ls_layers s @ results) (ir_edges st nodes (g_outputs g))),
          si_weights = ls_weights s, si_custom_nodes = ls_custom s\<rparr>))))"

section \<open>Layers and weights\<close>

text \<open>What a node contributes to the weights.\<close>

definition const_bytes :: "node \<Rightarrow> bytes" where
  "const_bytes n = (if n_op n = ''Const'' then case dget (n_metadata n) ''value'' of PArray a \<Rightarrow> nd_bytes a | _ \<Rightarrow> [] else [])"

lemma layer_data_raw: "layer_data n offset = Inr (data, raw) \<Longrightarrow> raw = const_bytes n"
  by (cases "dget (n_metadata n) ''value''")
     (auto simp: layer_data_def const_bytes_def bind_res_eq_Inr split: if_splits list.splits)

lemma layer_element_raw: "layer_element ov st i n offset = Inr (layer, raw) \<Longrightarrow> raw = const_bytes (node_at st n)"
  by (auto simp: layer_element_def Let_def bind_res_eq_Inr dest: layer_data_raw)

abbreviation weights_before :: "store \<Rightarrow> nat list \<Rightarrow> bytes" where
  "weights_before st ns \<equiv> concat (map (\<lambda>n. const_bytes (node_at st n)) ns)"

lemma add_layers_fold:
  "fold_res (add_layer ov st) (List.enumerate k ns) s = Inr t \<Longrightarrow>
   \<exists>layers. ls_layers t = ls_layers s @ layers \<and> length layers = length ns \<and>
     ls_weights t = ls_weights s @ weights_before st ns \<and>
     ls_custom t = ls_custom s @ custom_node_list st ns \<and>
     (\<forall>i < length ns. layer_element ov st (k + i) (ns ! i)
        (length (ls_weights s @ weights_before st (take i ns))) = Inr (layers ! i, const_bytes (node_at st (ns ! i))))"
proof (induction ns arbitrary: k s)
  case (Cons n ns)
  from Cons.prems obtain u where u: "add_layer ov st (k, n) s = Inr u"
    and rest: "fold_res (add_layer ov st) (List.enumerate (Suc k) ns) u = Inr t"
    by (auto simp: res_simps)
  from u obtain layer raw where l: "layer_element ov st k n (length (ls_weights s)) = Inr (layer, raw)"
    and us: "u = s\<lparr>ls_layers := ls_layers s @ [layer], ls_weights := ls_weights s @ raw,
        ls_custom := ls_custom s @ (if n_op (node_at st n) = ''Custom'' then [n] else [])\<rparr>"
    by (auto simp: add_layer_def bind_res_eq_Inr)
  from layer_element_raw [OF l] have raw: "raw = const_bytes (node_at st n)" .
  from Cons.IH [OF rest] obtain layers where ih: "ls_layers t = ls_layers u @ layers" "length layers = length ns"
      "ls_weights t = ls_weights u @ weights_before st ns"
      "ls_custom t = ls_custom u @ custom_node_list st ns"
      "\<And>i. i < length ns \<Longrightarrow> layer_element ov st (Suc k + i) (ns ! i)
        (length (ls_weights u @ weights_before st (take i ns))) = Inr (layers ! i, const_bytes (node_at st (ns ! i)))"
    by blast
  have "layer_element ov st (k + i) ((n # ns) ! i)
      (length (ls_weights s @ weights_before st (take i (n # ns)))) =
      Inr ((layer # layers) ! i, const_bytes (node_at st ((n # ns) ! i)))" if "i < length (n # ns)" for i
  proof (cases i)
    case 0
    with l raw show ?thesis by simp
  next
    case (Suc j)
    with ih(5) [of j] that us raw show ?thesis by simp
  qed
  with ih(1-4) us raw show ?case
    by (intro exI [of _ "layer # layers"]) (auto simp: custom_node_list_def)
qed (auto simp: custom_node_list_def)

lemma serialize_layers_spec:
  "serialize_layers ov st nodes = Inr s \<Longrightarrow>
   length (ls_layers s) = length nodes \<and> ls_weights s = weights_before st nodes \<and>
   ls_custom s = custom_node_list st nodes \<and>
   (\<forall>i < length nodes. layer_element ov st i (nodes ! i) (length (weights_before st (take i nodes))) =
      Inr (ls_layers s ! i, const_bytes (node_at st (nodes ! i))))"
  unfolding serialize_layers_def by (drule add_layers_fold) auto

lemma concat_slice:
  "i < length xs \<Longrightarrow> take (length (f (xs ! i))) (drop (length (concat (map f (take i xs)))) (concat (map f xs))) = f (xs ! i)"
proof -
  assume i: "i < length xs"
  then have "concat (map f xs) = concat (map f (take i xs)) @ f (xs ! i) @ concat (map f (drop (Suc i) xs))"
    by (metis (no_types, lifting) append_Cons concat.simps(2) concat_append id_take_nth_drop list.simps(9) map_append)
  then show ?thesis by simp
qed

lemma layer_element_const:
  assumes "layer_element ov st i n offset = Inr (layer, raw)" and "n_op (node_at st n) = ''Const''"
  shows "\<exists>spec. Element ''data'' [(''element_type'', ts_dtype spec), (''shape'', shape_text spec),
      (''offset'', nat_str offset), (''size'', nat_str (length (const_bytes (node_at st n))))] None []
    \<in> set (e_children layer)"
  using assms
  by (cases "dget (n_metadata (node_at st n)) ''value''")
     (auto simp: layer_element_def layer_data_def const_bytes_def Let_def bind_res_eq_Inr split: list.splits)


section \<open>Carrier overrides\<close>

lemma layer_type_override:
  "layer_type [] nid n = Inr t \<Longrightarrow> \<exists>u. layer_type ov nid n = Inr u"
  by (auto simp: layer_type_def split: option.splits if_splits)

text \<open>A layer without its \<open>type\<close> and \<open>version\<close>.\<close>

fun untyped :: "element \<Rightarrow> element" where
  "untyped (Element tag attrib text children) =
     Element tag (filter (\<lambda>(k, _). k \<noteq> ''type'' \<and> k \<noteq> ''version'') attrib) text children"

lemma layer_element_override:
  assumes "layer_element [] st i n offset = Inr (layer, raw)"
  shows "\<exists>layer'. layer_element ov st i n offset = Inr (layer', raw) \<and> untyped layer' = untyped layer"
proof -
  from assms obtain t where "layer_type [] n (node_at st n) = Inr t"
    by (auto simp: layer_element_def Let_def bind_res_eq_Inr)
  then obtain u where "layer_type ov n (node_at st n) = Inr u" using layer_type_override by blast
  with assms show ?thesis by (auto simp: layer_element_def Let_def bind_res_eq_Inr)
qed

lemma add_layers_override:
  assumes "fold_res (add_layer [] st) ps s = Inr t"
    and "ls_weights s' = ls_weights s" and "ls_custom s' = ls_custom s"
    and "map untyped (ls_layers s') = map untyped (ls_layers s)"
  shows "\<exists>t'. fold_res (add_layer ov st) ps s' = Inr t' \<and> ls_weights t' = ls_weights t \<and>
    ls_custom t' = ls_custom t \<and> map untyped (ls_layers t') = map untyped (ls_layers t)"
  using assms
proof (induction ps arbitrary: s s')
  case (Cons p ps)
  obtain i n where p: "p = (i, n)" by (cases p)
  from Cons.prems(1) obtain layer raw where l: "layer_element [] st i n (length (ls_weights s)) = Inr (layer, raw)"
    and rest: "fold_res (add_layer [] st) ps (s\<lparr>ls_layers := ls_layers s @ [layer], ls_weights := ls_weights s @ raw,
       ls_custom := ls_custom s @ (if n_op (node_at st n) = ''Custom'' then [n] else [])\<rparr>) = Inr t"
    by (auto simp: p add_layer_def bind_res_eq_Inr)
  from layer_element_override [OF l] obtain layer' where
    l': "layer_element ov st i n (length (ls_weights s')) = Inr (layer', raw)" "untyped layer' = untyped layer"
    using Cons.prems(2) by auto
  from Cons.IH [OF rest, of "s'\<lparr>ls_layers := ls_layers s' @ [layer'], ls_weights := ls_weights s' @ raw,
       ls_custom := ls_custom s' @ (if n_op (node_at st n) = ''Custom'' then [n] else [])\<rparr>"] Cons.prems(2-) l'
  show ?case by (auto simp: p add_layer_def)
qed simp

text \<open>Overriding carriers changes nothing but the \<open>type\<close> and the \<open>version\<close> of layers: for
  overrides that name custom nodes of the graph, serialisation succeeds whenever it does without
  them, with the same weights, the same custom nodes, and the same document up to those two
  attributes.\<close>

theorem carrier_overrides_retype_only:
  assumes "serialize_layers [] st nodes = Inr s"
  shows "\<exists>t. serialize_layers ov st nodes = Inr t \<and> ls_weights t = ls_weights s \<and>
    ls_custom t = ls_custom s \<and> ls_custom t = custom_node_list st nodes \<and>
    map untyped (ls_layers t) = map untyped (ls_layers s)"
  using add_layers_override [OF assms [unfolded serialize_layers_def], of _ ov] serialize_layers_spec [OF assms]
  unfolding serialize_layers_def by fastforce

lemma serialize_ir_override:
  assumes "serialize_ir st limit g NoOverrides = Inr a" and "serialize_ir st limit g o' = Inr b"
  shows "si_weights b = si_weights a \<and> si_custom_nodes b = si_custom_nodes a"
proof -
  from assms obtain nodes s ov t where "graph_nodes st limit g = Inr nodes"
    and s: "serialize_layers [] st nodes = Inr s" and t: "serialize_layers ov st nodes = Inr t"
    and ab: "si_weights a = ls_weights s" "si_custom_nodes a = ls_custom s"
      "si_weights b = ls_weights t" "si_custom_nodes b = ls_custom t"
    by (auto simp: serialize_ir_def checked_overrides_def bind_res_eq_Inr)
  with serialize_layers_spec [OF s] serialize_layers_spec [OF t] show ?thesis by simp
qed

section \<open>Edges\<close>

lemma index_of_nth: "x \<in> set xs \<Longrightarrow> index_of xs x < length xs \<and> xs ! index_of xs x = x"
  by (induction xs) auto

lemma index_of_inj: "inj_on (index_of xs) (set xs)"
  by (metis index_of_nth inj_onI)

lemma index_of_nth_distinct: "distinct xs \<Longrightarrow> i < length xs \<Longrightarrow> index_of xs (xs ! i) = i"
  by (metis index_of_nth nth_eq_iff_index_eq nth_mem)

lemma distinct_tagged:
  "distinct ns \<Longrightarrow> inj_on f (set ns) \<Longrightarrow> (\<And>n. distinct (g n)) \<Longrightarrow>
   distinct (concat (map (\<lambda>n. map (Pair (f n)) (g n)) ns))"
proof (induction ns)
  case (Cons n ns)
  then show ?case by (auto simp: distinct_map inj_on_def)
qed simp

text \<open>The tensor that an input port of a layer receives.\<close>

definition sink_tensor :: "store \<Rightarrow> nat list \<Rightarrow> tensor list \<Rightarrow> nat \<Rightarrow> nat \<Rightarrow> tensor" where
  "sink_tensor st nodes outs layer port_id =
     (if layer < length nodes then n_inputs (node_at st (nodes ! layer)) ! port_id else outs ! (layer - length nodes))"

definition sinks :: "store \<Rightarrow> nat list \<Rightarrow> tensor list \<Rightarrow> (nat \<times> nat) set" where
  "sinks st nodes outs = {(i, j). i < length nodes \<and> j < length (n_inputs (node_at st (nodes ! i)))} \<union>
     {(length nodes + i, 0) | i. i < length outs}"

abbreviation edge_sink :: "edge \<Rightarrow> nat \<times> nat" where
  "edge_sink \<equiv> \<lambda>(_, _, tl, tp). (tl, tp)"

lemma node_outputs_index:
  "t \<in> set (node_outputs i n) \<Longrightarrow>
   t_output_index t < length (n_output_specs n) \<and> node_outputs i n ! t_output_index t = t"
  by (auto simp: node_outputs_def in_set_enum nth_enumerate_eq)

lemma tensor_of_output:
  assumes "tensor_of st t"
  shows "t_output_index t < length (n_output_specs (node_at st (t_producer t))) \<and>
    node_outputs (t_producer t) (node_at st (t_producer t)) ! t_output_index t = t"
  using assms node_outputs_index unfolding tensor_of_def by blast

definition edge_ok :: "store \<Rightarrow> nat list \<Rightarrow> tensor list \<Rightarrow> edge \<Rightarrow> bool" where
  "edge_ok st nodes outs = (\<lambda>(fl, fp, tl, tp).
     fl < length nodes \<and> fl < tl \<and> tl < length nodes + length outs \<and>
     (let n = node_at st (nodes ! fl); k = length (n_inputs n)
      in k \<le> fp \<and> fp < k + length (n_output_specs n) \<and>
         node_outputs (nodes ! fl) n ! (fp - k) = sink_tensor st nodes outs tl tp))"

lemma edge_from_ok:
  assumes "tensor_of st t" and "t_producer t \<in> set nodes" and "edge_from st nodes t = (fl, fp)"
  shows "fl < length nodes \<and> nodes ! fl = t_producer t \<and>
    (let n = node_at st (nodes ! fl); k = length (n_inputs n)
     in k \<le> fp \<and> fp < k + length (n_output_specs n) \<and> node_outputs (nodes ! fl) n ! (fp - k) = t)"
  using tensor_of_output [OF assms(1)] index_of_nth [OF assms(2)] assms(3)
  by (auto simp: edge_from_def Let_def)

lemma node_edges_sinks:
  "map edge_sink (node_edges st nodes) =
   concat (map (\<lambda>n. map (Pair (index_of nodes n)) [0..<length (n_inputs (node_at st n))]) nodes)"
proof -
  have "map edge_sink (map (\<lambda>(i, t). case edge_from st nodes t of (layer, fp) \<Rightarrow> (layer, fp, k, i)) (enum ts)) =
      map (Pair k) [0..<length ts]" for k and ts :: "tensor list"
    by (rule nth_equalityI) (auto simp: nth_enumerate_eq split: prod.splits)
  then show ?thesis by (simp add: node_edges_def map_concat comp_def)
qed

lemma result_edges_sinks: "map edge_sink (result_edges st nodes outs) = map (\<lambda>i. (length nodes + i, 0)) [0..<length outs]"
  by (rule nth_equalityI) (auto simp: result_edges_def nth_enumerate_eq split: prod.splits)

lemma node_edges_sinks_below:
  "p \<in> set (map edge_sink (node_edges st nodes)) \<Longrightarrow> fst p < length nodes"
  unfolding node_edges_sinks using index_of_nth [of _ nodes] by auto

lemma ir_edges_sinks:
  assumes "distinct nodes"
  shows "distinct (map edge_sink (ir_edges st nodes outs)) \<and> set (map edge_sink (ir_edges st nodes outs)) = sinks st nodes outs"
proof
  have "distinct (map edge_sink (node_edges st nodes))"
    unfolding node_edges_sinks by (intro distinct_tagged assms index_of_inj) simp
  moreover have "distinct (map edge_sink (result_edges st nodes outs))"
    unfolding result_edges_sinks by (simp add: distinct_map inj_on_def)
  moreover have "set (map edge_sink (node_edges st nodes)) \<inter> set (map edge_sink (result_edges st nodes outs)) = {}"
    using node_edges_sinks_below [of _ st nodes] unfolding result_edges_sinks by fastforce
  ultimately show "distinct (map edge_sink (ir_edges st nodes outs))"
    unfolding ir_edges_def map_append distinct_append by blast
  have "(i, j) \<in> set (map edge_sink (node_edges st nodes)) \<longleftrightarrow>
      i < length nodes \<and> j < length (n_inputs (node_at st (nodes ! i)))" for i j
  proof -
    have "(i, j) \<in> set (map edge_sink (node_edges st nodes)) \<longleftrightarrow>
        (\<exists>n \<in> set nodes. i = index_of nodes n \<and> j < length (n_inputs (node_at st n)))"
      unfolding node_edges_sinks by (auto simp: image_iff)
    also have "\<dots> \<longleftrightarrow> i < length nodes \<and> j < length (n_inputs (node_at st (nodes ! i)))"
      by (metis assms index_of_nth index_of_nth_distinct nth_mem)
    finally show ?thesis .
  qed
  then have "set (map edge_sink (node_edges st nodes)) =
      {(i, j). i < length nodes \<and> j < length (n_inputs (node_at st (nodes ! i)))}"
    by (simp add: set_eq_iff)
  then show "set (map edge_sink (ir_edges st nodes outs)) = sinks st nodes outs"
    unfolding ir_edges_def map_append set_append result_edges_sinks sinks_def by auto
qed

lemma node_edges_ok:
  assumes wf: "wf_store st" and topo: "topo_sorted (producers st) nodes" and d: "distinct nodes"
    and range: "set nodes \<subseteq> {..<length st}" and e: "e \<in> set (node_edges st nodes)"
  shows "edge_ok st nodes outs e"
proof -
  from e obtain i j fl fp where i: "i < length nodes" and j: "j < length (n_inputs (node_at st (nodes ! i)))"
    and f: "edge_from st nodes (n_inputs (node_at st (nodes ! i)) ! j) = (fl, fp)" and e': "e = (fl, fp, i, j)"
    using index_of_nth_distinct [OF d]
    by (auto simp: node_edges_def in_set_conv_nth [of _ nodes] in_set_enum split: prod.splits)
  let ?t = "n_inputs (node_at st (nodes ! i)) ! j"
  have "nodes ! i < length st" using range i by (meson lessThan_iff nth_mem subsetD)
  with wf_store_nth(1) [OF wf this] j have t: "tensor_of st ?t" by (simp add: node_at_def list_all_length)
  have "t_producer ?t \<in> set (producers st (nodes ! i))" using j by (simp add: producers_def)
  from topo_sorted_nth [OF topo i this] obtain k where k: "k < i" "nodes ! k = t_producer ?t" by blast
  then have "t_producer ?t \<in> set nodes" using i by (metis less_trans nth_mem)
  note ok = edge_from_ok [OF t this f]
  have "fl < i" using ok k i d by (metis less_trans nth_eq_iff_index_eq)
  with conjunct1 [OF ok] conjunct2 [OF conjunct2 [OF ok]] i show ?thesis
    by (simp add: e' edge_ok_def sink_tensor_def Let_def)
qed

lemma result_edges_ok:
  assumes "list_all (tensor_of st) outs" and "set (map t_producer outs) \<subseteq> set nodes" and e: "e \<in> set (result_edges st nodes outs)"
  shows "edge_ok st nodes outs e"
proof -
  from e obtain i fl fp where i: "i < length outs" and f: "edge_from st nodes (outs ! i) = (fl, fp)"
    and e': "e = (fl, fp, length nodes + i, 0)"
    by (auto simp: result_edges_def in_set_enum split: prod.splits)
  have "tensor_of st (outs ! i)" "t_producer (outs ! i) \<in> set nodes"
    using assms(1,2) i by (auto simp: list_all_length)
  note ok = edge_from_ok [OF this f]
  from conjunct1 [OF ok] conjunct2 [OF conjunct2 [OF ok]] i show ?thesis
    by (simp add: e' edge_ok_def sink_tensor_def Let_def)
qed

text \<open>C5 The edges wire the layers as the graph says: every edge leads from an output port of an
  earlier layer to an input port and carries the tensor that this port reads; every input port of
  every node layer and every \<open>Result\<close> layer has exactly one edge.\<close>

theorem ir_edges_connect:
  assumes wf: "wf_store st" and outs: "list_all (tensor_of st) outs"
    and nodes: "topological_nodes st limit (map Symbolic outs) = Inr nodes"
  shows "list_all (edge_ok st nodes outs) (ir_edges st nodes outs) \<and>
    distinct (map edge_sink (ir_edges st nodes outs)) \<and>
    set (map edge_sink (ir_edges st nodes outs)) = sinks st nodes outs"
proof -
  note sound = topological_nodes_sound [OF nodes]
  have range: "set nodes \<subseteq> {..<length st}"
    using sound reach_in_range [OF wf_store_closed [OF wf] tensors_in_range [OF outs]] by blast
  have outs': "set (map t_producer outs) \<subseteq> set nodes" using sound by (auto simp: reach_def)
  have "edge_ok st nodes outs e" if "e \<in> set (ir_edges st nodes outs)" for e
    using that unfolding ir_edges_def set_append
    by (elim UnE) (rule node_edges_ok [OF wf _ _ range], use sound in auto, rule result_edges_ok [OF outs outs'])
  with ir_edges_sinks [of nodes st outs] sound show ?thesis by (simp add: list_all_iff)
qed

theorem ir_edges_connect_witness:
  "ir_edges sum_store [0, 1, 2] sum_output = [(0, 0, 2, 0), (1, 0, 2, 1), (2, 2, 3, 0)] \<and>
   list_all (edge_ok sum_store [0, 1, 2] sum_output) [(0, 0, 2, 0), (1, 0, 2, 1), (2, 2, 3, 0)]"
proof -
  have wf: "wf_store sum_store" by code_simp
  have o: "list_all (tensor_of sum_store) sum_output" by code_simp
  have n: "topological_nodes sum_store 4 (map Symbolic sum_output) = Inr [0, 1, 2]" by code_simp
  have e: "ir_edges sum_store [0, 1, 2] sum_output = [(0, 0, 2, 0), (1, 0, 2, 1), (2, 2, 3, 0)]" by code_simp
  from ir_edges_connect [OF wf o n] e show ?thesis by simp
qed

text \<open>The store of \<open>custom(x, carrier="Relu") + constant\<close>: two bytes of weights.\<close>

definition custom_store :: store where
  "custom_store =
    (let spec = \<lparr>ts_shape = [1], ts_dtype = ''f16''\<rparr>;
         x = \<lparr>n_op = ''Parameter'', n_inputs = [], n_attrs = [], n_output_specs = [spec], n_name = Some ''x'',
              n_metadata = [(''kind'', PStr ''input'')]\<rparr>;
         c = \<lparr>n_op = ''Const'', n_inputs = [], n_attrs = [], n_output_specs = [spec], n_name = None,
              n_metadata = [(''kind'', PStr ''constant''), (''value'', PArray \<lparr>nd_shape = [1],
                nd_dtype = ''float16'', nd_kind = ''f'', nd_ints = [], nd_bytes = [0, 0x3C]\<rparr>)]\<rparr>;
         k = \<lparr>n_op = ''Custom'', n_inputs = node_outputs 0 x, n_attrs = [], n_output_specs = [spec], n_name = None,
              n_metadata = [(''_kernel'', PNone), (''_carrier'', PStr ''Relu''), (''_name'', PNone)]\<rparr>;
         a = \<lparr>n_op = ''Add'', n_inputs = node_outputs 2 k @ node_outputs 1 c, n_attrs = [], n_output_specs = [spec],
              n_name = None, n_metadata = []\<rparr>
     in [x, c, k, a])"

definition custom_layers :: "(nat \<times> string) list \<Rightarrow> layers_state" where
  "custom_layers ov = (case serialize_layers ov custom_store [0, 2, 1, 3] of Inr s \<Rightarrow> s
     | Inl _ \<Rightarrow> \<lparr>ls_layers = [], ls_weights = [], ls_custom = []\<rparr>)"

lemma custom_layers_ok: "serialize_layers [] custom_store [0, 2, 1, 3] = Inr (custom_layers [])"
proof -
  have "case serialize_layers [] custom_store [0, 2, 1, 3] of Inr s \<Rightarrow> True | Inl _ \<Rightarrow> False"
    by code_simp
  then show ?thesis by (auto simp: custom_layers_def split: sum.splits)
qed


theorem carrier_overrides_retype_only_witness:
  "\<exists>t. serialize_layers [(2, ''Sigmoid'')] custom_store [0, 2, 1, 3] = Inr t \<and>
     ls_weights t = ls_weights (custom_layers []) \<and> ls_custom t = [2]"
proof -
  have "custom_node_list custom_store [0, 2, 1, 3] = [2]" by code_simp
  with carrier_overrides_retype_only [OF custom_layers_ok, of "[(2, ''Sigmoid'')]"] show ?thesis by auto
qed

end
