(* ===== verification/Json.thy ===== *)
theory Json
  imports Values Sha256 "HOL-Library.Char_ord" "HOL-Library.List_Lexorder"
    "HOL-Library.Multiset"
begin

text \<open>
  The part of Python's \<open>json\<close> the program uses: \<open>json.dumps\<close> with sorted keys, indented or compact,
  and \<open>json.loads\<close>. The theorems show that what is written is read back, with tuples as lists and
  keys in order, so that a text determines its value.

  Float literals are kept with their exact value and their text instead of being rounded to binary64,
  escapes of code points above U+00FF are outside the string model and count as invalid, and the
  limits of the interpreter on nesting and on integer literals are not modelled.
\<close>

section \<open>Printing\<close>

abbreviation quote_char :: char where "quote_char \<equiv> CHR 0x22"
abbreviation backslash :: char where "backslash \<equiv> CHR 0x5C"

definition json_escape :: "char \<Rightarrow> string" where
  "json_escape c =
     (let n = (of_char c :: nat) in
      if c = quote_char \<or> c = backslash then [backslash, c]
      else if c = CHR 0x0A then [backslash, CHR ''n'']
      else if c = CHR 0x0D then [backslash, CHR ''r'']
      else if c = CHR 0x09 then [backslash, CHR ''t'']
      else if c = CHR 0x0C then [backslash, CHR ''f'']
      else if c = CHR 0x08 then [backslash, CHR ''b'']
      else if 32 \<le> n \<and> n \<le> 126 then [c]
      else [backslash, CHR ''u'', CHR ''0'', CHR ''0'', hex_char (n div 16), hex_char (n mod 16)])"

definition json_string :: "string \<Rightarrow> string" where
  "json_string s = quote_char # concat (map json_escape s) @ [quote_char]"

definition json_float :: "pyfloat \<Rightarrow> string" where
  "json_float f = (case f of PyFin _ s \<Rightarrow> s | PyNaN \<Rightarrow> ''NaN''
     | PyInf negative \<Rightarrow> if negative then ''-Infinity'' else ''Infinity'')"

text \<open>The \<open>indent\<close> argument: \<open>None\<close> prints compactly with the separators \<open>(",", ":")\<close>.\<close>

definition json_newline :: "nat option \<Rightarrow> nat \<Rightarrow> string" where
  "json_newline ind level = (case ind of None \<Rightarrow> [] | Some k \<Rightarrow> CHR 0x0A # replicate (k * level) (CHR '' ''))"

definition json_colon :: "nat option \<Rightarrow> string" where
  "json_colon ind = (case ind of None \<Rightarrow> '':'' | Some _ \<Rightarrow> '': '')"

definition json_block :: "nat option \<Rightarrow> nat \<Rightarrow> char \<Rightarrow> char \<Rightarrow> string list \<Rightarrow> string" where
  "json_block ind level opening closing items =
     (if items = [] then [opening, closing]
      else opening # json_newline ind (Suc level) @
        str_join (CHR '','' # json_newline ind (Suc level)) items @ json_newline ind level @ [closing])"

lemma size_sorted_item [termination_simp]:
  "(k, v) \<in> set (sort_key fst d) \<Longrightarrow> size v < Suc (size_list (size_prod (\<lambda>_. 0) size) d)"
  by (induction d) (auto simp: set_insort_key)

fun json_text :: "nat option \<Rightarrow> nat \<Rightarrow> pyval \<Rightarrow> string res" where
  "json_text ind level PNone = Inr ''null''"
| "json_text ind level (PBool b) = Inr (if b then ''true'' else ''false'')"
| "json_text ind level (PInt i) = Inr (int_str i)"
| "json_text ind level (PFloat f) = Inr (json_float f)"
| "json_text ind level (PStr s) = Inr (json_string s)"
| "json_text ind level (PTuple vs) =
     bind_res (map_res (json_text ind (Suc level)) vs) (\<lambda>items. Inr (json_block ind level (CHR ''['') (CHR '']'') items))"
| "json_text ind level (PList vs) =
     bind_res (map_res (json_text ind (Suc level)) vs) (\<lambda>items. Inr (json_block ind level (CHR ''['') (CHR '']'') items))"
| "json_text ind level (PDict d) =
     bind_res (map_res (\<lambda>(k, v). bind_res (json_text ind (Suc level) v) (\<lambda>t. Inr (json_string k @ json_colon ind @ t)))
         (sort_key fst d))
       (\<lambda>items. Inr (json_block ind level (CHR ''{'') (CHR ''}'') items))"
| "json_text ind level _ = Inl (TypeError ''Object is not JSON serializable'')"

text \<open>\<open>json.dumps(v, sort_keys=True, separators=(",", ":"))\<close> and \<open>json.dumps(v, indent=2, sort_keys=True)\<close>\<close>

definition json_compact :: "pyval \<Rightarrow> string res" where
  "json_compact v = json_text None 0 v"

definition json_indented :: "pyval \<Rightarrow> string res" where
  "json_indented v = json_text (Some 2) 0 v"

section \<open>Parsing\<close>

definition json_space :: "char \<Rightarrow> bool" where
  "json_space c \<longleftrightarrow> c \<in> {CHR '' '', CHR 0x09, CHR 0x0A, CHR 0x0D}"

definition skip_ws :: "string \<Rightarrow> string" where
  "skip_ws s = dropWhile json_space s"

definition hex_value :: "char \<Rightarrow> nat option" where
  "hex_value c = (let n = (of_char c :: nat) in
     if 48 \<le> n \<and> n \<le> 57 then Some (n - 48)
     else if 97 \<le> n \<and> n \<le> 102 then Some (n - 87)
     else if 65 \<le> n \<and> n \<le> 70 then Some (n - 55) else None)"

definition code_point :: "char \<Rightarrow> char \<Rightarrow> char \<Rightarrow> char \<Rightarrow> char option" where
  "code_point a b c d =
     (case (hex_value a, hex_value b, hex_value c, hex_value d) of
        (Some 0, Some 0, Some x, Some y) \<Rightarrow> Some (char_of (16 * x + y))
      | _ \<Rightarrow> None)"

definition simple_escape :: "char \<Rightarrow> char option" where
  "simple_escape c = map_of [(quote_char, quote_char), (backslash, backslash), (CHR ''/'', CHR ''/''),
     (CHR ''b'', CHR 0x08), (CHR ''f'', CHR 0x0C), (CHR ''n'', CHR 0x0A), (CHR ''r'', CHR 0x0D), (CHR ''t'', CHR 0x09)] c"

text \<open>The text after the opening quote, up to the closing one.\<close>

fun scan_string :: "string \<Rightarrow> (string \<times> string) option" where
  "scan_string [] = None"
| "scan_string (c # r) =
     (if c = quote_char then Some ([], r)
      else if (of_char c :: nat) < 32 then None
      else if c = backslash then
        (case r of
           [] \<Rightarrow> None
         | e # r' \<Rightarrow>
             if e = CHR ''u'' then
               (case r' of
                  h1 # h2 # h3 # h4 # r'' \<Rightarrow>
                    (case code_point h1 h2 h3 h4 of
                       None \<Rightarrow> None
                     | Some x \<Rightarrow> map_option (\<lambda>(s, t). (x # s, t)) (scan_string r''))
                | _ \<Rightarrow> None)
             else (case simple_escape e of
                 None \<Rightarrow> None
               | Some x \<Rightarrow> map_option (\<lambda>(s, t). (x # s, t)) (scan_string r')))
      else map_option (\<lambda>(s, t). (c # s, t)) (scan_string r))"

text \<open>The regular expression of a number: an integer part without leading zeros, a fraction and an
  exponent, the last two optional.\<close>

definition integer_part :: "string \<Rightarrow> string" where
  "integer_part s = (if take 1 s = ''0'' then ''0'' else takeWhile is_digit s)"

definition fraction_part :: "string \<Rightarrow> string" where
  "fraction_part s =
     (case s of
        c # t \<Rightarrow> if c = CHR ''.'' \<and> takeWhile is_digit t \<noteq> [] then c # takeWhile is_digit t else []
      | [] \<Rightarrow> [])"

definition exponent_part :: "string \<Rightarrow> string" where
  "exponent_part s =
     (case s of
        e # t \<Rightarrow>
          let pm = (case t of c # _ \<Rightarrow> if c = CHR ''+'' \<or> c = CHR ''-'' then [c] else [] | [] \<Rightarrow> []);
              ds = takeWhile is_digit (drop (length pm) t)
          in if (e = CHR ''e'' \<or> e = CHR ''E'') \<and> ds \<noteq> [] then e # pm @ ds else []
      | [] \<Rightarrow> [])"

definition decimal_value :: "bool \<Rightarrow> string \<Rightarrow> string \<Rightarrow> string \<Rightarrow> rat" where
  "decimal_value negative ds fr expo =
     (let m = of_nat (str_nat (ds @ drop 1 fr)) / 10 ^ length (drop 1 fr);
          e = str_nat (filter is_digit expo);
          q = (if CHR ''-'' \<in> set expo then m / 10 ^ e else m * 10 ^ e)
      in if negative then - q else q)"

definition scan_number :: "string \<Rightarrow> (pyval \<times> string) option" where
  "scan_number s =
     (let negative = (take 1 s = ''-''); s1 = (if negative then drop 1 s else s);
          ds = integer_part s1; s2 = drop (length ds) s1; fr = fraction_part s2;
          s3 = drop (length fr) s2; expo = exponent_part s3
      in if ds = [] then None
         else if fr = [] \<and> expo = []
         then Some (PInt (if negative then - int (str_nat ds) else int (str_nat ds)), s2)
         else Some (PFloat (PyFin (decimal_value negative ds fr expo)
           ((if negative then ''-'' else []) @ ds @ fr @ expo)), drop (length expo) s3))"

definition json_literals :: "(string \<times> pyval) list" where
  "json_literals = [(''null'', PNone), (''true'', PBool True), (''false'', PBool False), (''NaN'', PFloat PyNaN),
     (''Infinity'', PFloat (PyInf False)), (''-Infinity'', PFloat (PyInf True))]"

definition scan_scalar :: "string \<Rightarrow> (pyval \<times> string) option" where
  "scan_scalar s =
     (case List.find (\<lambda>(word, _). startswith s word) json_literals of
        Some (word, v) \<Rightarrow> Some (v, drop (length word) s)
      | None \<Rightarrow> scan_number s)"

lemma length_skip_ws [termination_simp]: "length (skip_ws s) \<le> length s"
  by (simp add: skip_ws_def length_dropWhile_le)

text \<open>Values, the elements of an array after \<open>[\<close> and the members of an object after \<open>{\<close>. The length
  tests always succeed; they make the recursion visibly terminate.\<close>

function parse_value :: "string \<Rightarrow> (pyval \<times> string) option"
  and parse_elements :: "string \<Rightarrow> (pyval list \<times> string) option"
  and parse_members :: "string \<Rightarrow> ((string \<times> pyval) list \<times> string) option" where
  "parse_value s =
     (case s of
        [] \<Rightarrow> None
      | c # r \<Rightarrow>
          if c = quote_char then map_option (\<lambda>(k, t). (PStr k, t)) (scan_string r)
          else if c = CHR ''['' then
            (if take 1 (skip_ws r) = '']'' then Some (PList [], drop 1 (skip_ws r))
             else map_option (\<lambda>(vs, t). (PList vs, t)) (parse_elements (skip_ws r)))
          else if c = CHR ''{'' then
            (if take 1 (skip_ws r) = ''}'' then Some (PDict [], drop 1 (skip_ws r))
             else map_option (\<lambda>(kvs, t). (PDict (fold (\<lambda>(k, v) d. dict_set k v d) kvs []), t))
               (parse_members (skip_ws r)))
          else scan_scalar s)"
| "parse_elements s =
     (case parse_value s of
        None \<Rightarrow> None
      | Some (v, r) \<Rightarrow>
          (case skip_ws r of
             [] \<Rightarrow> None
           | c # t \<Rightarrow>
               if c = CHR '']'' then Some ([v], t)
               else if c = CHR '','' \<and> length (skip_ws t) < length s
               then map_option (\<lambda>(vs, u). (v # vs, u)) (parse_elements (skip_ws t))
               else None))"
| "parse_members s =
     (if take 1 s \<noteq> [quote_char] then None
      else case scan_string (drop 1 s) of
        None \<Rightarrow> None
      | Some (k, r) \<Rightarrow>
          if take 1 (skip_ws r) \<noteq> '':'' \<or> \<not> length (skip_ws (drop 1 (skip_ws r))) < length s then None
          else case parse_value (skip_ws (drop 1 (skip_ws r))) of
            None \<Rightarrow> None
          | Some (v, r') \<Rightarrow>
              (case skip_ws r' of
                 [] \<Rightarrow> None
               | c # t \<Rightarrow>
                   if c = CHR ''}'' then Some ([(k, v)], t)
                   else if c = CHR '','' \<and> length (skip_ws t) < length s
                   then map_option (\<lambda>(kvs, u). ((k, v) # kvs, u)) (parse_members (skip_ws t))
                   else None))"
  by pat_completeness auto

termination
  by (relation "measure (\<lambda>x. case x of Inl s \<Rightarrow> 2 * length s | Inr (Inl s) \<Rightarrow> 2 * length s + 1
      | Inr (Inr s) \<Rightarrow> 2 * length s + 1)")
    (auto intro: le_less_trans [OF length_skip_ws] simp: less_Suc_eq_le length_skip_ws)

declare parse_value.simps [simp del] parse_elements.simps [simp del] parse_members.simps [simp del]

definition json_loads :: "string \<Rightarrow> pyval option" where
  "json_loads s =
     (case parse_value (skip_ws s) of
        Some (v, r) \<Rightarrow> if skip_ws r = [] then Some v else None
      | None \<Rightarrow> None)"

text \<open>\<open>json.loads(payload.decode("utf-8"))\<close>\<close>

definition json_load_bytes :: "bytes \<Rightarrow> pyval option" where
  "json_load_bytes b = (case utf8_decode b of None \<Rightarrow> None | Some s \<Rightarrow> json_loads s)"

section \<open>What is written is read back\<close>

text \<open>The value read: tuples come back as lists, the keys of objects in order.\<close>

fun canon :: "pyval \<Rightarrow> pyval" where
  "canon (PTuple vs) = PList (map canon vs)"
| "canon (PList vs) = PList (map canon vs)"
| "canon (PDict d) = PDict (map (\<lambda>(k, v). (k, canon v)) (sort_key fst d))"
| "canon v = v"

fun jsonable :: "pyval \<Rightarrow> bool" where
  "jsonable PNone = True"
| "jsonable (PBool _) = True"
| "jsonable (PInt _) = True"
| "jsonable (PStr _) = True"
| "jsonable (PTuple vs) = list_all jsonable vs"
| "jsonable (PList vs) = list_all jsonable vs"
| "jsonable (PDict d) = (distinct (map fst d) \<and> list_all (\<lambda>(_, v). jsonable v) d)"
| "jsonable _ = False"

definition number_end :: "string \<Rightarrow> bool" where
  "number_end s = (case s of [] \<Rightarrow> True | c # _ \<Rightarrow> \<not> is_digit c \<and> c \<notin> {CHR ''.'', CHR ''e'', CHR ''E''})"

definition opens_value :: "string \<Rightarrow> bool" where
  "opens_value s = (case s of [] \<Rightarrow> False | c # _ \<Rightarrow> \<not> json_space c \<and> c \<noteq> CHR '']'' \<and> c \<noteq> CHR ''}'')"

definition reads_as :: "string \<Rightarrow> pyval \<Rightarrow> bool" where
  "reads_as t v \<longleftrightarrow> opens_value t \<and> (\<forall>rest. number_end rest \<longrightarrow> parse_value (t @ rest) = Some (v, rest))"

subsection \<open>Strings\<close>

lemma hex_value_hex_char: "d < 16 \<Longrightarrow> hex_value (hex_char d) = Some d"
proof -
  assume "d < 16"
  then have "d = 0 \<or> d = 1 \<or> d = 2 \<or> d = 3 \<or> d = 4 \<or> d = 5 \<or> d = 6 \<or> d = 7 \<or> d = 8 \<or> d = 9 \<or> d = 10 \<or>
      d = 11 \<or> d = 12 \<or> d = 13 \<or> d = 14 \<or> d = 15" by arith
  then show ?thesis by (elim disjE) (simp_all add: hex_value_def hex_char_def)
qed

lemma scan_string_escape:
  "scan_string (json_escape c @ t) = map_option (\<lambda>(s, u). (c # s, u)) (scan_string t)"
proof -
  let ?n = "of_char c :: nat"
  have cp: "code_point (CHR ''0'') (CHR ''0'') (hex_char (?n div 16)) (hex_char (?n mod 16)) = Some c"
  proof -
    have "?n div 16 < 16" using nat_of_char_less_256 [of c] by linarith
    then show ?thesis
      by (simp add: code_point_def hex_value_hex_char hex_value_def [of "CHR ''0''"])
  qed
  let ?named = "{quote_char, backslash, CHR 0x0A, CHR 0x0D, CHR 0x09, CHR 0x0C, CHR 0x08}"
  consider "c \<in> ?named" | "c \<notin> ?named" "32 \<le> ?n" "?n \<le> 126" | "c \<notin> ?named" "\<not> (32 \<le> ?n \<and> ?n \<le> 126)" by blast
  then show ?thesis
  proof cases
    case 1
    then show ?thesis by (elim insertE) (simp_all add: json_escape_def simple_escape_def)
  next
    case 2
    then show ?thesis by (simp add: json_escape_def Let_def)
  next
    case 3
    then have "json_escape c = [backslash, CHR ''u'', CHR ''0'', CHR ''0'', hex_char (?n div 16), hex_char (?n mod 16)]"
      unfolding json_escape_def Let_def by simp
    then show ?thesis by (simp add: cp)
  qed
qed

lemma scan_json_string: "scan_string (concat (map json_escape s) @ quote_char # rest) = Some (s, rest)"
  by (induction s) (simp_all add: scan_string_escape)

subsection \<open>Numbers\<close>

lemma nat_str_leading: "take 1 (nat_str n) = ''0'' \<longleftrightarrow> n = 0"
proof (induction n rule: nat_str.induct)
  case (1 n)
  show ?case
  proof (cases "n < 10")
    case True
    then show ?thesis using digit_cases [of n] by (auto simp: nat_str.simps [of n] digit_char_def)
  next
    case False
    then have "take 1 (nat_str n) = take 1 (nat_str (n div 10))" by (subst nat_str.simps) (simp add: Suc_le_eq)
    with 1 False show ?thesis by simp
  qed
qed

lemma number_end_parts: "number_end r \<Longrightarrow> fraction_part r = [] \<and> exponent_part r = [] \<and> takeWhile is_digit r = []"
  by (cases r) (auto simp: number_end_def fraction_part_def exponent_part_def Let_def)

lemma leading_digits: "list_all is_digit ds \<Longrightarrow> takeWhile is_digit r = [] \<Longrightarrow> takeWhile is_digit (ds @ r) = ds"
  by (induction ds) auto

lemma nat_str_0: "nat_str 0 = ''0''"
  by (simp add: nat_str.simps digit_char_def)

lemma scanned_digits:
  assumes "number_end rest"
  shows "integer_part (nat_str n @ rest) = nat_str n"
proof -
  have "take 1 (nat_str n @ rest) = take 1 (nat_str n)" by (simp add: Suc_le_eq)
  moreover have "takeWhile is_digit (nat_str n @ rest) = nat_str n"
    using assms by (intro leading_digits) (auto simp: list_all_iff nat_str_digits number_end_parts)
  ultimately show ?thesis using nat_str_leading [of n] by (auto simp: nat_str_0 integer_part_def)
qed

lemma scan_number_nat:
  assumes "number_end rest"
  shows "scan_number (nat_str n @ rest) = Some (PInt (int n), rest)"
    and "scan_number (CHR ''-'' # nat_str n @ rest) = Some (PInt (- int n), rest)"
proof -
  have "take 1 (nat_str n @ rest) = ''-'' \<longleftrightarrow> False"
    using nat_str_not_minus [of n] by (cases "nat_str n") auto
  then show "scan_number (nat_str n @ rest) = Some (PInt (int n), rest)"
    using number_end_parts [OF assms] scanned_digits [OF assms] by (simp add: scan_number_def Let_def)
  show "scan_number (CHR ''-'' # nat_str n @ rest) = Some (PInt (- int n), rest)"
    using number_end_parts [OF assms] scanned_digits [OF assms] by (simp add: scan_number_def Let_def)
qed

lemma int_str_head: "\<exists>c r. int_str i = c # r \<and> (is_digit c \<or> c = CHR ''-'' \<and> (\<exists>d r'. r = d # r' \<and> is_digit d))"
proof -
  have "\<exists>c r. nat_str n = c # r \<and> is_digit c" for n
    by (metis list.exhaust list.set_intros(1) nat_str_digits nat_str_nonempty)
  then show ?thesis by (auto simp: int_str_def) metis
qed

lemma scan_scalar_int:
  assumes "number_end rest"
  shows "scan_scalar (int_str i @ rest) = Some (PInt i, rest)"
proof -
  have "List.find (\<lambda>(word, _). startswith (int_str i @ rest) word) json_literals = None"
    using int_str_head [of i] by (auto simp: json_literals_def startswith_def is_digit_def)
  then show ?thesis
    using scan_number_nat [OF assms] by (cases "i < 0") (simp_all add: scan_scalar_def int_str_def)
qed

lemma reads_int: "reads_as (int_str i) (PInt i)"
proof -
  obtain c r where c: "int_str i = c # r" "is_digit c \<or> c = CHR ''-''" using int_str_head [of i] by blast
  then have neq: "c \<noteq> quote_char" "c \<noteq> CHR ''[''" "c \<noteq> CHR ''{''" and "opens_value (int_str i)"
    by (auto simp: is_digit_def opens_value_def json_space_def)
  moreover have "parse_value (int_str i @ rest) = Some (PInt i, rest)" if "number_end rest" for rest
    using scan_scalar_int [OF that, of i] neq by (subst parse_value.simps) (simp add: c(1))
  ultimately show ?thesis by (simp add: reads_as_def)
qed

lemma reads_string: "reads_as (json_string s) (PStr s)"
proof -
  have "parse_value (json_string s @ rest) = Some (PStr s, rest)" for rest
    using scan_json_string [of s rest] by (subst parse_value.simps) (simp add: json_string_def)
  then show ?thesis by (simp add: reads_as_def opens_value_def json_string_def json_space_def)
qed

lemma reads_literals:
  "reads_as ''null'' PNone" "reads_as ''true'' (PBool True)" "reads_as ''false'' (PBool False)"
  by (auto simp: reads_as_def opens_value_def json_space_def parse_value.simps scan_scalar_def json_literals_def
      startswith_def)

subsection \<open>Arrays and objects\<close>

lemma skip_ws_append: "list_all json_space w \<Longrightarrow> skip_ws (w @ s) = skip_ws s"
  by (induction w) (auto simp: skip_ws_def)

lemma skip_ws_opens: "opens_value t \<Longrightarrow> skip_ws (t @ s) = t @ s"
  by (cases t) (auto simp: opens_value_def skip_ws_def)

lemma json_newline_space [simp]: "list_all json_space (json_newline ind level)"
  by (auto simp: json_newline_def json_space_def list_all_iff split: option.splits)

lemma number_end_space:
  assumes "list_all json_space w" and "c \<in> {CHR '','', CHR '']'', CHR ''}''}"
  shows "number_end (w @ c # s)"
  using assms by (cases w) (auto simp: number_end_def json_space_def is_digit_def)

text \<open>The printed items of an array or object, up to the closing bracket.\<close>

lemma parse_elements_join:
  assumes "list_all2 reads_as ts vs" and "vs \<noteq> []" and w: "list_all json_space w" "list_all json_space w'"
  shows "parse_elements (str_join (CHR '','' # w) ts @ w' @ CHR '']'' # rest) = Some (vs, rest)"
  using assms(1,2)
proof (induction rule: list_all2_induct)
  case (Cons t ts v vs)
  show ?case
  proof (cases ts)
    case Nil
    then show ?thesis
      using Cons.hyps number_end_space [OF w(2)]
      by (subst parse_elements.simps) (simp add: reads_as_def skip_ws_append w, simp add: skip_ws_def json_space_def)
  next
    case (Cons u us)
    let ?tail = "str_join (CHR '','' # w) ts @ w' @ CHR '']'' # rest"
    have opens: "opens_value (str_join (CHR '','' # w) ts)"
      using Cons \<open>list_all2 reads_as ts vs\<close>
      by (cases us; cases u) (auto simp: reads_as_def opens_value_def list_all2_Cons1)
    have "parse_value (t @ CHR '','' # w @ ?tail) = Some (v, CHR '','' # w @ ?tail)"
      using \<open>reads_as t v\<close> by (simp add: reads_as_def number_end_def is_digit_def)
    moreover have "skip_ws (CHR '','' # w @ ?tail) = CHR '','' # w @ ?tail"
      by (simp add: skip_ws_def json_space_def)
    moreover have "skip_ws (w @ ?tail) = ?tail"
      by (simp add: skip_ws_append w skip_ws_opens [OF opens])
    moreover have "parse_elements ?tail = Some (vs, rest)"
      using Cons.IH Cons \<open>list_all2 reads_as ts vs\<close> by auto
    ultimately show ?thesis
      using Cons by (subst parse_elements.simps) simp
  qed
qed simp

definition member_reads_as :: "string \<Rightarrow> string \<times> pyval \<Rightarrow> bool" where
  "member_reads_as t = (\<lambda>(k, v). \<exists>w u. list_all json_space w \<and> t = json_string k @ CHR '':'' # w @ u \<and> reads_as u v)"

lemma member_head: "member_reads_as t kv \<Longrightarrow> \<exists>r. t = quote_char # r"
  by (cases kv) (auto simp: member_reads_as_def json_string_def)

lemma parse_member:
  assumes "member_reads_as t (k, v)" and "number_end rest"
  obtains r where "scan_string (drop 1 (t @ rest)) = Some (k, r)" "take 1 (skip_ws r) = '':''"
    "parse_value (skip_ws (drop 1 (skip_ws r))) = Some (v, rest)"
    "length (skip_ws (drop 1 (skip_ws r))) < length (t @ rest)" "take 1 (t @ rest) = [quote_char]"
proof -
  from assms(1) obtain w u where w: "list_all json_space w" and t: "t = json_string k @ CHR '':'' # w @ u"
    and u: "opens_value u" "parse_value (u @ rest) = Some (v, rest)"
    using assms(2) by (auto simp: member_reads_as_def reads_as_def)
  let ?r = "CHR '':'' # w @ u @ rest"
  have ws: "skip_ws ?r = ?r" by (simp add: skip_ws_def json_space_def)
  have v: "skip_ws (w @ u @ rest) = u @ rest" by (simp add: skip_ws_append w skip_ws_opens [OF u(1)])
  show ?thesis
  proof (rule that [of ?r])
    show "scan_string (drop 1 (t @ rest)) = Some (k, ?r)" by (simp add: t json_string_def scan_json_string)
  qed (simp_all add: ws v u t json_string_def)
qed

lemma parse_members_join:
  assumes "list_all2 member_reads_as ts kvs" and "kvs \<noteq> []" and w: "list_all json_space w" "list_all json_space w'"
  shows "parse_members (str_join (CHR '','' # w) ts @ w' @ CHR ''}'' # rest) = Some (kvs, rest)"
  using assms(1,2)
proof (induction rule: list_all2_induct)
  case (Cons t ts kv kvs)
  obtain k v where kv: "kv = (k, v)" by (cases kv)
  show ?case
  proof (cases ts)
    case Nil
    let ?tail = "w' @ CHR ''}'' # rest"
    have "number_end ?tail" by (rule number_end_space [OF w(2)]) simp
    from parse_member [OF Cons.hyps(1) [unfolded kv] this] obtain r where
      r: "scan_string (drop 1 (t @ ?tail)) = Some (k, r)" "take 1 (skip_ws r) = '':''"
        "parse_value (skip_ws (drop 1 (skip_ws r))) = Some (v, ?tail)"
        "length (skip_ws (drop 1 (skip_ws r))) < length (t @ ?tail)" "take 1 (t @ ?tail) = [quote_char]" by blast
    moreover have "skip_ws ?tail = CHR ''}'' # rest"
      by (simp add: skip_ws_append w, simp add: skip_ws_def json_space_def)
    moreover have "str_join (CHR '','' # w) (t # ts) @ ?tail = t @ ?tail" and "kvs = []"
      using Nil Cons.hyps(2) by auto
    ultimately show ?thesis
      by (subst parse_members.simps) (simp add: kv)
  next
    case more: (Cons u us)
    let ?tail = "str_join (CHR '','' # w) ts @ w' @ CHR ''}'' # rest"
    obtain kv' where "member_reads_as u kv'" using more Cons.hyps(2) by (auto simp: list_all2_Cons1)
    then have opens: "opens_value (str_join (CHR '','' # w) ts)"
      using more member_head [of u kv'] by (cases us) (auto simp: opens_value_def json_space_def)
    have "number_end (CHR '','' # w @ ?tail)" by (simp add: number_end_def is_digit_def)
    from parse_member [OF Cons.hyps(1) [unfolded kv] this] obtain r where
      r: "scan_string (drop 1 (t @ CHR '','' # w @ ?tail)) = Some (k, r)" "take 1 (skip_ws r) = '':''"
        "parse_value (skip_ws (drop 1 (skip_ws r))) = Some (v, CHR '','' # w @ ?tail)"
        "length (skip_ws (drop 1 (skip_ws r))) < length (t @ CHR '','' # w @ ?tail)"
        "take 1 (t @ CHR '','' # w @ ?tail) = [quote_char]" by blast
    moreover have "skip_ws (CHR '','' # w @ ?tail) = CHR '','' # w @ ?tail"
      by (simp add: skip_ws_def json_space_def)
    moreover have "skip_ws (w @ ?tail) = ?tail"
      by (simp add: skip_ws_append w skip_ws_opens [OF opens])
    moreover have "parse_members ?tail = Some (kvs, rest)"
      using Cons.IH more Cons.hyps(2) by auto
    moreover have "str_join (CHR '','' # w) (t # ts) @ w' @ CHR ''}'' # rest = t @ CHR '','' # w @ ?tail"
      using more by simp
    ultimately show ?thesis
      by (subst parse_members.simps) (simp add: kv)
  qed
qed simp

lemma fold_dict_set:
  assumes "distinct (map fst (d @ kvs))"
  shows "fold (\<lambda>(k, v) d. dict_set k v d) kvs d = d @ kvs"
  using assms
proof (induction kvs arbitrary: d)
  case (Cons kv kvs)
  obtain k v where kv: "kv = (k, v)" by (cases kv)
  have "dict_set k v d = d @ [(k, v)]" if "k \<notin> fst ` set d" for d :: "('a \<times> 'b) list"
    using that by (induction d) auto
  then have "dict_set k v d = d @ [(k, v)]" using Cons.prems by (auto simp: kv)
  then show ?case using Cons.IH [of "d @ [(k, v)]"] Cons.prems by (simp add: kv)
qed simp

lemma block_opens: "opens_value (json_block ind level (CHR ''['') c items)" "opens_value (json_block ind level (CHR ''{'') c items)"
  by (auto simp: json_block_def opens_value_def json_space_def)

lemma join_opens: "items \<noteq> [] \<Longrightarrow> opens_value (hd items) \<Longrightarrow> opens_value (str_join sep items)"
  by (cases items; cases "tl items"; cases "hd items") (auto simp: opens_value_def)

lemma reads_array:
  assumes "list_all2 reads_as ts vs"
  shows "reads_as (json_block ind level (CHR ''['') (CHR '']'') ts) (PList vs)"
proof (cases ts)
  case Nil
  with assms show ?thesis
    by (auto simp: reads_as_def json_block_def opens_value_def json_space_def parse_value.simps skip_ws_def)
next
  case (Cons t us)
  let ?w = "json_newline ind (Suc level)" and ?w' = "json_newline ind level"
  let ?items = "str_join (CHR '','' # ?w) ts"
  have opens: "opens_value ?items"
    using assms Cons by (intro join_opens) (auto simp: reads_as_def list_all2_Cons1)
  have "parse_value (json_block ind level (CHR ''['') (CHR '']'') ts @ rest) = Some (PList vs, rest)" for rest
  proof -
    have "skip_ws (?w @ ?items @ ?w' @ CHR '']'' # rest) = ?items @ ?w' @ CHR '']'' # rest"
      by (simp add: skip_ws_append skip_ws_opens [OF opens])
    moreover have "take 1 (?items @ ?w' @ CHR '']'' # rest) \<noteq> '']''"
      using opens by (cases ?items) (auto simp: opens_value_def)
    moreover have "parse_elements (?items @ ?w' @ CHR '']'' # rest) = Some (vs, rest)"
      using assms Cons by (intro parse_elements_join) auto
    ultimately show ?thesis
      using Cons by (subst parse_value.simps) (simp add: json_block_def)
  qed
  then show ?thesis by (simp add: reads_as_def block_opens)
qed

lemma reads_object:
  assumes "list_all2 member_reads_as ts kvs" and "distinct (map fst kvs)"
  shows "reads_as (json_block ind level (CHR ''{'') (CHR ''}'') ts) (PDict kvs)"
proof (cases ts)
  case Nil
  with assms show ?thesis
    by (auto simp: reads_as_def json_block_def opens_value_def json_space_def parse_value.simps skip_ws_def)
next
  case (Cons t us)
  let ?w = "json_newline ind (Suc level)" and ?w' = "json_newline ind level"
  let ?items = "str_join (CHR '','' # ?w) ts"
  obtain kv where "member_reads_as t kv" using assms(1) Cons by (auto simp: list_all2_Cons1)
  then have opens: "opens_value ?items"
    using Cons member_head [of t kv] by (intro join_opens) (auto simp: opens_value_def json_space_def)
  have "parse_value (json_block ind level (CHR ''{'') (CHR ''}'') ts @ rest) = Some (PDict kvs, rest)" for rest
  proof -
    have "skip_ws (?w @ ?items @ ?w' @ CHR ''}'' # rest) = ?items @ ?w' @ CHR ''}'' # rest"
      by (simp add: skip_ws_append skip_ws_opens [OF opens])
    moreover have "take 1 (?items @ ?w' @ CHR ''}'' # rest) \<noteq> ''}''"
      using opens by (cases ?items) (auto simp: opens_value_def)
    moreover have "parse_members (?items @ ?w' @ CHR ''}'' # rest) = Some (kvs, rest)"
      using assms(1) Cons by (intro parse_members_join) auto
    moreover have "fold (\<lambda>(k, v) d. dict_set k v d) kvs [] = kvs"
      using fold_dict_set [of "[]" kvs] assms(2) by simp
    ultimately show ?thesis
      using Cons by (subst parse_value.simps) (simp add: json_block_def)
  qed
  then show ?thesis by (simp add: reads_as_def block_opens)
qed

subsection \<open>The round trip\<close>

lemma map_res_reads:
  assumes "\<And>x. x \<in> set xs \<Longrightarrow> \<exists>t. f x = Inr t \<and> R t (g x)"
  shows "\<exists>ts. map_res f xs = Inr ts \<and> list_all2 R ts (map g xs)"
  using assms by (induction xs) fastforce+

lemma distinct_keys_sorted: "distinct (map fst (sort_key fst d)) \<longleftrightarrow> distinct (map fst d)"
  by (rule mset_eq_imp_distinct_iff) simp

lemma json_text_reads: "jsonable v \<Longrightarrow> \<exists>t. json_text ind level v = Inr t \<and> reads_as t (canon v)"
proof (induction ind level v rule: json_text.induct)
  case (6 ind level vs)
  then obtain ts where "map_res (json_text ind (Suc level)) vs = Inr ts" "list_all2 reads_as ts (map canon vs)"
    using map_res_reads [of vs "json_text ind (Suc level)" reads_as canon] by (auto simp: list_all_iff)
  then show ?case by (simp add: reads_array)
next
  case (7 ind level vs)
  then obtain ts where "map_res (json_text ind (Suc level)) vs = Inr ts" "list_all2 reads_as ts (map canon vs)"
    using map_res_reads [of vs "json_text ind (Suc level)" reads_as canon] by (auto simp: list_all_iff)
  then show ?case by (simp add: reads_array)
next
  case (8 ind level d)
  let ?member = "\<lambda>(k, v). bind_res (json_text ind (Suc level) v) (\<lambda>t. Inr (json_string k @ json_colon ind @ t))"
  let ?canon = "\<lambda>(k, v). (k, canon v)"
  have colon: "\<exists>w. list_all json_space w \<and> json_colon ind = CHR '':'' # w"
    by (auto simp: json_colon_def json_space_def split: option.splits)
  have "\<exists>t. ?member x = Inr t \<and> member_reads_as t (?canon x)" if x: "x \<in> set (sort_key fst d)" for x
  proof -
    obtain k v where kv: "x = (k, v)" by (cases x)
    with x 8 have "\<exists>t. json_text ind (Suc level) v = Inr t \<and> reads_as t (canon v)" by (auto simp: list_all_iff)
    with colon show ?thesis by (fastforce simp: kv member_reads_as_def)
  qed
  from map_res_reads [of "sort_key fst d" ?member member_reads_as ?canon, OF this] obtain ts where
    "map_res ?member (sort_key fst d) = Inr ts" "list_all2 member_reads_as ts (map ?canon (sort_key fst d))" by blast
  moreover have "distinct (map fst (map ?canon (sort_key fst d)))"
  proof -
    have "map fst (map ?canon (sort_key fst d)) = map fst (sort_key fst d)" by auto
    then show ?thesis using 8(2) by (simp only: distinct_keys_sorted jsonable.simps)
  qed
  ultimately show ?case by (simp add: reads_object)
qed (simp_all add: reads_literals reads_int reads_string)

text \<open>A document, indented or compact and followed by white space, reads as the value it was written from.\<close>

lemma json_roundtrip:
  assumes "jsonable v" and "list_all json_space w"
  shows "\<exists>t. json_text ind level v = Inr t \<and> json_loads (t @ w) = Some (canon v)"
proof -
  from json_text_reads [OF assms(1), of ind level] obtain t where t: "json_text ind level v = Inr t" "reads_as t (canon v)"
    by blast
  have "number_end w" using assms(2) by (cases w) (auto simp: number_end_def json_space_def is_digit_def)
  moreover have "skip_ws w = []" using skip_ws_append [OF assms(2), of "[]"] by (simp add: skip_ws_def)
  ultimately show ?thesis using t skip_ws_opens [of t w] by (simp add: json_loads_def reads_as_def)
qed

lemma reads_as_unique: "reads_as t v \<Longrightarrow> reads_as t v' \<Longrightarrow> v = v'"
proof -
  have e: "number_end []" by (simp add: number_end_def)
  assume "reads_as t v" "reads_as t v'"
  with e have "parse_value (t @ []) = Some (v, [])" "parse_value (t @ []) = Some (v', [])"
    unfolding reads_as_def by blast+
  then show "v = v'" by simp
qed

lemma json_text_determines:
  assumes "jsonable v" "jsonable v'" "json_text ind level v = json_text ind level v'"
  shows "canon v = canon v'"
  using json_text_reads [OF assms(1), of ind level] json_text_reads [OF assms(2), of ind level] assms(3)
  by (auto intro: reads_as_unique)

subsection \<open>Looking up what was read\<close>

abbreviation canon_dict :: "(string \<times> pyval) list \<Rightarrow> (string \<times> pyval) list" where
  "canon_dict d \<equiv> map (\<lambda>(k, v). (k, canon v)) (sort_key fst d)"

lemma map_of_canon:
  assumes "distinct (map fst d)"
  shows "map_of (canon_dict d) k = map_option canon (map_of d k)"
proof -
  have "map_of (sort_key fst d) = map_of d"
    using assms by (subst map_of_inject_set) (auto simp: distinct_keys_sorted)
  then show ?thesis by (simp add: map_of_map)
qed

lemma dget_canon: "distinct (map fst d) \<Longrightarrow> dget (canon_dict d) k = canon (dget d k)"
  by (simp add: dget_def map_of_canon split: option.splits)

lemma dget_item_canon: "distinct (map fst d) \<Longrightarrow> dget_item (canon_dict d) k = map_sum id canon (dget_item d k)"
  by (simp add: dget_item_def map_of_canon from_option_def split: option.splits)

lemma keys_canon: "set (keys (canon_dict d)) = set (keys d)"
  by (force simp: keys_def)

lemma canon_scalars [simp]: "canon (PList (map PInt is)) = PList (map PInt is)"
  "canon (PList (map PStr ss)) = PList (map PStr ss)" "is_dict (canon v) = is_dict v"
  by (simp_all add: comp_def) (cases v; simp)

text \<open>Bytes written as UTF-8 and read with \<open>json.loads(b.decode("utf-8"))\<close>.\<close>

lemma json_bytes_roundtrip:
  assumes "jsonable v" and "list_all json_space w"
  shows "\<exists>t. json_text ind level v = Inr t \<and> json_load_bytes (utf8 (t @ w)) = Some (canon v)"
  using json_roundtrip [OF assms, of ind level] by (auto simp: json_load_bytes_def)

text \<open>Equality with what was read, as Python compares values.\<close>

lemma py_eq_canon: "plain_json v \<Longrightarrow> py_eq (canon v) v \<and> py_eq v (canon v)"
proof (induction v rule: plain_json.induct)
  case (5 vs)
  then show ?case by (auto simp: list_all_iff zip_map1 zip_map2 zip_same)
next
  case (6 d)
  then have d: "distinct (map fst d)" and vs: "\<And>k v. (k, v) \<in> set d \<Longrightarrow> py_eq (canon v) v \<and> py_eq v (canon v)"
    by (auto simp: list_all_iff)
  have "list_all (\<lambda>(k, v). case map_of d k of None \<Rightarrow> False | Some u \<Rightarrow> py_eq v u) (canon_dict d)"
    using d vs by (auto simp: list_all_iff map_of_is_SomeI)
  moreover have "list_all (\<lambda>(k, v). case map_of (canon_dict d) k of None \<Rightarrow> False | Some u \<Rightarrow> py_eq v u) d"
    using d vs by (auto simp: list_all_iff map_of_canon map_of_is_SomeI)
  ultimately show ?case by simp
qed auto

end
