(* ===== verification/Contracts.thy ===== *)
theory Contracts
  imports Json Act_Group
begin

text \<open>
  \<open>contracts.py\<close>: the identity of the driver and compiler (\<open>NpuProvenance\<close>), the identity of a byte
  string, the preservation reports that \<open>patchblob\<close> writes, and the contracts that groups, carriers and
  programs are checked against. Dictionaries that \<open>json.loads\<close> returns are \<open>PDict\<close> values; the element
  types in a contract are strings, and what the constructors test with \<open>isinstance\<close> is a \<open>pyval\<close>.
\<close>

section \<open>Checked fields\<close>

definition uint_check :: "string \<Rightarrow> int \<Rightarrow> pyval \<Rightarrow> int res" where
  "uint_check label maximum v =
     (case v of
        PInt i \<Rightarrow> if 0 \<le> i \<and> i \<le> maximum then Inr i else Inl (ValueError (label @ '' must be an unsigned integer''))
      | _ \<Rightarrow> Inl (ValueError (label @ '' must be an unsigned integer'')))"

definition sha256_check :: "string \<Rightarrow> pyval \<Rightarrow> string res" where
  "sha256_check label v =
     (case v of
        PStr s \<Rightarrow> if is_digest s then Inr s else Inl (ValueError (label @ '' must be a lowercase SHA-256 digest''))
      | _ \<Rightarrow> Inl (ValueError (label @ '' must be a lowercase SHA-256 digest'')))"

text \<open>\<open>isinstance(v, int) and not isinstance(v, bool)\<close> together with a bound\<close>

fun positive_int :: "pyval \<Rightarrow> bool" where
  "positive_int (PInt i) = (0 < i)"
| "positive_int _ = False"

fun nonnegative_int :: "pyval \<Rightarrow> bool" where
  "nonnegative_int (PInt i) = (0 \<le> i)"
| "nonnegative_int _ = False"

text \<open>\<open>set(d) == {...}\<close> for the keys of a dictionary\<close>

definition has_keys :: "(string \<times> pyval) list \<Rightarrow> string list \<Rightarrow> bool" where
  "has_keys d names \<longleftrightarrow> set (keys d) = set names"

section \<open>Provenance\<close>

record npu_provenance =
  np_driver_index :: int
  np_device_index :: int
  np_driver_version :: int
  np_vendor_id :: int
  np_device_id :: int
  np_graph_extension_version :: int
  np_compiler_version :: "int \<times> int"

text \<open>The comparison of a compiler number with what \<open>_uint\<close> returns is never true; \<open>_uint\<close> raises.\<close>

definition NpuProvenance ::
  "pyval \<Rightarrow> pyval \<Rightarrow> pyval \<Rightarrow> pyval \<Rightarrow> pyval \<Rightarrow> pyval \<Rightarrow> pyval \<Rightarrow> npu_provenance res" where
  "NpuProvenance driver_index device_index driver_version vendor_id device_id graph_extension_version compiler_version =
     bind_res (uint_check ''driver_index'' u32_max driver_index) (\<lambda>a.
     bind_res (uint_check ''device_index'' u32_max device_index) (\<lambda>b.
     bind_res (uint_check ''driver_version'' u32_max driver_version) (\<lambda>c.
     bind_res (uint_check ''vendor_id'' u32_max vendor_id) (\<lambda>d.
     bind_res (uint_check ''device_id'' u32_max device_id) (\<lambda>e.
     bind_res (uint_check ''graph_extension_version'' u32_max graph_extension_version) (\<lambda>f.
     case compiler_version of
       PTuple [x, y] \<Rightarrow>
         bind_res (uint_check ''compiler_version'' 0xFFFF x) (\<lambda>major.
         bind_res (uint_check ''compiler_version'' 0xFFFF y) (\<lambda>minor.
         Inr \<lparr>np_driver_index = a, np_device_index = b, np_driver_version = c, np_vendor_id = d, np_device_id = e,
           np_graph_extension_version = f, np_compiler_version = (major, minor)\<rparr>))
     | _ \<Rightarrow> Inl (ValueError ''compiler_version must contain two unsigned 16-bit integers'')))))))"

definition provenance_from_ir_result :: "ir_compile_result \<Rightarrow> npu_provenance res" where
  "provenance_from_ir_result r =
     NpuProvenance (PInt (ic_driver_index r)) (PInt (ic_device_index r)) (PInt (ic_driver_version r))
       (PInt (ic_vendor_id r)) (PInt (ic_device_id r)) (PInt (ic_graph_extension_version r))
       (PTuple [PInt (fst (ic_compiler_version r)), PInt (snd (ic_compiler_version r))])"

definition provenance_fields :: "string list" where
  "provenance_fields = [''driver_index'', ''device_index'', ''driver_version'', ''vendor_id'', ''device_id'',
     ''graph_extension_version'', ''compiler_version'']"

definition uint_item :: "(string \<times> pyval) list \<Rightarrow> string \<Rightarrow> int res" where
  "uint_item d name = bind_res (dget_item d name) (uint_check name u32_max)"

definition provenance_from_json :: "pyval \<Rightarrow> npu_provenance res" where
  "provenance_from_json v =
     (case v of
        PDict d \<Rightarrow>
          if \<not> has_keys d provenance_fields then Inl (ValueError ''provenance fields are invalid'')
          else (case dget d ''compiler_version'' of
              PList [x, y] \<Rightarrow>
                bind_res (uint_item d ''driver_index'') (\<lambda>a.
                bind_res (uint_item d ''device_index'') (\<lambda>b.
                bind_res (uint_item d ''driver_version'') (\<lambda>c.
                bind_res (uint_item d ''vendor_id'') (\<lambda>e.
                bind_res (uint_item d ''device_id'') (\<lambda>f.
                bind_res (uint_item d ''graph_extension_version'') (\<lambda>g.
                bind_res (uint_check ''compiler_version'' 0xFFFF x) (\<lambda>major.
                bind_res (uint_check ''compiler_version'' 0xFFFF y) (\<lambda>minor.
                NpuProvenance (PInt a) (PInt b) (PInt c) (PInt e) (PInt f) (PInt g)
                  (PTuple [PInt major, PInt minor])))))))))
            | _ \<Rightarrow> Inl (ValueError ''compiler_version must contain two integers''))
      | _ \<Rightarrow> Inl (ValueError ''provenance must be an object''))"

definition provenance_to_json :: "npu_provenance \<Rightarrow> pyval" where
  "provenance_to_json p = PDict
     [(''driver_index'', PInt (np_driver_index p)), (''device_index'', PInt (np_device_index p)),
      (''driver_version'', PInt (np_driver_version p)), (''vendor_id'', PInt (np_vendor_id p)),
      (''device_id'', PInt (np_device_id p)), (''graph_extension_version'', PInt (np_graph_extension_version p)),
      (''compiler_version'', PList [PInt (fst (np_compiler_version p)), PInt (snd (np_compiler_version p))])]"

section \<open>Artifact identities\<close>

record artifact_identity =
  ai_size :: int
  ai_sha256 :: string

definition ArtifactIdentity :: "pyval \<Rightarrow> pyval \<Rightarrow> artifact_identity res" where
  "ArtifactIdentity n digest =
     bind_res (uint_check ''artifact size'' (2 ^ 63 - 1) n) (\<lambda>i.
     bind_res (sha256_check ''artifact sha256'' digest) (\<lambda>s.
     Inr \<lparr>ai_size = i, ai_sha256 = s\<rparr>))"

definition identity_from_bytes :: "bytes \<Rightarrow> artifact_identity res" where
  "identity_from_bytes b = ArtifactIdentity (PInt (int (length b))) (PStr (sha256 b))"

definition identity_to_json :: "artifact_identity \<Rightarrow> (string \<times> pyval) list" where
  "identity_to_json a = [(''size'', PInt (ai_size a)), (''sha256'', PStr (ai_sha256 a))]"

section \<open>Patch reports\<close>

record patch_report =
  rp_raw :: bytes
  rp_schema :: string
  rp_input_graph_sha256 :: string
  rp_output_graph_sha256 :: string
  rp_shave_elf_sha256 :: string
  rp_compiler :: string
  rp_npu :: string
  rp_graph_contract :: "(string \<times> pyval) list"
  rp_targets :: "(string \<times> pyval) list list"
  rp_append :: "(string \<times> pyval) list"
  rp_validation :: "(string \<times> pyval) list"

fun the_dict :: "pyval \<Rightarrow> (string \<times> pyval) list" where
  "the_dict (PDict d) = d"
| "the_dict _ = []"

definition report_schemas :: "string list" where
  "report_schemas = [''npunlock.patchblob.v1'', ''npunlock.patchblob.v2'']"

definition parse_report :: "bytes \<Rightarrow> patch_report res" where
  "parse_report payload =
     (case json_load_bytes payload of
        None \<Rightarrow> Inl (ValueError ''patch report is not valid UTF-8 JSON'')
      | Some v \<Rightarrow>
          let d = the_dict v in
          case (dget d ''schema'', dget d ''graph_contract'', dget d ''targets'', dget d ''append'', dget d ''validation'') of
            (PStr schema, graph_contract, targets, append_value, validation) \<Rightarrow>
              if schema \<notin> set report_schemas then Inl (ValueError ''patch report schema is unsupported'')
              else (case (graph_contract, targets, append_value, validation) of
                  (PDict contract, PList ts, PDict appended, PDict checks) \<Rightarrow>
                    if \<not> list_all is_dict ts then Inl (ValueError ''patch report structure is invalid'')
                    else (case (dget contract ''compiler'', dget contract ''npu'') of
                        (PStr compiler, PStr npu) \<Rightarrow>
                          if dget checks ''section_contents_preserved'' \<noteq> PBool True \<or>
                             dget checks ''mutation_set_preserved'' \<noteq> PBool True
                          then Inl (ValueError ''patch report does not prove preservation'')
                          else
                            bind_res (sha256_check ''input graph sha256'' (dget d ''input_graph_sha256'')) (\<lambda>input_hash.
                            bind_res (sha256_check ''output graph sha256'' (dget d ''output_graph_sha256'')) (\<lambda>output_hash.
                            bind_res (sha256_check ''SHAVE ELF sha256'' (dget d ''shave_elf_sha256'')) (\<lambda>elf_hash.
                            Inr \<lparr>rp_raw = payload, rp_schema = schema, rp_input_graph_sha256 = input_hash,
                              rp_output_graph_sha256 = output_hash, rp_shave_elf_sha256 = elf_hash,
                              rp_compiler = compiler, rp_npu = npu, rp_graph_contract = contract,
                              rp_targets = map the_dict ts, rp_append = appended, rp_validation = checks\<rparr>)))
                      | _ \<Rightarrow> Inl (ValueError ''patch report graph contract is invalid''))
                | _ \<Rightarrow> Inl (ValueError ''patch report structure is invalid''))
          | _ \<Rightarrow> Inl (ValueError ''patch report schema is unsupported''))"

definition report_to_json :: "patch_report \<Rightarrow> pyval res" where
  "report_to_json r =
     (case json_load_bytes (rp_raw r) of
        None \<Rightarrow> Inl (ValueError ''patch report is not valid UTF-8 JSON'')
      | Some v \<Rightarrow> if is_dict v then Inr v else Inl (ValueError ''patch report structure is invalid''))"

definition report_summary :: "patch_report \<Rightarrow> pyval" where
  "report_summary r = PDict
     [(''schema'', PStr (rp_schema r)), (''input_graph_sha256'', PStr (rp_input_graph_sha256 r)),
      (''shave_elf_sha256'', PStr (rp_shave_elf_sha256 r)), (''output_graph_sha256'', PStr (rp_output_graph_sha256 r)),
      (''graph_contract'', PDict (rp_graph_contract r)), (''append'', PDict (rp_append r)),
      (''validation'', PDict (rp_validation r)), (''patched_target_count'', PInt (int (length (rp_targets r))))]"

section \<open>Group contracts\<close>

record act_group_contract =
  gk_input_dtypes :: "string list"
  gk_output_dtype :: string
  gk_input_element_counts :: "int list"
  gk_output_element_count :: int
  gk_target_count :: int
  gk_invocation_indices :: "int list option"
  gk_range_indices :: "int list option"

definition check_indices :: "string \<Rightarrow> int \<Rightarrow> pyval list option \<Rightarrow> int list option res" where
  "check_indices label target_count vs =
     (case vs of
        None \<Rightarrow> Inr None
      | Some xs \<Rightarrow>
          if int (length xs) \<noteq> target_count \<or> \<not> list_all nonnegative_int xs
          then Inl (ValueError (label @ '' indices must contain one unsigned integer per target''))
          else Inr (Some (map int_of xs)))"

definition ActGroupContract ::
  "string list \<Rightarrow> string \<Rightarrow> pyval list \<Rightarrow> pyval \<Rightarrow> pyval \<Rightarrow> pyval list option \<Rightarrow> pyval list option \<Rightarrow> act_group_contract res" where
  "ActGroupContract input_dtypes output_dtype input_element_counts output_element_count target_count
      invocation_indices range_indices =
     (if input_dtypes = [] then Inl (ValueError ''ActGroupContract requires at least one input'')
      else if length input_dtypes \<noteq> length input_element_counts
      then Inl (ValueError ''input dtype and element-count lengths differ'')
      else bind_res (map_res (\<lambda>dtype. TensorSpec (PTuple [PInt 1]) (PStr dtype)) (input_dtypes @ [output_dtype])) (\<lambda>_.
        if \<not> list_all positive_int input_element_counts
        then Inl (ValueError ''input element counts must be positive integers'')
        else if \<not> positive_int output_element_count
        then Inl (ValueError ''output element count must be a positive integer'')
        else if \<not> positive_int target_count
        then Inl (ValueError ''target count must be a positive integer'')
        else
          bind_res (check_indices ''invocation'' (int_of target_count) invocation_indices) (\<lambda>invocations.
          bind_res (check_indices ''range'' (int_of target_count) range_indices) (\<lambda>ranges.
          Inr \<lparr>gk_input_dtypes = input_dtypes, gk_output_dtype = output_dtype,
            gk_input_element_counts = map int_of input_element_counts,
            gk_output_element_count = int_of output_element_count, gk_target_count = int_of target_count,
            gk_invocation_indices = invocations, gk_range_indices = ranges\<rparr>))))"

definition contract_mismatch :: "act_group_contract \<Rightarrow> act_group \<Rightarrow> string option res" where
  "contract_mismatch c g =
     (if ag_input_dtypes g \<noteq> Some (gk_input_dtypes c) then Inr (Some ''input dtypes'')
      else bind_res (ag_output_dtype g) (\<lambda>output_dtype.
        if output_dtype \<noteq> Some (gk_output_dtype c) then Inr (Some ''output dtype'')
        else if ag_input_element_counts g \<noteq> Some (gk_input_element_counts c) then Inr (Some ''input element counts'')
        else bind_res (ag_output_element_count g) (\<lambda>output_count.
          if output_count \<noteq> Some (gk_output_element_count c) then Inr (Some ''output element count'')
          else if int (length (ag_targets g)) \<noteq> gk_target_count c then Inr (Some ''target count'')
          else if gk_invocation_indices c \<noteq> None \<and> gk_invocation_indices c \<noteq> Some (ag_invocation_indices g)
          then Inr (Some ''invocation indices'')
          else if gk_range_indices c \<noteq> None \<and> gk_range_indices c \<noteq> Some (ag_range_indices g)
          then Inr (Some ''range indices'')
          else Inr None)))"

definition optional_list :: "int list option \<Rightarrow> pyval" where
  "optional_list xs = (case xs of None \<Rightarrow> PNone | Some ys \<Rightarrow> PList (map PInt ys))"

definition group_contract_to_json :: "act_group_contract \<Rightarrow> pyval" where
  "group_contract_to_json c = PDict
     [(''input_dtypes'', PList (map PStr (gk_input_dtypes c))), (''output_dtype'', PStr (gk_output_dtype c)),
      (''input_element_counts'', PList (map PInt (gk_input_element_counts c))),
      (''output_element_count'', PInt (gk_output_element_count c)), (''target_count'', PInt (gk_target_count c)),
      (''invocation_indices'', optional_list (gk_invocation_indices c)),
      (''range_indices'', optional_list (gk_range_indices c))]"

section \<open>Carrier contracts\<close>

text \<open>\<open>CustomMapping\<close> of \<open>__init__.py\<close>: what a prepared carrier says about one custom node.\<close>

record custom_mapping =
  cm_output :: tensor
  cm_name :: string
  cm_status :: string
  cm_group_indices :: "nat list"
  cm_reason :: string

record carrier_contract =
  ck_groups :: "act_group_contract list"
  ck_mapping_indices :: "int list list option"

definition valid_mapping :: "nat \<Rightarrow> pyval list \<Rightarrow> bool" where
  "valid_mapping n mapping \<longleftrightarrow> mapping \<noteq> [] \<and> list_all (\<lambda>v. nonnegative_int v \<and> int_of v < int n) mapping"

definition CarrierContract :: "act_group_contract list \<Rightarrow> pyval list list option \<Rightarrow> carrier_contract res" where
  "CarrierContract groups mapping_indices =
     (if groups = [] then Inl (ValueError ''CarrierContract requires at least one ACT group'')
      else case mapping_indices of
        None \<Rightarrow> Inr \<lparr>ck_groups = groups, ck_mapping_indices = None\<rparr>
      | Some ms \<Rightarrow>
          if \<not> list_all (valid_mapping (length groups)) ms then Inl (ValueError ''carrier mapping indices are invalid'')
          else Inr \<lparr>ck_groups = groups, ck_mapping_indices = Some (map (map int_of) ms)\<rparr>)"

definition check_group :: "act_group \<times> act_group_contract \<Rightarrow> unit res" where
  "check_group = (\<lambda>(actual, expected).
     bind_res (contract_mismatch expected actual) (\<lambda>m.
       if m = None then Inr () else Inl (ValueError ''carrier ACT group contract changed'')))"

definition mapped_indices :: "custom_mapping list \<Rightarrow> int list list" where
  "mapped_indices ms = map (\<lambda>m. if cm_status m = ''automatic'' then map int (cm_group_indices m) else []) ms"

text \<open>\<open>CarrierContract.validate\<close> on the groups and the mappings of the prepared graph\<close>

definition validate_carrier :: "carrier_contract \<Rightarrow> act_group list \<Rightarrow> custom_mapping list \<Rightarrow> unit res" where
  "validate_carrier c groups mappings =
     (if length groups \<noteq> length (ck_groups c) then Inl (ValueError ''carrier exposed another number of ACT groups'')
      else bind_res (map_res check_group (zip groups (ck_groups c))) (\<lambda>_.
        case ck_mapping_indices c of
          None \<Rightarrow> Inr ()
        | Some expected \<Rightarrow>
            if mapped_indices mappings \<noteq> expected then Inl (ValueError ''carrier mapping changed'') else Inr ()))"

definition carrier_contract_to_json :: "carrier_contract \<Rightarrow> pyval" where
  "carrier_contract_to_json c = PDict
     [(''groups'', PList (map group_contract_to_json (ck_groups c))),
      (''mapping_indices'', (case ck_mapping_indices c of None \<Rightarrow> PNone
         | Some ms \<Rightarrow> PList (map (\<lambda>m. PList (map PInt m)) ms)))]"

section \<open>Program contracts\<close>

text \<open>A tensor at the boundary of a program as a name, a shape and an element type. A contract keeps the
  shapes and types as they were given.\<close>

type_synonym boundary = "string \<times> int list \<times> string"

record program_contract =
  pk_inputs :: "(string \<times> pyval \<times> pyval) list"
  pk_outputs :: "(string \<times> pyval \<times> pyval) list"
  pk_patch_count :: int
  pk_compiler :: string
  pk_npu :: string
  pk_targets_per_patch :: "int list option"

definition check_boundary :: "string \<Rightarrow> pyval \<times> pyval \<times> pyval \<Rightarrow> string list \<Rightarrow> string list res" where
  "check_boundary label = (\<lambda>(name, shape, dtype) names.
     case name of
       PStr s \<Rightarrow>
         if s = [] \<or> s \<in> set names then Inl (ValueError (label @ '' tensor names must be non-empty and unique''))
         else bind_res (TensorSpec shape dtype) (\<lambda>_. Inr (names @ [s]))
     | _ \<Rightarrow> Inl (ValueError (label @ '' tensor names must be non-empty and unique'')))"

fun nonempty_str :: "pyval \<Rightarrow> bool" where
  "nonempty_str (PStr s) = (s \<noteq> [])"
| "nonempty_str _ = False"

definition ProgramContract ::
  "(pyval \<times> pyval \<times> pyval) list \<Rightarrow> (pyval \<times> pyval \<times> pyval) list \<Rightarrow> pyval \<Rightarrow> pyval \<Rightarrow> pyval \<Rightarrow> pyval list option \<Rightarrow>
    program_contract res" where
  "ProgramContract inputs outputs patch_count compiler npu targets_per_patch =
     bind_res (fold_res (check_boundary ''input'') inputs []) (\<lambda>_.
     bind_res (fold_res (check_boundary ''output'') outputs []) (\<lambda>_.
     if \<not> nonnegative_int patch_count then Inl (ValueError ''patch_count must be a nonnegative integer'')
     else if \<not> nonempty_str compiler \<or> \<not> nonempty_str npu
     then Inl (ValueError ''compiler and NPU identities must be non-empty strings'')
     else if (case targets_per_patch of None \<Rightarrow> False
         | Some ts \<Rightarrow> int (length ts) \<noteq> int_of patch_count \<or> \<not> list_all positive_int ts)
     then Inl (ValueError ''targets_per_patch must contain one positive count per patch'')
     else Inr \<lparr>pk_inputs = map (\<lambda>(n, s, d). (str_of n, s, d)) inputs,
       pk_outputs = map (\<lambda>(n, s, d). (str_of n, s, d)) outputs, pk_patch_count = int_of patch_count,
       pk_compiler = str_of compiler, pk_npu = str_of npu,
       pk_targets_per_patch = map_option (map int_of) targets_per_patch\<rparr>))"

text \<open>\<open>actual == self.inputs\<close>: a tuple of \<open>(name, shape, dtype)\<close> triples against the stored ones\<close>

definition same_boundary :: "boundary list \<Rightarrow> (string \<times> pyval \<times> pyval) list \<Rightarrow> bool" where
  "same_boundary actual expected \<longleftrightarrow>
     list_all2 (\<lambda>(n, s, d) (n', s', d'). n = n' \<and> py_eq (shape_val s) s' \<and> py_eq (PStr d) d') actual expected"

definition check_report :: "program_contract \<Rightarrow> nat \<times> patch_report \<Rightarrow> unit res" where
  "check_report c = (\<lambda>(index, report).
     if rp_compiler report \<noteq> pk_compiler c \<or> rp_npu report \<noteq> pk_npu c
     then Inl (ValueError ''patch report graph contract changed'')
     else if (case pk_targets_per_patch c of None \<Rightarrow> False | Some ts \<Rightarrow> int (length (rp_targets report)) \<noteq> ts ! index)
     then Inl (ValueError ''patch report has another number of targets'')
     else Inr ())"

text \<open>The loop over \<open>zip(reports, reports[1:])\<close>\<close>

fun check_chain :: "patch_report list \<Rightarrow> unit res" where
  "check_chain (previous # current # rest) =
     (if rp_output_graph_sha256 previous \<noteq> rp_input_graph_sha256 current
      then Inl (ValueError ''program patch-report graph hash chain is broken'')
      else check_chain (current # rest))"
| "check_chain _ = Inr ()"

text \<open>\<open>ProgramContract.validate\<close> on the boundary, the patch reports and the graph of a program\<close>

definition validate_program ::
  "program_contract \<Rightarrow> boundary list \<Rightarrow> boundary list \<Rightarrow> bytes list \<Rightarrow> bytes \<Rightarrow> unit res" where
  "validate_program c actual_inputs actual_outputs patch_reports graph_blob =
     (if \<not> same_boundary actual_inputs (pk_inputs c) then Inl (ValueError ''program input contract changed'')
      else if \<not> same_boundary actual_outputs (pk_outputs c) then Inl (ValueError ''program output contract changed'')
      else if int (length patch_reports) \<noteq> pk_patch_count c
      then Inl (ValueError ''program has another number of patch reports'')
      else bind_res (map_res parse_report patch_reports) (\<lambda>reports.
        bind_res (map_res (check_report c) (enum reports)) (\<lambda>_.
        bind_res (check_chain reports) (\<lambda>_.
        if reports \<noteq> [] \<and> rp_output_graph_sha256 (last reports) \<noteq> sha256 graph_blob
        then Inl (ValueError ''program graph hash does not match its final patch report'')
        else Inr ()))))"

definition boundary_to_json :: "string \<times> pyval \<times> pyval \<Rightarrow> pyval res" where
  "boundary_to_json = (\<lambda>(name, shape, dtype).
     bind_res (from_option (TypeError ''object is not iterable'') (py_iter shape)) (\<lambda>dims.
     Inr (PDict [(''name'', PStr name), (''shape'', PList dims), (''dtype'', dtype)])))"

definition program_contract_to_json :: "program_contract \<Rightarrow> pyval res" where
  "program_contract_to_json c =
     bind_res (map_res boundary_to_json (pk_inputs c)) (\<lambda>inputs.
     bind_res (map_res boundary_to_json (pk_outputs c)) (\<lambda>outputs.
     Inr (PDict [(''inputs'', PList inputs), (''outputs'', PList outputs), (''patch_count'', PInt (pk_patch_count c)),
       (''compiler'', PStr (pk_compiler c)), (''npu'', PStr (pk_npu c)),
       (''targets_per_patch'', optional_list (pk_targets_per_patch c))])))"

section \<open>Well-formed provenance\<close>

definition wf_provenance :: "npu_provenance \<Rightarrow> bool" where
  "wf_provenance p \<longleftrightarrow>
     list_all (\<lambda>i. 0 \<le> i \<and> i \<le> u32_max) [np_driver_index p, np_device_index p, np_driver_version p, np_vendor_id p,
       np_device_id p, np_graph_extension_version p] \<and>
     list_all (\<lambda>i. 0 \<le> i \<and> i \<le> 0xFFFF) [fst (np_compiler_version p), snd (np_compiler_version p)]"

lemma uint_check_Inr [res_simps]: "uint_check label m v = Inr i \<longleftrightarrow> v = PInt i \<and> 0 \<le> i \<and> i \<le> m"
  by (cases v) (auto simp: uint_check_def)

lemma sha256_check_Inr [res_simps]: "sha256_check label v = Inr s \<longleftrightarrow> v = PStr s \<and> is_digest s"
  by (cases v) (auto simp: sha256_check_def)

lemma NpuProvenance_wf:
  assumes "NpuProvenance a b c d e f g = Inr p"
  shows "wf_provenance p"
  using assms by (auto simp: NpuProvenance_def wf_provenance_def res_simps)

lemma NpuProvenance_of_fields:
  assumes "wf_provenance p"
  shows "NpuProvenance (PInt (np_driver_index p)) (PInt (np_device_index p)) (PInt (np_driver_version p))
    (PInt (np_vendor_id p)) (PInt (np_device_id p)) (PInt (np_graph_extension_version p))
    (PTuple [PInt (fst (np_compiler_version p)), PInt (snd (np_compiler_version p))]) = Inr p"
  using assms by (simp add: NpuProvenance_def wf_provenance_def uint_check_def)

lemma provenance_from_json_wf: "provenance_from_json v = Inr p \<Longrightarrow> wf_provenance p"
  by (auto simp: provenance_from_json_def res_simps split: if_splits dest: NpuProvenance_wf)

lemma jsonable_provenance: "jsonable (provenance_to_json p)"
  by (simp add: provenance_to_json_def)

lemma provenance_from_canon:
  assumes "wf_provenance p"
  shows "provenance_from_json (canon (provenance_to_json p)) = Inr p"
  using assms NpuProvenance_of_fields [OF assms]
  by (simp add: provenance_from_json_def provenance_to_json_def has_keys_def provenance_fields_def insert_commute
      dget_def uint_item_def dget_item_def from_option_def uint_check_def wf_provenance_def)

interpretation provenance_json: codec wf_provenance "\<lambda>p. Inr (canon (provenance_to_json p))" provenance_from_json
  by unfold_locales (simp_all add: provenance_from_json_wf provenance_from_canon)

text \<open>The driver and compiler identity survives its JSON form: a provenance that passes the checks of
  \<open>NpuProvenance\<close>, written with \<open>to_json\<close> and \<open>json.dumps\<close>, is read back by \<open>json.loads\<close> and
  \<open>from_json\<close> unchanged; and whatever \<open>from_json\<close> accepts passes the checks.\<close>

theorem provenance_json_roundtrip:
  assumes "NpuProvenance a b c d e f g = Inr p"
  shows "(\<exists>t v. json_text ind level (provenance_to_json p) = Inr t \<and> json_loads t = Some v \<and> provenance_from_json v = Inr p) \<and>
    (\<forall>v q. provenance_from_json v = Inr q \<longrightarrow> wf_provenance q)"
  using json_roundtrip [OF jsonable_provenance, of "[]" ind level p]
    provenance_from_canon [OF NpuProvenance_wf [OF assms]] provenance_from_json_wf by auto

theorem provenance_json_roundtrip_witness:
  "\<exists>p t v. NpuProvenance (PInt 0) (PInt 0) (PInt 7) (PInt 0x8086) (PInt 0xAD1D) (PInt 5) (PTuple [PInt 8, PInt 3]) = Inr p \<and>
     json_text None 0 (provenance_to_json p) = Inr t \<and> json_loads t = Some v \<and> provenance_from_json v = Inr p"
proof -
  let ?p = "\<lparr>np_driver_index = 0, np_device_index = 0, np_driver_version = 7, np_vendor_id = 0x8086, np_device_id = 0xAD1D,
    np_graph_extension_version = 5, np_compiler_version = (8, 3)\<rparr>"
  have "NpuProvenance (PInt 0) (PInt 0) (PInt 7) (PInt 0x8086) (PInt 0xAD1D) (PInt 5) (PTuple [PInt 8, PInt 3]) = Inr ?p"
    by code_simp
  with provenance_json_roundtrip [OF this, of None 0] show ?thesis by blast
qed

section \<open>Validated programs\<close>

lemma check_chain_iff:
  "check_chain rs = Inr () \<longleftrightarrow>
     (\<forall>i. Suc i < length rs \<longrightarrow> rp_output_graph_sha256 (rs ! i) = rp_input_graph_sha256 (rs ! Suc i))"
proof (induction rs rule: check_chain.induct)
  case (1 r s rest)
  then show ?case by (auto simp: less_Suc_eq_0_disj)
qed auto

definition fits_contract :: "program_contract \<Rightarrow> nat \<Rightarrow> patch_report \<Rightarrow> bool" where
  "fits_contract c i r \<longleftrightarrow> rp_compiler r = pk_compiler c \<and> rp_npu r = pk_npu c \<and>
     (case pk_targets_per_patch c of None \<Rightarrow> True | Some ts \<Rightarrow> int (length (rp_targets r)) = ts ! i)"

lemma check_report_iff: "check_report c (i, r) = Inr () \<longleftrightarrow> fits_contract c i r"
  by (auto simp: check_report_def fits_contract_def split: option.splits)

lemma check_reports_iff:
  "(\<exists>us. map_res (check_report c) (enum rs) = Inr us) \<longleftrightarrow> (\<forall>i < length rs. fits_contract c i (rs ! i))"
proof -
  have "(\<forall>x \<in> set (enum rs). check_report c x = Inr ()) \<longleftrightarrow> (\<forall>i < length rs. check_report c (i, rs ! i) = Inr ())"
    by (auto simp: in_set_enum)
  then show ?thesis by (simp add: map_res_unit check_report_iff)
qed

text \<open>C16 A program passes \<open>ProgramContract.validate\<close> exactly when its inputs and outputs are those of the
  contract and its patch reports account for its graph: there are as many as the contract says, each
  of them parses, was made by the contract's compiler for its NPU and patches the promised number of
  targets, each starts from the graph the one before produced, and the last one produced the graph of
  the program.\<close>

theorem validate_program_iff:
  "validate_program c inputs outputs payloads graph_blob = Inr () \<longleftrightarrow>
     same_boundary inputs (pk_inputs c) \<and> same_boundary outputs (pk_outputs c) \<and> int (length payloads) = pk_patch_count c \<and>
     (\<exists>rs. map_res parse_report payloads = Inr rs \<and> (\<forall>i < length rs. fits_contract c i (rs ! i)) \<and>
        (\<forall>i. Suc i < length rs \<longrightarrow> rp_output_graph_sha256 (rs ! i) = rp_input_graph_sha256 (rs ! Suc i)) \<and>
        (rs \<noteq> [] \<longrightarrow> rp_output_graph_sha256 (last rs) = sha256 graph_blob))"
proof -
  have "bind_res (map_res (check_report c) (enum rs)) (\<lambda>_. bind_res (check_chain rs) (\<lambda>_.
      if rs \<noteq> [] \<and> rp_output_graph_sha256 (last rs) \<noteq> sha256 graph_blob then Inl e else Inr ())) = Inr () \<longleftrightarrow>
    (\<forall>i < length rs. fits_contract c i (rs ! i)) \<and>
    (\<forall>i. Suc i < length rs \<longrightarrow> rp_output_graph_sha256 (rs ! i) = rp_input_graph_sha256 (rs ! Suc i)) \<and>
    (rs \<noteq> [] \<longrightarrow> rp_output_graph_sha256 (last rs) = sha256 graph_blob)" for rs e
    unfolding bind_res_eq_Inr check_reports_iff [symmetric] check_chain_iff [symmetric] by auto
  then show ?thesis unfolding validate_program_def by (auto simp: bind_res_eq_Inr)
qed

text \<open>A report that \<open>patchblob\<close> could have written.\<close>

definition sample_report :: "string \<Rightarrow> string \<Rightarrow> string \<Rightarrow> (int \<times> int) list \<Rightarrow> (string \<times> pyval) list" where
  "sample_report input_hash output_hash elf_hash selectors =
     [(''schema'', PStr ''npunlock.patchblob.v2''), (''input_graph_sha256'', PStr input_hash),
      (''output_graph_sha256'', PStr output_hash), (''shave_elf_sha256'', PStr elf_hash),
      (''graph_contract'', PDict [(''compiler'', PStr ''8.3''), (''npu'', PStr ''3720'')]),
      (''targets'', PList (map (\<lambda>(i, r). PDict [(''invocation_index'', PInt i), (''range_index'', PInt r)]) selectors)),
      (''append'', PDict []),
      (''validation'', PDict [(''section_contents_preserved'', PBool True), (''mutation_set_preserved'', PBool True)])]"

definition sample_payload :: "string \<Rightarrow> string \<Rightarrow> string \<Rightarrow> (int \<times> int) list \<Rightarrow> bytes" where
  "sample_payload input_hash output_hash elf_hash selectors =
     (case json_compact (PDict (sample_report input_hash output_hash elf_hash selectors)) of Inr t \<Rightarrow> utf8 t | Inl _ \<Rightarrow> [])"

lemma parse_sample_payload:
  assumes "is_digest a" "is_digest b" "is_digest e"
  obtains r where "parse_report (sample_payload a b e sel) = Inr r" "rp_input_graph_sha256 r = a"
    "rp_output_graph_sha256 r = b" "rp_shave_elf_sha256 r = e" "rp_compiler r = ''8.3''" "rp_npu r = ''3720''"
    "rp_targets r = map (\<lambda>(i, r). [(''invocation_index'', PInt i), (''range_index'', PInt r)]) sel"
proof -
  let ?d = "sample_report a b e sel"
  have "jsonable (PDict ?d)" by (auto simp: sample_report_def list_all_iff)
  from json_bytes_roundtrip [OF this, of "[]" None 0]
  have l: "json_load_bytes (sample_payload a b e sel) = Some (canon (PDict ?d))"
    by (auto simp: sample_payload_def json_compact_def)
  have "parse_report (sample_payload a b e sel) =
    Inr \<lparr>rp_raw = sample_payload a b e sel, rp_schema = ''npunlock.patchblob.v2'', rp_input_graph_sha256 = a,
      rp_output_graph_sha256 = b, rp_shave_elf_sha256 = e, rp_compiler = ''8.3'', rp_npu = ''3720'',
      rp_graph_contract = [(''compiler'', PStr ''8.3''), (''npu'', PStr ''3720'')],
      rp_targets = map (\<lambda>(i, r). [(''invocation_index'', PInt i), (''range_index'', PInt r)]) sel, rp_append = [],
      rp_validation = [(''mutation_set_preserved'', PBool True), (''section_contents_preserved'', PBool True)]\<rparr>"
    unfolding parse_report_def l using assms
    by (auto simp: sample_report_def dget_def report_schemas_def sha256_check_def list_all_iff Let_def)
  then show ?thesis by (rule that; simp only: patch_report.select_convs)
qed

definition sample_contract :: program_contract where
  "sample_contract = \<lparr>pk_inputs = [], pk_outputs = [], pk_patch_count = 2, pk_compiler = ''8.3'', pk_npu = ''3720'',
     pk_targets_per_patch = Some [1, 1]\<rparr>"

theorem validate_program_iff_witness:
  "validate_program sample_contract [] []
     [sample_payload (sha256 [1]) (sha256 [2]) (sha256 [9]) [(0, 0)],
      sample_payload (sha256 [2]) (sha256 [3]) (sha256 [9]) [(1, 0)]] [3] = Inr ()"
proof -
  obtain r where r: "parse_report (sample_payload (sha256 [1]) (sha256 [2]) (sha256 [9]) [(0, 0)]) = Inr r"
    "rp_output_graph_sha256 r = sha256 [2]" "rp_compiler r = ''8.3''" "rp_npu r = ''3720''" "length (rp_targets r) = 1"
    by (rule parse_sample_payload [of "sha256 [1]" "sha256 [2]" "sha256 [9]" "[(0, 0)]"]) simp_all
  obtain s where s: "parse_report (sample_payload (sha256 [2]) (sha256 [3]) (sha256 [9]) [(1, 0)]) = Inr s"
    "rp_input_graph_sha256 s = sha256 [2]" "rp_output_graph_sha256 s = sha256 [3]" "rp_compiler s = ''8.3''"
    "rp_npu s = ''3720''" "length (rp_targets s) = 1"
    by (rule parse_sample_payload [of "sha256 [2]" "sha256 [3]" "sha256 [9]" "[(1, 0)]"]) simp_all
  show ?thesis
    using r s unfolding validate_program_iff
    by (auto simp: sample_contract_def same_boundary_def fits_contract_def less_Suc_eq intro!: exI [of _ "[r, s]"])
qed

end
