(* ===== verification/External.thy ===== *)
theory External
  imports Contracts
begin

text \<open>
  \<open>external.py\<close>: a reviewed patch binding, the document that fixes which caller-produced IR may be
  patched, at which targets and with which boundary. \<open>from_bytes\<close> reads it from JSON; the theorem says
  what an accepted document guarantees and that the text of a binding is read back as the binding.
\<close>

record reviewed_patch_binding =
  rb_xml_sha256 :: string
  rb_weights_sha256 :: string
  rb_build_flags :: string
  rb_native_graph_sha256 :: string
  rb_provenance :: npu_provenance
  rb_targets :: "patch_target_v2 list"
  rb_inputs :: "boundary list"
  rb_outputs :: "boundary list"
  rb_metadata :: "(string \<times> pyval) list"

text \<open>\<open>_digest\<close> is \<open>_sha256\<close> of \<open>contracts.py\<close> under another name.\<close>

definition digest :: "string \<Rightarrow> pyval \<Rightarrow> string res" where
  "digest label v = sha256_check label v"

text \<open>The value of a JSON array that must not be empty.\<close>

definition nonempty_list :: "string \<Rightarrow> pyval \<Rightarrow> pyval list res" where
  "nonempty_list message v =
     (case v of
        PList vs \<Rightarrow> if vs = [] then Inl (ValueError message) else Inr vs
      | _ \<Rightarrow> Inl (ValueError message))"

definition add_tensor_contract :: "string \<Rightarrow> pyval \<Rightarrow> boundary list \<Rightarrow> boundary list res" where
  "add_tensor_contract label item result =
     (case item of
        PDict d \<Rightarrow>
          if \<not> has_keys d [''name'', ''shape'', ''dtype'']
          then Inl (ValueError (label @ '' contains an invalid tensor contract''))
          else (case dget d ''name'' of
              PStr name \<Rightarrow>
                if name = [] \<or> name \<in> fst ` set result
                then Inl (ValueError (label @ '' tensor names must be non-empty and unique''))
                else bind_res (TensorSpec (dget d ''shape'') (dget d ''dtype'')) (\<lambda>spec.
                  Inr (result @ [(name, ts_shape spec, ts_dtype spec)]))
            | _ \<Rightarrow> Inl (ValueError (label @ '' tensor names must be non-empty and unique'')))
      | _ \<Rightarrow> Inl (ValueError (label @ '' contains an invalid tensor contract'')))"

definition tensor_contracts :: "string \<Rightarrow> pyval \<Rightarrow> boundary list res" where
  "tensor_contracts label v =
     bind_res (nonempty_list ''reviewed binding must be a non-empty list'' v) (\<lambda>items.
     fold_res (add_tensor_contract label) items [])"

definition tensor_fields :: "string list" where
  "tensor_fields = [''role'', ''index'', ''dtype'', ''element_count'', ''span_bytes'', ''observed_flags'']"

definition binding_tensor :: "pyval \<Rightarrow> patch_tensor_contract res" where
  "binding_tensor v =
     (case v of
        PDict d \<Rightarrow>
          if \<not> has_keys d tensor_fields then Inl (ValueError ''reviewed binding tensor fields are invalid'')
          else PatchTensorContract (dget d ''role'') (dget d ''index'') (dget d ''dtype'') (dget d ''element_count'')
            (dget d ''span_bytes'') (dget d ''observed_flags'')
      | _ \<Rightarrow> Inl (ValueError ''reviewed binding tensor fields are invalid''))"

definition binding_target :: "pyval \<Rightarrow> patch_target_v2 res" where
  "binding_target v =
     (case v of
        PDict d \<Rightarrow>
          if \<not> has_keys d [''invocation_index'', ''range_index'', ''target_flags'', ''tensors''] \<and>
             \<not> has_keys d [''invocation_index'', ''range_index'', ''tensors'']
          then Inl (ValueError ''reviewed binding target fields are invalid'')
          else
            bind_res (nonempty_list ''reviewed binding target tensors must be a non-empty list'' (dget d ''tensors'')) (\<lambda>vs.
            bind_res (map_res binding_tensor vs) (\<lambda>tensors.
            PatchTargetV2 (dget d ''invocation_index'') (dget d ''range_index'') (map Some tensors)
              (case map_of d ''target_flags'' of Some flags \<Rightarrow> flags | None \<Rightarrow> PInt 0)))
      | _ \<Rightarrow> Inl (ValueError ''reviewed binding target fields are invalid''))"

definition selector :: "patch_target_v2 \<Rightarrow> int \<times> int" where
  "selector t = (p2_invocation_index t, p2_range_index t)"

definition binding_targets :: "pyval \<Rightarrow> patch_target_v2 list res" where
  "binding_targets v =
     bind_res (nonempty_list ''reviewed binding targets must be a non-empty list'' v) (\<lambda>items.
     bind_res (map_res binding_target items) (\<lambda>result.
     if \<not> distinct (map selector result)
     then Inl (ValueError ''reviewed binding contains duplicate invocation/range selectors'')
     else Inr result))"

definition binding_fields :: "string list" where
  "binding_fields = [''schema'', ''metadata'', ''serialized_ir'', ''build_flags'', ''native_graph_sha256'', ''provenance'',
     ''inputs'', ''outputs'', ''targets'']"

text \<open>The checks on \<open>serialized_ir\<close>, \<open>metadata\<close> and \<open>build_flags\<close> in their order.\<close>

definition binding_parts :: "(string \<times> pyval) list \<Rightarrow> ((string \<times> pyval) list \<times> (string \<times> pyval) list \<times> string) res" where
  "binding_parts d =
     (case dget d ''serialized_ir'' of
        PDict serialized \<Rightarrow>
          if \<not> has_keys serialized [''xml_sha256'', ''weights_sha256'']
          then Inl (ValueError ''reviewed binding serialized_ir identity is invalid'')
          else (case dget d ''metadata'' of
              PDict metadata \<Rightarrow>
                (case dget d ''build_flags'' of
                   PStr build_flags \<Rightarrow>
                     if CHR 0x00 \<in> set build_flags
                     then Inl (ValueError ''reviewed binding build_flags must be a NUL-free string'')
                     else Inr (serialized, metadata, build_flags)
                 | _ \<Rightarrow> Inl (ValueError ''reviewed binding build_flags must be a NUL-free string''))
            | _ \<Rightarrow> Inl (ValueError ''reviewed binding metadata must be an object''))
      | _ \<Rightarrow> Inl (ValueError ''reviewed binding serialized_ir identity is invalid''))"

definition binding_of_value :: "pyval \<Rightarrow> reviewed_patch_binding res" where
  "binding_of_value v =
     (case v of
        PDict d \<Rightarrow>
          if dget d ''schema'' \<noteq> PStr ''npunlock.reviewed-patch-binding.v1''
          then Inl (ValueError ''reviewed patch binding schema is unsupported'')
          else if \<not> has_keys d binding_fields then Inl (ValueError ''reviewed patch binding fields are invalid'')
          else
            bind_res (binding_parts d) (\<lambda>(serialized, metadata, build_flags).
            bind_res (digest ''IR XML sha256'' (dget serialized ''xml_sha256'')) (\<lambda>xml_hash.
            bind_res (digest ''IR weights sha256'' (dget serialized ''weights_sha256'')) (\<lambda>weights_hash.
            bind_res (digest ''native graph sha256'' (dget d ''native_graph_sha256'')) (\<lambda>graph_hash.
            bind_res (provenance_from_json (dget d ''provenance'')) (\<lambda>provenance.
            bind_res (binding_targets (dget d ''targets'')) (\<lambda>targets.
            bind_res (tensor_contracts ''reviewed binding inputs'' (dget d ''inputs'')) (\<lambda>inputs.
            bind_res (tensor_contracts ''reviewed binding outputs'' (dget d ''outputs'')) (\<lambda>outputs.
            Inr \<lparr>rb_xml_sha256 = xml_hash, rb_weights_sha256 = weights_hash, rb_build_flags = build_flags,
              rb_native_graph_sha256 = graph_hash, rb_provenance = provenance, rb_targets = targets,
              rb_inputs = inputs, rb_outputs = outputs, rb_metadata = metadata\<rparr>))))))))
      | _ \<Rightarrow> Inl (ValueError ''reviewed patch binding schema is unsupported''))"

definition binding_from_bytes :: "bytes \<Rightarrow> reviewed_patch_binding res" where
  "binding_from_bytes payload =
     (case json_load_bytes payload of
        None \<Rightarrow> Inl (ValueError ''reviewed binding is not valid UTF-8 JSON'')
      | Some v \<Rightarrow> binding_of_value v)"

definition validate_ir :: "reviewed_patch_binding \<Rightarrow> bytes \<Rightarrow> bytes \<Rightarrow> unit res" where
  "validate_ir b xml weights =
     (if sha256 xml \<noteq> rb_xml_sha256 b
      then Inl (ValueError ''serialized IR XML does not match the reviewed binding'')
      else if sha256 weights \<noteq> rb_weights_sha256 b
      then Inl (ValueError ''serialized IR weights do not match the reviewed binding'')
      else Inr ())"

section \<open>What an accepted binding guarantees\<close>

definition wf_boundary :: "boundary list \<Rightarrow> bool" where
  "wf_boundary bs \<longleftrightarrow> distinct (map fst bs) \<and>
     list_all (\<lambda>(n, s, d). n \<noteq> [] \<and> wf_spec \<lparr>ts_shape = s, ts_dtype = d\<rparr>) bs"

definition wf_binding :: "reviewed_patch_binding \<Rightarrow> bool" where
  "wf_binding b \<longleftrightarrow>
     is_digest (rb_xml_sha256 b) \<and> is_digest (rb_weights_sha256 b) \<and> is_digest (rb_native_graph_sha256 b) \<and>
     CHR 0x00 \<notin> set (rb_build_flags b) \<and> wf_provenance (rb_provenance b) \<and>
     rb_targets b \<noteq> [] \<and> list_all wf_patch_target_v2 (rb_targets b) \<and> distinct (map selector (rb_targets b)) \<and>
     rb_inputs b \<noteq> [] \<and> wf_boundary (rb_inputs b) \<and> rb_outputs b \<noteq> [] \<and> wf_boundary (rb_outputs b)"

lemma nonempty_list_Inr [res_simps]: "nonempty_list m v = Inr vs \<longleftrightarrow> v = PList vs \<and> vs \<noteq> []"
  by (cases v) (auto simp: nonempty_list_def)

lemma add_tensor_contract_wf:
  assumes "add_tensor_contract label item bs = Inr bs'" and "wf_boundary bs"
  shows "wf_boundary bs' \<and> bs' \<noteq> []"
  using assms
  by (auto simp: add_tensor_contract_def res_simps wf_boundary_def wf_spec_def dest!: TensorSpec_wf)

lemma tensor_contracts_wf:
  assumes "tensor_contracts label v = Inr bs"
  shows "wf_boundary bs \<and> bs \<noteq> []"
proof -
  from assms obtain item items where f: "fold_res (add_tensor_contract label) (item # items) [] = Inr bs"
    by (auto simp: tensor_contracts_def res_simps neq_Nil_conv)
  then obtain bs' where 1: "add_tensor_contract label item [] = Inr bs'"
    and 2: "fold_res (add_tensor_contract label) items bs' = Inr bs" by (auto simp: res_simps)
  from 1 have "wf_boundary bs' \<and> bs' \<noteq> []" by (rule add_tensor_contract_wf) (simp add: wf_boundary_def)
  with fold_res_invariant [OF 2, of "\<lambda>bs. wf_boundary bs \<and> bs \<noteq> []"] add_tensor_contract_wf show ?thesis by blast
qed

lemma binding_targets_wf:
  assumes "binding_targets v = Inr ts"
  shows "ts \<noteq> [] \<and> list_all wf_patch_target_v2 ts \<and> distinct (map selector ts)"
proof -
  have tensor: "binding_tensor x = Inr t \<Longrightarrow> wf_contract t" for x t
    by (auto simp: binding_tensor_def res_simps dest: PatchTensorContract_wf)
  have target: "wf_patch_target_v2 t" if target: "binding_target x = Inr t" for x t
  proof -
    from target obtain a b vs tensors f where "map_res binding_tensor vs = Inr tensors"
      and t: "PatchTargetV2 a b (map Some tensors) f = Inr t"
      by (cases x) (auto simp: binding_target_def bind_res_eq_Inr if_Inl_Inr)
    then have "list_all wf_contract tensors" by (blast intro: map_res_list_all tensor)
    with t show ?thesis by (auto simp: list_all_iff intro!: PatchTargetV2_wf)
  qed
  from assms obtain items where "items \<noteq> []" and ts: "map_res binding_target items = Inr ts" "distinct (map selector ts)"
    by (auto simp: binding_targets_def bind_res_eq_Inr nonempty_list_Inr if_Inl_Inr)
  with target show ?thesis using map_res_length [OF ts(1)] by (auto intro: map_res_list_all)
qed

lemma binding_of_value_wf: "binding_of_value v = Inr b \<Longrightarrow> wf_binding b"
  using binding_targets_wf tensor_contracts_wf provenance_from_json_wf
  by (auto simp: binding_of_value_def binding_parts_def digest_def wf_binding_def res_simps)

subsection \<open>The document of a binding\<close>

definition tensor_value :: "patch_tensor_contract \<Rightarrow> pyval" where
  "tensor_value c = PDict
     [(''role'', PStr (tc_role c)), (''index'', PInt (tc_index c)), (''dtype'', PStr (tc_dtype c)),
      (''element_count'', PInt (tc_element_count c)), (''span_bytes'', PInt (tc_span_bytes c)),
      (''observed_flags'', PInt (tc_observed_flags c))]"

definition target_value :: "patch_target_v2 \<Rightarrow> pyval" where
  "target_value t = PDict
     [(''invocation_index'', PInt (p2_invocation_index t)), (''range_index'', PInt (p2_range_index t)),
      (''target_flags'', PInt (p2_target_flags t)), (''tensors'', PList (map tensor_value (p2_tensors t)))]"

definition boundary_value :: "boundary \<Rightarrow> pyval" where
  "boundary_value = (\<lambda>(name, shape, dtype).
     PDict [(''name'', PStr name), (''shape'', PList (map PInt shape)), (''dtype'', PStr dtype)])"

definition binding_value :: "reviewed_patch_binding \<Rightarrow> pyval" where
  "binding_value b = PDict
     [(''schema'', PStr ''npunlock.reviewed-patch-binding.v1''), (''metadata'', PDict (rb_metadata b)),
      (''serialized_ir'', PDict [(''xml_sha256'', PStr (rb_xml_sha256 b)), (''weights_sha256'', PStr (rb_weights_sha256 b))]),
      (''build_flags'', PStr (rb_build_flags b)), (''native_graph_sha256'', PStr (rb_native_graph_sha256 b)),
      (''provenance'', provenance_to_json (rb_provenance b)), (''inputs'', PList (map boundary_value (rb_inputs b))),
      (''outputs'', PList (map boundary_value (rb_outputs b))), (''targets'', PList (map target_value (rb_targets b)))]"

lemma jsonable_binding_value: "jsonable (PDict (rb_metadata b)) \<Longrightarrow> jsonable (binding_value b)"
  by (auto simp: binding_value_def jsonable_provenance boundary_value_def target_value_def tensor_value_def list_all_iff)

lemma binding_tensor_value: "wf_contract c \<Longrightarrow> binding_tensor (canon (tensor_value c)) = Inr c"
  by (simp add: binding_tensor_def tensor_value_def has_keys_def tensor_fields_def insert_commute dget_def
      PatchTensorContract_of_fields)

lemma binding_target_value: "wf_patch_target_v2 t \<Longrightarrow> binding_target (canon (target_value t)) = Inr t"
proof -
  assume t: "wf_patch_target_v2 t"
  then have "map_res binding_tensor (map (canon \<circ> tensor_value) (p2_tensors t)) = Inr (p2_tensors t)"
    using binding_tensor_value by (intro map_res_inverse) (auto simp: wf_patch_target_v2_def list_all_iff)
  moreover have "p2_tensors t \<noteq> []" using t by (auto simp: wf_patch_target_v2_def)
  ultimately show ?thesis
    using t by (simp add: binding_target_def target_value_def has_keys_def insert_commute dget_def nonempty_list_def
        PatchTargetV2_of_fields comp_def)
qed

lemma binding_targets_value:
  assumes "ts \<noteq> []" "list_all wf_patch_target_v2 ts" "distinct (map selector ts)"
  shows "binding_targets (PList (map (canon \<circ> target_value) ts)) = Inr ts"
proof -
  have "map_res binding_target (map (canon \<circ> target_value) ts) = Inr ts"
    using assms binding_target_value by (intro map_res_inverse) (auto simp: list_all_iff)
  then show ?thesis using assms by (simp add: binding_targets_def nonempty_list_def)
qed

lemma TensorSpec_list_val:
  "wf_spec \<lparr>ts_shape = s, ts_dtype = d\<rparr> \<Longrightarrow> TensorSpec (PList (map PInt s)) (PStr d) = Inr \<lparr>ts_shape = s, ts_dtype = d\<rparr>"
proof -
  assume wf: "wf_spec \<lparr>ts_shape = s, ts_dtype = d\<rparr>"
  have "normalize_shape (PList (map PInt s)) = normalize_shape (shape_val s)" by (simp add: normalize_shape_def)
  with wf show ?thesis using TensorSpec_val [of s d] by (simp add: TensorSpec_def wf_spec_def)
qed

lemma add_boundary_value:
  assumes "wf_boundary (bs @ [x])"
  shows "add_tensor_contract label (canon (boundary_value x)) bs = Inr (bs @ [x])"
proof -
  obtain n s d where x: "x = (n, s, d)" by (cases x)
  have "wf_spec \<lparr>ts_shape = s, ts_dtype = d\<rparr>" "n \<noteq> []" "n \<notin> fst ` set bs"
    using assms by (auto simp: x wf_boundary_def)
  then show ?thesis
    by (simp add: x add_tensor_contract_def boundary_value_def has_keys_def insert_commute dget_def TensorSpec_list_val comp_def)
qed

lemma tensor_contracts_value:
  assumes "wf_boundary bs" "bs \<noteq> []"
  shows "tensor_contracts label (PList (map (canon \<circ> boundary_value) bs)) = Inr bs"
proof -
  have "wf_boundary (xs @ ys) \<Longrightarrow> fold_res (add_tensor_contract label) (map (canon \<circ> boundary_value) ys) xs = Inr (xs @ ys)" for xs ys
  proof (induction ys arbitrary: xs)
    case (Cons y ys)
    then have "wf_boundary (xs @ [y])" by (auto simp: wf_boundary_def)
    with Cons show ?case by (simp add: add_boundary_value)
  qed simp
  from this [of "[]" bs] assms show ?thesis by (simp add: tensor_contracts_def nonempty_list_def)
qed

lemma binding_of_document:
  assumes "wf_binding b" and "jsonable (PDict (rb_metadata b))"
  shows "binding_of_value (canon (binding_value b)) = Inr (b\<lparr>rb_metadata := canon_dict (rb_metadata b)\<rparr>)"
proof -
  define d where "d = the_dict (binding_value b)"
  have v: "binding_value b = PDict d" and d: "distinct (map fst d)" and k: "set (keys d) = set binding_fields"
    by (simp_all add: d_def binding_value_def binding_fields_def insert_commute)
  have items: "dget d ''schema'' = PStr ''npunlock.reviewed-patch-binding.v1''" "dget d ''metadata'' = PDict (rb_metadata b)"
      "dget d ''serialized_ir'' = PDict [(''xml_sha256'', PStr (rb_xml_sha256 b)), (''weights_sha256'', PStr (rb_weights_sha256 b))]"
      "dget d ''build_flags'' = PStr (rb_build_flags b)" "dget d ''native_graph_sha256'' = PStr (rb_native_graph_sha256 b)"
      "dget d ''provenance'' = provenance_to_json (rb_provenance b)"
      "dget d ''inputs'' = PList (map boundary_value (rb_inputs b))" "dget d ''outputs'' = PList (map boundary_value (rb_outputs b))"
      "dget d ''targets'' = PList (map target_value (rb_targets b))"
    by (simp_all add: d_def binding_value_def dget_def)
  have "binding_parts (canon_dict d) =
    Inr ([(''weights_sha256'', PStr (rb_weights_sha256 b)), (''xml_sha256'', PStr (rb_xml_sha256 b))],
      canon_dict (rb_metadata b), rb_build_flags b)"
    using assms(1) by (auto simp: binding_parts_def dget_canon [OF d] items has_keys_def wf_binding_def)
  then show ?thesis
    using assms(1) provenance_from_canon binding_targets_value tensor_contracts_value
    unfolding v canon.simps binding_of_value_def pyval.case
    by (simp add: dget_canon [OF d] items has_keys_def keys_canon k wf_binding_def digest_def sha256_check_def dget_def [of "[_, _]"])
qed

definition binding_payload :: "reviewed_patch_binding \<Rightarrow> bytes" where
  "binding_payload b = (case json_indented (binding_value b) of Inr t \<Rightarrow> utf8 (t @ [CHR 0x0A]) | Inl _ \<Rightarrow> [])"

text \<open>C17 \<open>ReviewedPatchBinding.from_bytes\<close> yields exactly the well-formed bindings: an accepted document
  has lowercase digests, NUL-free build flags, a valid provenance, a non-empty list of valid targets
  with different selectors and non-empty input and output lists with different names and valid specs;
  and the document of every such binding is accepted and read as that binding.\<close>

theorem binding_from_bytes_exact:
  "(\<forall>payload b. binding_from_bytes payload = Inr b \<longrightarrow> wf_binding b) \<and>
   (\<forall>b. wf_binding b \<and> jsonable (PDict (rb_metadata b)) \<longrightarrow>
      binding_from_bytes (binding_payload b) = Inr (b\<lparr>rb_metadata := canon_dict (rb_metadata b)\<rparr>))"
proof (intro conjI allI impI)
  show "wf_binding b" if "binding_from_bytes payload = Inr b" for payload b
    using that by (auto simp: binding_from_bytes_def split: option.splits intro: binding_of_value_wf)
  fix b assume b: "wf_binding b \<and> jsonable (PDict (rb_metadata b))"
  from json_bytes_roundtrip [OF jsonable_binding_value [OF b [THEN conjunct2]], of "[CHR 0x0A]" "Some 2" 0]
  have "json_load_bytes (binding_payload b) = Some (canon (binding_value b))"
    by (auto simp: binding_payload_def json_indented_def json_space_def)
  moreover have "binding_of_value (canon (binding_value b)) = Inr (b\<lparr>rb_metadata := canon_dict (rb_metadata b)\<rparr>)"
    by (rule binding_of_document) (use b in auto)
  ultimately show "binding_from_bytes (binding_payload b) = Inr (b\<lparr>rb_metadata := canon_dict (rb_metadata b)\<rparr>)"
    by (simp add: binding_from_bytes_def)
qed

definition sample_binding :: reviewed_patch_binding where
  "sample_binding = \<lparr>rb_xml_sha256 = sha256 [1], rb_weights_sha256 = sha256 [], rb_build_flags = '''',
     rb_native_graph_sha256 = sha256 [2],
     rb_provenance = \<lparr>np_driver_index = 0, np_device_index = 0, np_driver_version = 7, np_vendor_id = 0x8086,
       np_device_id = 0xAD1D, np_graph_extension_version = 5, np_compiler_version = (8, 3)\<rparr>,
     rb_targets = [unary_target 0], rb_inputs = [(''x'', [2, 3], ''f16'')], rb_outputs = [(''y'', [2, 3], ''f16'')],
     rb_metadata = [(''author'', PStr ''x'')]\<rparr>"

lemma sample_binding_wf: "wf_binding sample_binding"
  unfolding wf_binding_def sample_binding_def reviewed_patch_binding.select_convs
  by (intro conjI is_digest_sha256) (simp, code_simp+)

theorem binding_from_bytes_exact_witness:
  "binding_from_bytes (binding_payload sample_binding) = Inr sample_binding \<and> wf_binding sample_binding"
proof -
  have "jsonable (PDict (rb_metadata sample_binding))" and
    "sample_binding\<lparr>rb_metadata := canon_dict (rb_metadata sample_binding)\<rparr> = sample_binding"
    by (simp_all add: sample_binding_def)
  with binding_from_bytes_exact sample_binding_wf show ?thesis by metis
qed

end
