(* ===== verification/Native_Library.thy ===== *)
theory Native_Library
  imports Native
begin

text \<open>
  \<open>NativeLibraries\<close> of \<open>_native.py\<close>: the marshalling between the package and the C library. The C
  functions are not part of the Python sources; they are the fields of the record \<open>native_lib\<close>, each
  giving the status and the result structure for its arguments. Structures are records of machine
  words with the members of the \<open>ctypes\<close> declarations; a buffer is \<open>None\<close> for a null pointer; an array
  with its count is \<open>raw_array\<close>. Releasing results frees memory only and is not modelled.
\<close>

type_synonym c_uint32 = "32 word"
type_synonym c_uint64 = "64 word"
type_synonym raw_buffer = "bytes option"

section \<open>C structures\<close>

record 'a raw_array =
  ra_count :: nat
  ra_items :: "'a list option"

record raw_ir_options =
  xo_driver_index :: c_uint32
  xo_device_index :: c_uint32
  xo_timeout_ms :: c_uint32
  xo_worker :: bytes
  xo_build_flags :: bytes

record raw_ir_result =
  xr_selected_driver_index :: c_uint32
  xr_selected_device_index :: c_uint32
  xr_graph_extension_version :: c_uint32
  xr_compiler_version_major :: "16 word"
  xr_compiler_version_minor :: "16 word"
  xr_driver_version :: c_uint32
  xr_device_vendor_id :: c_uint32
  xr_device_id :: c_uint32
  xr_graph_blob :: raw_buffer
  xr_stdout_log :: raw_buffer
  xr_stderr_log :: raw_buffer
  xr_diagnostic :: raw_buffer

record raw_shave_options =
  so_movi_dll_directory :: bytes
  so_worker :: bytes
  so_target_cpu :: bytes
  so_entry_symbol :: bytes
  so_definitions :: "bytes list"
  so_linker_script :: bytes
  so_timeout_ms :: c_uint32

record raw_shave_result =
  sr_elf :: raw_buffer
  sr_stdout_log :: raw_buffer
  sr_stderr_log :: raw_buffer
  sr_diagnostic :: raw_buffer

record raw_patch_options =
  po_image_alignment :: c_uint32
  po_tail_padding :: c_uint32

record raw_patch_target =
  rt_invocation_index :: c_uint32
  rt_range_index :: c_uint32
  rt_expected_input_count :: c_uint32
  rt_expected_element_count :: c_uint64
  rt_expected_span_bytes :: c_uint64
  rt_required_contract_flags :: c_uint32

record raw_tensor_contract =
  rw_role :: c_uint32
  rw_tensor_index :: c_uint32
  rw_precision :: c_uint32
  rw_element_count :: c_uint64
  rw_span_bytes :: c_uint64
  rw_observed_flags :: c_uint32

record raw_patch_target_v2 =
  r2_invocation_index :: c_uint32
  r2_range_index :: c_uint32
  r2_tensor_count :: c_uint32
  r2_target_flags :: c_uint32
  r2_tensors :: "raw_tensor_contract list"

record 'a raw_discovery =
  rd_targets :: "(c_uint32 \<times> 'a) list"
  rd_group_count :: nat
  rd_diagnostic :: raw_buffer

record raw_patch_result =
  rp_graph_blob :: raw_buffer
  rp_report_json :: raw_buffer
  rp_diagnostic :: raw_buffer

record raw_comparison =
  rc_mismatch_flags :: c_uint32
  rc_contract_stable :: c_uint32
  rc_unique_changed_group :: c_uint32
  rc_changed_group_indices :: "c_uint32 list"
  rc_diagnostic :: raw_buffer

record raw_completeness =
  gm_struct_size :: c_uint32
  gm_group_index :: c_uint32
  gm_state :: c_uint32
  gm_output_symbol_raw :: c_uint32
  gm_invocation_count :: c_uint32
  gm_routed_invocation_count :: c_uint32
  gm_replica_invocation_count :: c_uint32
  gm_unresolved_invocation_count :: c_uint32
  gm_unresolved_flags :: c_uint32

record raw_coverage =
  gv_struct_size :: c_uint32
  gv_group_index :: c_uint32
  gv_invocation_count :: c_uint32
  gv_direct_output_state :: c_uint32
  gv_act_consumer_state :: c_uint32
  gv_dpu_consumer_state :: c_uint32
  gv_direct_output_unresolved_flags :: c_uint32
  gv_act_consumer_unresolved_flags :: c_uint32
  gv_dpu_consumer_unresolved_flags :: c_uint32
  gv_direct_routed_invocation_count :: c_uint32
  gv_direct_replica_invocation_count :: c_uint32
  gv_act_matched_invocation_count :: c_uint32
  gv_act_consumer_group_count :: c_uint32
  gv_act_consumer_input_count :: c_uint32
  gv_dpu_matched_invocation_count :: c_uint32
  gv_dpu_input_count :: c_uint32

record raw_dma_dpu_coverage =
  gd_struct_size :: c_uint32
  gd_group_index :: c_uint32
  gd_invocation_count :: c_uint32
  gd_state :: c_uint32
  gd_unresolved_flags :: c_uint32
  gd_tile_count_expected :: c_uint32
  gd_translated_tile_count :: c_uint32
  gd_matched_dpu_input_count :: c_uint32

record raw_dma_act_coverage =
  ga_struct_size :: c_uint32
  ga_group_index :: c_uint32
  ga_invocation_count :: c_uint32
  ga_state :: c_uint32
  ga_unresolved_flags :: c_uint32
  ga_routed_producer_invocation_count :: c_uint32
  ga_replica_producer_invocation_count :: c_uint32
  ga_consumer_group_count :: c_uint32
  ga_consumer_input_count :: c_uint32
  ga_ddr_span_bytes :: c_uint64

record raw_endpoint =
  re_struct_size :: c_uint32
  re_kind :: c_uint32
  re_primary_index :: c_uint32
  re_secondary_index :: c_uint32

record raw_relation =
  rr_struct_size :: c_uint32
  rr_kind :: c_uint32
  rr_source :: raw_endpoint
  rr_destination :: raw_endpoint
  rr_evidence_count :: c_uint32

record raw_io_symbol =
  rs_struct_size :: c_uint32
  rs_kind :: c_uint32
  rs_symbol_table_index :: c_uint32
  rs_symbol_index :: c_uint32
  rs_size_bytes :: c_uint64
  rs_name :: raw_buffer

record raw_infer_input =
  fi_argument_index :: c_uint32
  fi_name :: bytes
  fi_data :: bytes

record raw_infer_output =
  fo_argument_index :: c_uint32
  fo_precision :: c_uint32
  fo_dims_count :: c_uint32
  fo_dims :: "c_uint32 list"
  fo_name :: raw_buffer
  fo_data :: raw_buffer

record raw_infer_result =
  fr_selected_driver_index :: c_uint32
  fr_selected_device_index :: c_uint32
  fr_driver_version :: c_uint32
  fr_device_vendor_id :: c_uint32
  fr_device_id :: c_uint32
  fr_outputs :: "raw_infer_output list"
  fr_diagnostic :: raw_buffer

section \<open>The C library\<close>

record native_lib =
  nl_status_name :: "int \<Rightarrow> bytes option"
  nl_ir2blob_compile :: "raw_ir_options \<Rightarrow> bytes \<Rightarrow> bytes \<Rightarrow> int \<times> raw_ir_result"
  nl_ir2blob_query :: "raw_ir_options \<Rightarrow> int \<times> raw_ir_result"
  nl_shavecc_compile :: "raw_shave_options \<Rightarrow> bytes \<Rightarrow> int \<times> raw_shave_result"
  nl_patch :: "raw_patch_options \<Rightarrow> bytes \<Rightarrow> bytes \<Rightarrow> raw_patch_target list \<Rightarrow> int \<times> raw_patch_result"
  nl_patch_v2 :: "raw_patch_options \<Rightarrow> bytes \<Rightarrow> bytes \<Rightarrow> raw_patch_target_v2 list \<Rightarrow> int \<times> raw_patch_result"
  nl_discover :: "bytes \<Rightarrow> int \<times> raw_patch_target raw_discovery"
  nl_discover_v2 :: "bytes \<Rightarrow> int \<times> raw_patch_target_v2 raw_discovery"
  nl_compare :: "bytes \<Rightarrow> bytes \<Rightarrow> int \<times> raw_comparison"
  nl_completeness :: "bytes \<Rightarrow> int \<times> raw_completeness raw_array \<times> raw_buffer"
  nl_coverage :: "bytes \<Rightarrow> int \<times> raw_coverage raw_array \<times> raw_buffer"
  nl_dma_dpu_coverage :: "bytes \<Rightarrow> int \<times> raw_dma_dpu_coverage raw_array \<times> raw_buffer"
  nl_dma_act_coverage :: "bytes \<Rightarrow> int \<times> raw_dma_act_coverage raw_array \<times> raw_buffer"
  nl_relations :: "bytes \<Rightarrow> int \<times> raw_relation raw_array \<times> raw_buffer"
  nl_io_symbols :: "bytes \<Rightarrow> int \<times> raw_io_symbol raw_array \<times> raw_buffer"
  nl_infer :: "c_uint32 \<Rightarrow> bytes \<Rightarrow> raw_infer_input list \<Rightarrow> int \<times> raw_infer_result"

definition buffer_bytes :: "raw_buffer \<Rightarrow> bytes" where
  "buffer_bytes b = (case b of Some data \<Rightarrow> data | None \<Rightarrow> [])"

text \<open>\<open>bytes.decode("ascii", errors="replace")\<close>, with a question mark for the replacement character.\<close>

definition ascii_replace :: "bytes \<Rightarrow> string" where
  "ascii_replace b = map (\<lambda>w. if unat w < 128 then char_of (unat w) else CHR ''?'') b"

definition native_raise ::
  "native_lib \<Rightarrow> string \<Rightarrow> int \<Rightarrow> raw_buffer \<Rightarrow> raw_buffer option \<Rightarrow> raw_buffer option \<Rightarrow> pyexn" where
  "native_raise lib stage status diagnostic stdout_log stderr_log =
     NativeError \<lparr>ne_stage = stage, ne_status = status,
       ne_status_name = (case nl_status_name lib status of
           Some raw \<Rightarrow> if raw = [] then ''unknown'' else ascii_replace raw | None \<Rightarrow> ''unknown''),
       ne_diagnostic = buffer_bytes diagnostic,
       ne_stdout = (case stdout_log of Some b \<Rightarrow> buffer_bytes b | None \<Rightarrow> []),
       ne_stderr = (case stderr_log of Some b \<Rightarrow> buffer_bytes b | None \<Rightarrow> [])\<rparr>"

definition worker_bytes :: "string option \<Rightarrow> bytes" where
  "worker_bytes worker = (case worker of Some w \<Rightarrow> utf8 w | None \<Rightarrow> [])"

section \<open>Compilers\<close>

definition ir_options :: "int \<Rightarrow> string option \<Rightarrow> bytes \<Rightarrow> raw_ir_options" where
  "ir_options timeout_ms worker flags =
     \<lparr>xo_driver_index = 0xFFFFFFFF, xo_device_index = 0xFFFFFFFF, xo_timeout_ms = word_of_int timeout_ms,
      xo_worker = worker_bytes worker, xo_build_flags = flags\<rparr>"

definition ir_result :: "raw_ir_result \<Rightarrow> bytes \<Rightarrow> ir_compile_result" where
  "ir_result r blob =
     \<lparr>ic_graph_blob = blob, ic_driver_index = uint (xr_selected_driver_index r),
      ic_device_index = uint (xr_selected_device_index r), ic_driver_version = uint (xr_driver_version r),
      ic_vendor_id = uint (xr_device_vendor_id r), ic_device_id = uint (xr_device_id r),
      ic_graph_extension_version = uint (xr_graph_extension_version r),
      ic_compiler_version = (uint (xr_compiler_version_major r), uint (xr_compiler_version_minor r))\<rparr>"

definition compile_ir ::
  "native_lib \<Rightarrow> bytes \<Rightarrow> bytes \<Rightarrow> string \<Rightarrow> int \<Rightarrow> string option \<Rightarrow> ir_compile_result res" where
  "compile_ir lib xml weights build_flags timeout_ms worker =
     (case nl_ir2blob_compile lib (ir_options timeout_ms worker (utf8 build_flags)) xml weights of
        (status, r) \<Rightarrow>
          if status \<noteq> 0
          then Inl (native_raise lib ''ir2blob'' status (xr_diagnostic r) (Some (xr_stdout_log r)) (Some (xr_stderr_log r)))
          else Inr (ir_result r (buffer_bytes (xr_graph_blob r))))"

definition query_ir_provenance :: "native_lib \<Rightarrow> int \<Rightarrow> string option \<Rightarrow> ir_compile_result res" where
  "query_ir_provenance lib timeout_ms worker =
     (case nl_ir2blob_query lib (ir_options timeout_ms worker []) of
        (status, r) \<Rightarrow>
          if status \<noteq> 0
          then Inl (native_raise lib ''ir2blob query'' status (xr_diagnostic r) (Some (xr_stdout_log r)) (Some (xr_stderr_log r)))
          else Inr (ir_result r []))"

definition compile_shave ::
  "native_lib \<Rightarrow> bytes \<Rightarrow> string \<Rightarrow> bytes option \<Rightarrow> string list \<Rightarrow> int \<Rightarrow> string option \<Rightarrow> bytes res" where
  "compile_shave lib source movi_dll_dir script definitions timeout_ms worker =
     (case nl_shavecc_compile lib
        \<lparr>so_movi_dll_directory = utf8 movi_dll_dir, so_worker = worker_bytes worker, so_target_cpu = utf8 ''3720xx'',
         so_entry_symbol = utf8 ''controlled_act'', so_definitions = map utf8 definitions,
         so_linker_script = (case script of Some b \<Rightarrow> b | None \<Rightarrow> []), so_timeout_ms = word_of_int timeout_ms\<rparr> source of
        (status, r) \<Rightarrow>
          if status \<noteq> 0
          then Inl (native_raise lib ''shavecc'' status (sr_diagnostic r) (Some (sr_stdout_log r)) (Some (sr_stderr_log r)))
          else Inr (buffer_bytes (sr_elf r)))"

section \<open>Patching\<close>

definition raw_roles :: "(c_uint32 \<times> string) list" where
  "raw_roles = [(1, ''input''), (2, ''output'')]"

definition raw_precisions :: "(c_uint32 \<times> string) list" where
  "raw_precisions =
    [(1, ''f16''), (2, ''f32''), (3, ''i32''), (4, ''i8''), (5, ''i16''), (6, ''u8''), (7, ''u16''), (8, ''u32'')]"

text \<open>The dictionaries of \<open>patch_graph\<close> list the same pairs the other way round.\<close>

definition code_of :: "(c_uint32 \<times> string) list \<Rightarrow> string \<Rightarrow> c_uint32 res" where
  "code_of table name = from_option (KeyError name) (map_of (map prod.swap table) name)"

definition encode_tensor :: "patch_tensor_contract \<Rightarrow> raw_tensor_contract res" where
  "encode_tensor t =
     bind_res (code_of raw_roles (tc_role t)) (\<lambda>role.
     bind_res (code_of raw_precisions (tc_dtype t)) (\<lambda>precision.
     Inr \<lparr>rw_role = role, rw_tensor_index = word_of_int (tc_index t), rw_precision = precision,
       rw_element_count = word_of_int (tc_element_count t), rw_span_bytes = word_of_int (tc_span_bytes t),
       rw_observed_flags = word_of_int (tc_observed_flags t)\<rparr>))"

definition zero_tensor :: raw_tensor_contract where
  "zero_tensor = \<lparr>rw_role = 0, rw_tensor_index = 0, rw_precision = 0, rw_element_count = 0, rw_span_bytes = 0,
     rw_observed_flags = 0\<rparr>"

text \<open>The array has nine places; a tenth tensor is an \<open>IndexError\<close>.\<close>

definition encode_target_v2 :: "patch_target_v2 \<Rightarrow> raw_patch_target_v2 res" where
  "encode_target_v2 t =
     bind_res (map_res encode_tensor (p2_tensors t)) (\<lambda>tensors.
     if 9 < length tensors then Inl IndexError
     else Inr \<lparr>r2_invocation_index = word_of_int (p2_invocation_index t),
       r2_range_index = word_of_int (p2_range_index t), r2_tensor_count = word_of_nat (length tensors),
       r2_target_flags = word_of_int (p2_target_flags t),
       r2_tensors = tensors @ replicate (9 - length tensors) zero_tensor\<rparr>)"

definition encode_target :: "patch_target \<Rightarrow> raw_patch_target" where
  "encode_target t =
     \<lparr>rt_invocation_index = word_of_int (pt_invocation_index t), rt_range_index = word_of_int (pt_range_index t),
      rt_expected_input_count = word_of_int (pt_input_count t),
      rt_expected_element_count = word_of_int (pt_element_count t),
      rt_expected_span_bytes = word_of_int (pt_span_bytes t),
      rt_required_contract_flags = word_of_int (pt_contract_flags t)\<rparr>"

fun is_v1 :: "target \<Rightarrow> bool" where
  "is_v1 (TargetV1 _) = True"
| "is_v1 (TargetV2 _) = False"

fun v1_targets :: "target list \<Rightarrow> patch_target list" where
  "v1_targets [] = []"
| "v1_targets (TargetV1 t # ts) = t # v1_targets ts"
| "v1_targets (TargetV2 _ # ts) = v1_targets ts"

fun v2_targets :: "target list \<Rightarrow> patch_target_v2 list" where
  "v2_targets [] = []"
| "v2_targets (TargetV2 t # ts) = t # v2_targets ts"
| "v2_targets (TargetV1 _ # ts) = v2_targets ts"

definition patch_graph :: "native_lib \<Rightarrow> bytes \<Rightarrow> bytes \<Rightarrow> target list \<Rightarrow> int \<Rightarrow> int \<Rightarrow> patch_result res" where
  "patch_graph lib graph_blob elf targets image_alignment tail_padding =
     (if targets = [] then Inl (ValueError ''at least one explicit patch target is required'')
      else
        let v2 = list_all (\<lambda>t. \<not> is_v1 t) targets;
            options = \<lparr>po_image_alignment = word_of_int image_alignment, po_tail_padding = word_of_int tail_padding\<rparr>;
            finish = (\<lambda>(status, r).
              if status \<noteq> 0 then Inl (native_raise lib ''patchblob'' status (rp_diagnostic r) None None)
              else Inr \<lparr>pr_graph_blob = buffer_bytes (rp_graph_blob r), pr_report_json = buffer_bytes (rp_report_json r)\<rparr>)
        in if \<not> v2 \<and> \<not> list_all is_v1 targets then Inl (TypeError ''patch targets must use one contract version'')
           else if v2
           then bind_res (map_res encode_target_v2 (v2_targets targets)) (\<lambda>raw.
             finish (nl_patch_v2 lib options graph_blob elf raw))
           else finish (nl_patch lib options graph_blob elf (map encode_target (v1_targets targets))))"

section \<open>Discovery\<close>

definition decode_target :: "raw_patch_target \<Rightarrow> patch_target res" where
  "decode_target t =
     PatchTarget (PInt (uint (rt_invocation_index t))) (PInt (uint (rt_range_index t)))
       (PInt (uint (rt_expected_input_count t))) (PInt (uint (rt_expected_element_count t)))
       (PInt (uint (rt_expected_span_bytes t))) (PInt (uint (rt_required_contract_flags t)))"

definition decode_tensor :: "raw_tensor_contract \<Rightarrow> patch_tensor_contract res" where
  "decode_tensor t =
     (case (map_of raw_roles (rw_role t), map_of raw_precisions (rw_precision t)) of
        (Some role, Some dtype) \<Rightarrow>
          PatchTensorContract (PStr role) (PInt (uint (rw_tensor_index t))) (PStr dtype)
            (PInt (uint (rw_element_count t))) (PInt (uint (rw_span_bytes t))) (PInt (uint (rw_observed_flags t)))
      | _ \<Rightarrow> Inl (RuntimeError ''patchblob returned an unknown tensor role or precision''))"

definition decode_target_v2 :: "raw_patch_target_v2 \<Rightarrow> patch_target_v2 res" where
  "decode_target_v2 t =
     bind_res (map_res (\<lambda>i. if i < length (r2_tensors t) then decode_tensor (r2_tensors t ! i) else Inl IndexError)
       [0..<unat (r2_tensor_count t)]) (\<lambda>tensors.
     PatchTargetV2 (PInt (uint (r2_invocation_index t))) (PInt (uint (r2_range_index t))) (map Some tensors)
       (PInt (uint (r2_target_flags t))))"

text \<open>The loop that distributes the discovered targets over the groups.\<close>

definition add_discovered :: "('a \<Rightarrow> 'b res) \<Rightarrow> nat \<Rightarrow> c_uint32 \<times> 'a \<Rightarrow> 'b list list \<Rightarrow> 'b list list res" where
  "add_discovered decode group_count = (\<lambda>(group_index, target) groups.
     if group_count \<le> unat group_index
     then Inl (RuntimeError ''patchblob returned an invalid discovered group index'')
     else bind_res (decode target) (\<lambda>t.
       Inr (groups[unat group_index := groups ! unat group_index @ [t]])))"

definition regroup :: "('a \<Rightarrow> 'b res) \<Rightarrow> 'a raw_discovery \<Rightarrow> 'b list list res" where
  "regroup decode r =
     bind_res (fold_res (add_discovered decode (rd_group_count r)) (rd_targets r) (replicate (rd_group_count r) []))
       (\<lambda>groups. if list_ex (\<lambda>g. g = []) groups
         then Inl (RuntimeError ''patchblob returned an empty discovered target group'') else Inr groups)"

definition discover_patch_targets :: "native_lib \<Rightarrow> bytes \<Rightarrow> patch_target list list res" where
  "discover_patch_targets lib graph_blob =
     (case nl_discover lib graph_blob of (status, r) \<Rightarrow>
        if status \<noteq> 0 then Inl (native_raise lib ''patchblob discovery'' status (rd_diagnostic r) None None)
        else regroup decode_target r)"

definition discover_patch_targets_v2 :: "native_lib \<Rightarrow> bytes \<Rightarrow> patch_target_v2 list list res" where
  "discover_patch_targets_v2 lib graph_blob =
     (case nl_discover_v2 lib graph_blob of (status, r) \<Rightarrow>
        if status \<noteq> 0 then Inl (native_raise lib ''patchblob discovery v2'' status (rd_diagnostic r) None None)
        else regroup decode_target_v2 r)"

section \<open>Inspection\<close>

definition compare_graphs :: "native_lib \<Rightarrow> bytes \<Rightarrow> bytes \<Rightarrow> graph_comparison res" where
  "compare_graphs lib baseline candidate =
     (if baseline = [] then Inl (ValueError ''baseline graph blob must be non-empty bytes'')
      else if candidate = [] then Inl (ValueError ''candidate graph blob must be non-empty bytes'')
      else case nl_compare lib baseline candidate of (status, r) \<Rightarrow>
        if status \<noteq> 0 then Inl (native_raise lib ''patchblob comparison'' status (rc_diagnostic r) None None)
        else Inr \<lparr>gc_mismatch_flags = uint (rc_mismatch_flags r),
          gc_changed_group_indices = map uint (rc_changed_group_indices r),
          gc_contract_stable = (rc_contract_stable r \<noteq> 0), gc_unique_changed_group = (rc_unique_changed_group r \<noteq> 0)\<rparr>)"

definition group_states :: "(c_uint32 \<times> string) list" where
  "group_states = [(0, ''not_observed''), (1, ''incomplete''), (2, ''complete'')]"

definition state_name :: "c_uint32 \<Rightarrow> string" where
  "state_name s = (case map_of group_states s of Some n \<Rightarrow> n | None \<Rightarrow> '''')"

abbreviation known_state :: "c_uint32 \<Rightarrow> bool" where
  "known_state s \<equiv> map_of group_states s \<noteq> None"

text \<open>A call that fills an array: the status first, then a null array with a count, then the records.\<close>

definition checked_array :: "native_lib \<Rightarrow> string \<Rightarrow> string \<Rightarrow> int \<times> 'a raw_array \<times> raw_buffer \<Rightarrow> 'a list res" where
  "checked_array lib stage message = (\<lambda>(status, array, diagnostic).
     if status \<noteq> 0 then Inl (native_raise lib stage status diagnostic None None)
     else if ra_count array \<noteq> 0 \<and> ra_items array = None then Inl (RuntimeError message)
     else Inr (case ra_items array of Some items \<Rightarrow> take (ra_count array) items | None \<Rightarrow> []))"

definition check_blob :: "bytes \<Rightarrow> unit res" where
  "check_blob graph_blob = (if graph_blob = [] then Inl (ValueError ''graph blob must be non-empty bytes'') else Inr ())"

definition completeness_record :: "nat \<times> raw_completeness \<Rightarrow> act_group_completeness res" where
  "completeness_record = (\<lambda>(index, s).
     if unat (gm_struct_size s) < 36 \<or> unat (gm_group_index s) \<noteq> index \<or> \<not> known_state (gm_state s)
     then Inl (RuntimeError ''patchblob returned an invalid group-completeness record'')
     else Inr \<lparr>cm_group_index = uint (gm_group_index s), cm_state = state_name (gm_state s),
       cm_output_symbol_raw = uint (gm_output_symbol_raw s), cm_invocation_count = uint (gm_invocation_count s),
       cm_routed_invocation_count = uint (gm_routed_invocation_count s),
       cm_replica_invocation_count = uint (gm_replica_invocation_count s),
       cm_unresolved_invocation_count = uint (gm_unresolved_invocation_count s),
       cm_unresolved_flags = uint (gm_unresolved_flags s)\<rparr>)"

definition inspect_group_completeness :: "native_lib \<Rightarrow> bytes \<Rightarrow> act_group_completeness list res" where
  "inspect_group_completeness lib graph_blob =
     bind_res (check_blob graph_blob) (\<lambda>_.
     bind_res (checked_array lib ''patchblob group completeness''
       ''patchblob returned a null group-completeness array'' (nl_completeness lib graph_blob)) (\<lambda>groups.
     map_res completeness_record (enum groups)))"

definition coverage_record :: "nat \<times> raw_coverage \<Rightarrow> act_group_coverage res" where
  "coverage_record = (\<lambda>(index, s).
     if unat (gv_struct_size s) < 64 \<or> unat (gv_group_index s) \<noteq> index \<or> \<not> known_state (gv_direct_output_state s) \<or>
        \<not> known_state (gv_act_consumer_state s) \<or> \<not> known_state (gv_dpu_consumer_state s)
     then Inl (RuntimeError ''patchblob returned an invalid group-coverage record'')
     else Inr \<lparr>cv_group_index = uint (gv_group_index s), cv_invocation_count = uint (gv_invocation_count s),
       cv_direct_output_state = state_name (gv_direct_output_state s),
       cv_act_consumer_state = state_name (gv_act_consumer_state s),
       cv_dpu_consumer_state = state_name (gv_dpu_consumer_state s),
       cv_direct_output_unresolved_flags = uint (gv_direct_output_unresolved_flags s),
       cv_act_consumer_unresolved_flags = uint (gv_act_consumer_unresolved_flags s),
       cv_dpu_consumer_unresolved_flags = uint (gv_dpu_consumer_unresolved_flags s),
       cv_direct_routed_invocation_count = uint (gv_direct_routed_invocation_count s),
       cv_direct_replica_invocation_count = uint (gv_direct_replica_invocation_count s),
       cv_act_matched_invocation_count = uint (gv_act_matched_invocation_count s),
       cv_act_consumer_group_count = uint (gv_act_consumer_group_count s),
       cv_act_consumer_input_count = uint (gv_act_consumer_input_count s),
       cv_dpu_matched_invocation_count = uint (gv_dpu_matched_invocation_count s),
       cv_dpu_input_count = uint (gv_dpu_input_count s),
       cv_dma_dpu_consumer_state = ''not_observed'', cv_dma_dpu_consumer_unresolved_flags = 0,
       cv_dma_dpu_tile_count_expected = 0, cv_dma_dpu_translated_tile_count = 0, cv_dma_dpu_matched_input_count = 0,
       cv_dma_act_consumer_state = ''not_observed'', cv_dma_act_consumer_unresolved_flags = 0,
       cv_dma_act_routed_invocation_count = 0, cv_dma_act_replica_invocation_count = 0,
       cv_dma_act_consumer_group_count = 0, cv_dma_act_consumer_input_count = 0, cv_dma_act_ddr_span_bytes = 0\<rparr>)"

text \<open>The second and the third pass merge the DMA reports into the records of the first.\<close>

definition merge_dma_dpu :: "nat \<times> act_group_coverage \<times> raw_dma_dpu_coverage \<Rightarrow> act_group_coverage res" where
  "merge_dma_dpu = (\<lambda>(index, g, s).
     if unat (gd_struct_size s) < 32 \<or> unat (gd_group_index s) \<noteq> index \<or>
        uint (gd_invocation_count s) \<noteq> cv_invocation_count g \<or> \<not> known_state (gd_state s)
     then Inl (RuntimeError ''patchblob returned an invalid DMA/DPU group-coverage record'')
     else Inr (g\<lparr>cv_dma_dpu_consumer_state := state_name (gd_state s),
       cv_dma_dpu_consumer_unresolved_flags := uint (gd_unresolved_flags s),
       cv_dma_dpu_tile_count_expected := uint (gd_tile_count_expected s),
       cv_dma_dpu_translated_tile_count := uint (gd_translated_tile_count s),
       cv_dma_dpu_matched_input_count := uint (gd_matched_dpu_input_count s)\<rparr>))"

definition merge_dma_act :: "nat \<times> act_group_coverage \<times> raw_dma_act_coverage \<Rightarrow> act_group_coverage res" where
  "merge_dma_act = (\<lambda>(index, g, s).
     if unat (ga_struct_size s) < 48 \<or> unat (ga_group_index s) \<noteq> index \<or>
        uint (ga_invocation_count s) \<noteq> cv_invocation_count g \<or> \<not> known_state (ga_state s)
     then Inl (RuntimeError ''patchblob returned an invalid DMA/ACT group-coverage record'')
     else Inr (g\<lparr>cv_dma_act_consumer_state := state_name (ga_state s),
       cv_dma_act_consumer_unresolved_flags := uint (ga_unresolved_flags s),
       cv_dma_act_routed_invocation_count := uint (ga_routed_producer_invocation_count s),
       cv_dma_act_replica_invocation_count := uint (ga_replica_producer_invocation_count s),
       cv_dma_act_consumer_group_count := uint (ga_consumer_group_count s),
       cv_dma_act_consumer_input_count := uint (ga_consumer_input_count s),
       cv_dma_act_ddr_span_bytes := uint (ga_ddr_span_bytes s)\<rparr>))"

definition merge_pass :: "native_lib \<Rightarrow> string \<Rightarrow> string \<Rightarrow> (nat \<times> act_group_coverage \<times> 'a \<Rightarrow> act_group_coverage res) \<Rightarrow>
    int \<times> 'a raw_array \<times> raw_buffer \<Rightarrow> act_group_coverage list \<Rightarrow> act_group_coverage list res" where
  "merge_pass lib stage message merge = (\<lambda>(status, array, diagnostic) groups.
     if status \<noteq> 0 then Inl (native_raise lib stage status diagnostic None None)
     else if ra_count array \<noteq> length groups \<or> (ra_count array \<noteq> 0 \<and> ra_items array = None)
     then Inl (RuntimeError message)
     else map_res merge (enum (zip groups (case ra_items array of Some items \<Rightarrow> items | None \<Rightarrow> []))))"

definition inspect_group_coverage :: "native_lib \<Rightarrow> bytes \<Rightarrow> act_group_coverage list res" where
  "inspect_group_coverage lib graph_blob =
     bind_res (check_blob graph_blob) (\<lambda>_.
     bind_res (checked_array lib ''patchblob group coverage'' ''patchblob returned a null group-coverage array''
       (nl_coverage lib graph_blob)) (\<lambda>raw.
     bind_res (map_res coverage_record (enum raw)) (\<lambda>groups.
     bind_res (merge_pass lib ''patchblob DMA/DPU group coverage''
       ''patchblob returned an inconsistent DMA/DPU group-coverage array'' merge_dma_dpu
       (nl_dma_dpu_coverage lib graph_blob) groups)
     (merge_pass lib ''patchblob DMA/ACT group coverage''
       ''patchblob returned an inconsistent DMA/ACT group-coverage array'' merge_dma_act
       (nl_dma_act_coverage lib graph_blob)))))"

definition relation_kinds :: "(c_uint32 \<times> string) list" where
  "relation_kinds =
    [(1, ''act_to_output''), (2, ''act_to_act''), (3, ''act_to_dpu''), (4, ''act_to_dpu_via_dma''),
     (5, ''act_to_act_via_dma''), (6, ''dpu_to_act''), (7, ''graph_input_to_act_via_dma'')]"

definition endpoint_kinds :: "(c_uint32 \<times> string) list" where
  "endpoint_kinds = [(1, ''act_group''), (2, ''dpu_invariant''), (3, ''graph_output''), (4, ''graph_input'')]"

definition relation_endpoint :: "raw_endpoint \<Rightarrow> graph_relation_endpoint res" where
  "relation_endpoint s =
     (case map_of endpoint_kinds (re_kind s) of
        Some kind \<Rightarrow>
          if unat (re_struct_size s) < 16 then Inl (RuntimeError ''patchblob returned an invalid exact-relation endpoint'')
          else Inr \<lparr>ep_kind = kind, ep_primary_index = uint (re_primary_index s),
            ep_secondary_index = (if re_secondary_index s = 0xFFFFFFFF then None else Some (uint (re_secondary_index s)))\<rparr>
      | None \<Rightarrow> Inl (RuntimeError ''patchblob returned an invalid exact-relation endpoint''))"

definition relation_record :: "raw_relation \<Rightarrow> exact_graph_relation res" where
  "relation_record s =
     (case map_of relation_kinds (rr_kind s) of
        Some kind \<Rightarrow>
          if unat (rr_struct_size s) < 44 \<or> rr_evidence_count s = 0
          then Inl (RuntimeError ''patchblob returned an invalid exact-relation record'')
          else bind_res (relation_endpoint (rr_source s)) (\<lambda>source.
            bind_res (relation_endpoint (rr_destination s)) (\<lambda>destination.
            Inr \<lparr>er_kind = kind, er_source = source, er_destination = destination,
              er_evidence_count = uint (rr_evidence_count s)\<rparr>))
      | None \<Rightarrow> Inl (RuntimeError ''patchblob returned an invalid exact-relation record''))"

definition inspect_exact_relations :: "native_lib \<Rightarrow> bytes \<Rightarrow> exact_graph_relation list res" where
  "inspect_exact_relations lib graph_blob =
     bind_res (check_blob graph_blob) (\<lambda>_.
     bind_res (checked_array lib ''patchblob exact relations'' ''patchblob returned a null exact-relation array''
       (nl_relations lib graph_blob)) (map_res relation_record))"

definition io_kinds :: "(c_uint32 \<times> string) list" where
  "io_kinds = [(1, ''input''), (2, ''output'')]"

text \<open>\<open>UnicodeDecodeError\<close> is a \<open>ValueError\<close>.\<close>

definition io_symbol_record :: "raw_io_symbol \<Rightarrow> graph_io_symbol res" where
  "io_symbol_record s =
     (case (map_of io_kinds (rs_kind s), rs_name s) of
        (Some kind, Some name) \<Rightarrow>
          if unat (rs_struct_size s) < 40 \<or> rs_symbol_index s = 0 \<or> rs_size_bytes s = 0 \<or> name = []
          then Inl (RuntimeError ''patchblob returned an invalid graph-I/O symbol record'')
          else bind_res (from_option (ValueError ''codec cannot decode bytes'') (utf8_decode name)) (\<lambda>text.
            Inr \<lparr>io_kind = kind, io_symbol_table_index = uint (rs_symbol_table_index s),
              io_symbol_index = uint (rs_symbol_index s), io_size_bytes = uint (rs_size_bytes s), io_name = text\<rparr>)
      | _ \<Rightarrow> Inl (RuntimeError ''patchblob returned an invalid graph-I/O symbol record''))"

definition inspect_graph_io_symbols :: "native_lib \<Rightarrow> bytes \<Rightarrow> graph_io_symbol list res" where
  "inspect_graph_io_symbols lib graph_blob =
     bind_res (check_blob graph_blob) (\<lambda>_.
     bind_res (checked_array lib ''patchblob graph I/O symbols'' ''patchblob returned a null graph-I/O symbol array''
       (nl_io_symbols lib graph_blob)) (map_res io_symbol_record))"

section \<open>One-shot inference\<close>

definition graphinfer_dtypes :: "(int \<times> string) list" where
  "graphinfer_dtypes =
    [(1, ''f32''), (2, ''f16''), (3, ''u16''), (4, ''u8''), (5, ''i32''), (6, ''i16''), (7, ''i8''), (10, ''u32''),
     (17, ''i64'')]"

definition encode_input :: "inference_input \<Rightarrow> raw_infer_input" where
  "encode_input v =
     (case ii_selector v of
        PStr name \<Rightarrow> \<lparr>fi_argument_index = 0xFFFFFFFF, fi_name = utf8 name, fi_data = ii_data v\<rparr>
      | selector \<Rightarrow> \<lparr>fi_argument_index = word_of_int (int_of selector), fi_name = [], fi_data = ii_data v\<rparr>)"

definition decode_output :: "raw_infer_output \<Rightarrow> inference_output res" where
  "decode_output r =
     bind_res (from_option (ValueError ''codec cannot decode bytes'') (utf8_decode (buffer_bytes (fo_name r)))) (\<lambda>name.
     Inr \<lparr>io_argument_index = uint (fo_argument_index r), io_argument_name = name,
       io_shape = map uint (take (unat (fo_dims_count r)) (fo_dims r)),
       io_dtype = (case map_of graphinfer_dtypes (uint (fo_precision r)) of
           Some d \<Rightarrow> d | None \<Rightarrow> ''precision-'' @ int_str (uint (fo_precision r))),
       io_data = buffer_bytes (fo_data r)\<rparr>)"

definition decode_infer_result :: "native_lib \<Rightarrow> string \<Rightarrow> int \<times> raw_infer_result \<Rightarrow> inference_result res" where
  "decode_infer_result lib stage = (\<lambda>(status, r).
     if status \<noteq> 0 then Inl (native_raise lib stage status (fr_diagnostic r) None None)
     else bind_res (map_res decode_output (fr_outputs r)) (\<lambda>outputs.
       Inr \<lparr>ir_outputs = outputs, ir_driver_index = uint (fr_selected_driver_index r),
         ir_device_index = uint (fr_selected_device_index r), ir_driver_version = uint (fr_driver_version r),
         ir_vendor_id = uint (fr_device_vendor_id r), ir_device_id = uint (fr_device_id r)\<rparr>))"

definition infer_graph :: "native_lib \<Rightarrow> bytes \<Rightarrow> inference_input list \<Rightarrow> int \<Rightarrow> inference_result res" where
  "infer_graph lib graph_blob inputs timeout_ms =
     (if inputs = [] then Inl (ValueError ''at least one inference input is required'')
      else decode_infer_result lib ''graphinfer''
        (nl_infer lib (word_of_int timeout_ms) graph_blob (map encode_input inputs)))"

section \<open>Wire formats\<close>

text \<open>A codec between the package's targets and the C structures; the discovery groups what it decodes.\<close>

locale wire_format = codec wf encode decode
  for wf :: "'a \<Rightarrow> bool" and encode :: "'a \<Rightarrow> 'w res" and decode :: "'w \<Rightarrow> 'a res"
begin

lemma add_discovered_groups:
  assumes "fold_res (add_discovered decode n) ts gs = Inr gs'" and "length gs = n"
  shows "length gs' = n \<and> (\<forall>g < n. \<exists>new. gs' ! g = gs ! g @ new \<and>
    map_res decode (map snd (filter (\<lambda>(i, _). unat i = g) ts)) = Inr new)"
  using assms
proof (induction ts arbitrary: gs)
  case (Cons p ts)
  obtain i t where p: "p = (i, t)" by (cases p)
  from Cons.prems(1) obtain x where i: "unat i < n" and x: "decode t = Inr x"
    and rest: "fold_res (add_discovered decode n) ts (gs[unat i := gs ! unat i @ [x]]) = Inr gs'"
    by (auto simp: p add_discovered_def bind_res_eq_Inr split: if_splits)
  from Cons.IH [OF rest] Cons.prems(2) have ih: "length gs' = n"
    "\<And>g. g < n \<Longrightarrow> \<exists>new. gs' ! g = gs[unat i := gs ! unat i @ [x]] ! g @ new \<and>
      map_res decode (map snd (filter (\<lambda>(i, _). unat i = g) ts)) = Inr new" by auto
  have "\<exists>new. gs' ! g = gs ! g @ new \<and>
      map_res decode (map snd (filter (\<lambda>(i, _). unat i = g) (p # ts))) = Inr new" if g: "g < n" for g
  proof -
    from ih(2) [OF g] obtain new where "gs' ! g = gs[unat i := gs ! unat i @ [x]] ! g @ new"
      "map_res decode (map snd (filter (\<lambda>(i, _). unat i = g) ts)) = Inr new" by blast
    with g i x Cons.prems(2) show ?thesis by (cases "g = unat i") (auto simp: p)
  qed
  with ih(1) show ?case by blast
qed simp

lemma regroup_groups:
  assumes "regroup decode r = Inr groups" and "g < rd_group_count r"
  shows "map_res decode (map snd (filter (\<lambda>(i, _). unat i = g) (rd_targets r))) = Inr (groups ! g)"
    and "groups ! g \<noteq> []" and "list_all wf (groups ! g)"
proof -
  from assms(1) have f: "fold_res (add_discovered decode (rd_group_count r)) (rd_targets r)
      (replicate (rd_group_count r) []) = Inr groups" and ne: "\<not> list_ex (\<lambda>g. g = []) groups"
    by (auto simp: regroup_def bind_res_eq_Inr split: if_splits)
  note spec = add_discovered_groups [OF f]
  then show m: "map_res decode (map snd (filter (\<lambda>(i, _). unat i = g) (rd_targets r))) = Inr (groups ! g)"
    using assms(2) by auto
  show "groups ! g \<noteq> []" using ne spec assms(2) by (auto simp: list_ex_length)
  show "list_all wf (groups ! g)"
    using map_res_length [OF m] map_res_nth [OF m] decode_wf by (auto simp: list_all_length)
qed

lemma regroup_length: "regroup decode r = Inr groups \<Longrightarrow> length groups = rd_group_count r"
  using add_discovered_groups [of "rd_group_count r" "rd_targets r" "replicate (rd_group_count r) []" groups]
  by (auto simp: regroup_def bind_res_eq_Inr split: if_splits)

end

lemma uint_word_of_int_u32: "0 \<le> i \<Longrightarrow> i \<le> u32_max \<Longrightarrow> uint (word_of_int i :: 32 word) = i"
  by (simp add: uint_word_of_int u32_max_def)

lemma uint_word_of_int_u64: "0 \<le> i \<Longrightarrow> i \<le> u64_max \<Longrightarrow> uint (word_of_int i :: 64 word) = i"
  by (simp add: uint_word_of_int u64_max_def)

lemma decode_target_wf: "decode_target w = Inr t \<Longrightarrow> wf_patch_target t"
  unfolding decode_target_def by (rule PatchTarget_wf)

lemma encode_decode_target: "wf_patch_target t \<Longrightarrow> decode_target (encode_target t) = Inr t"
  using PatchTarget_of_fields [of t]
  by (simp add: decode_target_def encode_target_def wf_patch_target_def uint_word_of_int_u32 uint_word_of_int_u64)

lemma raw_tables:
  "list_all (\<lambda>r. \<exists>c. code_of raw_roles r = Inr c \<and> map_of raw_roles c = Some r) [''input'', ''output'']"
  "list_all (\<lambda>d. \<exists>c. code_of raw_precisions d = Inr c \<and> map_of raw_precisions c = Some d) target_dtypes"
  by (simp_all add: code_of_def raw_roles_def raw_precisions_def target_dtypes_def from_option_def)

lemma encode_decode_tensor:
  assumes "wf_contract c"
  shows "\<exists>w. encode_tensor c = Inr w \<and> decode_tensor w = Inr c"
proof -
  from assms have "tc_role c \<in> set [''input'', ''output'']" "tc_dtype c \<in> set target_dtypes"
    by (auto simp: wf_contract_def)
  then obtain r d where r: "code_of raw_roles (tc_role c) = Inr r" "map_of raw_roles r = Some (tc_role c)"
    and d: "code_of raw_precisions (tc_dtype c) = Inr d" "map_of raw_precisions d = Some (tc_dtype c)"
    using raw_tables unfolding list_all_iff by blast
  with PatchTensorContract_of_fields [OF assms] assms show ?thesis
    by (simp add: encode_tensor_def decode_tensor_def wf_contract_def uint_word_of_int_u32 uint_word_of_int_u64)
qed

lemma decode_tensor_wf: "decode_tensor w = Inr c \<Longrightarrow> wf_contract c"
  by (auto simp: decode_tensor_def dest: PatchTensorContract_wf split: option.splits)

interpretation tensor_wire: wire_format wf_contract encode_tensor decode_tensor
  by unfold_locales (auto intro: decode_tensor_wf encode_decode_tensor)

lemma decode_target_v2_wf: "decode_target_v2 w = Inr t \<Longrightarrow> wf_patch_target_v2 t"
proof -
  assume "decode_target_v2 w = Inr t"
  then obtain ts where ts: "map_res (\<lambda>i. if i < length (r2_tensors w) then decode_tensor (r2_tensors w ! i) else Inl IndexError)
      [0..<unat (r2_tensor_count w)] = Inr ts"
    and t: "PatchTargetV2 (PInt (uint (r2_invocation_index w))) (PInt (uint (r2_range_index w))) (map Some ts)
      (PInt (uint (r2_target_flags w))) = Inr t"
    by (auto simp: decode_target_v2_def bind_res_eq_Inr)
  have "wf_contract c" if "c \<in> set ts" for c
    using that map_res_length [OF ts] map_res_nth [OF ts]
    by (fastforce simp: in_set_conv_nth split: if_splits dest: decode_tensor_wf)
  with PatchTargetV2_wf [OF t] show ?thesis by auto
qed

lemma encode_decode_target_v2:
  assumes "wf_patch_target_v2 t"
  shows "\<exists>w. encode_target_v2 t = Inr w \<and> decode_target_v2 w = Inr t"
proof -
  have wf: "list_all wf_contract (p2_tensors t)" "length (p2_tensors t) \<le> 9"
    using assms by (auto simp: wf_patch_target_v2_def)
  from tensor_wire.encode_all [OF wf(1)] obtain ws where ws: "map_res encode_tensor (p2_tensors t) = Inr ws"
    and dec: "map_res decode_tensor ws = Inr (p2_tensors t)" by blast
  have len: "length ws = length (p2_tensors t)" by (rule map_res_length [OF ws])
  let ?n = "length ws"
  have n: "?n \<le> 9" using len wf(2) by simp
  then have cnt: "unat (word_of_nat ?n :: 32 word) = ?n" by (simp add: unat_of_nat)
  have "map_res (\<lambda>i. if i < 9 then decode_tensor ((ws @ replicate (9 - ?n) zero_tensor) ! i) else Inl IndexError) [0..<?n] =
      Inr (map (\<lambda>i. p2_tensors t ! i) [0..<?n])"
    using n map_res_nth [OF dec] by (intro map_res_total) (auto simp: nth_append)
  also have "map (\<lambda>i. p2_tensors t ! i) [0..<?n] = p2_tensors t" using len by (simp add: map_nth)
  finally show ?thesis
    using PatchTargetV2_of_fields [OF assms] assms n
    by (simp add: encode_target_v2_def ws decode_target_v2_def cnt wf_patch_target_v2_def uint_word_of_int_u32
        cong: if_cong)
qed

interpretation v1_wire: wire_format wf_patch_target "\<lambda>t. Inr (encode_target t)" decode_target
  by unfold_locales (auto intro: decode_target_wf encode_decode_target)

interpretation v2_wire: wire_format wf_patch_target_v2 encode_target_v2 decode_target_v2
  by unfold_locales (auto intro: decode_target_v2_wf encode_decode_target_v2)

text \<open>C7 Targets of version 2 pass the C boundary unchanged: the structures that \<open>patch_graph\<close> hands to
  the library for well-formed targets decode, by the code of the discovery, to the same targets, so
  no index, count or flag is truncated and no role or element type is confused.\<close>

theorem patch_graph_v2_faithful:
  assumes "list_all wf_patch_target_v2 ts" and "ts \<noteq> []"
  shows "\<exists>raw. map_res decode_target_v2 raw = Inr ts \<and>
    patch_graph lib blob elf (map TargetV2 ts) alignment padding =
      (case nl_patch_v2 lib \<lparr>po_image_alignment = word_of_int alignment, po_tail_padding = word_of_int padding\<rparr> blob elf raw of
        (status, r) \<Rightarrow> if status \<noteq> 0 then Inl (native_raise lib ''patchblob'' status (rp_diagnostic r) None None)
          else Inr \<lparr>pr_graph_blob = buffer_bytes (rp_graph_blob r), pr_report_json = buffer_bytes (rp_report_json r)\<rparr>)"
proof -
  from v2_wire.encode_all [OF assms(1)] obtain raw where raw: "map_res encode_target_v2 ts = Inr raw"
    "map_res decode_target_v2 raw = Inr ts" by blast
  have "v2_targets (map TargetV2 ts) = ts" by (induction ts) auto
  with raw assms(2) show ?thesis
    by (intro exI [of _ raw]) (simp add: patch_graph_def Let_def list_all_iff)
qed

text \<open>Discovery partitions what the library reports: group \<open>g\<close> holds exactly the targets reported for
  \<open>g\<close>, decoded and in the order of the report, every group is non-empty and every target in it
  satisfies the invariant of its class.\<close>

theorem discovery_partitions:
  assumes "nl_discover_v2 lib blob = (0, r)" and "discover_patch_targets_v2 lib blob = Inr groups"
  shows "length groups = rd_group_count r \<and> (\<forall>g < length groups. groups ! g \<noteq> [] \<and>
    list_all wf_patch_target_v2 (groups ! g) \<and>
    map_res decode_target_v2 (map snd (filter (\<lambda>(i, _). unat i = g) (rd_targets r))) = Inr (groups ! g))"
proof -
  have r: "regroup decode_target_v2 r = Inr groups" using assms by (simp add: discover_patch_targets_v2_def)
  from v2_wire.regroup_length [OF r] v2_wire.regroup_groups [OF r] show ?thesis by simp
qed

text \<open>A library whose every call fails, the starting point of the examples.\<close>

definition failing_ir :: raw_ir_result where
  "failing_ir = \<lparr>xr_selected_driver_index = 0, xr_selected_device_index = 0, xr_graph_extension_version = 0,
     xr_compiler_version_major = 0, xr_compiler_version_minor = 0, xr_driver_version = 0, xr_device_vendor_id = 0,
     xr_device_id = 0, xr_graph_blob = None, xr_stdout_log = None, xr_stderr_log = None, xr_diagnostic = None\<rparr>"

definition failing_lib :: native_lib where
  "failing_lib =
     (let nothing = \<lparr>rp_graph_blob = None, rp_report_json = None, rp_diagnostic = None\<rparr> in
     \<lparr>nl_status_name = \<lambda>_. None, nl_ir2blob_compile = \<lambda>_ _ _. (1, failing_ir), nl_ir2blob_query = \<lambda>_. (1, failing_ir),
      nl_shavecc_compile = \<lambda>_ _. (1, \<lparr>sr_elf = None, sr_stdout_log = None, sr_stderr_log = None, sr_diagnostic = None\<rparr>),
      nl_patch = \<lambda>_ _ _ _. (1, nothing), nl_patch_v2 = \<lambda>_ _ _ _. (1, nothing),
      nl_discover = \<lambda>_. (1, \<lparr>rd_targets = [], rd_group_count = 0, rd_diagnostic = None\<rparr>),
      nl_discover_v2 = \<lambda>_. (1, \<lparr>rd_targets = [], rd_group_count = 0, rd_diagnostic = None\<rparr>),
      nl_compare = \<lambda>_ _. (1, \<lparr>rc_mismatch_flags = 0, rc_contract_stable = 0, rc_unique_changed_group = 0,
        rc_changed_group_indices = [], rc_diagnostic = None\<rparr>),
      nl_completeness = \<lambda>_. (1, \<lparr>ra_count = 0, ra_items = None\<rparr>, None),
      nl_coverage = \<lambda>_. (1, \<lparr>ra_count = 0, ra_items = None\<rparr>, None),
      nl_dma_dpu_coverage = \<lambda>_. (1, \<lparr>ra_count = 0, ra_items = None\<rparr>, None),
      nl_dma_act_coverage = \<lambda>_. (1, \<lparr>ra_count = 0, ra_items = None\<rparr>, None),
      nl_relations = \<lambda>_. (1, \<lparr>ra_count = 0, ra_items = None\<rparr>, None),
      nl_io_symbols = \<lambda>_. (1, \<lparr>ra_count = 0, ra_items = None\<rparr>, None),
      nl_infer = \<lambda>_ _ _. (1, \<lparr>fr_selected_driver_index = 0, fr_selected_device_index = 0, fr_driver_version = 0,
        fr_device_vendor_id = 0, fr_device_id = 0, fr_outputs = [], fr_diagnostic = None\<rparr>)\<rparr>)"

text \<open>A library that reports two targets in two groups, the later group first.\<close>

definition demo_contract :: "string \<Rightarrow> patch_tensor_contract" where
  "demo_contract role = \<lparr>tc_role = role, tc_index = 0, tc_dtype = ''f16'', tc_element_count = 8, tc_span_bytes = 16,
     tc_observed_flags = 0\<rparr>"

definition demo_target :: "int \<Rightarrow> patch_target_v2" where
  "demo_target i = \<lparr>p2_invocation_index = i, p2_range_index = 0,
     p2_tensors = [demo_contract ''input'', demo_contract ''output''], p2_target_flags = 0\<rparr>"

definition demo_raw :: "int \<Rightarrow> raw_patch_target_v2" where
  "demo_raw i = (case encode_target_v2 (demo_target i) of Inr w \<Rightarrow> w | Inl _ \<Rightarrow>
     \<lparr>r2_invocation_index = 0, r2_range_index = 0, r2_tensor_count = 0, r2_target_flags = 0, r2_tensors = []\<rparr>)"

definition demo_discovery :: "raw_patch_target_v2 raw_discovery" where
  "demo_discovery = \<lparr>rd_targets = [(1, demo_raw 7), (0, demo_raw 3)], rd_group_count = 2, rd_diagnostic = None\<rparr>"

definition demo_lib :: native_lib where
  "demo_lib = failing_lib\<lparr>
     nl_discover_v2 := \<lambda>_. (0, demo_discovery),
     nl_patch_v2 := \<lambda>_ blob _ _. (0, \<lparr>rp_graph_blob = Some blob, rp_report_json = None, rp_diagnostic = None\<rparr>)\<rparr>"

theorem patch_graph_v2_faithful_witness:
  "\<exists>raw. map_res decode_target_v2 raw = Inr [demo_target 7, demo_target 3] \<and>
     patch_graph demo_lib [1] [2] (map TargetV2 [demo_target 7, demo_target 3]) 0x400 0x80 =
       Inr \<lparr>pr_graph_blob = [1], pr_report_json = []\<rparr>"
proof -
  have w: "list_all wf_patch_target_v2 [demo_target 7, demo_target 3]" by code_simp
  from patch_graph_v2_faithful [OF w, of demo_lib "[1]" "[2]" "0x400" "0x80"] show ?thesis
    by (auto simp: demo_lib_def buffer_bytes_def)
qed

theorem discovery_partitions_witness:
  "discover_patch_targets_v2 demo_lib [1] = Inr [[demo_target 3], [demo_target 7]] \<and>
   list_all wf_patch_target_v2 [demo_target 7]"
proof -
  have l: "nl_discover_v2 demo_lib [1] = (0, demo_discovery)" by (simp add: demo_lib_def)
  have r: "regroup decode_target_v2 demo_discovery = Inr [[demo_target 3], [demo_target 7]]" by code_simp
  have d: "discover_patch_targets_v2 demo_lib [1] = Inr [[demo_target 3], [demo_target 7]]"
    by (simp add: discover_patch_targets_v2_def l r)
  from discovery_partitions [OF l d] d show ?thesis by (auto dest: spec [of _ 1])
qed

end
