(* ===== verification/Session.thy ===== *)
theory Session
  imports Native_Library
begin

text \<open>
  The execution half of \<open>_native.py\<close> (\<open>InferenceSession\<close>, \<open>NativeSharedBuffer\<close>) and
  \<open>_ProgramExecutionState\<close> of \<open>__init__.py\<close>. Objects are indices into the lists of an explicit world,
  which also holds the shared memory and the history of the calls into the C library; the library
  may answer every call as it likes, depending on that history. A finaliser does what \<open>close\<close> or \<open>release\<close>
  does.

  The life cycle of programs, sessions and buffers is a step relation over any number of threads.
  \<open>get_session\<close> and the first half of \<open>close\<close> hold the lock and are one step each; the session that
  \<open>close\<close> took out is closed in a later step. The operations of a session take no lock and are atomic
  here. The theorems show that, however the steps interleave, no session and no buffer is released
  twice and none is used after its release.
\<close>

section \<open>The world\<close>

record session =
  se_graph :: bytes
  se_closed :: bool

record shared_buffer =
  sb_session :: nat
  sb_address :: "int option"
  sb_size :: int
  sb_released :: bool

record shared_tensor =
  sh_argument_index :: c_uint32
  sh_name :: bytes
  sh_buffer :: nat

datatype native_call =
    SessionCreate nat
  | SessionRelease nat
  | BufferCreate nat nat
  | BufferRelease nat
  | SessionInfer nat "nat list"
  | SessionInferCopied nat

record world =
  wd_sessions :: "session list"
  wd_buffers :: "shared_buffer list"
  wd_memory :: "nat \<Rightarrow> bytes"
  wd_log :: "native_call list"

text \<open>The C entry points: \<open>graphinfer_session_create\<close>, \<open>graphinfer_shared_buffer_create\<close> (status, data, size and
  diagnostic), \<open>graphinfer_session_infer\<close>, which may write to the shared memory, and
  \<open>graphinfer_session_infer_copied\<close>.\<close>

record session_lib =
  sl_native :: native_lib
  sl_create :: "native_call list \<Rightarrow> c_uint32 \<Rightarrow> bytes \<Rightarrow> int \<times> raw_buffer"
  sl_buffer :: "native_call list \<Rightarrow> nat \<Rightarrow> c_uint64 \<Rightarrow> int \<times> int option \<times> c_uint64 \<times> raw_buffer"
  sl_infer :: "native_call list \<Rightarrow> nat \<Rightarrow> shared_tensor list \<Rightarrow> shared_tensor list \<Rightarrow> (nat \<Rightarrow> bytes) \<Rightarrow>
    int \<times> (nat \<Rightarrow> bytes) \<times> raw_buffer"
  sl_infer_copied :: "native_call list \<Rightarrow> nat \<Rightarrow> raw_infer_input list \<Rightarrow> int \<times> raw_infer_result"

definition log_calls :: "native_call list \<Rightarrow> world \<Rightarrow> world" where
  "log_calls calls w = w\<lparr>wd_log := wd_log w @ calls\<rparr>"

definition add_session :: "bytes \<Rightarrow> bool \<Rightarrow> world \<Rightarrow> world" where
  "add_session graph is_closed w = w\<lparr>wd_sessions := wd_sessions w @ [\<lparr>se_graph = graph, se_closed = is_closed\<rparr>]\<rparr>"

definition add_buffer :: "shared_buffer \<Rightarrow> world \<Rightarrow> world" where
  "add_buffer b w = w\<lparr>wd_buffers := wd_buffers w @ [b]\<rparr>"

definition session_closed :: "world \<Rightarrow> nat \<Rightarrow> bool" where
  "session_closed w s = se_closed (wd_sessions w ! s)"

definition buffer_released :: "world \<Rightarrow> nat \<Rightarrow> bool" where
  "buffer_released w b = sb_released (wd_buffers w ! b)"

section \<open>Buffers\<close>

definition buffer_address :: "world \<Rightarrow> nat \<Rightarrow> int res" where
  "buffer_address w b =
     (if buffer_released w b \<or> sb_address (wd_buffers w ! b) = None
      then Inl (RuntimeError ''shared buffer has been released'')
      else Inr (the (sb_address (wd_buffers w ! b))))"

definition buffer_size :: "world \<Rightarrow> nat \<Rightarrow> int res" where
  "buffer_size w b =
     (if buffer_released w b then Inl (RuntimeError ''shared buffer has been released'')
      else Inr (sb_size (wd_buffers w ! b)))"

definition buffer_release :: "nat \<Rightarrow> world \<Rightarrow> world" where
  "buffer_release b w =
     (if \<not> buffer_released w b
      then (log_calls [BufferRelease b] w)\<lparr>wd_buffers := (wd_buffers w)[b := (wd_buffers w ! b)\<lparr>sb_released := True\<rparr>]\<rparr>
      else w)"

section \<open>Sessions\<close>

text \<open>A failed constructor releases its result and leaves no session object; the entry it leaves in the
  list is closed from the start, so that no later session gets its index.\<close>

definition InferenceSession :: "session_lib \<Rightarrow> bytes \<Rightarrow> int \<Rightarrow> world \<Rightarrow> nat res \<times> world" where
  "InferenceSession lib graph_blob timeout_ms w =
     (let s = length (wd_sessions w) in
      case sl_create lib (wd_log w) (word_of_int timeout_ms) graph_blob of (status, diagnostic) \<Rightarrow>
        if status \<noteq> 0
        then (Inl (native_raise (sl_native lib) ''graphinfer_session'' status diagnostic None None),
          add_session graph_blob True (log_calls [SessionCreate s, SessionRelease s] w))
        else (Inr s, add_session graph_blob False (log_calls [SessionCreate s] w)))"

definition create_buffer :: "session_lib \<Rightarrow> nat \<Rightarrow> pyval \<Rightarrow> world \<Rightarrow> nat res \<times> world" where
  "create_buffer lib s n w =
     (if session_closed w s then (Inl (RuntimeError ''inference session is closed''), w)
      else if \<not> (is_int n \<and> 0 < int_of n) then (Inl (ValueError ''shared buffer size must be a positive integer''), w)
      else
        let b = length (wd_buffers w) in
        case sl_buffer lib (wd_log w) s (word_of_int (int_of n)) of (status, data, allocated, diagnostic) \<Rightarrow>
          let buffer = \<lparr>sb_session = s, sb_address = data, sb_size = uint allocated, sb_released = (status \<noteq> 0)\<rparr> in
          if status \<noteq> 0
          then (Inl (native_raise (sl_native lib) ''graphinfer_shared_buffer'' status diagnostic None None),
            add_buffer buffer (log_calls [BufferCreate s b, BufferRelease b] w))
          else (Inr b, add_buffer buffer (log_calls [BufferCreate s b] w)))"

text \<open>A binding: a selector and a buffer object, \<open>None\<close> for a value of another class.\<close>

definition bind_tensor :: "world \<Rightarrow> pyval \<times> nat option \<Rightarrow> shared_tensor res" where
  "bind_tensor w = (\<lambda>(tensor, buffer).
     case buffer of
       None \<Rightarrow> Inl (TypeError ''shared tensor bindings require live NativeSharedBuffer values'')
     | Some b \<Rightarrow>
         if buffer_released w b then Inl (TypeError ''shared tensor bindings require live NativeSharedBuffer values'')
         else (case tensor of
             PStr name \<Rightarrow>
               if name = [] then Inl (ValueError ''shared tensor name must not be empty'')
               else Inr \<lparr>sh_argument_index = 0xFFFFFFFF, sh_name = utf8 name, sh_buffer = b\<rparr>
           | PInt i \<Rightarrow>
               if \<not> (0 \<le> i \<and> i < u32_max) then Inl (ValueError ''shared tensor index must fit uint32'')
               else Inr \<lparr>sh_argument_index = word_of_int i, sh_name = [], sh_buffer = b\<rparr>
           | _ \<Rightarrow> Inl (TypeError ''shared tensor selector must be an index or name'')))"

definition binding_array :: "world \<Rightarrow> (pyval \<times> nat option) list \<Rightarrow> shared_tensor list res" where
  "binding_array w values = map_res (bind_tensor w) values"

definition session_infer ::
  "session_lib \<Rightarrow> nat \<Rightarrow> (pyval \<times> nat option) list \<Rightarrow> (pyval \<times> nat option) list \<Rightarrow> world \<Rightarrow> unit res \<times> world" where
  "session_infer lib s inputs outputs w =
     (if session_closed w s then (Inl (RuntimeError ''inference session is closed''), w)
      else case (binding_array w inputs, binding_array w outputs) of
        (Inl e, _) \<Rightarrow> (Inl e, w)
      | (Inr _, Inl e) \<Rightarrow> (Inl e, w)
      | (Inr native_inputs, Inr native_outputs) \<Rightarrow>
          (case sl_infer lib (wd_log w) s native_inputs native_outputs (wd_memory w) of (status, memory, diagnostic) \<Rightarrow>
             let w' = (log_calls [SessionInfer s (map sh_buffer (native_inputs @ native_outputs))] w)\<lparr>wd_memory := memory\<rparr>
             in if status \<noteq> 0
                then (Inl (native_raise (sl_native lib) ''graphinfer_session'' status diagnostic None None), w')
                else (Inr (), w')))"

definition infer_copied :: "session_lib \<Rightarrow> nat \<Rightarrow> inference_input list \<Rightarrow> world \<Rightarrow> inference_result res \<times> world" where
  "infer_copied lib s inputs w =
     (if session_closed w s then (Inl (RuntimeError ''inference session is closed''), w)
      else if inputs = [] then (Inl (ValueError ''at least one inference input is required''), w)
      else (decode_infer_result (sl_native lib) ''graphinfer_session''
          (sl_infer_copied lib (wd_log w) s (map encode_input inputs)),
        log_calls [SessionInferCopied s] w))"

definition session_close :: "nat \<Rightarrow> world \<Rightarrow> world" where
  "session_close s w =
     (if \<not> session_closed w s
      then (log_calls [SessionRelease s] w)\<lparr>wd_sessions := (wd_sessions w)[s := (wd_sessions w ! s)\<lparr>se_closed := True\<rparr>]\<rparr>
      else w)"

section \<open>The execution state of a program\<close>

record execution_state =
  xs_session :: "nat option"
  xs_closed :: bool

definition initial_state :: execution_state where
  "initial_state = \<lparr>xs_session = None, xs_closed = False\<rparr>"

definition get_session ::
  "session_lib \<Rightarrow> bytes \<Rightarrow> int \<Rightarrow> execution_state \<Rightarrow> world \<Rightarrow> nat res \<times> execution_state \<times> world" where
  "get_session lib graph_blob timeout_ms x w =
     (if xs_closed x then (Inl (RuntimeError ''program is closed''), x, w)
      else case xs_session x of
        Some s \<Rightarrow> (Inr s, x, w)
      | None \<Rightarrow>
          (case InferenceSession lib graph_blob timeout_ms w of
             (Inl e, w') \<Rightarrow> (Inl e, x, w')
           | (Inr s, w') \<Rightarrow> (Inr s, x\<lparr>xs_session := Some s\<rparr>, w')))"

text \<open>The part of \<open>close\<close> under the lock, and the whole of it.\<close>

definition take_session :: "execution_state \<Rightarrow> nat option \<times> execution_state" where
  "take_session x = (if xs_closed x then (None, x) else (xs_session x, \<lparr>xs_session = None, xs_closed = True\<rparr>))"

definition close_state :: "execution_state \<Rightarrow> world \<Rightarrow> execution_state \<times> world" where
  "close_state x w =
     (case take_session x of
        (Some s, x') \<Rightarrow> (x', session_close s w)
      | (None, x') \<Rightarrow> (x', w))"

section \<open>Interleaved runs\<close>

text \<open>The state of all threads: the world, the execution states of the programs, and the sessions that
  some thread has taken out and not closed yet.\<close>

record system =
  sy_world :: world
  sy_programs :: "(bytes \<times> execution_state) list"
  sy_closing :: "nat list"

datatype operation =
    NewProgram bytes
  | NewSession bytes int
  | GetSession nat int
  | TakeSession nat
  | FinishClose nat
  | CloseSession nat
  | CreateBuffer nat pyval
  | ReleaseBuffer nat
  | Infer nat "(pyval \<times> nat option) list" "(pyval \<times> nat option) list"
  | InferCopied nat "inference_input list"

text \<open>A program keeps its session to itself: only sessions made with \<open>create_inference_session\<close> are closed
  directly.\<close>

definition holds :: "system \<Rightarrow> nat \<Rightarrow> nat \<Rightarrow> bool" where
  "holds y p s \<longleftrightarrow> p < length (sy_programs y) \<and> xs_session (snd (sy_programs y ! p)) = Some s"

text \<open>A buffer argument of \<open>infer\<close> is an object that exists.\<close>

definition known_buffers :: "world \<Rightarrow> (pyval \<times> nat option) list \<Rightarrow> bool" where
  "known_buffers w bs \<longleftrightarrow> list_all (\<lambda>(_, b). case b of Some i \<Rightarrow> i < length (wd_buffers w) | None \<Rightarrow> True) bs"

inductive step :: "session_lib \<Rightarrow> system \<Rightarrow> operation \<Rightarrow> system \<Rightarrow> bool" for lib where
  new_program: "step lib y (NewProgram blob) (y\<lparr>sy_programs := sy_programs y @ [(blob, initial_state)]\<rparr>)"
| new_session: "step lib y (NewSession blob t) (y\<lparr>sy_world := w'\<rparr>)" if "InferenceSession lib blob t (sy_world y) = (r, w')"
| get: "step lib y (GetSession p t) (y\<lparr>sy_world := w', sy_programs := (sy_programs y)[p := (blob, x')]\<rparr>)"
    if "p < length (sy_programs y)" and "sy_programs y ! p = (blob, x)"
      and "get_session lib blob t x (sy_world y) = (r, x', w')"
| take: "step lib y (TakeSession p)
      (y\<lparr>sy_programs := (sy_programs y)[p := (blob, x')], sy_closing := sy_closing y @ (case s of Some i \<Rightarrow> [i] | None \<Rightarrow> [])\<rparr>)"
    if "p < length (sy_programs y)" and "sy_programs y ! p = (blob, x)" and "take_session x = (s, x')"
| finish: "step lib y (FinishClose s) (y\<lparr>sy_world := session_close s (sy_world y), sy_closing := remove1 s (sy_closing y)\<rparr>)"
    if "s \<in> set (sy_closing y)"
| close: "step lib y (CloseSession s) (y\<lparr>sy_world := session_close s (sy_world y)\<rparr>)"
    if "s < length (wd_sessions (sy_world y))" and "\<And>p. \<not> holds y p s" and "s \<notin> set (sy_closing y)"
| buffer: "step lib y (CreateBuffer s n) (y\<lparr>sy_world := w'\<rparr>)"
    if "s < length (wd_sessions (sy_world y))" and "create_buffer lib s n (sy_world y) = (r, w')"
| release: "step lib y (ReleaseBuffer b) (y\<lparr>sy_world := buffer_release b (sy_world y)\<rparr>)"
    if "b < length (wd_buffers (sy_world y))"
| infer: "step lib y (Infer s ins outs) (y\<lparr>sy_world := w'\<rparr>)"
    if "s < length (wd_sessions (sy_world y))" and "known_buffers (sy_world y) (ins @ outs)"
      and "session_infer lib s ins outs (sy_world y) = (r, w')"
| copied: "step lib y (InferCopied s ins) (y\<lparr>sy_world := w'\<rparr>)"
    if "s < length (wd_sessions (sy_world y))" and "infer_copied lib s ins (sy_world y) = (r, w')"

inductive_cases stepE: "step lib y x y'"

definition start :: system where
  "start = \<lparr>sy_world = \<lparr>wd_sessions = [], wd_buffers = [], wd_memory = (\<lambda>_. []), wd_log = []\<rparr>, sy_programs = [], sy_closing = []\<rparr>"

inductive steps :: "session_lib \<Rightarrow> system \<Rightarrow> operation list \<Rightarrow> system \<Rightarrow> bool" for lib where
  none: "steps lib y [] y"
| more: "steps lib y (xs @ [x]) y''" if "steps lib y xs y'" and "step lib y' x y''"

lemma steps_invariant:
  assumes "steps lib y xs y'" and "Q y" and "\<And>y x y'. step lib y x y' \<Longrightarrow> Q y \<Longrightarrow> Q y'"
  shows "Q y'"
  using assms(1,2) by (induction rule: steps.induct) (auto intro: assms(3))

section \<open>Resource safety\<close>

text \<open>Replaying the history of native calls: which sessions and buffers the library has handed out and not
  got back. \<open>None\<close> means that the history misuses one.\<close>

record usage =
  us_sessions :: nat
  us_open :: "nat list"
  us_buffers :: nat
  us_live :: "nat list"

definition no_usage :: usage where
  "no_usage = \<lparr>us_sessions = 0, us_open = [], us_buffers = 0, us_live = []\<rparr>"

fun replay :: "native_call \<Rightarrow> usage \<Rightarrow> usage option" where
  "replay (SessionCreate s) u =
     (if s = us_sessions u then Some (u\<lparr>us_sessions := Suc s, us_open := s # us_open u\<rparr>) else None)"
| "replay (SessionRelease s) u =
     (if s \<in> set (us_open u) then Some (u\<lparr>us_open := removeAll s (us_open u)\<rparr>) else None)"
| "replay (BufferCreate s b) u =
     (if s \<in> set (us_open u) \<and> b = us_buffers u then Some (u\<lparr>us_buffers := Suc b, us_live := b # us_live u\<rparr>) else None)"
| "replay (BufferRelease b) u =
     (if b \<in> set (us_live u) then Some (u\<lparr>us_live := removeAll b (us_live u)\<rparr>) else None)"
| "replay (SessionInfer s bs) u = (if s \<in> set (us_open u) \<and> set bs \<subseteq> set (us_live u) then Some u else None)"
| "replay (SessionInferCopied s) u = (if s \<in> set (us_open u) then Some u else None)"

fun replay_all :: "native_call list \<Rightarrow> usage \<Rightarrow> usage option" where
  "replay_all [] u = Some u"
| "replay_all (c # cs) u = (case replay c u of None \<Rightarrow> None | Some u' \<Rightarrow> replay_all cs u')"

lemma replay_all_append:
  "replay_all (cs @ ds) u = (case replay_all cs u of None \<Rightarrow> None | Some u' \<Rightarrow> replay_all ds u')"
  by (induction cs arbitrary: u) (auto split: option.splits)

text \<open>The history says of every object what the world says.\<close>

definition agrees :: "world \<Rightarrow> usage \<Rightarrow> bool" where
  "agrees w u \<longleftrightarrow> us_sessions u = length (wd_sessions w) \<and> us_buffers u = length (wd_buffers w) \<and>
     (\<forall>s. s \<in> set (us_open u) \<longleftrightarrow> s < length (wd_sessions w) \<and> \<not> session_closed w s) \<and>
     (\<forall>b. b \<in> set (us_live u) \<longleftrightarrow> b < length (wd_buffers w) \<and> \<not> buffer_released w b)"

definition accounted :: "world \<Rightarrow> bool" where
  "accounted w \<longleftrightarrow> (\<exists>u. replay_all (wd_log w) no_usage = Some u \<and> agrees w u)"

lemma world_updates [simp]:
  "wd_sessions (log_calls cs w) = wd_sessions w" "wd_buffers (log_calls cs w) = wd_buffers w"
  "wd_log (log_calls cs w) = wd_log w @ cs"
  "wd_sessions (add_session g c w) = wd_sessions w @ [\<lparr>se_graph = g, se_closed = c\<rparr>]"
  "wd_buffers (add_session g c w) = wd_buffers w" "wd_log (add_session g c w) = wd_log w"
  "wd_sessions (add_buffer b w) = wd_sessions w" "wd_buffers (add_buffer b w) = wd_buffers w @ [b]"
  "wd_log (add_buffer b w) = wd_log w"
  by (simp_all add: log_calls_def add_session_def add_buffer_def)

text \<open>Any way to extend a world whose new calls replay and whose objects agree with them.\<close>

lemma accountedI:
  assumes "accounted w" and "wd_log w' = wd_log w @ cs"
    and "\<And>u. agrees w u \<Longrightarrow> \<exists>u'. replay_all cs u = Some u' \<and> agrees w' u'"
  shows "accounted w'"
  using assms by (fastforce simp: accounted_def replay_all_append)

lemma InferenceSession_accounted:
  assumes "InferenceSession lib blob t w = (r, w')" and "accounted w"
  shows "accounted w'"
proof -
  let ?s = "length (wd_sessions w)"
  consider "w' = add_session blob True (log_calls [SessionCreate ?s, SessionRelease ?s] w)"
    | "w' = add_session blob False (log_calls [SessionCreate ?s] w)"
    using assms(1) by (auto simp: InferenceSession_def Let_def split: prod.splits if_splits)
  then show ?thesis
    by cases (auto intro!: accountedI [OF assms(2)] simp: agrees_def session_closed_def buffer_released_def nth_append)
qed

lemma create_buffer_accounted:
  assumes "create_buffer lib s n w = (r, w')" and "accounted w" and "s < length (wd_sessions w)"
  shows "accounted w'"
proof (cases "w' = w")
  case False
  let ?b = "length (wd_buffers w)"
  from False assms(1) obtain a m where "\<not> session_closed w s" and
    "w' = add_buffer \<lparr>sb_session = s, sb_address = a, sb_size = m, sb_released = True\<rparr>
        (log_calls [BufferCreate s ?b, BufferRelease ?b] w) \<or>
     w' = add_buffer \<lparr>sb_session = s, sb_address = a, sb_size = m, sb_released = False\<rparr> (log_calls [BufferCreate s ?b] w)"
    by (auto simp: create_buffer_def Let_def split: prod.splits if_splits)
  with assms(3) show ?thesis
    by (elim disjE) (auto intro!: accountedI [OF assms(2)] simp: agrees_def session_closed_def buffer_released_def nth_append)
qed (use assms in simp)

lemma session_close_accounted:
  assumes "accounted w" and "s < length (wd_sessions w)"
  shows "accounted (session_close s w)"
proof (cases "session_closed w s")
  case False
  show ?thesis
    by (rule accountedI [OF assms(1), of _ "[SessionRelease s]"])
      (use False assms(2) in \<open>auto simp: session_close_def agrees_def session_closed_def buffer_released_def nth_list_update\<close>)
qed (use assms in \<open>simp add: session_close_def\<close>)

lemma buffer_release_accounted:
  assumes "accounted w" and "b < length (wd_buffers w)"
  shows "accounted (buffer_release b w)"
proof (cases "buffer_released w b")
  case False
  show ?thesis
    by (rule accountedI [OF assms(1), of _ "[BufferRelease b]"])
      (use False assms(2) in \<open>auto simp: buffer_release_def agrees_def session_closed_def buffer_released_def nth_list_update\<close>)
qed (use assms in \<open>simp add: buffer_release_def\<close>)

lemma bind_tensor_live:
  "bind_tensor w (sel, b) = Inr t \<Longrightarrow> b = Some (sh_buffer t) \<and> \<not> buffer_released w (sh_buffer t)"
  by (cases sel) (auto simp: bind_tensor_def split: option.splits if_splits)

lemma binding_array_live:
  assumes "binding_array w bs = Inr ts" and "known_buffers w bs"
  shows "\<forall>b \<in> set (map sh_buffer ts). b < length (wd_buffers w) \<and> \<not> buffer_released w b"
  using assms unfolding binding_array_def known_buffers_def
  by (induction bs arbitrary: ts) (auto simp: res_simps dest!: bind_tensor_live)

lemma session_infer_accounted:
  assumes "session_infer lib s ins outs w = (r, w')" and "accounted w" and "s < length (wd_sessions w)"
    and "known_buffers w (ins @ outs)"
  shows "accounted w'"
proof (cases "w' = w")
  case False
  with assms(1) obtain ts us m where ts: "binding_array w ins = Inr ts" "binding_array w outs = Inr us"
    and "\<not> session_closed w s" and w': "w' = (log_calls [SessionInfer s (map sh_buffer (ts @ us))] w)\<lparr>wd_memory := m\<rparr>"
    by (auto simp: session_infer_def Let_def split: prod.splits if_splits sum.splits)
  moreover from ts binding_array_live assms(4)
  have "\<forall>b \<in> set (map sh_buffer (ts @ us)). b < length (wd_buffers w) \<and> \<not> buffer_released w b"
    by (auto simp: known_buffers_def)
  ultimately show ?thesis
    using assms(3)
    by (intro accountedI [OF assms(2), of _ "[SessionInfer s (map sh_buffer (ts @ us))]"])
      (auto simp: agrees_def session_closed_def buffer_released_def)
qed (use assms in simp)

lemma infer_copied_accounted:
  assumes "infer_copied lib s ins w = (r, w')" and "accounted w" and "s < length (wd_sessions w)"
  shows "accounted w'"
proof (cases "w' = w")
  case False
  with assms(1) have "\<not> session_closed w s" "w' = log_calls [SessionInferCopied s] w"
    by (auto simp: infer_copied_def split: if_splits)
  then show ?thesis
    using assms(3)
    by (intro accountedI [OF assms(2), of _ "[SessionInferCopied s]"])
      (auto simp: agrees_def session_closed_def buffer_released_def)
qed (use assms in simp)

section \<open>Ownership\<close>

definition open_session :: "world \<Rightarrow> nat \<Rightarrow> bool" where
  "open_session w s \<longleftrightarrow> s < length (wd_sessions w) \<and> \<not> session_closed w s"

text \<open>An open program holds its session alone; a session on its way to be closed is held by no program.
  Both are open.\<close>

definition owned :: "system \<Rightarrow> bool" where
  "owned y \<longleftrightarrow>
     (\<forall>p s. holds y p s \<longrightarrow> open_session (sy_world y) s \<and> s \<notin> set (sy_closing y) \<and> (\<forall>q. holds y q s \<longrightarrow> q = p)) \<and>
     (\<forall>s \<in> set (sy_closing y). open_session (sy_world y) s) \<and> distinct (sy_closing y) \<and>
     (\<forall>p < length (sy_programs y). xs_closed (snd (sy_programs y ! p)) \<longrightarrow> xs_session (snd (sy_programs y ! p)) = None)"

lemma holds_world [simp]: "holds (y\<lparr>sy_world := w\<rparr>) p s = holds y p s" "holds (y\<lparr>sy_closing := cs\<rparr>) p s = holds y p s"
  by (simp_all add: holds_def)

text \<open>The operations of a session and of a buffer close no session and add none.\<close>

definition same_sessions :: "world \<Rightarrow> world \<Rightarrow> bool" where
  "same_sessions w w' \<longleftrightarrow> wd_sessions w' = wd_sessions w"

lemma same_sessions_ops:
  "create_buffer lib s n w = (r, w') \<Longrightarrow> same_sessions w w'"
  "session_infer lib s ins outs w = (r', w') \<Longrightarrow> same_sessions w w'"
  "infer_copied lib s inputs w = (r'', w') \<Longrightarrow> same_sessions w w'"
  "same_sessions w (buffer_release b w)"
  by (auto simp: same_sessions_def create_buffer_def session_infer_def infer_copied_def buffer_release_def Let_def
      split: prod.splits if_splits sum.splits)

lemma owned_mono:
  assumes "owned y" and "\<And>s. open_session (sy_world y) s \<Longrightarrow> open_session w' s"
  shows "owned (y\<lparr>sy_world := w'\<rparr>)"
  using assms by (simp add: owned_def)

lemma owned_same_sessions: "owned y \<Longrightarrow> same_sessions (sy_world y) w' \<Longrightarrow> owned (y\<lparr>sy_world := w'\<rparr>)"
  by (rule owned_mono) (auto simp: same_sessions_def open_session_def session_closed_def)

lemma InferenceSession_result:
  assumes "InferenceSession lib blob t w = (r, w')"
  shows "wd_sessions w' = wd_sessions w @ [\<lparr>se_graph = blob, se_closed = (\<exists>e. r = Inl e)\<rparr>]"
    and "r = Inr s \<Longrightarrow> s = length (wd_sessions w)"
  using assms by (auto simp: InferenceSession_def Let_def split: prod.splits if_splits)

lemma open_session_grown:
  assumes "wd_sessions w' = wd_sessions w @ [e]"
  shows "open_session w s \<Longrightarrow> open_session w' s" and "\<not> se_closed e \<Longrightarrow> open_session w' (length (wd_sessions w))"
  using assms by (simp_all add: open_session_def session_closed_def nth_append)

lemma get_session_cases:
  assumes "get_session lib blob t x w = (r, x', w')"
  obtains "x' = x" "w' = w"
  | e where "x' = x" "InferenceSession lib blob t w = (Inl e, w')"
  | s where "\<not> xs_closed x" "xs_session x = None" "x' = x\<lparr>xs_session := Some s\<rparr>" "InferenceSession lib blob t w = (Inr s, w')"
  using assms by (auto simp: get_session_def split: if_splits option.splits prod.splits sum.splits)

lemma owned_get:
  assumes o: "owned y" and p: "p < length (sy_programs y)" "sy_programs y ! p = (blob, x)"
    and g: "get_session lib blob t x (sy_world y) = (r, x', w')"
  shows "owned (y\<lparr>sy_world := w', sy_programs := (sy_programs y)[p := (blob, x')]\<rparr>)"
proof -
  have same: "(sy_programs y)[p := (blob, x)] = sy_programs y" using p by (metis list_update_id)
  from g show ?thesis
  proof (cases rule: get_session_cases)
    case 1
    with o same show ?thesis by simp
  next
    case (2 e)
    then show ?thesis
      using owned_mono [OF o open_session_grown(1) [OF InferenceSession_result(1) [OF 2(2)]]] same by simp
  next
    case (3 s)
    note w' = InferenceSession_result(1) [OF 3(4)] and s = InferenceSession_result(2) [OF 3(4) refl]
    have grown: "open_session (sy_world y) i \<Longrightarrow> open_session w' i" for i by (rule open_session_grown(1) [OF w'])
    have new: "open_session w' s" unfolding s by (rule open_session_grown(2) [OF w']) simp
    have fresh: "\<not> open_session (sy_world y) s" by (simp add: s open_session_def)
    let ?y = "y\<lparr>sy_world := w', sy_programs := (sy_programs y)[p := (blob, x')]\<rparr>"
    have h: "holds ?y q i \<longleftrightarrow> (if q = p then i = s else holds y q i)" for q i
      using p 3 by (auto simp: holds_def nth_list_update)
    have "\<not> holds y p i" for i using p 3 by (simp add: holds_def)
    moreover have "xs_closed (snd (sy_programs ?y ! q)) \<longrightarrow> xs_session (snd (sy_programs ?y ! q)) = None"
      if "q < length (sy_programs ?y)" for q
      using o p 3 that by (auto simp: owned_def nth_list_update)
    ultimately show ?thesis
      using o grown new fresh unfolding owned_def h by (auto split: if_splits)
  qed
qed

lemma owned_take:
  assumes o: "owned y" and p: "p < length (sy_programs y)" "sy_programs y ! p = (blob, x)" and t: "take_session x = (s, x')"
  shows "owned (y\<lparr>sy_programs := (sy_programs y)[p := (blob, x')],
    sy_closing := sy_closing y @ (case s of Some i \<Rightarrow> [i] | None \<Rightarrow> [])\<rparr>)"
    (is "owned ?y")
proof (cases "xs_closed x")
  case True
  then have "s = None" "x' = x" using t by (auto simp: take_session_def)
  moreover have "(sy_programs y)[p := (blob, x)] = sy_programs y" using p by (metis list_update_id)
  ultimately show ?thesis using o by simp
next
  case False
  then have s: "s = xs_session x" and x': "xs_session x' = None" using t by (auto simp: take_session_def)
  have h: "holds ?y q i \<longleftrightarrow> q \<noteq> p \<and> holds y q i" for q i
    using p x' by (auto simp: holds_def nth_list_update)
  have mine: "s = Some i \<Longrightarrow> holds y p i" for i using p s by (simp add: holds_def)
  have "xs_closed (snd (sy_programs ?y ! q)) \<longrightarrow> xs_session (snd (sy_programs ?y ! q)) = None"
    if "q < length (sy_programs ?y)" for q
    using o p x' that by (auto simp: owned_def nth_list_update)
  then show ?thesis
    using o mine unfolding owned_def h by (auto split: option.splits)
qed

lemma session_close_open:
  "open_session (session_close s w) i \<longleftrightarrow> open_session w i \<and> i \<noteq> s"
  by (cases "i = s") (auto simp: session_close_def open_session_def session_closed_def)

lemma owned_close:
  assumes "owned y" and "\<And>p. \<not> holds y p s"
  shows "s \<notin> set (sy_closing y) \<Longrightarrow> owned (y\<lparr>sy_world := session_close s (sy_world y)\<rparr>)"
    and "owned (y\<lparr>sy_world := session_close s (sy_world y), sy_closing := remove1 s (sy_closing y)\<rparr>)"
proof -
  show "s \<notin> set (sy_closing y) \<Longrightarrow> owned (y\<lparr>sy_world := session_close s (sy_world y)\<rparr>)"
    using assms unfolding owned_def by (auto simp: session_close_open)
  show "owned (y\<lparr>sy_world := session_close s (sy_world y), sy_closing := remove1 s (sy_closing y)\<rparr>)"
    using assms unfolding owned_def by (auto simp: session_close_open set_remove1_eq)
qed

definition safe :: "system \<Rightarrow> bool" where
  "safe y \<longleftrightarrow> accounted (sy_world y) \<and> owned y"

lemma safe_start: "safe start"
  by (simp add: safe_def start_def accounted_def agrees_def owned_def holds_def no_usage_def)

lemma get_session_accounted: "get_session lib blob t x w = (r, x', w') \<Longrightarrow> accounted w \<Longrightarrow> accounted w'"
  by (elim get_session_cases) (auto intro: InferenceSession_accounted)

lemma step_safe: "step lib y x y' \<Longrightarrow> safe y \<Longrightarrow> safe y'"
proof (induction rule: step.induct)
  case (new_program y blob)
  have "holds (y\<lparr>sy_programs := sy_programs y @ [(blob, initial_state)]\<rparr>) p s \<longleftrightarrow> holds y p s" for p s
    by (auto simp: holds_def nth_append initial_state_def)
  with new_program show ?case
    unfolding safe_def owned_def by (auto simp: nth_append initial_state_def)
next
  case (new_session blob t y r w')
  then show ?case
    using owned_mono [OF _ open_session_grown(1) [OF InferenceSession_result(1) [OF new_session(1)]]]
    by (auto simp: safe_def intro: InferenceSession_accounted)
next
  case (get p y blob x t r x' w')
  then show ?case by (auto simp: safe_def intro: get_session_accounted owned_get)
next
  case (take p y blob x s x')
  then show ?case using owned_take [of y p blob x s x'] by (auto simp: safe_def)
next
  case (finish s y)
  moreover have "\<not> holds y p s" for p using finish by (auto simp: safe_def owned_def)
  moreover have "s < length (wd_sessions (sy_world y))" using finish by (auto simp: safe_def owned_def open_session_def)
  ultimately show ?case using owned_close(2) [of y s] by (auto simp: safe_def intro: session_close_accounted)
next
  case (close s y)
  then show ?case by (auto simp: safe_def intro: session_close_accounted owned_close(1))
next
  case (buffer s y n r w')
  then show ?case
    using owned_same_sessions [OF _ same_sessions_ops(1) [OF buffer(2)]] by (auto simp: safe_def intro: create_buffer_accounted)
next
  case (release b y)
  then show ?case
    using owned_same_sessions [OF _ same_sessions_ops(4)] by (auto simp: safe_def intro: buffer_release_accounted)
next
  case (infer s y ins outs r w')
  then show ?case
    using owned_same_sessions [OF _ same_sessions_ops(2) [OF infer(3)]] by (auto simp: safe_def intro: session_infer_accounted)
next
  case (copied s y ins r w')
  then show ?case
    using owned_same_sessions [OF _ same_sessions_ops(3) [OF copied(2)]] by (auto simp: safe_def intro: infer_copied_accounted)
qed

lemma steps_safe: "steps lib start xs y \<Longrightarrow> safe y"
  by (rule steps_invariant [where Q = safe]) (auto intro: safe_start step_safe)

section \<open>What the history shows\<close>

fun uses_session :: "nat \<Rightarrow> native_call \<Rightarrow> bool" where
  "uses_session s (SessionRelease t) = (s = t)"
| "uses_session s (BufferCreate t _) = (s = t)"
| "uses_session s (SessionInfer t _) = (s = t)"
| "uses_session s (SessionInferCopied t) = (s = t)"
| "uses_session s _ = False"

fun uses_buffer :: "nat \<Rightarrow> native_call \<Rightarrow> bool" where
  "uses_buffer b (BufferRelease c) = (b = c)"
| "uses_buffer b (SessionInfer _ bs) = (b \<in> set bs)"
| "uses_buffer b _ = False"

lemma replay_unused:
  assumes "replay c u = Some u'"
  shows "s < us_sessions u \<Longrightarrow> s \<notin> set (us_open u) \<Longrightarrow> \<not> uses_session s c \<and> s < us_sessions u' \<and> s \<notin> set (us_open u')"
    and "b < us_buffers u \<Longrightarrow> b \<notin> set (us_live u) \<Longrightarrow> \<not> uses_buffer b c \<and> b < us_buffers u' \<and> b \<notin> set (us_live u')"
  using assms by (cases c; auto split: if_splits)+

lemma replay_all_unused:
  assumes "replay_all cs u = Some u'"
  shows "s < us_sessions u \<Longrightarrow> s \<notin> set (us_open u) \<Longrightarrow> list_all (\<lambda>c. \<not> uses_session s c) cs \<and> s \<notin> set (us_open u')"
    and "b < us_buffers u \<Longrightarrow> b \<notin> set (us_live u) \<Longrightarrow> list_all (\<lambda>c. \<not> uses_buffer b c) cs"
  using assms
proof (induction cs arbitrary: u)
  case (Cons c cs)
  { case 1
    then show ?case using Cons.IH(1) replay_unused(1) by (fastforce split: option.splits) }
  { case 2
    then show ?case using Cons.IH(2) replay_unused(2) by (fastforce split: option.splits) }
qed simp_all

definition bounded_usage :: "usage \<Rightarrow> bool" where
  "bounded_usage u \<longleftrightarrow> (\<forall>s \<in> set (us_open u). s < us_sessions u) \<and> (\<forall>b \<in> set (us_live u). b < us_buffers u)"

lemma replay_bounded: "replay c u = Some u' \<Longrightarrow> bounded_usage u \<Longrightarrow> bounded_usage u'"
  by (cases c) (auto simp: bounded_usage_def less_Suc_eq split: if_splits)

lemma replay_all_bounded: "replay_all cs u = Some u' \<Longrightarrow> bounded_usage u \<Longrightarrow> bounded_usage u'"
  by (induction cs arbitrary: u) (auto split: option.splits intro: replay_bounded)


section \<open>The life cycle of a program\<close>

datatype phase = Idle | Serving nat | Done

definition phase_of :: "system \<Rightarrow> nat \<Rightarrow> phase" where
  "phase_of y p =
     (let x = snd (sy_programs y ! p) in
      if xs_closed x then Done else case xs_session x of Some s \<Rightarrow> Serving s | None \<Rightarrow> Idle)"

fun advances :: "phase \<Rightarrow> phase \<Rightarrow> bool" where
  "advances Idle _ = True"
| "advances (Serving s) q = (q = Serving s \<or> q = Done)"
| "advances Done q = (q = Done)"

lemma advances_refl [simp]: "advances a a"
  by (cases a) auto

lemma advances_trans: "advances a b \<Longrightarrow> advances b c \<Longrightarrow> advances a c"
  by (cases a; cases b) auto

lemma get_session_advances:
  assumes "get_session lib blob t x w = (r, x', w')" and "p < length ps" and "ps ! p = (blob, x)"
  shows "advances (phase_of (y\<lparr>sy_programs := ps\<rparr>) q) (phase_of (y\<lparr>sy_world := w', sy_programs := ps[p := (blob, x')]\<rparr>) q)"
  using assms(1)
proof (cases rule: get_session_cases)
  case (3 s)
  with assms(2,3) show ?thesis by (auto simp: phase_of_def nth_list_update Let_def)
qed (use assms(2,3) in \<open>auto simp: phase_of_def nth_list_update Let_def\<close>)

lemma take_session_advances:
  assumes "take_session x = (s, x')" and "p < length ps" and "ps ! p = (blob, x)"
  shows "advances (phase_of (y\<lparr>sy_programs := ps\<rparr>) q) (phase_of (y\<lparr>sy_programs := ps[p := (blob, x')], sy_closing := cs\<rparr>) q)"
proof (cases "q = p")
  case True
  then have "phase_of (y\<lparr>sy_programs := ps[p := (blob, x')], sy_closing := cs\<rparr>) q = Done"
    using assms by (auto simp: phase_of_def take_session_def split: if_splits)
  then show ?thesis by (cases "phase_of (y\<lparr>sy_programs := ps\<rparr>) q") auto
qed (simp add: phase_of_def)

lemma step_advances:
  assumes "step lib y x y'" and "p < length (sy_programs y)"
  shows "advances (phase_of y p) (phase_of y' p) \<and> p < length (sy_programs y')"
  using assms
proof (induction rule: step.induct)
  case (get q y blob x t r x' w')
  then show ?case using get_session_advances [of lib blob t x "sy_world y" r x' w' q "sy_programs y" y p] by simp
next
  case (take q y blob x s x')
  then show ?case using take_session_advances [of x s x' q "sy_programs y" blob y p] by simp
qed (simp_all add: phase_of_def nth_append)

lemma steps_advances:
  assumes "steps lib y xs y'" and "p < length (sy_programs y)"
  shows "advances (phase_of y p) (phase_of y' p) \<and> p < length (sy_programs y')"
  using assms by (induction rule: steps.induct) (auto dest: step_advances intro: advances_trans)

lemma steps_append:
  assumes "steps lib y' bs y''"
  shows "steps lib y as y' \<Longrightarrow> steps lib y (as @ bs) y''"
  using assms
proof (induction rule: steps.induct)
  case (more y xs y' x y'')
  then show ?case using steps.more [of lib _ "as @ xs"] by simp
qed simp

lemma phase_holds: "p < length (sy_programs y) \<Longrightarrow> phase_of y p = Serving s \<Longrightarrow> holds y p s"
  by (auto simp: phase_of_def holds_def Let_def split: if_splits option.splits)

lemma holds_phase: "safe y \<Longrightarrow> holds y p s \<Longrightarrow> phase_of y p = Serving s"
  by (auto simp: phase_of_def holds_def safe_def owned_def Let_def split: option.splits)

text \<open>C14 A program serves runs with one session at most and never comes back: in every interleaving, a program
  goes from having no session to serving one, keeps that session until it is closed, and is closed for
  good after that. The session it serves is open, and no other program uses it.\<close>

theorem program_life_cycle:
  assumes "steps lib start as y" and "steps lib y bs z" and "p < length (sy_programs y)"
  shows "advances (phase_of y p) (phase_of z p) \<and>
    (\<forall>s. phase_of z p = Serving s \<longrightarrow> \<not> session_closed (sy_world z) s \<and>
       (\<forall>q < length (sy_programs z). phase_of z q = Serving s \<longrightarrow> q = p))"
proof -
  have z: "safe z" using steps_safe [OF steps_append [OF assms(2,1)]] .
  have "p < length (sy_programs z)" using steps_advances [OF assms(2,3)] by simp
  with z have "\<forall>s. phase_of z p = Serving s \<longrightarrow> \<not> session_closed (sy_world z) s \<and>
      (\<forall>q < length (sy_programs z). phase_of z q = Serving s \<longrightarrow> q = p)"
    by (auto simp: safe_def owned_def open_session_def dest!: phase_holds)
  with steps_advances [OF assms(2,3)] show ?thesis by simp
qed

lemma released_once:
  assumes "safe y" and "open_session (sy_world y) s"
  shows "count_list (wd_log (sy_world y)) (SessionRelease s) = 0"
proof (rule ccontr)
  assume "count_list (wd_log (sy_world y)) (SessionRelease s) \<noteq> 0"
  then obtain before after where log: "wd_log (sy_world y) = before @ SessionRelease s # after"
    by (auto simp: count_list_0_iff dest: split_list)
  from assms obtain u where u: "replay_all (wd_log (sy_world y)) no_usage = Some u" "s \<in> set (us_open u)"
    by (auto simp: safe_def accounted_def agrees_def open_session_def)
  then obtain v where v: "replay_all before no_usage = Some v" "replay_all (SessionRelease s # after) v = Some u"
    by (auto simp: log replay_all_append split: option.splits)
  have "bounded_usage v" by (rule replay_all_bounded [OF v(1)]) (simp add: bounded_usage_def no_usage_def)
  with v(2) u(2) show False
    by (auto simp: bounded_usage_def split: if_splits dest!: replay_all_unused(1) [of _ _ _ s])
qed

text \<open>C15 Closing a serving program releases its session, once, and for good: from every state of every
  interleaving in which a program serves session \<open>s\<close>, both halves of \<open>close\<close> can run; the session is then
  closed and has been released exactly once, and whatever happens later, \<open>get_session\<close> of this program
  raises.\<close>

theorem close_releases_session:
  assumes "steps lib start ops y" and "p < length (sy_programs y)" and "phase_of y p = Serving s"
  shows "\<exists>y' y''. step lib y (TakeSession p) y' \<and> step lib y' (FinishClose s) y'' \<and> session_closed (sy_world y'') s \<and>
    count_list (wd_log (sy_world y'')) (SessionRelease s) = 1 \<and>
    (\<forall>ops' z blob t. steps lib y'' ops' z \<longrightarrow>
       fst (get_session lib blob t (snd (sy_programs z ! p)) (sy_world z)) = Inl (RuntimeError ''program is closed''))"
proof -
  have y: "safe y" by (rule steps_safe [OF assms(1)])
  obtain blob x where x: "sy_programs y ! p = (blob, x)" by (cases "sy_programs y ! p")
  have h: "holds y p s" by (rule phase_holds [OF assms(2,3)])
  have x_s: "take_session x = (Some s, \<lparr>xs_session = None, xs_closed = True\<rparr>)"
    using h y x assms(3) by (auto simp: take_session_def holds_def phase_of_def Let_def split: if_splits)
  let ?y' = "y\<lparr>sy_programs := (sy_programs y)[p := (blob, \<lparr>xs_session = None, xs_closed = True\<rparr>)], sy_closing := sy_closing y @ [s]\<rparr>"
  let ?y'' = "?y'\<lparr>sy_world := session_close s (sy_world ?y'), sy_closing := remove1 s (sy_closing ?y')\<rparr>"
  have 1: "step lib y (TakeSession p) ?y'" using step.take [OF assms(2) x x_s, of lib] by simp
  have 2: "step lib ?y' (FinishClose s) ?y''" by (rule step.finish) simp
  have o: "open_session (sy_world y) s" using y h by (auto simp: safe_def owned_def)
  have "phase_of ?y'' p = Done" using assms(2) by (simp add: phase_of_def)
  then have "phase_of z p = Done" if "steps lib ?y'' ops' z" for ops' z
    using steps_advances [OF that, of p] assms(2) by simp
  then have "fst (get_session lib b t (snd (sy_programs z ! p)) (sy_world z)) = Inl (RuntimeError ''program is closed'')"
    if "steps lib ?y'' ops' z" for ops' z b t
    using that by (fastforce simp: phase_of_def get_session_def Let_def split: if_splits option.splits)
  moreover have "session_closed (sy_world ?y'') s"
    using o by (simp add: session_close_def session_closed_def open_session_def)
  moreover have "count_list (wd_log (sy_world ?y'')) (SessionRelease s) = 1"
    using released_once [OF y o] o by (simp add: session_close_def open_session_def)
  ultimately show ?thesis using 1 2 by blast
qed

section \<open>A run\<close>

text \<open>A library that accepts every call, one program, one shared buffer: the program gets its session, the
  buffer is bound to a run and released, and the program is closed.\<close>

definition demo_session_lib :: session_lib where
  "demo_session_lib = \<lparr>sl_native = failing_lib, sl_create = \<lambda>_ _ _. (0, None),
     sl_buffer = \<lambda>_ _ n. (0, Some 4096, n, None), sl_infer = \<lambda>_ _ _ _ m. (0, m, None),
     sl_infer_copied = \<lambda>_ _ ins. nl_infer failing_lib 0 [] ins\<rparr>"

definition demo_serving :: system where
  "demo_serving = \<lparr>sy_world = \<lparr>wd_sessions = [\<lparr>se_graph = [7], se_closed = False\<rparr>], wd_buffers = [], wd_memory = (\<lambda>_. []),
       wd_log = [SessionCreate 0]\<rparr>,
     sy_programs = [([7], \<lparr>xs_session = Some 0, xs_closed = False\<rparr>)], sy_closing = []\<rparr>"

lemma demo_serves: "steps demo_session_lib start [NewProgram [7], GetSession 0 100] demo_serving"
proof -
  let ?y = "start\<lparr>sy_programs := [([7], initial_state)]\<rparr>"
  have "step demo_session_lib start (NewProgram [7]) ?y"
    using step.new_program [of demo_session_lib start "[7]"] by (simp add: start_def)
  moreover have "step demo_session_lib ?y (GetSession 0 100) demo_serving"
    using step.get [of 0 ?y "[7]" initial_state demo_session_lib 100 "Inr 0" "\<lparr>xs_session = Some 0, xs_closed = False\<rparr>" "sy_world demo_serving"]
    by (simp add: start_def demo_serving_def initial_state_def get_session_def InferenceSession_def demo_session_lib_def
        add_session_def log_calls_def)
  ultimately show ?thesis
    using steps.more [OF steps.more [OF steps.none [of demo_session_lib start]]] by fastforce
qed

definition demo_buffered :: system where
  "demo_buffered = demo_serving\<lparr>sy_world := buffer_release 0 (snd (session_infer demo_session_lib 0 [(PStr ''x'', Some 0)] []
     (snd (create_buffer demo_session_lib 0 (PInt 16) (sy_world demo_serving)))))\<rparr>"

lemma demo_buffers:
  "steps demo_session_lib demo_serving [CreateBuffer 0 (PInt 16), Infer 0 [(PStr ''x'', Some 0)] [], ReleaseBuffer 0] demo_buffered"
proof -
  let ?w1 = "snd (create_buffer demo_session_lib 0 (PInt 16) (sy_world demo_serving))"
  let ?w2 = "snd (session_infer demo_session_lib 0 [(PStr ''x'', Some 0)] [] ?w1)"
  have "step demo_session_lib demo_serving (CreateBuffer 0 (PInt 16)) (demo_serving\<lparr>sy_world := ?w1\<rparr>)"
    by (rule step.buffer [where r = "fst (create_buffer demo_session_lib 0 (PInt 16) (sy_world demo_serving))"])
      (simp_all add: demo_serving_def)
  moreover have w1: "length (wd_buffers ?w1) = 1" "length (wd_sessions ?w1) = 1"
    by (simp_all add: create_buffer_def demo_session_lib_def demo_serving_def session_closed_def)
  then have "step demo_session_lib (demo_serving\<lparr>sy_world := ?w1\<rparr>) (Infer 0 [(PStr ''x'', Some 0)] []) (demo_serving\<lparr>sy_world := ?w2\<rparr>)"
    using step.infer [of 0 "demo_serving\<lparr>sy_world := ?w1\<rparr>" "[(PStr ''x'', Some 0)]" "[]" demo_session_lib
        "fst (session_infer demo_session_lib 0 [(PStr ''x'', Some 0)] [] ?w1)" ?w2]
    by (simp add: known_buffers_def)
  moreover have "wd_buffers ?w2 = wd_buffers ?w1"
    by (simp add: session_infer_def create_buffer_def demo_session_lib_def demo_serving_def session_closed_def Let_def
        split: sum.splits)
  then have "step demo_session_lib (demo_serving\<lparr>sy_world := ?w2\<rparr>) (ReleaseBuffer 0) demo_buffered"
    using step.release [of 0 "demo_serving\<lparr>sy_world := ?w2\<rparr>" demo_session_lib] w1 by (simp add: demo_buffered_def)
  ultimately show ?thesis
    using steps.more [OF steps.more [OF steps.more [OF steps.none [of demo_session_lib demo_serving]]]] by fastforce
qed

lemma demo_log:
  "wd_log (sy_world demo_buffered) = [SessionCreate 0, BufferCreate 0 0, SessionInfer 0 [0], BufferRelease 0]"
  by (simp add: demo_buffered_def demo_serving_def demo_session_lib_def buffer_release_def session_infer_def create_buffer_def
      binding_array_def bind_tensor_def session_closed_def buffer_released_def add_buffer_def log_calls_def)

lemma demo_phase: "phase_of demo_buffered 0 = Serving 0 \<and> length (sy_programs demo_buffered) = 1"
  by (simp add: phase_of_def demo_buffered_def demo_serving_def)


lemma program_life_cycle_witness:
  "advances (phase_of demo_serving 0) (phase_of demo_buffered 0) \<and> \<not> session_closed (sy_world demo_buffered) 0"
  using program_life_cycle [OF demo_serves demo_buffers, of 0] demo_phase by (simp add: demo_serving_def)

lemma close_releases_session_witness:
  "\<exists>y' y''. step demo_session_lib demo_buffered (TakeSession 0) y' \<and> step demo_session_lib y' (FinishClose 0) y'' \<and>
     session_closed (sy_world y'') 0 \<and> count_list (wd_log (sy_world y'')) (SessionRelease 0) = 1"
  using close_releases_session [OF steps_append [OF demo_buffers demo_serves], of 0 0] demo_phase by auto

end
