(* ===== verification/Json_Size.thy ===== *)
theory Json_Size
  imports Json
begin

text \<open>
  Bounds on the length of the JSON documents the program writes, for the size limits of the bundles.
\<close>

section \<open>The size of a document\<close>

text \<open>An upper bound of the length of a JSON text, and of its UTF-8 bytes; it does not depend on the order of the keys.\<close>

fun json_bound :: "nat option \<Rightarrow> nat \<Rightarrow> pyval \<Rightarrow> nat" where
  "json_bound ind level (PInt i) = nat \<bar>i\<bar> + 2"
| "json_bound ind level (PStr s) = 6 * length s + 2"
| "json_bound ind level (PTuple vs) = sum_list (map (json_bound ind (Suc level)) vs) +
     (length vs + 2) * (length (json_newline ind (Suc level)) + 1) + 2"
| "json_bound ind level (PList vs) = sum_list (map (json_bound ind (Suc level)) vs) +
     (length vs + 2) * (length (json_newline ind (Suc level)) + 1) + 2"
| "json_bound ind level (PDict d) = sum_list (map (\<lambda>(k, v). 6 * length k + 4 + json_bound ind (Suc level) v) d) +
     (length d + 2) * (length (json_newline ind (Suc level)) + 1) + 2"
| "json_bound ind level v = 5"

lemma nat_str_length: "length (nat_str n) \<le> Suc n"
proof (induction n rule: less_induct)
  case (less n)
  show ?case
  proof (cases "n < 10")
    case False
    then have "length (nat_str (n div 10)) \<le> Suc (n div 10)" by (intro less) simp
    with False show ?thesis by (subst nat_str.simps) simp
  qed (subst nat_str.simps, simp)
qed

lemma int_str_length: "length (int_str i) \<le> nat \<bar>i\<bar> + 2"
  using nat_str_length [of "nat i"] nat_str_length [of "nat (- i)"] by (auto simp: int_str_def)

lemma json_string_length: "length (json_string s) \<le> 6 * length s + 2"
proof -
  have "length (json_escape c) \<le> 6" for c by (simp add: json_escape_def Let_def)
  then have "length (concat (map json_escape s)) \<le> 6 * length s"
    by (induction s) (auto intro: add_mono)
  then show ?thesis by (simp add: json_string_def)
qed

lemma json_newline_mono: "length (json_newline ind level) \<le> length (json_newline ind (Suc level))"
  by (simp add: json_newline_def split: option.splits)

lemma str_join_length: "length (str_join sep items) \<le> sum_list (map length items) + length items * length sep"
  by (induction sep items rule: str_join.induct) auto

lemma json_block_length:
  "length (json_block ind level opening closing items) \<le>
     sum_list (map length items) + (length items + 2) * (length (json_newline ind (Suc level)) + 1) + 2"
proof -
  have "length (str_join (CHR '','' # json_newline ind (Suc level)) items) \<le>
      sum_list (map length items) + length items * Suc (length (json_newline ind (Suc level)))"
    using str_join_length [of "CHR '','' # json_newline ind (Suc level)" items] by simp
  with json_newline_mono [of ind level] show ?thesis by (simp add: json_block_def algebra_simps)
qed

lemma map_res_sum:
  assumes "map_res f xs = Inr ys" and "\<And>x y. x \<in> set xs \<Longrightarrow> f x = Inr y \<Longrightarrow> length y \<le> b x"
  shows "length ys = length xs \<and> sum_list (map length ys) \<le> sum_list (map b xs)"
  using assms
proof (induction xs arbitrary: ys)
  case (Cons x xs)
  then obtain y ys' where y: "f x = Inr y" "map_res f xs = Inr ys'" "ys = y # ys'" by (auto simp: bind_res_eq_Inr)
  with Cons.IH [OF y(2)] Cons.prems(2) show ?case by (force intro: add_mono)
qed simp

lemma json_text_length: "jsonable v \<Longrightarrow> json_text ind level v = Inr t \<Longrightarrow> length t \<le> json_bound ind level v"
proof (induction ind level v arbitrary: t rule: json_text.induct)
  case (6 ind level vs)
  then obtain items where items: "map_res (json_text ind (Suc level)) vs = Inr items"
    and t: "t = json_block ind level (CHR ''['') (CHR '']'') items" by (auto simp: bind_res_eq_Inr)
  have "length items = length vs \<and> sum_list (map length items) \<le> sum_list (map (json_bound ind (Suc level)) vs)"
    by (rule map_res_sum [OF items]) (use 6 in \<open>auto simp: list_all_iff\<close>)
  then show ?case using json_block_length [of ind level "CHR ''[''" "CHR '']''" items] by (simp add: t)
next
  case (7 ind level vs)
  then obtain items where items: "map_res (json_text ind (Suc level)) vs = Inr items"
    and t: "t = json_block ind level (CHR ''['') (CHR '']'') items" by (auto simp: bind_res_eq_Inr)
  have "length items = length vs \<and> sum_list (map length items) \<le> sum_list (map (json_bound ind (Suc level)) vs)"
    by (rule map_res_sum [OF items]) (use 7 in \<open>auto simp: list_all_iff\<close>)
  then show ?case using json_block_length [of ind level "CHR ''[''" "CHR '']''" items] by (simp add: t)
next
  case (8 ind level d)
  let ?b = "\<lambda>(k, v). 6 * length k + 4 + json_bound ind (Suc level) v"
  obtain items where items: "map_res (\<lambda>(k, v). bind_res (json_text ind (Suc level) v) (\<lambda>t. Inr (json_string k @ json_colon ind @ t)))
      (sort_key fst d) = Inr items" and t: "t = json_block ind level (CHR ''{'') (CHR ''}'') items"
    using 8(3) by (auto simp: bind_res_eq_Inr)
  have "length items = length (sort_key fst d) \<and> sum_list (map length items) \<le> sum_list (map ?b (sort_key fst d))"
  proof (rule map_res_sum [OF items])
    fix x y
    assume x: "x \<in> set (sort_key fst d)" and y: "(case x of (k, v) \<Rightarrow> bind_res (json_text ind (Suc level) v) (\<lambda>t. Inr (json_string k @ json_colon ind @ t))) = Inr y"
    obtain k v where kv: "x = (k, v)" by (cases x)
    with y obtain s where s: "json_text ind (Suc level) v = Inr s" "y = json_string k @ json_colon ind @ s" by (auto simp: bind_res_eq_Inr)
    have "jsonable v" using 8(2) x kv by (auto simp: list_all_iff)
    have "length s \<le> json_bound ind (Suc level) v" by (rule 8(1) [OF x kv [symmetric] \<open>jsonable v\<close> s(1)])
    moreover have "length (json_colon ind) \<le> 2" by (simp add: json_colon_def split: option.splits)
    ultimately show "length y \<le> ?b x" using json_string_length [of k] by (simp add: s kv)
  qed
  moreover have "sum_list (map ?b (sort_key fst d)) = sum_list (map ?b d)"
    by (metis (no_types) mset_map mset_sort sum_mset_sum_list)
  ultimately show ?case using json_block_length [of ind level "CHR ''{''" "CHR ''}''" items] by (simp add: t)
qed (use int_str_length json_string_length in auto)

lemma utf8_size: "length (utf8 s) \<le> 2 * length s"
  by (induction s) (simp_all add: utf8_def Let_def)

end
