(* ===== verification/Program.thy ===== *)
theory Program
  imports Ir External Session Json_Size
begin

text \<open>
  The programs of \<open>__init__.py\<close>: tensor contracts, the \<open>Program\<close> data class with its derived contracts,
  provenance and manifest, the bundle that \<open>export\<close> writes and \<open>load\<close> reads, shared arrays, \<open>run\<close>, kernel
  compilation and the reviewed-IR path \<open>prepare_ir\<close>/\<open>PreparedIr.build\<close>.

  A ZIP file is what \<open>zipfile\<close> shows of it: the member names with their flags, declared sizes and what
  reading them gives. A graph refers to the node store of \<open>Symbolic_Graph\<close>; \<open>limit\<close> is the recursion
  limit of the interpreter. The execution state and the world of native calls are passed and returned.
  NumPy is a parameter: \<open>asarray\<close> gives what \<open>np.asarray\<close> makes of an argument.
\<close>

section \<open>Tensor contracts\<close>

record tensor_contract =
  tk_name :: string
  tk_spec :: tensor_spec

abbreviation tk_shape :: "tensor_contract \<Rightarrow> int list" where
  "tk_shape c \<equiv> ts_shape (tk_spec c)"

abbreviation tk_dtype :: "tensor_contract \<Rightarrow> string" where
  "tk_dtype c \<equiv> ts_dtype (tk_spec c)"

definition TensorContract :: "pyval \<Rightarrow> pyval \<Rightarrow> pyval \<Rightarrow> tensor_contract res" where
  "TensorContract name shape dtype =
     (case name of
        PStr s \<Rightarrow>
          if s = [] then Inl (ValueError ''tensor contract name must be a non-empty string'')
          else bind_res (TensorSpec shape dtype) (\<lambda>spec. Inr \<lparr>tk_name = s, tk_spec = spec\<rparr>)
      | _ \<Rightarrow> Inl (ValueError ''tensor contract name must be a non-empty string''))"

definition contract_json :: "tensor_contract \<Rightarrow> pyval" where
  "contract_json c = PDict [(''name'', PStr (tk_name c)), (''shape'', PList (map PInt (tk_shape c))),
     (''dtype'', PStr (tk_dtype c))]"

definition contract_boundary :: "tensor_contract \<Rightarrow> boundary" where
  "contract_boundary c = (tk_name c, tk_shape c, tk_dtype c)"

text \<open>\<open>_EXECUTION_NUMPY_DTYPES\<close>: the name and the item size of each NumPy dtype\<close>

definition execution_dtypes :: "(string \<times> string \<times> int) list" where
  "execution_dtypes =
    [(''f16'', ''float16'', 2), (''f32'', ''float32'', 4), (''u8'', ''uint8'', 1), (''i8'', ''int8'', 1), (''u16'', ''uint16'', 2),
     (''i16'', ''int16'', 2), (''u32'', ''uint32'', 4), (''i32'', ''int32'', 4), (''i64'', ''int64'', 8)]"

section \<open>Programs\<close>

record program =
  pg_graph_blob :: bytes
  pg_graph :: "graph option"
  pg_serialized_ir :: "serialized_ir option"
  pg_ir_provenance :: "ir_compile_result option"
  pg_patch_reports :: "bytes list"
  pg_timeout_ms :: int
  pg_saved_inputs :: "tensor_contract list"
  pg_saved_outputs :: "tensor_contract list"
  pg_artifact_manifest :: "bytes option"

definition graph_input_contract :: "tensor \<Rightarrow> tensor_contract res" where
  "graph_input_contract t =
     (case t_name t of
        None \<Rightarrow> Inl (ValueError ''all graph inputs must have names'')
      | Some name \<Rightarrow> TensorContract (PStr name) (shape_val (t_shape t)) (PStr (t_dtype t)))"

text \<open>\<open>name or fallback\<close> for a name that may be missing or empty is \<open>or_default\<close>.\<close>

definition output_contract_name :: "store \<Rightarrow> nat list \<Rightarrow> nat \<Rightarrow> tensor \<Rightarrow> string" where
  "output_contract_name st nodes result_index t =
     (let producer = node_at st (t_producer t);
          name = (if t_name t = None \<and> 1 < length (n_output_specs producer)
            then Some (or_default (n_name producer) (n_op producer @ ''_'' @ nat_str (index_of nodes (t_producer t))) @
              ''.'' @ nat_str (t_output_index t))
            else t_name t)
      in or_default name (''Result_'' @ nat_str result_index))"

definition graph_output_contract :: "store \<Rightarrow> nat list \<Rightarrow> nat \<times> tensor \<Rightarrow> tensor_contract res" where
  "graph_output_contract st nodes = (\<lambda>(result_index, t).
     TensorContract (PStr (output_contract_name st nodes result_index t)) (shape_val (t_shape t)) (PStr (t_dtype t)))"

definition graph_inputs :: "graph \<Rightarrow> tensor_contract list res" where
  "graph_inputs g = map_res graph_input_contract (g_inputs g)"

definition graph_outputs :: "store \<Rightarrow> nat \<Rightarrow> graph \<Rightarrow> tensor_contract list res" where
  "graph_outputs st limit g =
     bind_res (graph_nodes st limit g) (\<lambda>nodes. map_res (graph_output_contract st nodes) (enum (g_outputs g)))"

text \<open>\<open>Program(...)\<close>: the data class with what \<open>__post_init__\<close> fills in.\<close>

definition make_program :: "store \<Rightarrow> nat \<Rightarrow> program \<Rightarrow> program res" where
  "make_program st limit p =
     (case pg_graph p of
        None \<Rightarrow> Inr p
      | Some g \<Rightarrow>
          bind_res (if pg_saved_inputs p = [] then graph_inputs g else Inr (pg_saved_inputs p)) (\<lambda>inputs.
          bind_res (if pg_saved_outputs p = [] then graph_outputs st limit g else Inr (pg_saved_outputs p)) (\<lambda>outputs.
          Inr (p\<lparr>pg_saved_inputs := inputs, pg_saved_outputs := outputs\<rparr>))))"

definition input_contracts :: "program \<Rightarrow> tensor_contract list res" where
  "input_contracts p =
     (if pg_saved_inputs p \<noteq> [] then Inr (pg_saved_inputs p)
      else case pg_graph p of
        None \<Rightarrow> Inl (RuntimeError ''program has no input contract'')
      | Some g \<Rightarrow> graph_inputs g)"

definition output_contracts :: "store \<Rightarrow> nat \<Rightarrow> program \<Rightarrow> tensor_contract list res" where
  "output_contracts st limit p =
     (if pg_saved_outputs p \<noteq> [] then Inr (pg_saved_outputs p)
      else case pg_graph p of
        None \<Rightarrow> Inl (RuntimeError ''program has no output contract'')
      | Some g \<Rightarrow> graph_outputs st limit g)"

definition program_provenance :: "program \<Rightarrow> npu_provenance option res" where
  "program_provenance p =
     (case pg_ir_provenance p of
        Some r \<Rightarrow> bind_res (provenance_from_ir_result r) (\<lambda>v. Inr (Some v))
      | None \<Rightarrow>
          (case pg_artifact_manifest p of
             None \<Rightarrow> Inr None
           | Some manifest \<Rightarrow>
               (case json_load_bytes manifest of
                  Some (PDict d) \<Rightarrow>
                    if dget d ''provenance'' = PNone then Inr None
                    else bind_res (provenance_from_json (dget d ''provenance'')) (\<lambda>v. Inr (Some v))
                | _ \<Rightarrow> Inr None)))"

definition patch_evidence :: "program \<Rightarrow> patch_report list res" where
  "patch_evidence p = map_res parse_report (pg_patch_reports p)"

definition require_contract :: "store \<Rightarrow> nat \<Rightarrow> program \<Rightarrow> program_contract option \<Rightarrow> program res" where
  "require_contract st limit p contract =
     (case contract of
        None \<Rightarrow> Inl (TypeError ''Program.require() requires a ProgramContract'')
      | Some c \<Rightarrow>
          bind_res (input_contracts p) (\<lambda>inputs.
          bind_res (output_contracts st limit p) (\<lambda>outputs.
          bind_res (validate_program c (map contract_boundary inputs) (map contract_boundary outputs)
            (pg_patch_reports p) (pg_graph_blob p)) (\<lambda>_. Inr p))))"

section \<open>Bundles\<close>

definition pad3 :: "nat \<Rightarrow> string" where
  "pad3 n = replicate (3 - length (nat_str n)) (CHR ''0'') @ nat_str n"

definition report_path :: "nat \<Rightarrow> string" where
  "report_path index = ''patch-reports/'' @ pad3 index @ ''.json''"

definition blob_entry :: "string \<Rightarrow> bytes \<Rightarrow> pyval res" where
  "blob_entry path data =
     bind_res (identity_from_bytes data) (\<lambda>identity. Inr (PDict ((''path'', PStr path) # identity_to_json identity)))"

definition program_manifest :: "store \<Rightarrow> nat \<Rightarrow> program \<Rightarrow> pyval res" where
  "program_manifest st limit p =
     bind_res (map_res (\<lambda>(index, report). blob_entry (report_path index) report) (enum (pg_patch_reports p))) (\<lambda>patch_entries.
     bind_res (blob_entry ''graph.blob'' (pg_graph_blob p)) (\<lambda>graph_entry.
     bind_res (input_contracts p) (\<lambda>inputs.
     bind_res (output_contracts st limit p) (\<lambda>outputs.
     bind_res (program_provenance p) (\<lambda>provenance.
     Inr (PDict [(''schema'', PStr ''npunlock.program.v1''), (''graph'', graph_entry),
       (''inputs'', PList (map contract_json inputs)), (''outputs'', PList (map contract_json outputs)),
       (''provenance'', case provenance of None \<Rightarrow> PNone | Some v \<Rightarrow> provenance_to_json v),
       (''patch_reports'', PList patch_entries)]))))))"

text \<open>A member of a ZIP archive: \<open>ZipInfo.filename\<close>, \<open>flag_bits\<close> and \<open>file_size\<close>, and what \<open>archive.read\<close> gives.
  A file is an archive or makes \<open>ZipFile\<close> raise \<open>BadZipFile\<close>.\<close>

datatype zip_read = Content bytes | BadZip | ReadError pyexn

record zip_member =
  zm_name :: string
  zm_flag_bits :: nat
  zm_file_size :: nat
  zm_read :: zip_read

type_synonym zip_file = "zip_member list option"

text \<open>\<open>_write_zip_member\<close>: the member as it is read back.\<close>

definition write_zip_member :: "string \<Rightarrow> bytes \<Rightarrow> zip_member" where
  "write_zip_member name data = \<lparr>zm_name = name, zm_flag_bits = 0, zm_file_size = length data, zm_read = Content data\<rparr>"

definition manifest_bytes :: "pyval \<Rightarrow> bytes res" where
  "manifest_bytes m = bind_res (json_indented m) (\<lambda>t. Inr (utf8 (t @ [CHR 0x0A])))"

definition export_program :: "store \<Rightarrow> nat \<Rightarrow> program \<Rightarrow> zip_file res" where
  "export_program st limit p =
     bind_res (program_manifest st limit p) (\<lambda>m.
     bind_res (manifest_bytes m) (\<lambda>text.
     Inr (Some (write_zip_member ''manifest.json'' text # write_zip_member ''graph.blob'' (pg_graph_blob p) #
       map (\<lambda>(index, report). write_zip_member (report_path index) report) (enum (pg_patch_reports p))))))"

definition bad_archive :: pyexn where
  "bad_archive = ValueError ''bundle is not a valid ZIP archive''"

definition bundle_member :: "zip_member list \<Rightarrow> string \<Rightarrow> nat \<Rightarrow> bytes res" where
  "bundle_member archive name maximum_size =
     (case List.find (\<lambda>m. zm_name m = name) archive of
        None \<Rightarrow> Inl (ValueError (''bundle is missing '' @ name))
      | Some info \<Rightarrow>
          if zm_flag_bits info mod 2 = 1 then Inl (ValueError (''bundle member must not be encrypted: '' @ name))
          else if maximum_size < zm_file_size info
          then Inl (ValueError (''bundle member exceeds the supported size: '' @ name))
          else (case zm_read info of
              BadZip \<Rightarrow> Inl bad_archive
            | ReadError e \<Rightarrow> Inl e
            | Content data \<Rightarrow>
                if length data \<noteq> zm_file_size info then Inl (ValueError (''bundle member is truncated: '' @ name))
                else Inr data))"

definition contract_dtypes :: "string list" where
  "contract_dtypes = [''f16'', ''f32'', ''u8'', ''i8'', ''u16'', ''i16'', ''u32'', ''i32'', ''i64'']"

definition add_manifest_contract :: "pyval \<Rightarrow> tensor_contract list \<Rightarrow> tensor_contract list res" where
  "add_manifest_contract entry contracts =
     (case entry of
        PDict d \<Rightarrow>
          if \<not> has_keys d [''name'', ''shape'', ''dtype'']
          then Inl (ValueError ''program bundle contains an invalid tensor contract'')
          else (case dget d ''name'' of
              PStr name \<Rightarrow>
                if name \<in> tk_name ` set contracts
                then Inl (ValueError ''program bundle contains an empty or duplicate tensor name'')
                else bind_res (TensorContract (PStr name) (dget d ''shape'') (dget d ''dtype'')) (\<lambda>contract.
                  if tk_dtype contract \<notin> set contract_dtypes \<or> 5 < length (tk_shape contract)
                  then Inl (ValueError ''program bundle tensor is outside the graphinfer contract'')
                  else Inr (contracts @ [contract]))
            | _ \<Rightarrow> Inl (ValueError ''program bundle contains an empty or duplicate tensor name''))
      | _ \<Rightarrow> Inl (ValueError ''program bundle contains an invalid tensor contract''))"

definition manifest_contracts :: "pyval \<Rightarrow> tensor_contract list res" where
  "manifest_contracts v =
     bind_res (nonempty_list ''program bundle boundary must be a non-empty list'' v) (\<lambda>entries.
     fold_res add_manifest_contract entries [])"

text \<open>\<open>Path(path).parts\<close> with both separators, as on Windows\<close>

definition path_separator :: "char \<Rightarrow> bool" where
  "path_separator c \<longleftrightarrow> c = CHR ''/'' \<or> of_char c = (92 :: nat)"

fun path_parts :: "string \<Rightarrow> string \<Rightarrow> string list" where
  "path_parts part [] = [part]"
| "path_parts part (c # cs) = (if path_separator c then part # path_parts [] cs else path_parts (part @ [c]) cs)"

definition unsafe_path :: "string \<Rightarrow> bool" where
  "unsafe_path path \<longleftrightarrow> path = [] \<or> path_separator (hd path) \<or> ''..'' \<in> set (path_parts [] path)"

definition manifest_blob_entry :: "pyval \<Rightarrow> (string \<times> int \<times> string) res" where
  "manifest_blob_entry v =
     (case v of
        PDict d \<Rightarrow>
          if \<not> has_keys d [''path'', ''size'', ''sha256''] then Inl (ValueError ''bundle entry is invalid'')
          else (case dget d ''path'' of
              PStr path \<Rightarrow>
                if unsafe_path path then Inl (ValueError ''bundle entry path is invalid'')
                else (case dget d ''size'' of
                    PInt n \<Rightarrow>
                      if n < 0 then Inl (ValueError ''bundle entry size is invalid'')
                      else (case dget d ''sha256'' of
                          PStr sha \<Rightarrow>
                            if is_digest sha then Inr (path, n, sha) else Inl (ValueError ''bundle entry hash is invalid'')
                        | _ \<Rightarrow> Inl (ValueError ''bundle entry hash is invalid''))
                  | _ \<Rightarrow> Inl (ValueError ''bundle entry size is invalid''))
            | _ \<Rightarrow> Inl (ValueError ''bundle entry path is invalid''))
      | _ \<Rightarrow> Inl (ValueError ''bundle entry is invalid''))"

definition manifest_fields :: "string list" where
  "manifest_fields = [''schema'', ''graph'', ''inputs'', ''outputs'', ''provenance'', ''patch_reports'']"

text \<open>One turn of the loop over the patch reports: the total size and the reports read so far.\<close>

definition load_report :: "zip_member list \<Rightarrow> nat \<times> pyval \<Rightarrow> int \<times> bytes list \<Rightarrow> (int \<times> bytes list) res" where
  "load_report archive = (\<lambda>(index, entry) (total, reports).
     bind_res (manifest_blob_entry entry) (\<lambda>(path, n, sha).
     if path \<noteq> report_path index \<or> 16 * 1024 * 1024 < n then Inl (ValueError ''program bundle patch report entry is invalid'')
     else if 64 * 1024 * 1024 < total + n
     then Inl (ValueError ''program bundle patch reports exceed the supported total size'')
     else bind_res (bundle_member archive path (16 * 1024 * 1024)) (\<lambda>report.
       if int (length report) \<noteq> n \<or> sha256 report \<noteq> sha
       then Inl (ValueError ''program bundle patch report does not match its manifest'')
       else Inr (total + n, reports @ [report]))))"

definition load_reports :: "zip_member list \<Rightarrow> pyval \<Rightarrow> bytes list res" where
  "load_reports archive v =
     (case v of
        PList entries \<Rightarrow>
          if 1024 < length entries then Inl (ValueError ''program bundle patch_reports is invalid'')
          else bind_res (fold_res (load_report archive) (enum entries) (0, [])) (\<lambda>(_, reports). Inr reports)
      | _ \<Rightarrow> Inl (ValueError ''program bundle patch_reports is invalid''))"

definition load_graph_blob :: "zip_member list \<Rightarrow> pyval \<Rightarrow> bytes res" where
  "load_graph_blob archive v =
     bind_res (manifest_blob_entry v) (\<lambda>(path, n, sha).
     if path \<noteq> ''graph.blob'' \<or> n = 0 then Inl (ValueError ''program bundle graph entry is invalid'')
     else bind_res (bundle_member archive path (2 * 1024 * 1024 * 1024)) (\<lambda>blob.
       if int (length blob) \<noteq> n \<or> sha256 blob \<noteq> sha
       then Inl (ValueError ''program bundle graph size or SHA-256 does not match its manifest'')
       else Inr blob))"

definition check_manifest :: "pyval option \<Rightarrow> (string \<times> pyval) list res" where
  "check_manifest v =
     (case v of
        None \<Rightarrow> Inl (ValueError ''program bundle manifest is not valid UTF-8 JSON'')
      | Some (PDict d) \<Rightarrow>
          if dget d ''schema'' \<noteq> PStr ''npunlock.program.v1'' then Inl (ValueError ''program bundle schema is unsupported'')
          else if \<not> has_keys d manifest_fields then Inl (ValueError ''program bundle manifest fields are invalid'')
          else if dget d ''provenance'' \<noteq> PNone \<and> \<not> is_dict (dget d ''provenance'')
          then Inl (ValueError ''program bundle provenance is invalid'')
          else Inr d
      | Some _ \<Rightarrow> Inl (ValueError ''program bundle schema is unsupported''))"

definition load_program :: "zip_file \<Rightarrow> int \<Rightarrow> program res" where
  "load_program source timeout_ms =
     (case source of
        None \<Rightarrow> Inl bad_archive
      | Some archive \<Rightarrow>
          let names = map zm_name archive in
          if \<not> distinct names then Inl (ValueError ''program bundle contains duplicate member names'')
          else
            bind_res (bundle_member archive ''manifest.json'' (1024 * 1024)) (\<lambda>manifest.
            bind_res (check_manifest (json_load_bytes manifest)) (\<lambda>d.
            bind_res (load_graph_blob archive (dget d ''graph'')) (\<lambda>graph_blob.
            bind_res (manifest_contracts (dget d ''inputs'')) (\<lambda>inputs.
            bind_res (manifest_contracts (dget d ''outputs'')) (\<lambda>outputs.
            bind_res (load_reports archive (dget d ''patch_reports'')) (\<lambda>reports.
            if set names \<noteq> {''manifest.json'', ''graph.blob''} \<union> set (map report_path [0..<length reports])
            then Inl (ValueError ''program bundle contains undeclared members'')
            else Inr \<lparr>pg_graph_blob = graph_blob, pg_graph = None, pg_serialized_ir = None, pg_ir_provenance = None,
              pg_patch_reports = reports, pg_timeout_ms = timeout_ms, pg_saved_inputs = inputs,
              pg_saved_outputs = outputs, pg_artifact_manifest = Some manifest\<rparr>)))))))"

section \<open>Export and load\<close>

definition valid_contract :: "tensor_contract \<Rightarrow> bool" where
  "valid_contract c \<longleftrightarrow> tk_name c \<noteq> [] \<and> wf_spec (tk_spec c)"

definition wf_program :: "program \<Rightarrow> bool" where
  "wf_program p \<longleftrightarrow> list_all valid_contract (pg_saved_inputs p) \<and> list_all valid_contract (pg_saved_outputs p)"

lemma TensorContract_valid: "TensorContract n s d = Inr c \<Longrightarrow> valid_contract c"
  by (auto simp: TensorContract_def res_simps valid_contract_def dest: TensorSpec_wf)

lemma TensorContract_of_fields:
  "valid_contract c \<Longrightarrow> TensorContract (PStr (tk_name c)) (PList (map PInt (tk_shape c))) (PStr (tk_dtype c)) = Inr c"
  by (cases c; cases "tk_spec c") (simp add: TensorContract_def valid_contract_def TensorSpec_list_val)

lemma graph_inputs_valid: "graph_inputs g = Inr cs \<Longrightarrow> list_all valid_contract cs"
  unfolding graph_inputs_def
  by (erule map_res_list_all) (auto simp: graph_input_contract_def intro: TensorContract_valid split: option.splits)

lemma graph_outputs_valid: "graph_outputs st limit g = Inr cs \<Longrightarrow> list_all valid_contract cs"
  by (auto simp: graph_outputs_def graph_output_contract_def bind_res_eq_Inr elim!: map_res_list_all intro: TensorContract_valid)

lemma program_contracts_valid:
  assumes "wf_program p"
  shows "input_contracts p = Inr cs \<Longrightarrow> list_all valid_contract cs"
    and "output_contracts st limit p = Inr cs \<Longrightarrow> list_all valid_contract cs"
  using assms
  by (auto simp: wf_program_def input_contracts_def output_contracts_def intro: graph_inputs_valid graph_outputs_valid
      split: if_splits option.splits)

text \<open>The tensors a bundle may carry.\<close>

definition portable :: "tensor_contract list \<Rightarrow> bool" where
  "portable cs \<longleftrightarrow> cs \<noteq> [] \<and> distinct (map tk_name cs) \<and>
     list_all (\<lambda>c. tk_dtype c \<in> set contract_dtypes \<and> length (tk_shape c) \<le> 5) cs"

lemma add_contract_json:
  assumes "valid_contract c"
  shows "add_manifest_contract (canon (contract_json c)) acc = Inr r \<longleftrightarrow>
    tk_name c \<notin> tk_name ` set acc \<and> tk_dtype c \<in> set contract_dtypes \<and> length (tk_shape c) \<le> 5 \<and> r = acc @ [c]"
proof -
  define k where "k = TensorContract (PStr (tk_name c)) (PList (map PInt (tk_shape c))) (PStr (tk_dtype c))"
  have "add_manifest_contract (canon (contract_json c)) acc =
    (if tk_name c \<in> tk_name ` set acc then Inl (ValueError ''program bundle contains an empty or duplicate tensor name'')
     else bind_res k (\<lambda>contract. if tk_dtype contract \<notin> set contract_dtypes \<or> 5 < length (tk_shape contract)
       then Inl (ValueError ''program bundle tensor is outside the graphinfer contract'') else Inr (acc @ [contract])))"
    by (simp add: add_manifest_contract_def contract_json_def has_keys_def dget_def k_def insert_commute comp_def)
  moreover have "k = Inr c" unfolding k_def by (rule TensorContract_of_fields [OF assms])
  ultimately show ?thesis by auto
qed

lemma add_contracts_json:
  assumes "list_all valid_contract cs" and "distinct (map tk_name acc)"
  shows "fold_res add_manifest_contract (map (\<lambda>c. canon (contract_json c)) cs) acc = Inr r \<longleftrightarrow>
    distinct (map tk_name (acc @ cs)) \<and> list_all (\<lambda>c. tk_dtype c \<in> set contract_dtypes \<and> length (tk_shape c) \<le> 5) cs \<and>
    r = acc @ cs"
  using assms
proof (induction cs arbitrary: acc)
  case (Cons c cs)
  then have "fold_res add_manifest_contract (map (\<lambda>c. canon (contract_json c)) (c # cs)) acc = Inr r \<longleftrightarrow>
    tk_name c \<notin> tk_name ` set acc \<and> tk_dtype c \<in> set contract_dtypes \<and> length (tk_shape c) \<le> 5 \<and>
    fold_res add_manifest_contract (map (\<lambda>c. canon (contract_json c)) cs) (acc @ [c]) = Inr r"
    by (auto simp: bind_res_eq_Inr add_contract_json)
  also have "\<dots> \<longleftrightarrow> tk_name c \<notin> tk_name ` set acc \<and> tk_dtype c \<in> set contract_dtypes \<and> length (tk_shape c) \<le> 5 \<and>
    distinct (map tk_name ((acc @ [c]) @ cs)) \<and>
    list_all (\<lambda>c. tk_dtype c \<in> set contract_dtypes \<and> length (tk_shape c) \<le> 5) cs \<and> r = (acc @ [c]) @ cs"
    using Cons.IH [of "acc @ [c]"] Cons.prems by auto
  finally show ?case by auto
qed auto

lemma manifest_contracts_json:
  assumes "list_all valid_contract cs"
  shows "manifest_contracts (canon (PList (map contract_json cs))) = Inr r \<longleftrightarrow> portable cs \<and> r = cs"
  using add_contracts_json [OF assms, of "[]" r]
  by (auto simp: manifest_contracts_def bind_res_eq_Inr nonempty_list_Inr portable_def comp_def)

subsection \<open>Member names and entries\<close>

lemma str_nat_zeros: "str_nat (replicate k (CHR ''0'') @ s) = str_nat s"
  by (induction k) (simp_all add: str_nat_def char_digit_def)

lemma pad3_inject [simp]: "pad3 m = pad3 n \<longleftrightarrow> m = n"
  using str_nat_zeros str_nat_nat_str unfolding pad3_def by metis

lemma report_path_inject [simp]: "report_path m = report_path n \<longleftrightarrow> m = n"
  by (simp add: report_path_def)

lemma report_path_other: "report_path n \<noteq> ''manifest.json''" "report_path n \<noteq> ''graph.blob''"
  by (simp_all add: report_path_def)

lemma path_parts_plain: "list_all (\<lambda>c. \<not> path_separator c) s \<Longrightarrow> path_parts part s = [part @ s]"
  by (induction s arbitrary: part) auto

lemma pad3_digits: "list_all is_digit (pad3 n)"
  by (auto simp: pad3_def list_all_iff is_digit_def dest: nat_str_digits)

lemma safe_paths: "\<not> unsafe_path ''graph.blob''" "\<not> unsafe_path (report_path n)"
proof -
  show "\<not> unsafe_path ''graph.blob''" by code_simp
  have "list_all (\<lambda>c. \<not> path_separator c) (pad3 n)"
    using pad3_digits [of n] by (rule list.pred_mono_strong) (auto simp: path_separator_def is_digit_def)
  then have "path_parts [] (report_path n) = [''patch-reports'', pad3 n @ ''.json'']"
    by (simp add: report_path_def path_separator_def path_parts_plain)
  moreover have "pad3 n @ ''.json'' \<noteq> ''..''" by (auto dest: arg_cong [of _ _ length])
  ultimately show "\<not> unsafe_path (report_path n)" by (simp add: unsafe_path_def report_path_def path_separator_def)
qed

lemma blob_entry_Inr:
  assumes "blob_entry path data = Inr v"
  shows "v = PDict [(''path'', PStr path), (''size'', PInt (int (length data))), (''sha256'', PStr (sha256 data))]"
  using assms by (auto simp: blob_entry_def identity_from_bytes_def ArtifactIdentity_def identity_to_json_def res_simps)

lemma manifest_blob_entry_canon:
  assumes "blob_entry path data = Inr v" and "\<not> unsafe_path path"
  shows "manifest_blob_entry (canon v) = Inr (path, int (length data), sha256 data)"
  using blob_entry_Inr [OF assms(1)] assms(2)
  by (simp add: manifest_blob_entry_def has_keys_def dget_def insert_commute)

lemma jsonable_blob_entry: "blob_entry path data = Inr v \<Longrightarrow> jsonable v"
  by (auto dest: blob_entry_Inr)

subsection \<open>Reading back what was written\<close>

definition written :: "(string \<times> bytes) list \<Rightarrow> zip_member list" where
  "written ms = map (\<lambda>(name, data). write_zip_member name data) ms"

lemma bundle_member_written:
  assumes "distinct (map fst ms)" and "(name, data) \<in> set ms"
  shows "bundle_member (written ms) name k = Inr r \<longleftrightarrow> length data \<le> k \<and> r = data"
proof -
  have "List.find (\<lambda>m. zm_name m = name) (written ms) = Some (write_zip_member name data)"
    using assms by (induction ms) (force simp: written_def write_zip_member_def)+
  then show ?thesis by (auto simp: bundle_member_def write_zip_member_def)
qed

definition report_entries :: "bytes list \<Rightarrow> (string \<times> bytes) list" where
  "report_entries reports = map (\<lambda>(index, report). (report_path index, report)) (enum reports)"

definition bundle_entries :: "bytes \<Rightarrow> bytes \<Rightarrow> bytes list \<Rightarrow> (string \<times> bytes) list" where
  "bundle_entries text blob reports = (''manifest.json'', text) # (''graph.blob'', blob) # report_entries reports"

lemma report_entries_names: "map fst (report_entries reports) = map report_path [0..<length reports]"
  by (rule nth_equalityI) (auto simp: report_entries_def nth_enumerate_eq)

lemma bundle_entries_distinct: "distinct (map fst (bundle_entries text blob reports))"
  unfolding bundle_entries_def list.map report_entries_names
  by (auto simp: distinct_map inj_on_def report_path_other report_path_other [symmetric])

definition small_reports :: "bytes list \<Rightarrow> bool" where
  "small_reports reports \<longleftrightarrow> list_all (\<lambda>r. length r \<le> 16 * 1024 * 1024) reports"

abbreviation total_size :: "bytes list \<Rightarrow> int" where
  "total_size reports \<equiv> int (sum_list (map length reports))"

lemma load_report_written:
  assumes "distinct (map fst ms)" and "(report_path k, r) \<in> set ms" and "blob_entry (report_path k) r = Inr v"
  shows "load_report (written ms) (k, canon v) (used, acc) = Inr res \<longleftrightarrow>
    length r \<le> 16 * 1024 * 1024 \<and> used + int (length r) \<le> 64 * 1024 * 1024 \<and> res = (used + int (length r), acc @ [r])"
proof -
  have "bundle_member (written ms) (report_path k) (16 * 1024 * 1024) = Inr r'
    \<longleftrightarrow> length r \<le> 16 * 1024 * 1024 \<and> r' = r" for r' by (rule bundle_member_written [OF assms(1,2)])
  then show ?thesis
    using manifest_blob_entry_canon [OF assms(3) safe_paths(2)] by (auto simp: load_report_def bind_res_eq_Inr)
qed

lemma load_reports_written:
  assumes "distinct (map fst ms)" and "\<And>i. i < length reports \<Longrightarrow> (report_path (k + i), reports ! i) \<in> set ms"
    and "list_all2 (\<lambda>(i, r) v. blob_entry (report_path i) r = Inr v) (zip [k..<k + length reports] reports) vs"
    and "used \<le> 64 * 1024 * 1024"
  shows "fold_res (load_report (written ms)) (zip [k..<k + length reports] (map canon vs)) (used, acc) = Inr res \<longleftrightarrow>
    small_reports reports \<and> used + total_size reports \<le> 64 * 1024 * 1024 \<and> res = (used + total_size reports, acc @ reports)"
  using assms(2-)
proof (induction reports arbitrary: k vs used acc)
  case Nil
  then show ?case by (auto simp: small_reports_def)
next
  case (Cons r reports)
  have k: "[k..<k + length (r # reports)] = k # [Suc k..<Suc k + length reports]" by (simp add: upt_rec)
  from Cons.prems(2) obtain v vs' where vs: "vs = v # vs'" "blob_entry (report_path k) r = Inr v"
    and vs': "list_all2 (\<lambda>(i, r) v. blob_entry (report_path i) r = Inr v) (zip [Suc k..<Suc k + length reports] reports) vs'"
    unfolding k by (auto simp: list_all2_Cons1)
  have in_ms: "(report_path (Suc k + i), reports ! i) \<in> set ms" if "i < length reports" for i
    using Cons.prems(1) [of "Suc i"] that by simp
  have head: "load_report (written ms) (k, canon v) (used, acc) = Inr res' \<longleftrightarrow> length r \<le> 16 * 1024 * 1024 \<and>
      used + int (length r) \<le> 64 * 1024 * 1024 \<and> res' = (used + int (length r), acc @ [r])" for res'
    using load_report_written [OF assms(1) _ vs(2)] Cons.prems(1) [of 0] by simp
  have "fold_res (load_report (written ms)) (zip [Suc k..<Suc k + length reports] (map canon vs')) (used + int (length r), acc @ [r]) = Inr res
    \<longleftrightarrow> small_reports reports \<and> used + int (length r) + total_size reports \<le> 64 * 1024 * 1024 \<and>
      res = (used + int (length r) + total_size reports, (acc @ [r]) @ reports)" if "used + int (length r) \<le> 64 * 1024 * 1024"
    by (rule Cons.IH [OF in_ms vs' that])
  then show ?case unfolding k vs by (auto simp: bind_res_eq_Inr head small_reports_def)
qed

definition within_limits :: "program \<Rightarrow> tensor_contract list \<Rightarrow> tensor_contract list \<Rightarrow> bytes \<Rightarrow> bool" where
  "within_limits p inputs outputs text \<longleftrightarrow> length text \<le> 1024 * 1024 \<and>
     pg_graph_blob p \<noteq> [] \<and> length (pg_graph_blob p) \<le> 2 * 1024 * 1024 * 1024 \<and> portable inputs \<and> portable outputs \<and>
     length (pg_patch_reports p) \<le> 1024 \<and> small_reports (pg_patch_reports p) \<and>
     total_size (pg_patch_reports p) \<le> 64 * 1024 * 1024"

definition restored :: "program \<Rightarrow> tensor_contract list \<Rightarrow> tensor_contract list \<Rightarrow> bytes \<Rightarrow> int \<Rightarrow> program" where
  "restored p inputs outputs text timeout_ms =
     \<lparr>pg_graph_blob = pg_graph_blob p, pg_graph = None, pg_serialized_ir = None, pg_ir_provenance = None,
      pg_patch_reports = pg_patch_reports p, pg_timeout_ms = timeout_ms, pg_saved_inputs = inputs,
      pg_saved_outputs = outputs, pg_artifact_manifest = Some text\<rparr>"

lemma provenance_wf: "program_provenance p = Inr (Some v) \<Longrightarrow> wf_provenance v"
  by (auto simp: program_provenance_def provenance_from_ir_result_def bind_res_eq_Inr
      dest: NpuProvenance_wf provenance_from_json_wf split: option.splits pyval.splits if_splits)

lemma jsonable_contracts: "jsonable (PList (map contract_json cs))"
  by (auto simp: contract_json_def list_all_iff)

lemma program_manifest_fields:
  assumes "program_manifest st limit p = Inr m"
  obtains d entries g inputs outputs v where "m = PDict d" "distinct (map fst d)" "has_keys d manifest_fields" "jsonable m"
    "dget d ''schema'' = PStr ''npunlock.program.v1''"
    "dget d ''graph'' = g" "blob_entry ''graph.blob'' (pg_graph_blob p) = Inr g"
    "dget d ''inputs'' = PList (map contract_json inputs)" "input_contracts p = Inr inputs"
    "dget d ''outputs'' = PList (map contract_json outputs)" "output_contracts st limit p = Inr outputs"
    "dget d ''provenance'' = (case v of None \<Rightarrow> PNone | Some x \<Rightarrow> provenance_to_json x)" "program_provenance p = Inr v"
    "dget d ''patch_reports'' = PList entries"
    "map_res (\<lambda>(index, report). blob_entry (report_path index) report) (enum (pg_patch_reports p)) = Inr entries"
proof -
  from assms obtain entries g inputs outputs v where
    e: "map_res (\<lambda>(index, report). blob_entry (report_path index) report) (enum (pg_patch_reports p)) = Inr entries"
    and g: "blob_entry ''graph.blob'' (pg_graph_blob p) = Inr g" and i: "input_contracts p = Inr inputs"
    and o': "output_contracts st limit p = Inr outputs" and v: "program_provenance p = Inr v"
    and m: "m = PDict [(''schema'', PStr ''npunlock.program.v1''), (''graph'', g), (''inputs'', PList (map contract_json inputs)),
       (''outputs'', PList (map contract_json outputs)),
       (''provenance'', case v of None \<Rightarrow> PNone | Some x \<Rightarrow> provenance_to_json x), (''patch_reports'', PList entries)]"
    unfolding program_manifest_def bind_res_eq_Inr by blast
  have "list_all jsonable entries" using e by (rule map_res_list_all) (auto intro: jsonable_blob_entry)
  moreover have "jsonable (case v of None \<Rightarrow> PNone | Some x \<Rightarrow> provenance_to_json x)"
    by (cases v) (simp_all add: jsonable_provenance)
  ultimately have "jsonable m"
    unfolding m using jsonable_blob_entry [OF g] jsonable_contracts [of inputs] jsonable_contracts [of outputs] by simp
  then show ?thesis
    by (rule that [OF m, rotated 2]) (use e g i o' v in \<open>simp_all add: has_keys_def manifest_fields_def dget_def\<close>)
qed

lemma export_written:
  assumes "export_program st limit p = Inr z"
  obtains m content where "program_manifest st limit p = Inr m" "manifest_bytes m = Inr content"
    "z = Some (written (bundle_entries content (pg_graph_blob p) (pg_patch_reports p)))"
proof -
  have "map (\<lambda>(index, report). write_zip_member (report_path index) report) rs = written (map (\<lambda>(index, report). (report_path index, report)) rs)"
    for rs by (auto simp: written_def)
  then show ?thesis
    using assms that
    by (auto simp: export_program_def bind_res_eq_Inr bundle_entries_def report_entries_def written_def)
qed

lemma manifest_bytes_load:
  assumes "jsonable m" and "manifest_bytes m = Inr content"
  shows "json_load_bytes content = Some (canon m)"
  using json_bytes_roundtrip [OF assms(1), of "[CHR 0x0A]" "Some 2" 0] assms(2)
  by (auto simp: manifest_bytes_def json_indented_def json_space_def bind_res_eq_Inr)

lemma load_graph_written:
  assumes "distinct (map fst ms)" and "(''graph.blob'', blob) \<in> set ms" and "blob_entry ''graph.blob'' blob = Inr g"
  shows "load_graph_blob (written ms) (canon g) = Inr r \<longleftrightarrow> blob \<noteq> [] \<and> length blob \<le> 2 * 1024 * 1024 * 1024 \<and> r = blob"
  using manifest_blob_entry_canon [OF assms(3) safe_paths(1)] bundle_member_written [OF assms(1,2), of "2 * 1024 * 1024 * 1024"]
  by (auto simp: load_graph_blob_def bind_res_eq_Inr)

lemma load_reports_json:
  assumes "map_res (\<lambda>(index, report). blob_entry (report_path index) report) (enum reports) = Inr entries"
  shows "load_reports (written (bundle_entries content blob reports)) (canon (PList entries)) = Inr r \<longleftrightarrow>
    length reports \<le> 1024 \<and> small_reports reports \<and> total_size reports \<le> 64 * 1024 * 1024 \<and> r = reports"
proof -
  have len: "length entries = length reports" using map_res_length [OF assms] by simp
  have all2: "list_all2 (\<lambda>(i, r) v. blob_entry (report_path i) r = Inr v) (zip [0..<0 + length reports] reports) entries"
    unfolding list_all2_conv_all_nth
  proof (intro conjI allI impI)
    fix i assume "i < length (zip [0..<0 + length reports] reports)"
    then show "(case zip [0..<0 + length reports] reports ! i of (i, r) \<Rightarrow> \<lambda>v. blob_entry (report_path i) r = Inr v) (entries ! i)"
      using map_res_nth [OF assms, of i] by (simp add: nth_enumerate_eq)
  qed (simp add: len)
  have "(report_path (0 + i), reports ! i) \<in> set (bundle_entries content blob reports)" if "i < length reports" for i
  proof -
    have "(i, reports ! i) \<in> set (enum reports)" using that by (simp add: in_set_enum)
    then have "(report_path i, reports ! i) \<in> (\<lambda>(index, report). (report_path index, report)) ` set (enum reports)" by force
    then show ?thesis by (simp add: bundle_entries_def report_entries_def)
  qed
  from load_reports_written [OF bundle_entries_distinct this all2, of 0 "[]"]
  show ?thesis by (auto simp: load_reports_def bind_res_eq_Inr enumerate_eq_zip len)
qed

lemma check_manifest_json:
  assumes "distinct (map fst d)" and "has_keys d manifest_fields" and "dget d ''schema'' = PStr ''npunlock.program.v1''"
    and "dget d ''provenance'' = (case v of None \<Rightarrow> PNone | Some x \<Rightarrow> provenance_to_json x)"
  shows "check_manifest (Some (canon (PDict d))) = Inr (canon_dict d)"
proof -
  have "dget (canon_dict d) ''provenance'' = PNone \<or> is_dict (dget (canon_dict d) ''provenance'')"
    unfolding dget_canon [OF assms(1)] assms(4) by (cases v) (simp_all add: provenance_to_json_def)
  moreover have "dget (canon_dict d) ''schema'' = PStr ''npunlock.program.v1''"
    unfolding dget_canon [OF assms(1)] assms(3) by simp
  moreover have "has_keys (canon_dict d) manifest_fields" using assms(2) unfolding has_keys_def keys_canon .
  ultimately show ?thesis by (simp add: check_manifest_def)
qed

lemma restored_provenance:
  assumes "json_load_bytes content = Some (canon (PDict d))" and "distinct (map fst d)"
    and "dget d ''provenance'' = (case v of None \<Rightarrow> PNone | Some x \<Rightarrow> provenance_to_json x)" and "program_provenance p = Inr v"
  shows "program_provenance (restored p inputs outputs content t) = Inr v"
proof (cases v)
  case None
  then show ?thesis using assms by (simp add: program_provenance_def restored_def dget_canon)
next
  case (Some x)
  have "canon (provenance_to_json x) \<noteq> PNone" by (simp add: provenance_to_json_def)
  moreover have "provenance_from_json (canon (provenance_to_json x)) = Inr x"
    by (rule provenance_from_canon) (use provenance_wf assms(4) Some in auto)
  ultimately show ?thesis using assms Some by (simp add: program_provenance_def restored_def dget_canon)
qed

lemma written_names: "map zm_name (written ms) = map fst ms"
  by (auto simp: written_def write_zip_member_def)

lemma load_written:
  assumes "manifest_bytes (PDict d) = Inr content" and "distinct (map fst d)" and "has_keys d manifest_fields" and "jsonable (PDict d)"
    and "dget d ''schema'' = PStr ''npunlock.program.v1''" and "dget d ''graph'' = g"
    and "blob_entry ''graph.blob'' (pg_graph_blob p) = Inr g"
    and "dget d ''inputs'' = PList (map contract_json inputs)" and "list_all valid_contract inputs"
    and "dget d ''outputs'' = PList (map contract_json outputs)" and "list_all valid_contract outputs"
    and "dget d ''provenance'' = (case v of None \<Rightarrow> PNone | Some x \<Rightarrow> provenance_to_json x)"
    and "dget d ''patch_reports'' = PList entries"
    and "map_res (\<lambda>(index, report). blob_entry (report_path index) report) (enum (pg_patch_reports p)) = Inr entries"
  shows "load_program (Some (written (bundle_entries content (pg_graph_blob p) (pg_patch_reports p)))) t = Inr q \<longleftrightarrow>
    within_limits p inputs outputs content \<and> q = restored p inputs outputs content t"
proof -
  let ?ms = "bundle_entries content (pg_graph_blob p) (pg_patch_reports p)"
  note distinct = bundle_entries_distinct [of content "pg_graph_blob p" "pg_patch_reports p"]
  have manifest: "bundle_member (written ?ms) ''manifest.json'' (1024 * 1024) = Inr r \<longleftrightarrow> length content \<le> 1024 * 1024 \<and> r = content" for r
    by (rule bundle_member_written [OF distinct]) (simp add: bundle_entries_def)
  have graph: "load_graph_blob (written ?ms) (canon g) = Inr r \<longleftrightarrow> pg_graph_blob p \<noteq> [] \<and>
      length (pg_graph_blob p) \<le> 2 * 1024 * 1024 * 1024 \<and> r = pg_graph_blob p" for r
    by (rule load_graph_written [OF distinct _ assms(7)]) (simp add: bundle_entries_def)
  have names: "set (map zm_name (written ?ms)) = {''manifest.json'', ''graph.blob''} \<union> set (map report_path [0..<length (pg_patch_reports p)])"
    unfolding written_names bundle_entries_def by (simp only: list.map report_entries_names) auto
  have check: "check_manifest (json_load_bytes content) = Inr (canon_dict d)"
    unfolding manifest_bytes_load [OF assms(4,1)] by (rule check_manifest_json [OF assms(2,3,5,12)])
  show ?thesis
    unfolding load_program_def option.case Let_def
    unfolding bind_res_eq_Inr if_Inl_Inr manifest
    using distinct names
    by (auto simp: written_names check dget_canon [OF assms(2)] assms(6,8,10,13) graph
        manifest_contracts_json [OF assms(9)] manifest_contracts_json [OF assms(11)] load_reports_json [OF assms(14)]
        within_limits_def restored_def simp del: canon.simps)
qed

lemma export_load:
  assumes "wf_program p" and "export_program st limit p = Inr z"
  shows "\<exists>inputs outputs m content. input_contracts p = Inr inputs \<and> output_contracts st limit p = Inr outputs \<and>
    program_manifest st limit p = Inr m \<and> manifest_bytes m = Inr content \<and>
    (\<forall>q. load_program z t = Inr q \<longleftrightarrow> within_limits p inputs outputs content \<and> q = restored p inputs outputs content t) \<and>
    program_provenance (restored p inputs outputs content t) = program_provenance p"
proof -
  obtain m content where m: "program_manifest st limit p = Inr m" "manifest_bytes m = Inr content"
    and z: "z = Some (written (bundle_entries content (pg_graph_blob p) (pg_patch_reports p)))"
    by (rule export_written [OF assms(2)])
  obtain d entries g inputs outputs v where d: "m = PDict d" "distinct (map fst d)" "has_keys d manifest_fields" "jsonable m"
      "dget d ''schema'' = PStr ''npunlock.program.v1''" "dget d ''graph'' = g" "blob_entry ''graph.blob'' (pg_graph_blob p) = Inr g"
      "dget d ''inputs'' = PList (map contract_json inputs)" "input_contracts p = Inr inputs"
      "dget d ''outputs'' = PList (map contract_json outputs)" "output_contracts st limit p = Inr outputs"
      "dget d ''provenance'' = (case v of None \<Rightarrow> PNone | Some x \<Rightarrow> provenance_to_json x)" "program_provenance p = Inr v"
      "dget d ''patch_reports'' = PList entries"
      "map_res (\<lambda>(index, report). blob_entry (report_path index) report) (enum (pg_patch_reports p)) = Inr entries"
    by (rule program_manifest_fields [OF m(1)])
  have "load_program z t = Inr q \<longleftrightarrow> within_limits p inputs outputs content \<and> q = restored p inputs outputs content t" for q
    unfolding z
    by (rule load_written [OF m(2) [unfolded d(1)] d(2,3) d(4) [unfolded d(1)] d(5-8) program_contracts_valid(1) [OF assms(1) d(9)] d(10)
          program_contracts_valid(2) [OF assms(1) d(11)] d(12,14,15)])
  moreover have "program_provenance (restored p inputs outputs content t) = program_provenance p"
    using restored_provenance [OF manifest_bytes_load [OF d(4) m(2), unfolded d(1)] d(2,12,13)] d(13) by simp
  ultimately show ?thesis using d(9,11) m by blast
qed

text \<open>C18 A bundle gives the program back, or says that it cannot: loading what \<open>export\<close> wrote succeeds exactly when
  the manifest, the graph and the patch reports are within the documented sizes and every boundary
  tensor has a distinct name, a graphinfer element type and at most five dimensions; the loaded
  program then has the same graph, boundary, patch reports and provenance.\<close>

theorem export_load_exact:
  assumes "wf_program p" and "export_program st limit p = Inr z"
  shows "\<exists>inputs outputs m content. input_contracts p = Inr inputs \<and> output_contracts st limit p = Inr outputs \<and>
    program_manifest st limit p = Inr m \<and> manifest_bytes m = Inr content \<and>
    (\<forall>q. load_program z t = Inr q \<longleftrightarrow> within_limits p inputs outputs content \<and> q = restored p inputs outputs content t) \<and>
    program_provenance (restored p inputs outputs content t) = program_provenance p"
  by (rule export_load [OF assms])

definition sample_program :: program where
  "sample_program = \<lparr>pg_graph_blob = [3], pg_graph = None, pg_serialized_ir = None, pg_ir_provenance = None,
     pg_patch_reports = [[1, 2]], pg_timeout_ms = 0,
     pg_saved_inputs = [\<lparr>tk_name = ''x'', tk_spec = \<lparr>ts_shape = [2, 3], ts_dtype = ''f16''\<rparr>\<rparr>],
     pg_saved_outputs = [\<lparr>tk_name = ''y'', tk_spec = \<lparr>ts_shape = [6], ts_dtype = ''f32''\<rparr>\<rparr>],
     pg_artifact_manifest = None\<rparr>"

definition sample_manifest :: "string \<Rightarrow> string \<Rightarrow> pyval" where
  "sample_manifest a b = PDict [(''schema'', PStr ''npunlock.program.v1''),
    (''graph'', PDict [(''path'', PStr ''graph.blob''), (''size'', PInt 1), (''sha256'', PStr a)]),
    (''inputs'', PList [PDict [(''name'', PStr ''x''), (''shape'', PList [PInt 2, PInt 3]), (''dtype'', PStr ''f16'')]]),
    (''outputs'', PList [PDict [(''name'', PStr ''y''), (''shape'', PList [PInt 6]), (''dtype'', PStr ''f32'')]]),
    (''provenance'', PNone),
    (''patch_reports'', PList [PDict [(''path'', PStr ''patch-reports/000.json''), (''size'', PInt 2), (''sha256'', PStr b)]])]"

lemma sample_manifest_text:
  assumes "length a = 64" "length b = 64"
  shows "\<exists>t. json_indented (sample_manifest a b) = Inr t \<and> length t \<le> 1000 * 100"
  using assms json_string_length [of a] json_string_length [of b]
    json_string_length [of "''graph''"] json_string_length [of "''path''"] json_string_length [of "''graph.blob''"]
    json_string_length [of "''sha256''"] json_string_length [of "''size''"] json_string_length [of "''inputs''"]
    json_string_length [of "''dtype''"] json_string_length [of "''f16''"] json_string_length [of "''name''"]
    json_string_length [of "''x''"] json_string_length [of "''shape''"] json_string_length [of "''outputs''"]
    json_string_length [of "''f32''"] json_string_length [of "''y''"] json_string_length [of "''patch_reports''"]
    json_string_length [of "''patch-reports/000.json''"] json_string_length [of "''provenance''"] json_string_length [of "''schema''"] json_string_length [of "''npunlock.program.v1''"]
  by (simp add: sample_manifest_def json_indented_def json_block_def json_newline_def json_colon_def int_str_def nat_str.simps)

lemma sample_program_bundle:
  "\<exists>m content. program_manifest [] 0 sample_program = Inr m \<and> manifest_bytes m = Inr content \<and>
    within_limits sample_program (pg_saved_inputs sample_program) (pg_saved_outputs sample_program) content"
proof -
  have digest: "length (sha256 x) = 64" for x using is_digest_sha256 [of x] by (simp add: is_digest_def)
  have path: "report_path 0 = ''patch-reports/000.json''" by code_simp
  obtain t where t: "json_indented (sample_manifest (sha256 [3]) (sha256 [1, 2])) = Inr t" "length t \<le> 1000 * 100"
    using sample_manifest_text [OF digest digest] by blast
  have m: "program_manifest [] 0 sample_program = Inr (sample_manifest (sha256 [3]) (sha256 [1, 2]))"
    by (simp add: sample_manifest_def program_manifest_def sample_program_def blob_entry_def identity_from_bytes_def
        ArtifactIdentity_def uint_check_def sha256_check_def is_digest_sha256 identity_to_json_def path input_contracts_def
        output_contracts_def program_provenance_def contract_json_def)
  have "length (utf8 (t @ [CHR 0x0A])) \<le> 1024 * 1024" using utf8_size [of "t @ [CHR 0x0A]"] t(2) by simp
  then have "within_limits sample_program (pg_saved_inputs sample_program) (pg_saved_outputs sample_program) (utf8 (t @ [CHR 0x0A]))"
    by (simp add: within_limits_def sample_program_def portable_def contract_dtypes_def small_reports_def)
  then show ?thesis using t m by (auto simp: manifest_bytes_def)
qed

theorem export_load_exact_witness:
  "\<exists>z content. export_program [] 0 sample_program = Inr z \<and>
    load_program z 500 = Inr (restored sample_program (pg_saved_inputs sample_program) (pg_saved_outputs sample_program) content 500)"
proof -
  obtain m content where m: "program_manifest [] 0 sample_program = Inr m" "manifest_bytes m = Inr content"
    "within_limits sample_program (pg_saved_inputs sample_program) (pg_saved_outputs sample_program) content"
    using sample_program_bundle by blast
  then obtain z where z: "export_program [] 0 sample_program = Inr z" by (simp add: export_program_def)
  have "wf_program sample_program" by code_simp
  from export_load_exact [OF this z, of 500] m z show ?thesis
    by (auto simp: input_contracts_def output_contracts_def sample_program_def)
qed

end
