(* ===== verification/Execution.thy ===== *)
theory Execution
  imports Program
begin

text \<open>
  Running a program (\<open>__init__.py\<close>): shared arrays, \<open>Program.run\<close> and \<open>run_one\<close>. The execution state and the world
  of native calls are passed and returned. NumPy is a parameter: \<open>asarray\<close> gives what \<open>np.asarray\<close> makes of an
  argument. A buffer that no array refers to any more is released by a later \<open>ReleaseBuffer\<close> step.
\<close>

section \<open>Shared arrays\<close>

text \<open>What the program reads of a \<open>SharedArray\<close>: its allocation, shape, dtype, layout, address and span.\<close>

record shared_array =
  sa_allocation :: "nat option"
  sa_shape :: "int list"
  sa_dtype :: string
  sa_contiguous :: bool
  sa_address :: int
  sa_nbytes :: int

text \<open>\<open>as_array(raw).view(dtype).reshape(shape)\<close> raises unless the bytes are those of the shape.\<close>

definition SharedArray :: "world \<Rightarrow> nat \<Rightarrow> int list \<Rightarrow> string \<Rightarrow> int \<Rightarrow> shared_array res" where
  "SharedArray w allocation shape dtype itemsize =
     bind_res (buffer_size w allocation) (\<lambda>n.
     bind_res (buffer_address w allocation) (\<lambda>address.
     if n mod itemsize \<noteq> 0 then Inl (ValueError ''size must be a divisor of the total size in bytes of the last axis'')
     else if n div itemsize \<noteq> prod_list shape then Inl (ValueError ''cannot reshape array'')
     else Inr \<lparr>sa_allocation = Some allocation, sa_shape = shape, sa_dtype = dtype, sa_contiguous = True,
       sa_address = address, sa_nbytes = n\<rparr>))"

text \<open>\<open>__array_finalize__\<close>: a view keeps the allocation only while it starts inside it.\<close>

definition array_finalize :: "world \<Rightarrow> nat option \<Rightarrow> int \<Rightarrow> nat option res" where
  "array_finalize w source_allocation address =
     (case source_allocation of
        None \<Rightarrow> Inr None
      | Some b \<Rightarrow>
          bind_res (buffer_address w b) (\<lambda>first.
          if \<not> first \<le> address then Inr None
          else bind_res (buffer_size w b) (\<lambda>n. Inr (if address < first + n then Some b else None))))"

definition shared_array_of ::
  "session_lib \<Rightarrow> program \<Rightarrow> pyval \<Rightarrow> pyval \<Rightarrow> execution_state \<Rightarrow> world \<Rightarrow> shared_array res \<times> execution_state \<times> world" where
  "shared_array_of lib p shape dtype x w =
     (case TensorSpec shape dtype of
        Inl e \<Rightarrow> (Inl e, x, w)
      | Inr spec \<Rightarrow>
          (case map_of execution_dtypes (ts_dtype spec) of
             None \<Rightarrow> (Inl (ValueError ''shared arrays do not support dtype''), x, w)
           | Some (numpy_dtype, itemsize) \<Rightarrow>
               (case get_session lib (pg_graph_blob p) (pg_timeout_ms p) x w of
                  (Inl e, x', w') \<Rightarrow> (Inl e, x', w')
                | (Inr s, x', w') \<Rightarrow>
                    (case create_buffer lib s (PInt (prod_list (ts_shape spec) * itemsize)) w' of
                       (Inl e, w'') \<Rightarrow> (Inl e, x', w'')
                     | (Inr b, w'') \<Rightarrow> (SharedArray w'' b (ts_shape spec) numpy_dtype itemsize, x', w'')))))"

text \<open>The dictionary comprehension over the contracts.\<close>

fun shared_arrays ::
  "session_lib \<Rightarrow> program \<Rightarrow> tensor_contract list \<Rightarrow> (string \<times> shared_array) list \<Rightarrow> execution_state \<Rightarrow> world \<Rightarrow>
    (string \<times> shared_array) list res \<times> execution_state \<times> world" where
  "shared_arrays lib p [] d x w = (Inr d, x, w)"
| "shared_arrays lib p (c # cs) d x w =
     (case shared_array_of lib p (shape_val (tk_shape c)) (PStr (tk_dtype c)) x w of
        (Inl e, x', w') \<Rightarrow> (Inl e, x', w')
      | (Inr a, x', w') \<Rightarrow> shared_arrays lib p cs (dict_set (tk_name c) a d) x' w')"

definition shared_inputs ::
  "session_lib \<Rightarrow> program \<Rightarrow> execution_state \<Rightarrow> world \<Rightarrow> (string \<times> shared_array) list res \<times> execution_state \<times> world" where
  "shared_inputs lib p x w =
     (case input_contracts p of Inl e \<Rightarrow> (Inl e, x, w) | Inr cs \<Rightarrow> shared_arrays lib p cs [] x w)"

definition shared_input ::
  "session_lib \<Rightarrow> program \<Rightarrow> execution_state \<Rightarrow> world \<Rightarrow> shared_array res \<times> execution_state \<times> world" where
  "shared_input lib p x w =
     (case input_contracts p of
        Inl e \<Rightarrow> (Inl e, x, w)
      | Inr [c] \<Rightarrow> shared_array_of lib p (shape_val (tk_shape c)) (PStr (tk_dtype c)) x w
      | Inr _ \<Rightarrow> (Inl (ValueError ''Program.shared_input() requires exactly one input''), x, w))"

definition shared_outputs ::
  "session_lib \<Rightarrow> store \<Rightarrow> nat \<Rightarrow> program \<Rightarrow> execution_state \<Rightarrow> world \<Rightarrow> (string \<times> shared_array) list res \<times> execution_state \<times> world" where
  "shared_outputs lib st limit p x w =
     (case output_contracts st limit p of
        Inl e \<Rightarrow> (Inl e, x, w)
      | Inr cs \<Rightarrow>
          if list_ex (\<lambda>c. tk_dtype c = ''i64'') cs then (Inl (ValueError ''I64 graph outputs are not supported''), x, w)
          else shared_arrays lib p cs [] x w)"

definition shared_output ::
  "session_lib \<Rightarrow> store \<Rightarrow> nat \<Rightarrow> program \<Rightarrow> execution_state \<Rightarrow> world \<Rightarrow> shared_array res \<times> execution_state \<times> world" where
  "shared_output lib st limit p x w =
     (case output_contracts st limit p of
        Inl e \<Rightarrow> (Inl e, x, w)
      | Inr [c] \<Rightarrow>
          if tk_dtype c = ''i64'' then (Inl (ValueError ''I64 graph outputs are not supported''), x, w)
          else shared_array_of lib p (shape_val (tk_shape c)) (PStr (tk_dtype c)) x w
      | Inr _ \<Rightarrow> (Inl (ValueError ''Program.shared_output() requires exactly one output''), x, w))"

section \<open>Running\<close>

text \<open>The array arguments of \<open>run\<close>, the mappings (\<open>None\<close>: the argument is no mapping) and the arrays it returns:
  its own, given by shape, dtype and C-ordered bytes, or the mapping of outputs it was given.\<close>

datatype array_arg = ArrayLike pyval | Shared shared_array

type_synonym array_map = "(string \<times> array_arg) list"

record array_data =
  ad_shape :: "int list"
  ad_dtype :: string
  ad_data :: bytes

datatype run_value = Arrays "(string \<times> array_data) list" | Given array_map

definition validate_shared_array :: "world \<Rightarrow> nat \<Rightarrow> tensor_contract \<Rightarrow> array_arg \<Rightarrow> nat res" where
  "validate_shared_array w s c v =
     (let wrong = ValueError ''shared tensor has the wrong session, shape, dtype, or memory span'' in
      case v of
        ArrayLike _ \<Rightarrow> Inl (TypeError ''shared tensor must be a live SharedArray'')
      | Shared a \<Rightarrow>
          (case sa_allocation a of
             None \<Rightarrow> Inl (TypeError ''shared tensor must be a live SharedArray'')
           | Some b \<Rightarrow>
               if sb_session (wd_buffers w ! b) \<noteq> s \<or> sa_shape a \<noteq> tk_shape c \<or>
                  map_option fst (map_of execution_dtypes (tk_dtype c)) \<noteq> Some (sa_dtype a) \<or> \<not> sa_contiguous a
               then Inl wrong
               else bind_res (buffer_address w b) (\<lambda>address.
                 if sa_address a \<noteq> address then Inl wrong
                 else bind_res (buffer_size w b) (\<lambda>n. if sa_nbytes a \<noteq> n then Inl wrong else Inr b))))"

definition shared_bindings :: "world \<Rightarrow> nat \<Rightarrow> array_map \<Rightarrow> tensor_contract list \<Rightarrow> (pyval \<times> nat option) list res" where
  "shared_bindings w s arrays cs = map_res (\<lambda>c.
     bind_res (from_option (KeyError (tk_name c)) (map_of arrays (tk_name c))) (\<lambda>v.
     bind_res (validate_shared_array w s c v) (\<lambda>b. Inr (PStr (tk_name c), Some b)))) cs"

definition run_shared ::
  "session_lib \<Rightarrow> program \<Rightarrow> tensor_contract list \<Rightarrow> tensor_contract list \<Rightarrow> array_map \<Rightarrow> array_map option \<Rightarrow>
    execution_state \<Rightarrow> world \<Rightarrow> run_value res \<times> execution_state \<times> world" where
  "run_shared lib p input_cs output_cs inputs outputs x w =
     (case outputs of
        None \<Rightarrow> (Inl (TypeError ''Program.run() outputs must be a mapping''), x, w)
      | Some outs \<Rightarrow>
          if set (keys outs) \<noteq> tk_name ` set output_cs then (Inl (ValueError ''output names must exactly match''), x, w)
          else (case get_session lib (pg_graph_blob p) (pg_timeout_ms p) x w of
              (Inl e, x', w') \<Rightarrow> (Inl e, x', w')
            | (Inr s, x', w') \<Rightarrow>
                (case (shared_bindings w' s inputs input_cs, shared_bindings w' s outs output_cs) of
                   (Inl e, _) \<Rightarrow> (Inl e, x', w')
                 | (Inr _, Inl e) \<Rightarrow> (Inl e, x', w')
                 | (Inr shared_ins, Inr shared_outs) \<Rightarrow>
                     (case session_infer lib s shared_ins shared_outs w' of
                        (Inl e, w'') \<Rightarrow> (Inl e, x', w'')
                      | (Inr _, w'') \<Rightarrow> (Inr (Given outs), x', w'')))))"

definition native_input :: "(world \<Rightarrow> array_arg \<Rightarrow> ndarray res) \<Rightarrow> world \<Rightarrow> array_map \<Rightarrow> tensor_contract \<Rightarrow> inference_input res" where
  "native_input asarray w inputs c =
     (case map_of execution_dtypes (tk_dtype c) of
        None \<Rightarrow> Inl (ValueError ''graphinfer does not support tensor dtype'')
      | Some (numpy_dtype, _) \<Rightarrow>
          bind_res (from_option (KeyError (tk_name c)) (map_of inputs (tk_name c))) (\<lambda>v.
          bind_res (asarray w v) (\<lambda>array.
          if nd_dtype array \<noteq> numpy_dtype \<or> map int (nd_shape array) \<noteq> tk_shape c
          then Inl (ValueError ''input requires another shape and dtype'')
          else InferenceInput (PStr (tk_name c)) (DataView (nd_bytes array) True))))"

text \<open>\<open>int(np.prod(shape, dtype=np.int64)) * itemsize\<close>: the product wraps at 64 bits.\<close>

definition expected_size :: "int list \<Rightarrow> int \<Rightarrow> int" where
  "expected_size shape itemsize = sint (word_of_int (prod_list shape) :: 64 word) * itemsize"

text \<open>One output: \<open>frombuffer\<close> of no bytes and \<open>reshape\<close> to another number of elements raise.\<close>

definition add_output :: "tensor_contract \<times> inference_output \<Rightarrow> (string \<times> array_data) list \<Rightarrow> (string \<times> array_data) list res" where
  "add_output = (\<lambda>(c, output) values.
     case map_of execution_dtypes (tk_dtype c) of
       None \<Rightarrow> Inl (RuntimeError ''output uses unsupported symbolic dtype'')
     | Some (numpy_dtype, itemsize) \<Rightarrow>
         if io_dtype output \<noteq> tk_dtype c \<or> io_shape output \<noteq> tk_shape c
         then Inl (RuntimeError ''output returned another shape and dtype'')
         else if int (length (io_data output)) \<noteq> expected_size (tk_shape c) itemsize
         then Inl (RuntimeError ''output returned another number of bytes'')
         else if io_data output = [] \<or> int (length (io_data output)) \<noteq> prod_list (tk_shape c) * itemsize
         then Inl (ValueError ''cannot reshape array'')
         else Inr (dict_set (tk_name c) \<lparr>ad_shape = tk_shape c, ad_dtype = numpy_dtype, ad_data = io_data output\<rparr> values))"

definition run_copied ::
  "session_lib \<Rightarrow> (world \<Rightarrow> array_arg \<Rightarrow> ndarray res) \<Rightarrow> program \<Rightarrow> tensor_contract list \<Rightarrow> tensor_contract list \<Rightarrow> array_map \<Rightarrow>
    execution_state \<Rightarrow> world \<Rightarrow> run_value res \<times> execution_state \<times> world" where
  "run_copied lib asarray p input_cs output_cs inputs x w =
     (case map_res (native_input asarray w inputs) input_cs of
        Inl e \<Rightarrow> (Inl e, x, w)
      | Inr native_inputs \<Rightarrow>
          (case get_session lib (pg_graph_blob p) (pg_timeout_ms p) x w of
             (Inl e, x', w') \<Rightarrow> (Inl e, x', w')
           | (Inr s, x', w') \<Rightarrow>
               (case infer_copied lib s native_inputs w' of
                  (Inl e, w'') \<Rightarrow> (Inl e, x', w'')
                | (Inr inferred, w'') \<Rightarrow>
                    (if length (ir_outputs inferred) \<noteq> length output_cs
                     then Inl (RuntimeError ''graph returned another number of outputs'')
                     else bind_res (fold_res add_output (zip output_cs (ir_outputs inferred)) []) (\<lambda>values. Inr (Arrays values)),
                     x', w''))))"

definition run ::
  "session_lib \<Rightarrow> (world \<Rightarrow> array_arg \<Rightarrow> ndarray res) \<Rightarrow> store \<Rightarrow> nat \<Rightarrow> program \<Rightarrow> array_map option \<Rightarrow> array_map option option \<Rightarrow>
    execution_state \<Rightarrow> world \<Rightarrow> run_value res \<times> execution_state \<times> world" where
  "run lib asarray st limit p inputs outputs x w =
     (case inputs of
        None \<Rightarrow> (Inl (TypeError ''Program.run() inputs must be a mapping''), x, w)
      | Some ins \<Rightarrow>
          (case (input_contracts p, output_contracts st limit p) of
             (Inl e, _) \<Rightarrow> (Inl e, x, w)
           | (Inr _, Inl e) \<Rightarrow> (Inl e, x, w)
           | (Inr input_cs, Inr output_cs) \<Rightarrow>
               if set (keys ins) \<noteq> tk_name ` set input_cs then (Inl (ValueError ''input names must exactly match''), x, w)
               else (case outputs of
                   Some outs \<Rightarrow> run_shared lib p input_cs output_cs ins outs x w
                 | None \<Rightarrow> run_copied lib asarray p input_cs output_cs ins x w)))"

text \<open>\<open>run(...)[output_name]\<close>\<close>

datatype one_value = OneArray array_data | OneGiven array_arg

definition run_one ::
  "session_lib \<Rightarrow> (world \<Rightarrow> array_arg \<Rightarrow> ndarray res) \<Rightarrow> store \<Rightarrow> nat \<Rightarrow> program \<Rightarrow> array_arg \<Rightarrow> array_arg option \<Rightarrow>
    execution_state \<Rightarrow> world \<Rightarrow> one_value res \<times> execution_state \<times> world" where
  "run_one lib asarray st limit p input_value output x w =
     (case (input_contracts p, output_contracts st limit p) of
        (Inl e, _) \<Rightarrow> (Inl e, x, w)
      | (Inr _, Inl e) \<Rightarrow> (Inl e, x, w)
      | (Inr [i], Inr [out]) \<Rightarrow>
          (case run lib asarray st limit p (Some [(tk_name i, input_value)])
              (map_option (\<lambda>v. Some [(tk_name out, v)]) output) x w of
             (Inl e, x', w') \<Rightarrow> (Inl e, x', w')
           | (Inr (Arrays values), x', w') \<Rightarrow>
               (bind_res (from_option (KeyError (tk_name out)) (map_of values (tk_name out))) (\<lambda>v. Inr (OneArray v)), x', w')
           | (Inr (Given values), x', w') \<Rightarrow>
               (bind_res (from_option (KeyError (tk_name out)) (map_of values (tk_name out))) (\<lambda>v. Inr (OneGiven v)), x', w'))
      | _ \<Rightarrow> (Inl (ValueError ''Program.run_one() requires exactly one input and one output''), x, w))"

section \<open>What a run returns\<close>

text \<open>The array that stands for an output of the graph.\<close>

definition conforms :: "tensor_contract \<Rightarrow> inference_output \<Rightarrow> array_data \<Rightarrow> bool" where
  "conforms c out a \<longleftrightarrow> ad_shape a = tk_shape c \<and> io_dtype out = tk_dtype c \<and> io_shape out = tk_shape c \<and> ad_data a = io_data out \<and>
     (case map_of execution_dtypes (tk_dtype c) of
        None \<Rightarrow> False
      | Some (numpy_dtype, itemsize) \<Rightarrow> ad_dtype a = numpy_dtype \<and>
          int (length (ad_data a)) = prod_list (tk_shape c) * itemsize \<and> prod_list (tk_shape c) < 2 ^ 63)"

lemma execution_dtypes_itemsize: "map_of execution_dtypes d = Some (n, k) \<Longrightarrow> 0 < k"
  by (auto simp: execution_dtypes_def split: if_splits)

lemma expected_size_exact:
  assumes "expected_size shape k = prod_list shape * k" and "0 < k"
  shows "prod_list shape < 2 ^ 63"
proof -
  have "sint (word_of_int (prod_list shape) :: 64 word) = prod_list shape"
    using assms by (simp add: expected_size_def)
  moreover have "sint (word_of_int (prod_list shape) :: 64 word) < 2 ^ (LENGTH(64) - 1)" by (rule sint_lt)
  ultimately show ?thesis by simp
qed

lemma add_output_conforms:
  assumes "add_output (c, out) values = Inr r"
  obtains a where "r = dict_set (tk_name c) a values" "conforms c out a"
proof -
  from assms obtain n k where nk: "map_of execution_dtypes (tk_dtype c) = Some (n, k)"
    by (auto simp: add_output_def split: option.splits)
  with assms have o': "io_dtype out = tk_dtype c" "io_shape out = tk_shape c"
    "int (length (io_data out)) = expected_size (tk_shape c) k" "int (length (io_data out)) = prod_list (tk_shape c) * k"
    and r: "r = dict_set (tk_name c) \<lparr>ad_shape = tk_shape c, ad_dtype = n, ad_data = io_data out\<rparr> values"
    by (auto simp: add_output_def split: if_splits)
  have "prod_list (tk_shape c) < 2 ^ 63"
    by (rule expected_size_exact [of _ k]) (use o' execution_dtypes_itemsize [OF nk] in auto)
  with o' nk show ?thesis by (intro that [OF r]) (simp add: conforms_def)
qed

lemma add_outputs_conform:
  assumes "fold_res add_output (zip cs outs) acc = Inr r" and "length cs = length outs"
    and "distinct (map fst acc @ map tk_name cs)"
  shows "\<exists>arrays. r = acc @ zip (map tk_name cs) arrays \<and> length arrays = length cs \<and>
    (\<forall>i < length cs. conforms (cs ! i) (outs ! i) (arrays ! i))"
  using assms
proof (induction cs arbitrary: outs acc)
  case (Cons c cs)
  then obtain out outs' where outs: "outs = out # outs'" by (cases outs) auto
  with Cons.prems(1) obtain acc' where 1: "add_output (c, out) acc = Inr acc'"
    and 2: "fold_res add_output (zip cs outs') acc' = Inr r" by (auto simp: bind_res_eq_Inr)
  from add_output_conforms [OF 1] obtain a where a: "acc' = dict_set (tk_name c) a acc" "conforms c out a" .
  have acc': "acc' = acc @ [(tk_name c, a)]"
    unfolding a(1) by (rule dict_set_fresh) (use Cons.prems(3) in \<open>auto simp: keys_def\<close>)
  have "\<exists>arrays. r = acc' @ zip (map tk_name cs) arrays \<and> length arrays = length cs \<and>
      (\<forall>i < length cs. conforms (cs ! i) (outs' ! i) (arrays ! i))"
    by (rule Cons.IH [OF 2]) (use Cons.prems outs in \<open>auto simp: acc'\<close>)
  then obtain arrays where "r = acc' @ zip (map tk_name cs) arrays" "length arrays = length cs"
    "\<forall>i < length cs. conforms (cs ! i) (outs' ! i) (arrays ! i)" by blast
  then show ?case
    unfolding outs by (intro exI [of _ "a # arrays"]) (auto simp: acc' a(2) less_Suc_eq_0_disj)
qed auto

text \<open>The input the library gets for a contract.\<close>

definition feeds :: "(world \<Rightarrow> array_arg \<Rightarrow> ndarray res) \<Rightarrow> world \<Rightarrow> array_map \<Rightarrow> tensor_contract \<Rightarrow> inference_input \<Rightarrow> bool" where
  "feeds asarray w ins c i \<longleftrightarrow> ii_selector i = PStr (tk_name c) \<and>
     (\<exists>v array. map_of ins (tk_name c) = Some v \<and> asarray w v = Inr array \<and> ii_data i = nd_bytes array \<and>
        map int (nd_shape array) = tk_shape c \<and>
        map_option fst (map_of execution_dtypes (tk_dtype c)) = Some (nd_dtype array))"

lemma native_input_feeds: "native_input asarray w ins c = Inr i \<Longrightarrow> feeds asarray w ins c i"
  by (auto simp: native_input_def feeds_def InferenceInput_def bind_res_eq_Inr from_option_eq_Inr Let_def
      split: option.splits if_splits)

lemma run_copied_cases:
  assumes "run_copied lib asarray p input_cs output_cs ins x w = (Inr v, x', w')"
  obtains s w1 inferred native_ins arrays where "map_res (native_input asarray w ins) input_cs = Inr native_ins"
    "get_session lib (pg_graph_blob p) (pg_timeout_ms p) x w = (Inr s, x', w1)"
    "infer_copied lib s native_ins w1 = (Inr inferred, w')" "length (ir_outputs inferred) = length output_cs"
    "fold_res add_output (zip output_cs (ir_outputs inferred)) [] = Inr arrays" "v = Arrays arrays"
  using assms unfolding run_copied_def
  by (auto simp: bind_res_eq_Inr split: sum.splits prod.splits if_splits)

text \<open>C19 A run without output buffers returns what the contracts promise: when \<open>run\<close> returns, it made one native
  call in the program's session with the bytes of every input, in contract order and after checking
  shape and dtype, and the result maps every output name to the array of that output, with the
  contract's shape and dtype and exactly the bytes of that many elements; the 64-bit size check never
  lets a wrapped-around size through.\<close>

theorem run_conforms:
  assumes "run lib asarray st limit p (Some ins) None x w = (Inr v, x', w')"
    and "input_contracts p = Inr input_cs" and "output_contracts st limit p = Inr output_cs"
    and "distinct (map tk_name output_cs)"
  shows "\<exists>arrays native_ins s w1 inferred. v = Arrays (zip (map tk_name output_cs) arrays) \<and>
    get_session lib (pg_graph_blob p) (pg_timeout_ms p) x w = (Inr s, x', w1) \<and>
    infer_copied lib s native_ins w1 = (Inr inferred, w') \<and>
    list_all2 (feeds asarray w ins) input_cs native_ins \<and>
    length arrays = length output_cs \<and> length (ir_outputs inferred) = length output_cs \<and>
    (\<forall>i < length output_cs. conforms (output_cs ! i) (ir_outputs inferred ! i) (arrays ! i))"
proof -
  from assms have "run_copied lib asarray p input_cs output_cs ins x w = (Inr v, x', w')"
    by (auto simp: run_def split: if_splits)
  then obtain s w1 inferred native_ins values' where r: "map_res (native_input asarray w ins) input_cs = Inr native_ins"
    "get_session lib (pg_graph_blob p) (pg_timeout_ms p) x w = (Inr s, x', w1)"
    "infer_copied lib s native_ins w1 = (Inr inferred, w')" "length (ir_outputs inferred) = length output_cs"
    "fold_res add_output (zip output_cs (ir_outputs inferred)) [] = Inr values'" "v = Arrays values'"
    by (rule run_copied_cases)
  from add_outputs_conform [OF r(5)] r(4) assms(4) obtain arrays where "values' = zip (map tk_name output_cs) arrays"
    "length arrays = length output_cs" "\<forall>i < length output_cs. conforms (output_cs ! i) (ir_outputs inferred ! i) (arrays ! i)"
    by auto
  moreover have "list_all2 (feeds asarray w ins) input_cs native_ins"
    using map_res_nth [OF r(1)] map_res_length [OF r(1)] native_input_feeds by (fastforce simp: list_all2_conv_all_nth)
  ultimately show ?thesis using r by blast
qed

text \<open>C20 A run that cannot be valid leaves no trace: when the input names are not those of the contracts, the
  program is closed, or (without output buffers) some input is missing, cannot be converted or has
  another shape or dtype, \<open>run\<close> raises, the execution state is unchanged and no native call is made.\<close>

theorem run_rejects_early:
  assumes "input_contracts p = Inr input_cs" and "output_contracts st limit p = Inr output_cs"
    and "set (keys ins) \<noteq> tk_name ` set input_cs \<or> xs_closed x \<or> outputs = None \<and> (\<exists>c \<in> set input_cs. \<forall>i. \<not> feeds asarray w ins c i)"
  shows "\<exists>e. run lib asarray st limit p (Some ins) outputs x w = (Inl e, x, w)"
proof -
  have closed: "get_session lib b t x w = (Inl (RuntimeError ''program is closed''), x, w)" if "xs_closed x" for b t
    using that by (simp add: get_session_def)
  have shared: "\<exists>e. run_shared lib p input_cs output_cs ins outs x w = (Inl e, x, w)" if "xs_closed x" for outs
    by (auto simp: run_shared_def closed [OF that] split: option.splits)
  have unfit: "\<exists>e. map_res (native_input asarray w ins) input_cs = Inl e" if "c \<in> set input_cs" "\<forall>i. \<not> feeds asarray w ins c i" for c
    using that native_input_feeds [of asarray w ins c] unfolding map_res_raises_iff by (metis sum.exhaust)
  have "\<exists>e. run_copied lib asarray p input_cs output_cs ins x w = (Inl e, x, w)"
    if "xs_closed x \<or> (\<exists>c \<in> set input_cs. \<forall>i. \<not> feeds asarray w ins c i)"
    using that unfit by (cases "map_res (native_input asarray w ins) input_cs") (auto simp: run_copied_def closed)
  with shared assms show ?thesis by (auto simp: run_def split: option.splits)
qed

section \<open>Zero-copy runs\<close>

text \<open>A live buffer of the session that is the whole memory of the array given for a contract.\<close>

definition bound_to :: "world \<Rightarrow> nat \<Rightarrow> array_map \<Rightarrow> tensor_contract \<Rightarrow> nat \<Rightarrow> bool" where
  "bound_to w s arrays c b \<longleftrightarrow> \<not> buffer_released w b \<and> sb_session (wd_buffers w ! b) = s \<and>
     (\<exists>a. map_of arrays (tk_name c) = Some (Shared a) \<and> sa_allocation a = Some b \<and> sa_shape a = tk_shape c \<and>
        map_option fst (map_of execution_dtypes (tk_dtype c)) = Some (sa_dtype a) \<and> sa_contiguous a \<and>
        sb_address (wd_buffers w ! b) = Some (sa_address a) \<and> sb_size (wd_buffers w ! b) = sa_nbytes a)"

lemma validate_shared_array_Inr:
  "validate_shared_array w s c v = Inr b \<longleftrightarrow> \<not> buffer_released w b \<and> sb_session (wd_buffers w ! b) = s \<and>
     (\<exists>a. v = Shared a \<and> sa_allocation a = Some b \<and> sa_shape a = tk_shape c \<and>
        map_option fst (map_of execution_dtypes (tk_dtype c)) = Some (sa_dtype a) \<and> sa_contiguous a \<and>
        sb_address (wd_buffers w ! b) = Some (sa_address a) \<and> sb_size (wd_buffers w ! b) = sa_nbytes a)"
  by (auto simp: validate_shared_array_def Let_def bind_res_eq_Inr buffer_address_def buffer_size_def
      split: array_arg.splits option.splits if_splits)

lemma shared_bindings_bound:
  assumes "shared_bindings w s arrays cs = Inr bs"
  shows "\<exists>buffers. bs = map (\<lambda>(c, b). (PStr (tk_name c), Some b)) (zip cs buffers) \<and> list_all2 (bound_to w s arrays) cs buffers"
  using assms
proof (induction cs arbitrary: bs)
  case Nil
  then show ?case by (simp add: shared_bindings_def)
next
  case (Cons c cs)
  then obtain v b bs' where v: "map_of arrays (tk_name c) = Some v" "validate_shared_array w s c v = Inr b"
    and bs: "bs = (PStr (tk_name c), Some b) # bs'" and "shared_bindings w s arrays cs = Inr bs'"
    by (auto simp: shared_bindings_def bind_res_eq_Inr from_option_eq_Inr)
  moreover from v have "bound_to w s arrays c b" by (auto simp: bound_to_def validate_shared_array_Inr)
  moreover from Cons.IH [OF \<open>shared_bindings w s arrays cs = Inr bs'\<close>] obtain buffers where
    "bs' = map (\<lambda>(c, b). (PStr (tk_name c), Some b)) (zip cs buffers)" "list_all2 (bound_to w s arrays) cs buffers" by blast
  ultimately show ?case by (intro exI [of _ "b # buffers"]) auto
qed

lemma binding_array_buffers:
  assumes "binding_array w bs = Inr ts"
  shows "map (\<lambda>t. Some (sh_buffer t)) ts = map snd bs"
proof -
  have "snd x = Some (sh_buffer t)" if "bind_tensor w x = Inr t" for x t
    using that by (cases x) (auto dest: bind_tensor_live)
  then show ?thesis
    using map_res_nth [OF assms [unfolded binding_array_def]] map_res_length [OF assms [unfolded binding_array_def]]
    by (intro nth_equalityI) auto
qed

lemma session_infer_log:
  assumes "session_infer lib s ins outs w = (Inr u, w')" and "map snd ins = map Some bs" and "map snd outs = map Some bs'"
  shows "wd_log w' = wd_log w @ [SessionInfer s (bs @ bs')]"
proof -
  from assms(1) obtain native_ins native_outs where n: "binding_array w ins = Inr native_ins" "binding_array w outs = Inr native_outs"
    and w': "wd_log w' = wd_log w @ [SessionInfer s (map sh_buffer (native_ins @ native_outs))]"
    unfolding session_infer_def Let_def by (auto split: if_splits sum.splits prod.splits)
  have "map sh_buffer native_ins = bs" "map sh_buffer native_outs = bs'"
    using binding_array_buffers [OF n(1)] binding_array_buffers [OF n(2)] assms(2,3)
    by (metis (no_types, lifting) inj_map_eq_map inj_Some list.map_comp comp_def map_eq_conv)+
  with w' show ?thesis by simp
qed

lemma run_shared_cases:
  assumes "run_shared lib p input_cs output_cs ins (Some outs) x w = (Inr v, x', w')"
  obtains s w1 bi bo where "get_session lib (pg_graph_blob p) (pg_timeout_ms p) x w = (Inr s, x', w1)"
    "shared_bindings w1 s ins input_cs = Inr bi" "shared_bindings w1 s outs output_cs = Inr bo"
    "session_infer lib s bi bo w1 = (Inr (), w')" "v = Given outs"
  using assms unfolding run_shared_def by (auto split: sum.splits prod.splits if_splits)

text \<open>C21 A zero-copy run binds exactly the caller's arrays: when \<open>run\<close> with output arrays returns, it returned those
  arrays and made one native call, in the program's session, with one buffer per input and output
  contract, in order; each is a live buffer of this session and is all of the memory of the array
  given under the contract's name, which has the contract's shape and dtype.\<close>

theorem shared_run_binds:
  assumes "run lib asarray st limit p (Some ins) (Some (Some outs)) x w = (Inr v, x', w')"
    and "input_contracts p = Inr input_cs" and "output_contracts st limit p = Inr output_cs"
  shows "v = Given outs \<and> (\<exists>s w1 bs bs'. get_session lib (pg_graph_blob p) (pg_timeout_ms p) x w = (Inr s, x', w1) \<and>
    wd_log w' = wd_log w1 @ [SessionInfer s (bs @ bs')] \<and>
    list_all2 (bound_to w1 s ins) input_cs bs \<and> list_all2 (bound_to w1 s outs) output_cs bs')"
proof -
  have snds: "map snd (map (\<lambda>(c, b). (PStr (tk_name c), Some b)) (zip cs bs)) = map Some bs" if "list_all2 P cs bs" for P cs bs
    using that by induction auto
  from assms have "run_shared lib p input_cs output_cs ins (Some outs) x w = (Inr v, x', w')"
    by (auto simp: run_def split: if_splits)
  then obtain s w1 bi bo where r: "get_session lib (pg_graph_blob p) (pg_timeout_ms p) x w = (Inr s, x', w1)"
    "shared_bindings w1 s ins input_cs = Inr bi" "shared_bindings w1 s outs output_cs = Inr bo"
    "session_infer lib s bi bo w1 = (Inr (), w')" "v = Given outs" by (rule run_shared_cases)
  from shared_bindings_bound [OF r(2)] obtain bs where bs: "map snd bi = map Some bs" "list_all2 (bound_to w1 s ins) input_cs bs"
    using snds by blast
  from shared_bindings_bound [OF r(3)] obtain bs' where bs': "map snd bo = map Some bs'" "list_all2 (bound_to w1 s outs) output_cs bs'"
    using snds by blast
  from session_infer_log [OF r(4) bs(1) bs'(1)] r bs(2) bs'(2) show ?thesis by blast
qed

lemma shared_array_of_cases:
  assumes "shared_array_of lib p (shape_val (tk_shape c)) (PStr (tk_dtype c)) x w = (Inr a, x', w')" and "valid_contract c"
  obtains s n k w1 b where "map_of execution_dtypes (tk_dtype c) = Some (n, k)"
    "get_session lib (pg_graph_blob p) (pg_timeout_ms p) x w = (Inr s, x', w1)"
    "create_buffer lib s (PInt (prod_list (tk_shape c) * k)) w1 = (Inr b, w')" "SharedArray w' b (tk_shape c) n k = Inr a"
proof -
  have "TensorSpec (shape_val (tk_shape c)) (PStr (tk_dtype c)) = Inr (tk_spec c)"
    using assms(2) by (intro TensorSpec_of_fields) (simp add: valid_contract_def)
  with assms(1) that show ?thesis
    unfolding shared_array_of_def by (auto split: option.splits sum.splits prod.splits)
qed

lemma create_buffer_session:
  assumes "create_buffer lib s n w = (Inr b, w')"
  shows "b < length (wd_buffers w') \<and> sb_session (wd_buffers w' ! b) = s \<and> \<not> buffer_released w' b"
  using assms by (auto simp: create_buffer_def buffer_released_def Let_def split: if_splits prod.splits)

lemma get_session_again:
  assumes "get_session lib g t x w = (Inr s, x', w')"
  shows "get_session lib g t x' w'' = (Inr s, x', w'')"
  using assms by (auto simp: get_session_def split: if_splits option.splits sum.splits prod.splits)

text \<open>An array that the program allocated for a contract fits: what \<open>shared_array\<close> returns for the shape and dtype of
  a contract covers exactly the bytes of that many elements and is the whole of a fresh live buffer of
  the session that later runs use, and \<open>_validate_shared_array\<close> accepts it for the contract.\<close>

theorem shared_array_fits:
  assumes "shared_array_of lib p (shape_val (tk_shape c)) (PStr (tk_dtype c)) x w = (Inr a, x', w')" and "valid_contract c"
  shows "\<exists>s b n k. get_session lib (pg_graph_blob p) (pg_timeout_ms p) x' w' = (Inr s, x', w') \<and>
    map_of execution_dtypes (tk_dtype c) = Some (n, k) \<and> sa_nbytes a = prod_list (tk_shape c) * k \<and>
    sa_allocation a = Some b \<and> sb_size (wd_buffers w' ! b) = sa_nbytes a \<and> validate_shared_array w' s c (Shared a) = Inr b"
proof -
  obtain s n k w1 b where r: "map_of execution_dtypes (tk_dtype c) = Some (n, k)"
    "get_session lib (pg_graph_blob p) (pg_timeout_ms p) x w = (Inr s, x', w1)"
    "create_buffer lib s (PInt (prod_list (tk_shape c) * k)) w1 = (Inr b, w')" "SharedArray w' b (tk_shape c) n k = Inr a"
    by (rule shared_array_of_cases [OF assms])
  have k: "0 < k" by (rule execution_dtypes_itemsize [OF r(1)])
  from r(4) have a: "sa_allocation a = Some b" "sa_shape a = tk_shape c" "sa_dtype a = n" "sa_contiguous a"
    "sb_address (wd_buffers w' ! b) = Some (sa_address a)" "sb_size (wd_buffers w' ! b) = sa_nbytes a"
    "sa_nbytes a mod k = 0" "sa_nbytes a div k = prod_list (tk_shape c)"
    by (auto simp: SharedArray_def bind_res_eq_Inr buffer_size_def buffer_address_def split: if_splits)
  then have "sa_nbytes a = prod_list (tk_shape c) * k" by (metis add.right_neutral mult.commute mult_div_mod_eq)
  moreover have "validate_shared_array w' s c (Shared a) = Inr b"
    using a create_buffer_session [OF r(3)] r(1) by (simp add: validate_shared_array_Inr)
  ultimately show ?thesis using get_session_again [OF r(2)] r(1) a by blast
qed

section \<open>A run of the sample program\<close>

definition demo_asarray :: "world \<Rightarrow> array_arg \<Rightarrow> ndarray res" where
  "demo_asarray w v = (case v of ArrayLike (PArray a) \<Rightarrow> Inr a | _ \<Rightarrow> Inl (TypeError ''array''))"

definition demo_array :: array_arg where
  "demo_array = ArrayLike (PArray \<lparr>nd_shape = [2, 3], nd_dtype = ''float16'', nd_kind = ''f'', nd_ints = [], nd_bytes = replicate 12 0\<rparr>)"

definition demo_run_lib :: session_lib where
  "demo_run_lib = demo_session_lib\<lparr>sl_infer_copied := \<lambda>_ _ _. (0,
     \<lparr>fr_selected_driver_index = 0, fr_selected_device_index = 0, fr_driver_version = 0, fr_device_vendor_id = 0, fr_device_id = 0,
      fr_outputs = [\<lparr>fo_argument_index = 1, fo_precision = 1, fo_dims_count = 1, fo_dims = [6, 0, 0, 0, 0], fo_name = Some [],
        fo_data = Some (replicate 24 7)\<rparr>], fr_diagnostic = None\<rparr>)\<rparr>"

abbreviation demo_world :: world where
  "demo_world \<equiv> sy_world start"

definition demo_run :: "run_value res \<times> execution_state \<times> world" where
  "demo_run = run demo_run_lib demo_asarray [] 0 sample_program (Some [(''x'', demo_array)]) None initial_state demo_world"

lemma demo_run_value: "\<exists>x' w'. demo_run = (Inr (Arrays [(''y'', \<lparr>ad_shape = [6], ad_dtype = ''float32'', ad_data = replicate 24 7\<rparr>)]), x', w')"
proof -
  have "fst demo_run = Inr (Arrays [(''y'', \<lparr>ad_shape = [6], ad_dtype = ''float32'', ad_data = replicate 24 7\<rparr>)])" by code_simp
  then show ?thesis by (metis prod.collapse)
qed

lemma sample_boundaries:
  "input_contracts sample_program = Inr (pg_saved_inputs sample_program)"
  "output_contracts st limit sample_program = Inr (pg_saved_outputs sample_program)"
  by (simp_all add: input_contracts_def output_contracts_def sample_program_def)

theorem run_conforms_witness:
  "\<exists>s w1 x' w' native_ins inferred. demo_run = (Inr (Arrays [(''y'', \<lparr>ad_shape = [6], ad_dtype = ''float32'', ad_data = replicate 24 7\<rparr>)]), x', w') \<and>
     get_session demo_run_lib [3] 0 initial_state demo_world = (Inr s, x', w1) \<and>
     infer_copied demo_run_lib s native_ins w1 = (Inr inferred, w') \<and> length (ir_outputs inferred) = 1"
proof -
  obtain x' w' where d: "demo_run = (Inr (Arrays [(''y'', \<lparr>ad_shape = [6], ad_dtype = ''float32'', ad_data = replicate 24 7\<rparr>)]), x', w')"
    using demo_run_value by blast
  from run_conforms [OF d [unfolded demo_run_def] sample_boundaries]
  have "\<exists>s w1 native_ins inferred. get_session demo_run_lib [3] 0 initial_state demo_world = (Inr s, x', w1) \<and>
     infer_copied demo_run_lib s native_ins w1 = (Inr inferred, w') \<and> length (ir_outputs inferred) = 1"
    by (auto simp: sample_program_def)
  with d show ?thesis by blast
qed

theorem run_rejects_early_witness:
  "\<exists>e. run demo_run_lib demo_asarray [] 0 sample_program (Some [(''z'', demo_array)]) None initial_state demo_world =
     (Inl e, initial_state, demo_world)"
  by (rule run_rejects_early [OF sample_boundaries]) (simp add: sample_program_def keys_def)

definition sample_input :: tensor_contract where
  "sample_input = \<lparr>tk_name = ''x'', tk_spec = \<lparr>ts_shape = [2, 3], ts_dtype = ''f16''\<rparr>\<rparr>"

definition sample_output :: tensor_contract where
  "sample_output = \<lparr>tk_name = ''y'', tk_spec = \<lparr>ts_shape = [6], ts_dtype = ''f32''\<rparr>\<rparr>"

definition demo_shared :: "string \<Rightarrow> nat \<Rightarrow> shared_array" where
  "demo_shared dtype b = \<lparr>sa_allocation = Some b, sa_shape = (if b = 0 then [2, 3] else [6]), sa_dtype = dtype, sa_contiguous = True,
     sa_address = 4096, sa_nbytes = (if b = 0 then 12 else 24)\<rparr>"

definition demo_shared_world :: "nat \<Rightarrow> world" where
  "demo_shared_world n = \<lparr>wd_sessions = [\<lparr>se_graph = [3], se_closed = False\<rparr>],
     wd_buffers = take n [\<lparr>sb_session = 0, sb_address = Some 4096, sb_size = 12, sb_released = False\<rparr>,
       \<lparr>sb_session = 0, sb_address = Some 4096, sb_size = 24, sb_released = False\<rparr>],
     wd_memory = (\<lambda>_. []), wd_log = [SessionCreate 0] @ take n [BufferCreate 0 0, BufferCreate 0 1]\<rparr>"

definition demo_shared_state :: execution_state where
  "demo_shared_state = \<lparr>xs_session = Some 0, xs_closed = False\<rparr>"

theorem shared_array_fits_witness:
  "shared_array_of demo_run_lib sample_program (shape_val (tk_shape sample_input)) (PStr (tk_dtype sample_input)) demo_shared_state
     (demo_shared_world 0) = (Inr (demo_shared ''float16'' 0), demo_shared_state, demo_shared_world 1) \<and>
   sa_nbytes (demo_shared ''float16'' 0) = 12"
proof -
  have v: "valid_contract sample_input" by code_simp
  have "TensorSpec (shape_val [2, 3]) (PStr ''f16'') = Inr \<lparr>ts_shape = [2, 3], ts_dtype = ''f16''\<rparr>" by code_simp
  then have a: "shared_array_of demo_run_lib sample_program (shape_val (tk_shape sample_input)) (PStr (tk_dtype sample_input)) demo_shared_state
     (demo_shared_world 0) = (Inr (demo_shared ''float16'' 0), demo_shared_state, demo_shared_world 1)"
    by (simp add: shared_array_of_def sample_input_def execution_dtypes_def get_session_def demo_shared_state_def create_buffer_def
        demo_shared_world_def session_closed_def demo_run_lib_def demo_session_lib_def add_buffer_def log_calls_def SharedArray_def
        buffer_size_def buffer_address_def buffer_released_def demo_shared_def)
  from shared_array_fits [OF a v] a show ?thesis by (auto simp: sample_input_def execution_dtypes_def)
qed

definition demo_zero_copy :: "run_value res \<times> execution_state \<times> world" where
  "demo_zero_copy = run demo_run_lib demo_asarray [] 0 sample_program (Some [(''x'', Shared (demo_shared ''float16'' 0))])
     (Some (Some [(''y'', Shared (demo_shared ''float32'' 1))])) demo_shared_state (demo_shared_world 2)"

theorem shared_run_binds_witness:
  "\<exists>x' w'. demo_zero_copy = (Inr (Given [(''y'', Shared (demo_shared ''float32'' 1))]), x', w') \<and>
     last (wd_log w') = SessionInfer 0 [0, 1]"
proof -
  have "case fst demo_zero_copy of Inr _ \<Rightarrow> True | _ \<Rightarrow> False" by code_simp
  then obtain v where "fst demo_zero_copy = Inr v" by (auto split: sum.splits)
  then obtain x' w' where d: "demo_zero_copy = (Inr v, x', w')" by (metis prod.collapse)
  have g: "get_session demo_run_lib (pg_graph_blob sample_program) (pg_timeout_ms sample_program) demo_shared_state (demo_shared_world 2) =
    (Inr 0, demo_shared_state, demo_shared_world 2)" by (simp add: get_session_def demo_shared_state_def)
  from shared_run_binds [OF d [unfolded demo_zero_copy_def] sample_boundaries] obtain bs bs' where
    v: "v = Given [(''y'', Shared (demo_shared ''float32'' 1))]" and log: "last (wd_log w') = SessionInfer 0 (bs @ bs')"
    and bs: "list_all2 (bound_to (demo_shared_world 2) 0 [(''x'', Shared (demo_shared ''float16'' 0))]) (pg_saved_inputs sample_program) bs"
    "list_all2 (bound_to (demo_shared_world 2) 0 [(''y'', Shared (demo_shared ''float32'' 1))]) (pg_saved_outputs sample_program) bs'"
    by (auto simp: g)
  then have "bs = [0]" "bs' = [1]" by (auto simp: sample_program_def list_all2_Cons1 bound_to_def demo_shared_def)
  with log have "last (wd_log w') = SessionInfer 0 [0, 1]" by simp
  with d v show ?thesis by blast
qed

end
