(* ===== verification/Reviewed_Ir.thy ===== *)
theory Reviewed_Ir
  imports Program
begin

text \<open>
  The reviewed-IR path of \<open>__init__.py\<close>: the MoviTools directory of the process, \<open>compile_kernel\<close>, native blobs given by
  the caller, \<open>prepare_ir\<close> and \<open>PreparedIr.build\<close>. The theorem says what a program built this way certifies about
  its inputs.
\<close>

section \<open>Process configuration\<close>

record process =
  px_configured :: "string option"
  px_environment :: "string option"

definition configure :: "string option \<Rightarrow> process \<Rightarrow> process res" where
  "configure movi_dll_dir px =
     (case movi_dll_dir of
        None \<Rightarrow> Inr (px\<lparr>px_configured := None\<rparr>)
      | Some v \<Rightarrow> if v = [] then Inl (ValueError ''movi_dll_dir must not be empty'') else Inr (px\<lparr>px_configured := Some v\<rparr>))"

definition resolve_movi_dll_dir :: "process \<Rightarrow> string option \<Rightarrow> string option" where
  "resolve_movi_dll_dir px explicit =
     (case explicit of
        Some v \<Rightarrow> Some v
      | None \<Rightarrow> (case px_configured px of
            Some v \<Rightarrow> Some v
          | None \<Rightarrow> (case px_environment px of Some v \<Rightarrow> if v = [] then None else Some v | None \<Rightarrow> None)))"

section \<open>Kernels and native blobs\<close>

text \<open>\<open>tuple(definitions) or linker_script is not None\<close> after a kernel that carries its own\<close>

definition overrides_given :: "pyval \<Rightarrow> pyval \<Rightarrow> bool res" where
  "overrides_given definitions script =
     bind_res (from_option (TypeError ''object is not iterable'') (py_iter definitions)) (\<lambda>ds. Inr (ds \<noteq> [] \<or> script \<noteq> PNone))"

definition kernel_spec_of :: "file_reader \<Rightarrow> pyval \<Rightarrow> pyval \<Rightarrow> pyval \<Rightarrow> kernel_spec res" where
  "kernel_spec_of fs source definitions script =
     (case source of
        PKernel (KSpec spec) \<Rightarrow>
          bind_res (overrides_given definitions script) (\<lambda>given.
          if given then Inl (ValueError ''compile_kernel() definitions and linker_script cannot override a KernelSpec'')
          else Inr spec)
      | PBytes _ \<Rightarrow> KernelSpec fs source definitions script
      | PStr _ \<Rightarrow> KernelSpec fs source definitions script
      | PPath _ \<Rightarrow> KernelSpec fs source definitions script
      | _ \<Rightarrow> Inl (TypeError ''compile_kernel() requires a KernelSpec, source bytes, or a source path''))"

definition compile_kernel ::
  "native_lib \<Rightarrow> file_reader \<Rightarrow> process \<Rightarrow> pyval \<Rightarrow> pyval \<Rightarrow> pyval \<Rightarrow> string option \<Rightarrow> int \<Rightarrow> string option \<Rightarrow> compiled_kernel res" where
  "compile_kernel lib fs px source definitions script movi_dll_dir timeout_ms movi_worker =
     bind_res (kernel_spec_of fs source definitions script) (\<lambda>spec.
     bind_res (from_option (ValueError ''kernel compilation requires an MVC_DEPEND root'') (resolve_movi_dll_dir px movi_dll_dir)) (\<lambda>dir.
     bind_res (compile_shave lib (ks_source spec) dir (ks_linker_script spec) (ks_definitions spec) timeout_ms movi_worker) (\<lambda>elf.
     bind_res (CompiledKernel fs (PBytes elf)) (\<lambda>result.
     Inr (result\<lparr>ck_elf_name := ''<compiled from '' @ ks_source_name spec @ ''>''\<rparr>)))))"

definition native_blob_bytes :: "data_arg \<Rightarrow> bytes res" where
  "native_blob_bytes v =
     bind_res (case v of DataBytes b \<Rightarrow> Inr b | DataView b _ \<Rightarrow> Inr b | DataOther \<Rightarrow> Inl (TypeError ''native graph blob must be bytes-like''))
       (\<lambda>blob. if blob = [] then Inl (ValueError ''native graph blob must not be empty'') else Inr blob)"

definition compare_native_graphs :: "native_lib \<Rightarrow> data_arg \<Rightarrow> data_arg \<Rightarrow> graph_comparison res" where
  "compare_native_graphs lib baseline candidate =
     bind_res (native_blob_bytes baseline) (\<lambda>a. bind_res (native_blob_bytes candidate) (compare_graphs lib a))"

definition load_native :: "store \<Rightarrow> nat \<Rightarrow> data_arg \<Rightarrow> graph option \<Rightarrow> int \<Rightarrow> program res" where
  "load_native st limit blob graph timeout_ms =
     (case graph of
        None \<Rightarrow> Inl (TypeError ''load_native() requires a Graph'')
      | Some g \<Rightarrow>
          bind_res (native_blob_bytes blob) (\<lambda>data.
          make_program st limit \<lparr>pg_graph_blob = data, pg_graph = Some g, pg_serialized_ir = None, pg_ir_provenance = None,
            pg_patch_reports = [], pg_timeout_ms = timeout_ms, pg_saved_inputs = [], pg_saved_outputs = [],
            pg_artifact_manifest = None\<rparr>))"

section \<open>Reviewed IR\<close>

record prepared_ir =
  pi_xml :: bytes
  pi_weights :: bytes
  pi_binding :: reviewed_patch_binding
  pi_ir_provenance :: ir_compile_result
  pi_timeout_ms :: int

definition bytes_like :: "data_arg \<Rightarrow> bytes option" where
  "bytes_like v = (case v of DataBytes b \<Rightarrow> Some b | DataView b _ \<Rightarrow> Some b | DataOther \<Rightarrow> None)"

definition prepare_ir ::
  "native_lib \<Rightarrow> data_arg \<Rightarrow> data_arg \<Rightarrow> reviewed_patch_binding option \<Rightarrow> int \<Rightarrow> string option \<Rightarrow> prepared_ir res" where
  "prepare_ir lib xml weights binding timeout_ms ir_worker =
     (case binding of
        None \<Rightarrow> Inl (TypeError ''prepare_ir() requires a ReviewedPatchBinding'')
      | Some b \<Rightarrow>
          (case (bytes_like xml, bytes_like weights) of
             (Some xml_data, Some weights_data) \<Rightarrow>
               if xml_data = [] then Inl (ValueError ''prepare_ir() XML must not be empty'')
               else
                 bind_res (validate_ir b xml_data weights_data) (\<lambda>_.
                 bind_res (compile_ir lib xml_data weights_data (rb_build_flags b) timeout_ms ir_worker) (\<lambda>compiled.
                 bind_res (provenance_from_ir_result compiled) (\<lambda>provenance.
                 if provenance \<noteq> rb_provenance b
                 then Inl (ValueError ''compiled IR provenance does not match the reviewed binding'')
                 else if sha256 (ic_graph_blob compiled) \<noteq> rb_native_graph_sha256 b
                 then Inl (ValueError ''compiled native graph does not match the reviewed binding'')
                 else Inr \<lparr>pi_xml = xml_data, pi_weights = weights_data, pi_binding = b, pi_ir_provenance = compiled,
                   pi_timeout_ms = timeout_ms\<rparr>)))
           | _ \<Rightarrow> Inl (TypeError ''prepare_ir() XML and weights must be bytes-like'')))"

definition boundary_contract :: "boundary \<Rightarrow> tensor_contract res" where
  "boundary_contract = (\<lambda>(name, shape, dtype). TensorContract (PStr name) (shape_val shape) (PStr dtype))"

definition boundary_triple :: "boundary \<Rightarrow> pyval \<times> pyval \<times> pyval" where
  "boundary_triple = (\<lambda>(name, shape, dtype). (PStr name, shape_val shape, PStr dtype))"

text \<open>The kernel argument of \<open>build\<close>: a compiled kernel is used as it is, everything else is compiled.\<close>

definition build_kernel ::
  "native_lib \<Rightarrow> file_reader \<Rightarrow> process \<Rightarrow> pyval \<Rightarrow> string option \<Rightarrow> pyval \<Rightarrow> pyval \<Rightarrow> int \<Rightarrow> string option \<Rightarrow> compiled_kernel res" where
  "build_kernel lib fs px source movi_dll_dir definitions script timeout_ms movi_worker =
     (case source of
        PKernel (KCompiled compiled) \<Rightarrow>
          bind_res (overrides_given definitions script) (\<lambda>given.
          if given then Inl (ValueError ''compiled kernels cannot be combined with definitions or a linker script'')
          else Inr compiled)
      | _ \<Rightarrow> compile_kernel lib fs px source definitions script movi_dll_dir timeout_ms movi_worker)"

text \<open>\<open>==\<close> on the pairs of \<open>target.get("invocation_index")\<close> and \<open>target.get("range_index")\<close>\<close>

definition report_selectors_match :: "(string \<times> pyval) list list \<Rightarrow> patch_target_v2 list \<Rightarrow> bool" where
  "report_selectors_match reported targets \<longleftrightarrow> list_all2 (\<lambda>d t.
     py_eq (dget d ''invocation_index'') (PInt (p2_invocation_index t)) \<and>
     py_eq (dget d ''range_index'') (PInt (p2_range_index t))) reported targets"

definition check_patch_report :: "prepared_ir \<Rightarrow> compiled_kernel \<Rightarrow> patch_result \<Rightarrow> unit res" where
  "check_patch_report r compiled patched =
     bind_res (parse_report (pr_report_json patched)) (\<lambda>report.
     if rp_input_graph_sha256 report \<noteq> sha256 (ic_graph_blob (pi_ir_provenance r))
     then Inl (RuntimeError ''patch report input hash does not match the reviewed native graph'')
     else if rp_output_graph_sha256 report \<noteq> sha256 (pr_graph_blob patched)
     then Inl (RuntimeError ''patch report output hash does not match the patched native graph'')
     else if rp_shave_elf_sha256 report \<noteq> elf_sha256 compiled
     then Inl (RuntimeError ''patch report ELF hash does not match the compiled kernel'')
     else if length (rp_targets report) \<noteq> length (rb_targets (pi_binding r))
     then Inl (RuntimeError ''patch report target count does not match the reviewed binding'')
     else if \<not> report_selectors_match (rp_targets report) (rb_targets (pi_binding r))
     then Inl (RuntimeError ''patch report selectors do not match the reviewed binding'')
     else Inr ())"

definition build_prepared_ir ::
  "native_lib \<Rightarrow> file_reader \<Rightarrow> process \<Rightarrow> prepared_ir \<Rightarrow> pyval \<Rightarrow> string option \<Rightarrow> pyval \<Rightarrow> pyval \<Rightarrow> string option \<Rightarrow> program res" where
  "build_prepared_ir lib fs px r source movi_dll_dir definitions script movi_worker =
     bind_res (build_kernel lib fs px source movi_dll_dir definitions script (pi_timeout_ms r) movi_worker) (\<lambda>compiled.
     bind_res (patch_graph lib (ic_graph_blob (pi_ir_provenance r)) (ck_elf compiled) (map TargetV2 (rb_targets (pi_binding r)))
       0x400 0x80) (\<lambda>patched.
     bind_res (check_patch_report r compiled patched) (\<lambda>_.
     bind_res (map_res boundary_contract (rb_inputs (pi_binding r))) (\<lambda>inputs.
     bind_res (map_res boundary_contract (rb_outputs (pi_binding r))) (\<lambda>outputs.
     bind_res (make_program [] 0 \<lparr>pg_graph_blob = pr_graph_blob patched, pg_graph = None, pg_serialized_ir = None,
       pg_ir_provenance = Some (pi_ir_provenance r), pg_patch_reports = [pr_report_json patched],
       pg_timeout_ms = pi_timeout_ms r, pg_saved_inputs = inputs, pg_saved_outputs = outputs, pg_artifact_manifest = None\<rparr>) (\<lambda>p.
     bind_res (ProgramContract (map boundary_triple (rb_inputs (pi_binding r))) (map boundary_triple (rb_outputs (pi_binding r)))
       (PInt 1) (PStr ''8.3'') (PStr ''3720'') (Some [PInt (int (length (rb_targets (pi_binding r))))])) (\<lambda>contract.
     require_contract [] 0 p (Some contract))))))))"

section \<open>What a reviewed build certifies\<close>

lemma py_eq_shape: "py_eq (shape_val s) (shape_val t) \<longleftrightarrow> s = t"
proof -
  have "length s = length t \<Longrightarrow> list_all (\<lambda>(x, y). py_eq x y) (zip (map PInt s) (map PInt t)) \<longleftrightarrow> s = t"
    by (induction s t rule: list_induct2) auto
  then show ?thesis by auto
qed

lemma same_boundary_triples:
  "same_boundary actual (map (\<lambda>(n, s, d). (str_of n, s, d)) (map boundary_triple bs)) \<longleftrightarrow> actual = bs"
proof -
  have "(\<lambda>(n, s, d). (str_of n, s, d)) \<circ> boundary_triple = (\<lambda>(n, s, d). (n, shape_val s, PStr d))"
    by (auto simp: boundary_triple_def)
  then have "same_boundary actual (map (\<lambda>(n, s, d). (str_of n, s, d)) (map boundary_triple bs)) \<longleftrightarrow>
    list_all2 (\<lambda>(n, s, d) (n', s', d'). n = n' \<and> s = s' \<and> d = d') actual bs"
    by (simp add: same_boundary_def list.rel_map case_prod_beta' py_eq_shape del: py_eq.simps(4))
      (auto simp: list_all2_conv_all_nth)
  also have "(\<lambda>(n, s, d) (n', s', d'). n = n' \<and> s = s' \<and> d = d') = ((=) :: boundary \<Rightarrow> boundary \<Rightarrow> bool)"
    by (auto simp: fun_eq_iff)
  also have "list_all2 (=) actual bs \<longleftrightarrow> actual = bs" by (simp add: list.rel_eq)
  finally show ?thesis .
qed

lemma prepare_ir_Inr:
  assumes "prepare_ir lib xml weights (Some b) t worker = Inr r"
  shows "bytes_like xml = Some (pi_xml r) \<and> bytes_like weights = Some (pi_weights r) \<and> pi_binding r = b \<and> pi_timeout_ms r = t \<and>
    sha256 (pi_xml r) = rb_xml_sha256 b \<and> sha256 (pi_weights r) = rb_weights_sha256 b \<and>
    compile_ir lib (pi_xml r) (pi_weights r) (rb_build_flags b) t worker = Inr (pi_ir_provenance r) \<and>
    provenance_from_ir_result (pi_ir_provenance r) = Inr (rb_provenance b) \<and>
    sha256 (ic_graph_blob (pi_ir_provenance r)) = rb_native_graph_sha256 b"
  using assms
  by (auto simp: prepare_ir_def validate_ir_def bind_res_eq_Inr split: option.splits if_splits)

lemma ProgramContract_Inr:
  assumes "ProgramContract inputs outputs (PInt n) (PStr compiler) (PStr npu) (Some ts) = Inr c"
  shows "pk_inputs c = map (\<lambda>(n, s, d). (str_of n, s, d)) inputs \<and> pk_outputs c = map (\<lambda>(n, s, d). (str_of n, s, d)) outputs \<and>
    pk_patch_count c = n \<and> pk_compiler c = compiler \<and> pk_npu c = npu \<and> pk_targets_per_patch c = Some (map int_of ts)"
  using assms by (auto simp: ProgramContract_def bind_res_eq_Inr split: if_splits)

lemma build_prepared_ir_Inr:
  assumes "build_prepared_ir lib fs px r source dir defs script worker = Inr p"
  obtains compiled patched contract where "build_kernel lib fs px source dir defs script (pi_timeout_ms r) worker = Inr compiled"
    "patch_graph lib (ic_graph_blob (pi_ir_provenance r)) (ck_elf compiled) (map TargetV2 (rb_targets (pi_binding r))) 0x400 0x80 = Inr patched"
    "check_patch_report r compiled patched = Inr ()"
    "ProgramContract (map boundary_triple (rb_inputs (pi_binding r))) (map boundary_triple (rb_outputs (pi_binding r)))
       (PInt 1) (PStr ''8.3'') (PStr ''3720'') (Some [PInt (int (length (rb_targets (pi_binding r))))]) = Inr contract"
    "require_contract [] 0 p (Some contract) = Inr p" "pg_graph_blob p = pr_graph_blob patched" "pg_patch_reports p = [pr_report_json patched]"
    "pg_ir_provenance p = Some (pi_ir_provenance r)" "pg_graph p = None"
  using assms unfolding build_prepared_ir_def make_program_def
  by (auto simp: bind_res_eq_Inr require_contract_def)

lemma check_patch_report_Inr:
  assumes "check_patch_report r compiled patched = Inr ()"
  obtains report where "parse_report (pr_report_json patched) = Inr report"
    "rp_input_graph_sha256 report = sha256 (ic_graph_blob (pi_ir_provenance r))"
    "rp_output_graph_sha256 report = sha256 (pr_graph_blob patched)" "rp_shave_elf_sha256 report = elf_sha256 compiled"
    "report_selectors_match (rp_targets report) (rb_targets (pi_binding r))"
  using assms by (auto simp: check_patch_report_def bind_res_eq_Inr split: if_splits)

text \<open>C22 A program built from a reviewed binding is what was reviewed: when \<open>prepare_ir\<close> and \<open>build\<close> both return, the
  serialized IR, its weights and the compiled carrier have the hashes of the binding and the carrier
  came from the reviewed driver and compiler; the program's only patch report starts from that
  carrier, inserts the given kernel at exactly the reviewed targets, in order, and ends at the
  program's graph; and the program has the reviewed boundary and provenance.\<close>

theorem reviewed_build_certified:
  assumes "prepare_ir lib xml weights (Some b) t worker = Inr r"
    and "build_prepared_ir lib fs px r source dir defs script movi_worker = Inr p"
  shows "\<exists>xml_data weights_data compiled payload report.
    bytes_like xml = Some xml_data \<and> sha256 xml_data = rb_xml_sha256 b \<and>
    bytes_like weights = Some weights_data \<and> sha256 weights_data = rb_weights_sha256 b \<and>
    build_kernel lib fs px source dir defs script t movi_worker = Inr compiled \<and>
    pg_patch_reports p = [payload] \<and> parse_report payload = Inr report \<and>
    rp_input_graph_sha256 report = rb_native_graph_sha256 b \<and> rp_output_graph_sha256 report = sha256 (pg_graph_blob p) \<and>
    rp_shave_elf_sha256 report = sha256 (ck_elf compiled) \<and> report_selectors_match (rp_targets report) (rb_targets b) \<and>
    rp_compiler report = ''8.3'' \<and> rp_npu report = ''3720'' \<and>
    map_sum id (map contract_boundary) (input_contracts p) = Inr (rb_inputs b) \<and>
    map_sum id (map contract_boundary) (output_contracts [] 0 p) = Inr (rb_outputs b) \<and>
    program_provenance p = Inr (Some (rb_provenance b))"
proof -
  note r = prepare_ir_Inr [OF assms(1)]
  obtain compiled patched contract where c: "build_kernel lib fs px source dir defs script t movi_worker = Inr compiled"
    "check_patch_report r compiled patched = Inr ()"
    "ProgramContract (map boundary_triple (rb_inputs b)) (map boundary_triple (rb_outputs b))
       (PInt 1) (PStr ''8.3'') (PStr ''3720'') (Some [PInt (int (length (rb_targets b)))]) = Inr contract"
    "require_contract [] 0 p (Some contract) = Inr p"
    and p: "pg_graph_blob p = pr_graph_blob patched" "pg_patch_reports p = [pr_report_json patched]"
    "pg_ir_provenance p = Some (pi_ir_provenance r)"
    by (rule build_prepared_ir_Inr [OF assms(2)]) (use r in auto)
  obtain report where report: "parse_report (pr_report_json patched) = Inr report"
    "rp_input_graph_sha256 report = sha256 (ic_graph_blob (pi_ir_provenance r))"
    "rp_output_graph_sha256 report = sha256 (pr_graph_blob patched)" "rp_shave_elf_sha256 report = elf_sha256 compiled"
    "report_selectors_match (rp_targets report) (rb_targets b)"
    by (rule check_patch_report_Inr [OF c(2)]) (use r in auto)
  from c(4) obtain inputs outputs where io: "input_contracts p = Inr inputs" "output_contracts [] 0 p = Inr outputs"
    and v: "validate_program contract (map contract_boundary inputs) (map contract_boundary outputs) (pg_patch_reports p) (pg_graph_blob p) = Inr ()"
    by (auto simp: require_contract_def bind_res_eq_Inr)
  note k = ProgramContract_Inr [OF c(3)]
  have boundary: "map contract_boundary inputs = rb_inputs b" "map contract_boundary outputs = rb_outputs b"
    using v k same_boundary_triples by (auto simp: validate_program_def split: if_splits)
  have "fits_contract contract 0 report" using v report(1) p(2) check_reports_iff [of contract "[report]"]
    by (auto simp: validate_program_def bind_res_eq_Inr split: if_splits)
  with k have "rp_compiler report = ''8.3''" "rp_npu report = ''3720''" by (simp_all add: fits_contract_def)
  moreover have "program_provenance p = Inr (Some (rb_provenance b))" using p(3) r by (simp add: program_provenance_def)
  ultimately show ?thesis using r c(1) p report boundary io by (auto simp: elf_sha256_def)
qed

subsection \<open>A reviewed build\<close>

text \<open>A library whose compiler gives the carrier \<open>[2]\<close> of the sample binding and whose patcher gives the graph \<open>[3]\<close>.\<close>

definition reviewed_lib :: native_lib where
  "reviewed_lib = failing_lib\<lparr>
     nl_ir2blob_compile := \<lambda>_ _ _. (0, failing_ir\<lparr>xr_graph_extension_version := 5, xr_compiler_version_major := 8,
       xr_compiler_version_minor := 3, xr_driver_version := 7, xr_device_vendor_id := 0x8086, xr_device_id := 0xAD1D,
       xr_graph_blob := Some [2]\<rparr>),
     nl_patch_v2 := \<lambda>_ _ _ _. (0, \<lparr>rp_graph_blob = Some [3],
       rp_report_json = Some (sample_payload (sha256 [2]) (sha256 [3]) (sha256 [9]) [(0, 0)]), rp_diagnostic = None\<rparr>)\<rparr>"

definition reviewed_kernel :: compiled_kernel where
  "reviewed_kernel = \<lparr>ck_elf = [9], ck_elf_name = ''kernel.elf''\<rparr>"

definition sample_prepared_ir :: prepared_ir where
  "sample_prepared_ir = \<lparr>pi_xml = [1], pi_weights = [], pi_binding = sample_binding,
     pi_ir_provenance = \<lparr>ic_graph_blob = [2], ic_driver_index = 0, ic_device_index = 0, ic_driver_version = 7, ic_vendor_id = 0x8086,
       ic_device_id = 0xAD1D, ic_graph_extension_version = 5, ic_compiler_version = (8, 3)\<rparr>, pi_timeout_ms = 100\<rparr>"

lemma sample_prepared:
  "prepare_ir reviewed_lib (DataBytes [1]) (DataBytes []) (Some sample_binding) 100 None = Inr sample_prepared_ir"
  by (simp add: prepare_ir_def bytes_like_def validate_ir_def sample_binding_def compile_ir_def reviewed_lib_def ir_result_def
      failing_ir_def buffer_bytes_def provenance_from_ir_result_def NpuProvenance_def uint_check_def u32_max_def sample_prepared_ir_def)

lemma sample_patch:
  "patch_graph reviewed_lib [2] [9] [TargetV2 (unary_target 0)] 0x400 0x80 =
     Inr \<lparr>pr_graph_blob = [3], pr_report_json = sample_payload (sha256 [2]) (sha256 [3]) (sha256 [9]) [(0, 0)]\<rparr>"
proof -
  have "\<not> isl (map_res encode_target_v2 [unary_target 0])" by code_simp
  then obtain raw where "map_res encode_target_v2 [unary_target 0] = Inr raw" by (metis isl_def sum.exhaust)
  then show ?thesis by (simp add: patch_graph_def reviewed_lib_def buffer_bytes_def Let_def)
qed

lemma sample_check:
  "check_patch_report sample_prepared_ir reviewed_kernel
     \<lparr>pr_graph_blob = [3], pr_report_json = sample_payload (sha256 [2]) (sha256 [3]) (sha256 [9]) [(0, 0)]\<rparr> = Inr ()"
proof -
  obtain r where "parse_report (sample_payload (sha256 [2]) (sha256 [3]) (sha256 [9]) [(0, 0)]) = Inr r"
    "rp_input_graph_sha256 r = sha256 [2]" "rp_output_graph_sha256 r = sha256 [3]" "rp_shave_elf_sha256 r = sha256 [9]"
    "rp_targets r = map (\<lambda>(i, r). [(''invocation_index'', PInt i), (''range_index'', PInt r)]) [(0, 0)]"
    by (rule parse_sample_payload [of "sha256 [2]" "sha256 [3]" "sha256 [9]" "[(0, 0)]"]) (simp_all add: is_digest_sha256)
  then show ?thesis
    by (simp add: check_patch_report_def sample_prepared_ir_def sample_binding_def reviewed_kernel_def elf_sha256_def
        report_selectors_match_def dget_def unary_target_def)
qed

definition reviewed_contract :: program_contract where
  "reviewed_contract = \<lparr>pk_inputs = [(''x'', shape_val [2, 3], PStr ''f16'')], pk_outputs = [(''y'', shape_val [2, 3], PStr ''f16'')],
     pk_patch_count = 1, pk_compiler = ''8.3'', pk_npu = ''3720'', pk_targets_per_patch = Some [1]\<rparr>"

lemma sample_contracts:
  "ProgramContract [(PStr ''x'', shape_val [2, 3], PStr ''f16'')] [(PStr ''y'', shape_val [2, 3], PStr ''f16'')] (PInt 1)
     (PStr ''8.3'') (PStr ''3720'') (Some [PInt 1]) = Inr reviewed_contract"
  "map_res boundary_contract [(n, [2, 3], ''f16'')] = (if n = [] then Inl (ValueError ''tensor contract name must be a non-empty string'')
     else Inr [\<lparr>tk_name = n, tk_spec = \<lparr>ts_shape = [2, 3], ts_dtype = ''f16''\<rparr>\<rparr>])"
proof -
  have t: "TensorSpec (shape_val [2, 3]) (PStr ''f16'') = Inr \<lparr>ts_shape = [2, 3], ts_dtype = ''f16''\<rparr>" by code_simp
  show "ProgramContract [(PStr ''x'', shape_val [2, 3], PStr ''f16'')] [(PStr ''y'', shape_val [2, 3], PStr ''f16'')] (PInt 1)
     (PStr ''8.3'') (PStr ''3720'') (Some [PInt 1]) = Inr reviewed_contract" by code_simp
  show "map_res boundary_contract [(n, [2, 3], ''f16'')] = (if n = [] then Inl (ValueError ''tensor contract name must be a non-empty string'')
     else Inr [\<lparr>tk_name = n, tk_spec = \<lparr>ts_shape = [2, 3], ts_dtype = ''f16''\<rparr>\<rparr>])"
    using t by (simp add: boundary_contract_def TensorContract_def)
qed

lemma sample_validates:
  "validate_program reviewed_contract [(''x'', [2, 3], ''f16'')] [(''y'', [2, 3], ''f16'')]
     [sample_payload (sha256 [2]) (sha256 [3]) (sha256 [9]) [(0, 0)]] [3] = Inr ()"
proof -
  obtain r where r: "parse_report (sample_payload (sha256 [2]) (sha256 [3]) (sha256 [9]) [(0, 0)]) = Inr r"
    "rp_output_graph_sha256 r = sha256 [3]" "rp_compiler r = ''8.3''" "rp_npu r = ''3720''" "length (rp_targets r) = 1"
    by (rule parse_sample_payload [of "sha256 [2]" "sha256 [3]" "sha256 [9]" "[(0, 0)]"]) (simp_all add: is_digest_sha256)
  have "same_boundary [(n, [2, 3], ''f16'')] [(n, shape_val [2, 3], PStr ''f16'')]" for n by (simp add: same_boundary_def)
  with r show ?thesis
    by (simp add: validate_program_def reviewed_contract_def check_report_def)
qed

theorem reviewed_build_certified_witness:
  "\<exists>p. build_prepared_ir reviewed_lib (\<lambda>_. None) \<lparr>px_configured = None, px_environment = None\<rparr> sample_prepared_ir
       (PKernel (KCompiled reviewed_kernel)) None (PTuple []) PNone None = Inr p \<and> pg_graph_blob p = [3] \<and>
     program_provenance p = Inr (Some (rb_provenance sample_binding))"
proof -
  have "build_prepared_ir reviewed_lib (\<lambda>_. None) \<lparr>px_configured = None, px_environment = None\<rparr> sample_prepared_ir
      (PKernel (KCompiled reviewed_kernel)) None (PTuple []) PNone None =
    require_contract [] 0 \<lparr>pg_graph_blob = [3], pg_graph = None, pg_serialized_ir = None,
      pg_ir_provenance = Some (pi_ir_provenance sample_prepared_ir),
      pg_patch_reports = [sample_payload (sha256 [2]) (sha256 [3]) (sha256 [9]) [(0, 0)]], pg_timeout_ms = 100,
      pg_saved_inputs = [\<lparr>tk_name = ''x'', tk_spec = \<lparr>ts_shape = [2, 3], ts_dtype = ''f16''\<rparr>\<rparr>],
      pg_saved_outputs = [\<lparr>tk_name = ''y'', tk_spec = \<lparr>ts_shape = [2, 3], ts_dtype = ''f16''\<rparr>\<rparr>],
      pg_artifact_manifest = None\<rparr> (Some reviewed_contract)" (is "_ = require_contract _ _ ?p _")
    using sample_patch sample_check sample_contracts(1) sample_contracts(2) [of "''x''"] sample_contracts(2) [of "''y''"]
    by (simp add: build_prepared_ir_def build_kernel_def overrides_given_def from_option_def sample_prepared_ir_def sample_binding_def
        reviewed_kernel_def make_program_def boundary_triple_def)
  also have "\<dots> = Inr ?p"
    using sample_validates by (simp add: require_contract_def input_contracts_def output_contracts_def contract_boundary_def)
  finally have p: "build_prepared_ir reviewed_lib (\<lambda>_. None) \<lparr>px_configured = None, px_environment = None\<rparr> sample_prepared_ir
      (PKernel (KCompiled reviewed_kernel)) None (PTuple []) PNone None = Inr ?p" .
  from reviewed_build_certified [OF sample_prepared this] p show ?thesis by fastforce
qed

end
