(* ===== verification/Prepared.thy ===== *)
theory Prepared
  imports Topology Reviewed_Ir
begin

text \<open>
  Prepared graphs (\<open>__init__.py\<close>): \<open>prepare\<close> compiles a carrier and discovers its ACT groups, \<open>find_groups\<close> filters
  them, and the carrier probes gather the evidence on which a reviewed binding rests. A prepared
  graph carries the node store its graph lives in and the recursion limit of the interpreter.
  Texts for people (\<open>explain\<close>) are left out.
\<close>

section \<open>Carrier probes and their evidence\<close>

record carrier_probe =
  cp_output :: tensor
  cp_baseline_carrier :: string
  cp_candidate_carrier :: string
  cp_comparison :: graph_comparison
  cp_baseline_ir_sha256 :: string
  cp_candidate_ir_sha256 :: string
  cp_baseline_graph_blob_sha256 :: string
  cp_candidate_graph_blob_sha256 :: string
  cp_candidate_ir :: serialized_ir
  cp_candidate_provenance :: ir_compile_result

definition probe_accepted :: "carrier_probe \<Rightarrow> bool" where
  "probe_accepted c = comparison_accepted (cp_comparison c)"

definition probe_group_index :: "carrier_probe \<Rightarrow> int option" where
  "probe_group_index c =
     (if \<not> probe_accepted c \<or> length (gc_changed_group_indices (cp_comparison c)) \<noteq> 1 then None
      else Some (hd (gc_changed_group_indices (cp_comparison c))))"

record mapping_evidence =
  ev_output :: tensor
  ev_probes :: "carrier_probe list"

definition accepted_probes :: "mapping_evidence \<Rightarrow> carrier_probe list" where
  "accepted_probes e = filter probe_accepted (ev_probes e)"

definition evidence_status :: "mapping_evidence \<Rightarrow> string" where
  "evidence_status e =
     (let accepted = accepted_probes e; indices = remdups (map probe_group_index accepted) in
      if 1 < length indices then ''conflicting''
      else if 2 \<le> length accepted \<and> length indices = 1 then ''consistent''
      else ''insufficient'')"

definition evidence_group_index :: "mapping_evidence \<Rightarrow> int option" where
  "evidence_group_index e =
     (if evidence_status e \<noteq> ''consistent'' then None else probe_group_index (hd (accepted_probes e)))"

text \<open>A failed probe keeps the exception, from which \<open>CarrierProbeFailure\<close> copies its fields.\<close>

record probe_failure =
  pf_candidate_carrier :: string
  pf_error :: pyexn

record probe_report =
  qr_output :: tensor
  qr_probes :: "carrier_probe list"
  qr_failures :: "probe_failure list"

definition report_evidence :: "probe_report \<Rightarrow> mapping_evidence" where
  "report_evidence r = \<lparr>ev_output = qr_output r, ev_probes = qr_probes r\<rparr>"

record reviewed_binding =
  rv_output :: tensor
  rv_group_index :: int
  rv_coverage_kind :: string
  rv_baseline_graph_blob_sha256 :: string
  rv_evidence :: mapping_evidence
  rv_coverage :: act_group_coverage

text \<open>The fields that take part in \<open>==\<close>.\<close>

definition review_key :: "reviewed_binding \<Rightarrow> int \<times> string \<times> string \<times> act_group_coverage" where
  "review_key r = (rv_group_index r, rv_coverage_kind r, rv_baseline_graph_blob_sha256 r, rv_coverage r)"

record topology_review =
  tr_proposal :: topology_proposal
  tr_group_indices :: "nat list"
  tr_coverage_kinds :: "string list"
  tr_coverages :: "act_group_coverage list"
  tr_baseline_graph_blob_sha256 :: string

section \<open>Preparing a graph\<close>

record prepared_graph =
  pp_store :: store
  pp_limit :: nat
  pp_graph :: graph
  pp_serialized_ir :: serialized_ir
  pp_ir_provenance :: ir_compile_result
  pp_groups :: "act_group list"
  pp_mappings :: "custom_mapping list"
  pp_timeout_ms :: int
  pp_automatic_indices :: "nat list list option"
  pp_embedded_targets :: "target list list option"
  pp_build_flags :: string
  pp_saved_indices :: "nat list list option"
  pp_saved_reviews :: "reviewed_binding option list option"

abbreviation custom_nodes :: "prepared_graph \<Rightarrow> nat list" where
  "custom_nodes p \<equiv> si_custom_nodes (pp_serialized_ir p)"

abbreviation carrier_blob :: "prepared_graph \<Rightarrow> bytes" where
  "carrier_blob p \<equiv> ic_graph_blob (pp_ir_provenance p)"

definition effective_build_flags :: "store \<Rightarrow> serialized_ir \<Rightarrow> string \<Rightarrow> string res" where
  "effective_build_flags st serialized build_flags =
     (let accuracy_flag = ''EXECUTION_MODE_HINT='' @ [CHR 0x22] @ ''ACCURACY'' @ [CHR 0x22] in
      if \<not> list_ex (\<lambda>n. list_ex (\<lambda>spec. ts_dtype spec = ''f32'') (n_output_specs (node_at st n))) (si_custom_nodes serialized)
      then Inr build_flags
      else if build_flags = [] then Inr (''--config '' @ accuracy_flag)
      else if \<not> contains_str accuracy_flag build_flags
      then Inl (ValueError ''FP32 custom kernels require build_flags containing EXECUTION_MODE_HINT'')
      else Inr build_flags)"

text \<open>The targets a custom node was made with; \<open>None\<close> where the value is not a non-empty tuple of targets of one
  version.\<close>

fun the_target :: "pyval \<Rightarrow> target list" where
  "the_target (PTarget t) = [t]"
| "the_target _ = []"

definition target_sequence :: "pyval \<Rightarrow> target list option" where
  "target_sequence v =
     (case v of
        PTuple vs \<Rightarrow>
          let ts = concat (map the_target vs) in
          if vs \<noteq> [] \<and> length ts = length vs \<and> (list_all is_v1 ts \<or> list_all is_v2 ts) then Some ts else None
      | _ \<Rightarrow> None)"

definition embedded_target_groups :: "store \<Rightarrow> nat list \<Rightarrow> target list list option res" where
  "embedded_target_groups st customs =
     (let supplied = map (\<lambda>n. dget (n_metadata (node_at st n)) ''_patch_targets'') customs in
      if customs = [] \<or> list_all is_none supplied then Inr None
      else if \<not> list_all (\<lambda>v. target_sequence v \<noteq> None) supplied
      then Inl (ValueError ''either omit _patch_targets for every custom node or provide it for every custom node'')
      else Inr (Some (map (the \<circ> target_sequence) supplied)))"

definition require_validated_positional_compiler :: "serialized_ir \<Rightarrow> target list list option \<Rightarrow> int \<times> int \<Rightarrow> unit res" where
  "require_validated_positional_compiler serialized embedded compiler_version =
     (if si_custom_nodes serialized \<noteq> [] \<and> embedded = None \<and> compiler_version \<noteq> (8, 3)
      then Inl (ValueError ''positional ACT discovery is validated only for graph compiler 8.3'')
      else Inr ())"

definition act_groups :: "target list list \<Rightarrow> act_group list" where
  "act_groups discovered = map (\<lambda>(i, ts). \<lparr>ag_index = i, ag_targets = ts\<rparr>) (enum discovered)"

definition discovered_mappings :: "store \<Rightarrow> nat list \<Rightarrow> nat list list option \<Rightarrow> string \<Rightarrow> custom_mapping list" where
  "discovered_mappings st customs automatic reason =
     map (\<lambda>(i, n). \<lparr>cm_output = hd (node_outputs n (node_at st n)), cm_name = shown_name (n_name (node_at st n)),
         cm_status = (if automatic \<noteq> None then ''automatic'' else ''explicit-required''),
         cm_group_indices = (case automatic of Some indices \<Rightarrow> indices ! i | None \<Rightarrow> []), cm_reason = reason\<rparr>)
       (enum customs)"

definition discover_groups ::
  "native_lib \<Rightarrow> store \<Rightarrow> nat list \<Rightarrow> nat list \<Rightarrow> bytes \<Rightarrow> (act_group list \<times> nat list list option \<times> string) res" where
  "discover_groups lib st nodes customs graph_blob =
     (case discover_patch_targets lib graph_blob of
        Inr discovered \<Rightarrow>
          let groups = map (map TargetV1) discovered in
          bind_res (automatic_group_indices st nodes customs groups) (\<lambda>(automatic, reason).
          Inr (act_groups groups, automatic, reason))
      | Inl (NativeError e) \<Rightarrow>
          if ne_status e \<noteq> 5 then Inl (NativeError e)
          else bind_res (discover_patch_targets_v2 lib graph_blob) (\<lambda>discovered.
            let groups = map (map TargetV2) discovered in
            if list_ex (list_ex (\<lambda>t. p2_target_flags t \<noteq> 0)) discovered
            then Inr (act_groups groups, None,
              ''per-tensor version 2 discovery found a mixed-precision ACT contract; explicit group binding is required'')
            else bind_res (automatic_group_indices st nodes customs groups) (\<lambda>(automatic, reason).
              Inr (act_groups groups, automatic, reason)))
      | Inl e \<Rightarrow> Inl e)"

definition discover_prepared_contract ::
  "native_lib \<Rightarrow> store \<Rightarrow> nat \<Rightarrow> graph \<Rightarrow> serialized_ir \<Rightarrow> bytes \<Rightarrow> target list list option \<Rightarrow>
    (act_group list \<times> nat list list option \<times> custom_mapping list) res" where
  "discover_prepared_contract lib st limit graph serialized graph_blob embedded =
     (let customs = si_custom_nodes serialized in
      if customs = [] then Inr ([], None, [])
      else if embedded \<noteq> None
      then Inr ([], None, map (\<lambda>n. \<lparr>cm_output = hd (node_outputs n (node_at st n)), cm_name = shown_name (n_name (node_at st n)),
        cm_status = ''raw-explicit'', cm_group_indices = [],
        cm_reason = ''using caller-supplied _patch_targets; positional discovery was skipped''\<rparr>) customs)
      else
        bind_res (graph_nodes st limit graph) (\<lambda>nodes.
        bind_res (discover_groups lib st nodes customs graph_blob) (\<lambda>(groups, automatic, reason).
        Inr (groups, automatic, discovered_mappings st customs automatic reason))))"

definition prepare ::
  "native_lib \<Rightarrow> store \<Rightarrow> nat \<Rightarrow> graph option \<Rightarrow> string \<Rightarrow> int \<Rightarrow> string option \<Rightarrow> prepared_graph res" where
  "prepare lib st limit graph build_flags timeout_ms ir_worker =
     (case graph of
        None \<Rightarrow> Inl (TypeError ''prepare() requires a Graph'')
      | Some g \<Rightarrow>
          bind_res (serialize_ir st limit g NoOverrides) (\<lambda>serialized.
          bind_res (effective_build_flags st serialized build_flags) (\<lambda>flags.
          bind_res (embedded_target_groups st (si_custom_nodes serialized)) (\<lambda>embedded.
          if embedded = None \<and> list_ex (\<lambda>n. length (n_output_specs (node_at st n)) \<noteq> 1) (si_custom_nodes serialized)
          then Inl (ValueError ''automatic and prepared patch selection currently require one output per custom node'')
          else
            bind_res (compile_ir lib (si_xml serialized) (si_weights serialized) flags timeout_ms ir_worker) (\<lambda>result.
            bind_res (require_validated_positional_compiler serialized embedded (ic_compiler_version result)) (\<lambda>_.
            bind_res (discover_prepared_contract lib st limit g serialized (ic_graph_blob result) embedded)
              (\<lambda>(groups, automatic, mappings).
            Inr \<lparr>pp_store = st, pp_limit = limit, pp_graph = g, pp_serialized_ir = serialized, pp_ir_provenance = result,
              pp_groups = groups, pp_mappings = mappings, pp_timeout_ms = timeout_ms, pp_automatic_indices = automatic,
              pp_embedded_targets = embedded, pp_build_flags = flags, pp_saved_indices = None,
              pp_saved_reviews = None\<rparr>)))))))"

definition require_carrier :: "prepared_graph \<Rightarrow> carrier_contract option \<Rightarrow> prepared_graph res" where
  "require_carrier p contract =
     (case contract of
        None \<Rightarrow> Inl (TypeError ''PreparedGraph.require() requires a CarrierContract'')
      | Some c \<Rightarrow> bind_res (validate_carrier c (pp_groups p) (pp_mappings p)) (\<lambda>_. Inr p))"

section \<open>Finding groups\<close>

record group_filter =
  gf_input_count :: pyval
  gf_dtype :: pyval
  gf_input_dtypes :: pyval
  gf_output_dtype :: pyval
  gf_element_count :: pyval
  gf_scalar_input_indices :: pyval
  gf_input_1_scalar :: pyval

definition filter_dtypes :: "string list" where
  "filter_dtypes = [''f16'', ''f32'', ''u8'', ''u16'', ''u32'', ''i32'', ''i16'', ''i8'']"

definition check_dtype_filter :: "string \<Rightarrow> pyval \<Rightarrow> unit res" where
  "check_dtype_filter label v =
     (if v = PNone then Inr ()
      else bind_res (in_strings v filter_dtypes) (\<lambda>known.
        if known then Inr () else Inl (ValueError (label @ '' must be a supported element type or None''))))"

fun str_items :: "pyval list \<Rightarrow> bool res" where
  "str_items [] = Inr True"
| "str_items (v # vs) = bind_res (in_strings v filter_dtypes) (\<lambda>known. if known then str_items vs else Inr False)"

text \<open>\<open>sorted\<close> raises \<open>TypeError\<close> for values that cannot be ordered; every other bad tuple is a \<open>ValueError\<close>, as
  all of them are here.\<close>

definition check_filter :: "group_filter \<Rightarrow> unit res" where
  "check_filter f =
     (if gf_input_count f \<noteq> PNone \<and> \<not> positive_int (gf_input_count f)
      then Inl (ValueError ''input_count must be a positive integer or None'')
      else bind_res (check_dtype_filter ''dtype'' (gf_dtype f)) (\<lambda>_.
        bind_res (case gf_input_dtypes f of
            PNone \<Rightarrow> Inr True
          | PTuple vs \<Rightarrow> if vs = [] then Inr False else str_items vs
          | _ \<Rightarrow> Inr False) (\<lambda>good.
        if \<not> good then Inl (ValueError ''input_dtypes must be a non-empty tuple of supported element types or None'')
        else bind_res (check_dtype_filter ''output_dtype'' (gf_output_dtype f)) (\<lambda>_.
          if gf_element_count f \<noteq> PNone \<and> \<not> positive_int (gf_element_count f)
          then Inl (ValueError ''element_count must be a positive integer or None'')
          else if \<not> (case gf_scalar_input_indices f of
              PNone \<Rightarrow> True
            | PTuple vs \<Rightarrow> list_all nonnegative_int vs \<and> sorted_wrt (\<lambda>a b. int_of a < int_of b) vs
            | _ \<Rightarrow> False)
          then Inl (ValueError ''scalar_input_indices must be a sorted tuple of unique nonnegative integers or None'')
          else if gf_input_1_scalar f \<noteq> PNone \<and> \<not> is_bool (gf_input_1_scalar f)
          then Inl (TypeError ''input_1_scalar must be bool or None'')
          else Inr ()))))"

text \<open>A comparison with a property that may raise, skipped when the filter is absent or an earlier one failed.\<close>

definition also_matches :: "pyval \<Rightarrow> pyval res \<Rightarrow> bool res \<Rightarrow> bool res" where
  "also_matches wanted actual before =
     bind_res before (\<lambda>b. if \<not> b then Inr False else if wanted = PNone then Inr True
       else bind_res actual (\<lambda>v. Inr (py_eq v wanted)))"

definition optional :: "('a \<Rightarrow> pyval) \<Rightarrow> 'a option \<Rightarrow> pyval" where
  "optional f v = (case v of None \<Rightarrow> PNone | Some x \<Rightarrow> f x)"

definition group_matches :: "group_filter \<Rightarrow> act_group \<Rightarrow> bool res" where
  "group_matches f g =
     also_matches (gf_input_1_scalar f) (bind_res (ag_input_1_scalar g) (\<lambda>b. Inr (PBool b)))
     (also_matches (gf_scalar_input_indices f) (bind_res (ag_scalar_input_indices g) (\<lambda>v. Inr (optional shape_val v)))
     (also_matches (gf_element_count f) (bind_res (ag_element_count g) (\<lambda>n. Inr (PInt n)))
     (also_matches (gf_output_dtype f) (bind_res (ag_output_dtype g) (\<lambda>v. Inr (optional PStr v)))
     (also_matches (gf_input_dtypes f) (Inr (optional (\<lambda>ds. PTuple (map PStr ds)) (ag_input_dtypes g)))
     (also_matches (gf_dtype f) (Inr (optional PStr (ag_dtype g)))
     (also_matches (gf_input_count f) (Inr (optional PInt (ag_input_count g))) (Inr True)))))))"

definition find_groups :: "prepared_graph \<Rightarrow> group_filter \<Rightarrow> act_group list res" where
  "find_groups p f =
     bind_res (check_filter f) (\<lambda>_.
     bind_res (map_res (\<lambda>g. bind_res (group_matches f g) (\<lambda>b. Inr (b, g))) (pp_groups p)) (\<lambda>results.
     Inr (map snd (filter fst results))))"

definition find_group :: "prepared_graph \<Rightarrow> group_filter \<Rightarrow> act_group res" where
  "find_group p f =
     bind_res (find_groups p f) (\<lambda>matches.
     case matches of
       [g] \<Rightarrow> Inr g
     | [] \<Rightarrow> bind_res (map_res act_group_summary (pp_groups p)) (\<lambda>_. Inl (ValueError ''no ACT group matches filter''))
     | _ \<Rightarrow> bind_res (map_res act_group_summary matches) (\<lambda>_. Inl (ValueError ''ACT group filter is ambiguous'')))"

section \<open>Probing carriers\<close>

text \<open>An argument that must be an output of a custom node of the graph.\<close>

definition custom_output :: "prepared_graph \<Rightarrow> symbolic \<Rightarrow> tensor option" where
  "custom_output p output =
     (case output of
        Symbolic t \<Rightarrow> if t_producer t \<in> set (custom_nodes p) then Some t else None
      | NotSymbolic _ \<Rightarrow> None)"

definition provenance_fields_of :: "ir_compile_result \<Rightarrow> ir_compile_result" where
  "provenance_fields_of r = r\<lparr>ic_graph_blob := []\<rparr>"

definition probe_carrier :: "native_lib \<Rightarrow> prepared_graph \<Rightarrow> symbolic \<Rightarrow> pyval \<Rightarrow> string option \<Rightarrow> carrier_probe res" where
  "probe_carrier lib p output carrier ir_worker =
     (case custom_output p output of
        None \<Rightarrow> Inl (ValueError ''carrier probe output must belong to a custom node in this prepared graph'')
      | Some t \<Rightarrow>
          let nid = t_producer t; node = node_at (pp_store p) nid in
          if length (n_output_specs node) \<noteq> 1 \<or> t \<noteq> hd (node_outputs nid node)
          then Inl (ValueError ''carrier probes currently require the sole output of a custom node'')
          else (case dget (n_metadata node) ''_carrier'' of
              PStr baseline \<Rightarrow>
                bind_res (serialize_ir (pp_store p) (pp_limit p) (pp_graph p) (Overrides [(Some nid, carrier)])) (\<lambda>candidate.
                if si_weights candidate \<noteq> si_weights (pp_serialized_ir p) \<or> si_custom_nodes candidate \<noteq> custom_nodes p
                then Inl (RuntimeError ''carrier probe changed data outside the requested carrier substitution'')
                else
                  bind_res (compile_ir lib (si_xml candidate) (si_weights candidate) (pp_build_flags p) (pp_timeout_ms p) ir_worker)
                    (\<lambda>provenance.
                  if provenance_fields_of provenance \<noteq> provenance_fields_of (pp_ir_provenance p)
                  then Inl (RuntimeError ''carrier probe candidate was compiled under different driver/compiler provenance'')
                  else bind_res (compare_graphs lib (carrier_blob p) (ic_graph_blob provenance)) (\<lambda>comparison.
                    Inr \<lparr>cp_output = t, cp_baseline_carrier = baseline, cp_candidate_carrier = str_of carrier,
                      cp_comparison = comparison, cp_baseline_ir_sha256 = sha256 (si_xml (pp_serialized_ir p)),
                      cp_candidate_ir_sha256 = sha256 (si_xml candidate),
                      cp_baseline_graph_blob_sha256 = sha256 (carrier_blob p),
                      cp_candidate_graph_blob_sha256 = sha256 (ic_graph_blob provenance), cp_candidate_ir = candidate,
                      cp_candidate_provenance = provenance\<rparr>)))
            | _ \<Rightarrow> Inl (RuntimeError ''prepared custom node has no carrier operator'')))"

definition operator_name :: "pyval \<Rightarrow> bool" where
  "operator_name v = (case v of PStr s \<Rightarrow> s \<noteq> [] \<and> \<not> list_ex isspace s | _ \<Rightarrow> False)"

definition validate_probe_carriers :: "prepared_graph \<Rightarrow> symbolic \<Rightarrow> pyval \<Rightarrow> string list res" where
  "validate_probe_carriers p output carriers =
     (case (case carriers of PTuple vs \<Rightarrow> Some vs | PList vs \<Rightarrow> Some vs | _ \<Rightarrow> None) of
        None \<Rightarrow> Inl (TypeError ''carriers must be a sequence of operator names'')
      | Some vs \<Rightarrow>
          if \<not> (2 \<le> length vs \<and> length vs \<le> 8)
          then Inl (ValueError ''carrier mapping evidence requires two to eight substitutions'')
          else if \<not> list_all operator_name vs
          then Inl (ValueError ''carrier substitutions must be non-empty operator names without whitespace'')
          else if \<not> distinct vs then Inl (ValueError ''carrier substitutions must be unique'')
          else (case custom_output p output of
              None \<Rightarrow> Inl (ValueError ''carrier probe output must belong to a custom node in this prepared graph'')
            | Some t \<Rightarrow>
                if dget (n_metadata (node_at (pp_store p) (t_producer t))) ''_carrier'' \<in> set vs
                then Inl (ValueError ''carrier substitutions must differ from the prepared baseline carrier'')
                else Inr (map str_of vs)))"

definition output_of :: "symbolic \<Rightarrow> tensor" where
  "output_of output = hd (the_symbolic output)"

definition probe_mapping :: "native_lib \<Rightarrow> prepared_graph \<Rightarrow> symbolic \<Rightarrow> pyval \<Rightarrow> string option \<Rightarrow> mapping_evidence res" where
  "probe_mapping lib p output carriers ir_worker =
     bind_res (validate_probe_carriers p output carriers) (\<lambda>names.
     bind_res (map_res (\<lambda>c. probe_carrier lib p output (PStr c) ir_worker) names) (\<lambda>probes.
     Inr \<lparr>ev_output = output_of output, ev_probes = probes\<rparr>))"

text \<open>One turn of the loop of \<open>probe_candidates\<close>: every exception is kept as a failure.\<close>

definition add_candidate ::
  "native_lib \<Rightarrow> prepared_graph \<Rightarrow> symbolic \<Rightarrow> string option \<Rightarrow> string \<Rightarrow> probe_report \<Rightarrow> probe_report" where
  "add_candidate lib p output ir_worker carrier r =
     (case probe_carrier lib p output (PStr carrier) ir_worker of
        Inr probe \<Rightarrow> r\<lparr>qr_probes := qr_probes r @ [probe]\<rparr>
      | Inl e \<Rightarrow> r\<lparr>qr_failures := qr_failures r @ [\<lparr>pf_candidate_carrier = carrier, pf_error = e\<rparr>]\<rparr>)"

definition probe_candidates :: "native_lib \<Rightarrow> prepared_graph \<Rightarrow> symbolic \<Rightarrow> pyval \<Rightarrow> string option \<Rightarrow> probe_report res" where
  "probe_candidates lib p output carriers ir_worker =
     bind_res (validate_probe_carriers p output carriers) (\<lambda>names.
     Inr (fold (add_candidate lib p output ir_worker) names \<lparr>qr_output = output_of output, qr_probes = [], qr_failures = []\<rparr>))"

section \<open>Reviewed bindings\<close>

definition coverage_kinds :: "string list" where
  "coverage_kinds = [''direct_output'', ''act_consumer'', ''dpu_consumer'', ''dma_dpu_consumer'', ''dma_act_consumer'']"

text \<open>The coverage record of a group, checked against the group: the number of records, the index and the
  number of invocations.\<close>

definition coverage_fits :: "prepared_graph \<Rightarrow> int \<Rightarrow> act_group_coverage \<Rightarrow> bool" where
  "coverage_fits p group_index c \<longleftrightarrow> cv_group_index c = group_index \<and>
     cv_invocation_count c = int (length (ag_targets (pp_groups p ! nat group_index)))"

definition in_groups :: "prepared_graph \<Rightarrow> int \<Rightarrow> bool" where
  "in_groups p i \<longleftrightarrow> 0 \<le> i \<and> i < int (length (pp_groups p))"

definition check_evidence :: "prepared_graph \<Rightarrow> symbolic \<Rightarrow> mapping_evidence option \<Rightarrow> (tensor \<times> mapping_evidence \<times> int) res" where
  "check_evidence p output evidence =
     (case custom_output p output of
        None \<Rightarrow> Inl (ValueError ''reviewed binding output must belong to a custom node in this prepared graph'')
      | Some t \<Rightarrow>
          (case evidence of
             None \<Rightarrow> Inl (ValueError ''carrier mapping evidence must belong to the reviewed custom output'')
           | Some e \<Rightarrow>
               if ev_output e \<noteq> t then Inl (ValueError ''carrier mapping evidence must belong to the reviewed custom output'')
               else (case evidence_group_index e of
                   None \<Rightarrow> Inl (ValueError ''reviewed binding requires consistent carrier mapping evidence'')
                 | Some i \<Rightarrow>
                     if list_ex (\<lambda>c. cp_output c \<noteq> t) (ev_probes e)
                     then Inl (ValueError ''carrier mapping probes must belong to the reviewed custom output'')
                     else if list_ex (\<lambda>c. cp_baseline_graph_blob_sha256 c \<noteq> sha256 (carrier_blob p)) (ev_probes e)
                     then Inl (ValueError ''carrier mapping evidence belongs to a different native graph blob'')
                     else if \<not> in_groups p i then Inl (ValueError ''carrier mapping evidence group is out of range'')
                     else Inr (t, e, i))))"

definition review_binding ::
  "native_lib \<Rightarrow> prepared_graph \<Rightarrow> symbolic \<Rightarrow> mapping_evidence option \<Rightarrow> pyval \<Rightarrow> reviewed_binding res" where
  "review_binding lib p output evidence coverage_kind =
     bind_res (check_evidence p output evidence) (\<lambda>(t, e, i).
     bind_res (in_strings coverage_kind coverage_kinds) (\<lambda>known.
     if \<not> known then Inl (ValueError ''coverage_kind must be a coverage kind'')
     else bind_res (inspect_group_coverage lib (carrier_blob p)) (\<lambda>records.
       if length records \<noteq> length (pp_groups p)
       then Inl (RuntimeError ''group coverage count does not match prepared ACT groups'')
       else if \<not> coverage_fits p i (records ! nat i)
       then Inl (RuntimeError ''group coverage does not match the prepared ACT group'')
       else if map_of (coverage_states (records ! nat i)) (str_of coverage_kind) \<noteq> Some ''complete''
       then Inl (ValueError ''ACT group coverage kind is not complete'')
       else Inr \<lparr>rv_output = t, rv_group_index = i, rv_coverage_kind = str_of coverage_kind,
         rv_baseline_graph_blob_sha256 = sha256 (carrier_blob p), rv_evidence = e, rv_coverage = records ! nat i\<rparr>)))"

text \<open>The \<open>carriers\<close> argument of \<open>probe_binding\<close>: a report, or a sequence to probe.\<close>

datatype carriers_arg = Report probe_report | Carriers pyval

definition binding_evidence ::
  "native_lib \<Rightarrow> prepared_graph \<Rightarrow> symbolic \<Rightarrow> carriers_arg \<Rightarrow> string option \<Rightarrow> mapping_evidence res" where
  "binding_evidence lib p output carriers ir_worker =
     (case carriers of
        Report r \<Rightarrow>
          if output \<noteq> Symbolic (qr_output r)
          then Inl (ValueError ''carrier probe report must belong to the reviewed custom output'')
          else if ir_worker \<noteq> None
          then Inl (ValueError ''ir_worker cannot be supplied with an existing carrier probe report'')
          else Inr (report_evidence r)
      | Carriers vs \<Rightarrow> probe_mapping lib p output vs ir_worker)"

definition probe_binding ::
  "native_lib \<Rightarrow> prepared_graph \<Rightarrow> symbolic \<Rightarrow> carriers_arg \<Rightarrow> pyval \<Rightarrow> string option \<Rightarrow> reviewed_binding res" where
  "probe_binding lib p output carriers coverage_kind ir_worker =
     bind_res (binding_evidence lib p output carriers ir_worker) (\<lambda>e.
     if coverage_kind \<noteq> PNone then review_binding lib p output (Some e) coverage_kind
     else (case evidence_group_index e of
         None \<Rightarrow> Inl (ValueError ''implicit coverage-kind selection requires consistent carrier mapping evidence'')
       | Some i \<Rightarrow>
           bind_res (inspect_group_coverage lib (carrier_blob p)) (\<lambda>records.
           if length records \<noteq> length (pp_groups p) \<or> \<not> in_groups p i
           then Inl (RuntimeError ''group coverage does not match the prepared ACT groups'')
           else if \<not> coverage_fits p i (records ! nat i)
           then Inl (RuntimeError ''group coverage does not match the prepared ACT group'')
           else (case complete_kinds (records ! nat i) of
               [kind] \<Rightarrow> review_binding lib p output (Some e) (PStr kind)
             | _ \<Rightarrow> Inl (ValueError ''implicit coverage-kind selection requires exactly one complete kind'')))))"

section \<open>Reviewed topology mappings\<close>

definition topology_input_of :: "native_lib \<Rightarrow> prepared_graph \<Rightarrow> topology_input res" where
  "topology_input_of lib p =
     bind_res (inspect_exact_relations lib (carrier_blob p)) (\<lambda>relations.
     bind_res (inspect_graph_io_symbols lib (carrier_blob p)) (\<lambda>symbols.
     bind_res (graph_nodes (pp_store p) (pp_limit p) (pp_graph p)) (\<lambda>nodes.
     Inr \<lparr>ti_store = pp_store p, ti_nodes = nodes, ti_graph = pp_graph p, ti_custom = custom_nodes p,
       ti_relations = relations, ti_symbols = symbols\<rparr>)))"

definition current_proposal :: "native_lib \<Rightarrow> prepared_graph \<Rightarrow> topology_proposal res" where
  "current_proposal lib p = bind_res (topology_input_of lib p) (\<lambda>ti. propose_native_topology_mapping ti (pp_groups p))"

text \<open>The proposal argument: absent, a value of another class, or a proposal.\<close>

datatype proposal_arg = NoProposal | NotAProposal | Proposal topology_proposal

definition checked_proposal :: "topology_proposal \<Rightarrow> proposal_arg \<Rightarrow> topology_proposal res" where
  "checked_proposal current arg =
     (case arg of
        NoProposal \<Rightarrow> Inr current
      | NotAProposal \<Rightarrow> Inl (TypeError ''proposal must be NativeTopologyProposal or None'')
      | Proposal q \<Rightarrow>
          if tp_outputs q \<noteq> tp_outputs current
          then Inl (ValueError ''native topology proposal belongs to a different symbolic graph'')
          else if q \<noteq> current then Inl (ValueError ''native topology proposal is stale for this prepared carrier'')
          else Inr q)"

definition review_group ::
  "prepared_graph \<Rightarrow> act_group_coverage list \<Rightarrow> (symbolic \<times> pyval) list \<Rightarrow> tensor \<times> nat \<Rightarrow> (string \<times> act_group_coverage) res" where
  "review_group p records kinds = (\<lambda>(output, group_index).
     bind_res (from_option (KeyError ''output'') (map_of kinds (Symbolic output))) (\<lambda>kind.
     bind_res (in_strings kind coverage_kinds) (\<lambda>known.
     if \<not> known then Inl (ValueError ''unsupported coverage kind'')
     else if \<not> group_index < length records then Inl (RuntimeError ''proposed ACT group is out of range'')
     else if \<not> coverage_fits p (int group_index) (records ! group_index)
     then Inl (RuntimeError ''group coverage does not match the proposed ACT group'')
     else if str_of kind \<notin> set (complete_kinds (records ! group_index))
     then Inl (ValueError ''ACT group coverage kind is not complete'')
     else Inr (str_of kind, records ! group_index))))"

definition review_native_topology_mapping ::
  "native_lib \<Rightarrow> prepared_graph \<Rightarrow> proposal_arg \<Rightarrow> (symbolic \<times> pyval) list option \<Rightarrow> topology_review res" where
  "review_native_topology_mapping lib p arg kinds_arg =
     bind_res (current_proposal lib p) (\<lambda>current.
     bind_res (checked_proposal current arg) (\<lambda>proposal.
     case unique_group_indices proposal of
       None \<Rightarrow> Inl (ValueError ''native topology review requires one unique assignment'')
     | Some assignment \<Rightarrow>
         (case kinds_arg of
            None \<Rightarrow> Inl (TypeError ''coverage_kinds must map every custom output tensor to one coverage kind'')
          | Some kinds \<Rightarrow>
              if fst ` set kinds \<noteq> Symbolic ` set (tp_outputs proposal)
              then Inl (ValueError ''coverage_kinds must contain every and only the proposed custom outputs'')
              else
                bind_res (inspect_group_coverage lib (carrier_blob p)) (\<lambda>records.
                if length records \<noteq> length (pp_groups p)
                then Inl (RuntimeError ''group coverage count does not match prepared ACT groups'')
                else bind_res (map_res (review_group p records kinds) (zip (tp_outputs proposal) assignment)) (\<lambda>reviewed.
                  Inr \<lparr>tr_proposal = proposal, tr_group_indices = assignment, tr_coverage_kinds = map fst reviewed,
                    tr_coverages = map snd reviewed, tr_baseline_graph_blob_sha256 = sha256 (carrier_blob p)\<rparr>)))))"

section \<open>What the evidence shows\<close>

lemma singleton_case_Inr [res_simps]:
  "(case xs of [x] \<Rightarrow> F x | _ \<Rightarrow> Inl e) = Inr r \<longleftrightarrow> (\<exists>x. xs = [x] \<and> F x = Inr r)"
  by (auto split: list.splits)

lemma option_case_Inr [res_simps]:
  "(case v of None \<Rightarrow> Inl e | Some x \<Rightarrow> F x) = Inr r \<longleftrightarrow> (\<exists>x. v = Some x \<and> F x = Inr r)"
  by (auto split: option.splits)

lemma evidence_consistent:
  "evidence_group_index e = Some i \<longleftrightarrow>
     2 \<le> length (accepted_probes e) \<and> (\<forall>c \<in> set (accepted_probes e). gc_changed_group_indices (cp_comparison c) = [i])"
proof -
  have single: "probe_group_index c = Some j \<longleftrightarrow> gc_changed_group_indices (cp_comparison c) = [j]" if "c \<in> set (accepted_probes e)" for c j
  proof -
    from that have "probe_accepted c" by (simp add: accepted_probes_def)
    then obtain k where "gc_changed_group_indices (cp_comparison c) = [k]"
      by (auto simp: probe_accepted_def comparison_accepted_def length_Suc_conv)
    with \<open>probe_accepted c\<close> show ?thesis by (auto simp: probe_group_index_def)
  qed
  let ?gs = "map probe_group_index (accepted_probes e)"
  have one: "length (remdups xs) = 1 \<longleftrightarrow> (\<exists>x. set xs = {x})" for xs :: "int option list"
    by (metis card_1_singleton_iff length_remdups_card_conv One_nat_def)
  show ?thesis
  proof
    assume "evidence_group_index e = Some i"
    then have s: "evidence_status e = ''consistent''" "probe_group_index (hd (accepted_probes e)) = Some i"
      by (auto simp: evidence_group_index_def split: if_splits)
    then have l: "2 \<le> length (accepted_probes e)" "length (remdups ?gs) = 1"
      by (auto simp: evidence_status_def Let_def split: if_splits)
    then obtain x where "set ?gs = {x}" using one by blast
    moreover have "accepted_probes e \<noteq> []" using l(1) by auto
    moreover from calculation have "probe_group_index c = x" if "c \<in> set (accepted_probes e)" for c
      using that by (metis imageI list.set_map singletonD)
    ultimately have "\<forall>c \<in> set (accepted_probes e). probe_group_index c = Some i" using s(2) hd_in_set by metis
    with single l(1) show "2 \<le> length (accepted_probes e) \<and> (\<forall>c \<in> set (accepted_probes e). gc_changed_group_indices (cp_comparison c) = [i])"
      by blast
  next
    assume a: "2 \<le> length (accepted_probes e) \<and> (\<forall>c \<in> set (accepted_probes e). gc_changed_group_indices (cp_comparison c) = [i])"
    then have all: "\<forall>c \<in> set (accepted_probes e). probe_group_index c = Some i" using single by blast
    moreover have ne: "accepted_probes e \<noteq> []" using a by auto
    ultimately have "set ?gs = {Some i}" by (auto simp: neq_Nil_conv)
    then have "length (remdups ?gs) = 1" using one by blast
    then have "evidence_status e = ''consistent''" using a by (simp add: evidence_status_def Let_def)
    then show "evidence_group_index e = Some i" using all ne by (simp add: evidence_group_index_def)
  qed
qed

lemma probe_carrier_baseline:
  assumes "probe_carrier lib p output carrier worker = Inr c"
  shows "output = Symbolic (cp_output c) \<and> cp_baseline_graph_blob_sha256 c = sha256 (carrier_blob p) \<and>
    cp_candidate_carrier c = str_of carrier \<and>
    compare_graphs lib (carrier_blob p) (ic_graph_blob (cp_candidate_provenance c)) = Inr (cp_comparison c) \<and>
    provenance_fields_of (cp_candidate_provenance c) = provenance_fields_of (pp_ir_provenance p)"
  using assms
  by (auto simp: probe_carrier_def custom_output_def Let_def bind_res_eq_Inr
      split: option.splits symbolic.splits if_splits pyval.splits)

lemma review_binding_Inr:
  assumes "review_binding lib p output evidence kind = Inr r"
  shows "output = Symbolic (rv_output r) \<and> t_producer (rv_output r) \<in> set (custom_nodes p) \<and> evidence = Some (rv_evidence r) \<and>
    ev_output (rv_evidence r) = rv_output r \<and> evidence_group_index (rv_evidence r) = Some (rv_group_index r) \<and>
    (\<forall>c \<in> set (ev_probes (rv_evidence r)). cp_output c = rv_output r \<and> cp_baseline_graph_blob_sha256 c = sha256 (carrier_blob p)) \<and>
    in_groups p (rv_group_index r) \<and> kind = PStr (rv_coverage_kind r) \<and> rv_coverage_kind r \<in> set coverage_kinds \<and>
    rv_baseline_graph_blob_sha256 r = sha256 (carrier_blob p) \<and> coverage_fits p (rv_group_index r) (rv_coverage r) \<and>
    (\<exists>records. inspect_group_coverage lib (carrier_blob p) = Inr records \<and> length records = length (pp_groups p) \<and>
       rv_coverage r = records ! nat (rv_group_index r)) \<and>
    map_of (coverage_states (rv_coverage r)) (rv_coverage_kind r) = Some ''complete''"
  using assms
  by (cases kind)
    (auto simp: review_binding_def check_evidence_def custom_output_def bind_res_eq_Inr in_strings_def list_ex_iff
      split: option.splits symbolic.splits if_splits)

text \<open>C23 A reviewed binding rests on evidence about this very carrier: whatever \<open>probe_binding\<close> returns names a group of
  the prepared graph for an output of one of its custom nodes; at least two substitute carriers were
  accepted and each of them changed exactly that group; every probe was compared with this carrier;
  and the native coverage of the group is complete for the recorded kind, the only complete one when
  the caller did not choose.\<close>

theorem reviewed_binding_evidence:
  assumes "probe_binding lib p output carriers kind worker = Inr r"
  shows "output = Symbolic (rv_output r) \<and> t_producer (rv_output r) \<in> set (custom_nodes p) \<and> in_groups p (rv_group_index r) \<and>
    2 \<le> length (accepted_probes (rv_evidence r)) \<and>
    (\<forall>c \<in> set (ev_probes (rv_evidence r)). cp_baseline_graph_blob_sha256 c = sha256 (carrier_blob p) \<and>
       (probe_accepted c \<longrightarrow> gc_changed_group_indices (cp_comparison c) = [rv_group_index r])) \<and>
    coverage_fits p (rv_group_index r) (rv_coverage r) \<and>
    map_of (coverage_states (rv_coverage r)) (rv_coverage_kind r) = Some ''complete'' \<and>
    (kind = PNone \<longrightarrow> complete_kinds (rv_coverage r) = [rv_coverage_kind r])"
proof -
  from assms obtain e kind' where r: "review_binding lib p output (Some e) kind' = Inr r"
    and k: "kind = PNone \<longrightarrow> (\<exists>records k. inspect_group_coverage lib (carrier_blob p) = Inr records \<and>
      evidence_group_index e \<noteq> None \<and> complete_kinds (records ! nat (the (evidence_group_index e))) = [k] \<and> kind' = PStr k)"
    by (cases "kind = PNone") (auto simp: probe_binding_def bind_res_eq_Inr if_Inl_Inr singleton_case_Inr option_case_Inr)
  note facts = review_binding_Inr [OF r]
  have "kind = PNone \<longrightarrow> complete_kinds (rv_coverage r) = [rv_coverage_kind r]" using k facts by auto
  moreover have "2 \<le> length (accepted_probes (rv_evidence r)) \<and>
      (\<forall>c \<in> set (accepted_probes (rv_evidence r)). gc_changed_group_indices (cp_comparison c) = [rv_group_index r])"
    using facts evidence_consistent by blast
  ultimately show ?thesis using facts by (auto simp: accepted_probes_def)
qed

subsection \<open>An example\<close>

definition covered_lib :: native_lib where
  "covered_lib = failing_lib\<lparr>
     nl_coverage := \<lambda>_. (0, \<lparr>ra_count = 1, ra_items = Some [\<lparr>gv_struct_size = 64, gv_group_index = 0, gv_invocation_count = 1,
       gv_direct_output_state = 2, gv_act_consumer_state = 0, gv_dpu_consumer_state = 1, gv_direct_output_unresolved_flags = 0,
       gv_act_consumer_unresolved_flags = 0, gv_dpu_consumer_unresolved_flags = 0, gv_direct_routed_invocation_count = 1,
       gv_direct_replica_invocation_count = 0, gv_act_matched_invocation_count = 0, gv_act_consumer_group_count = 0,
       gv_act_consumer_input_count = 0, gv_dpu_matched_invocation_count = 0, gv_dpu_input_count = 0\<rparr>]\<rparr>, None),
     nl_dma_dpu_coverage := \<lambda>_. (0, \<lparr>ra_count = 1, ra_items = Some [\<lparr>gd_struct_size = 32, gd_group_index = 0,
       gd_invocation_count = 1, gd_state = 0, gd_unresolved_flags = 0, gd_tile_count_expected = 0, gd_translated_tile_count = 0,
       gd_matched_dpu_input_count = 0\<rparr>]\<rparr>, None),
     nl_dma_act_coverage := \<lambda>_. (0, \<lparr>ra_count = 1, ra_items = Some [\<lparr>ga_struct_size = 48, ga_group_index = 0,
       ga_invocation_count = 1, ga_state = 0, ga_unresolved_flags = 0, ga_routed_producer_invocation_count = 0,
       ga_replica_producer_invocation_count = 0, ga_consumer_group_count = 0, ga_consumer_input_count = 0,
       ga_ddr_span_bytes = 0\<rparr>]\<rparr>, None)\<rparr>"

definition sample_coverage :: act_group_coverage where
  "sample_coverage = (case inspect_group_coverage covered_lib [2] of Inr cs \<Rightarrow> hd cs | Inl _ \<Rightarrow> undefined)"

definition sample_prepared :: prepared_graph where
  "sample_prepared = \<lparr>pp_store = chain_store, pp_limit = 100, pp_graph = ti_graph chain_input,
     pp_serialized_ir = \<lparr>si_xml = [1], si_weights = [], si_custom_nodes = [1]\<rparr>,
     pp_ir_provenance = pi_ir_provenance sample_prepared_ir, pp_groups = [\<lparr>ag_index = 0, ag_targets = [TargetV2 (unary_target 0)]\<rparr>],
     pp_mappings = [], pp_timeout_ms = 100, pp_automatic_indices = None, pp_embedded_targets = None, pp_build_flags = '''',
     pp_saved_indices = None, pp_saved_reviews = None\<rparr>"

definition sample_tensor :: tensor where
  "sample_tensor = hd (node_outputs 1 (node_at chain_store 1))"

definition sample_probe :: "string \<Rightarrow> carrier_probe" where
  "sample_probe carrier = \<lparr>cp_output = sample_tensor, cp_baseline_carrier = ''Relu'', cp_candidate_carrier = carrier,
     cp_comparison = \<lparr>gc_mismatch_flags = 0, gc_changed_group_indices = [0], gc_contract_stable = True, gc_unique_changed_group = True\<rparr>,
     cp_baseline_ir_sha256 = sha256 [1], cp_candidate_ir_sha256 = sha256 [5], cp_baseline_graph_blob_sha256 = sha256 [2],
     cp_candidate_graph_blob_sha256 = sha256 [6], cp_candidate_ir = \<lparr>si_xml = [5], si_weights = [], si_custom_nodes = [1]\<rparr>,
     cp_candidate_provenance = (pi_ir_provenance sample_prepared_ir)\<lparr>ic_graph_blob := [6]\<rparr>\<rparr>"

definition sample_probe_report :: probe_report where
  "sample_probe_report = \<lparr>qr_output = sample_tensor, qr_probes = [sample_probe ''Abs'', sample_probe ''Sin''], qr_failures = []\<rparr>"

definition sample_review :: reviewed_binding where
  "sample_review = \<lparr>rv_output = sample_tensor, rv_group_index = 0, rv_coverage_kind = ''direct_output'',
     rv_baseline_graph_blob_sha256 = sha256 [2], rv_evidence = report_evidence sample_probe_report, rv_coverage = sample_coverage\<rparr>"

lemma sample_coverage_inspected:
  "inspect_group_coverage covered_lib [2] = Inr [sample_coverage]"
proof -
  have "case inspect_group_coverage covered_lib [2] of Inr cs \<Rightarrow> length cs = 1 | Inl _ \<Rightarrow> False" by code_simp
  then show ?thesis by (auto simp: sample_coverage_def length_Suc_conv split: sum.splits)
qed

lemma sample_coverage_facts:
  "cv_group_index sample_coverage = 0 \<and> cv_invocation_count sample_coverage = 1 \<and> complete_kinds sample_coverage = [''direct_output''] \<and>
   map_of (coverage_states sample_coverage) ''direct_output'' = Some ''complete''"
proof -
  have "case inspect_group_coverage covered_lib [2] of Inr cs \<Rightarrow> cv_group_index (hd cs) = 0 \<and> cv_invocation_count (hd cs) = 1 \<and>
    complete_kinds (hd cs) = [''direct_output''] \<and> map_of (coverage_states (hd cs)) ''direct_output'' = Some ''complete''
    | Inl _ \<Rightarrow> False" by code_simp
  then show ?thesis by (simp add: sample_coverage_inspected)
qed

lemma sample_evidence: "evidence_group_index (report_evidence sample_probe_report) = Some 0"
  by (simp add: evidence_consistent accepted_probes_def report_evidence_def sample_probe_report_def sample_probe_def
      probe_accepted_def comparison_accepted_def)

lemma sample_reviewed:
  "review_binding covered_lib sample_prepared (Symbolic sample_tensor) (Some (report_evidence sample_probe_report)) (PStr ''direct_output'') =
     Inr sample_review"
proof -
  have "t_producer sample_tensor = 1" by (simp add: sample_tensor_def node_outputs_def node_at_def chain_store_def unary_node_def Let_def)
  then show ?thesis
    using sample_evidence sample_coverage_inspected sample_coverage_facts
    by (simp add: review_binding_def check_evidence_def custom_output_def sample_prepared_def report_evidence_def sample_probe_report_def
        sample_probe_def sample_prepared_ir_def in_groups_def in_strings_def coverage_kinds_def coverage_fits_def sample_review_def)
qed

theorem reviewed_binding_evidence_witness:
  "probe_binding covered_lib sample_prepared (Symbolic sample_tensor) (Report sample_probe_report) PNone None = Inr sample_review \<and>
   2 \<le> length (accepted_probes (rv_evidence sample_review)) \<and> complete_kinds (rv_coverage sample_review) = [''direct_output'']"
proof -
  have p: "probe_binding covered_lib sample_prepared (Symbolic sample_tensor) (Report sample_probe_report) PNone None = Inr sample_review"
    using sample_evidence sample_coverage_inspected sample_coverage_facts sample_reviewed
    by (simp add: probe_binding_def binding_evidence_def sample_probe_report_def sample_prepared_def sample_prepared_ir_def
        in_groups_def coverage_fits_def)
  from reviewed_binding_evidence [OF p] p show ?thesis by (simp add: sample_review_def)
qed

end
