(* ===== verification/Build_Plan.thy ===== *)
theory Build_Plan
  imports Prepared
begin

text \<open>
  Planning and building (\<open>__init__.py\<close>): the groups a caller may bind to a custom node, the resolution of all
  bindings into patch targets, the snapshot of the kernels, and the build that compiles the kernels and
  patches the carrier once per custom node. \<open>compile\<close> is \<open>prepare\<close> followed by \<open>build\<close>.
\<close>

section \<open>Bindings\<close>

text \<open>What a caller may bind: a group, an integer, a Boolean or another value, a sequence of them, or a reviewed
  binding.\<close>

datatype binding_item = ItemGroup act_group | ItemInt int | ItemBool bool | ItemOther

datatype binding_arg = OneItem binding_item | ManyItems "binding_item list" | Reviewed reviewed_binding

definition add_binding_item :: "prepared_graph \<Rightarrow> binding_item \<Rightarrow> nat list \<Rightarrow> nat list res" where
  "add_binding_item p item indices =
     bind_res
       (case item of
          ItemBool _ \<Rightarrow> Inl (TypeError ''ACT group indices must be integers'')
        | ItemGroup g \<Rightarrow>
            if \<not> ag_index g < length (pp_groups p) \<or> pp_groups p ! ag_index g \<noteq> g
            then Inl (ValueError ''ActGroup does not belong to this PreparedGraph'')
            else Inr (ag_index g)
        | ItemInt i \<Rightarrow> if \<not> in_groups p i then Inl (ValueError ''ACT group index is out of range'') else Inr (nat i)
        | ItemOther \<Rightarrow> Inl (TypeError ''prepared binding sequences may contain only ActGroup or int values''))
       (\<lambda>index. if index \<in> set indices then Inl (ValueError ''ACT group is selected more than once for one custom node'')
                else Inr (indices @ [index]))"

definition normalize_binding :: "native_lib \<Rightarrow> prepared_graph \<Rightarrow> binding_arg \<Rightarrow> tensor \<Rightarrow> nat list res" where
  "normalize_binding lib p v output =
     (case v of
        Reviewed r \<Rightarrow>
          if rv_output r \<noteq> output then Inl (ValueError ''ReviewedBinding does not belong to this custom output'')
          else bind_res (review_binding lib p (Symbolic output) (Some (rv_evidence r)) (PStr (rv_coverage_kind r))) (\<lambda>current.
            if review_key current \<noteq> review_key r
            then Inl (ValueError ''ReviewedBinding no longer matches this prepared graph'')
            else Inr [nat (rv_group_index r)])
      | OneItem (ItemGroup g) \<Rightarrow> add_binding_item p (ItemGroup g) []
      | OneItem (ItemInt i) \<Rightarrow> add_binding_item p (ItemInt i) []
      | OneItem _ \<Rightarrow> Inl (TypeError ''a prepared binding must be an ActGroup, group index, or sequence of them'')
      | ManyItems items \<Rightarrow>
          if items = [] then Inl (ValueError ''a prepared binding must select at least one ACT group'')
          else fold_res (add_binding_item p) items [])"

definition the_review :: "binding_arg \<Rightarrow> reviewed_binding option" where
  "the_review v = (case v of Reviewed r \<Rightarrow> Some r | _ \<Rightarrow> None)"

text \<open>The dictionary of bound nodes, with the groups and the review of each.\<close>

type_synonym bound = "(nat \<times> nat list \<times> reviewed_binding option) list"

definition add_bound :: "native_lib \<Rightarrow> prepared_graph \<Rightarrow> symbolic \<times> binding_arg \<Rightarrow> bound \<Rightarrow> bound res" where
  "add_bound lib p = (\<lambda>(output, v) found.
     case custom_output p output of
       None \<Rightarrow> Inl (ValueError ''prepared binding keys must be outputs of custom nodes in this graph'')
     | Some t \<Rightarrow>
         let nid = t_producer t in
         if map_of found nid \<noteq> None then Inl (ValueError ''custom node is bound more than once'')
         else if length (n_output_specs (node_at (pp_store p) nid)) \<noteq> 1
         then Inl (ValueError ''prepared group bindings currently require one output per custom node'')
         else bind_res (normalize_binding lib p v t) (\<lambda>indices. Inr (found @ [(nid, indices, the_review v)])))"

definition default_bindings :: "prepared_graph \<Rightarrow> bound" where
  "default_bindings p =
     (let indices = (case pp_saved_indices p of Some s \<Rightarrow> Some s | None \<Rightarrow> pp_automatic_indices p);
          reviews = (case pp_saved_reviews p of
            Some (r # rs) \<Rightarrow> r # rs | _ \<Rightarrow> map (\<lambda>_. None) (custom_nodes p))
      in case indices of
        None \<Rightarrow> []
      | Some xs \<Rightarrow> zip (custom_nodes p) (zip xs reviews))"

text \<open>The targets of the groups selected for one node.\<close>

definition group_targets :: "prepared_graph \<Rightarrow> nat \<Rightarrow> target list res" where
  "group_targets p i = bind_res (from_option IndexError (py_nth (pp_groups p) (int i))) (\<lambda>g. Inr (ag_targets g))"

definition combine_targets :: "node \<Rightarrow> target list list \<Rightarrow> target list res" where
  "combine_targets node groups =
     (case groups of
        [targets] \<Rightarrow>
          bind_res (custom_targets_mismatch False node targets) (\<lambda>mismatch.
          case mismatch of
            Some reason \<Rightarrow> Inl (ValueError (''ACT group does not match custom node: '' @ reason))
          | None \<Rightarrow>
              if all_v2 targets
              then bind_res (legacy_targets_from_v2 (v2s targets)) (\<lambda>legacy.
                Inr (case legacy of Some ts \<Rightarrow> map TargetV1 ts | None \<Rightarrow> targets))
              else Inr targets)
      | _ \<Rightarrow>
          (case (if list_all (list_all is_v1) groups
                 then map_option (map TargetV1) (combined_custom_targets node (map v1s groups))
                 else if list_all (list_all is_v2) groups
                 then map_option (map TargetV2) (combined_hybrid_per_row_targets_v2 node (map v2s groups))
                 else None) of
             None \<Rightarrow> Inl (ValueError ''ACT groups do not form a compatible validated multi-group mapping'')
           | Some targets \<Rightarrow> Inr targets))"

definition select_targets :: "prepared_graph \<Rightarrow> nat \<Rightarrow> nat list \<Rightarrow> target list res" where
  "select_targets p nid indices =
     bind_res (map_res (group_targets p) indices) (combine_targets (node_at (pp_store p) nid))"

record resolution =
  rs_used :: "(nat \<times> nat) list"
  rs_indices :: "nat list list"
  rs_targets :: "target list list"
  rs_reviews :: "reviewed_binding option list"

definition mark_used :: "nat \<Rightarrow> nat \<Rightarrow> (nat \<times> nat) list \<Rightarrow> (nat \<times> nat) list res" where
  "mark_used nid index used =
     (if map_of used index \<noteq> None then Inl (ValueError ''ACT group is assigned to two custom nodes'')
      else Inr (used @ [(index, nid)]))"

definition resolve_node :: "prepared_graph \<Rightarrow> bound \<Rightarrow> bound \<Rightarrow> nat \<Rightarrow> resolution \<Rightarrow> resolution res" where
  "resolve_node p found automatic nid r =
     (case (case map_of found nid of Some b \<Rightarrow> Some b | None \<Rightarrow> map_of automatic nid) of
        None \<Rightarrow> Inl (KeyError ''node'')
      | Some (indices, review) \<Rightarrow>
          bind_res (fold_res (mark_used nid) indices (rs_used r)) (\<lambda>used.
          bind_res (select_targets p nid indices) (\<lambda>targets.
          Inr \<lparr>rs_used = used, rs_indices = rs_indices r @ [indices], rs_targets = rs_targets r @ [targets],
            rs_reviews = rs_reviews r @ [review]\<rparr>)))"

text \<open>The bindings argument: a mapping, or \<open>None\<close> for a value that is none; an absent argument is an empty
  mapping.\<close>

definition resolve_bindings ::
  "native_lib \<Rightarrow> prepared_graph \<Rightarrow> (symbolic \<times> binding_arg) list option \<Rightarrow>
    (nat list list \<times> target list list \<times> reviewed_binding option list) res" where
  "resolve_bindings lib p bindings =
     (case bindings of
        None \<Rightarrow> Inl (TypeError ''bindings must be a mapping from custom output tensors to ACT groups'')
      | Some supplied \<Rightarrow>
          (case pp_embedded_targets p of
             Some embedded \<Rightarrow>
               if supplied \<noteq> [] then Inl (ValueError ''prepared bindings cannot be combined with embedded _patch_targets'')
               else Inr (map (\<lambda>_. []) (custom_nodes p), embedded, map (\<lambda>_. None) (custom_nodes p))
           | None \<Rightarrow>
               bind_res (fold_res (add_bound lib p) supplied []) (\<lambda>found.
               let automatic = default_bindings p in
               if list_ex (\<lambda>n. map_of found n = None \<and> map_of automatic n = None) (custom_nodes p)
               then Inl (ValueError ''prepared graph needs explicit bindings for custom nodes'')
               else
                 bind_res (fold_res (resolve_node p found automatic) (custom_nodes p)
                   \<lparr>rs_used = [], rs_indices = [], rs_targets = [], rs_reviews = []\<rparr>) (\<lambda>r.
                 Inr (rs_indices r, rs_targets r, rs_reviews r)))))"

section \<open>Plans\<close>

record build_plan =
  bp_prepared :: prepared_graph
  bp_group_indices :: "nat list list"
  bp_kernels :: "kernel list"
  bp_reviewed_bindings :: "reviewed_binding option list"
  bp_target_groups :: "target list list"

definition add_kernel :: "prepared_graph \<Rightarrow> symbolic \<times> pyval \<Rightarrow> (nat \<times> kernel) list \<Rightarrow> (nat \<times> kernel) list res" where
  "add_kernel p = (\<lambda>(output, v) overrides.
     case custom_output p output of
       None \<Rightarrow> Inl (ValueError ''kernel override keys must be outputs of custom nodes in this graph'')
     | Some t \<Rightarrow>
         let nid = t_producer t; node = node_at (pp_store p) nid in
         if length (n_output_specs node) \<noteq> 1 \<or> t \<noteq> hd (node_outputs nid node)
         then Inl (ValueError ''kernel overrides currently require the sole output of a custom node'')
         else if map_of overrides nid \<noteq> None then Inl (ValueError ''custom node has more than one kernel override'')
         else (case v of
             PKernel k \<Rightarrow> Inr (overrides @ [(nid, k)])
           | _ \<Rightarrow> Inl (TypeError ''kernel override values must be KernelSpec or CompiledKernel instances'')))"

definition script_value :: "bytes option \<Rightarrow> pyval" where
  "script_value s = (case s of Some b \<Rightarrow> PBytes b | None \<Rightarrow> PNone)"

definition planned_kernel ::
  "file_reader \<Rightarrow> prepared_graph \<Rightarrow> (nat \<times> kernel) list \<Rightarrow> string list \<Rightarrow> bytes option \<Rightarrow> nat \<Rightarrow> kernel res" where
  "planned_kernel fs p overrides definitions script nid =
     (case map_of overrides nid of
        Some k \<Rightarrow> Inr k
      | None \<Rightarrow>
          (case dget (n_metadata (node_at (pp_store p) nid)) ''_kernel'' of
             PNone \<Rightarrow> Inl (ValueError ''custom node has no C source; provide a KernelSpec or CompiledKernel override in kernels'')
           | PKernel k \<Rightarrow> Inr k
           | source \<Rightarrow>
               bind_res (KernelSpec fs source (PTuple (map PStr definitions)) (script_value script)) (\<lambda>spec. Inr (KSpec spec))))"

definition plan ::
  "native_lib \<Rightarrow> file_reader \<Rightarrow> prepared_graph \<Rightarrow> (symbolic \<times> binding_arg) list option \<Rightarrow> (symbolic \<times> pyval) list option \<Rightarrow>
    pyval \<Rightarrow> pyval \<Rightarrow> build_plan res" where
  "plan lib fs p bindings kernels script definitions =
     bind_res (resolve_bindings lib p bindings) (\<lambda>(indices, targets, reviews).
     case kernels of
       None \<Rightarrow> Inl (TypeError ''kernels must be a mapping from custom output tensors to KernelSpec or CompiledKernel values'')
     | Some supplied \<Rightarrow>
         bind_res (fold_res (add_kernel p) supplied []) (\<lambda>overrides.
         bind_res (compiler_definitions definitions) (\<lambda>default_definitions.
         bind_res (linker_script fs script) (\<lambda>default_script.
         bind_res (map_res (planned_kernel fs p overrides default_definitions default_script) (custom_nodes p)) (\<lambda>planned.
         Inr \<lparr>bp_prepared = p, bp_group_indices = indices, bp_kernels = planned, bp_reviewed_bindings = reviews,
           bp_target_groups = targets\<rparr>)))))"

section \<open>Building\<close>

definition in_context :: "string \<Rightarrow> 'a res \<Rightarrow> 'a res" where
  "in_context context r =
     (case r of
        Inl (NativeError e) \<Rightarrow> Inl (NativeError (e\<lparr>ne_stage := context @ '': '' @ ne_stage e\<rparr>))
      | _ \<Rightarrow> r)"

text \<open>\<open>{node.name or '<unnamed>'!r}\<close>: the representation of a name is its text in quotes here.\<close>

definition build_context :: "prepared_graph \<Rightarrow> nat \<Rightarrow> nat list \<Rightarrow> string" where
  "build_context p nid indices =
     ''kernel '' @ [CHR 0x27] @ shown_name (n_name (node_at (pp_store p) nid)) @ [CHR 0x27] @ '' groups='' @
     (if indices = [] then ''raw-explicit'' else str_join '','' (map nat_str indices))"

type_synonym elf_cache = "((bytes \<times> string list \<times> bytes option) \<times> bytes) list"

record build_state =
  bs_blob :: bytes
  bs_reports :: "bytes list"
  bs_elf_cache :: elf_cache

definition compile_spec :: "native_lib \<Rightarrow> prepared_graph \<Rightarrow> string \<Rightarrow> string option \<Rightarrow> kernel_spec \<Rightarrow> bytes res" where
  "compile_spec lib p dir worker spec =
     compile_shave lib (ks_source spec) dir (ks_linker_script spec) (ks_definitions spec) (pp_timeout_ms p) worker"

text \<open>The ELF of a kernel: given, cached, or compiled and cached.\<close>

definition kernel_elf ::
  "native_lib \<Rightarrow> prepared_graph \<Rightarrow> string \<Rightarrow> string option \<Rightarrow> string \<Rightarrow> kernel \<Rightarrow> elf_cache \<Rightarrow> (bytes \<times> elf_cache) res" where
  "kernel_elf lib p dir worker context k cache =
     (case k of
        KCompiled compiled \<Rightarrow> Inr (ck_elf compiled, cache)
      | KSpec spec \<Rightarrow>
          (case map_of cache (kernel_key spec) of
             Some elf \<Rightarrow> Inr (elf, cache)
           | None \<Rightarrow>
               bind_res (in_context context (compile_spec lib p dir worker spec)) (\<lambda>elf.
               Inr (elf, (kernel_key spec, elf) # cache))))"

definition build_step ::
  "native_lib \<Rightarrow> prepared_graph \<Rightarrow> string \<Rightarrow> string option \<Rightarrow> nat \<times> nat list \<times> kernel \<times> target list \<Rightarrow> build_state \<Rightarrow> build_state res" where
  "build_step lib p dir worker = (\<lambda>(nid, indices, k, targets) s.
     let context = build_context p nid indices in
     bind_res (kernel_elf lib p dir worker context k (bs_elf_cache s)) (\<lambda>(elf, cache).
     bind_res (in_context context (patch_graph lib (bs_blob s) elf targets 0x400 0x80)) (\<lambda>patched.
     Inr \<lparr>bs_blob = pr_graph_blob patched, bs_reports = bs_reports s @ [pr_report_json patched], bs_elf_cache = cache\<rparr>)))"

fun needs_compiler :: "kernel \<Rightarrow> bool" where
  "needs_compiler (KSpec _) = True"
| "needs_compiler (KCompiled _) = False"

definition plan_items :: "build_plan \<Rightarrow> (nat \<times> nat list \<times> kernel \<times> target list) list" where
  "plan_items b = zip (custom_nodes (bp_prepared b)) (zip (bp_group_indices b) (zip (bp_kernels b) (bp_target_groups b)))"

text \<open>The directory is used only for kernels that are compiled.\<close>

definition build_plan_run :: "native_lib \<Rightarrow> process \<Rightarrow> build_plan \<Rightarrow> string option \<Rightarrow> string option \<Rightarrow> program res" where
  "build_plan_run lib px b movi_dll_dir movi_worker =
     (let p = bp_prepared b; compiling = list_ex needs_compiler (bp_kernels b);
          dir = (if compiling then resolve_movi_dll_dir px movi_dll_dir else None) in
      if compiling \<and> dir = None then Inl (ValueError ''C source kernels require an MVC_DEPEND root'')
      else
        bind_res (fold_res (build_step lib p (case dir of Some d \<Rightarrow> d | None \<Rightarrow> []) movi_worker) (plan_items b)
          \<lparr>bs_blob = carrier_blob p, bs_reports = [], bs_elf_cache = []\<rparr>) (\<lambda>s.
        make_program (pp_store p) (pp_limit p) \<lparr>pg_graph_blob = bs_blob s, pg_graph = Some (pp_graph p),
          pg_serialized_ir = Some (pp_serialized_ir p), pg_ir_provenance = Some (pp_ir_provenance p),
          pg_patch_reports = bs_reports s, pg_timeout_ms = pp_timeout_ms p, pg_saved_inputs = [], pg_saved_outputs = [],
          pg_artifact_manifest = None\<rparr>))"

definition build_prepared ::
  "native_lib \<Rightarrow> file_reader \<Rightarrow> process \<Rightarrow> prepared_graph \<Rightarrow> (symbolic \<times> binding_arg) list option \<Rightarrow>
    (symbolic \<times> pyval) list option \<Rightarrow> string option \<Rightarrow> pyval \<Rightarrow> pyval \<Rightarrow> string option \<Rightarrow> program res" where
  "build_prepared lib fs px p bindings kernels movi_dll_dir script definitions movi_worker =
     bind_res (plan lib fs p bindings kernels script definitions) (\<lambda>b.
     build_plan_run lib px b movi_dll_dir movi_worker)"

definition compile_graph ::
  "native_lib \<Rightarrow> file_reader \<Rightarrow> process \<Rightarrow> store \<Rightarrow> nat \<Rightarrow> graph option \<Rightarrow> string option \<Rightarrow> (symbolic \<times> pyval) list option \<Rightarrow>
    pyval \<Rightarrow> string \<Rightarrow> pyval \<Rightarrow> int \<Rightarrow> string option \<Rightarrow> string option \<Rightarrow> program res" where
  "compile_graph lib fs px st limit graph movi_dll_dir kernels script build_flags definitions timeout_ms ir_worker movi_worker =
     (case graph of
        None \<Rightarrow> Inl (TypeError ''compile() requires a Graph'')
      | Some g \<Rightarrow>
          bind_res (prepare lib st limit (Some g) build_flags timeout_ms ir_worker) (\<lambda>p.
          build_prepared lib fs px p (Some []) kernels movi_dll_dir script definitions movi_worker))"

section \<open>Resolved bindings\<close>

lemma mark_used_one: "mark_used nid i used = Inr used' \<longleftrightarrow> i \<notin> fst ` set used \<and> used' = used @ [(i, nid)]"
  by (auto simp: mark_used_def map_of_eq_None_iff)

lemma mark_used_Inr:
  "fold_res (mark_used nid) indices used = Inr used' \<longleftrightarrow>
     distinct indices \<and> set indices \<inter> fst ` set used = {} \<and> used' = used @ map (\<lambda>i. (i, nid)) indices"
proof (induction indices arbitrary: used)
  case Nil
  then show ?case by auto
next
  case (Cons i indices)
  show ?case
    by (auto simp: bind_res_eq_Inr mark_used_one Cons)
qed

lemma resolve_node_Inr:
  assumes "resolve_node p found automatic nid r = Inr r'"
  obtains indices targets review where "r' = \<lparr>rs_used = rs_used r @ map (\<lambda>i. (i, nid)) indices, rs_indices = rs_indices r @ [indices],
      rs_targets = rs_targets r @ [targets], rs_reviews = rs_reviews r @ [review]\<rparr>"
    "distinct indices" "set indices \<inter> fst ` set (rs_used r) = {}" "select_targets p nid indices = Inr targets"
  using assms unfolding resolve_node_def option_case_Inr case_prod_beta
  by (auto simp: bind_res_eq_Inr mark_used_Inr)

text \<open>What the loop over the custom nodes has established after the nodes \<open>ns\<close>.\<close>

definition resolved :: "prepared_graph \<Rightarrow> nat list \<Rightarrow> resolution \<Rightarrow> bool" where
  "resolved p ns r \<longleftrightarrow> map fst (rs_used r) = concat (rs_indices r) \<and> distinct (concat (rs_indices r)) \<and>
     length (rs_indices r) = length ns \<and> length (rs_reviews r) = length ns \<and>
     list_all2 (\<lambda>n (indices, targets). select_targets p n indices = Inr targets) ns (zip (rs_indices r) (rs_targets r)) \<and>
     length (rs_targets r) = length ns"

lemma resolve_node_resolved:
  assumes "resolve_node p found automatic nid r = Inr r'" and "resolved p ns r"
  shows "resolved p (ns @ [nid]) r'"
proof -
  obtain indices targets review where r': "r' = \<lparr>rs_used = rs_used r @ map (\<lambda>i. (i, nid)) indices,
      rs_indices = rs_indices r @ [indices], rs_targets = rs_targets r @ [targets], rs_reviews = rs_reviews r @ [review]\<rparr>"
    "distinct indices" "set indices \<inter> fst ` set (rs_used r) = {}" "select_targets p nid indices = Inr targets"
    by (rule resolve_node_Inr [OF assms(1)])
  have "fst ` set (rs_used r) = set (concat (rs_indices r))" using assms(2) by (metis list.set_map resolved_def)
  with r' assms(2) show ?thesis by (auto simp: resolved_def comp_def intro!: list_all2_appendI)
qed

lemma resolve_nodes_resolved:
  assumes "fold_res (resolve_node p found automatic) ms r = Inr r'" and "resolved p ns r"
  shows "resolved p (ns @ ms) r'"
  using assms
proof (induction ms arbitrary: ns r)
  case (Cons m ms)
  then obtain r1 where "resolve_node p found automatic m r = Inr r1" "fold_res (resolve_node p found automatic) ms r1 = Inr r'"
    by (auto simp: bind_res_eq_Inr)
  with Cons.IH [of r1 "ns @ [m]"] resolve_node_resolved Cons.prems(2) show ?case by simp
qed simp

lemma resolved_select:
  assumes "resolved p ns r" and "k < length ns"
  shows "select_targets p (ns ! k) (rs_indices r ! k) = Inr (rs_targets r ! k)"
proof -
  have len: "length (rs_indices r) = length ns" "length (rs_targets r) = length ns" using assms(1) by (simp_all add: resolved_def)
  have "list_all2 (\<lambda>n (indices, targets). select_targets p n indices = Inr targets) ns (zip (rs_indices r) (rs_targets r))"
    using assms(1) by (simp only: resolved_def)
  from list_all2_nthD [OF this assms(2)] show ?thesis using assms(2) len by simp
qed

lemma group_targets_Inr: "group_targets p i = Inr ts \<longleftrightarrow> i < length (pp_groups p) \<and> ts = ag_targets (pp_groups p ! i)"
  by (auto simp: group_targets_def bind_res_eq_Inr from_option_eq_Inr py_nth_def)

lemma select_targets_groups:
  assumes "select_targets p nid indices = Inr targets"
  shows "(\<forall>i \<in> set indices. i < length (pp_groups p)) \<and>
    (\<forall>i. indices = [i] \<longrightarrow> custom_targets_mismatch False (node_at (pp_store p) nid) (ag_targets (pp_groups p ! i)) = Inr None)"
proof -
  from assms obtain groups where s: "map_res (group_targets p) indices = Inr groups"
    and c: "combine_targets (node_at (pp_store p) nid) groups = Inr targets"
    by (auto simp: select_targets_def bind_res_eq_Inr)
  then have "\<forall>i \<in> set indices. i < length (pp_groups p)"
    by (fastforce simp: map_res_eq_Inr list_all2_conv_all_nth in_set_conv_nth group_targets_Inr)
  moreover have "custom_targets_mismatch False (node_at (pp_store p) nid) (ag_targets (pp_groups p ! i)) = Inr None" if "indices = [i]" for i
    using s c that by (auto simp: combine_targets_def bind_res_eq_Inr group_targets_Inr split: option.splits)
  ultimately show ?thesis by blast
qed

text \<open>C24 No two kernels are patched into one ACT group: whenever the bindings resolve without embedded targets, every
  custom node has its own groups; no group is selected twice, by one node or by two; all of them are
  groups of the carrier; the targets of a node are those selected from its groups; and a node with
  one group has the contract of that group.\<close>

theorem resolved_groups_disjoint:
  assumes "resolve_bindings lib p bindings = Inr (indices, targets, reviews)" and "pp_embedded_targets p = None"
  shows "length indices = length (custom_nodes p) \<and> length targets = length (custom_nodes p) \<and>
    length reviews = length (custom_nodes p) \<and> distinct (concat indices) \<and>
    (\<forall>i \<in> set (concat indices). i < length (pp_groups p)) \<and>
    (\<forall>k < length (custom_nodes p). select_targets p (custom_nodes p ! k) (indices ! k) = Inr (targets ! k) \<and>
       (\<forall>i. indices ! k = [i] \<longrightarrow>
          custom_targets_mismatch False (node_at (pp_store p) (custom_nodes p ! k)) (ag_targets (pp_groups p ! i)) = Inr None))"
proof -
  let ?start = "\<lparr>rs_used = [], rs_indices = [], rs_targets = [], rs_reviews = []\<rparr>"
  from assms obtain found r where
    "fold_res (resolve_node p found (default_bindings p)) (custom_nodes p) ?start = Inr r"
    and out: "indices = rs_indices r" "targets = rs_targets r" "reviews = rs_reviews r"
    by (auto simp: resolve_bindings_def bind_res_eq_Inr Let_def split: option.splits if_splits)
  then have r: "resolved p (custom_nodes p) r"
    using resolve_nodes_resolved [of p found "default_bindings p" "custom_nodes p" ?start r "[]"] by (simp add: resolved_def)
  have sel: "select_targets p (custom_nodes p ! k) (indices ! k) = Inr (targets ! k)" if "k < length (custom_nodes p)" for k
    using resolved_select [OF r that] by (simp only: out)
  have len: "length indices = length (custom_nodes p)" using r by (simp add: resolved_def out)
  have "i < length (pp_groups p)" if "i \<in> set (concat indices)" for i
  proof -
    from that obtain k where "k < length indices" "i \<in> set (indices ! k)" by (metis UN_E in_set_conv_nth set_concat)
    with select_targets_groups [OF sel [of k]] len show ?thesis by auto
  qed
  moreover have "length targets = length (custom_nodes p)" "length reviews = length (custom_nodes p)" "distinct (concat indices)"
    using r by (simp_all add: resolved_def out)
  ultimately show ?thesis using len sel select_targets_groups [OF sel] by blast
qed

section \<open>The build\<close>

text \<open>The build without the cache: every kernel is compiled where it is used.\<close>

definition fresh_elf :: "native_lib \<Rightarrow> prepared_graph \<Rightarrow> string \<Rightarrow> string option \<Rightarrow> kernel \<Rightarrow> bytes res" where
  "fresh_elf lib p dir worker k =
     (case k of KCompiled compiled \<Rightarrow> Inr (ck_elf compiled) | KSpec spec \<Rightarrow> compile_spec lib p dir worker spec)"

definition fresh_step ::
  "native_lib \<Rightarrow> prepared_graph \<Rightarrow> string \<Rightarrow> string option \<Rightarrow> nat \<times> nat list \<times> kernel \<times> target list \<Rightarrow> bytes \<times> bytes list \<Rightarrow> (bytes \<times> bytes list) res" where
  "fresh_step lib p dir worker = (\<lambda>(nid, indices, k, targets) (blob, reports).
     in_context (build_context p nid indices) (
     bind_res (fresh_elf lib p dir worker k) (\<lambda>elf.
     bind_res (patch_graph lib blob elf targets 0x400 0x80) (\<lambda>patched.
     Inr (pr_graph_blob patched, reports @ [pr_report_json patched])))))"

definition cache_sound :: "native_lib \<Rightarrow> prepared_graph \<Rightarrow> string \<Rightarrow> string option \<Rightarrow> elf_cache \<Rightarrow> bool" where
  "cache_sound lib p dir worker cache \<longleftrightarrow>
     (\<forall>spec elf. map_of cache (kernel_key spec) = Some elf \<longrightarrow> compile_spec lib p dir worker spec = Inr elf)"

lemma compile_spec_key:
  "kernel_key a = kernel_key b \<Longrightarrow> compile_spec lib p dir worker a = compile_spec lib p dir worker b"
  by (simp add: kernel_key_def compile_spec_def)

lemma in_context_simps [simp]: "in_context c (Inr x) = Inr x" "(in_context c r = Inr x) = (r = Inr x)"
  by (auto simp: in_context_def split: sum.splits pyexn.splits)

lemma in_context_bind: "in_context c (bind_res m f) = bind_res (in_context c m) (\<lambda>x. in_context c (f x))"
  by (cases m) (auto simp: in_context_def split: pyexn.splits)

lemma kernel_elf_fresh:
  assumes "cache_sound lib p dir worker cache"
  shows "bind_res (kernel_elf lib p dir worker context k cache) (\<lambda>(elf, _). Inr elf) = in_context context (fresh_elf lib p dir worker k)"
    and "kernel_elf lib p dir worker context k cache = Inr (elf, cache') \<Longrightarrow> cache_sound lib p dir worker cache'"
proof -
  show "bind_res (kernel_elf lib p dir worker context k cache) (\<lambda>(elf, _). Inr elf) = in_context context (fresh_elf lib p dir worker k)"
  proof (cases k)
    case (KSpec spec)
    show ?thesis
    proof (cases "map_of cache (kernel_key spec)")
      case None
      with KSpec show ?thesis
        by (cases "in_context context (compile_spec lib p dir worker spec)") (simp_all add: kernel_elf_def fresh_elf_def)
    next
      case (Some elf)
      with assms have "compile_spec lib p dir worker spec = Inr elf" by (auto simp: cache_sound_def)
      with KSpec Some show ?thesis by (simp add: kernel_elf_def fresh_elf_def)
    qed
  qed (simp add: kernel_elf_def fresh_elf_def)
  show "cache_sound lib p dir worker cache'" if "kernel_elf lib p dir worker context k cache = Inr (elf, cache')"
  proof (cases "cache' = cache")
    case False
    with that obtain spec where "k = KSpec spec" "cache' = (kernel_key spec, elf) # cache" "compile_spec lib p dir worker spec = Inr elf"
      by (cases k) (auto simp: kernel_elf_def bind_res_eq_Inr split: option.splits)
    with assms show ?thesis unfolding cache_sound_def by (metis compile_spec_key map_of_Cons_code(2) option.inject)
  qed (use assms in simp)
qed

abbreviation outcome :: "build_state res \<Rightarrow> (bytes \<times> bytes list) res" where
  "outcome m \<equiv> bind_res m (\<lambda>s. Inr (bs_blob s, bs_reports s))"

lemma build_step_fresh:
  assumes "cache_sound lib p dir worker (bs_elf_cache s)"
  shows "outcome (build_step lib p dir worker item s) = fresh_step lib p dir worker item (bs_blob s, bs_reports s)"
    and "build_step lib p dir worker item s = Inr s' \<Longrightarrow> cache_sound lib p dir worker (bs_elf_cache s')"
proof -
  obtain nid indices k targets where item: "item = (nid, indices, k, targets)" by (cases item)
  let ?c = "build_context p nid indices"
  let ?patch = "\<lambda>elf. bind_res (in_context ?c (patch_graph lib (bs_blob s) elf targets 0x400 0x80)) (\<lambda>patched.
    Inr (pr_graph_blob patched, bs_reports s @ [pr_report_json patched]))"
  have "outcome (build_step lib p dir worker item s) =
    bind_res (bind_res (kernel_elf lib p dir worker ?c k (bs_elf_cache s)) (\<lambda>(elf, _). Inr elf)) ?patch"
    unfolding item build_step_def Let_def prod.case bind_res_assoc by (simp add: case_prod_beta bind_res_assoc)
  also have "\<dots> = bind_res (in_context ?c (fresh_elf lib p dir worker k)) ?patch"
    by (simp only: kernel_elf_fresh(1) [OF assms])
  also have "\<dots> = fresh_step lib p dir worker item (bs_blob s, bs_reports s)"
    by (simp add: fresh_step_def item in_context_bind)
  finally show "outcome (build_step lib p dir worker item s) = fresh_step lib p dir worker item (bs_blob s, bs_reports s)" .
  show "cache_sound lib p dir worker (bs_elf_cache s')" if "build_step lib p dir worker item s = Inr s'"
    using that kernel_elf_fresh(2) [OF assms] unfolding item build_step_def Let_def prod.case
    by (auto simp: bind_res_eq_Inr)
qed

lemma build_steps_fresh:
  assumes "cache_sound lib p dir worker (bs_elf_cache s)"
  shows "outcome (fold_res (build_step lib p dir worker) items s) = fold_res (fresh_step lib p dir worker) items (bs_blob s, bs_reports s)"
  using assms
proof (induction items arbitrary: s)
  case (Cons item items)
  show ?case
  proof (cases "build_step lib p dir worker item s")
    case (Inl e)
    with build_step_fresh(1) [OF Cons.prems, of item]
    have "fresh_step lib p dir worker item (bs_blob s, bs_reports s) = Inl e" by simp
    with Inl show ?thesis by simp
  next
    case (Inr s')
    with build_step_fresh(1) [OF Cons.prems, of item]
    have "fresh_step lib p dir worker item (bs_blob s, bs_reports s) = Inr (bs_blob s', bs_reports s')" by simp
    with Inr Cons.IH [OF build_step_fresh(2) [OF Cons.prems Inr]] show ?thesis by simp
  qed
qed simp

text \<open>C26 The cache of compiled kernels is transparent: a build that compiles each distinct kernel once ends with the blob
  and the reports, or with the error, of the build that compiles every kernel where it is patched.\<close>

theorem elf_cache_transparent:
  "outcome (fold_res (build_step lib p dir worker) items \<lparr>bs_blob = blob, bs_reports = reports, bs_elf_cache = []\<rparr>) =
     fold_res (fresh_step lib p dir worker) items (blob, reports)"
  using build_steps_fresh [of lib p dir worker "\<lparr>bs_blob = blob, bs_reports = reports, bs_elf_cache = []\<rparr>" items]
  by (simp add: cache_sound_def)

section \<open>The chain of patches\<close>

text \<open>The blobs between the patches and the report of each, from the carrier on.\<close>

definition patched_chain ::
  "native_lib \<Rightarrow> prepared_graph \<Rightarrow> string \<Rightarrow> string option \<Rightarrow> kernel list \<Rightarrow> target list list \<Rightarrow> bytes list \<Rightarrow> bytes list \<Rightarrow> bool" where
  "patched_chain lib p dir worker ks targets blobs reports \<longleftrightarrow>
     length targets = length ks \<and> length reports = length ks \<and> length blobs = Suc (length ks) \<and>
     (\<forall>k < length ks. \<exists>elf. fresh_elf lib p dir worker (ks ! k) = Inr elf \<and>
        patch_graph lib (blobs ! k) elf (targets ! k) 0x400 0x80 = Inr \<lparr>pr_graph_blob = blobs ! Suc k, pr_report_json = reports ! k\<rparr>)"

lemma patched_chain_Nil: "patched_chain lib p dir worker [] [] [blob] []"
  by (simp add: patched_chain_def)

lemma patched_chain_Cons:
  assumes "fresh_elf lib p dir worker k = Inr elf" and "patch_graph lib blob elf ts 0x400 0x80 = Inr \<lparr>pr_graph_blob = b, pr_report_json = r\<rparr>"
    and "patched_chain lib p dir worker ks targets (b # blobs) reports"
  shows "patched_chain lib p dir worker (k # ks) (ts # targets) (blob # b # blobs) (r # reports)"
  using assms unfolding patched_chain_def by (auto simp: less_Suc_eq_0_disj)

lemma fresh_steps_chain:
  assumes "fold_res (fresh_step lib p dir worker) (zip ns (zip indices (zip ks targets))) (blob, reports) = Inr (blob', reports')"
    and "length indices = length ns" "length ks = length ns" "length targets = length ns"
  shows "\<exists>blobs rs. patched_chain lib p dir worker ks targets (blob # blobs) rs \<and> last (blob # blobs) = blob' \<and> reports' = reports @ rs"
  using assms
proof (induction ns arbitrary: indices ks targets blob reports)
  case Nil
  then show ?case using patched_chain_Nil by fastforce
next
  case (Cons n ns)
  from Cons.prems(2-4) obtain i indices1 k ks1 ts targets1 where
    eq: "indices = i # indices1" "ks = k # ks1" "targets = ts # targets1"
    and len: "length indices1 = length ns" "length ks1 = length ns" "length targets1 = length ns"
    by (auto simp: length_Suc_conv)
  from Cons.prems(1) eq obtain elf patched where e: "fresh_elf lib p dir worker k = Inr elf"
    and q: "patch_graph lib blob elf ts 0x400 0x80 = Inr patched"
    and more: "fold_res (fresh_step lib p dir worker) (zip ns (zip indices1 (zip ks1 targets1)))
      (pr_graph_blob patched, reports @ [pr_report_json patched]) = Inr (blob', reports')"
    by (auto simp: bind_res_eq_Inr fresh_step_def)
  from Cons.IH [OF more len] obtain blobs rs where
    c: "patched_chain lib p dir worker ks1 targets1 (pr_graph_blob patched # blobs) rs"
    and l: "last (pr_graph_blob patched # blobs) = blob'" "reports' = (reports @ [pr_report_json patched]) @ rs" by blast
  have "patched_chain lib p dir worker ks targets (blob # pr_graph_blob patched # blobs) (pr_report_json patched # rs)"
    unfolding eq by (rule patched_chain_Cons [OF e _ c]) (simp add: q)
  with l show ?case by (intro exI [of _ "pr_graph_blob patched # blobs"] exI [of _ "pr_report_json patched # rs"]) simp
qed

lemma resolve_bindings_length:
  assumes "resolve_bindings lib p bindings = Inr (indices, targets, reviews)"
    and "\<And>ts. pp_embedded_targets p = Some ts \<Longrightarrow> length ts = length (custom_nodes p)"
  shows "length indices = length (custom_nodes p) \<and> length targets = length (custom_nodes p)"
proof (cases "pp_embedded_targets p")
  case None
  let ?start = "\<lparr>rs_used = [], rs_indices = [], rs_targets = [], rs_reviews = []\<rparr>"
  from None assms(1) obtain found r where
    "fold_res (resolve_node p found (default_bindings p)) (custom_nodes p) ?start = Inr r" "indices = rs_indices r" "targets = rs_targets r"
    by (auto simp: resolve_bindings_def bind_res_eq_Inr Let_def split: option.splits if_splits)
  with resolve_nodes_resolved [of p found "default_bindings p" "custom_nodes p" ?start r "[]"] show ?thesis
    by (simp add: resolved_def)
next
  case (Some ts)
  with assms show ?thesis by (auto simp: resolve_bindings_def split: option.splits if_splits)
qed



text \<open>A reviewed binding can be used: the binding \<open>review_binding\<close> returns is accepted for its output by the prepared
  graph that made it, with its one group, and reviewing its evidence again gives the same binding.\<close>

theorem reviewed_binding_accepted:
  assumes "review_binding lib p output (Some e) kind = Inr r"
  shows "output = Symbolic (rv_output r) \<and> normalize_binding lib p (Reviewed r) (rv_output r) = Inr [nat (rv_group_index r)] \<and>
    review_binding lib p output (Some (rv_evidence r)) (PStr (rv_coverage_kind r)) = Inr r"
proof -
  have "output = Symbolic (rv_output r)" "rv_evidence r = e" "kind = PStr (rv_coverage_kind r)"
    using review_binding_Inr [OF assms] by auto
  with assms show ?thesis by (simp add: normalize_binding_def)
qed

subsection \<open>An example\<close>

lemma sample_producer: "t_producer sample_tensor = 1"
  by (simp add: sample_tensor_def node_outputs_def node_at_def chain_store_def unary_node_def Let_def)

lemma sample_normalized: "normalize_binding lib sample_prepared (OneItem (ItemInt 0)) t = Inr [0]"
  by (simp add: normalize_binding_def add_binding_item_def in_groups_def sample_prepared_def)

lemma sample_selected: "\<exists>t. select_targets sample_prepared 1 [0] = Inr [TargetV1 t]"
proof -
  have "custom_targets_mismatch False (node_at chain_store 1) [TargetV2 (unary_target 0)] = Inr None" by code_simp
  moreover have "case legacy_targets_from_v2 [unary_target 0] of Inr (Some [_]) \<Rightarrow> True | _ \<Rightarrow> False" by code_simp
  ultimately show ?thesis
    by (auto simp: select_targets_def group_targets_def combine_targets_def sample_prepared_def py_nth_def from_option_def all_v2_def
        split: sum.splits option.splits list.splits)
qed

lemma sample_custom:
  "custom_nodes sample_prepared = [1]" "pp_embedded_targets sample_prepared = None" "carrier_blob sample_prepared = [2]"
  "length (n_output_specs (node_at (pp_store sample_prepared) 1)) = 1"
  "hd (node_outputs 1 (node_at (pp_store sample_prepared) 1)) = sample_tensor"
  by (simp_all add: sample_prepared_def sample_prepared_ir_def sample_tensor_def node_at_def chain_store_def unary_node_def Let_def)

lemma sample_resolved:
  "\<exists>t. resolve_bindings lib sample_prepared (Some [(Symbolic sample_tensor, OneItem (ItemInt 0))]) = Inr ([[0]], [[TargetV1 t]], [None])"
  using sample_selected sample_custom(4)
  by (auto simp: resolve_bindings_def add_bound_def custom_output_def sample_producer sample_normalized sample_custom the_review_def
      resolve_node_def mark_used_def Let_def)

theorem resolved_groups_disjoint_witness:
  "case resolve_bindings covered_lib sample_prepared (Some [(Symbolic sample_tensor, OneItem (ItemInt 0))]) of
     Inl _ \<Rightarrow> False | Inr (indices, targets, reviews) \<Rightarrow>
       distinct (concat indices) \<and> (\<forall>i \<in> set (concat indices). i < length (pp_groups sample_prepared)) \<and> indices = [[0]]"
proof -
  obtain ts where r: "resolve_bindings covered_lib sample_prepared (Some [(Symbolic sample_tensor, OneItem (ItemInt 0))]) = Inr ([[0]], [[TargetV1 ts]], [None])"
    using sample_resolved by blast
  have "pp_embedded_targets sample_prepared = None" by (simp add: sample_prepared_def)
  from resolved_groups_disjoint [OF r this] r show ?thesis by simp
qed

theorem reviewed_binding_accepted_witness:
  "review_binding covered_lib sample_prepared (Symbolic sample_tensor) (Some (report_evidence sample_probe_report)) (PStr ''direct_output'') =
     Inr sample_review \<and> normalize_binding covered_lib sample_prepared (Reviewed sample_review) sample_tensor = Inr [0]"
  using reviewed_binding_accepted [OF sample_reviewed] sample_reviewed by (simp add: sample_review_def)

text \<open>A library whose patcher returns the blob with the first byte of the ELF in front, and an empty report.\<close>

definition prefix_lib :: native_lib where
  "prefix_lib = failing_lib\<lparr>
     nl_patch := \<lambda>_ blob elf _. (0, \<lparr>rp_graph_blob = Some (take 1 elf @ blob), rp_report_json = Some [7], rp_diagnostic = None\<rparr>),
     nl_patch_v2 := \<lambda>_ blob elf _. (0, \<lparr>rp_graph_blob = Some (take 1 elf @ blob), rp_report_json = Some [7], rp_diagnostic = None\<rparr>)\<rparr>"

lemma prefix_patch:
  "patch_graph prefix_lib blob elf [TargetV1 t] 0x400 0x80 = Inr \<lparr>pr_graph_blob = take 1 elf @ blob, pr_report_json = [7]\<rparr>"
  by (simp add: patch_graph_def prefix_lib_def buffer_bytes_def Let_def)

abbreviation sample_build :: "program res" where
  "sample_build \<equiv> build_prepared prefix_lib (\<lambda>_. None) \<lparr>px_configured = None, px_environment = None\<rparr> sample_prepared
     (Some [(Symbolic sample_tensor, OneItem (ItemInt 0))]) (Some [(Symbolic sample_tensor, PKernel (KCompiled reviewed_kernel))])
     None PNone (PTuple []) None"

lemma sample_built: "\<exists>prog. sample_build = Inr prog \<and> pg_graph_blob prog = [9, 2] \<and> pg_patch_reports prog = [[7]]"
proof -
  obtain t where r: "resolve_bindings prefix_lib sample_prepared (Some [(Symbolic sample_tensor, OneItem (ItemInt 0))]) =
      Inr ([[0]], [[TargetV1 t]], [None])"
    using sample_resolved by blast
  have "\<not> isl (graph_inputs (ti_graph chain_input))" by code_simp
  then obtain i where i: "graph_inputs (pp_graph sample_prepared) = Inr i" by (cases "graph_inputs (ti_graph chain_input)") (auto simp: sample_prepared_def)
  have "\<not> isl (graph_outputs chain_store 100 (ti_graph chain_input))" by code_simp
  then obtain j where j: "graph_outputs (pp_store sample_prepared) (pp_limit sample_prepared) (pp_graph sample_prepared) = Inr j"
    by (cases "graph_outputs chain_store 100 (ti_graph chain_input)") (auto simp: sample_prepared_def)
  have "compiler_definitions (PTuple []) = Inr []" "linker_script (\<lambda>_. None) PNone = Inr None"
    by (code_simp, simp add: linker_script_def)
  with r sample_custom(4, 5) have "plan prefix_lib (\<lambda>_. None) sample_prepared (Some [(Symbolic sample_tensor, OneItem (ItemInt 0))])
      (Some [(Symbolic sample_tensor, PKernel (KCompiled reviewed_kernel))]) PNone (PTuple []) =
    Inr \<lparr>bp_prepared = sample_prepared, bp_group_indices = [[0]], bp_kernels = [KCompiled reviewed_kernel],
      bp_reviewed_bindings = [None], bp_target_groups = [[TargetV1 t]]\<rparr>"
    by (simp add: plan_def add_kernel_def custom_output_def sample_producer sample_custom planned_kernel_def Let_def)
  then show ?thesis using i j
    by (auto simp: build_prepared_def build_plan_run_def plan_items_def sample_custom build_step_def kernel_elf_def prefix_patch
        reviewed_kernel_def make_program_def Let_def)
qed


end
