(* ===== verification/Prepared_Bundle.thy ===== *)
theory Prepared_Bundle
  imports Build_Plan Json_Size
begin

text \<open>
  Prepared bundles (\<open>__init__.py\<close>): \<open>PreparedGraph.export\<close> writes the unpatched carrier, the identity of the
  serialized IR, the ACT contract and the bindings of a plan into an archive; \<open>load_prepared\<close> reads it back
  for the caller's graph, after it has checked the identities, asked the driver for its current provenance,
  rediscovered the ACT groups and reviewed the saved bindings again.
\<close>

section \<open>Export\<close>

definition tensor_json :: "patch_tensor_contract \<Rightarrow> pyval" where
  "tensor_json c = PDict [(''role'', PStr (tc_role c)), (''index'', PInt (tc_index c)), (''dtype'', PStr (tc_dtype c)),
     (''element_count'', PInt (tc_element_count c)), (''span_bytes'', PInt (tc_span_bytes c)),
     (''observed_flags'', PInt (tc_observed_flags c))]"

definition target_json :: "target \<Rightarrow> pyval" where
  "target_json target =
     (case target of
        TargetV2 t \<Rightarrow> PDict [(''version'', PInt 2), (''invocation_index'', PInt (p2_invocation_index t)),
          (''range_index'', PInt (p2_range_index t)), (''target_flags'', PInt (p2_target_flags t)),
          (''tensors'', PList (map tensor_json (p2_tensors t)))]
      | TargetV1 t \<Rightarrow> PDict [(''version'', PInt 1), (''invocation_index'', PInt (pt_invocation_index t)),
          (''range_index'', PInt (pt_range_index t)), (''input_count'', PInt (pt_input_count t)),
          (''element_count'', PInt (pt_element_count t)), (''span_bytes'', PInt (pt_span_bytes t)),
          (''contract_flags'', PInt (pt_contract_flags t))])"

definition groups_json :: "act_group list \<Rightarrow> pyval" where
  "groups_json groups = PList (map (\<lambda>g. PList (map target_json (ag_targets g))) groups)"

definition bytes_identity :: "bytes \<Rightarrow> (string \<times> pyval) list" where
  "bytes_identity data = [(''size'', PInt (int (length data))), (''sha256'', PStr (sha256 data))]"

definition file_entry :: "string \<Rightarrow> bytes \<Rightarrow> pyval" where
  "file_entry path data = PDict ((''path'', PStr path) # bytes_identity data)"

definition provenance_json :: "ir_compile_result \<Rightarrow> pyval" where
  "provenance_json r = PDict [(''driver_index'', PInt (ic_driver_index r)), (''device_index'', PInt (ic_device_index r)),
     (''driver_version'', PInt (ic_driver_version r)), (''vendor_id'', PInt (ic_vendor_id r)),
     (''device_id'', PInt (ic_device_id r)), (''graph_extension_version'', PInt (ic_graph_extension_version r)),
     (''compiler_version'', PList [PInt (fst (ic_compiler_version r)), PInt (snd (ic_compiler_version r))])]"

definition candidate_path :: "nat \<Rightarrow> nat \<Rightarrow> string" where
  "candidate_path index probe_index = ''reviews/'' @ nat_str index @ ''/'' @ nat_str probe_index @ ''.blob''"

definition probe_json :: "nat \<Rightarrow> nat \<times> carrier_probe \<Rightarrow> pyval" where
  "probe_json index = (\<lambda>(probe_index, probe). PDict [(''carrier'', PStr (cp_candidate_carrier probe)),
     (''ir_sha256'', PStr (cp_candidate_ir_sha256 probe)),
     (''candidate'', file_entry (candidate_path index probe_index) (ic_graph_blob (cp_candidate_provenance probe)))])"

definition review_json :: "nat \<Rightarrow> reviewed_binding option \<Rightarrow> pyval" where
  "review_json index review =
     (case review of
        None \<Rightarrow> PNone
      | Some r \<Rightarrow> PDict [(''coverage_kind'', PStr (rv_coverage_kind r)),
          (''probes'', PList (map (probe_json index) (enum (ev_probes (rv_evidence r)))))])"

definition binding_json :: "store \<Rightarrow> nat \<times> nat \<times> nat list \<times> reviewed_binding option \<Rightarrow> pyval" where
  "binding_json st = (\<lambda>(index, nid, indices, review). PDict [(''custom_index'', PInt (int index)),
     (''name'', PStr (shown_name (n_name (node_at st nid)))), (''group_indices'', PList (map (PInt \<circ> int) indices)),
     (''review'', review_json index review)])"

text \<open>The nodes with the groups and the review a plan saves for them.\<close>

definition saved_bindings :: "prepared_graph \<Rightarrow> build_plan \<Rightarrow> (nat \<times> nat \<times> nat list \<times> reviewed_binding option) list" where
  "saved_bindings p b = enum (zip (custom_nodes p) (zip (bp_group_indices b) (bp_reviewed_bindings b)))"

definition review_members :: "nat \<times> nat \<times> nat list \<times> reviewed_binding option \<Rightarrow> (string \<times> bytes) list" where
  "review_members = (\<lambda>(index, _, _, review).
     case review of
       None \<Rightarrow> []
     | Some r \<Rightarrow> map (\<lambda>(probe_index, probe). (candidate_path index probe_index, ic_graph_blob (cp_candidate_provenance probe)))
         (enum (ev_probes (rv_evidence r))))"

definition plan_bindings :: "prepared_graph \<Rightarrow> build_plan option \<Rightarrow> (nat \<times> nat \<times> nat list \<times> reviewed_binding option) list option" where
  "plan_bindings p made =
     (case made of Some b \<Rightarrow> if pp_embedded_targets p = None then Some (saved_bindings p b) else None | None \<Rightarrow> None)"

definition prepared_manifest :: "prepared_graph \<Rightarrow> (nat \<times> nat \<times> nat list \<times> reviewed_binding option) list option \<Rightarrow> pyval" where
  "prepared_manifest p bindings = PDict [(''schema'', PStr ''npunlock.prepared.v2''),
     (''carrier'', file_entry ''carrier.blob'' (carrier_blob p)),
     (''ir'', PDict [(''xml'', PDict (bytes_identity (si_xml (pp_serialized_ir p)))),
       (''weights'', PDict (bytes_identity (si_weights (pp_serialized_ir p))))]),
     (''build_flags'', PStr (pp_build_flags p)), (''provenance'', provenance_json (pp_ir_provenance p)),
     (''act_groups'', groups_json (pp_groups p)),
     (''bindings'', case bindings of None \<Rightarrow> PNone | Some bs \<Rightarrow> PList (map (binding_json (pp_store p)) bs))]"

definition export_prepared :: "prepared_graph \<Rightarrow> build_plan option \<Rightarrow> zip_file res" where
  "export_prepared p made =
     (if (case made of Some b \<Rightarrow> bp_prepared b \<noteq> p | None \<Rightarrow> False)
      then Inl (ValueError ''plan must have been created by this PreparedGraph'')
      else
        let bindings = plan_bindings p made in
        bind_res (manifest_bytes (prepared_manifest p bindings)) (\<lambda>content.
        Inr (Some (write_zip_member ''manifest.json'' content # write_zip_member ''carrier.blob'' (carrier_blob p) #
          (case bindings of
             None \<Rightarrow> []
           | Some bs \<Rightarrow> map (\<lambda>(path, candidate). write_zip_member path candidate) (concat (map review_members bs)))))))"

section \<open>Load\<close>

definition prepared_identity :: "pyval \<Rightarrow> bytes \<Rightarrow> unit res" where
  "prepared_identity v data =
     (case v of
        PDict d \<Rightarrow>
          if \<not> has_keys d [''size'', ''sha256''] then Inl (ValueError ''prepared bundle identity is invalid'')
          else (case (dget d ''size'', dget d ''sha256'') of
              (PInt n, PStr sha) \<Rightarrow>
                if n < 0 \<or> \<not> is_digest sha then Inl (ValueError ''prepared bundle identity is invalid'')
                else if n \<noteq> int (length data) \<or> sha \<noteq> sha256 data
                then Inl (ValueError ''caller graph does not match the prepared carrier identity'')
                else Inr ()
            | _ \<Rightarrow> Inl (ValueError ''prepared bundle identity is invalid''))
      | _ \<Rightarrow> Inl (ValueError ''prepared bundle identity is invalid''))"

definition integer_fields :: "string list" where
  "integer_fields = [''driver_index'', ''device_index'', ''driver_version'', ''vendor_id'', ''device_id'', ''graph_extension_version'']"

fun int_within :: "int \<Rightarrow> pyval \<Rightarrow> bool" where
  "int_within limit (PInt i) = (0 \<le> i \<and> i \<le> limit)"
| "int_within limit _ = False"

definition prepared_provenance :: "pyval \<Rightarrow> bytes \<Rightarrow> ir_compile_result res" where
  "prepared_provenance v graph_blob =
     (case v of
        PDict d \<Rightarrow>
          if \<not> has_keys d (integer_fields @ [''compiler_version''])
          then Inl (ValueError ''prepared bundle provenance is invalid'')
          else if \<not> list_all (\<lambda>name. int_within 0xFFFFFFFF (dget d name)) integer_fields
          then Inl (ValueError ''prepared bundle provenance is invalid'')
          else (case dget d ''compiler_version'' of
              PList [x, y] \<Rightarrow>
                if \<not> int_within 0xFFFF x \<or> \<not> int_within 0xFFFF y
                then Inl (ValueError ''prepared bundle provenance is invalid'')
                else if int_of (dget d ''vendor_id'') \<noteq> 0x8086 \<or> int_of (dget d ''device_id'') \<noteq> 0x7D1D
                then Inl (ValueError ''prepared bundle provenance is outside the supported NPU3720 contract'')
                else Inr \<lparr>ic_graph_blob = graph_blob, ic_driver_index = int_of (dget d ''driver_index''),
                  ic_device_index = int_of (dget d ''device_index''), ic_driver_version = int_of (dget d ''driver_version''),
                  ic_vendor_id = int_of (dget d ''vendor_id''), ic_device_id = int_of (dget d ''device_id''),
                  ic_graph_extension_version = int_of (dget d ''graph_extension_version''),
                  ic_compiler_version = (int_of x, int_of y)\<rparr>
            | _ \<Rightarrow> Inl (ValueError ''prepared bundle provenance is invalid''))
      | _ \<Rightarrow> Inl (ValueError ''prepared bundle provenance is invalid''))"


text \<open>One probe of a saved review: the carriers seen so far.\<close>

definition check_probe :: "nat \<Rightarrow> nat \<times> pyval \<Rightarrow> string list \<Rightarrow> string list res" where
  "check_probe index = (\<lambda>(probe_index, probe) carriers.
     case probe of
       PDict d \<Rightarrow>
         if \<not> has_keys d [''carrier'', ''ir_sha256'', ''candidate'']
         then Inl (ValueError ''prepared bundle reviewed probe is invalid'')
         else (case (dget d ''carrier'', dget d ''ir_sha256'') of
             (PStr carrier, PStr sha) \<Rightarrow>
               if \<not> operator_name (PStr carrier) \<or> carrier \<in> set carriers \<or> \<not> is_digest sha
               then Inl (ValueError ''prepared bundle reviewed probe carrier is invalid'')
               else bind_res (manifest_blob_entry (dget d ''candidate'')) (\<lambda>(path, n, _).
                 if path \<noteq> candidate_path index probe_index \<or> n = 0
                 then Inl (ValueError ''prepared bundle reviewed candidate entry is invalid'')
                 else Inr (carriers @ [carrier]))
           | _ \<Rightarrow> Inl (ValueError ''prepared bundle reviewed probe carrier is invalid''))
     | _ \<Rightarrow> Inl (ValueError ''prepared bundle reviewed probe is invalid''))"

text \<open>A saved review, as the manifest has it: its coverage kind and its probes.\<close>

type_synonym review_spec = "pyval \<times> pyval list"

definition check_review :: "nat \<Rightarrow> nat list \<Rightarrow> pyval \<Rightarrow> review_spec option res" where
  "check_review index indices review =
     (case review of
        PNone \<Rightarrow> Inr None
      | PDict d \<Rightarrow>
          if length indices \<noteq> 1 \<or> \<not> has_keys d [''coverage_kind'', ''probes'']
          then Inl (ValueError ''prepared bundle reviewed binding is invalid'')
          else bind_res (in_strings (dget d ''coverage_kind'') coverage_kinds) (\<lambda>known.
            case dget d ''probes'' of
              PList probes \<Rightarrow>
                if \<not> known \<or> length probes < 2 \<or> 8 < length probes
                then Inl (ValueError ''prepared bundle reviewed binding is invalid'')
                else bind_res (fold_res (check_probe index) (enum probes) []) (\<lambda>_. Inr (Some (dget d ''coverage_kind'', probes)))
            | _ \<Rightarrow> Inl (ValueError ''prepared bundle reviewed binding is invalid''))
      | _ \<Rightarrow> Inl (ValueError ''prepared bundle reviewed binding is invalid''))"

definition saved_binding_fields :: "string \<Rightarrow> string list" where
  "saved_binding_fields schema = [''custom_index'', ''name'', ''group_indices''] @ (if schema = ''npunlock.prepared.v2'' then [''review''] else [])"

definition check_binding :: "store \<Rightarrow> string \<Rightarrow> nat \<times> pyval \<times> nat \<Rightarrow> (nat list \<times> review_spec option) res" where
  "check_binding st schema = (\<lambda>(index, entry, nid).
     case entry of
       PDict d \<Rightarrow>
         if \<not> has_keys d (saved_binding_fields schema) then Inl (ValueError ''prepared bundle binding entry is invalid'')
         else (case dget d ''group_indices'' of
             PList items \<Rightarrow>
               if \<not> py_eq (dget d ''custom_index'') (PInt (int index)) \<or>
                  dget d ''name'' \<noteq> PStr (shown_name (n_name (node_at st nid))) \<or>
                  items = [] \<or> \<not> list_all nonnegative_int items \<or> \<not> distinct items
               then Inl (ValueError ''prepared bundle bindings do not match the caller graph'')
               else let indices = map (nat \<circ> int_of) items in
                 bind_res (check_review index indices (dget d ''review'')) (\<lambda>review. Inr (indices, review))
           | _ \<Rightarrow> Inl (ValueError ''prepared bundle bindings do not match the caller graph''))
     | _ \<Rightarrow> Inl (ValueError ''prepared bundle binding entry is invalid''))"

definition prepared_bindings ::
  "store \<Rightarrow> string \<Rightarrow> nat list \<Rightarrow> pyval \<Rightarrow> (nat list \<times> review_spec option) list option res" where
  "prepared_bindings st schema customs v =
     (case v of
        PNone \<Rightarrow> Inr None
      | PList entries \<Rightarrow>
          if length entries \<noteq> length customs then Inl (ValueError ''prepared bundle bindings do not match the caller graph'')
          else bind_res (map_res (check_binding st schema) (enum (zip entries customs))) (\<lambda>bs. Inr (Some bs))
      | _ \<Rightarrow> Inl (ValueError ''prepared bundle bindings do not match the caller graph''))"

text \<open>The candidate blobs of the reviews, with their member names.\<close>

definition probe_field :: "pyval \<Rightarrow> string \<Rightarrow> pyval" where
  "probe_field probe name = (case probe of PDict d \<Rightarrow> dget d name | _ \<Rightarrow> PNone)"

definition read_candidate :: "zip_member list \<Rightarrow> pyval \<Rightarrow> (string \<times> bytes) list \<Rightarrow> (string \<times> bytes) list res" where
  "read_candidate archive probe blobs =
     bind_res (manifest_blob_entry (probe_field probe ''candidate'')) (\<lambda>(path, n, sha).
     bind_res (bundle_member archive path (2 * 1024 * 1024 * 1024)) (\<lambda>candidate.
     if int (length candidate) \<noteq> n \<or> sha256 candidate \<noteq> sha
     then Inl (ValueError ''prepared bundle reviewed candidate does not match its manifest'')
     else Inr (blobs @ [(path, candidate)])))"

definition review_probes :: "nat list \<times> review_spec option \<Rightarrow> pyval list" where
  "review_probes = (\<lambda>(_, review). case review of Some (_, probes) \<Rightarrow> probes | None \<Rightarrow> [])"

definition read_candidates ::
  "zip_member list \<Rightarrow> (nat list \<times> review_spec option) list option \<Rightarrow> (string \<times> bytes) list res" where
  "read_candidates archive saved =
     fold_res (read_candidate archive)
       (concat (map review_probes (case saved of Some bs \<Rightarrow> bs | None \<Rightarrow> []))) []"

definition prepared_schemas :: "string list" where
  "prepared_schemas = [''npunlock.prepared.v1'', ''npunlock.prepared.v2'']"

definition prepared_fields :: "string list" where
  "prepared_fields = [''schema'', ''carrier'', ''ir'', ''build_flags'', ''provenance'', ''act_groups'', ''bindings'']"

definition check_prepared_manifest :: "pyval option \<Rightarrow> (string \<times> (string \<times> pyval) list) res" where
  "check_prepared_manifest v =
     (case v of
        None \<Rightarrow> Inl (ValueError ''prepared bundle manifest is not valid UTF-8 JSON'')
      | Some (PDict d) \<Rightarrow>
          bind_res (in_strings (dget d ''schema'') prepared_schemas) (\<lambda>known.
          if \<not> known \<or> \<not> has_keys d prepared_fields
          then Inl (ValueError ''prepared bundle manifest fields or schema are unsupported'')
          else Inr (str_of (dget d ''schema''), d))
      | Some _ \<Rightarrow> Inl (ValueError ''prepared bundle manifest fields or schema are unsupported''))"

definition load_carrier :: "zip_member list \<Rightarrow> pyval \<Rightarrow> bytes res" where
  "load_carrier archive v =
     bind_res (manifest_blob_entry v) (\<lambda>(path, n, sha).
     if path \<noteq> ''carrier.blob'' \<or> n = 0 then Inl (ValueError ''prepared bundle carrier entry is invalid'')
     else bind_res (bundle_member archive path (2 * 1024 * 1024 * 1024)) (\<lambda>carrier.
       if int (length carrier) \<noteq> n \<or> sha256 carrier \<noteq> sha
       then Inl (ValueError ''prepared bundle carrier does not match its manifest'')
       else Inr carrier))"

text \<open>The part of \<open>load_prepared\<close> inside the \<open>with\<close> block: the manifest, the carrier, the saved bindings and the
  candidate blobs.\<close>

record archived =
  ar_manifest :: "(string \<times> pyval) list"
  ar_carrier :: bytes
  ar_saved :: "(nat list \<times> review_spec option) list option"
  ar_blobs :: "(string \<times> bytes) list"

definition read_archive :: "store \<Rightarrow> nat list \<Rightarrow> zip_file \<Rightarrow> archived res" where
  "read_archive st customs source =
     (case source of
        None \<Rightarrow> Inl bad_archive
      | Some archive \<Rightarrow>
          let names = map zm_name archive in
          if \<not> distinct names then Inl (ValueError ''prepared bundle contains duplicate member names'')
          else
            bind_res (bundle_member archive ''manifest.json'' (1024 * 1024)) (\<lambda>content.
            bind_res (check_prepared_manifest (json_load_bytes content)) (\<lambda>(schema, d).
            bind_res (load_carrier archive (dget d ''carrier'')) (\<lambda>carrier.
            bind_res (prepared_bindings st schema customs (dget d ''bindings'')) (\<lambda>saved.
            bind_res (read_candidates archive saved) (\<lambda>blobs.
            if set names \<noteq> {''manifest.json'', ''carrier.blob''} \<union> set (map fst blobs)
            then Inl (ValueError ''prepared bundle contains undeclared members'')
            else Inr \<lparr>ar_manifest = d, ar_carrier = carrier, ar_saved = saved, ar_blobs = blobs\<rparr>))))))"


definition check_identities :: "store \<Rightarrow> serialized_ir \<Rightarrow> (string \<times> pyval) list \<Rightarrow> string res" where
  "check_identities st serialized d =
     (case dget d ''ir'' of
        PDict ir \<Rightarrow>
          if \<not> has_keys ir [''xml'', ''weights''] then Inl (ValueError ''prepared bundle IR identity is invalid'')
          else
            bind_res (prepared_identity (dget ir ''xml'') (si_xml serialized)) (\<lambda>_.
            bind_res (prepared_identity (dget ir ''weights'') (si_weights serialized)) (\<lambda>_.
            case dget d ''build_flags'' of
              PStr build_flags \<Rightarrow>
                if CHR 0x00 \<in> set build_flags then Inl (ValueError ''prepared bundle build_flags is invalid'')
                else bind_res (effective_build_flags st serialized build_flags) (\<lambda>effective.
                  if effective \<noteq> build_flags
                  then Inl (ValueError ''prepared bundle build_flags do not preserve the caller graph contract'')
                  else Inr build_flags)
            | _ \<Rightarrow> Inl (ValueError ''prepared bundle build_flags is invalid'')))
      | _ \<Rightarrow> Inl (ValueError ''prepared bundle IR identity is invalid''))"

definition saved_mapping :: "store \<Rightarrow> nat \<times> nat list \<times> review_spec option \<Rightarrow> custom_mapping" where
  "saved_mapping st = (\<lambda>(nid, indices, review).
     \<lparr>cm_output = hd (node_outputs nid (node_at st nid)), cm_name = shown_name (n_name (node_at st nid)),
      cm_status = (if review \<noteq> None then ''saved-reviewed'' else ''saved''), cm_group_indices = indices,
      cm_reason = (if review \<noteq> None then ''evidence-backed binding restored and revalidated from the prepared bundle''
        else ''explicit binding restored from the prepared bundle'')\<rparr>)"

definition restore_probe ::
  "native_lib \<Rightarrow> prepared_graph \<Rightarrow> (string \<times> bytes) list \<Rightarrow> nat \<Rightarrow> string \<Rightarrow> pyval \<Rightarrow> carrier_probe res" where
  "restore_probe lib p blobs nid baseline spec =
     bind_res (serialize_ir (pp_store p) (pp_limit p) (pp_graph p) (Overrides [(Some nid, probe_field spec ''carrier'')])) (\<lambda>candidate.
     if si_weights candidate \<noteq> si_weights (pp_serialized_ir p) \<or> si_custom_nodes candidate \<noteq> custom_nodes p
     then Inl (ValueError ''prepared bundle reviewed probe changes the caller graph contract'')
     else if PStr (sha256 (si_xml candidate)) \<noteq> probe_field spec ''ir_sha256''
     then Inl (ValueError ''prepared bundle reviewed probe IR identity does not match the caller graph'')
     else
       bind_res (from_option (KeyError ''path'') (map_of blobs (str_of (probe_field (probe_field spec ''candidate'') ''path'')))) (\<lambda>blob.
       bind_res (compare_graphs lib (carrier_blob p) blob) (\<lambda>comparison.
       Inr \<lparr>cp_output = hd (node_outputs nid (node_at (pp_store p) nid)), cp_baseline_carrier = baseline,
         cp_candidate_carrier = str_of (probe_field spec ''carrier''), cp_comparison = comparison,
         cp_baseline_ir_sha256 = sha256 (si_xml (pp_serialized_ir p)), cp_candidate_ir_sha256 = sha256 (si_xml candidate),
         cp_baseline_graph_blob_sha256 = sha256 (carrier_blob p), cp_candidate_graph_blob_sha256 = sha256 blob,
         cp_candidate_ir = candidate, cp_candidate_provenance = (pp_ir_provenance p)\<lparr>ic_graph_blob := blob\<rparr>\<rparr>)))"

text \<open>A saved review is reviewed again, on the evidence of probes that compare the carrier with the saved candidate
  blobs.\<close>

definition restore_review ::
  "native_lib \<Rightarrow> prepared_graph \<Rightarrow> (string \<times> bytes) list \<Rightarrow> nat \<times> nat list \<times> review_spec option \<Rightarrow> reviewed_binding option res" where
  "restore_review lib p blobs = (\<lambda>(nid, indices, review).
     case review of
       None \<Rightarrow> Inr None
     | Some (kind, specs) \<Rightarrow>
         (case dget (n_metadata (node_at (pp_store p) nid)) ''_carrier'' of
            PStr baseline \<Rightarrow>
              let t = hd (node_outputs nid (node_at (pp_store p) nid)) in
              bind_res (map_res (restore_probe lib p blobs nid baseline) specs) (\<lambda>probes.
              bind_res (review_binding lib p (Symbolic t) (Some \<lparr>ev_output = t, ev_probes = probes\<rparr>) kind) (\<lambda>restored.
              if map int indices \<noteq> [rv_group_index restored]
              then Inl (ValueError ''prepared bundle reviewed binding does not match its saved group'')
              else Inr (Some restored)))
          | _ \<Rightarrow> Inl (ValueError ''prepared bundle reviewed node has no carrier operator'')))"

definition saved_items :: "nat list \<Rightarrow> (nat list \<times> review_spec option) list option \<Rightarrow> (nat \<times> nat list \<times> review_spec option) list" where
  "saved_items customs saved = (case saved of Some bs \<Rightarrow> zip customs bs | None \<Rightarrow> [])"

text \<open>What \<open>load_prepared\<close> does after reading the archive.\<close>

definition restore_prepared ::
  "native_lib \<Rightarrow> store \<Rightarrow> nat \<Rightarrow> graph \<Rightarrow> serialized_ir \<Rightarrow> target list list option \<Rightarrow> archived \<Rightarrow> int \<Rightarrow> string option \<Rightarrow> prepared_graph res" where
  "restore_prepared lib st limit g serialized embedded a timeout_ms ir_worker =
     bind_res (check_identities st serialized (ar_manifest a)) (\<lambda>build_flags.
     bind_res (prepared_provenance (dget (ar_manifest a) ''provenance'') (ar_carrier a)) (\<lambda>provenance.
     bind_res (require_validated_positional_compiler serialized embedded (ic_compiler_version provenance)) (\<lambda>_.
     bind_res (query_ir_provenance lib timeout_ms ir_worker) (\<lambda>current.
     if provenance_fields_of current \<noteq> provenance_fields_of provenance
     then Inl (ValueError ''prepared bundle driver/compiler provenance is stale'')
     else
       bind_res (discover_prepared_contract lib st limit g serialized (ar_carrier a) embedded) (\<lambda>(groups, automatic, mappings).
       if \<not> py_eq (dget (ar_manifest a) ''act_groups'') (groups_json groups)
       then Inl (ValueError ''prepared bundle ACT contract does not match rediscovery from its carrier'')
       else
         let items = saved_items (si_custom_nodes serialized) (ar_saved a);
             p = \<lparr>pp_store = st, pp_limit = limit, pp_graph = g, pp_serialized_ir = serialized, pp_ir_provenance = provenance,
               pp_groups = groups, pp_mappings = (if ar_saved a = None then mappings else map (saved_mapping st) items),
               pp_timeout_ms = timeout_ms, pp_automatic_indices = automatic, pp_embedded_targets = embedded,
               pp_build_flags = build_flags, pp_saved_indices = map_option (map fst) (ar_saved a), pp_saved_reviews = None\<rparr>
         in case ar_saved a of
              None \<Rightarrow> Inr p
            | Some _ \<Rightarrow>
                bind_res (map_res (restore_review lib p (ar_blobs a)) items) (\<lambda>reviews.
                let restored = p\<lparr>pp_saved_reviews := Some reviews\<rparr> in
                bind_res (resolve_bindings lib restored (Some [])) (\<lambda>_. Inr restored)))))))"

definition load_prepared ::
  "native_lib \<Rightarrow> store \<Rightarrow> nat \<Rightarrow> zip_file \<Rightarrow> graph option \<Rightarrow> int \<Rightarrow> string option \<Rightarrow> prepared_graph res" where
  "load_prepared lib st limit source graph timeout_ms ir_worker =
     (case graph of
        None \<Rightarrow> Inl (TypeError ''load_prepared() requires a Graph'')
      | Some g \<Rightarrow>
          bind_res (serialize_ir st limit g NoOverrides) (\<lambda>serialized.
          bind_res (embedded_target_groups st (si_custom_nodes serialized)) (\<lambda>embedded.
          if embedded = None \<and> list_ex (\<lambda>n. length (n_output_specs (node_at st n)) \<noteq> 1) (si_custom_nodes serialized)
          then Inl (ValueError ''automatic and prepared patch selection currently require one output per custom node'')
          else
            bind_res (read_archive st (si_custom_nodes serialized) source) (\<lambda>a.
            restore_prepared lib st limit g serialized embedded a timeout_ms ir_worker))))"


section \<open>A loaded carrier is the caller's\<close>

lemma review_binding_saved [simp]: "review_binding lib (p\<lparr>pp_saved_reviews := x\<rparr>) = review_binding lib p"
  by (cases p, hypsubst) (unfold review_binding_def check_evidence_def custom_output_def coverage_fits_def in_groups_def
      prepared_graph.simps, rule refl)

lemma restore_review_again:
  assumes "restore_review lib p blobs (nid, indices, spec) = Inr (Some r)"
  shows "review_binding lib p (Symbolic (rv_output r)) (Some (rv_evidence r)) (PStr (rv_coverage_kind r)) = Inr r \<and>
    map int indices = [rv_group_index r]"
proof -
  from assms obtain out e kind where "review_binding lib p out (Some e) kind = Inr r" "map int indices = [rv_group_index r]"
    by (auto simp: restore_review_def bind_res_eq_Inr str_case_Inr Let_def if_Inl_Inr split: option.splits)
  with reviewed_binding_accepted show ?thesis by metis
qed

lemma load_prepared_cases:
  assumes "load_prepared lib st limit z (Some g) t w = Inr p"
  obtains serialized embedded a where "serialize_ir st limit g NoOverrides = Inr serialized"
    "embedded_target_groups st (si_custom_nodes serialized) = Inr embedded"
    "read_archive st (si_custom_nodes serialized) z = Inr a"
    "restore_prepared lib st limit g serialized embedded a t w = Inr p"
  using assms by (auto simp: load_prepared_def bind_res_eq_Inr if_Inl_Inr)


text \<open>The prepared graph a bundle gives, before its reviews are restored.\<close>

definition loaded ::
  "store \<Rightarrow> nat \<Rightarrow> graph \<Rightarrow> serialized_ir \<Rightarrow> target list list option \<Rightarrow> archived \<Rightarrow> int \<Rightarrow> string \<Rightarrow> ir_compile_result \<Rightarrow>
    act_group list \<Rightarrow> nat list list option \<Rightarrow> custom_mapping list \<Rightarrow> prepared_graph" where
  "loaded st limit g serialized embedded a t flags provenance groups automatic mappings =
     \<lparr>pp_store = st, pp_limit = limit, pp_graph = g, pp_serialized_ir = serialized, pp_ir_provenance = provenance,
      pp_groups = groups, pp_mappings = (if ar_saved a = None then mappings
        else map (saved_mapping st) (saved_items (si_custom_nodes serialized) (ar_saved a))),
      pp_timeout_ms = t, pp_automatic_indices = automatic, pp_embedded_targets = embedded,
      pp_build_flags = flags, pp_saved_indices = map_option (map fst) (ar_saved a), pp_saved_reviews = None\<rparr>"

definition with_reviews :: "native_lib \<Rightarrow> archived \<Rightarrow> prepared_graph \<Rightarrow> prepared_graph res" where
  "with_reviews lib a p =
     (case ar_saved a of
        None \<Rightarrow> Inr p
      | Some bs \<Rightarrow>
          bind_res (map_res (restore_review lib p (ar_blobs a)) (zip (custom_nodes p) bs)) (\<lambda>reviews.
          bind_res (resolve_bindings lib (p\<lparr>pp_saved_reviews := Some reviews\<rparr>) (Some [])) (\<lambda>_.
          Inr (p\<lparr>pp_saved_reviews := Some reviews\<rparr>))))"

text \<open>The checks of a loaded bundle against the caller's graph and the current driver.\<close>

definition matches_now ::
  "native_lib \<Rightarrow> store \<Rightarrow> nat \<Rightarrow> graph \<Rightarrow> serialized_ir \<Rightarrow> target list list option \<Rightarrow> archived \<Rightarrow> int \<Rightarrow> string option \<Rightarrow>
    string \<Rightarrow> ir_compile_result \<Rightarrow> act_group list \<Rightarrow> nat list list option \<Rightarrow> custom_mapping list \<Rightarrow> bool" where
  "matches_now lib st limit g serialized embedded a t w flags provenance groups automatic mappings \<longleftrightarrow>
     check_identities st serialized (ar_manifest a) = Inr flags \<and>
     prepared_provenance (dget (ar_manifest a) ''provenance'') (ar_carrier a) = Inr provenance \<and>
     require_validated_positional_compiler serialized embedded (ic_compiler_version provenance) = Inr () \<and>
     (\<exists>current. query_ir_provenance lib t w = Inr current \<and> provenance_fields_of current = provenance_fields_of provenance) \<and>
     discover_prepared_contract lib st limit g serialized (ar_carrier a) embedded = Inr (groups, automatic, mappings) \<and>
     py_eq (dget (ar_manifest a) ''act_groups'') (groups_json groups)"

lemma restore_prepared_Inr:
  "restore_prepared lib st limit g serialized embedded a t w = Inr p \<longleftrightarrow>
     (\<exists>flags provenance groups automatic mappings.
        matches_now lib st limit g serialized embedded a t w flags provenance groups automatic mappings \<and>
        with_reviews lib a (loaded st limit g serialized embedded a t flags provenance groups automatic mappings) = Inr p)"
proof -
  have tail: "(let items = saved_items (si_custom_nodes serialized) (ar_saved a); q = loaded st limit g serialized embedded a t flags provenance groups automatic mappings
      in case ar_saved a of None \<Rightarrow> Inr q | Some _ \<Rightarrow>
        bind_res (map_res (restore_review lib q (ar_blobs a)) items) (\<lambda>reviews.
          let restored = q\<lparr>pp_saved_reviews := Some reviews\<rparr> in bind_res (resolve_bindings lib restored (Some [])) (\<lambda>_. Inr restored))) =
    with_reviews lib a (loaded st limit g serialized embedded a t flags provenance groups automatic mappings)"
    for flags provenance groups automatic mappings
    by (simp add: with_reviews_def saved_items_def loaded_def Let_def split: option.splits)
  show ?thesis
    unfolding restore_prepared_def matches_now_def tail [unfolded loaded_def Let_def, folded loaded_def] Let_def
      loaded_def [symmetric]
    by (auto simp: bind_res_eq_Inr if_Inl_Inr)
qed


lemma provenance_carrier: "prepared_provenance v blob = Inr r \<Longrightarrow> ic_graph_blob r = blob"
  by (auto simp: prepared_provenance_def dict_case_Inr list2_case_Inr if_Inl_Inr)

text \<open>The fields of a prepared graph that a restored review depends on.\<close>

lemma with_reviews_Inr:
  assumes "with_reviews lib a p0 = Inr p" and "pp_saved_indices p0 = map_option (map fst) (ar_saved a)"
    and "pp_saved_reviews p0 = None"
  obtains reviews where "p = p0\<lparr>pp_saved_reviews := reviews\<rparr>" "reviews = None \<longleftrightarrow> ar_saved a = None"
    "reviews \<noteq> None \<Longrightarrow> \<exists>out. resolve_bindings lib p (Some []) = Inr out"
    "\<And>k r. reviews \<noteq> None \<Longrightarrow> k < length (the reviews) \<Longrightarrow> the reviews ! k = Some r \<Longrightarrow>
      review_binding lib p (Symbolic (rv_output r)) (Some (rv_evidence r)) (PStr (rv_coverage_kind r)) = Inr r \<and>
      map int (the (pp_saved_indices p) ! k) = [rv_group_index r]"
proof (cases "ar_saved a")
  case None
  with assms show ?thesis by (intro that [of None]) (auto simp: with_reviews_def)
next
  case (Some bs)
  with assms(1) obtain reviews out where r: "map_res (restore_review lib p0 (ar_blobs a)) (zip (custom_nodes p0) bs) = Inr reviews"
    and p: "p = p0\<lparr>pp_saved_reviews := Some reviews\<rparr>" and o': "resolve_bindings lib p (Some []) = Inr out"
    by (auto simp: with_reviews_def bind_res_eq_Inr)
  have "review_binding lib p (Symbolic (rv_output r)) (Some (rv_evidence r)) (PStr (rv_coverage_kind r)) = Inr r \<and>
      map int (the (pp_saved_indices p) ! k) = [rv_group_index r]" if "k < length reviews" "reviews ! k = Some r" for k r
  proof -
    have k: "k < length (custom_nodes p0)" "k < length bs" using that(1) map_res_length [OF r] by simp_all
    obtain indices spec where b: "bs ! k = (indices, spec)" by (cases "bs ! k")
    have "restore_review lib p0 (ar_blobs a) (custom_nodes p0 ! k, indices, spec) = Inr (Some r)"
      using map_res_nth [OF r, of k] that k b by simp
    from restore_review_again [OF this] show ?thesis using k b assms(2) Some by (simp add: p)
  qed
  moreover have "\<exists>out. resolve_bindings lib p (Some []) = Inr out" using o' by (rule exI)
  ultimately show ?thesis using p Some by (intro that [of "Some reviews"]) simp_all
qed



section \<open>Reading back what was exported\<close>

subsection \<open>The ACT contract\<close>

lemma py_eq_canon_dict:
  assumes "distinct (map fst d)"
  shows "py_eq (canon (PDict d)) (PDict e) \<longleftrightarrow>
    length d = length e \<and> (\<forall>(k, v) \<in> set d. \<exists>u. map_of e k = Some u \<and> py_eq (canon v) u)"
  by (auto simp: list_all_iff split: option.splits)

lemma tensor_json_eq: "py_eq (canon (tensor_json a)) (tensor_json b) \<longleftrightarrow> a = b"
proof -
  have "py_eq (canon (tensor_json a)) (tensor_json b) \<longleftrightarrow> tc_role a = tc_role b \<and> tc_index a = tc_index b \<and>
      tc_dtype a = tc_dtype b \<and> tc_element_count a = tc_element_count b \<and> tc_span_bytes a = tc_span_bytes b \<and>
      tc_observed_flags a = tc_observed_flags b"
    unfolding tensor_json_def by (subst py_eq_canon_dict) auto
  then show ?thesis by (cases a; cases b) simp
qed


lemma py_eq_map_lists:
  assumes "\<And>x y. py_eq (canon (f x)) (f y) \<longleftrightarrow> h x = h y"
  shows "py_eq (canon (PList (map f xs))) (PList (map f ys)) \<longleftrightarrow> map h xs = map h ys"
proof -
  have "py_eq (canon (PList (map f xs))) (PList (map f ys)) \<longleftrightarrow>
      length xs = length ys \<and> (\<forall>i < length xs. py_eq (canon (f (xs ! i))) (f (ys ! i)))"
    by (auto simp: list_all_length)
  also have "\<dots> \<longleftrightarrow> map h xs = map h ys" by (auto simp: assms list_eq_iff_nth_eq)
  finally show ?thesis .
qed

lemma target_json_eq: "py_eq (canon (target_json a)) (target_json b) \<longleftrightarrow> a = b"
proof (cases a)
  case (TargetV1 x)
  show ?thesis
  proof (cases b)
    case (TargetV1 y)
    have "py_eq (canon (target_json a)) (target_json b) \<longleftrightarrow> pt_invocation_index x = pt_invocation_index y \<and>
        pt_range_index x = pt_range_index y \<and> pt_input_count x = pt_input_count y \<and> pt_element_count x = pt_element_count y \<and>
        pt_span_bytes x = pt_span_bytes y \<and> pt_contract_flags x = pt_contract_flags y"
      unfolding target_json_def \<open>a = TargetV1 x\<close> TargetV1 target.case by (subst py_eq_canon_dict) auto
    then show ?thesis using \<open>a = TargetV1 x\<close> TargetV1 by (cases x; cases y) simp
  next
    case (TargetV2 y)
    with \<open>a = TargetV1 x\<close> show ?thesis unfolding target_json_def by (simp only: target.case, subst py_eq_canon_dict) auto
  qed
next
  case (TargetV2 x)
  show ?thesis
  proof (cases b)
    case (TargetV1 y)
    with \<open>a = TargetV2 x\<close> show ?thesis unfolding target_json_def by (simp only: target.case, subst py_eq_canon_dict) auto
  next
    case (TargetV2 y)
    have t: "py_eq (canon (PList (map tensor_json (p2_tensors x)))) (PList (map tensor_json (p2_tensors y))) \<longleftrightarrow> p2_tensors x = p2_tensors y"
      using py_eq_map_lists [of tensor_json "\<lambda>c. c"] tensor_json_eq by simp
    have "py_eq (canon (target_json a)) (target_json b) \<longleftrightarrow> p2_invocation_index x = p2_invocation_index y \<and>
        p2_range_index x = p2_range_index y \<and> p2_tensors x = p2_tensors y \<and> p2_target_flags x = p2_target_flags y"
      unfolding target_json_def \<open>a = TargetV2 x\<close> TargetV2 target.case t [symmetric]
      by (subst py_eq_canon_dict) (auto simp del: canon.simps(2) py_eq.simps(5))
    then show ?thesis using \<open>a = TargetV2 x\<close> TargetV2 by (cases x; cases y) simp
  qed
qed

lemma groups_json_eq: "py_eq (canon (groups_json a)) (groups_json b) \<longleftrightarrow> map ag_targets a = map ag_targets b"
  unfolding groups_json_def
  by (rule py_eq_map_lists) (use py_eq_map_lists [of target_json "\<lambda>t. t"] target_json_eq in simp)

lemma jsonable_groups: "jsonable (groups_json groups)"
proof -
  have "jsonable (target_json t)" for t
    by (cases t) (simp_all add: target_json_def tensor_json_def list_all_iff)
  then show ?thesis by (simp add: groups_json_def list_all_iff)
qed

subsection \<open>Identities and provenance\<close>

lemma identity_of_own [simp]: "prepared_identity (canon (PDict (bytes_identity data))) data = Inr ()"
  by (simp add: prepared_identity_def bytes_identity_def has_keys_def dget_def insert_commute is_digest_sha256)

lemma identity_checks:
  "prepared_identity (PDict d) data = Inr () \<Longrightarrow> dget d ''sha256'' = PStr (sha256 data) \<and> dget d ''size'' = PInt (int (length data))"
  by (auto simp: prepared_identity_def if_Inl_Inr split: pyval.splits)

text \<open>The provenance the driver of the supported NPU can report.\<close>

definition supported_provenance :: "ir_compile_result \<Rightarrow> bool" where
  "supported_provenance r \<longleftrightarrow> list_all (\<lambda>i. 0 \<le> i \<and> i \<le> 0xFFFFFFFF) [ic_driver_index r, ic_device_index r,
       ic_driver_version r, ic_graph_extension_version r] \<and>
     list_all (\<lambda>i. 0 \<le> i \<and> i \<le> 0xFFFF) [fst (ic_compiler_version r), snd (ic_compiler_version r)] \<and>
     ic_vendor_id r = 0x8086 \<and> ic_device_id r = 0x7D1D"

lemma provenance_of_own:
  "prepared_provenance (canon (provenance_json r)) blob = Inr r' \<longleftrightarrow> supported_provenance r \<and> r' = r\<lparr>ic_graph_blob := blob\<rparr>"
proof -
  have "prepared_provenance (canon (provenance_json r)) blob =
    (if supported_provenance r then Inr (r\<lparr>ic_graph_blob := blob\<rparr>)
     else Inl (ValueError (if list_all (\<lambda>i. 0 \<le> i \<and> i \<le> 0xFFFFFFFF) [ic_driver_index r, ic_device_index r,
         ic_driver_version r, ic_vendor_id r, ic_device_id r, ic_graph_extension_version r] \<and>
         list_all (\<lambda>i. 0 \<le> i \<and> i \<le> 0xFFFF) [fst (ic_compiler_version r), snd (ic_compiler_version r)]
       then ''prepared bundle provenance is outside the supported NPU3720 contract'' else ''prepared bundle provenance is invalid'')))"
    by (cases r) (simp add: prepared_provenance_def provenance_json_def has_keys_def integer_fields_def dget_def insert_commute
        supported_provenance_def prod_eq_iff)
  then show ?thesis by auto
qed


subsection \<open>The bindings\<close>

lemma check_binding_items:
  assumes "canon v = PList vs"
  shows "check_binding st ''npunlock.prepared.v2'' (i, canon (PDict [(''custom_index'', PInt (int i)),
      (''name'', PStr (shown_name (n_name (node_at st nid)))), (''group_indices'', v), (''review'', PNone)]), nid) =
    (if vs = [] \<or> \<not> list_all nonnegative_int vs \<or> \<not> distinct vs
     then Inl (ValueError ''prepared bundle bindings do not match the caller graph'') else Inr (map (nat \<circ> int_of) vs, None))"
proof -
  define d where "d = [(''custom_index'', PInt (int i)), (''group_indices'', PList vs),
    (''name'', PStr (shown_name (n_name (node_at st nid)))), (''review'', PNone)]"
  have c: "canon (PDict [(''custom_index'', PInt (int i)), (''name'', PStr (shown_name (n_name (node_at st nid)))),
      (''group_indices'', v), (''review'', PNone)]) = PDict d"
    by (simp add: assms d_def)
  have "has_keys d (saved_binding_fields ''npunlock.prepared.v2'')"
    unfolding has_keys_def saved_binding_fields_def d_def by (simp add: insert_commute)
  moreover have "dget d ''group_indices'' = PList vs" "dget d ''custom_index'' = PInt (int i)" "dget d ''review'' = PNone"
    "dget d ''name'' = PStr (shown_name (n_name (node_at st nid)))"
    by (simp_all add: dget_def d_def)
  ultimately show ?thesis
    unfolding c check_binding_def prod.case pyval.case by (simp only: not_True_eq_False if_False) (simp add: check_review_def Let_def)
qed

lemma check_binding_json:
  "check_binding st ''npunlock.prepared.v2'' (i, canon (binding_json st (i, nid, indices, None)), nid) = Inr r \<longleftrightarrow>
     indices \<noteq> [] \<and> distinct indices \<and> r = (indices, None)"
proof -
  have items: "canon (PList (map (PInt \<circ> int) indices)) = PList (map (PInt \<circ> int) indices)" by simp
  have "distinct (map (PInt \<circ> int) indices) \<longleftrightarrow> distinct indices" "list_all nonnegative_int (map (PInt \<circ> int) indices)"
    "map (nat \<circ> int_of) (map (PInt \<circ> int) indices) = indices"
    by (auto simp: distinct_map inj_on_def list_all_iff comp_def)
  then show ?thesis
    unfolding binding_json_def prod.case review_json_def option.case check_binding_items [OF items] if_Inl_Inr by auto
qed

lemma prepared_bindings_json:
  assumes "length indices = length customs"
  shows "prepared_bindings st ''npunlock.prepared.v2'' customs
      (canon (PList (map (binding_json st) (enum (zip customs (zip indices (replicate (length customs) None))))))) = Inr r \<longleftrightarrow>
    list_all (\<lambda>is. is \<noteq> [] \<and> distinct is) indices \<and> r = Some (map (\<lambda>is. (is, None)) indices)"
proof -
  let ?entries = "map (\<lambda>x. canon (binding_json st x)) (enum (zip customs (zip indices (replicate (length customs) None))))"
  have nth: "enum (zip ?entries customs) ! i = (i, canon (binding_json st (i, customs ! i, indices ! i, None)), customs ! i)"
    if "i < length customs" for i using that assms by (simp add: nth_enumerate_eq)
  let ?xs = "enum (zip ?entries customs)"
  have "length ?xs = length customs" using assms by simp
  moreover have "check_binding st ''npunlock.prepared.v2'' (?xs ! i) = Inr (bs ! i) \<longleftrightarrow>
      indices ! i \<noteq> [] \<and> distinct (indices ! i) \<and> bs ! i = (indices ! i, None)" if "i < length customs" for i bs
    by (simp only: nth [OF that] check_binding_json)
  ultimately have "map_res (check_binding st ''npunlock.prepared.v2'') ?xs = Inr bs \<longleftrightarrow>
      length bs = length customs \<and> (\<forall>i < length customs. indices ! i \<noteq> [] \<and> distinct (indices ! i) \<and> bs ! i = (indices ! i, None))" for bs
    unfolding map_res_eq_Inr list_all2_conv_all_nth by metis
  moreover have "length bs = length customs \<and> (\<forall>i < length customs. indices ! i \<noteq> [] \<and> distinct (indices ! i) \<and> bs ! i = (indices ! i, None)) \<longleftrightarrow>
      list_all (\<lambda>is. is \<noteq> [] \<and> distinct is) indices \<and> bs = map (\<lambda>is. (is, None)) indices" for bs :: "(nat list \<times> review_spec option) list"
    using assms unfolding list_all_length list_eq_iff_nth_eq [of bs] by (metis (no_types, lifting) length_map nth_map)
  ultimately have m: "map_res (check_binding st ''npunlock.prepared.v2'') (enum (zip ?entries customs)) = Inr bs \<longleftrightarrow>
      list_all (\<lambda>is. is \<noteq> [] \<and> distinct is) indices \<and> bs = map (\<lambda>is. (is, None)) indices" for bs by simp
  have "length ?entries = length customs" using assms by simp
  then show ?thesis
    unfolding prepared_bindings_def canon.simps list.map_comp comp_def pyval.case
    using m by (auto simp: bind_res_eq_Inr)
qed


subsection \<open>The archive\<close>

lemma prepared_manifest_fields:
  obtains d where "prepared_manifest p bs = PDict d" "distinct (map fst d)" "has_keys d prepared_fields"
    "dget d ''schema'' = PStr ''npunlock.prepared.v2''" "dget d ''carrier'' = file_entry ''carrier.blob'' (carrier_blob p)"
    "dget d ''ir'' = PDict [(''xml'', PDict (bytes_identity (si_xml (pp_serialized_ir p)))),
       (''weights'', PDict (bytes_identity (si_weights (pp_serialized_ir p))))]"
    "dget d ''build_flags'' = PStr (pp_build_flags p)" "dget d ''provenance'' = provenance_json (pp_ir_provenance p)"
    "dget d ''act_groups'' = groups_json (pp_groups p)"
    "dget d ''bindings'' = (case bs of None \<Rightarrow> PNone | Some xs \<Rightarrow> PList (map (binding_json (pp_store p)) xs))"
  by (rule that, unfold prepared_manifest_def, rule refl)
    (simp_all add: has_keys_def prepared_fields_def dget_def insert_commute)

lemma jsonable_prepared: "jsonable (prepared_manifest p bs)"
proof -
  have "jsonable (probe_json i q)" for i q
    by (cases q) (simp add: probe_json_def file_entry_def bytes_identity_def)
  then have "jsonable (binding_json st x)" for st x
    by (cases x) (auto simp: binding_json_def review_json_def list_all_iff split: option.splits)
  then have "jsonable (case bs of None \<Rightarrow> PNone | Some xs \<Rightarrow> PList (map (binding_json (pp_store p)) xs))"
    by (cases bs) (simp_all add: list_all_iff)
  then show ?thesis
    using jsonable_groups [of "pp_groups p"]
    by (simp add: prepared_manifest_def file_entry_def bytes_identity_def provenance_json_def)
qed

lemma file_entry_canon: "\<not> unsafe_path path \<Longrightarrow> manifest_blob_entry (canon (file_entry path data)) = Inr (path, int (length data), sha256 data)"
  by (simp add: manifest_blob_entry_def file_entry_def bytes_identity_def has_keys_def dget_def insert_commute is_digest_sha256)

lemma load_carrier_written:
  assumes "distinct (map fst ms)" and "(''carrier.blob'', blob) \<in> set ms"
  shows "load_carrier (written ms) (canon (file_entry ''carrier.blob'' blob)) = Inr r \<longleftrightarrow>
    blob \<noteq> [] \<and> length blob \<le> 2 * 1024 * 1024 * 1024 \<and> r = blob"
proof -
  have "\<not> unsafe_path ''carrier.blob''" by code_simp
  from file_entry_canon [OF this] bundle_member_written [OF assms, of "2 * 1024 * 1024 * 1024"] show ?thesis
    by (auto simp: load_carrier_def bind_res_eq_Inr if_Inl_Inr)
qed

lemma no_candidates:
  assumes "saved = None \<or> saved = Some (map (\<lambda>is. (is, None)) indices)"
  shows "read_candidates archive saved = Inr []"
proof -
  have "review_probes (is, None) = []" for "is" by (simp add: review_probes_def)
  then have "concat (map review_probes (map (\<lambda>is. (is, None)) indices)) = []" by simp
  then show ?thesis using assms unfolding read_candidates_def by (elim disjE) (simp, simp only: option.case fold_res.simps)
qed

lemma read_archive_written:
  assumes "json_load_bytes content = Some (canon (PDict d))" and "distinct (map fst d)" and "has_keys d prepared_fields"
    and "dget d ''schema'' = PStr ''npunlock.prepared.v2''" and "dget d ''carrier'' = file_entry ''carrier.blob'' blob"
    and "\<And>r. prepared_bindings st ''npunlock.prepared.v2'' customs (canon (dget d ''bindings'')) = Inr r \<longleftrightarrow> good \<and> r = saved"
    and "\<And>archive. read_candidates archive saved = Inr []"
  shows "read_archive st customs (Some (written [(''manifest.json'', content), (''carrier.blob'', blob)])) = Inr a \<longleftrightarrow>
    length content \<le> 1024 * 1024 \<and> blob \<noteq> [] \<and> length blob \<le> 2 * 1024 * 1024 * 1024 \<and> good \<and>
    a = \<lparr>ar_manifest = canon_dict d, ar_carrier = blob, ar_saved = saved, ar_blobs = []\<rparr>"
proof -
  let ?ms = "[(''manifest.json'', content), (''carrier.blob'', blob)]"
  have distinct: "distinct (map fst ?ms)" by simp
  have manifest: "bundle_member (written ?ms) ''manifest.json'' (1024 * 1024) = Inr r \<longleftrightarrow> length content \<le> 1024 * 1024 \<and> r = content" for r
    by (rule bundle_member_written [OF distinct]) simp
  have carrier: "load_carrier (written ?ms) (canon (file_entry ''carrier.blob'' blob)) = Inr r \<longleftrightarrow>
      blob \<noteq> [] \<and> length blob \<le> 2 * 1024 * 1024 * 1024 \<and> r = blob" for r
    by (rule load_carrier_written [OF distinct]) simp
  have "has_keys (canon_dict d) prepared_fields" using assms(3) unfolding has_keys_def keys_canon .
  moreover have "dget (canon_dict d) ''schema'' = PStr ''npunlock.prepared.v2''" unfolding dget_canon [OF assms(2)] assms(4) by simp
  ultimately have check: "check_prepared_manifest (Some (canon (PDict d))) = Inr (''npunlock.prepared.v2'', canon_dict d)"
    by (simp add: check_prepared_manifest_def in_strings_def prepared_schemas_def)
  have names: "set (map fst ?ms) = {''manifest.json'', ''carrier.blob''} \<union> set (map fst ([] :: (string \<times> bytes) list))" by simp
  show ?thesis
    unfolding read_archive_def option.case Let_def written_names
    unfolding bind_res_eq_Inr if_Inl_Inr manifest
    using distinct names
    by (auto simp: assms(1,6,7) check dget_canon [OF assms(2)] assms(5) carrier bind_res_eq_Inr if_Inl_Inr simp del: canon.simps)
qed


subsection \<open>Prepared graphs\<close>

text \<open>What holds of every prepared graph: its IR is that of its graph, and its flags and embedded targets are those
  its custom nodes require.\<close>

definition wf_prepared :: "prepared_graph \<Rightarrow> bool" where
  "wf_prepared p \<longleftrightarrow> serialize_ir (pp_store p) (pp_limit p) (pp_graph p) NoOverrides = Inr (pp_serialized_ir p) \<and>
     embedded_target_groups (pp_store p) (custom_nodes p) = Inr (pp_embedded_targets p) \<and>
     (pp_embedded_targets p = None \<longrightarrow> list_all (\<lambda>n. length (n_output_specs (node_at (pp_store p) n)) = 1) (custom_nodes p)) \<and>
     effective_build_flags (pp_store p) (pp_serialized_ir p) (pp_build_flags p) = Inr (pp_build_flags p) \<and>
     require_validated_positional_compiler (pp_serialized_ir p) (pp_embedded_targets p) (ic_compiler_version (pp_ir_provenance p)) = Inr ()"

lemma effective_flags_stable:
  "effective_build_flags st serialized flags = Inr flags' \<Longrightarrow> effective_build_flags st serialized flags' = Inr flags'"
  by (auto simp: effective_build_flags_def Let_def if_Inl_Inr startswith_def split: if_splits)

lemma prepare_wf: "prepare lib st limit (Some g) flags t w = Inr p \<Longrightarrow> wf_prepared p"
  by (auto simp: prepare_def wf_prepared_def bind_res_eq_Inr if_Inl_Inr effective_flags_stable list_all_iff list_ex_iff)

lemma load_prepared_wf:
  assumes "load_prepared lib st limit z (Some g) t w = Inr p"
  shows "wf_prepared p"
proof -
  obtain serialized embedded a where s: "serialize_ir st limit g NoOverrides = Inr serialized"
    and e: "embedded_target_groups st (si_custom_nodes serialized) = Inr embedded"
      "embedded = None \<longrightarrow> list_all (\<lambda>n. length (n_output_specs (node_at st n)) = 1) (si_custom_nodes serialized)"
    and r: "restore_prepared lib st limit g serialized embedded a t w = Inr p"
    using assms by (auto simp: load_prepared_def bind_res_eq_Inr if_Inl_Inr list_all_iff list_ex_iff)
  obtain flags provenance groups automatic mappings where
    m: "matches_now lib st limit g serialized embedded a t w flags provenance groups automatic mappings"
    and p: "with_reviews lib a (loaded st limit g serialized embedded a t flags provenance groups automatic mappings) = Inr p"
    using r unfolding restore_prepared_Inr by blast
  obtain reviews where v: "p = (loaded st limit g serialized embedded a t flags provenance groups automatic mappings)\<lparr>pp_saved_reviews := reviews\<rparr>"
    by (rule with_reviews_Inr [OF p]) (auto simp: loaded_def)
  have "effective_build_flags st serialized flags = Inr flags"
    using m by (auto simp: matches_now_def check_identities_def bind_res_eq_Inr dict_case_Inr str_case_Inr if_Inl_Inr)
  with s e m show ?thesis by (simp add: wf_prepared_def v loaded_def matches_now_def)
qed


text \<open>A plan without reviewed bindings, and the groups its bundle saves.\<close>

definition unreviewed :: "prepared_graph \<Rightarrow> build_plan option \<Rightarrow> bool" where
  "unreviewed p made \<longleftrightarrow> (case made of None \<Rightarrow> True
     | Some b \<Rightarrow> bp_reviewed_bindings b = replicate (length (custom_nodes p)) None \<and> length (bp_group_indices b) = length (custom_nodes p))"

definition saved_groups :: "prepared_graph \<Rightarrow> build_plan option \<Rightarrow> nat list list option" where
  "saved_groups p made = (case made of Some b \<Rightarrow> if pp_embedded_targets p = None then Some (bp_group_indices b) else None | None \<Rightarrow> None)"

text \<open>The graph a bundle gives back: the exported one with what the load observed and saved.\<close>

definition reloaded ::
  "prepared_graph \<Rightarrow> nat list list option \<Rightarrow> int \<Rightarrow> act_group list \<Rightarrow> nat list list option \<Rightarrow> custom_mapping list \<Rightarrow> prepared_graph" where
  "reloaded p saved t groups automatic mappings =
     \<lparr>pp_store = pp_store p, pp_limit = pp_limit p, pp_graph = pp_graph p, pp_serialized_ir = pp_serialized_ir p,
      pp_ir_provenance = pp_ir_provenance p, pp_groups = groups,
      pp_mappings = (case saved of None \<Rightarrow> mappings
        | Some indices \<Rightarrow> map (saved_mapping (pp_store p)) (zip (custom_nodes p) (map (\<lambda>is. (is, None)) indices))),
      pp_timeout_ms = t, pp_automatic_indices = automatic, pp_embedded_targets = pp_embedded_targets p,
      pp_build_flags = pp_build_flags p, pp_saved_indices = saved,
      pp_saved_reviews = map_option (map (\<lambda>_. None)) saved\<rparr>"

abbreviation saved_specs :: "nat list list option \<Rightarrow> (nat list \<times> review_spec option) list option" where
  "saved_specs saved \<equiv> map_option (map (\<lambda>is. (is, None))) saved"

definition saveable :: "nat list list option \<Rightarrow> bool" where
  "saveable saved \<longleftrightarrow> (case saved of None \<Rightarrow> True | Some indices \<Rightarrow> list_all (\<lambda>is. is \<noteq> [] \<and> distinct is) indices)"

lemma exported_bindings:
  assumes "unreviewed p made"
  shows "prepared_bindings (pp_store p) ''npunlock.prepared.v2'' (custom_nodes p) (canon (case plan_bindings p made of None \<Rightarrow> PNone
      | Some xs \<Rightarrow> PList (map (binding_json (pp_store p)) xs))) = Inr r \<longleftrightarrow>
    saveable (saved_groups p made) \<and> r = saved_specs (saved_groups p made)"
proof (cases "saved_groups p made")
  case None
  then have "plan_bindings p made = None" by (auto simp: saved_groups_def plan_bindings_def split: option.splits if_splits)
  with None show ?thesis by (auto simp: prepared_bindings_def saveable_def)
next
  case (Some indices)
  with assms have b: "plan_bindings p made = Some (enum (zip (custom_nodes p) (zip indices (replicate (length (custom_nodes p)) None))))"
    and len: "length indices = length (custom_nodes p)"
    by (auto simp: saved_groups_def plan_bindings_def saved_bindings_def unreviewed_def split: option.splits if_splits)
  show ?thesis unfolding b Some option.case saveable_def option.map by (rule prepared_bindings_json [OF len])
qed

lemma export_prepared_written:
  assumes "export_prepared p made = Inr z" and "unreviewed p made"
  obtains content where "manifest_bytes (prepared_manifest p (plan_bindings p made)) = Inr content"
    "z = Some (written [(''manifest.json'', content), (''carrier.blob'', carrier_blob p)])"
proof -
  have "concat (map review_members (enum (zip ns (zip is (replicate k None))))) = []" for ns "is" k
    by (auto simp: review_members_def set_zip in_set_enum)
  then have "(case plan_bindings p made of None \<Rightarrow> []
      | Some bs \<Rightarrow> map (\<lambda>(path, candidate). write_zip_member path candidate) (concat (map review_members bs))) = []"
    using assms(2) by (auto simp: plan_bindings_def saved_bindings_def unreviewed_def split: option.splits)
  with assms(1) that show ?thesis
    by (auto simp: export_prepared_def bind_res_eq_Inr if_Inl_Inr Let_def written_def)
qed

lemma restore_no_reviews:
  "length indices = length ns \<Longrightarrow>
    map_res (restore_review lib p blobs) (zip ns (map (\<lambda>is. (is, None)) indices)) = Inr (map (\<lambda>_. None) indices)"
  by (induction ns indices rule: list_induct2') (auto simp: restore_review_def)


lemma with_reviews_saved:
  assumes "ar_saved a = saved_specs saved" and "\<And>indices. saved = Some indices \<Longrightarrow> length indices = length (custom_nodes p)"
    and "with_none = p\<lparr>pp_saved_reviews := map_option (map (\<lambda>_. None)) saved\<rparr>" and "pp_saved_reviews p = None"
  shows "with_reviews lib a p = Inr q \<longleftrightarrow>
    q = with_none \<and> (saved \<noteq> None \<longrightarrow> (\<exists>out. resolve_bindings lib q (Some []) = Inr out))"
proof (cases saved)
  case None
  with assms show ?thesis by (auto simp: with_reviews_def)
next
  case (Some indices)
  have "with_reviews lib a p = bind_res (resolve_bindings lib with_none (Some [])) (\<lambda>_. Inr with_none)"
    using assms Some restore_no_reviews [OF assms(2) [OF Some], of lib p "ar_blobs a"]
    by (simp add: with_reviews_def del: map_map)
  with Some show ?thesis by (auto simp: bind_res_eq_Inr simp del: split_paired_Ex)
qed

text \<open>What the exporting and the loading side must agree on.\<close>

definition agrees_now ::
  "native_lib \<Rightarrow> prepared_graph \<Rightarrow> int \<Rightarrow> string option \<Rightarrow> act_group list \<Rightarrow> nat list list option \<Rightarrow> custom_mapping list \<Rightarrow> bool" where
  "agrees_now lib p t w groups automatic mappings \<longleftrightarrow> supported_provenance (pp_ir_provenance p) \<and> CHR 0x00 \<notin> set (pp_build_flags p) \<and>
     (\<exists>current. query_ir_provenance lib t w = Inr current \<and>
        provenance_fields_of current = provenance_fields_of (pp_ir_provenance p)) \<and>
     discover_prepared_contract lib (pp_store p) (pp_limit p) (pp_graph p) (pp_serialized_ir p) (carrier_blob p)
       (pp_embedded_targets p) = Inr (groups, automatic, mappings) \<and>
     map ag_targets groups = map ag_targets (pp_groups p)"

lemma identities_of_own:
  assumes "distinct (map fst d)" and "wf_prepared p"
    and "dget d ''ir'' = PDict [(''xml'', PDict (bytes_identity (si_xml (pp_serialized_ir p)))),
       (''weights'', PDict (bytes_identity (si_weights (pp_serialized_ir p))))]"
    and "dget d ''build_flags'' = PStr (pp_build_flags p)"
  shows "check_identities (pp_store p) (pp_serialized_ir p) (canon_dict d) = Inr flags \<longleftrightarrow>
    CHR 0x00 \<notin> set (pp_build_flags p) \<and> flags = pp_build_flags p"
proof -
  have ir: "canon (dget d ''ir'') = PDict [(''weights'', canon (PDict (bytes_identity (si_weights (pp_serialized_ir p))))),
      (''xml'', canon (PDict (bytes_identity (si_xml (pp_serialized_ir p)))))]"
    unfolding assms(3) by simp
  have keys: "has_keys [(''weights'', x), (''xml'', y)] [''xml'', ''weights'']" "dget [(''weights'', x), (''xml'', y)] ''xml'' = y"
    "dget [(''weights'', x), (''xml'', y)] ''weights'' = x" for x y
    by (auto simp: has_keys_def dget_def)
  have "canon (dget d ''build_flags'') = PStr (pp_build_flags p)" unfolding assms(4) by simp
  with assms(2) show ?thesis
    unfolding check_identities_def dget_canon [OF assms(1)] ir pyval.case
    by (auto simp: keys wf_prepared_def bind_res_eq_Inr if_Inl_Inr simp del: canon.simps)
qed

lemma matches_now_own:
  assumes "distinct (map fst d)" and "wf_prepared p"
    and "dget d ''ir'' = PDict [(''xml'', PDict (bytes_identity (si_xml (pp_serialized_ir p)))),
       (''weights'', PDict (bytes_identity (si_weights (pp_serialized_ir p))))]"
    and "dget d ''build_flags'' = PStr (pp_build_flags p)" and "dget d ''provenance'' = provenance_json (pp_ir_provenance p)"
    and "dget d ''act_groups'' = groups_json (pp_groups p)"
    and "a = \<lparr>ar_manifest = canon_dict d, ar_carrier = carrier_blob p, ar_saved = saved, ar_blobs = []\<rparr>"
  shows "matches_now lib (pp_store p) (pp_limit p) (pp_graph p) (pp_serialized_ir p) (pp_embedded_targets p) a t w flags provenance
      groups automatic mappings \<longleftrightarrow>
    agrees_now lib p t w groups automatic mappings \<and> flags = pp_build_flags p \<and> provenance = pp_ir_provenance p"
proof -
  have p: "prepared_provenance (dget (ar_manifest a) ''provenance'') (ar_carrier a) = Inr provenance \<longleftrightarrow>
      supported_provenance (pp_ir_provenance p) \<and> provenance = pp_ir_provenance p"
    unfolding assms(7) archived.select_convs dget_canon [OF assms(1)] assms(5) provenance_of_own by simp
  have g: "py_eq (dget (ar_manifest a) ''act_groups'') (groups_json groups) \<longleftrightarrow> map ag_targets (pp_groups p) = map ag_targets groups"
    unfolding assms(7) archived.select_convs dget_canon [OF assms(1)] assms(6) by (rule groups_json_eq)
  have c: "check_identities (pp_store p) (pp_serialized_ir p) (ar_manifest a) = Inr flags \<longleftrightarrow>
      CHR 0x00 \<notin> set (pp_build_flags p) \<and> flags = pp_build_flags p"
    unfolding assms(7) archived.select_convs by (rule identities_of_own [OF assms(1-4)])
  have "require_validated_positional_compiler (pp_serialized_ir p) (pp_embedded_targets p) (ic_compiler_version (pp_ir_provenance p)) = Inr ()"
    using assms(2) by (simp add: wf_prepared_def)
  moreover have "ar_carrier a = carrier_blob p" by (simp add: assms(7))
  ultimately show ?thesis unfolding matches_now_def agrees_now_def p g c by auto
qed


lemma load_exported:
  assumes "wf_prepared p" and "export_prepared p made = Inr z" and "unreviewed p made"
  shows "\<exists>content. manifest_bytes (prepared_manifest p (plan_bindings p made)) = Inr content \<and>
    (\<forall>q. load_prepared lib (pp_store p) (pp_limit p) z (Some (pp_graph p)) t w = Inr q \<longleftrightarrow>
       length content \<le> 1024 * 1024 \<and> carrier_blob p \<noteq> [] \<and> length (carrier_blob p) \<le> 2 * 1024 * 1024 * 1024 \<and>
       saveable (saved_groups p made) \<and>
       (\<exists>groups automatic mappings. agrees_now lib p t w groups automatic mappings \<and>
          q = reloaded p (saved_groups p made) t groups automatic mappings \<and>
          (saved_groups p made \<noteq> None \<longrightarrow> (\<exists>out. resolve_bindings lib q (Some []) = Inr out))))"
proof -
  let ?saved = "saved_groups p made" and ?bs = "plan_bindings p made"
  obtain content where content: "manifest_bytes (prepared_manifest p ?bs) = Inr content"
    and z: "z = Some (written [(''manifest.json'', content), (''carrier.blob'', carrier_blob p)])"
    by (rule export_prepared_written [OF assms(2,3)])
  obtain d where d: "prepared_manifest p ?bs = PDict d" "distinct (map fst d)" "has_keys d prepared_fields"
    "dget d ''schema'' = PStr ''npunlock.prepared.v2''" "dget d ''carrier'' = file_entry ''carrier.blob'' (carrier_blob p)"
    "dget d ''ir'' = PDict [(''xml'', PDict (bytes_identity (si_xml (pp_serialized_ir p)))),
       (''weights'', PDict (bytes_identity (si_weights (pp_serialized_ir p))))]"
    "dget d ''build_flags'' = PStr (pp_build_flags p)" "dget d ''provenance'' = provenance_json (pp_ir_provenance p)"
    "dget d ''act_groups'' = groups_json (pp_groups p)"
    "dget d ''bindings'' = (case ?bs of None \<Rightarrow> PNone | Some xs \<Rightarrow> PList (map (binding_json (pp_store p)) xs))"
    by (rule prepared_manifest_fields)
  let ?a = "\<lparr>ar_manifest = canon_dict d, ar_carrier = carrier_blob p, ar_saved = saved_specs ?saved, ar_blobs = []\<rparr>"
  let ?small = "length content \<le> 1024 * 1024 \<and> carrier_blob p \<noteq> [] \<and> length (carrier_blob p) \<le> 2 * 1024 * 1024 * 1024 \<and> saveable ?saved"
  have "json_load_bytes content = Some (canon (PDict d))"
    using manifest_bytes_load [OF jsonable_prepared content] by (simp only: d(1))
  moreover have "prepared_bindings (pp_store p) ''npunlock.prepared.v2'' (custom_nodes p) (canon (dget d ''bindings'')) = Inr r \<longleftrightarrow>
      saveable ?saved \<and> r = saved_specs ?saved" for r
    unfolding d(10) by (rule exported_bindings [OF assms(3)])
  moreover have "read_candidates archive (saved_specs ?saved) = Inr []" for archive
    by (cases ?saved) (simp_all add: no_candidates)
  ultimately have read: "read_archive (pp_store p) (custom_nodes p) z = Inr a \<longleftrightarrow> ?small \<and> a = ?a" for a
    unfolding z using read_archive_written [OF _ d(2-5)] by auto
  have len: "length indices = length (custom_nodes p)" if "?saved = Some indices" for indices
    using that assms(3) by (auto simp: saved_groups_def unreviewed_def split: option.splits if_splits)
  have mappings: "map (saved_mapping (pp_store p)) (saved_items (custom_nodes p) (saved_specs ?saved)) =
      (case ?saved of None \<Rightarrow> [] | Some indices \<Rightarrow> map (saved_mapping (pp_store p)) (zip (custom_nodes p) (map (\<lambda>is. (is, None)) indices)))"
    by (cases ?saved) (simp_all add: saved_items_def)
  have reviews: "with_reviews lib ?a (loaded (pp_store p) (pp_limit p) (pp_graph p) (pp_serialized_ir p) (pp_embedded_targets p) ?a t
        (pp_build_flags p) (pp_ir_provenance p) groups automatic mappings) = Inr q \<longleftrightarrow>
      q = reloaded p ?saved t groups automatic mappings \<and>
      (?saved \<noteq> None \<longrightarrow> (\<exists>out. resolve_bindings lib q (Some []) = Inr out))" for groups automatic mappings q
    by (rule with_reviews_saved)
      (use len in \<open>auto simp: loaded_def reloaded_def mappings option.map_comp comp_def split: option.splits\<close>)
  have "load_prepared lib (pp_store p) (pp_limit p) z (Some (pp_graph p)) t w = Inr q \<longleftrightarrow> ?small \<and>
      restore_prepared lib (pp_store p) (pp_limit p) (pp_graph p) (pp_serialized_ir p) (pp_embedded_targets p) ?a t w = Inr q" for q
    using assms(1) read by (auto simp: load_prepared_def wf_prepared_def bind_res_eq_Inr if_Inl_Inr list_all_iff list_ex_iff)
  then have "load_prepared lib (pp_store p) (pp_limit p) z (Some (pp_graph p)) t w = Inr q \<longleftrightarrow> ?small \<and>
      (\<exists>groups automatic mappings. agrees_now lib p t w groups automatic mappings \<and>
          q = reloaded p ?saved t groups automatic mappings \<and>
          (?saved \<noteq> None \<longrightarrow> (\<exists>out. resolve_bindings lib q (Some []) = Inr out)))" for q
    unfolding restore_prepared_Inr matches_now_own [OF d(2) assms(1) d(6-9) refl]
    by (simp add: reviews del: split_paired_Ex)
  with content show ?thesis by blast
qed



subsection \<open>Saved bindings resolve to the planned targets\<close>

lemma serialize_ir_customs:
  assumes "serialize_ir st limit g given = Inr s"
  shows "distinct (si_custom_nodes s)"
proof -
  from assms obtain nodes overrides ls where n: "graph_nodes st limit g = Inr nodes"
    and ls: "serialize_layers overrides st nodes = Inr ls" "si_custom_nodes s = ls_custom ls"
    by (auto simp: serialize_ir_def bind_res_eq_Inr)
  have "distinct nodes" using topological_nodes_sound n unfolding graph_nodes_def by blast
  with serialize_layers_spec [OF ls(1)] ls(2) show ?thesis by (simp add: custom_node_list_def)
qed

lemma select_targets_cong:
  assumes "map ag_targets (pp_groups q) = map ag_targets (pp_groups p)" and "pp_store q = pp_store p"
  shows "select_targets q nid indices = select_targets p nid indices"
proof -
  have "length (pp_groups q) = length (pp_groups p)" using assms(1) by (metis length_map)
  moreover have "ag_targets (pp_groups q ! i) = ag_targets (pp_groups p ! i)" if "i < length (pp_groups q)" for i
    using that assms(1) by (metis length_map nth_map)
  ultimately have "group_targets q = group_targets p" by (auto simp: fun_eq_iff group_targets_def py_nth_def from_option_def)
  then show ?thesis using assms(2) by (simp add: select_targets_def)
qed


text \<open>The resolution only looks at the groups and the review found for each node, and at the targets of the groups.\<close>

lemma resolve_nodes_again:
  assumes "fold_res (resolve_node p found automatic) ns r = Inr r'" and "\<And>nid indices. select_targets q nid indices = select_targets p nid indices"
  shows "\<exists>is vs. length is = length ns \<and> length vs = length ns \<and> rs_indices r' = rs_indices r @ is \<and> rs_reviews r' = rs_reviews r @ vs \<and>
    (\<forall>saved. (\<forall>k < length ns. map_of saved (ns ! k) = Some (is ! k, vs ! k)) \<longrightarrow> fold_res (resolve_node q [] saved) ns r = Inr r')"
  using assms(1)
proof (induction ns arbitrary: r)
  case (Cons n ns)
  from Cons.prems obtain r1 where step: "resolve_node p found automatic n r = Inr r1"
    and rest: "fold_res (resolve_node p found automatic) ns r1 = Inr r'"
    by (auto simp: bind_res_eq_Inr)
  from step obtain indices review where
    i: "resolve_node q [] saved n r = Inr r1" "rs_indices r1 = rs_indices r @ [indices]" "rs_reviews r1 = rs_reviews r @ [review]"
    if "map_of saved n = Some (indices, review)" for saved
    unfolding resolve_node_def option_case_Inr
    by (auto simp: resolve_node_def bind_res_eq_Inr assms(2))
  have r1: "rs_indices r1 = rs_indices r @ [indices]" "rs_reviews r1 = rs_reviews r @ [review]"
    using i(2,3) [of "[(n, indices, review)]"] by simp_all
  from Cons.IH [OF rest] obtain "is" vs where l: "length is = length ns" "length vs = length ns"
    "rs_indices r' = rs_indices r1 @ is" "rs_reviews r' = rs_reviews r1 @ vs"
    and again: "\<And>saved. (\<forall>k < length ns. map_of saved (ns ! k) = Some (is ! k, vs ! k)) \<Longrightarrow> fold_res (resolve_node q [] saved) ns r1 = Inr r'"
    by blast
  have "fold_res (resolve_node q [] saved) (n # ns) r = Inr r'"
    if "\<forall>k < length (n # ns). map_of saved ((n # ns) ! k) = Some ((indices # is) ! k, (review # vs) ! k)" for saved
  proof -
    have "map_of saved n = Some (indices, review)" using that by (metis length_Cons nth_Cons_0 zero_less_Suc)
    moreover have "\<forall>k < length ns. map_of saved (ns ! k) = Some (is ! k, vs ! k)" using that by (metis Suc_less_eq length_Cons nth_Cons_Suc)
    ultimately show ?thesis using i(1) again by simp
  qed
  with l r1 show ?case by (intro exI [of _ "indices # is"] exI [of _ "review # vs"]) simp
qed simp

lemma map_of_zip_pairs:
  "distinct ns \<Longrightarrow> length is = length ns \<Longrightarrow> length vs = length ns \<Longrightarrow> k < length ns \<Longrightarrow>
    map_of (zip ns (zip is vs)) (ns ! k) = Some (is ! k, vs ! k)"
  by (simp add: map_of_zip_nth)



section \<open>An example\<close>

text \<open>A library that compiles every IR to the carrier \<open>[2]\<close> and discovers one group of one version 1 target in it.\<close>

definition unary_v1 :: patch_target where
  "unary_v1 = \<lparr>pt_invocation_index = 0, pt_range_index = 0, pt_input_count = 1, pt_element_count = 8, pt_span_bytes = 16,
     pt_contract_flags = 0x1F\<rparr>"

definition bundle_ir :: raw_ir_result where
  "bundle_ir = failing_ir\<lparr>xr_graph_extension_version := 5, xr_compiler_version_major := 8, xr_compiler_version_minor := 3,
     xr_driver_version := 7, xr_device_vendor_id := 0x8086, xr_device_id := 0x7D1D, xr_graph_blob := Some [2]\<rparr>"

definition bundle_lib :: native_lib where
  "bundle_lib = failing_lib\<lparr>nl_ir2blob_compile := \<lambda>_ _ _. (0, bundle_ir), nl_ir2blob_query := \<lambda>_. (0, bundle_ir),
     nl_discover := \<lambda>_. (0, \<lparr>rd_targets = [(0, encode_target unary_v1)], rd_group_count = 1, rd_diagnostic = None\<rparr>)\<rparr>"

definition bundle_graph :: graph where
  "bundle_graph = \<lparr>g_inputs = node_outputs 0 (node_at chain_store 0), g_outputs = node_outputs 1 (node_at chain_store 1), g_name = ''g''\<rparr>"

definition bundle_provenance :: ir_compile_result where
  "bundle_provenance = \<lparr>ic_graph_blob = [2], ic_driver_index = 0, ic_device_index = 0, ic_driver_version = 7, ic_vendor_id = 0x8086,
     ic_device_id = 0x7D1D, ic_graph_extension_version = 5, ic_compiler_version = (8, 3)\<rparr>"

definition bundle_prepared :: "prepared_graph res" where
  "bundle_prepared = prepare bundle_lib chain_store 100 (Some bundle_graph) '''' 100 None"

lemma bundle_prepared_facts:
  "case bundle_prepared of Inl _ \<Rightarrow> False | Inr p \<Rightarrow> custom_nodes p = [1] \<and> si_weights (pp_serialized_ir p) = [] \<and>
     length (si_xml (pp_serialized_ir p)) < 10000 \<and> pp_ir_provenance p = bundle_provenance \<and>
     pp_groups p = [\<lparr>ag_index = 0, ag_targets = [TargetV1 unary_v1]\<rparr>] \<and> pp_automatic_indices p = Some [[0]] \<and>
     pp_embedded_targets p = None \<and> pp_build_flags p = '''' \<and> pp_store p = chain_store \<and> pp_limit p = 100 \<and> pp_graph p = bundle_graph \<and>
     pp_timeout_ms p = 100 \<and> pp_saved_indices p = None \<and> pp_saved_reviews p = None"
  by code_simp


lemma manifest_bytes_size:
  assumes "jsonable m" and "manifest_bytes m = Inr content"
  shows "length content \<le> 2 * json_bound (Some 2) 0 m + 2"
proof -
  from assms(2) obtain t where t: "json_text (Some 2) 0 m = Inr t" "content = utf8 (t @ [CHR 0x0A])"
    by (auto simp: manifest_bytes_def json_indented_def bind_res_eq_Inr)
  then show ?thesis using json_text_length [OF assms(1) t(1)] utf8_size [of "t @ [CHR 0x0A]"] by simp
qed

lemma manifest_bytes_total: "jsonable m \<Longrightarrow> \<exists>content. manifest_bytes m = Inr content"
  using json_text_reads [of m "Some 2" 0] by (auto simp: manifest_bytes_def json_indented_def)

lemma prepare_discovered:
  assumes "prepare lib st limit (Some g) flags t w = Inr p"
  shows "discover_prepared_contract lib st limit g (pp_serialized_ir p) (carrier_blob p) (pp_embedded_targets p) =
    Inr (pp_groups p, pp_automatic_indices p, pp_mappings p)"
  using assms by (auto simp: prepare_def bind_res_eq_Inr if_Inl_Inr)

lemma sha256_length: "length (sha256 data) = 64"
  using is_digest_sha256 [of data] by (simp add: is_digest_def)

lemma bundle_example:
  obtains p z where "bundle_prepared = Inr p" "wf_prepared p" "export_prepared p None = Inr z"
    "load_prepared bundle_lib chain_store 100 z (Some bundle_graph) 100 None = Inr p" "carrier_blob p = [2]" "custom_nodes p = [1]"
    "pp_groups p = [\<lparr>ag_index = 0, ag_targets = [TargetV1 unary_v1]\<rparr>]" "pp_automatic_indices p = Some [[0]]"
    "pp_embedded_targets p = None" "pp_store p = chain_store"
proof -
  obtain p where p: "bundle_prepared = Inr p" using bundle_prepared_facts by (simp split: sum.splits)
  from bundle_prepared_facts have f: "custom_nodes p = [1]" "si_weights (pp_serialized_ir p) = []" "length (si_xml (pp_serialized_ir p)) < 10000"
    "pp_ir_provenance p = bundle_provenance" "pp_groups p = [\<lparr>ag_index = 0, ag_targets = [TargetV1 unary_v1]\<rparr>]"
    "pp_automatic_indices p = Some [[0]]" "pp_embedded_targets p = None" "pp_build_flags p = ''''" "pp_store p = chain_store"
    "pp_limit p = 100" "pp_graph p = bundle_graph" "pp_timeout_ms p = 100" "pp_saved_indices p = None" "pp_saved_reviews p = None"
    by (simp_all add: p)
  note prepared = p [unfolded bundle_prepared_def]
  have wf: "wf_prepared p" by (rule prepare_wf [OF prepared])
  obtain content where content: "manifest_bytes (prepared_manifest p None) = Inr content" using manifest_bytes_total jsonable_prepared by blast
  have "json_bound (Some 2) 0 (prepared_manifest p None) \<le> 100000"
    using f(3) by (simp add: prepared_manifest_def file_entry_def bytes_identity_def provenance_json_def groups_json_def target_json_def
        f(1,2,4-14) bundle_provenance_def unary_v1_def json_newline_def sha256_length)
  then have small: "length content \<le> 1024 * 1024" using manifest_bytes_size [OF jsonable_prepared content] by simp
  obtain z where z: "export_prepared p None = Inr z"
    using content by (auto simp: export_prepared_def plan_bindings_def)
  have same: "reloaded p None 100 (pp_groups p) (pp_automatic_indices p) (pp_mappings p) = p"
    by (rule prepared_graph.equality) (simp_all add: reloaded_def f)
  have "query_ir_provenance bundle_lib 100 None = Inr (bundle_provenance\<lparr>ic_graph_blob := []\<rparr>)" by code_simp
  moreover have "supported_provenance bundle_provenance" by code_simp
  ultimately have "agrees_now bundle_lib p 100 None (pp_groups p) (pp_automatic_indices p) (pp_mappings p)"
    using prepare_discovered [OF prepared] by (simp add: agrees_now_def f(4,8-11) provenance_fields_of_def)
  then have agreed: "\<exists>groups automatic mappings. agrees_now bundle_lib p 100 None groups automatic mappings \<and>
      p = reloaded p None 100 groups automatic mappings"
    using same by metis
  have none: "saved_groups p None = None" "saveable None" "unreviewed p None" "plan_bindings p None = None"
    by (simp_all add: saved_groups_def saveable_def unreviewed_def plan_bindings_def)
  from load_exported [OF wf z none(3), of bundle_lib 100 None]
  have "load_prepared bundle_lib (pp_store p) (pp_limit p) z (Some (pp_graph p)) 100 None = Inr p"
    unfolding none(1,4) using content small agreed none(2) f(4) by (auto simp: bundle_provenance_def)
  with that p wf z f show ?thesis by (auto simp: bundle_provenance_def)
qed




text \<open>A plan of the example for its only custom node.\<close>

lemma bundle_plan:
  assumes "bundle_prepared = Inr p"
  shows "\<exists>b. plan bundle_lib (\<lambda>_. None) p (Some []) (Some [(Symbolic sample_tensor, PKernel (KCompiled reviewed_kernel))]) PNone (PTuple []) = Inr b \<and>
    bp_group_indices b = [[0]] \<and> bp_reviewed_bindings b = [None]"
proof -
  obtain q z where q: "bundle_prepared = Inr q" "custom_nodes q = [1]" "pp_groups q = [\<lparr>ag_index = 0, ag_targets = [TargetV1 unary_v1]\<rparr>]"
    "pp_automatic_indices q = Some [[0]]" "pp_embedded_targets q = None" "pp_store q = chain_store"
    by (rule bundle_example)
  have s: "pp_saved_indices p = None" "pp_saved_reviews p = None" using bundle_prepared_facts by (simp_all add: assms)
  have "Inr q = (Inr p :: prepared_graph res)" by (rule trans [OF q(1) [symmetric] assms])
  then have "q = p" by (rule Inr_inject)
  note f = q(2-6) [unfolded this]
  have "\<not> isl (combine_targets (node_at chain_store 1) [[TargetV1 unary_v1]])" by code_simp
  then obtain ts where "combine_targets (node_at chain_store 1) [[TargetV1 unary_v1]] = Inr ts" by (metis isl_def sum.exhaust)
  then have "select_targets p 1 [0] = Inr ts"
    by (simp add: select_targets_def group_targets_def py_nth_def from_option_def f)
  moreover have "default_bindings p = [(1, [0], None)]" by (simp add: default_bindings_def f s)
  ultimately have r: "resolve_bindings bundle_lib p (Some []) = Inr ([[0]], [ts], [None])"
    by (simp add: resolve_bindings_def f resolve_node_def mark_used_def)
  have "compiler_definitions (PTuple []) = Inr []" "linker_script (\<lambda>_. None) PNone = Inr None"
    by (code_simp, simp add: linker_script_def)
  moreover have "length (n_output_specs (node_at chain_store 1)) = 1" "hd (node_outputs 1 (node_at chain_store 1)) = sample_tensor"
    using sample_custom(4,5) by (simp_all add: sample_prepared_def)
  ultimately show ?thesis using r
    by (simp add: plan_def add_kernel_def custom_output_def sample_producer f planned_kernel_def Let_def)
qed


end
