(* ===== verification/Cache.thy ===== *)
theory Cache
  imports Prepared_Bundle
begin

text \<open>
  The program cache (\<open>cache.py\<close>) and \<open>compile_cached\<close> (\<open>__init__.py\<close>): bundles stored under their hash, found
  again through a metadata file named after the hash of the compilation request. The cache directory is a map
  from file names to contents; every operation on it may fail, at the choice of the environment, and a failed
  step leaves the directory as it was. Packing the members of an archive into bytes and back (\<open>zipfile\<close>) is an
  argument of the model; times are not modelled.
\<close>

section \<open>Identities\<close>

text \<open>What \<open>_hash_file_stable\<close> observes of a file.\<close>

datatype observed_file = Missing | Changing | Stable bytes

definition hash_file_stable :: "observed_file \<Rightarrow> (string \<times> pyval) list res" where
  "hash_file_stable file =
     (case file of
        Missing \<Rightarrow> Inl (FileNotFoundError ''no such file'')
      | Changing \<Rightarrow> Inl (RuntimeError ''dependency changed while hashing'')
      | Stable content \<Rightarrow> Inr (bytes_identity content))"

text \<open>The files below a root directory.\<close>

type_synonym file_tree = "string \<Rightarrow> string \<Rightarrow> observed_file"

definition dependency_identity :: "file_tree \<Rightarrow> string \<Rightarrow> string list \<Rightarrow> pyval res" where
  "dependency_identity files base relatives =
     bind_res (map_res (\<lambda>relative.
         if files base relative = Missing then Inl (FileNotFoundError ''required dependency not found'')
         else bind_res (hash_file_stable (files base relative)) (\<lambda>identity.
           Inr (PDict ((''name'', PStr relative) # identity)))) relatives)
       (\<lambda>entries. Inr (PList entries))"

definition movitools_files :: "string list" where
  "movitools_files = [''bin/moviCompile64.dll'', ''bin/moviAsm64.dll'', ''bin/moviLLD64.dll'', ''lib/mlibm.a'']"

definition native_files :: "string list" where
  "native_files = [''npunlock.dll'', ''npunlock_worker.exe'']"

definition movitools_identity :: "file_tree \<Rightarrow> string \<Rightarrow> pyval res" where
  "movitools_identity files base = dependency_identity files base movitools_files"

text \<open>\<open>movitools_manifest\<close>: the same identities under the names of the files.\<close>

definition manifest_item :: "pyval \<Rightarrow> (string \<times> pyval) list \<Rightarrow> (string \<times> pyval) list" where
  "manifest_item v found =
     (let entry = the_dict v in
      dict_set (case dget entry ''name'' of PStr name \<Rightarrow> name | _ \<Rightarrow> []) (PDict [(''size'', dget entry ''size''), (''sha256'', dget entry ''sha256'')]) found)"

definition movitools_manifest :: "file_tree \<Rightarrow> string \<Rightarrow> pyval res" where
  "movitools_manifest files base =
     bind_res (movitools_identity files base) (\<lambda>v.
     case v of PList entries \<Rightarrow> Inr (PDict (fold manifest_item entries [])) | _ \<Rightarrow> Inl (TypeError ''not a list''))"

definition native_runtime_identity :: "file_tree \<Rightarrow> string \<Rightarrow> pyval res" where
  "native_runtime_identity files base = dependency_identity files base native_files"

definition worker_identity :: "(string \<Rightarrow> observed_file) \<Rightarrow> string option \<Rightarrow> pyval res" where
  "worker_identity workers worker =
     (case worker of
        None \<Rightarrow> Inr (PDict [(''source'', PStr ''bundled'')])
      | Some path \<Rightarrow>
          if path = [] then Inl (ValueError ''worker executable path must not be empty'')
          else if workers path = Missing then Inl (FileNotFoundError ''worker executable not found'')
          else bind_res (hash_file_stable (workers path)) (\<lambda>identity.
            Inr (PDict ((''source'', PStr ''caller'') # identity))))"

definition canonical_sha256 :: "pyval \<Rightarrow> string res" where
  "canonical_sha256 v = bind_res (json_compact v) (\<lambda>payload. Inr (sha256 (utf8 payload)))"

section \<open>The cache\<close>

record cache_status =
  cs_state :: string
  cs_diagnostic :: "pyexn option"

type_synonym directory = "string \<Rightarrow> bytes option"

text \<open>A request: the dictionary that identifies a compilation.\<close>

type_synonym request = "(string \<times> pyval) list"

definition metadata_name :: "request \<Rightarrow> string res" where
  "metadata_name request =
     bind_res (canonical_sha256 (PDict request)) (\<lambda>sha. Inr (''request-'' @ sha @ ''.json''))"

definition program_name :: "string \<Rightarrow> string" where
  "program_name sha = ''program-'' @ sha @ ''.npu''"

text \<open>The steps at which the operating system may raise: its choice is, for each step, an exception and what a write
  that failed has left in its file.\<close>

datatype io_step = ReadMetadata | ReadProgram | MakeDirectory | MakeProgramTemp | WriteProgram | HashProgram | ReplaceProgram
  | MakeMetadataTemp | WriteMetadata | ReplaceMetadata | RemoveProgramTemp | RemoveMetadataTemp

type_synonym faults = "io_step \<Rightarrow> (pyexn \<times> bytes) option"

definition may_fail :: "faults \<Rightarrow> io_step \<Rightarrow> unit res" where
  "may_fail faults s = (case faults s of None \<Rightarrow> Inr () | Some (e, _) \<Rightarrow> Inl e)"

text \<open>\<open>ProgramCache(directory)\<close>, where \<open>obstructed\<close> says that the path exists and is no directory.\<close>

definition open_cache :: "string \<Rightarrow> bool \<Rightarrow> cache_status res" where
  "open_cache path obstructed =
     (if path = [] then Inl (ValueError ''program cache directory must not be empty'')
      else if obstructed then Inl (ValueError ''program cache path is not a directory'')
      else Inr \<lparr>cs_state = ''miss'', cs_diagnostic = None\<rparr>)"

subsection \<open>Load\<close>

definition metadata_entry :: "request \<Rightarrow> bytes \<Rightarrow> (int \<times> string) res" where
  "metadata_entry request content =
     (if 1024 * 1024 < length content then Inl (ValueError ''cache metadata exceeds 1 MiB'')
      else case json_load_bytes content of
        Some (PDict d) \<Rightarrow>
          if \<not> has_keys d [''schema'', ''request'', ''program''] then Inl (ValueError ''cache metadata fields are invalid'')
          else if dget d ''schema'' \<noteq> PStr ''npunlock.program-cache.v1'' \<or> \<not> py_eq (dget d ''request'') (PDict request)
          then Inl (ValueError ''cache request identity is stale'')
          else (case dget d ''program'' of
              PDict e \<Rightarrow>
                if \<not> has_keys e [''path'', ''size'', ''sha256''] then Inl (ValueError ''cache program entry is invalid'')
                else (case (dget e ''sha256'', dget e ''size'') of
                    (PStr sha, PInt n) \<Rightarrow>
                      if \<not> is_digest sha \<or> n \<le> 0 \<or> dget e ''path'' \<noteq> PStr (program_name sha)
                      then Inl (ValueError ''cache program identity is invalid'')
                      else Inr (n, sha)
                  | _ \<Rightarrow> Inl (ValueError ''cache program identity is invalid''))
            | _ \<Rightarrow> Inl (ValueError ''cache program entry is invalid''))
      | Some _ \<Rightarrow> Inl (ValueError ''cache metadata fields are invalid'')
      | None \<Rightarrow> Inl (ValueError ''not a JSON document''))"

definition check_loaded :: "request \<Rightarrow> program_contract \<Rightarrow> program \<Rightarrow> program res" where
  "check_loaded request contract p =
     bind_res (program_provenance p) (\<lambda>provenance.
     if (case provenance of None \<Rightarrow> True | Some v \<Rightarrow> \<not> py_eq (provenance_to_json v) (dget request ''provenance''))
     then Inl (ValueError ''cached program driver/compiler provenance is stale'')
     else require_contract [] 0 p (Some contract))"

text \<open>The body of the \<open>try\<close> block.\<close>

definition load_entry ::
  "(bytes \<Rightarrow> zip_file) \<Rightarrow> faults \<Rightarrow> directory \<Rightarrow> bytes \<Rightarrow> request \<Rightarrow> int \<Rightarrow> program_contract \<Rightarrow> program res" where
  "load_entry unpack faults d content request timeout_ms contract =
     bind_res (may_fail faults ReadMetadata) (\<lambda>_.
     bind_res (metadata_entry request content) (\<lambda>(n, sha).
     case d (program_name sha) of
       None \<Rightarrow> Inl (ValueError ''cached program is missing or has the wrong size'')
     | Some data \<Rightarrow>
         if int (length data) \<noteq> n then Inl (ValueError ''cached program is missing or has the wrong size'')
         else bind_res (may_fail faults ReadProgram) (\<lambda>_.
           if sha256 data \<noteq> sha then Inl (ValueError ''cached program hash is invalid'')
           else bind_res (load_program (unpack data) timeout_ms) (check_loaded request contract))))"

definition cache_load ::
  "(bytes \<Rightarrow> zip_file) \<Rightarrow> faults \<Rightarrow> directory \<Rightarrow> request \<Rightarrow> int \<Rightarrow> program_contract \<Rightarrow> (program option \<times> cache_status) res" where
  "cache_load unpack faults d request timeout_ms contract =
     bind_res (metadata_name request) (\<lambda>name.
     Inr (case d name of
         None \<Rightarrow> (None, \<lparr>cs_state = ''miss'', cs_diagnostic = None\<rparr>)
       | Some content \<Rightarrow>
           (case load_entry unpack faults d content request timeout_ms contract of
              Inr p \<Rightarrow> (Some p, \<lparr>cs_state = ''hit'', cs_diagnostic = None\<rparr>)
            | Inl e \<Rightarrow> (None, \<lparr>cs_state = ''invalid'', cs_diagnostic = Some e\<rparr>))))"

subsection \<open>Store\<close>

text \<open>Operations on the directory that may raise.\<close>

type_synonym 'a io = "directory \<Rightarrow> 'a res \<times> directory"

definition bind_io :: "'a io \<Rightarrow> ('a \<Rightarrow> 'b io) \<Rightarrow> 'b io" where
  "bind_io m f d = (case m d of (Inl e, d') \<Rightarrow> (Inl e, d') | (Inr x, d') \<Rightarrow> f x d')"

definition pure_io :: "'a res \<Rightarrow> 'a io" where
  "pure_io r d = (r, d)"

definition create_file :: "faults \<Rightarrow> io_step \<Rightarrow> string \<Rightarrow> unit io" where
  "create_file faults s name d = (case faults s of None \<Rightarrow> (Inr (), d(name \<mapsto> [])) | Some (e, _) \<Rightarrow> (Inl e, d))"

definition write_file :: "faults \<Rightarrow> io_step \<Rightarrow> string \<Rightarrow> bytes \<Rightarrow> unit io" where
  "write_file faults s name data d =
     (case faults s of None \<Rightarrow> (Inr (), d(name \<mapsto> data)) | Some (e, partial) \<Rightarrow> (Inl e, d(name \<mapsto> partial)))"

definition hash_file :: "faults \<Rightarrow> string \<Rightarrow> (int \<times> string) io" where
  "hash_file faults name d =
     (case (may_fail faults HashProgram, d name) of
        (Inl e, _) \<Rightarrow> (Inl e, d)
      | (Inr _, None) \<Rightarrow> (Inl (FileNotFoundError ''no such file''), d)
      | (Inr _, Some data) \<Rightarrow> (Inr (int (length data), sha256 data), d))"

definition replace_file :: "faults \<Rightarrow> io_step \<Rightarrow> string \<Rightarrow> string \<Rightarrow> unit io" where
  "replace_file faults s source target d =
     (case faults s of None \<Rightarrow> (Inr (), (d(target := d source))(source := None)) | Some (e, _) \<Rightarrow> (Inl e, d))"

text \<open>The names \<open>mkstemp\<close> chooses.\<close>

definition program_temp :: "string \<Rightarrow> string" where
  "program_temp r = ''.program-'' @ r @ ''.tmp''"

definition metadata_temp :: "string \<Rightarrow> string" where
  "metadata_temp r = ''.metadata-'' @ r @ ''.tmp''"

definition cache_metadata :: "request \<Rightarrow> int \<Rightarrow> string \<Rightarrow> pyval" where
  "cache_metadata request n sha = PDict [(''schema'', PStr ''npunlock.program-cache.v1''), (''request'', PDict request),
     (''program'', PDict [(''path'', PStr (program_name sha)), (''size'', PInt n), (''sha256'', PStr sha)])]"

definition store_steps ::
  "(zip_file \<Rightarrow> bytes) \<Rightarrow> faults \<Rightarrow> string \<Rightarrow> string \<Rightarrow> store \<Rightarrow> nat \<Rightarrow> request \<Rightarrow> program \<Rightarrow> unit io" where
  "store_steps pack faults r1 r2 st limit request p =
     bind_io (pure_io (may_fail faults MakeDirectory)) (\<lambda>_.
     bind_io (create_file faults MakeProgramTemp (program_temp r1)) (\<lambda>_.
     bind_io (pure_io (export_program st limit p)) (\<lambda>z.
     bind_io (write_file faults WriteProgram (program_temp r1) (pack z)) (\<lambda>_.
     bind_io (hash_file faults (program_temp r1)) (\<lambda>(n, sha).
     bind_io (replace_file faults ReplaceProgram (program_temp r1) (program_name sha)) (\<lambda>_.
     bind_io (create_file faults MakeMetadataTemp (metadata_temp r2)) (\<lambda>_.
     bind_io (pure_io (manifest_bytes (cache_metadata request n sha))) (\<lambda>content.
     bind_io (write_file faults WriteMetadata (metadata_temp r2) content) (\<lambda>_.
     bind_io (pure_io (metadata_name request)) (\<lambda>name.
     replace_file faults ReplaceMetadata (metadata_temp r2) name))))))))))"

text \<open>The \<open>finally\<close> block: the temporary files that were not moved away are removed, if they can be.\<close>

definition remove_file :: "faults \<Rightarrow> io_step \<Rightarrow> string \<Rightarrow> directory \<Rightarrow> directory" where
  "remove_file faults s name d = (if faults s = None then d(name := None) else d)"

definition remove_temps :: "faults \<Rightarrow> string \<Rightarrow> string \<Rightarrow> directory \<Rightarrow> directory" where
  "remove_temps faults r1 r2 d =
     remove_file faults RemoveMetadataTemp (metadata_temp r2) (remove_file faults RemoveProgramTemp (program_temp r1) d)"

definition cache_store ::
  "(zip_file \<Rightarrow> bytes) \<Rightarrow> faults \<Rightarrow> string \<Rightarrow> string \<Rightarrow> store \<Rightarrow> nat \<Rightarrow> request \<Rightarrow> program \<Rightarrow> cache_status \<Rightarrow> directory \<Rightarrow>
    cache_status \<times> directory" where
  "cache_store pack faults r1 r2 st limit request p previous d =
     (case store_steps pack faults r1 r2 st limit request p d of
        (Inr _, d') \<Rightarrow>
          (if cs_state previous = ''invalid'' then \<lparr>cs_state = ''refreshed'', cs_diagnostic = cs_diagnostic previous\<rparr>
           else \<lparr>cs_state = ''stored'', cs_diagnostic = None\<rparr>, remove_temps faults r1 r2 d')
      | (Inl e, d') \<Rightarrow> (\<lparr>cs_state = ''write-error'', cs_diagnostic = Some e\<rparr>, remove_temps faults r1 r2 d'))"

section \<open>What a store leaves behind\<close>

lemma names_differ [simp]:
  "program_temp r \<noteq> program_name s" "program_name s \<noteq> program_temp r" "metadata_temp r \<noteq> program_name s"
  "program_name s \<noteq> metadata_temp r" "program_temp r \<noteq> metadata_temp r'" "metadata_temp r' \<noteq> program_temp r"
  by (simp_all add: program_temp_def metadata_temp_def program_name_def)

lemma program_name_inject [simp]: "program_name a = program_name b \<longleftrightarrow> a = b"
  by (simp add: program_name_def)

lemma metadata_name_differs:
  "metadata_name request = Inr name \<Longrightarrow> name \<noteq> program_temp r \<and> name \<noteq> metadata_temp r \<and> name \<noteq> program_name s"
  by (auto simp: metadata_name_def bind_res_eq_Inr program_temp_def metadata_temp_def program_name_def)

text \<open>Every program is stored under its own hash.\<close>

definition addressed :: "directory \<Rightarrow> bool" where
  "addressed d \<longleftrightarrow> (\<forall>sha data. d (program_name sha) = Some data \<longrightarrow> sha256 data = sha)"

text \<open>A file other than the two temporary ones that a step may change: a program, and it is stored under its hash.\<close>

definition kept :: "string \<Rightarrow> string \<Rightarrow> directory \<Rightarrow> directory \<Rightarrow> bool" where
  "kept r1 r2 d d' \<longleftrightarrow> (\<forall>n. n \<noteq> program_temp r1 \<and> n \<noteq> metadata_temp r2 \<longrightarrow>
     d' n = d n \<or> (\<exists>data. d' n = Some data \<and> n = program_name (sha256 data)))"

lemma kept_refl [simp]: "kept r1 r2 d d"
  by (simp add: kept_def)

lemma kept_temps [simp]:
  "kept r1 r2 d (d'(program_temp r1 := x)) = kept r1 r2 d d'" "kept r1 r2 d (d'(metadata_temp r2 := x)) = kept r1 r2 d d'"
  by (auto simp: kept_def)

lemma kept_program: "kept r1 r2 d d' \<Longrightarrow> kept r1 r2 d (d'(program_name (sha256 data) \<mapsto> data))"
  by (auto simp: kept_def)

definition stored_files :: "(zip_file \<Rightarrow> bytes) \<Rightarrow> store \<Rightarrow> nat \<Rightarrow> request \<Rightarrow> program \<Rightarrow> string \<Rightarrow> bytes \<Rightarrow> bytes \<Rightarrow> bool" where
  "stored_files pack st limit request p name data content \<longleftrightarrow>
     (\<exists>z. export_program st limit p = Inr z \<and> data = pack z) \<and> metadata_name request = Inr name \<and>
     manifest_bytes (cache_metadata request (int (length data)) (sha256 data)) = Inr content"

text \<open>Weakest preconditions: what holds of the directory where \<open>m\<close> raises, and of the result and the directory where it
  returns.\<close>

definition wp :: "'a io \<Rightarrow> (pyexn \<Rightarrow> directory \<Rightarrow> bool) \<Rightarrow> ('a \<Rightarrow> directory \<Rightarrow> bool) \<Rightarrow> directory \<Rightarrow> bool" where
  "wp m E Q d = (case m d of (Inl e, d') \<Rightarrow> E e d' | (Inr x, d') \<Rightarrow> Q x d')"

named_theorems wp_rules

lemma wp_bind [wp_rules]: "wp (bind_io m f) E Q d = wp m E (\<lambda>x. wp (f x) E Q) d"
  by (auto simp: wp_def bind_io_def split: prod.splits sum.splits)

lemma wp_pure [wp_rules]: "wp (pure_io r) E Q d \<longleftrightarrow> (\<forall>e. r = Inl e \<longrightarrow> E e d) \<and> (\<forall>x. r = Inr x \<longrightarrow> Q x d)"
  by (cases r) (simp_all add: wp_def pure_io_def)

lemma wp_create [wp_rules]: "wp (create_file faults s name) E Q d \<longleftrightarrow>
    (\<forall>e x. faults s = Some (e, x) \<longrightarrow> E e d) \<and> (faults s = None \<longrightarrow> Q () (d(name \<mapsto> [])))"
  by (auto simp: wp_def create_file_def split: option.splits)

lemma wp_write [wp_rules]: "wp (write_file faults s name data) E Q d \<longleftrightarrow>
    (\<forall>e x. faults s = Some (e, x) \<longrightarrow> E e (d(name \<mapsto> x))) \<and> (faults s = None \<longrightarrow> Q () (d(name \<mapsto> data)))"
  by (auto simp: wp_def write_file_def split: option.splits)

lemma wp_hash [wp_rules]: "wp (hash_file faults name) E Q d \<longleftrightarrow>
    (\<forall>e x. faults HashProgram = Some (e, x) \<longrightarrow> E e d) \<and>
    (faults HashProgram = None \<longrightarrow> (case d name of None \<Rightarrow> E (FileNotFoundError ''no such file'') d
       | Some data \<Rightarrow> Q (int (length data), sha256 data) d))"
  by (auto simp: wp_def hash_file_def may_fail_def split: option.splits)

lemma wp_replace [wp_rules]: "wp (replace_file faults s source target) E Q d \<longleftrightarrow>
    (\<forall>e x. faults s = Some (e, x) \<longrightarrow> E e d) \<and>
    (faults s = None \<longrightarrow> Q () ((d(target := d source))(source := None)))"
  by (auto simp: wp_def replace_file_def split: option.splits)

lemma store_steps_wp:
  "wp (store_steps pack faults r1 r2 st limit request p) (\<lambda>_. kept r1 r2 d)
     (\<lambda>_ d'. \<exists>name data content. stored_files pack st limit request p name data content \<and>
        d' = d(program_name (sha256 data) \<mapsto> data, name \<mapsto> content, program_temp r1 := None, metadata_temp r2 := None)) d"
  unfolding store_steps_def wp_rules prod.case
  by (auto simp: kept_program stored_files_def fun_upd_twist metadata_name_differs dest: metadata_name_differs)

lemma store_steps_returned:
  assumes "store_steps pack faults r1 r2 st limit request p d = (r, d')"
  shows "case r of Inl e \<Rightarrow> kept r1 r2 d d'
    | Inr _ \<Rightarrow> \<exists>name data content. stored_files pack st limit request p name data content \<and>
        d' = d(program_name (sha256 data) \<mapsto> data, name \<mapsto> content, program_temp r1 := None, metadata_temp r2 := None)"
  using store_steps_wp [of pack faults r1 r2 st limit request p d] assms by (auto simp: wp_def split: sum.splits)

lemma kept_remove: "kept r1 r2 d d' \<Longrightarrow> kept r1 r2 d (remove_temps faults r1 r2 d')"
  by (simp add: remove_temps_def remove_file_def)

lemma remove_temps_other:
  "n \<noteq> program_temp r1 \<Longrightarrow> n \<noteq> metadata_temp r2 \<Longrightarrow> remove_temps faults r1 r2 d n = d n"
  by (simp add: remove_temps_def remove_file_def)

lemma cache_store_cases:
  assumes "cache_store pack faults r1 r2 st limit request p previous d = (status, d')"
  obtains (failed) e where "status = \<lparr>cs_state = ''write-error'', cs_diagnostic = Some e\<rparr>" "kept r1 r2 d d'"
      "faults RemoveProgramTemp = None \<longrightarrow> d' (program_temp r1) = None"
      "faults RemoveMetadataTemp = None \<longrightarrow> d' (metadata_temp r2) = None"
  | (stored) name data content where "cs_state status = ''stored'' \<or> cs_state status = ''refreshed''"
      "stored_files pack st limit request p name data content"
      "d' = d(program_name (sha256 data) \<mapsto> data, name \<mapsto> content, program_temp r1 := None, metadata_temp r2 := None)"
proof -
  obtain r d1 where s: "store_steps pack faults r1 r2 st limit request p d = (r, d1)" by (cases "store_steps pack faults r1 r2 st limit request p d")
  have gone: "remove_temps faults r1 r2 (d2(program_temp r1 := None, metadata_temp r2 := None)) = d2(program_temp r1 := None, metadata_temp r2 := None)" for d2
    by (auto simp: remove_temps_def remove_file_def)
  show ?thesis
  proof (cases r)
    case (Inl e)
    with s assms store_steps_returned [OF s] show ?thesis
      by (intro failed [of e]) (auto simp: cache_store_def kept_remove remove_temps_def remove_file_def)
  next
    case (Inr u)
    with store_steps_returned [OF s] obtain name data content where f: "stored_files pack st limit request p name data content"
      "d1 = d(program_name (sha256 data) \<mapsto> data, name \<mapsto> content, program_temp r1 := None, metadata_temp r2 := None)" by auto
    moreover from assms s Inr have "d' = remove_temps faults r1 r2 d1" "cs_state status = ''stored'' \<or> cs_state status = ''refreshed''"
      by (auto simp: cache_store_def split: if_splits)
    ultimately show ?thesis using stored gone by metis
  qed
qed

text \<open>C30 A store is all or nothing, whichever steps fail and whatever a failed write leaves behind: the file that names the
  program of the request is replaced only if the status says stored or refreshed, and then it names the
  bundle now in the directory; every other file is as it was, except that a program may have been
  added under its own hash; no temporary file stays behind unless removing it fails; and in a directory whose
  programs all lie under their hashes they still do.\<close>

theorem cache_store_atomic:
  assumes "cache_store pack faults r1 r2 st limit request p previous d = (status, d')"
  shows "(cs_state status = ''write-error'' \<and> kept r1 r2 d d' \<and>
      (faults RemoveProgramTemp = None \<longrightarrow> d' (program_temp r1) = None) \<and>
      (faults RemoveMetadataTemp = None \<longrightarrow> d' (metadata_temp r2) = None) \<or>
    (cs_state status = ''stored'' \<or> cs_state status = ''refreshed'') \<and>
      (\<exists>name data content. stored_files pack st limit request p name data content \<and>
        d' = d(program_name (sha256 data) \<mapsto> data, name \<mapsto> content, program_temp r1 := None, metadata_temp r2 := None))) \<and>
    (cs_state status = ''write-error'' \<longrightarrow> (\<forall>other name. metadata_name other = Inr name \<longrightarrow> d' name = d name)) \<and>
    (addressed d \<longrightarrow> addressed d')"
proof (rule cache_store_cases [OF assms], goal_cases)
  case failed: (1 e)
  then have "d' name = d name" if "metadata_name other = Inr name" for other name
    using metadata_name_differs [OF that] by (auto simp: kept_def)
  moreover have "addressed d \<longrightarrow> addressed d'" using failed(2) unfolding addressed_def kept_def by (metis names_differ(2,4) program_name_inject option.inject)
  ultimately show ?thesis using failed by simp
next
  case stored: (2 name data content)
  then have n: "name \<noteq> program_name sha" for sha by (auto simp: stored_files_def dest: metadata_name_differs)
  have "addressed d \<longrightarrow> addressed d'" unfolding stored(3) addressed_def using n by auto
  with stored show ?thesis by auto
qed

section \<open>What a hit means\<close>

lemma metadata_entry_Inr:
  assumes "metadata_entry request content = Inr (n, sha)"
  obtains d e where "json_load_bytes content = Some (PDict d)" "py_eq (dget d ''request'') (PDict request)"
    "length content \<le> 1024 * 1024" "is_digest sha" "0 < n" "dget d ''program'' = PDict e"
  using assms unfolding metadata_entry_def
  by (auto simp: if_Inl_Inr split: option.splits pyval.splits)

lemma load_entry_Inr:
  assumes "load_entry unpack faults d content request timeout_ms contract = Inr p"
  obtains n sha data where "metadata_entry request content = Inr (n, sha)" "d (program_name sha) = Some data"
    "int (length data) = n" "sha256 data = sha" "load_program (unpack data) timeout_ms = Inr p" "check_loaded request contract p = Inr p"
proof -
  have "check_loaded request contract q = Inr p \<Longrightarrow> q = p" for q
    by (auto simp: check_loaded_def require_contract_def bind_res_eq_Inr if_Inl_Inr)
  with assms that show ?thesis
    unfolding load_entry_def bind_res_eq_Inr case_prod_beta option_case_Inr if_Inl_Inr by force
qed

lemma cache_load_cases:
  assumes "cache_load unpack faults d request timeout_ms contract = Inr (out, status)"
  obtains (miss) name where "metadata_name request = Inr name" "d name = None" "out = None" "status = \<lparr>cs_state = ''miss'', cs_diagnostic = None\<rparr>"
  | (invalid) name content e where "metadata_name request = Inr name" "d name = Some content" "out = None"
      "load_entry unpack faults d content request timeout_ms contract = Inl e" "status = \<lparr>cs_state = ''invalid'', cs_diagnostic = Some e\<rparr>"
  | (hit) name content p where "metadata_name request = Inr name" "d name = Some content" "out = Some p"
      "load_entry unpack faults d content request timeout_ms contract = Inr p" "status = \<lparr>cs_state = ''hit'', cs_diagnostic = None\<rparr>"
proof -
  from assms obtain name where name: "metadata_name request = Inr name" by (auto simp: cache_load_def bind_res_eq_Inr)
  note unfolded = assms [unfolded cache_load_def name bind_res.simps]
  show ?thesis
  proof (cases "d name")
    case None
    with unfolded name miss show ?thesis by simp
  next
    case (Some content)
    show ?thesis
    proof (cases "load_entry unpack faults d content request timeout_ms contract")
      case (Inl e)
      with unfolded Some show ?thesis by (intro invalid [OF name Some _ Inl]) simp_all
    next
      case (Inr p)
      with unfolded Some show ?thesis by (intro hit [OF name Some _ Inr]) simp_all
    qed
  qed
qed

lemma check_loaded_Inr:
  "check_loaded request contract p = Inr q \<longleftrightarrow>
     (\<exists>v. program_provenance p = Inr (Some v) \<and> py_eq (provenance_to_json v) (dget request ''provenance'')) \<and>
     require_contract [] 0 p (Some contract) = Inr q"
  by (auto simp: check_loaded_def bind_res_eq_Inr if_Inl_Inr split: option.splits)

text \<open>C31 The cache fails closed: it gives a program only as a hit; the metadata file under the hash of the request then
  records a request equal to it, and a program whose bytes lie in the directory with the recorded size and
  SHA-256; the program is what \<open>load\<close> reads from these bytes; it carries the driver and compiler the request
  asks for, and its boundary, patch reports and graph satisfy the program contract. In every other case there
  is no program and the status is a miss or says why the entry is invalid.\<close>

theorem cache_load_fails_closed:
  assumes "cache_load unpack faults d request timeout_ms contract = Inr (out, status)"
  shows "(out = None \<and> (cs_state status = ''miss'' \<and> cs_diagnostic status = None \<or> cs_state status = ''invalid'' \<and> cs_diagnostic status \<noteq> None)) \<or>
    (\<exists>p name content doc sha data v inputs outputs. out = Some p \<and> cs_state status = ''hit'' \<and>
      metadata_name request = Inr name \<and> d name = Some content \<and> json_load_bytes content = Some (PDict doc) \<and>
      py_eq (dget doc ''request'') (PDict request) \<and> metadata_entry request content = Inr (int (length data), sha) \<and>
      d (program_name sha) = Some data \<and> sha256 data = sha \<and> load_program (unpack data) timeout_ms = Inr p \<and>
      program_provenance p = Inr (Some v) \<and> py_eq (provenance_to_json v) (dget request ''provenance'') \<and>
      input_contracts p = Inr inputs \<and> output_contracts [] 0 p = Inr outputs \<and>
      validate_program contract (map contract_boundary inputs) (map contract_boundary outputs) (pg_patch_reports p) (pg_graph_blob p) = Inr ())"
proof (rule cache_load_cases [OF assms], goal_cases)
  case hit: (3 name content p)
  obtain n sha data where c: "metadata_entry request content = Inr (n, sha)" "d (program_name sha) = Some data"
    "int (length data) = n" "sha256 data = sha" "load_program (unpack data) timeout_ms = Inr p" "check_loaded request contract p = Inr p"
    by (rule load_entry_Inr [OF hit(4)])
  obtain doc e where "json_load_bytes content = Some (PDict doc)" "py_eq (dget doc ''request'') (PDict request)"
    by (rule metadata_entry_Inr [OF c(1)])
  moreover from c(6) obtain v inputs outputs where "program_provenance p = Inr (Some v)"
    "py_eq (provenance_to_json v) (dget request ''provenance'')" "input_contracts p = Inr inputs" "output_contracts [] 0 p = Inr outputs"
    "validate_program contract (map contract_boundary inputs) (map contract_boundary outputs) (pg_patch_reports p) (pg_graph_blob p) = Inr ()"
    by (auto simp: check_loaded_Inr require_contract_def bind_res_eq_Inr)
  moreover have "cs_state status = ''hit''" by (simp add: hit)
  ultimately show ?case using hit(1-3) c(1-5) by blast
qed simp_all

section \<open>What was stored is found\<close>

lemma plain_jsonable: "plain_json v \<Longrightarrow> jsonable v"
  by (induction v rule: plain_json.induct) (auto simp: list_all_iff)

lemma metadata_entry_written:
  assumes "manifest_bytes (cache_metadata request n sha) = Inr content" and "plain_json (PDict request)"
    and "length content \<le> 1024 * 1024" and "is_digest sha" and "0 < n"
  shows "metadata_entry request content = Inr (n, sha)"
proof -
  let ?program = "[(''path'', PStr (program_name sha)), (''size'', PInt n), (''sha256'', PStr sha)]"
  let ?doc = "[(''schema'', PStr ''npunlock.program-cache.v1''), (''request'', PDict request), (''program'', PDict ?program)]"
  have m: "cache_metadata request n sha = PDict ?doc" by (simp only: cache_metadata_def)
  have "jsonable (PDict ?doc)" using plain_jsonable [OF assms(2)] by simp
  then have read: "json_load_bytes content = Some (PDict (canon_dict ?doc))"
    using manifest_bytes_load assms(1) unfolding m by (metis canon.simps(3))
  have d: "distinct (map fst ?doc)" and e: "distinct (map fst ?program)" by simp_all
  have get: "dget (canon_dict ?doc) k = canon (dget ?doc k)" for k by (rule dget_canon [OF d])
  have get_program: "dget (canon_dict ?program) k = canon (dget ?program k)" for k by (rule dget_canon [OF e])
  have keys: "has_keys (canon_dict ?doc) [''schema'', ''request'', ''program'']" "has_keys (canon_dict ?program) [''path'', ''size'', ''sha256'']"
    unfolding has_keys_def keys_canon by (auto simp: keys_def)
  have "py_eq (canon (PDict request)) (PDict request)" using py_eq_canon [OF assms(2)] by blast
  then have "py_eq (dget (canon_dict ?doc) ''request'') (PDict request)" unfolding get by (simp add: dget_def)
  moreover have "dget (canon_dict ?doc) ''schema'' = PStr ''npunlock.program-cache.v1''" "dget (canon_dict ?doc) ''program'' = PDict (canon_dict ?program)"
    unfolding get by (simp_all add: dget_def)
  moreover have "dget (canon_dict ?program) ''path'' = PStr (program_name sha)" "dget (canon_dict ?program) ''size'' = PInt n"
    "dget (canon_dict ?program) ''sha256'' = PStr sha" unfolding get_program by (simp_all add: dget_def)
  ultimately show ?thesis
    unfolding metadata_entry_def read option.case pyval.case using keys assms(3-5) by simp
qed

text \<open>A program whose bundle can be loaded validates after the round trip as it did before.\<close>

lemma restored_checked:
  assumes "wf_program p" and "export_program st limit p = Inr z" and "load_program z t = Inr q"
    and "require_contract st limit p (Some contract) = Inr p" and "program_provenance p = Inr (Some v)"
    and "py_eq (provenance_to_json v) (dget request ''provenance'')"
  shows "check_loaded request contract q = Inr q" and "pg_graph_blob q = pg_graph_blob p" and "pg_patch_reports q = pg_patch_reports p"
proof -
  from export_load [OF assms(1,2), of t] obtain inputs outputs m content where
    io: "input_contracts p = Inr inputs" "output_contracts st limit p = Inr outputs" and
    l: "\<forall>q. load_program z t = Inr q \<longleftrightarrow> within_limits p inputs outputs content \<and> q = restored p inputs outputs content t" and
    v: "program_provenance (restored p inputs outputs content t) = program_provenance p" by blast
  from l assms(3) have q: "q = restored p inputs outputs content t" and w: "within_limits p inputs outputs content" by blast+
  from w have "inputs \<noteq> []" "outputs \<noteq> []" by (simp_all add: within_limits_def portable_def)
  then have "input_contracts q = Inr inputs" "output_contracts [] 0 q = Inr outputs"
    by (simp_all add: q restored_def input_contracts_def output_contracts_def)
  moreover show fields: "pg_graph_blob q = pg_graph_blob p" "pg_patch_reports q = pg_patch_reports p" by (simp_all add: q restored_def)
  moreover have "program_provenance q = Inr (Some v)" using v assms(5) q by simp
  ultimately show "check_loaded request contract q = Inr q"
    using assms(4,6) io by (auto simp: check_loaded_Inr require_contract_def bind_res_eq_Inr)
qed

lemma load_stored:
  assumes "wf_program p" and "stored_files pack st limit request p name data content"
    and "d name = Some content" and "d (program_name (sha256 data)) = Some data"
    and "\<And>s. faults s = None" and "unpack [] = None" and "\<And>z. export_program st limit p = Inr z \<Longrightarrow> unpack (pack z) = z"
    and "plain_json (PDict request)" and "length content \<le> 1024 * 1024"
    and "require_contract st limit p (Some contract) = Inr p" and "program_provenance p = Inr (Some v)"
    and "py_eq (provenance_to_json v) (dget request ''provenance'')" and "load_program (unpack data) t = Inr q"
  shows "cache_load unpack faults d request t contract = Inr (Some q, \<lparr>cs_state = ''hit'', cs_diagnostic = None\<rparr>)"
proof -
  from assms(2) obtain z where z: "export_program st limit p = Inr z" "data = pack z" and name: "metadata_name request = Inr name"
    and c: "manifest_bytes (cache_metadata request (int (length data)) (sha256 data)) = Inr content"
    by (auto simp: stored_files_def)
  have unpacked: "unpack data = z" by (simp add: z assms(7) [OF z(1)])
  have "data \<noteq> []" using assms(6,13) by (auto simp: load_program_def)
  then have entry: "metadata_entry request content = Inr (int (length data), sha256 data)"
    by (intro metadata_entry_written [OF c assms(8,9) is_digest_sha256]) simp
  have "check_loaded request contract q = Inr q"
    by (rule restored_checked(1) [OF assms(1) z(1) _ assms(10-12), of t]) (use assms(13) unpacked in simp)
  then have "load_entry unpack faults d content request t contract = Inr q"
    by (simp add: load_entry_def may_fail_def assms(5) entry assms(4,13))
  then show ?thesis by (simp add: cache_load_def name assms(3))
qed

lemma store_without_faults:
  assumes "export_program st limit p = Inr z" and "plain_json (PDict request)" and "\<And>s. faults s = None"
    and "cache_store pack faults r1 r2 st limit request p previous d = (status, d')"
  shows "cs_state status \<noteq> ''write-error''"
proof -
  obtain name where "metadata_name request = Inr name"
    using json_text_reads [OF plain_jsonable [OF assms(2)], of None 0]
    by (auto simp: metadata_name_def canonical_sha256_def json_compact_def)
  moreover have "jsonable (cache_metadata request n sha)" for n sha
    using plain_jsonable [OF assms(2)] by (simp add: cache_metadata_def)
  then have "\<exists>content. manifest_bytes (cache_metadata request n sha) = Inr content" for n sha by (rule manifest_bytes_total)
  ultimately have "wp (store_steps pack faults r1 r2 st limit request p) (\<lambda>_ _. False) (\<lambda>_ _. True) d"
    unfolding store_steps_def wp_rules prod.case by (auto simp: assms(1,3) may_fail_def) (metis Inl_Inr_False)
  then show ?thesis using assms(4) by (auto simp: wp_def cache_store_def split: sum.splits prod.splits if_splits)
qed

lemma store_load:
  assumes "wf_program p" and "export_program st limit p = Inr z" and "load_program z t = Inr q"
    and "require_contract st limit p (Some contract) = Inr p" and "program_provenance p = Inr (Some v)"
    and "py_eq (provenance_to_json v) (dget request ''provenance'')"
    and "\<And>s. faults s = None" and "unpack [] = None" and "unpack (pack z) = z"
    and "plain_json (PDict request)"
    and "\<And>content. manifest_bytes (cache_metadata request (int (length (pack z))) (sha256 (pack z))) = Inr content \<Longrightarrow> length content \<le> 1024 * 1024"
    and "cache_store pack faults r1 r2 st limit request p previous d = (status, d')"
  shows "(cs_state status = ''stored'' \<or> cs_state status = ''refreshed'') \<and>
    cache_load unpack faults d' request t contract = Inr (Some q, \<lparr>cs_state = ''hit'', cs_diagnostic = None\<rparr>) \<and>
    pg_graph_blob q = pg_graph_blob p \<and> pg_patch_reports q = pg_patch_reports p"
proof -
  have ok: "cs_state status \<noteq> ''write-error''" by (rule store_without_faults [OF assms(2,10,7,12)])
  from assms(12) obtain name data content where s: "cs_state status = ''stored'' \<or> cs_state status = ''refreshed''"
    "stored_files pack st limit request p name data content"
    and d': "d' = d(program_name (sha256 data) \<mapsto> data, name \<mapsto> content, program_temp r1 := None, metadata_temp r2 := None)"
    by (rule cache_store_cases) (use ok in auto)
  from s(2) assms(2) have data: "data = pack z" and name: "metadata_name request = Inr name"
    and c: "manifest_bytes (cache_metadata request (int (length data)) (sha256 data)) = Inr content" by (auto simp: stored_files_def)
  have files: "d' name = Some content" "d' (program_name (sha256 data)) = Some data"
    using metadata_name_differs [OF name] by (auto simp: d')
  have "cache_load unpack faults d' request t contract = Inr (Some q, \<lparr>cs_state = ''hit'', cs_diagnostic = None\<rparr>)"
  proof (rule load_stored [where d = d' and faults = faults and unpack = unpack, OF assms(1) s(2) files])
    show "unpack (pack z') = z'" if "export_program st limit p = Inr z'" for z' using that assms(2,9) by simp
    show "length content \<le> 1024 * 1024" by (rule assms(11)) (use c in \<open>simp only: data\<close>)
    show "load_program (unpack data) t = Inr q" using assms(3,9) by (simp only: data)
  qed (fact assms)+
  then show ?thesis using s(1) restored_checked(2,3) [OF assms(1-6)] by blast
qed

lemmas stored_found = store_load [THEN conjunct2]

text \<open>What was stored is found: when no step fails, a program that satisfies the contract and the provenance of the
  request, and whose bundle \<open>load\<close> accepts, is stored; looking the request up afterwards is a hit, and gives a
  program with the same graph and patch reports. The hypotheses on \<open>pack\<close> and \<open>unpack\<close> are those of a ZIP
  writer and reader; the request and its metadata are a JSON document of at most 1 MiB.\<close>

theorem cache_store_load:
  assumes "wf_program p" and "export_program st limit p = Inr z" and "load_program z t = Inr q"
    and "require_contract st limit p (Some contract) = Inr p" and "program_provenance p = Inr (Some v)"
    and "py_eq (provenance_to_json v) (dget request ''provenance'')"
    and "\<And>s. faults s = None" and "unpack [] = None" and "unpack (pack z) = z"
    and "plain_json (PDict request)"
    and "\<And>content. manifest_bytes (cache_metadata request (int (length (pack z))) (sha256 (pack z))) = Inr content \<Longrightarrow> length content \<le> 1024 * 1024"
    and "cache_store pack faults r1 r2 st limit request p previous d = (status, d')"
  shows "(cs_state status = ''stored'' \<or> cs_state status = ''refreshed'') \<and>
    cache_load unpack faults d' request t contract = Inr (Some q, \<lparr>cs_state = ''hit'', cs_diagnostic = None\<rparr>) \<and>
    pg_graph_blob q = pg_graph_blob p \<and> pg_patch_reports q = pg_patch_reports p"
  by (rule store_load [OF assms])

section \<open>An example\<close>

definition cached_sample :: program where
  "cached_sample = sample_program\<lparr>pg_ir_provenance := Some bundle_provenance, pg_patch_reports := []\<rparr>"

definition cached_sample_provenance :: npu_provenance where
  "cached_sample_provenance = \<lparr>np_driver_index = 0, np_device_index = 0, np_driver_version = 7, np_vendor_id = 0x8086,
     np_device_id = 0x7D1D, np_graph_extension_version = 5, np_compiler_version = (8, 3)\<rparr>"

definition cached_sample_contract :: program_contract where
  "cached_sample_contract = \<lparr>pk_inputs = [(''x'', PTuple [PInt 2, PInt 3], PStr ''f16'')], pk_outputs = [(''y'', PTuple [PInt 6], PStr ''f32'')],
     pk_patch_count = 0, pk_compiler = ''8.3'', pk_npu = ''3720'', pk_targets_per_patch = None\<rparr>"

abbreviation cached_sample_request :: request where
  "cached_sample_request \<equiv> [(''provenance'', provenance_to_json cached_sample_provenance)]"

abbreviation no_faults :: faults where
  "no_faults \<equiv> \<lambda>_. None"

lemma cached_sample_valid:
  "wf_program cached_sample" "require_contract [] 0 cached_sample (Some cached_sample_contract) = Inr cached_sample"
  "program_provenance cached_sample = Inr (Some cached_sample_provenance)" "plain_json (PDict cached_sample_request)"
  "py_eq (provenance_to_json cached_sample_provenance) (dget cached_sample_request ''provenance'')"
  by (code_simp | (simp add: require_contract_def cached_sample_def sample_program_def input_contracts_def output_contracts_def
      validate_program_def same_boundary_def contract_boundary_def cached_sample_contract_def))+

text \<open>A program without patch reports whose manifest is small.\<close>

lemma small_bundle:
  assumes "wf_program p" and "input_contracts p = Inr inputs" and "output_contracts st limit p = Inr outputs"
    and "program_provenance p = Inr (Some v)" and "pg_patch_reports p = []" and "pg_graph_blob p \<noteq> []" and "length (pg_graph_blob p) < 1000"
    and "portable inputs" and "portable outputs"
    and "json_bound (Some 2) 0 (PDict [(''inputs'', PList (map contract_json inputs)), (''outputs'', PList (map contract_json outputs)),
      (''provenance'', provenance_to_json v)]) \<le> 100000"
  obtains z q where "export_program st limit p = Inr z" "load_program z t = Inr q"
proof -
  obtain m where m: "program_manifest st limit p = Inr m" "m = PDict [(''schema'', PStr ''npunlock.program.v1''),
    (''graph'', PDict [(''path'', PStr ''graph.blob''), (''size'', PInt (length (pg_graph_blob p))), (''sha256'', PStr (sha256 (pg_graph_blob p)))]),
    (''inputs'', PList (map contract_json inputs)), (''outputs'', PList (map contract_json outputs)),
    (''provenance'', provenance_to_json v), (''patch_reports'', PList [])]"
    using assms(2-5,7)
    by (simp add: program_manifest_def blob_entry_def identity_from_bytes_def ArtifactIdentity_def uint_check_def
        sha256_check_def is_digest_sha256 identity_to_json_def)
  have j: "jsonable m" using jsonable_contracts [of inputs] jsonable_contracts [of outputs] by (simp add: m(2) jsonable_provenance)
  then obtain content where content: "manifest_bytes m = Inr content" using manifest_bytes_total by blast
  have "json_bound (Some 2) 0 m \<le> 200000" using assms(7,10) by (simp add: m(2) json_newline_def sha256_length)
  then have "length content \<le> 1024 * 1024" using manifest_bytes_size [OF j content] by simp
  then have small: "within_limits p inputs outputs content" using assms(5-9) by (simp add: within_limits_def small_reports_def)
  obtain z where z: "export_program st limit p = Inr z" using m(1) content by (simp add: export_program_def)
  from export_load [OF assms(1) z, of t] m(1) content small assms(2,3) show ?thesis by (intro that [OF z]) auto
qed

lemma cached_sample_bundle:
  obtains z q where "export_program [] 0 cached_sample = Inr z" "load_program z 500 = Inr q"
  by (rule small_bundle [OF cached_sample_valid(1) _ _ cached_sample_valid(3)])
    (auto simp: input_contracts_def output_contracts_def cached_sample_def sample_program_def portable_def contract_dtypes_def
      contract_json_def provenance_to_json_def cached_sample_provenance_def json_newline_def)

lemma cached_sample_small:
  assumes "manifest_bytes (cache_metadata cached_sample_request 1 (sha256 data)) = Inr content"
  shows "length content \<le> 1024 * 1024"
proof -
  have "jsonable (cache_metadata cached_sample_request 1 (sha256 data))" by (simp add: cache_metadata_def jsonable_provenance)
  moreover have "json_bound (Some 2) 0 (cache_metadata cached_sample_request 1 (sha256 data)) \<le> 100000"
    by (simp add: cache_metadata_def provenance_to_json_def cached_sample_provenance_def json_newline_def sha256_length program_name_def)
  ultimately show ?thesis using manifest_bytes_size assms by fastforce
qed

text \<open>A packing for one archive, the bundle of the example.\<close>

abbreviation unpack_only :: "zip_file \<Rightarrow> bytes \<Rightarrow> zip_file" where
  "unpack_only z data \<equiv> if data = [] then None else z"

theorem cache_store_load_witness:
  "\<exists>z q d'. export_program [] 0 cached_sample = Inr z \<and>
     snd (cache_store (\<lambda>_. [80]) no_faults ''a'' ''b'' [] 0 cached_sample_request cached_sample
       \<lparr>cs_state = ''miss'', cs_diagnostic = None\<rparr> (\<lambda>_. None)) = d' \<and>
     cache_load (unpack_only z) no_faults d' cached_sample_request 500 cached_sample_contract =
       Inr (Some q, \<lparr>cs_state = ''hit'', cs_diagnostic = None\<rparr>) \<and> pg_graph_blob q = [3]"
proof -
  obtain z q where z: "export_program [] 0 cached_sample = Inr z" "load_program z 500 = Inr q" by (rule cached_sample_bundle)
  obtain status d' where s: "cache_store (\<lambda>_. [80]) no_faults ''a'' ''b'' [] 0 cached_sample_request cached_sample
       \<lparr>cs_state = ''miss'', cs_diagnostic = None\<rparr> (\<lambda>_. None) = (status, d')" by fastforce
  have "cache_load (unpack_only z) no_faults d' cached_sample_request 500 cached_sample_contract =
      Inr (Some q, \<lparr>cs_state = ''hit'', cs_diagnostic = None\<rparr>) \<and> pg_graph_blob q = pg_graph_blob cached_sample"
    using cache_store_load [OF cached_sample_valid(1) z cached_sample_valid(2,3,5) _ _ _ cached_sample_valid(4) _ s, of "unpack_only z"]
      cached_sample_small by simp
  with z s show ?thesis by (auto simp: cached_sample_def sample_program_def)
qed

theorem cache_load_fails_closed_witness:
  "\<exists>unpack d p status v. cache_load unpack no_faults d cached_sample_request 500 cached_sample_contract = Inr (Some p, status) \<and>
     cs_state status = ''hit'' \<and> program_provenance p = Inr (Some v) \<and> py_eq (provenance_to_json v) (provenance_to_json cached_sample_provenance)"
proof -
  obtain z q where z: "export_program [] 0 cached_sample = Inr z" "load_program z 500 = Inr q" by (rule cached_sample_bundle)
  obtain status d' where s: "cache_store (\<lambda>_. [80]) no_faults ''a'' ''b'' [] 0 cached_sample_request cached_sample
       \<lparr>cs_state = ''miss'', cs_diagnostic = None\<rparr> (\<lambda>_. None) = (status, d')" by fastforce
  have ok: "cs_state status \<noteq> ''write-error''" by (rule store_without_faults [OF z(1) cached_sample_valid(4) _ s]) simp
  from s obtain name content where f: "stored_files (\<lambda>_. [80]) [] 0 cached_sample_request cached_sample name [80] content"
    and d': "d' = (\<lambda>_. None)(program_name (sha256 [80]) \<mapsto> [80], name \<mapsto> content, program_temp ''a'' := None, metadata_temp ''b'' := None)"
    by (rule cache_store_cases) (use ok in \<open>auto simp: stored_files_def\<close>)
  have name: "metadata_name cached_sample_request = Inr name" and
    small: "length content \<le> 1024 * 1024" using f cached_sample_small by (auto simp: stored_files_def)
  have "cache_load (unpack_only z) no_faults d' cached_sample_request 500 cached_sample_contract =
      Inr (Some q, \<lparr>cs_state = ''hit'', cs_diagnostic = None\<rparr>)"
    by (rule load_stored [where d = d', OF cached_sample_valid(1) f _ _ _ _ _ cached_sample_valid(4) small cached_sample_valid(2,3,5)])
      (use metadata_name_differs [OF name] z in \<open>auto simp: d'\<close>)
  with cache_load_fails_closed [OF this] show ?thesis by (fastforce simp: dget_def)
qed

text \<open>The disk is full while the bundle is written.\<close>

theorem cache_store_atomic_witness:
  "\<exists>d'. cache_store (\<lambda>_. [80, 75]) (\<lambda>s. if s = WriteProgram then Some (OSError ''no space left'', [80]) else None) ''a'' ''b'' [] 0
       cached_sample_request cached_sample \<lparr>cs_state = ''miss'', cs_diagnostic = None\<rparr> (\<lambda>_. None) =
     (\<lparr>cs_state = ''write-error'', cs_diagnostic = Some (OSError ''no space left'')\<rparr>, d') \<and> addressed d' \<and> d' (program_temp ''a'') = None"
proof -
  let ?faults = "\<lambda>s. if s = WriteProgram then Some (OSError ''no space left'', [80]) else None"
  obtain z q where z: "export_program [] 0 cached_sample = Inr z" by (rule cached_sample_bundle)
  obtain status d' where s: "cache_store (\<lambda>_. [80, 75]) ?faults ''a'' ''b'' [] 0 cached_sample_request cached_sample
       \<lparr>cs_state = ''miss'', cs_diagnostic = None\<rparr> (\<lambda>_. None) = (status, d')" by fastforce
  have "status = \<lparr>cs_state = ''write-error'', cs_diagnostic = Some (OSError ''no space left'')\<rparr>"
    using s z by (auto simp: cache_store_def store_steps_def bind_io_def pure_io_def may_fail_def create_file_def write_file_def)
  with cache_store_atomic [OF s] s show ?thesis by (auto simp: addressed_def)
qed

end
