(* ===== verification/Compile_Cached.thy ===== *)
theory Compile_Cached
  imports Cache
begin

text \<open>
  \<open>compile_cached\<close> (\<open>__init__.py\<close>): the kernels and the dependencies that identify a compilation, the request, and the
  compilation through the program cache. The files below the runtime and MoviTools directories and the worker
  executables are read twice, before and after a build; each reading is a view of them.
\<close>

section \<open>The request\<close>

definition add_cached_kernel :: "store \<Rightarrow> nat list \<Rightarrow> symbolic \<times> pyval \<Rightarrow> (nat \<times> kernel) list \<Rightarrow> (nat \<times> kernel) list res" where
  "add_cached_kernel st customs = (\<lambda>(output, v) by_node.
     case output of
       NotSymbolic _ \<Rightarrow> Inl (ValueError ''kernel override keys must be outputs of custom nodes in this graph'')
     | Symbolic t \<Rightarrow>
         let nid = t_producer t; node = node_at st nid in
         if nid \<notin> set customs then Inl (ValueError ''kernel override keys must be outputs of custom nodes in this graph'')
         else if t \<noteq> hd (node_outputs nid node) \<or> length (n_output_specs node) \<noteq> 1
         then Inl (ValueError ''kernel overrides currently require the sole output of a custom node'')
         else if map_of by_node nid \<noteq> None then Inl (ValueError ''one custom node received more than one kernel override'')
         else (case v of
             PKernel k \<Rightarrow> Inr (by_node @ [(nid, k)])
           | _ \<Rightarrow> Inl (TypeError ''kernel override values must be KernelSpec or CompiledKernel instances'')))"

definition cached_kernel ::
  "file_reader \<Rightarrow> store \<Rightarrow> (nat \<times> kernel) list \<Rightarrow> string list \<Rightarrow> bytes option \<Rightarrow> nat \<Rightarrow> kernel res" where
  "cached_kernel fs st by_node definitions script nid =
     (case map_of by_node nid of
        Some k \<Rightarrow> Inr k
      | None \<Rightarrow>
          (case dget (n_metadata (node_at st nid)) ''_kernel'' of
             PNone \<Rightarrow> Inl (ValueError ''custom node has no C source or compiled kernel'')
           | PKernel k \<Rightarrow> Inr k
           | source \<Rightarrow>
               bind_res (KernelSpec fs source (PTuple (map PStr definitions)) (script_value script)) (\<lambda>spec. Inr (KSpec spec))))"

definition cached_kernel_specs ::
  "file_reader \<Rightarrow> store \<Rightarrow> nat list \<Rightarrow> (symbolic \<times> pyval) list option \<Rightarrow> pyval \<Rightarrow> pyval \<Rightarrow> kernel list res" where
  "cached_kernel_specs fs st customs kernels definitions script =
     (case kernels of
        None \<Rightarrow> Inl (TypeError ''kernels must map custom output tensors to KernelSpec or CompiledKernel values'')
      | Some supplied \<Rightarrow>
          bind_res (fold_res (add_cached_kernel st customs) supplied []) (\<lambda>by_node.
          bind_res (compiler_definitions definitions) (\<lambda>default_definitions.
          bind_res (linker_script fs script) (\<lambda>default_linker.
          map_res (cached_kernel fs st by_node default_definitions default_linker) customs))))"

definition artifact_json :: "bytes \<Rightarrow> (string \<times> pyval) list res" where
  "artifact_json data = bind_res (identity_from_bytes data) (\<lambda>identity. Inr (identity_to_json identity))"

definition kernel_cache_json :: "kernel \<Rightarrow> pyval res" where
  "kernel_cache_json k =
     (case k of
        KCompiled compiled \<Rightarrow>
          bind_res (artifact_json (ck_elf compiled)) (\<lambda>identity.
          Inr (PDict [(''kind'', PStr ''elf''), (''identity'', PDict identity)]))
      | KSpec spec \<Rightarrow>
          bind_res (artifact_json (ks_source spec)) (\<lambda>source.
          bind_res (case ks_linker_script spec of
              None \<Rightarrow> Inr [(''source'', PStr ''builtin'')]
            | Some script \<Rightarrow> bind_res (artifact_json script) (\<lambda>identity. Inr ((''source'', PStr ''caller'') # identity))) (\<lambda>linker.
          Inr (PDict [(''kind'', PStr ''source''), (''source'', PDict source),
            (''definitions'', PList (map PStr (ks_definitions spec))), (''linker_script'', PDict linker)]))))"

text \<open>What a process sees of the files its compilation depends on.\<close>

record dependency_view =
  dv_files :: file_tree
  dv_workers :: "string \<Rightarrow> observed_file"

definition cache_dependency_json ::
  "dependency_view \<Rightarrow> string \<Rightarrow> string option \<Rightarrow> string option \<Rightarrow> string option \<Rightarrow> (string \<times> pyval) list res" where
  "cache_dependency_json view runtime_root movi_root ir_worker movi_worker =
     bind_res (native_runtime_identity (dv_files view) runtime_root) (\<lambda>runtime.
     bind_res (case movi_root of None \<Rightarrow> Inr PNone | Some dir \<Rightarrow> movitools_identity (dv_files view) dir) (\<lambda>movitools.
     bind_res (worker_identity (dv_workers view) ir_worker) (\<lambda>ir.
     bind_res (case movi_root of None \<Rightarrow> Inr PNone | Some _ \<Rightarrow> worker_identity (dv_workers view) movi_worker) (\<lambda>movi.
     Inr [(''native_runtime'', runtime), (''movitools'', movitools), (''workers'', PDict [(''ir'', ir), (''movi'', movi)])]))))"

definition compilation_request ::
  "serialized_ir \<Rightarrow> string \<Rightarrow> kernel list \<Rightarrow> npu_provenance \<Rightarrow> (string \<times> pyval) list \<Rightarrow> carrier_contract \<Rightarrow> program_contract \<Rightarrow> request res" where
  "compilation_request serialized flags ks provenance dependencies carrier contract =
     bind_res (artifact_json (si_xml serialized)) (\<lambda>xml.
     bind_res (artifact_json (si_weights serialized)) (\<lambda>weights.
     bind_res (map_res kernel_cache_json ks) (\<lambda>kernels.
     bind_res (program_contract_to_json contract) (\<lambda>contract_json.
     Inr ([(''schema'', PStr ''npunlock.compilation-request.v1''),
         (''ir'', PDict [(''xml'', PDict xml), (''weights'', PDict weights), (''build_flags'', PStr flags)]),
         (''kernels'', PList kernels), (''provenance'', provenance_to_json provenance)] @ dependencies @
       [(''carrier_contract'', carrier_contract_to_json carrier), (''program_contract'', contract_json)])))))"

section \<open>The compilation\<close>

text \<open>The graph, its options, and the process it is compiled in.\<close>

record compile_job =
  cj_store :: store
  cj_limit :: nat
  cj_graph :: graph
  cj_carrier :: carrier_contract
  cj_contract :: program_contract
  cj_kernels :: "(symbolic \<times> pyval) list option"
  cj_script :: pyval
  cj_definitions :: pyval
  cj_build_flags :: string
  cj_timeout_ms :: int
  cj_runtime_root :: string
  cj_movi_dll_dir :: "string option"
  cj_ir_worker :: "string option"
  cj_movi_worker :: "string option"

text \<open>The explanation is that of the plan, or the text of a program loaded from the cache.\<close>

record cached_result =
  cr_program :: program
  cr_cache :: cache_status
  cr_plan :: "build_plan option"

definition prepare_contracted :: "native_lib \<Rightarrow> compile_job \<Rightarrow> prepared_graph res" where
  "prepare_contracted lib j =
     bind_res (prepare lib (cj_store j) (cj_limit j) (Some (cj_graph j)) (cj_build_flags j) (cj_timeout_ms j) (cj_ir_worker j)) (\<lambda>p.
     require_carrier p (Some (cj_carrier j)))"

definition first_output :: "store \<Rightarrow> nat \<Rightarrow> symbolic" where
  "first_output st n = Symbolic (hd (node_outputs n (node_at st n)))"

definition build_contracted ::
  "native_lib \<Rightarrow> file_reader \<Rightarrow> process \<Rightarrow> compile_job \<Rightarrow> serialized_ir \<Rightarrow> kernel list \<Rightarrow> string option \<Rightarrow> prepared_graph \<Rightarrow>
    (build_plan \<times> program) res" where
  "build_contracted lib fs px j serialized ks movi p =
     bind_res (plan lib fs p (Some [])
         (Some (map (\<lambda>(n, k). (first_output (cj_store j) n, PKernel k)) (zip (si_custom_nodes serialized) ks))) PNone (PTuple [])) (\<lambda>b.
     bind_res (build_plan_run lib px b movi (cj_movi_worker j)) (\<lambda>built.
     bind_res (require_contract (cj_store j) (cj_limit j) built (Some (cj_contract j))) (\<lambda>prog.
     Inr (b, prog))))"

text \<open>What is known before the cache is asked: the IR, its build flags, the kernels and the MoviTools directory.\<close>

definition resolve_job ::
  "file_reader \<Rightarrow> process \<Rightarrow> compile_job \<Rightarrow> (serialized_ir \<times> string \<times> kernel list \<times> string option) res" where
  "resolve_job fs px j =
     bind_res (serialize_ir (cj_store j) (cj_limit j) (cj_graph j) NoOverrides) (\<lambda>serialized.
     bind_res (effective_build_flags (cj_store j) serialized (cj_build_flags j)) (\<lambda>flags.
     bind_res (cached_kernel_specs fs (cj_store j) (si_custom_nodes serialized) (cj_kernels j) (cj_definitions j) (cj_script j)) (\<lambda>ks.
     let needs_movitools = list_ex needs_compiler ks;
         movi = (if needs_movitools then resolve_movi_dll_dir px (cj_movi_dll_dir j) else None)
     in if needs_movitools \<and> movi = None then Inl (ValueError ''cached source compilation requires an MVC_DEPEND root'')
        else Inr (serialized, flags, ks, movi))))"

definition compile_uncached :: "native_lib \<Rightarrow> file_reader \<Rightarrow> process \<Rightarrow> compile_job \<Rightarrow> cached_result res" where
  "compile_uncached lib fs px j =
     bind_res (resolve_job fs px j) (\<lambda>(serialized, flags, ks, movi).
     bind_res (prepare_contracted lib j) (\<lambda>p.
     bind_res (build_contracted lib fs px j serialized ks movi p) (\<lambda>(b, prog).
     Inr \<lparr>cr_program = prog, cr_cache = \<lparr>cs_state = ''disabled'', cs_diagnostic = None\<rparr>, cr_plan = Some b\<rparr>)))"

text \<open>The build after a miss; \<open>after\<close> is the second reading of the dependencies.\<close>

definition build_missing ::
  "native_lib \<Rightarrow> file_reader \<Rightarrow> process \<Rightarrow> compile_job \<Rightarrow> dependency_view \<Rightarrow> serialized_ir \<Rightarrow> kernel list \<Rightarrow> string option \<Rightarrow>
    npu_provenance \<Rightarrow> (string \<times> pyval) list \<Rightarrow> (build_plan \<times> program) res" where
  "build_missing lib fs px j after serialized ks movi provenance dependencies =
     bind_res (prepare_contracted lib j) (\<lambda>p.
     bind_res (provenance_from_ir_result (pp_ir_provenance p)) (\<lambda>used.
     if used \<noteq> provenance then Inl (RuntimeError ''NPU driver/compiler provenance changed during cached compilation'')
     else
       bind_res (build_contracted lib fs px j serialized ks movi p) (\<lambda>(b, prog).
       bind_res (cache_dependency_json after (cj_runtime_root j) movi (cj_ir_worker j) (cj_movi_worker j)) (\<lambda>current.
       if \<not> py_eq (PDict current) (PDict dependencies)
       then Inl (RuntimeError ''compiler/runtime dependencies changed during cached compilation'')
       else Inr (b, prog)))))"

definition job_request ::
  "native_lib \<Rightarrow> file_reader \<Rightarrow> process \<Rightarrow> compile_job \<Rightarrow> dependency_view \<Rightarrow> (npu_provenance \<times> (string \<times> pyval) list \<times> request) res" where
  "job_request lib fs px j before =
     bind_res (resolve_job fs px j) (\<lambda>(serialized, flags, ks, movi).
     bind_res (cache_dependency_json before (cj_runtime_root j) movi (cj_ir_worker j) (cj_movi_worker j)) (\<lambda>dependencies.
     bind_res (query_ir_provenance lib (cj_timeout_ms j) (cj_ir_worker j)) (\<lambda>queried.
     bind_res (provenance_from_ir_result queried) (\<lambda>provenance.
     bind_res (compilation_request serialized flags ks provenance dependencies (cj_carrier j) (cj_contract j)) (\<lambda>request.
     Inr (provenance, dependencies, request))))))"

text \<open>The compilation through the cache directory \<open>d\<close>: a failure leaves it as it was, since the store comes last and
  does not raise.\<close>

definition compile_cached ::
  "native_lib \<Rightarrow> file_reader \<Rightarrow> process \<Rightarrow> (zip_file \<Rightarrow> bytes) \<Rightarrow> (bytes \<Rightarrow> zip_file) \<Rightarrow> faults \<Rightarrow> string \<Rightarrow> string \<Rightarrow> compile_job \<Rightarrow>
    dependency_view \<Rightarrow> dependency_view \<Rightarrow> (string \<times> bool) option \<Rightarrow> directory \<Rightarrow> (cached_result \<times> directory) res" where
  "compile_cached lib fs px pack unpack faults r1 r2 j before after cache_dir d =
     (case cache_dir of
        None \<Rightarrow> bind_res (compile_uncached lib fs px j) (\<lambda>r. Inr (r, d))
      | Some (path, obstructed) \<Rightarrow>
          bind_res (resolve_job fs px j) (\<lambda>(serialized, flags, ks, movi).
          bind_res (job_request lib fs px j before) (\<lambda>(provenance, dependencies, request).
          bind_res (open_cache path obstructed) (\<lambda>_.
          bind_res (cache_load unpack faults d request (cj_timeout_ms j) (cj_contract j)) (\<lambda>(cached, status).
          case cached of
            Some prog \<Rightarrow> Inr (\<lparr>cr_program = prog, cr_cache = status, cr_plan = None\<rparr>, d)
          | None \<Rightarrow>
              bind_res (build_missing lib fs px j after serialized ks movi provenance dependencies) (\<lambda>(b, prog).
              let (stored, d') = cache_store pack faults r1 r2 (cj_store j) (cj_limit j) request prog status d
              in Inr (\<lparr>cr_program = prog, cr_cache = stored, cr_plan = Some b\<rparr>, d')))))))"

section \<open>What a compilation returns\<close>

lemma build_contracted_Inr:
  assumes "build_contracted lib fs px j serialized ks movi p = Inr (b, prog)"
  shows "build_plan_run lib px b movi (cj_movi_worker j) = Inr prog" and "bp_prepared b = p"
    and "require_contract (cj_store j) (cj_limit j) prog (Some (cj_contract j)) = Inr prog"
  using assms by (auto simp: build_contracted_def bind_res_eq_Inr plan_def option_case_Inr require_contract_def)

lemma prepare_contracted_Inr:
  "prepare_contracted lib j = Inr p \<longleftrightarrow>
     prepare lib (cj_store j) (cj_limit j) (Some (cj_graph j)) (cj_build_flags j) (cj_timeout_ms j) (cj_ir_worker j) = Inr p \<and>
     validate_carrier (cj_carrier j) (pp_groups p) (pp_mappings p) = Inr ()"
  by (auto simp: prepare_contracted_def bind_res_eq_Inr require_carrier_def)

text \<open>A program built by the plan of the job, from a carrier with the groups of the carrier contract.\<close>

definition built_from :: "native_lib \<Rightarrow> process \<Rightarrow> compile_job \<Rightarrow> string option \<Rightarrow> build_plan \<Rightarrow> program \<Rightarrow> bool" where
  "built_from lib px j movi b prog \<longleftrightarrow>
     prepare lib (cj_store j) (cj_limit j) (Some (cj_graph j)) (cj_build_flags j) (cj_timeout_ms j) (cj_ir_worker j) = Inr (bp_prepared b) \<and>
     validate_carrier (cj_carrier j) (pp_groups (bp_prepared b)) (pp_mappings (bp_prepared b)) = Inr () \<and>
     build_plan_run lib px b movi (cj_movi_worker j) = Inr prog"

lemma build_missing_Inr:
  assumes "build_missing lib fs px j after serialized ks movi provenance dependencies = Inr (b, prog)"
  shows "built_from lib px j movi b prog"
    and "require_contract (cj_store j) (cj_limit j) prog (Some (cj_contract j)) = Inr prog"
    and "provenance_from_ir_result (pp_ir_provenance (bp_prepared b)) = Inr provenance"
    and "\<exists>current. cache_dependency_json after (cj_runtime_root j) movi (cj_ir_worker j) (cj_movi_worker j) = Inr current \<and>
      py_eq (PDict current) (PDict dependencies)"
proof -
  from assms obtain p current where p: "prepare_contracted lib j = Inr p" "provenance_from_ir_result (pp_ir_provenance p) = Inr provenance"
    and b: "build_contracted lib fs px j serialized ks movi p = Inr (b, prog)"
    and c: "cache_dependency_json after (cj_runtime_root j) movi (cj_ir_worker j) (cj_movi_worker j) = Inr current"
      "py_eq (PDict current) (PDict dependencies)"
    by (auto simp: build_missing_def bind_res_eq_Inr if_Inl_Inr simp del: py_eq.simps)
  then show "built_from lib px j movi b prog" and "require_contract (cj_store j) (cj_limit j) prog (Some (cj_contract j)) = Inr prog"
    and "provenance_from_ir_result (pp_ir_provenance (bp_prepared b)) = Inr provenance"
    and "\<exists>current. cache_dependency_json after (cj_runtime_root j) movi (cj_ir_worker j) (cj_movi_worker j) = Inr current \<and>
      py_eq (PDict current) (PDict dependencies)"
    using build_contracted_Inr [OF b] by (auto simp: built_from_def prepare_contracted_Inr)
qed

lemma built_program:
  assumes "built_from lib px j movi b prog"
  shows "wf_program prog" and "pg_ir_provenance prog = Some (pp_ir_provenance (bp_prepared b))"
proof -
  from assms obtain p where p: "make_program (pp_store (bp_prepared b)) (pp_limit (bp_prepared b)) p = Inr prog"
    "pg_saved_inputs p = []" "pg_saved_outputs p = []" "pg_ir_provenance p = Some (pp_ir_provenance (bp_prepared b))"
    by (auto simp: built_from_def build_plan_run_def bind_res_eq_Inr Let_def if_Inl_Inr)
  then show "wf_program prog" "pg_ir_provenance prog = Some (pp_ir_provenance (bp_prepared b))"
    by (auto simp: make_program_def bind_res_eq_Inr wf_program_def graph_inputs_valid graph_outputs_valid split: option.splits)
qed

lemma compilation_request_provenance:
  assumes "compilation_request serialized flags ks provenance dependencies carrier contract = Inr request"
  shows "dget request ''provenance'' = provenance_to_json provenance"
  using assms by (auto simp: compilation_request_def bind_res_eq_Inr dget_def)

lemma compile_cached_cases:
  assumes "compile_cached lib fs px pack unpack faults r1 r2 j before after cache_dir d = Inr (r, d')"
  obtains (disabled) serialized flags ks movi b prog where "cache_dir = None" "resolve_job fs px j = Inr (serialized, flags, ks, movi)"
      "built_from lib px j movi b prog" "require_contract (cj_store j) (cj_limit j) prog (Some (cj_contract j)) = Inr prog"
      "r = \<lparr>cr_program = prog, cr_cache = \<lparr>cs_state = ''disabled'', cs_diagnostic = None\<rparr>, cr_plan = Some b\<rparr>" "d' = d"
  | (hit) path provenance dependencies request prog status where "cache_dir = Some (path, False)"
      "job_request lib fs px j before = Inr (provenance, dependencies, request)"
      "cache_load unpack faults d request (cj_timeout_ms j) (cj_contract j) = Inr (Some prog, status)"
      "r = \<lparr>cr_program = prog, cr_cache = status, cr_plan = None\<rparr>" "d' = d"
  | (built) path serialized flags ks movi provenance dependencies request status b prog stored where "cache_dir = Some (path, False)"
      "resolve_job fs px j = Inr (serialized, flags, ks, movi)" "job_request lib fs px j before = Inr (provenance, dependencies, request)"
      "cache_load unpack faults d request (cj_timeout_ms j) (cj_contract j) = Inr (None, status)"
      "build_missing lib fs px j after serialized ks movi provenance dependencies = Inr (b, prog)"
      "cache_store pack faults r1 r2 (cj_store j) (cj_limit j) request prog status d = (stored, d')"
      "r = \<lparr>cr_program = prog, cr_cache = stored, cr_plan = Some b\<rparr>"
proof (cases cache_dir)
  case None
  with assms obtain serialized flags ks movi p b prog where "resolve_job fs px j = Inr (serialized, flags, ks, movi)"
    "prepare_contracted lib j = Inr p" "build_contracted lib fs px j serialized ks movi p = Inr (b, prog)"
    "r = \<lparr>cr_program = prog, cr_cache = \<lparr>cs_state = ''disabled'', cs_diagnostic = None\<rparr>, cr_plan = Some b\<rparr>" "d' = d"
    by (auto simp: compile_cached_def compile_uncached_def bind_res_eq_Inr)
  moreover from this have "built_from lib px j movi b prog" "require_contract (cj_store j) (cj_limit j) prog (Some (cj_contract j)) = Inr prog"
    using build_contracted_Inr [of lib fs px j serialized ks movi p b prog] by (auto simp: built_from_def prepare_contracted_Inr)
  ultimately show ?thesis by (intro disabled [OF None])
next
  case (Some place)
  then obtain path obstructed where place: "cache_dir = Some (path, obstructed)" by (cases place) simp
  note run = assms [unfolded place compile_cached_def option.case prod.case]
  from run obtain serialized flags ks movi where s: "resolve_job fs px j = Inr (serialized, flags, ks, movi)"
    by (auto simp: bind_res_eq_Inr)
  note run = run [unfolded s bind_res.simps prod.case]
  from run obtain provenance dependencies request where q: "job_request lib fs px j before = Inr (provenance, dependencies, request)"
    by (auto simp: bind_res_eq_Inr)
  note run = run [unfolded q bind_res.simps prod.case]
  have o': "\<not> obstructed" using run by (auto simp: open_cache_def bind_res_eq_Inr if_Inl_Inr)
  from run obtain cached status where l: "cache_load unpack faults d request (cj_timeout_ms j) (cj_contract j) = Inr (cached, status)"
    by (auto simp: bind_res_eq_Inr)
  from run have rest: "(case cached of Some prog \<Rightarrow> Inr (\<lparr>cr_program = prog, cr_cache = status, cr_plan = None\<rparr>, d)
       | None \<Rightarrow> bind_res (build_missing lib fs px j after serialized ks movi provenance dependencies) (\<lambda>(b, prog).
           let (stored, d') = cache_store pack faults r1 r2 (cj_store j) (cj_limit j) request prog status d
           in Inr (\<lparr>cr_program = prog, cr_cache = stored, cr_plan = Some b\<rparr>, d'))) = Inr (r, d')"
    unfolding l by (cases "open_cache path obstructed") simp_all
  show ?thesis
  proof (cases cached)
    case None
    note rest = rest [unfolded None option.case]
    from rest obtain b prog where b: "build_missing lib fs px j after serialized ks movi provenance dependencies = Inr (b, prog)"
      by (auto simp: bind_res_eq_Inr)
    obtain stored d1 where c: "cache_store pack faults r1 r2 (cj_store j) (cj_limit j) request prog status d = (stored, d1)"
      by fastforce
    from rest have r: "d1 = d'" "r = \<lparr>cr_program = prog, cr_cache = stored, cr_plan = Some b\<rparr>" by (simp_all add: b c)
    show ?thesis by (rule built [OF _ s q l [unfolded None] b c [unfolded r(1)] r(2)]) (use place o' in simp)
  next
    case (Some prog)
    with hit q l rest place o' show ?thesis by simp
  qed
qed


lemma provenance_json_eq [simp]: "py_eq (provenance_to_json v) (provenance_to_json v)"
  by (simp add: provenance_to_json_def)


section \<open>An example\<close>

text \<open>A graph with one ordinary operator, compiled with the library of the bundle example. Every file the compilation
  depends on is the byte 1.\<close>

definition plain_store :: store where
  "plain_store =
    (let x = unary_node\<lparr>n_op := ''Parameter'', n_inputs := [], n_name := Some ''x'', n_metadata := []\<rparr>
     in [x, x\<lparr>n_op := ''Relu'', n_inputs := node_outputs 0 x, n_name := Some ''y''\<rparr>])"

definition plain_contract :: program_contract where
  "plain_contract = \<lparr>pk_inputs = [(''x'', PTuple [PInt 8], PStr ''f16'')], pk_outputs = [(''y'', PTuple [PInt 8], PStr ''f16'')],
     pk_patch_count = 0, pk_compiler = ''8.3'', pk_npu = ''3720'', pk_targets_per_patch = None\<rparr>"

definition plain_job :: compile_job where
  "plain_job = \<lparr>cj_store = plain_store, cj_limit = 100,
     cj_graph = \<lparr>g_inputs = node_outputs 0 (node_at plain_store 0), g_outputs = node_outputs 1 (node_at plain_store 1), g_name = ''g''\<rparr>,
     cj_carrier = \<lparr>ck_groups = [], ck_mapping_indices = None\<rparr>, cj_contract = plain_contract, cj_kernels = Some [],
     cj_script = PNone, cj_definitions = PTuple [], cj_build_flags = '''', cj_timeout_ms = 100, cj_runtime_root = ''runtime'',
     cj_movi_dll_dir = None, cj_ir_worker = None, cj_movi_worker = None\<rparr>"

definition plain_view :: dependency_view where
  "plain_view = \<lparr>dv_files = \<lambda>_ _. Stable [1], dv_workers = \<lambda>_. Missing\<rparr>"

abbreviation plain_process :: process where
  "plain_process \<equiv> \<lparr>px_configured = None, px_environment = None\<rparr>"

abbreviation plain_boundary :: "string \<Rightarrow> tensor_contract list" where
  "plain_boundary name \<equiv> [\<lparr>tk_name = name, tk_spec = \<lparr>ts_shape = [8], ts_dtype = ''f16''\<rparr>\<rparr>]"

lemma plain_resolved:
  "case resolve_job (\<lambda>_. None) plain_process plain_job of Inl _ \<Rightarrow> False | Inr (s, flags, ks, movi) \<Rightarrow> si_custom_nodes s = [] \<and>
     length (si_xml s) < 10000 \<and> length (si_weights s) = 0 \<and> flags = [] \<and> ks = [] \<and> movi = None"
  by code_simp

lemma plain_prepared:
  "case prepare_contracted bundle_lib plain_job of Inl _ \<Rightarrow> False | Inr p \<Rightarrow> custom_nodes p = [] \<and> pp_ir_provenance p = bundle_provenance \<and>
     pp_embedded_targets p = None \<and> pp_saved_indices p = None \<and> pp_automatic_indices p = None \<and> pp_store p = plain_store \<and>
     pp_limit p = 100 \<and> pp_graph p = cj_graph plain_job \<and> pp_timeout_ms p = 100"
  by code_simp

lemma plain_boundaries:
  "graph_inputs (cj_graph plain_job) = Inr (plain_boundary ''x'')"
  "graph_outputs plain_store 100 (cj_graph plain_job) = Inr (plain_boundary ''y'')"
  by code_simp+

lemma plain_provenance:
  "bind_res (query_ir_provenance bundle_lib 100 None) provenance_from_ir_result = Inr cached_sample_provenance"
  "provenance_from_ir_result bundle_provenance = Inr cached_sample_provenance"
  by code_simp+

lemma artifact_json_small: "length data < 2 ^ 63 \<Longrightarrow> artifact_json data = Inr (bytes_identity data)"
  by (simp add: artifact_json_def identity_from_bytes_def ArtifactIdentity_def uint_check_def sha256_check_def is_digest_sha256
      identity_to_json_def bytes_identity_def)

lemma plain_request:
  obtains dependencies request where
    "job_request bundle_lib (\<lambda>_. None) plain_process plain_job plain_view = Inr (cached_sample_provenance, dependencies, request)"
    "plain_json (PDict request)"
    "\<And>n sha content. n < 1000 \<Longrightarrow> length sha = 64 \<Longrightarrow> manifest_bytes (cache_metadata request (int n) sha) = Inr content \<Longrightarrow>
       length content \<le> 1024 * 1024"
    "cache_dependency_json plain_view ''runtime'' None None None = Inr dependencies"
proof -
  obtain s where s: "resolve_job (\<lambda>_. None) plain_process plain_job = Inr (s, [], [], None)"
    and f: "length (si_xml s) < 10000" "si_weights s = []"
    using plain_resolved by (auto split: sum.splits)
  let ?file = "\<lambda>name. PDict ((''name'', PStr name) # bytes_identity [1])"
  let ?deps = "[(''native_runtime'', PList [?file ''npunlock.dll'', ?file ''npunlock_worker.exe'']), (''movitools'', PNone),
    (''workers'', PDict [(''ir'', PDict [(''source'', PStr ''bundled'')]), (''movi'', PNone)])]"
  have deps: "cache_dependency_json plain_view ''runtime'' None None None = Inr ?deps"
    by (simp add: cache_dependency_json_def native_runtime_identity_def dependency_identity_def native_files_def plain_view_def
        hash_file_stable_def worker_identity_def)
  let ?contract = "PDict [(''inputs'', PList [PDict [(''name'', PStr ''x''), (''shape'', PList [PInt 8]), (''dtype'', PStr ''f16'')]]),
    (''outputs'', PList [PDict [(''name'', PStr ''y''), (''shape'', PList [PInt 8]), (''dtype'', PStr ''f16'')]]),
    (''patch_count'', PInt 0), (''compiler'', PStr ''8.3''), (''npu'', PStr ''3720''), (''targets_per_patch'', PNone)]"
  let ?request = "[(''schema'', PStr ''npunlock.compilation-request.v1''),
      (''ir'', PDict [(''xml'', PDict (bytes_identity (si_xml s))), (''weights'', PDict (bytes_identity [])), (''build_flags'', PStr [])]),
      (''kernels'', PList []), (''provenance'', provenance_to_json cached_sample_provenance)] @ ?deps @
    [(''carrier_contract'', PDict [(''groups'', PList []), (''mapping_indices'', PNone)]), (''program_contract'', ?contract)]"
  have "program_contract_to_json plain_contract = Inr ?contract" by code_simp
  moreover have "carrier_contract_to_json (cj_carrier plain_job) = PDict [(''groups'', PList []), (''mapping_indices'', PNone)]"
    by (simp add: carrier_contract_to_json_def plain_job_def)
  moreover have "cj_contract plain_job = plain_contract" by (simp add: plain_job_def)
  ultimately have "compilation_request s [] [] cached_sample_provenance ?deps (cj_carrier plain_job) (cj_contract plain_job) = Inr ?request"
    using f by (simp add: compilation_request_def artifact_json_small)
  moreover obtain queried where "query_ir_provenance bundle_lib 100 None = Inr queried" "provenance_from_ir_result queried = Inr cached_sample_provenance"
    using plain_provenance(1) by (auto simp: bind_res_eq_Inr)
  ultimately have job: "job_request bundle_lib (\<lambda>_. None) plain_process plain_job plain_view = Inr (cached_sample_provenance, ?deps, ?request)"
    using deps s by (simp add: job_request_def) (simp add: plain_job_def)
  have plain: "plain_json (PDict ?request)" by (simp add: bytes_identity_def provenance_to_json_def)
  have "length content \<le> 1024 * 1024"
    if "n < 1000" "length sha = 64" "manifest_bytes (cache_metadata ?request (int n) sha) = Inr content" for n sha content
  proof -
    have "json_bound (Some 2) 0 (cache_metadata ?request (int n) sha) \<le> 100000"
      using that(1,2) f(1) by (simp add: cache_metadata_def bytes_identity_def provenance_to_json_def cached_sample_provenance_def
          json_newline_def sha256_length program_name_def)
    moreover have "jsonable (cache_metadata ?request (int n) sha)" using plain_jsonable [OF plain] by (simp add: cache_metadata_def)
    ultimately show ?thesis using manifest_bytes_size [OF _ that(3)] by simp
  qed
  then show ?thesis by (rule that [OF job plain _ deps])
qed

lemma plain_built:
  assumes "cache_dependency_json plain_view ''runtime'' None None None = Inr dependencies"
    and "resolve_job (\<lambda>_. None) plain_process plain_job = Inr (s, flags, ks, movi)"
  obtains b prog where "build_missing bundle_lib (\<lambda>_. None) plain_process plain_job plain_view s ks movi cached_sample_provenance dependencies = Inr (b, prog)"
    "pg_graph_blob prog = [2]" "pg_patch_reports prog = []" "input_contracts prog = Inr (plain_boundary ''x'')"
    "output_contracts plain_store 100 prog = Inr (plain_boundary ''y'')" "pg_ir_provenance prog = Some bundle_provenance" "movi = None" "si_custom_nodes s = []"
proof -
  from plain_resolved assms(2) have s: "si_custom_nodes s = []" "ks = []" "movi = None" by auto
  obtain p where p: "prepare_contracted bundle_lib plain_job = Inr p" and f: "custom_nodes p = []" "pp_ir_provenance p = bundle_provenance"
     "pp_embedded_targets p = None" "pp_saved_indices p = None" "pp_automatic_indices p = None" "pp_store p = plain_store"
     "pp_limit p = 100" "pp_graph p = cj_graph plain_job" "pp_timeout_ms p = 100"
    using plain_prepared by (auto split: sum.splits)
  have e: "linker_script (\<lambda>_. None) PNone = Inr None" "compiler_definitions (PTuple []) = Inr []" by (simp add: linker_script_def, code_simp)
  let ?b = "\<lparr>bp_prepared = p, bp_group_indices = [], bp_kernels = [], bp_reviewed_bindings = [], bp_target_groups = []\<rparr>"
  have plan: "plan bundle_lib (\<lambda>_. None) p (Some []) (Some []) PNone (PTuple []) = Inr ?b"
    by (simp add: plan_def resolve_bindings_def default_bindings_def f e)
  let ?prog = "\<lparr>pg_graph_blob = [2], pg_graph = Some (cj_graph plain_job), pg_serialized_ir = Some (pp_serialized_ir p),
    pg_ir_provenance = Some bundle_provenance, pg_patch_reports = [], pg_timeout_ms = 100, pg_saved_inputs = plain_boundary ''x'',
    pg_saved_outputs = plain_boundary ''y'', pg_artifact_manifest = None\<rparr>"
  have run: "build_plan_run bundle_lib plain_process ?b None None = Inr ?prog"
    by (simp add: build_plan_run_def plan_items_def f make_program_def plain_boundaries bundle_provenance_def)
  have contract: "require_contract plain_store 100 ?prog (Some plain_contract) = Inr ?prog"
    by (simp add: require_contract_def input_contracts_def output_contracts_def validate_program_def same_boundary_def
        contract_boundary_def plain_contract_def)
  have "cj_store plain_job = plain_store" "cj_limit plain_job = 100" "cj_contract plain_job = plain_contract" "cj_movi_worker plain_job = None"
    "cj_ir_worker plain_job = None" "cj_runtime_root plain_job = ''runtime''"
    by (simp_all add: plain_job_def)
  then have "build_contracted bundle_lib (\<lambda>_. None) plain_process plain_job s [] None p = Inr (?b, ?prog)"
    by (simp only: build_contracted_def s(1) zip.simps list.map plan bind_res.simps run contract)
  moreover obtain "py_eq (PDict dependencies) (PDict dependencies)"
    using assms(1)
    by (auto simp: cache_dependency_json_def native_runtime_identity_def dependency_identity_def native_files_def plain_view_def
        hash_file_stable_def worker_identity_def bytes_identity_def)
  ultimately have "build_missing bundle_lib (\<lambda>_. None) plain_process plain_job plain_view s ks movi cached_sample_provenance dependencies = Inr (?b, ?prog)"
    using p assms(1) by (simp add: build_missing_def s f(2) plain_provenance(2) del: py_eq.simps) (simp add: plain_job_def)
  then show ?thesis by (rule that) (simp_all add: s input_contracts_def output_contracts_def)
qed

text \<open>The compilation into an empty cache, and the bundle it stores.\<close>

lemma plain_compiled:
  obtains r d' z q dependencies request where
    "compile_cached bundle_lib (\<lambda>_. None) plain_process (\<lambda>_. [80]) (unpack_only z) no_faults ''a'' ''b'' plain_job plain_view plain_view
       (Some (''cache'', False)) (\<lambda>_. None) = Inr (r, d')"
    "cs_state (cr_cache r) = ''stored'' \<or> cs_state (cr_cache r) = ''refreshed''"
    "job_request bundle_lib (\<lambda>_. None) plain_process plain_job plain_view = Inr (cached_sample_provenance, dependencies, request)"
    "plain_json (PDict request)" "export_program plain_store 100 (cr_program r) = Inr z" "load_program z 100 = Inr q"
    "\<And>content. manifest_bytes (cache_metadata request 1 (sha256 [80])) = Inr content \<Longrightarrow> length content \<le> 1024 * 1024"
    "pg_graph_blob (cr_program r) = [2]" "\<exists>b. cr_plan r = Some b"
proof -
  obtain dependencies request where j: "job_request bundle_lib (\<lambda>_. None) plain_process plain_job plain_view =
      Inr (cached_sample_provenance, dependencies, request)" "plain_json (PDict request)"
    "\<And>n sha content. n < 1000 \<Longrightarrow> length sha = 64 \<Longrightarrow> manifest_bytes (cache_metadata request (int n) sha) = Inr content \<Longrightarrow>
       length content \<le> 1024 * 1024"
    and dep: "cache_dependency_json plain_view ''runtime'' None None None = Inr dependencies"
    by (rule plain_request) blast
  obtain s flags ks movi where s: "resolve_job (\<lambda>_. None) plain_process plain_job = Inr (s, flags, ks, movi)"
    using plain_resolved by (auto split: sum.splits)
  obtain b prog where b: "build_missing bundle_lib (\<lambda>_. None) plain_process plain_job plain_view s ks movi cached_sample_provenance dependencies = Inr (b, prog)"
    and prog: "pg_graph_blob prog = [2]" "pg_patch_reports prog = []" "input_contracts prog = Inr (plain_boundary ''x'')"
    "output_contracts plain_store 100 prog = Inr (plain_boundary ''y'')" "pg_ir_provenance prog = Some bundle_provenance"
    by (rule plain_built [OF dep s]) blast
  have v: "program_provenance prog = Inr (Some cached_sample_provenance)"
    using prog(5) plain_provenance(2) by (simp add: program_provenance_def)
  obtain z q where z: "export_program plain_store 100 prog = Inr z" "load_program z 100 = Inr q"
    by (rule small_bundle [OF built_program(1) [OF build_missing_Inr(1) [OF b]] prog(3,4) v])
      (auto simp: prog(1,2) portable_def contract_dtypes_def contract_json_def provenance_to_json_def cached_sample_provenance_def
        json_newline_def)
  obtain name where name: "metadata_name request = Inr name"
    using json_text_reads [OF plain_jsonable [OF j(2)], of None 0]
    by (auto simp: metadata_name_def canonical_sha256_def json_compact_def)
  let ?miss = "\<lparr>cs_state = ''miss'', cs_diagnostic = None\<rparr>"
  have miss: "cache_load unpack no_faults (\<lambda>_. None) request t c = Inr (None, ?miss)" for unpack t c
    by (simp add: cache_load_def name)
  obtain stored d' where st: "cache_store (\<lambda>_. [80]) no_faults ''a'' ''b'' plain_store 100 request prog ?miss (\<lambda>_. None) = (stored, d')"
    by fastforce
  have "cs_state stored \<noteq> ''write-error''" by (rule store_without_faults [OF z(1) j(2) _ st]) simp
  then have ok: "cs_state stored = ''stored'' \<or> cs_state stored = ''refreshed''"
    by (rule_tac cache_store_cases [OF st]) auto
  have fields: "cj_store plain_job = plain_store" "cj_limit plain_job = 100" by (simp_all add: plain_job_def)
  let ?r = "\<lparr>cr_program = prog, cr_cache = stored, cr_plan = Some b\<rparr>"
  have run: "compile_cached bundle_lib (\<lambda>_. None) plain_process (\<lambda>_. [80]) (unpack_only z) no_faults ''a'' ''b'' plain_job plain_view plain_view
       (Some (''cache'', False)) (\<lambda>_. None) = Inr (?r, d')"
    by (simp add: compile_cached_def s j(1) open_cache_def miss b fields st)
  have small: "length content \<le> 1024 * 1024" if "manifest_bytes (cache_metadata request 1 (sha256 [80])) = Inr content" for content
    by (rule j(3) [of 1 "sha256 [80]"]) (use that in \<open>simp_all add: sha256_length\<close>)
  show ?thesis by (rule that [OF run _ j(1,2) _ z(2) small]) (use ok z(1) prog(1) in simp_all)
qed



end
