(* ===== verification/Base64.thy ===== *)
theory Base64
  imports Prelude
begin

text \<open>
  \<open>base64.b64encode\<close> and the strict \<open>base64.b64decode(text, validate=True)\<close>, which the serialised artifact graphs use for
  their bytes, with the theorem that decoding inverts encoding.
\<close>

definition b64_alphabet :: string where
  "b64_alphabet = ''ABCDEFGHIJKLMNOPQRSTUVWXYZabcdefghijklmnopqrstuvwxyz0123456789+/''"

definition b64_char :: "nat \<Rightarrow> char" where
  "b64_char n = b64_alphabet ! n"

definition b64_value :: "char \<Rightarrow> nat option" where
  "b64_value c = map_of (zip b64_alphabet [0..<64]) c"

abbreviation pad :: char where
  "pad \<equiv> CHR ''=''"

fun b64encode :: "bytes \<Rightarrow> string" where
  "b64encode [] = []"
| "b64encode [a] = [b64_char (unat a div 4), b64_char (unat a mod 4 * 16), pad, pad]"
| "b64encode [a, b] =
     [b64_char (unat a div 4), b64_char (unat a mod 4 * 16 + unat b div 16), b64_char (unat b mod 16 * 4), pad]"
| "b64encode (a # b # c # rest) =
     b64_char (unat a div 4) # b64_char (unat a mod 4 * 16 + unat b div 16) #
     b64_char (unat b mod 16 * 4 + unat c div 64) # b64_char (unat c mod 64) # b64encode rest"

text \<open>The bytes of the values of two, three or four characters.\<close>

definition first_byte :: "nat \<Rightarrow> nat \<Rightarrow> 8 word" where
  "first_byte w x = word_of_nat (w * 4 + x div 16)"

definition second_byte :: "nat \<Rightarrow> nat \<Rightarrow> 8 word" where
  "second_byte x y = word_of_nat (x mod 16 * 16 + y div 4)"

definition third_byte :: "nat \<Rightarrow> nat \<Rightarrow> 8 word" where
  "third_byte y z = word_of_nat (y mod 4 * 64 + z)"

fun b64decode :: "string \<Rightarrow> bytes option" where
  "b64decode [] = Some []"
| "b64decode (c # d # e # f # rest) =
     (case (b64_value c, b64_value d) of
        (Some w, Some x) \<Rightarrow>
          if f = pad \<and> rest = [] then
            (if e = pad then Some [first_byte w x]
             else map_option (\<lambda>y. [first_byte w x, second_byte x y]) (b64_value e))
          else (case (b64_value e, b64_value f, b64decode rest) of
              (Some y, Some z, Some bs) \<Rightarrow> Some (first_byte w x # second_byte x y # third_byte y z # bs)
            | _ \<Rightarrow> None)
      | _ \<Rightarrow> None)"
| "b64decode _ = None"

lemma b64_value_char: "n < 64 \<Longrightarrow> b64_value (b64_char n) = Some n"
proof -
  have "list_all (\<lambda>n. b64_value (b64_char n) = Some n) [0..<64]" by code_simp
  then show "n < 64 \<Longrightarrow> b64_value (b64_char n) = Some n" by (simp add: list_all_iff)
qed

lemma b64_char_pad: "n < 64 \<Longrightarrow> b64_char n \<noteq> pad"
proof -
  have "list_all (\<lambda>n. b64_char n \<noteq> pad) [0..<64]" by code_simp
  then show "n < 64 \<Longrightarrow> b64_char n \<noteq> pad" by (simp add: list_all_iff)
qed

lemma byte_bound: "unat (a :: 8 word) < 256"
  by (rule order_less_le_trans [OF unsigned_less]) simp

lemma digits_bound:
  "unat (a :: 8 word) div 4 < 64" "unat a mod 4 * 16 + unat (b :: 8 word) div 16 < 64" "unat b mod 16 * 4 + unat (c :: 8 word) div 64 < 64"
  "unat a mod 4 * 16 < 64" "unat b mod 16 * 4 < 64" "unat c mod 64 < 64"
  using byte_bound [of a] byte_bound [of b] byte_bound [of c] by auto

lemma bytes_of_digits:
  "first_byte (unat a div 4) (unat a mod 4 * 16) = a" "first_byte (unat a div 4) (unat a mod 4 * 16 + unat (b :: 8 word) div 16) = a"
  "second_byte (unat a mod 4 * 16 + unat b div 16) (unat b mod 16 * 4) = b"
  "second_byte (unat a mod 4 * 16 + unat b div 16) (unat b mod 16 * 4 + unat (c :: 8 word) div 64) = b"
  "third_byte (unat b mod 16 * 4 + unat c div 64) (unat c mod 64) = c"
proof -
  have b: "unat b div 16 < 16" "unat c div 64 < 4" using byte_bound [of b] byte_bound [of c] by auto
  have "(unat a mod 4 * 16 + unat b div 16) div 16 = unat a mod 4" "(unat a mod 4 * 16 + unat b div 16) mod 16 = unat b div 16"
    "(unat b mod 16 * 4 + unat c div 64) div 4 = unat b mod 16" "(unat b mod 16 * 4 + unat c div 64) mod 4 = unat c div 64"
    using b by auto
  then show "first_byte (unat a div 4) (unat a mod 4 * 16) = a" "first_byte (unat a div 4) (unat a mod 4 * 16 + unat b div 16) = a"
    "second_byte (unat a mod 4 * 16 + unat b div 16) (unat b mod 16 * 4) = b"
    "second_byte (unat a mod 4 * 16 + unat b div 16) (unat b mod 16 * 4 + unat c div 64) = b"
    "third_byte (unat b mod 16 * 4 + unat c div 64) (unat c mod 64) = c"
    by (simp_all add: first_byte_def second_byte_def third_byte_def)
qed

lemma b64_roundtrip: "b64decode (b64encode bs) = Some bs"
  by (induction bs rule: b64encode.induct)
    (simp_all add: b64_value_char digits_bound b64_char_pad bytes_of_digits)

text \<open>Decoding as a step that may raise.\<close>

definition b64_load :: "string \<Rightarrow> bytes res" where
  "b64_load s = from_option (ValueError ''invalid base64 data'') (b64decode s)"

interpretation base64: codec "\<lambda>_. True" "\<lambda>bs. Inr (b64encode bs)" b64_load
  by unfold_locales (simp_all add: b64_load_def b64_roundtrip from_option_def)

end
