(* ===== verification/Artifact.thy ===== *)
theory Artifact
  imports Values Sha256 Base64
begin

text \<open>
  The pieces of an artifact graph (\<open>viz/model.py\<close>): checked identifiers and JSON values, categories, addresses,
  artifacts backed by bytes or by a file, spans of bytes, and fields, with the constructors' checks and the
  \<open>to_dict\<close> methods. The file system is an argument; an artifact carries the identity of its Python object,
  because graphs compare artifacts by identity.
\<close>

section \<open>Checked values\<close>

definition graph_format :: string where
  "graph_format = ''npunlock.artifact-graph''"

definition confidence_values :: "string list" where
  "confidence_values = [''confirmed'', ''strong-inference'', ''execution-tested-inference'', ''raw'', ''unresolved'']"

definition relevance_values :: "string list" where
  "relevance_values = [''relevant'', ''context'', ''irrelevant'']"

definition plain_text :: "string \<Rightarrow> bool" where
  "plain_text s \<longleftrightarrow> s \<noteq> [] \<and> strip s = s"

definition text_identifier :: "string \<Rightarrow> pyval \<Rightarrow> string res" where
  "text_identifier what v =
     (case v of
        PStr s \<Rightarrow>
          if \<not> plain_text s then Inl (ValueError (what @ '' must be a non-empty string without surrounding whitespace''))
          else Inr s
      | _ \<Rightarrow> Inl (ValueError (what @ '' must be a non-empty string without surrounding whitespace'')))"

text \<open>What \<open>json.dumps(value, allow_nan=False)\<close> accepts.\<close>

fun strict_json :: "pyval \<Rightarrow> bool" where
  "strict_json PNone = True"
| "strict_json (PBool _) = True"
| "strict_json (PInt _) = True"
| "strict_json (PFloat f) = (case f of PyFin _ _ \<Rightarrow> True | _ \<Rightarrow> False)"
| "strict_json (PStr _) = True"
| "strict_json (PTuple vs) = list_all strict_json vs"
| "strict_json (PList vs) = list_all strict_json vs"
| "strict_json (PDict d) = list_all (\<lambda>(_, v). strict_json v) d"
| "strict_json _ = False"

definition json_value :: "string \<Rightarrow> pyval \<Rightarrow> pyval res" where
  "json_value what v = (if \<not> strict_json v then Inl (ValueError (what @ '' must be JSON-serializable'')) else Inr v)"

definition optional_description :: "string \<Rightarrow> pyval \<Rightarrow> string option res" where
  "optional_description what v =
     (case v of
        PNone \<Rightarrow> Inr None
      | PStr s \<Rightarrow>
          if \<not> plain_text s then Inl (ValueError (what @ '' must be non-empty and have no surrounding whitespace''))
          else Inr (Some s)
      | _ \<Rightarrow> Inl (TypeError (what @ '' must be a string or None'')))"

definition optional_choice :: "string \<Rightarrow> string list \<Rightarrow> pyval \<Rightarrow> string option res" where
  "optional_choice what choices v =
     (if v = PNone then Inr None
      else bind_res (text_identifier what v) (\<lambda>s.
        if s \<notin> set choices then Inl (ValueError (what @ '' must be one of the choices'')) else Inr (Some s)))"

definition legacy_choice :: "(string \<times> pyval) list \<Rightarrow> string \<Rightarrow> string list \<Rightarrow> pyval" where
  "legacy_choice properties key choices =
     (case dget properties key of PStr s \<Rightarrow> if s \<in> set choices then PStr s else PNone | _ \<Rightarrow> PNone)"

definition legacy_text :: "(string \<times> pyval) list \<Rightarrow> string \<Rightarrow> pyval" where
  "legacy_text properties key =
     (case dget properties key of PStr s \<Rightarrow> if plain_text s then PStr s else PNone | _ \<Rightarrow> PNone)"

text \<open>\<open>dict(v or {})\<close>, where \<open>v\<close> is a dictionary or a sequence of pairs with string keys.\<close>

definition pair_item :: "pyval \<Rightarrow> (string \<times> pyval) list \<Rightarrow> (string \<times> pyval) list res" where
  "pair_item v d =
     (case py_iter v of
        Some [PStr k, x] \<Rightarrow> Inr (dict_set k x d)
      | Some _ \<Rightarrow> Inl (ValueError ''dictionary update sequence element has another length'')
      | None \<Rightarrow> Inl (TypeError ''cannot convert dictionary update sequence element to a sequence''))"

definition py_dict :: "pyval \<Rightarrow> (string \<times> pyval) list res" where
  "py_dict v =
     (if \<not> truthy v then Inr []
      else case v of
        PDict d \<Rightarrow> Inr d
      | _ \<Rightarrow> bind_res (from_option (TypeError ''object is not iterable'') (py_iter v)) (\<lambda>items. fold_res pair_item items []))"

definition checked_properties :: "string \<Rightarrow> pyval \<Rightarrow> (string \<times> pyval) list res" where
  "checked_properties what v =
     bind_res (py_dict v) (\<lambda>d. bind_res (json_value what (PDict d)) (\<lambda>_. Inr d))"

text \<open>\<open>int\<close> but not \<open>bool\<close>.\<close>

definition py_int :: "pyexn \<Rightarrow> pyval \<Rightarrow> int res" where
  "py_int e v = (case v of PInt i \<Rightarrow> Inr i | _ \<Rightarrow> Inl e)"

definition or_else :: "pyval \<Rightarrow> pyval \<Rightarrow> pyval" where
  "or_else v d = (if v = PNone then d else v)"

section \<open>Categories and addresses\<close>

record category =
  cg_id :: string
  cg_label :: string
  cg_color :: string

definition hex_digit :: "char \<Rightarrow> bool" where
  "hex_digit c \<longleftrightarrow> c \<in> set ''0123456789abcdefABCDEF''"

text \<open>\<open>#[0-9a-fA-F]{3}(?:[0-9a-fA-F]{3})?\<close>\<close>

definition color_text :: "string \<Rightarrow> bool" where
  "color_text s \<longleftrightarrow> length s \<in> {4, 7} \<and> hd s = CHR ''#'' \<and> list_all hex_digit (tl s)"

definition Category :: "pyval \<Rightarrow> pyval \<Rightarrow> pyval \<Rightarrow> category res" where
  "Category i label color =
     bind_res (text_identifier ''category id'' i) (\<lambda>cid.
     bind_res (text_identifier ''category label'' label) (\<lambda>text.
     case color of
       PStr s \<Rightarrow>
         if \<not> color_text s then Inl (ValueError ''category color must be a #rgb or #rrggbb string'')
         else Inr \<lparr>cg_id = cid, cg_label = text, cg_color = s\<rparr>
     | _ \<Rightarrow> Inl (ValueError ''category color must be a #rgb or #rrggbb string'')))"

definition default_categories :: "category list" where
  "default_categories =
     [\<lparr>cg_id = ''metadata'', cg_label = ''Headers and metadata'', cg_color = ''#6f83a6''\<rparr>,
      \<lparr>cg_id = ''code'', cg_label = ''Executable code'', cg_color = ''#8a7652''\<rparr>,
      \<lparr>cg_id = ''data'', cg_label = ''Parameters and data'', cg_color = ''#587d70''\<rparr>,
      \<lparr>cg_id = ''reference'', cg_label = ''References and relocations'', cg_color = ''#7c668f''\<rparr>,
      \<lparr>cg_id = ''unknown'', cg_label = ''Uninterpreted and padding'', cg_color = ''#5e6670''\<rparr>]"

record address =
  an_space :: string
  an_value :: int

definition Address :: "pyval \<Rightarrow> pyval \<Rightarrow> address res" where
  "Address space v =
     bind_res (text_identifier ''address space'' space) (\<lambda>s.
     bind_res (py_int (ValueError ''address value must be a non-negative integer'') v) (\<lambda>i.
     if i < 0 then Inl (ValueError ''address value must be a non-negative integer'') else Inr \<lparr>an_space = s, an_value = i\<rparr>))"

section \<open>Artifacts\<close>

text \<open>A path is missing, names no regular file, or a file with its bytes and its modification time.\<close>

datatype path_entry = NoEntry | NotAFile | RegularFile bytes int

type_synonym files = "string \<Rightarrow> path_entry"

datatype artifact_source = InMemory bytes | OnDisk string int

record artifact =
  af_object :: nat
  af_id :: string
  af_name :: string
  af_media_type :: string
  af_size :: int
  af_sha256 :: string
  af_source :: artifact_source

definition byte_item :: "pyval \<Rightarrow> 8 word res" where
  "byte_item v =
     (case v of
        PInt i \<Rightarrow> if i < 0 \<or> 255 < i then Inl (ValueError ''bytes must be in range(0, 256)'') else Inr (word_of_int i)
      | PBool b \<Rightarrow> Inr (of_bool b)
      | _ \<Rightarrow> Inl (TypeError ''object cannot be interpreted as an integer''))"

text \<open>\<open>bytes(data)\<close>\<close>

definition py_bytes :: "pyval \<Rightarrow> bytes res" where
  "py_bytes v =
     (case v of
        PBytes b \<Rightarrow> Inr b
      | PInt i \<Rightarrow> if i < 0 then Inl (ValueError ''negative count'') else Inr (replicate (nat i) 0)
      | PBool b \<Rightarrow> Inr (replicate (of_bool b) 0)
      | _ \<Rightarrow> bind_res (from_option (TypeError ''cannot convert object to bytes'') (py_iter v)) (map_res byte_item))"

fun path_text :: "pyval \<Rightarrow> string option" where
  "path_text (PStr s) = Some s"
| "path_text (PPath s) = Some s"
| "path_text _ = None"

definition artifact_source_of :: "files \<Rightarrow> pyval \<Rightarrow> pyval \<Rightarrow> (artifact_source \<times> bytes) res" where
  "artifact_source_of fs data path =
     (if data \<noteq> PNone \<and> path \<noteq> PNone then Inl (ValueError ''supply artifact data or path, not both'')
      else
        let (path', data') = (if path = PNone \<and> path_text data \<noteq> None then (data, PNone) else (path, data)) in
        if path' = PNone \<and> data' = PNone then Inl (ValueError ''artifact requires bytes or a file path'')
        else if path' \<noteq> PNone then
          bind_res (from_option (TypeError ''expected str, bytes or os.PathLike object'') (path_text path')) (\<lambda>name.
          case fs name of
            NoEntry \<Rightarrow> Inl (FileNotFoundError ''no such file'')
          | NotAFile \<Rightarrow> Inl (ValueError ''artifact path is not a file'')
          | RegularFile content mtime \<Rightarrow> Inr (OnDisk name mtime, content))
        else bind_res (py_bytes data') (\<lambda>content. Inr (InMemory content, content)))"

definition Artifact :: "files \<Rightarrow> nat \<Rightarrow> pyval \<Rightarrow> pyval \<Rightarrow> pyval \<Rightarrow> pyval \<Rightarrow> pyval \<Rightarrow> artifact res" where
  "Artifact fs obj artifact_id data path name media_type =
     bind_res (text_identifier ''artifact id'' artifact_id) (\<lambda>aid.
     bind_res (text_identifier ''artifact name'' (or_else name artifact_id)) (\<lambda>aname.
     case media_type of
       PStr media \<Rightarrow>
         if media = [] then Inl (ValueError ''artifact media_type must be a non-empty string'')
         else bind_res (artifact_source_of fs data path) (\<lambda>(source, content).
           Inr \<lparr>af_object = obj, af_id = aid, af_name = aname, af_media_type = media, af_size = int (length content),
             af_sha256 = sha256 content, af_source = source\<rparr>)
     | _ \<Rightarrow> Inl (ValueError ''artifact media_type must be a non-empty string'')))"

definition artifact_read :: "files \<Rightarrow> artifact \<Rightarrow> pyval \<Rightarrow> pyval \<Rightarrow> bytes res" where
  "artifact_read fs a start stop =
     bind_res (py_int (ValueError ''start must be a non-negative integer'') start) (\<lambda>i.
     if i < 0 then Inl (ValueError ''start must be a non-negative integer'')
     else
       bind_res (py_int (ValueError ''artifact read range is outside the artifact'') (or_else stop (PInt (af_size a)))) (\<lambda>j.
       if j < i \<or> af_size a < j then Inl (ValueError ''artifact read range is outside the artifact'')
       else (case af_source a of
           InMemory content \<Rightarrow> Inr (take (nat (j - i)) (drop (nat i) content))
         | OnDisk name mtime \<Rightarrow>
             (case fs name of
                RegularFile content mtime' \<Rightarrow>
                  if int (length content) \<noteq> af_size a \<or> mtime' \<noteq> mtime
                  then Inl (OSError ''artifact changed after graph construction'')
                  else Inr (take (nat (j - i)) (drop (nat i) content))
              | _ \<Rightarrow> Inl (FileNotFoundError ''no such file'')))))"

definition artifact_to_dict :: "files \<Rightarrow> bool \<Rightarrow> artifact \<Rightarrow> pyval res" where
  "artifact_to_dict fs include_data a =
     (let d = [(''id'', PStr (af_id a)), (''name'', PStr (af_name a)), (''size'', PInt (af_size a)),
         (''sha256'', PStr (af_sha256 a)), (''media_type'', PStr (af_media_type a))] in
      if include_data
      then bind_res (artifact_read fs a (PInt 0) PNone) (\<lambda>content. Inr (PDict (d @ [(''data_base64'', PStr (b64encode content))])))
      else Inr (PDict d))"

section \<open>Spans and fields\<close>

record span =
  sp_artifact :: artifact
  sp_start :: int
  sp_end :: int
  sp_id :: "string option"
  sp_label :: "string option"
  sp_role :: "string option"

definition optional_identifier :: "string \<Rightarrow> pyval \<Rightarrow> string option res" where
  "optional_identifier what v = (if v = PNone then Inr None else bind_res (text_identifier what v) (\<lambda>s. Inr (Some s)))"

definition Span :: "artifact \<Rightarrow> pyval \<Rightarrow> pyval \<Rightarrow> pyval \<Rightarrow> pyval \<Rightarrow> pyval \<Rightarrow> span res" where
  "Span a start stop sid label role =
     bind_res (py_int (TypeError ''span offsets must be integers'') start) (\<lambda>i.
     bind_res (py_int (TypeError ''span offsets must be integers'') stop) (\<lambda>j.
     if i < 0 \<or> j \<le> i then Inl (ValueError ''span must be a non-empty half-open interval [start, end)'')
     else
       bind_res (optional_identifier ''span id'' sid) (\<lambda>sid'.
       bind_res (optional_description ''span label'' label) (\<lambda>label'.
       bind_res (optional_identifier ''span role'' role) (\<lambda>role'.
       Inr \<lparr>sp_artifact = a, sp_start = i, sp_end = j, sp_id = sid', sp_label = label', sp_role = role'\<rparr>)))))"

text \<open>Entries of a dictionary that are written only when there is a value.\<close>

definition given :: "string \<Rightarrow> string option \<Rightarrow> (string \<times> pyval) list" where
  "given key v = (case v of None \<Rightarrow> [] | Some s \<Rightarrow> [(key, PStr s)])"

definition span_to_dict :: "span \<Rightarrow> pyval" where
  "span_to_dict s = PDict ([(''artifact'', PStr (af_id (sp_artifact s))), (''start'', PInt (sp_start s)), (''end'', PInt (sp_end s))] @
     given ''id'' (sp_id s) @ given ''label'' (sp_label s) @ given ''role'' (sp_role s))"

record gfield =
  fd_value :: pyval
  fd_spans :: "span list"
  fd_display :: "string option"
  fd_description :: "string option"
  fd_properties :: "(string \<times> pyval) list"
  fd_confidence :: "string option"
  fd_scope :: "string option"
  fd_relevance :: "string option"

text \<open>Confidence, scope and relevance given as arguments, or inherited from the properties.\<close>

definition inherited_confidence :: "string \<Rightarrow> (string \<times> pyval) list \<Rightarrow> pyval \<Rightarrow> string option res" where
  "inherited_confidence what properties v =
     optional_choice what confidence_values (or_else v (legacy_choice properties ''confidence'' confidence_values))"

definition inherited_scope :: "string \<Rightarrow> (string \<times> pyval) list \<Rightarrow> pyval \<Rightarrow> string option res" where
  "inherited_scope what properties v = optional_description what (or_else v (legacy_text properties ''scope''))"

definition inherited_relevance :: "string \<Rightarrow> (string \<times> pyval) list \<Rightarrow> pyval \<Rightarrow> string option res" where
  "inherited_relevance what properties v =
     optional_choice what relevance_values (or_else v (legacy_choice properties ''relevance'' relevance_values))"

definition Field :: "pyval \<Rightarrow> span list \<Rightarrow> pyval \<Rightarrow> pyval \<Rightarrow> pyval \<Rightarrow> pyval \<Rightarrow> pyval \<Rightarrow> pyval \<Rightarrow> gfield res" where
  "Field v spans display description properties confidence scope relevance =
     bind_res (json_value ''field value'' v) (\<lambda>v'.
     bind_res (case display of PNone \<Rightarrow> Inr None | PStr s \<Rightarrow> Inr (Some s)
        | _ \<Rightarrow> Inl (TypeError ''field display must be a string or None'')) (\<lambda>display'.
     bind_res (optional_description ''field description'' description) (\<lambda>description'.
     bind_res (checked_properties ''field properties'' properties) (\<lambda>d.
     bind_res (inherited_confidence ''field confidence'' d confidence) (\<lambda>confidence'.
     bind_res (inherited_scope ''field scope'' d scope) (\<lambda>scope'.
     bind_res (inherited_relevance ''field relevance'' d relevance) (\<lambda>relevance'.
     Inr \<lparr>fd_value = v', fd_spans = spans, fd_display = display', fd_description = description', fd_properties = d,
       fd_confidence = confidence', fd_scope = scope', fd_relevance = relevance'\<rparr>)))))))"

definition field_to_dict :: "gfield \<Rightarrow> pyval" where
  "field_to_dict f = PDict ([(''value'', fd_value f)] @ given ''display'' (fd_display f) @ given ''description'' (fd_description f) @
     given ''confidence'' (fd_confidence f) @ given ''scope'' (fd_scope f) @ given ''relevance'' (fd_relevance f) @
     (if fd_properties f = [] then [] else [(''properties'', PDict (fd_properties f))]) @
     (if fd_spans f = [] then [] else [(''spans'', PList (map span_to_dict (fd_spans f)))]))"

end
