(* ===== verification/Artifact_Graph.thy ===== *)
theory Artifact_Graph
  imports Artifact
begin

text \<open>
  \<open>ArtifactGraph\<close> (\<open>viz/model.py\<close>): semantic nodes over the bytes of artifacts, contained in one another and linked. An
  operation may raise after it has changed the graph, so it returns the result and the graph; \<open>contain\<close> follows
  the parents of a node in a loop, which is a partial function here. The theorem shows that containment stays a
  forest whatever operations are tried, so that the loop always ends.
\<close>

section \<open>The graph\<close>

record gnode =
  gn_id :: string
  gn_label :: string
  gn_kind :: string
  gn_category :: string
  gn_spans :: "span list"
  gn_properties :: "(string \<times> pyval) list"
  gn_fields :: "(string \<times> gfield) list"
  gn_addresses :: "(string \<times> address) list"
  gn_description :: "string option"
  gn_confidence :: "string option"
  gn_scope :: "string option"
  gn_relevance :: "string option"
  gn_contributes :: bool

record glink =
  lk_source :: string
  lk_target :: string
  lk_kind :: string
  lk_properties :: "(string \<times> pyval) list"
  lk_description :: "string option"
  lk_confidence :: "string option"
  lk_scope :: "string option"

record artifact_graph =
  vg_title :: string
  vg_artifacts :: "(string \<times> artifact) list"
  vg_nodes :: "(string \<times> gnode) list"
  vg_links :: "glink list"
  vg_parents :: "(string \<times> string) list"
  vg_categories :: "(string \<times> category) list"

definition add_category :: "category \<Rightarrow> (string \<times> category) list \<Rightarrow> (string \<times> category) list res" where
  "add_category c cs =
     (if cg_id c \<in> set (keys cs) then Inl (ValueError ''duplicate category id'') else Inr (cs @ [(cg_id c, c)]))"

definition ArtifactGraph :: "pyval \<Rightarrow> category list \<Rightarrow> artifact_graph res" where
  "ArtifactGraph title categories =
     bind_res (text_identifier ''graph title'' title) (\<lambda>text.
     bind_res (fold_res add_category categories []) (\<lambda>cs.
     if cs = [] then Inl (ValueError ''graph requires at least one category'')
     else Inr \<lparr>vg_title = text, vg_artifacts = [], vg_nodes = [], vg_links = [], vg_parents = [], vg_categories = cs\<rparr>))"

fun unhashable :: "pyval \<Rightarrow> bool" where
  "unhashable (PList _) = True"
| "unhashable (PDict _) = True"
| "unhashable (PArray _) = True"
| "unhashable (PTuple vs) = list_ex unhashable vs"
| "unhashable _ = False"

text \<open>\<open>v in d\<close> for a dictionary with string keys\<close>

definition in_keys :: "pyval \<Rightarrow> (string \<times> 'a) list \<Rightarrow> bool res" where
  "in_keys v d =
     (if unhashable v then Inl (TypeError ''unhashable type'')
      else Inr (case v of PStr s \<Rightarrow> s \<in> set (keys d) | _ \<Rightarrow> False))"

section \<open>Operations\<close>

definition graph_artifact ::
  "files \<Rightarrow> nat \<Rightarrow> pyval \<Rightarrow> pyval \<Rightarrow> pyval \<Rightarrow> pyval \<Rightarrow> pyval \<Rightarrow> artifact_graph \<Rightarrow> (artifact \<times> artifact_graph) res" where
  "graph_artifact fs obj artifact_id data path name media_type g =
     bind_res (in_keys artifact_id (vg_artifacts g)) (\<lambda>present.
     if present then Inl (ValueError ''duplicate artifact id'')
     else bind_res (Artifact fs obj artifact_id data path name media_type) (\<lambda>a.
       Inr (a, g\<lparr>vg_artifacts := vg_artifacts g @ [(af_id a, a)]\<rparr>)))"

text \<open>The arguments of \<open>node\<close>; a field or an address is given ready-made or as a value.\<close>

datatype field_arg = ReadyField gfield | FieldValue pyval

datatype address_arg = ReadyAddress address | AddressValue pyval

datatype node_ref = NodeRef gnode | IdRef pyval

record node_args =
  na_id :: pyval
  na_label :: pyval
  na_description :: pyval
  na_kind :: pyval
  na_category :: pyval
  na_spans :: "span list"
  na_properties :: pyval
  na_fields :: "(string \<times> field_arg) list"
  na_addresses :: "(string \<times> address_arg) list"
  na_parent :: "node_ref option"
  na_confidence :: pyval
  na_scope :: pyval
  na_relevance :: pyval
  na_contributes :: pyval

definition node_field :: "string \<times> field_arg \<Rightarrow> (string \<times> gfield) res" where
  "node_field = (\<lambda>(name, v).
     bind_res (text_identifier ''field name'' (PStr name)) (\<lambda>key.
     case v of
       ReadyField f \<Rightarrow> Inr (key, f)
     | FieldValue x \<Rightarrow> bind_res (Field x [] PNone PNone PNone PNone PNone PNone) (\<lambda>f. Inr (key, f))))"

definition node_address :: "string \<times> address_arg \<Rightarrow> (string \<times> address) res" where
  "node_address = (\<lambda>(name, v).
     bind_res (text_identifier ''address name'' (PStr name)) (\<lambda>key.
     case v of
       ReadyAddress a \<Rightarrow> Inr (key, a)
     | AddressValue x \<Rightarrow> bind_res (Address (PStr name) x) (\<lambda>a. Inr (key, a))))"

definition make_node :: "node_args \<Rightarrow> artifact_graph \<Rightarrow> gnode res" where
  "make_node args g =
     bind_res (text_identifier ''node id'' (na_id args)) (\<lambda>nid.
     if nid \<in> set (keys (vg_nodes g)) then Inl (ValueError ''duplicate node id'')
     else
       bind_res (text_identifier ''node label'' (or_else (na_label args) (PStr nid))) (\<lambda>label.
       bind_res (optional_description ''node description'' (na_description args)) (\<lambda>description.
       bind_res (text_identifier ''node kind'' (na_kind args)) (\<lambda>kind.
       bind_res (in_keys (na_category args) (vg_categories g)) (\<lambda>known.
       if \<not> known then Inl (ValueError ''unknown semantic category'')
       else
         bind_res (map_res node_field (na_fields args)) (\<lambda>fields.
         bind_res (map_res node_address (na_addresses args)) (\<lambda>addresses.
         bind_res (checked_properties ''node properties'' (na_properties args)) (\<lambda>d.
         case na_contributes args of
           PBool contributes \<Rightarrow>
             bind_res (inherited_confidence ''node confidence'' d (na_confidence args)) (\<lambda>confidence.
             bind_res (inherited_scope ''node scope'' d (na_scope args)) (\<lambda>scope.
             bind_res (inherited_relevance ''node relevance'' d (na_relevance args)) (\<lambda>relevance.
             Inr \<lparr>gn_id = nid, gn_label = label, gn_kind = kind, gn_category = (case na_category args of PStr c \<Rightarrow> c | _ \<Rightarrow> []),
               gn_spans = na_spans args, gn_properties = d, gn_fields = fields, gn_addresses = addresses,
               gn_description = description, gn_confidence = confidence, gn_scope = scope, gn_relevance = relevance,
               gn_contributes = contributes\<rparr>)))
         | _ \<Rightarrow> Inl (TypeError ''node contributes_to_coverage must be a boolean'')))))))))"

definition node_ref_id :: "node_ref \<Rightarrow> string res" where
  "node_ref_id r = (case r of NodeRef n \<Rightarrow> Inr (gn_id n) | IdRef v \<Rightarrow> text_identifier ''node reference'' v)"

text \<open>The loop of \<open>contain\<close>: does following the parents of \<open>cursor\<close> reach \<open>child\<close>? No value where it runs forever.\<close>

partial_function (option) reaches_child :: "(string \<Rightarrow> string option) \<Rightarrow> string \<Rightarrow> string \<Rightarrow> bool option" where
  "reaches_child parents child cursor =
     (case parents cursor of
        None \<Rightarrow> Some False
      | Some p \<Rightarrow> if p = child then Some True else reaches_child parents child p)"

declare reaches_child.simps [code]

text \<open>\<open>contain\<close>; no value where the loop runs forever.\<close>

definition contain_ids :: "string \<Rightarrow> string \<Rightarrow> artifact_graph \<Rightarrow> artifact_graph res option" where
  "contain_ids parent child g =
     (if parent \<notin> set (keys (vg_nodes g)) \<or> child \<notin> set (keys (vg_nodes g))
      then Some (Inl (ValueError ''containment references an unknown node''))
      else if parent = child then Some (Inl (ValueError ''a node cannot contain itself''))
      else if child \<in> set (keys (vg_parents g)) then Some (Inl (ValueError ''node already has a parent''))
      else case reaches_child (map_of (vg_parents g)) child parent of
          None \<Rightarrow> None
        | Some True \<Rightarrow> Some (Inl (ValueError ''containment would create a cycle''))
        | Some False \<Rightarrow> Some (Inr (g\<lparr>vg_parents := vg_parents g @ [(child, parent)]\<rparr>)))"

definition contain :: "node_ref \<Rightarrow> node_ref \<Rightarrow> artifact_graph \<Rightarrow> artifact_graph res option" where
  "contain parent child g =
     (case (node_ref_id parent, node_ref_id child) of
        (Inl e, _) \<Rightarrow> Some (Inl e)
      | (Inr _, Inl e) \<Rightarrow> Some (Inl e)
      | (Inr p, Inr c) \<Rightarrow> contain_ids p c g)"

text \<open>\<open>node\<close> without a parent.\<close>

definition insert_node :: "node_args \<Rightarrow> artifact_graph \<Rightarrow> (gnode \<times> artifact_graph) res" where
  "insert_node args g =
     bind_res (make_node args g) (\<lambda>node. Inr (node, g\<lparr>vg_nodes := vg_nodes g @ [(gn_id node, node)]\<rparr>))"

text \<open>\<open>node\<close> adds the node before it asks for the containment: where \<open>contain\<close> raises, the node stays. The result is
  the node or the exception, and the graph.\<close>

definition graph_node :: "node_args \<Rightarrow> artifact_graph \<Rightarrow> (gnode res \<times> artifact_graph) option" where
  "graph_node args g =
     (case insert_node args g of
        Inl e \<Rightarrow> Some (Inl e, g)
      | Inr (node, g') \<Rightarrow>
          (case na_parent args of
             None \<Rightarrow> Some (Inr node, g')
           | Some parent \<Rightarrow>
               (case contain parent (NodeRef node) g' of
                  None \<Rightarrow> None
                | Some (Inl e) \<Rightarrow> Some (Inl e, g')
                | Some (Inr g'') \<Rightarrow> Some (Inr node, g''))))"

definition graph_link ::
  "node_ref \<Rightarrow> node_ref \<Rightarrow> pyval \<Rightarrow> pyval \<Rightarrow> pyval \<Rightarrow> pyval \<Rightarrow> pyval \<Rightarrow> artifact_graph \<Rightarrow> (glink \<times> artifact_graph) res" where
  "graph_link source target kind properties description confidence scope g =
     bind_res (node_ref_id source) (\<lambda>s.
     bind_res (node_ref_id target) (\<lambda>t.
     if s \<notin> set (keys (vg_nodes g)) \<or> t \<notin> set (keys (vg_nodes g)) then Inl (ValueError ''link references an unknown node'')
     else
       bind_res (checked_properties ''link properties'' properties) (\<lambda>d.
       bind_res (text_identifier ''link kind'' kind) (\<lambda>k.
       bind_res (optional_description ''link description'' description) (\<lambda>description'.
       bind_res (inherited_confidence ''link confidence'' d confidence) (\<lambda>confidence'.
       bind_res (inherited_scope ''link scope'' d scope) (\<lambda>scope'.
       let link = \<lparr>lk_source = s, lk_target = t, lk_kind = k, lk_properties = d, lk_description = description',
         lk_confidence = confidence', lk_scope = scope'\<rparr>
       in Inr (link, g\<lparr>vg_links := vg_links g @ [link]\<rparr>))))))))"

section \<open>Validation\<close>

definition node_spans :: "gnode \<Rightarrow> span list" where
  "node_spans n = gn_spans n @ concat (map (fd_spans \<circ> snd) (gn_fields n))"

text \<open>Artifacts are compared by identity, which the record of an artifact includes.\<close>

definition check_span :: "artifact_graph \<Rightarrow> span \<Rightarrow> string list \<Rightarrow> string list res" where
  "check_span g s seen =
     (if sp_artifact s \<notin> snd ` set (vg_artifacts g)
      then Inl (ValueError ''node references an artifact from another graph'')
      else if af_size (sp_artifact s) < sp_end s then Inl (ValueError ''span exceeds artifact size'')
      else case sp_id s of
          None \<Rightarrow> Inr seen
        | Some i \<Rightarrow> if i \<in> set seen then Inl (ValueError ''duplicate span id'') else Inr (i # seen))"

definition check_graph_link :: "artifact_graph \<Rightarrow> glink \<Rightarrow> unit res" where
  "check_graph_link g l =
     (if lk_source l \<notin> set (keys (vg_nodes g)) \<or> lk_target l \<notin> set (keys (vg_nodes g))
      then Inl (ValueError ''link references an unknown node'') else Inr ())"

definition validate_graph :: "artifact_graph \<Rightarrow> unit res" where
  "validate_graph g =
     bind_res (fold_res (check_span g) (concat (map (node_spans \<circ> snd) (vg_nodes g))) []) (\<lambda>_.
     if \<not> list_all (\<lambda>(child, parent). child \<in> set (keys (vg_nodes g)) \<and> parent \<in> set (keys (vg_nodes g))) (vg_parents g)
     then Inl (ValueError ''containment references an unknown node'')
     else bind_res (map_res (check_graph_link g) (vg_links g)) (\<lambda>_. Inr ()))"

section \<open>Containment is a forest\<close>

text \<open>The edges from a node to its parent.\<close>

definition parent_edges :: "(string \<times> string) list \<Rightarrow> (string \<times> string) set" where
  "parent_edges parents = {(c, p). map_of parents c = Some p}"

lemma finite_parent_edges: "finite (parent_edges parents)"
proof (rule finite_subset)
  show "parent_edges parents \<subseteq> set parents" by (auto simp: parent_edges_def dest: map_of_SomeD)
qed simp

text \<open>Along acyclic edges the loop of \<open>contain\<close> ends, and says whether \<open>child\<close> is above \<open>cursor\<close>.\<close>

lemma reaches_child_iff:
  assumes "acyclic (parent_edges parents)"
  shows "reaches_child (map_of parents) child cursor = Some ((cursor, child) \<in> (parent_edges parents)\<^sup>+)"
  using finite_acyclic_wf_converse [OF finite_parent_edges assms]
proof (induction cursor rule: wf_induct_rule)
  case (less cursor)
  show ?case
  proof (cases "map_of parents cursor")
    case None
    then have "(cursor, child) \<notin> (parent_edges parents)\<^sup>+" by (auto simp: parent_edges_def dest: tranclD)
    with None show ?thesis by (subst reaches_child.simps) simp
  next
    case (Some p)
    then have edge: "(cursor, q) \<in> parent_edges parents \<longleftrightarrow> q = p" for q by (auto simp: parent_edges_def)
    from less [of p] edge have "reaches_child (map_of parents) child p = Some ((p, child) \<in> (parent_edges parents)\<^sup>+)" by simp
    moreover have "(cursor, child) \<in> (parent_edges parents)\<^sup>+ \<longleftrightarrow> child = p \<or> (p, child) \<in> (parent_edges parents)\<^sup>+"
      by (metis edge r_into_trancl trancl_into_trancl2 converse_tranclE)
    ultimately show ?thesis using Some by (subst reaches_child.simps) auto
  qed
qed

text \<open>Every contained node and its parent exist, a node has one parent, and no node is above itself.\<close>

definition forest :: "artifact_graph \<Rightarrow> bool" where
  "forest g \<longleftrightarrow> distinct (keys (vg_parents g)) \<and> acyclic (parent_edges (vg_parents g)) \<and>
     (\<forall>(c, p) \<in> set (vg_parents g). c \<in> set (keys (vg_nodes g)) \<and> p \<in> set (keys (vg_nodes g)))"

text \<open>When \<open>contain\<close> accepts a parent for a child.\<close>

definition containable :: "artifact_graph \<Rightarrow> string \<Rightarrow> string \<Rightarrow> bool" where
  "containable g p c \<longleftrightarrow> p \<in> set (keys (vg_nodes g)) \<and> c \<in> set (keys (vg_nodes g)) \<and> p \<noteq> c \<and>
     c \<notin> set (keys (vg_parents g)) \<and> (p, c) \<notin> (parent_edges (vg_parents g))\<^sup>+"

lemma contain_ids_forest:
  assumes "forest g"
  shows "\<exists>r. contain_ids p c g = Some r \<and>
    (\<forall>g'. r = Inr g' \<longleftrightarrow> containable g p c \<and> g' = g\<lparr>vg_parents := vg_parents g @ [(c, p)]\<rparr>)"
proof -
  have "acyclic (parent_edges (vg_parents g))" using assms by (simp add: forest_def)
  then show ?thesis
    by (auto simp: contain_ids_def containable_def reaches_child_iff split: bool.splits)
qed

lemma contained_forest:
  assumes "forest g" and "containable g p c"
  shows "forest (g\<lparr>vg_parents := vg_parents g @ [(c, p)]\<rparr>)"
proof -
  let ?E = "parent_edges (vg_parents g)"
  have "c \<notin> dom (map_of (vg_parents g))" using assms(2) by (auto simp: containable_def keys_def dom_map_of_conv_image_fst)
  then have edges: "parent_edges (vg_parents g @ [(c, p)]) = insert (c, p) ?E"
    by (auto simp: parent_edges_def map_add_def split: option.splits if_splits)
  have "(p, c) \<notin> ?E\<^sup>*" using assms(2) by (auto simp: containable_def rtrancl_eq_or_trancl)
  with assms show ?thesis
    unfolding forest_def by (auto simp: edges acyclic_insert containable_def keys_def)
qed

text \<open>The graphs a program can reach: made with \<open>ArtifactGraph\<close> and changed by its operations, those that raise
  included. The parts given to an operation were made by their constructors.\<close>

definition wf_span :: "span \<Rightarrow> bool" where
  "wf_span s \<longleftrightarrow> (\<exists>start stop sid label role. Span (sp_artifact s) start stop sid label role = Inr s)"

definition wf_category :: "category \<Rightarrow> bool" where
  "wf_category c \<longleftrightarrow> Category (PStr (cg_id c)) (PStr (cg_label c)) (PStr (cg_color c)) = Inr c"

definition wf_field :: "gfield \<Rightarrow> bool" where
  "wf_field f \<longleftrightarrow> list_all wf_span (fd_spans f) \<and>
     (\<exists>display description properties confidence scope relevance.
       Field (fd_value f) (fd_spans f) display description properties confidence scope relevance = Inr f)"

definition wf_address :: "address \<Rightarrow> bool" where
  "wf_address a \<longleftrightarrow> Address (PStr (an_space a)) (PInt (an_value a)) = Inr a"

fun wf_field_arg :: "field_arg \<Rightarrow> bool" where
  "wf_field_arg (ReadyField f) = wf_field f"
| "wf_field_arg (FieldValue _) = True"

fun wf_address_arg :: "address_arg \<Rightarrow> bool" where
  "wf_address_arg (ReadyAddress a) = wf_address a"
| "wf_address_arg (AddressValue _) = True"

definition wf_args :: "node_args \<Rightarrow> bool" where
  "wf_args args \<longleftrightarrow> list_all wf_span (na_spans args) \<and> list_all (\<lambda>(_, v). wf_field_arg v) (na_fields args) \<and>
     list_all (\<lambda>(_, v). wf_address_arg v) (na_addresses args) \<and> distinct (keys (na_fields args)) \<and> distinct (keys (na_addresses args))"

inductive built :: "files \<Rightarrow> artifact_graph \<Rightarrow> bool" for fs :: files where
  start: "list_all wf_category cs \<Longrightarrow> ArtifactGraph title cs = Inr g \<Longrightarrow> built fs g"
| artifact: "built fs g \<Longrightarrow> graph_artifact fs obj aid data path name media_type g = Inr (a, g') \<Longrightarrow>
    obj \<notin> af_object ` snd ` set (vg_artifacts g) \<Longrightarrow> built fs g'"
| node: "built fs g \<Longrightarrow> wf_args args \<Longrightarrow> graph_node args g = Some (r, g') \<Longrightarrow> built fs g'"
| containment: "built fs g \<Longrightarrow> contain parent child g = Some (Inr g') \<Longrightarrow> built fs g'"
| link: "built fs g \<Longrightarrow> graph_link source target kind properties description confidence scope g = Inr (l, g') \<Longrightarrow> built fs g'"

lemma contain_forest:
  assumes "forest g"
  shows "\<exists>r. contain parent child g = Some r \<and> (\<forall>g'. r = Inr g' \<longrightarrow> forest g' \<and>
    (\<exists>p c. node_ref_id parent = Inr p \<and> node_ref_id child = Inr c \<and> containable g p c \<and> g' = g\<lparr>vg_parents := vg_parents g @ [(c, p)]\<rparr>))"
proof (cases "node_ref_id parent"; cases "node_ref_id child")
  fix p c assume ids: "node_ref_id parent = Inr p" "node_ref_id child = Inr c"
  from contain_ids_forest [OF assms, of p c] contained_forest [OF assms, of p c] ids show ?thesis
    by (auto simp: contain_def)
qed (simp_all add: contain_def)

lemma forest_nodes: "forest g \<Longrightarrow> forest (g\<lparr>vg_nodes := vg_nodes g @ ns\<rparr>)"
  by (auto simp: forest_def keys_def)

lemma graph_node_forest:
  assumes "forest g"
  shows "\<exists>r g'. graph_node args g = Some (r, g') \<and> forest g'"
proof (cases "insert_node args g")
  case (Inr ng)
  then obtain node g1 where g1: "insert_node args g = Inr (node, g1)" by (cases ng) simp
  then have f: "forest g1" using forest_nodes [OF assms] by (auto simp: insert_node_def bind_res_eq_Inr)
  show ?thesis
  proof (cases "na_parent args")
    case (Some parent)
    from contain_forest [OF f, of parent "NodeRef node"] obtain r where "contain parent (NodeRef node) g1 = Some r"
      "\<And>g'. r = Inr g' \<Longrightarrow> forest g'" by blast
    with Some g1 f show ?thesis by (cases r) (auto simp: graph_node_def)
  qed (use g1 f in \<open>simp add: graph_node_def\<close>)
qed (use assms in \<open>simp add: graph_node_def\<close>)

lemma built_forest: "built fs g \<Longrightarrow> forest g"
proof (induction rule: built.induct)
  case (start cs title g)
  then show ?case by (auto simp: ArtifactGraph_def bind_res_eq_Inr if_Inl_Inr forest_def parent_edges_def acyclic_def keys_def)
next
  case (artifact g obj aid data path name media_type a g')
  then show ?case by (auto simp: graph_artifact_def bind_res_eq_Inr if_Inl_Inr forest_def)
next
  case (node g args r g')
  with graph_node_forest [of g args] show ?case by auto
next
  case (containment g parent child g')
  with contain_forest [of g parent child] show ?case by auto
next
  case (link g source target kind properties description confidence scope l g')
  then show ?case by (auto simp: graph_link_def bind_res_eq_Inr if_Inl_Inr forest_def Let_def)
qed

text \<open>C34 Containment is always a forest: whatever sequence of operations made a graph, attempts that raised included,
  every contained node and its parent are nodes of the graph, each node has at most one parent, and no node is above
  itself. So the loop of \<open>contain\<close> ends on it, \<open>contain\<close> and \<open>node\<close> always return, and \<open>contain\<close> accepts exactly
  the pairs of different known nodes whose child has no parent and is not above the new parent.\<close>

theorem containment_forest:
  assumes "built fs g"
  shows "acyclic (parent_edges (vg_parents g)) \<and> distinct (keys (vg_parents g)) \<and>
    (\<forall>(c, p) \<in> set (vg_parents g). c \<in> set (keys (vg_nodes g)) \<and> p \<in> set (keys (vg_nodes g))) \<and>
    (\<forall>args. graph_node args g \<noteq> None) \<and>
    (\<forall>p c. \<exists>r. contain (IdRef (PStr p)) (IdRef (PStr c)) g = Some r \<and>
       (plain_text p \<and> plain_text c \<longrightarrow>
        (\<forall>g'. r = Inr g' \<longleftrightarrow> containable g p c \<and> g' = g\<lparr>vg_parents := vg_parents g @ [(c, p)]\<rparr>)))"
proof -
  note f = built_forest [OF assms]
  have "\<exists>r. contain (IdRef (PStr p)) (IdRef (PStr c)) g = Some r \<and> (plain_text p \<and> plain_text c \<longrightarrow>
        (\<forall>g'. r = Inr g' \<longleftrightarrow> containable g p c \<and> g' = g\<lparr>vg_parents := vg_parents g @ [(c, p)]\<rparr>))" for p c
    using contain_ids_forest [OF f, of p c] contain_forest [OF f, of "IdRef (PStr p)" "IdRef (PStr c)"]
    by (auto simp: contain_def node_ref_id_def text_identifier_def)
  moreover have "graph_node args g \<noteq> None" for args using graph_node_forest [OF f, of args] by auto
  ultimately show ?thesis using f by (simp add: forest_def)
qed

text \<open>Three nodes, one in another.\<close>

definition sample_args :: "string \<Rightarrow> node_ref option \<Rightarrow> node_args" where
  "sample_args name parent = \<lparr>na_id = PStr name, na_label = PNone, na_description = PNone, na_kind = PStr ''entity'',
     na_category = PStr ''metadata'', na_spans = [], na_properties = PNone, na_fields = [], na_addresses = [], na_parent = parent,
     na_confidence = PNone, na_scope = PNone, na_relevance = PNone, na_contributes = PBool True\<rparr>"

definition then_node :: "node_args \<Rightarrow> artifact_graph \<Rightarrow> artifact_graph" where
  "then_node args g = (case graph_node args g of Some (_, g') \<Rightarrow> g' | None \<Rightarrow> g)"

definition sample_graph :: artifact_graph where
  "sample_graph =
     (case ArtifactGraph (PStr ''t'') default_categories of
        Inl _ \<Rightarrow> undefined
      | Inr g \<Rightarrow> then_node (sample_args ''c'' (Some (IdRef (PStr ''b'')))) (then_node (sample_args ''b'' (Some (IdRef (PStr ''a''))))
          (then_node (sample_args ''a'' None) g)))"

lemma then_node_built: "built fs g \<Longrightarrow> wf_args args \<Longrightarrow> built fs (then_node args g)"
  by (auto simp: then_node_def intro: built.node split: option.splits)

lemma sample_graph_built: "built fs sample_graph"
proof -
  have "list_all wf_category default_categories" by code_simp
  moreover have "\<not> isl (ArtifactGraph (PStr ''t'') default_categories)" by code_simp
  then obtain g where g: "ArtifactGraph (PStr ''t'') default_categories = Inr g" by (metis isl_def sum.exhaust)
  ultimately have "built fs g" by (rule built.start)
  moreover have "wf_args (sample_args name parent)" for name parent by (simp add: wf_args_def sample_args_def keys_def)
  ultimately show ?thesis by (simp add: sample_graph_def g then_node_built)
qed

theorem containment_forest_witness:
  "vg_parents sample_graph = [(''b'', ''a''), (''c'', ''b'')] \<and> acyclic (parent_edges (vg_parents sample_graph)) \<and>
   contain (IdRef (PStr ''c'')) (IdRef (PStr ''a'')) sample_graph = Some (Inl (ValueError ''containment would create a cycle''))"
proof -
  have "vg_parents sample_graph = [(''b'', ''a''), (''c'', ''b'')]"
    "contain (IdRef (PStr ''c'')) (IdRef (PStr ''a'')) sample_graph = Some (Inl (ValueError ''containment would create a cycle''))"
    by code_simp+
  with containment_forest [OF sample_graph_built] show ?thesis by simp
qed

end
