(* ===== verification/Artifact_Json.thy ===== *)
theory Artifact_Json
  imports Artifact_Graph
begin

text \<open>
  \<open>ArtifactGraph.to_dict\<close> and \<open>ArtifactGraph.from_dict\<close> (\<open>viz/model.py\<close>), over Python values. The JSON
  text around the dictionaries (\<open>dumps\<close> and \<open>loads\<close>, which do not escape and do not sort) is not modelled.
\<close>

section \<open>Writing\<close>

definition address_to_dict :: "address \<Rightarrow> pyval" where
  "address_to_dict a = PDict [(''space'', PStr (an_space a)), (''value'', PInt (an_value a))]"

definition node_to_dict :: "(string \<times> string) list \<Rightarrow> gnode \<Rightarrow> pyval" where
  "node_to_dict parents n = PDict (
     [(''id'', PStr (gn_id n)), (''label'', PStr (gn_label n)), (''kind'', PStr (gn_kind n)), (''category'', PStr (gn_category n)),
      (''spans'', PList (map span_to_dict (gn_spans n))), (''properties'', PDict (gn_properties n)),
      (''fields'', PDict (map (\<lambda>(k, f). (k, field_to_dict f)) (gn_fields n))),
      (''addresses'', PDict (map (\<lambda>(k, a). (k, address_to_dict a)) (gn_addresses n)))] @
     given ''parent'' (map_of parents (gn_id n)) @ given ''description'' (gn_description n) @
     given ''confidence'' (gn_confidence n) @ given ''scope'' (gn_scope n) @ given ''relevance'' (gn_relevance n) @
     (if gn_contributes n then [] else [(''contributes_to_coverage'', PBool False)]))"

definition link_to_dict :: "glink \<Rightarrow> pyval" where
  "link_to_dict l = PDict (
     [(''source'', PStr (lk_source l)), (''target'', PStr (lk_target l)), (''kind'', PStr (lk_kind l)),
      (''properties'', PDict (lk_properties l))] @
     given ''description'' (lk_description l) @ given ''confidence'' (lk_confidence l) @ given ''scope'' (lk_scope l))"

definition category_to_dict :: "category \<Rightarrow> pyval" where
  "category_to_dict c = PDict [(''id'', PStr (cg_id c)), (''label'', PStr (cg_label c)), (''color'', PStr (cg_color c))]"

definition graph_to_dict :: "files \<Rightarrow> bool \<Rightarrow> artifact_graph \<Rightarrow> pyval res" where
  "graph_to_dict fs include_data g =
     bind_res (validate_graph g) (\<lambda>_.
     bind_res (map_res (artifact_to_dict fs include_data \<circ> snd) (vg_artifacts g)) (\<lambda>artifacts.
     Inr (PDict [(''format'', PStr graph_format), (''version'', PInt 2), (''title'', PStr (vg_title g)),
       (''categories'', PList (map (category_to_dict \<circ> snd) (vg_categories g))), (''artifacts'', PList artifacts),
       (''nodes'', PList (map (node_to_dict (vg_parents g) \<circ> snd) (vg_nodes g))),
       (''links'', PList (map link_to_dict (vg_links g)))])))"

section \<open>Reading\<close>

text \<open>\<open>v[k]\<close>, \<open>v.get(k, d)\<close>, \<open>for x in v\<close> and \<open>v.items()\<close>\<close>

definition item :: "pyval \<Rightarrow> string \<Rightarrow> pyval res" where
  "item v k = (case v of PDict d \<Rightarrow> dget_item d k | _ \<Rightarrow> Inl (TypeError ''indices must be integers''))"

definition item_or :: "pyval \<Rightarrow> string \<Rightarrow> pyval \<Rightarrow> pyval res" where
  "item_or v k default_value =
     (case v of PDict d \<Rightarrow> Inr (case map_of d k of None \<Rightarrow> default_value | Some x \<Rightarrow> x) | _ \<Rightarrow> Inl AttributeError)"

definition elements :: "pyval \<Rightarrow> pyval list res" where
  "elements v = from_option (TypeError ''object is not iterable'') (py_iter v)"

definition dict_items :: "pyval \<Rightarrow> (string \<times> pyval) list res" where
  "dict_items v = (case v of PDict d \<Rightarrow> Inr d | _ \<Rightarrow> Inl AttributeError)"

definition read_category :: "pyval \<Rightarrow> category res" where
  "read_category v =
     bind_res (item v ''id'') (\<lambda>i. bind_res (item v ''label'') (\<lambda>label. bind_res (item v ''color'') (\<lambda>color.
     Category i label color)))"

text \<open>The bytes or the path of a serialised artifact.\<close>

definition read_source :: "(string \<times> pyval) list \<Rightarrow> (string \<times> pyval) list \<Rightarrow> pyval res" where
  "read_source artifact_data d =
     (case map_of d ''data_base64'' of
        Some (PStr s) \<Rightarrow>
          (case b64decode s of Some b \<Rightarrow> Inr (PBytes b) | None \<Rightarrow> Inl (ValueError ''invalid base64 data for artifact''))
      | Some (PBytes b) \<Rightarrow>
          (case b64decode (map (char_of \<circ> unat) b) of
             Some b \<Rightarrow> Inr (PBytes b) | None \<Rightarrow> Inl (ValueError ''invalid base64 data for artifact''))
      | Some _ \<Rightarrow> Inl (ValueError ''invalid base64 data for artifact'')
      | None \<Rightarrow>
          bind_res (dget_item d ''id'') (\<lambda>i.
          bind_res (in_keys i artifact_data) (\<lambda>present.
          case i of
            PStr s \<Rightarrow> if present then dget_item artifact_data s else Inl (ValueError ''serialized artifact has no bytes; supply artifact_data'')
          | _ \<Rightarrow> Inl (ValueError ''serialized artifact has no bytes; supply artifact_data''))))"

text \<open>One turn of the loop over the artifacts; the number counts the Python objects made.\<close>

definition read_artifact ::
  "files \<Rightarrow> (string \<times> pyval) list \<Rightarrow> pyval \<Rightarrow> nat \<times> artifact_graph \<Rightarrow> (nat \<times> artifact_graph) res" where
  "read_artifact fs artifact_data v = (\<lambda>(obj, g).
     case v of
       PDict d \<Rightarrow>
         bind_res (read_source artifact_data d) (\<lambda>source.
         bind_res (dget_item d ''id'') (\<lambda>i.
         bind_res (dget_item d ''name'') (\<lambda>name.
         bind_res (item_or v ''media_type'' (PStr ''application/octet-stream'')) (\<lambda>media_type.
         bind_res (graph_artifact fs obj i source PNone name media_type g) (\<lambda>(a, g').
         bind_res (dget_item d ''size'') (\<lambda>n.
         if \<not> py_eq (PInt (af_size a)) n then Inl (ValueError ''serialized artifact does not match its bytes'')
         else bind_res (dget_item d ''sha256'') (\<lambda>sha.
           if sha \<noteq> PStr (af_sha256 a) then Inl (ValueError ''serialized artifact does not match its bytes'')
           else Inr (Suc obj, g'))))))))
     | _ \<Rightarrow> Inl (TypeError ''indices must be integers''))"

definition read_span :: "artifact_graph \<Rightarrow> pyval \<Rightarrow> span res" where
  "read_span g v =
     bind_res (item v ''artifact'') (\<lambda>i.
     bind_res (in_keys i (vg_artifacts g)) (\<lambda>_.
     bind_res (from_option (KeyError ''artifact'') (case i of PStr s \<Rightarrow> map_of (vg_artifacts g) s | _ \<Rightarrow> None)) (\<lambda>a.
     bind_res (item v ''start'') (\<lambda>start. bind_res (item v ''end'') (\<lambda>stop.
     bind_res (item_or v ''id'' PNone) (\<lambda>sid. bind_res (item_or v ''label'' PNone) (\<lambda>label. bind_res (item_or v ''role'' PNone) (\<lambda>role.
     Span a start stop sid label role))))))))"

definition read_spans :: "artifact_graph \<Rightarrow> pyval \<Rightarrow> span list res" where
  "read_spans g v = bind_res (item_or v ''spans'' (PTuple [])) (\<lambda>vs. bind_res (elements vs) (map_res (read_span g)))"

definition read_field :: "artifact_graph \<Rightarrow> string \<times> pyval \<Rightarrow> (string \<times> field_arg) res" where
  "read_field g = (\<lambda>(name, v).
     bind_res (read_spans g v) (\<lambda>spans.
     bind_res (item_or v ''value'' PNone) (\<lambda>x.
     bind_res (item_or v ''display'' PNone) (\<lambda>display.
     bind_res (item_or v ''description'' PNone) (\<lambda>description.
     bind_res (item_or v ''properties'' (PDict [])) (\<lambda>properties.
     bind_res (item_or v ''confidence'' PNone) (\<lambda>confidence.
     bind_res (item_or v ''scope'' PNone) (\<lambda>scope.
     bind_res (item_or v ''relevance'' PNone) (\<lambda>relevance.
     bind_res (Field x spans display description properties confidence scope relevance) (\<lambda>f.
     Inr (name, ReadyField f)))))))))))"

definition read_address :: "string \<times> pyval \<Rightarrow> (string \<times> address_arg) res" where
  "read_address = (\<lambda>(name, v).
     bind_res (item v ''space'') (\<lambda>space. bind_res (item v ''value'') (\<lambda>x.
     bind_res (Address space x) (\<lambda>a. Inr (name, ReadyAddress a)))))"

definition read_node :: "pyval \<Rightarrow> artifact_graph \<Rightarrow> artifact_graph res" where
  "read_node v g =
     bind_res (read_spans g v) (\<lambda>spans.
     bind_res (item_or v ''fields'' (PDict [])) (\<lambda>fs.
     bind_res (dict_items fs) (\<lambda>fs.
     bind_res (map_res (read_field g) fs) (\<lambda>fields.
     bind_res (item_or v ''addresses'' (PDict [])) (\<lambda>as.
     bind_res (dict_items as) (\<lambda>as.
     bind_res (map_res read_address as) (\<lambda>addresses.
     bind_res (item v ''id'') (\<lambda>i.
     bind_res (item v ''label'') (\<lambda>label.
     bind_res (item_or v ''description'' PNone) (\<lambda>description.
     bind_res (item v ''kind'') (\<lambda>kind.
     bind_res (item v ''category'') (\<lambda>category.
     bind_res (item_or v ''properties'' (PDict [])) (\<lambda>properties.
     bind_res (item_or v ''confidence'' PNone) (\<lambda>confidence.
     bind_res (item_or v ''scope'' PNone) (\<lambda>scope.
     bind_res (item_or v ''relevance'' PNone) (\<lambda>relevance.
     bind_res (item_or v ''contributes_to_coverage'' (PBool True)) (\<lambda>contributes.
     bind_res (insert_node \<lparr>na_id = i, na_label = label, na_description = description, na_kind = kind, na_category = category,
         na_spans = spans, na_properties = properties, na_fields = fields, na_addresses = addresses, na_parent = None,
         na_confidence = confidence, na_scope = scope, na_relevance = relevance, na_contributes = contributes\<rparr> g) (\<lambda>(_, g').
     Inr g'))))))))))))))))))"

text \<open>A loop whose body may also run forever.\<close>

fun fold_opt :: "('a \<Rightarrow> 's \<Rightarrow> 's res option) \<Rightarrow> 'a list \<Rightarrow> 's \<Rightarrow> 's res option" where
  "fold_opt f [] s = Some (Inr s)"
| "fold_opt f (x # xs) s =
     (case f x s of None \<Rightarrow> None | Some (Inl e) \<Rightarrow> Some (Inl e) | Some (Inr s') \<Rightarrow> fold_opt f xs s')"

definition read_parent :: "pyval \<Rightarrow> artifact_graph \<Rightarrow> artifact_graph res option" where
  "read_parent v g =
     (case item_or v ''parent'' PNone of
        Inl e \<Rightarrow> Some (Inl e)
      | Inr parent \<Rightarrow>
          if \<not> truthy parent then Some (Inr g)
          else (case item v ''id'' of Inl e \<Rightarrow> Some (Inl e) | Inr i \<Rightarrow> contain (IdRef parent) (IdRef i) g))"

definition read_link :: "pyval \<Rightarrow> artifact_graph \<Rightarrow> artifact_graph res" where
  "read_link v g =
     bind_res (item v ''source'') (\<lambda>source. bind_res (item v ''target'') (\<lambda>target. bind_res (item v ''kind'') (\<lambda>kind.
     bind_res (item_or v ''properties'' (PDict [])) (\<lambda>properties.
     bind_res (item_or v ''description'' PNone) (\<lambda>description.
     bind_res (item_or v ''confidence'' PNone) (\<lambda>confidence.
     bind_res (item_or v ''scope'' PNone) (\<lambda>scope.
     bind_res (graph_link (IdRef source) (IdRef target) kind properties description confidence scope g) (\<lambda>(_, g'). Inr g'))))))))"

definition supported_version :: "pyval \<Rightarrow> bool" where
  "supported_version v = (case v of PInt i \<Rightarrow> i = 1 \<or> i = 2 | _ \<Rightarrow> False)"

text \<open>The graph with its categories, artifacts and nodes, and the serialised nodes.\<close>

definition read_contents :: "files \<Rightarrow> nat \<Rightarrow> pyval \<Rightarrow> (string \<times> pyval) list \<Rightarrow> (artifact_graph \<times> pyval list) res" where
  "read_contents fs obj v artifact_data =
     bind_res (item_or v ''version'' PNone) (\<lambda>version.
     bind_res (item_or v ''format'' PNone) (\<lambda>fmt.
     if fmt \<noteq> PStr graph_format \<or> \<not> supported_version version
     then Inl (ValueError ''unsupported artifact graph serialization format or version'')
     else
       bind_res (item v ''categories'') (\<lambda>cs.
       bind_res (elements cs) (\<lambda>cs.
       bind_res (map_res read_category cs) (\<lambda>categories.
       bind_res (item v ''title'') (\<lambda>title.
       bind_res (ArtifactGraph title categories) (\<lambda>g.
       bind_res (item v ''artifacts'') (\<lambda>as.
       bind_res (elements as) (\<lambda>as.
       bind_res (fold_res (read_artifact fs artifact_data) as (obj, g)) (\<lambda>(_, g1).
       bind_res (item v ''nodes'') (\<lambda>ns.
       bind_res (elements ns) (\<lambda>ns.
       bind_res (fold_res read_node ns g1) (\<lambda>g2. Inr (g2, ns))))))))))))))"

definition read_links :: "pyval \<Rightarrow> artifact_graph \<Rightarrow> artifact_graph res" where
  "read_links v g =
     bind_res (item_or v ''links'' (PTuple [])) (\<lambda>ls.
     bind_res (elements ls) (\<lambda>ls.
     bind_res (fold_res read_link ls g) (\<lambda>g'.
     bind_res (validate_graph g') (\<lambda>_. Inr g'))))"

text \<open>\<open>from_dict\<close>; no value where it runs forever.\<close>

definition from_dict :: "files \<Rightarrow> nat \<Rightarrow> pyval \<Rightarrow> (string \<times> pyval) list \<Rightarrow> artifact_graph res option" where
  "from_dict fs obj v artifact_data =
     (case read_contents fs obj v artifact_data of
        Inl e \<Rightarrow> Some (Inl e)
      | Inr (g, ns) \<Rightarrow>
          (case fold_opt read_parent ns g of
             None \<Rightarrow> None
           | Some (Inl e) \<Rightarrow> Some (Inl e)
           | Some (Inr g') \<Rightarrow> Some (read_links v g')))"

end
