(* ===== verification/Artifact_Roundtrip.thy ===== *)
theory Artifact_Roundtrip
  imports Artifact_Json
begin

text \<open>
  What \<open>ArtifactGraph.from_dict\<close> makes of the dictionaries \<open>ArtifactGraph.to_dict\<close> writes (\<open>viz/model.py\<close>): the constructors
  accept again what they made, every graph the operations make is well-formed, and each part written is read back.
\<close>

section \<open>What the constructors make, they make again\<close>

text \<open>An optional text as an argument.\<close>

fun opt_val :: "string option \<Rightarrow> pyval" where
  "opt_val None = PNone"
| "opt_val (Some s) = PStr s"

lemma opt_val_simps [simp]: "opt_val r = PNone \<longleftrightarrow> r = None" "opt_val r = PStr s \<longleftrightarrow> r = Some s" "opt_val r = opt_val r' \<longleftrightarrow> r = r'"
  by (cases r; cases r'; simp)+

lemma text_identifier_Inr [res_simps]: "text_identifier what v = Inr s \<longleftrightarrow> v = PStr s \<and> plain_text s"
  by (cases v) (auto simp: text_identifier_def)

lemma optional_description_Inr [res_simps]:
  "optional_description what v = Inr r \<longleftrightarrow> v = opt_val r \<and> (\<forall>s. r = Some s \<longrightarrow> plain_text s)"
  by (cases v; cases r) (auto simp: optional_description_def)

lemma optional_identifier_Inr [res_simps]:
  "optional_identifier what v = Inr r \<longleftrightarrow> v = opt_val r \<and> (\<forall>s. r = Some s \<longrightarrow> plain_text s)"
  by (cases r) (auto simp: optional_identifier_def res_simps)

lemma optional_choice_Inr [res_simps]:
  "optional_choice what choices v = Inr r \<longleftrightarrow> v = opt_val r \<and> (\<forall>s. r = Some s \<longrightarrow> plain_text s \<and> s \<in> set choices)"
  by (cases r) (auto simp: optional_choice_def res_simps)

lemma py_int_Inr [res_simps]: "py_int e v = Inr i \<longleftrightarrow> v = PInt i"
  by (cases v) (auto simp: py_int_def)

lemma or_else_opt: "or_else v d = opt_val r \<Longrightarrow> or_else (opt_val r) d = opt_val r"
  by (cases r) (auto simp: or_else_def split: if_splits)

text \<open>Confidence, scope and relevance as they are in the record are inherited again.\<close>

definition inherits :: "(string \<times> pyval) list \<Rightarrow> string option \<Rightarrow> string option \<Rightarrow> string option \<Rightarrow> bool" where
  "inherits d confidence scope relevance \<longleftrightarrow> (\<forall>what. inherited_confidence what d (opt_val confidence) = Inr confidence \<and>
     inherited_scope what d (opt_val scope) = Inr scope \<and> inherited_relevance what d (opt_val relevance) = Inr relevance)"

lemma inheritsI:
  assumes "inherited_confidence a d v = Inr confidence" and "inherited_scope b d v' = Inr scope" and "inherited_relevance c d v'' = Inr relevance"
  shows "inherits d confidence scope relevance"
  using assms by (simp add: inherits_def inherited_confidence_def inherited_scope_def inherited_relevance_def res_simps) (blast intro: or_else_opt)

lemma checked_properties_Inr:
  "checked_properties what v = Inr d \<longleftrightarrow> py_dict v = Inr d \<and> strict_json (PDict d)"
  by (auto simp: checked_properties_def json_value_def bind_res_eq_Inr if_Inl_Inr)

lemma py_dict_PDict [simp]: "py_dict (PDict d) = Inr d"
  by (simp add: py_dict_def)

lemma Span_again:
  assumes "wf_span s"
  shows "Span a (PInt (sp_start s)) (PInt (sp_end s)) (opt_val (sp_id s)) (opt_val (sp_label s)) (opt_val (sp_role s)) = Inr (s\<lparr>sp_artifact := a\<rparr>)"
  using assms by (cases s) (auto simp: wf_span_def Span_def res_simps)

lemma Field_Inr:
  "Field v spans display description properties confidence scope relevance = Inr f \<Longrightarrow>
     strict_json (fd_value f) \<and> strict_json (PDict (fd_properties f)) \<and> (\<forall>s. fd_description f = Some s \<longrightarrow> plain_text s) \<and>
     inherits (fd_properties f) (fd_confidence f) (fd_scope f) (fd_relevance f)"
  unfolding Field_def
  by (auto simp: bind_res_eq_Inr json_value_def if_Inl_Inr checked_properties_Inr res_simps intro: inheritsI)

lemma Field_again:
  assumes "wf_field f"
  shows "Field (fd_value f) spans (opt_val (fd_display f)) (opt_val (fd_description f)) (PDict (fd_properties f))
    (opt_val (fd_confidence f)) (opt_val (fd_scope f)) (opt_val (fd_relevance f)) = Inr (f\<lparr>fd_spans := spans\<rparr>)"
proof -
  obtain display description properties confidence scope relevance where
    "Field (fd_value f) (fd_spans f) display description properties confidence scope relevance = Inr f"
    using assms by (auto simp: wf_field_def)
  from Field_Inr [OF this] have f: "strict_json (fd_value f)" "strict_json (PDict (fd_properties f))"
    "inherits (fd_properties f) (fd_confidence f) (fd_scope f) (fd_relevance f)" "\<forall>s. fd_description f = Some s \<longrightarrow> plain_text s"
    by blast+
  then have "optional_description ''field description'' (opt_val (fd_description f)) = Inr (fd_description f)" by (simp add: res_simps)
  moreover have "(case opt_val r of PNone \<Rightarrow> Inr None | PStr s \<Rightarrow> Inr (Some s) | _ \<Rightarrow> Inl e) = Inr r" for r and e :: pyexn by (cases r) simp_all
  moreover have "checked_properties ''field properties'' (PDict (fd_properties f)) = Inr (fd_properties f)"
    using f(2) by (simp only: checked_properties_Inr py_dict_PDict)
  ultimately show ?thesis
    using f(1,3) by (simp add: Field_def json_value_def inherits_def)
qed

section \<open>Looking up what was written\<close>

declare map_of_append [simp del]

lemma map_of_given [simp]:
  "k \<noteq> key \<Longrightarrow> map_of (given key v @ d) k = map_of d k" "k \<noteq> key \<Longrightarrow> map_of (given key v) k = None"
  "map_of d key = None \<Longrightarrow> map_of (given key v @ d) key = map_option PStr v" "map_of (given key v) key = map_option PStr v"
  by (simp_all add: given_def split: option.splits)

lemma map_of_unless [simp]:
  "k \<noteq> key \<Longrightarrow> map_of ((if b then [] else [(key, x)]) @ d) k = map_of d k"
  "k \<noteq> key \<Longrightarrow> map_of (if b then [] else [(key, x)]) k = None"
  "map_of d key = None \<Longrightarrow> map_of ((if b then [] else [(key, x)]) @ d) key = (if b then None else Some x)"
  "map_of (if b then [] else [(key, x)]) key = (if b then None else Some x)"
  by simp_all

lemma case_given [simp]: "case_option PNone ((\<lambda>x. x) \<circ> PStr) v = opt_val v" "case_option PNone PStr v = opt_val v"
  by (cases v; simp)+

lemma case_unless [simp]: "(case (if b then None else Some x) of None \<Rightarrow> y | Some z \<Rightarrow> z) = (if b then y else x)"
  by simp

lemma read_span_written:
  assumes "wf_span s" and "map_of (vg_artifacts g) (af_id (sp_artifact s)) = Some a"
  shows "read_span g (span_to_dict s) = Inr (s\<lparr>sp_artifact := a\<rparr>)"
  using Span_again [OF assms(1), of a] assms(2)
  by (simp add: read_span_def span_to_dict_def item_def item_or_def dget_item_def from_option_def in_keys_def)

text \<open>A node, a field and a span over other artifacts with the same identifiers.\<close>

definition moved_span :: "(string \<Rightarrow> artifact) \<Rightarrow> span \<Rightarrow> span" where
  "moved_span new s = s\<lparr>sp_artifact := new (af_id (sp_artifact s))\<rparr>"

definition moved_field :: "(string \<Rightarrow> artifact) \<Rightarrow> gfield \<Rightarrow> gfield" where
  "moved_field new f = f\<lparr>fd_spans := map (moved_span new) (fd_spans f)\<rparr>"

definition moved_node :: "(string \<Rightarrow> artifact) \<Rightarrow> gnode \<Rightarrow> gnode" where
  "moved_node new n = n\<lparr>gn_spans := map (moved_span new) (gn_spans n), gn_fields := map (\<lambda>(k, f). (k, moved_field new f)) (gn_fields n)\<rparr>"

text \<open>The artifacts of some spans are in a graph under their identifiers.\<close>

definition placed :: "(string \<Rightarrow> artifact) \<Rightarrow> artifact_graph \<Rightarrow> span list \<Rightarrow> bool" where
  "placed new g ss \<longleftrightarrow> list_all (\<lambda>s. wf_span s \<and> map_of (vg_artifacts g) (af_id (sp_artifact s)) = Some (new (af_id (sp_artifact s)))) ss"

lemma read_spans_written:
  assumes "placed new g ss"
  shows "map_res (read_span g) (map span_to_dict ss) = Inr (map (moved_span new) ss)"
  using assms by (induction ss) (simp_all add: placed_def read_span_written moved_span_def)

lemma read_field_written:
  assumes "wf_field f" and "placed new g (fd_spans f)"
  shows "read_field g (k, field_to_dict f) = Inr (k, ReadyField (moved_field new f))"
proof -
  have "read_spans g (field_to_dict f) = Inr (map (moved_span new) (fd_spans f))"
    using read_spans_written [OF assms(2)]
    by (simp add: read_spans_def field_to_dict_def item_or_def elements_def from_option_def)
  moreover have "item_or (field_to_dict f) ''value'' PNone = Inr (fd_value f)" "item_or (field_to_dict f) ''display'' PNone = Inr (opt_val (fd_display f))"
    "item_or (field_to_dict f) ''description'' PNone = Inr (opt_val (fd_description f))"
    "item_or (field_to_dict f) ''properties'' (PDict []) = Inr (PDict (fd_properties f))"
    "item_or (field_to_dict f) ''confidence'' PNone = Inr (opt_val (fd_confidence f))"
    "item_or (field_to_dict f) ''scope'' PNone = Inr (opt_val (fd_scope f))"
    "item_or (field_to_dict f) ''relevance'' PNone = Inr (opt_val (fd_relevance f))"
    by (simp_all add: item_or_def field_to_dict_def)
  ultimately show ?thesis
    using Field_again [OF assms(1), of "map (moved_span new) (fd_spans f)"] by (simp add: read_field_def moved_field_def)
qed

section \<open>Well-formed graphs\<close>

definition wf_node :: "(string \<times> category) list \<Rightarrow> gnode \<Rightarrow> bool" where
  "wf_node cs n \<longleftrightarrow> plain_text (gn_id n) \<and> plain_text (gn_label n) \<and> plain_text (gn_kind n) \<and> gn_category n \<in> set (keys cs) \<and>
     list_all wf_span (gn_spans n) \<and> list_all (\<lambda>(k, f). plain_text k \<and> wf_field f) (gn_fields n) \<and>
     list_all (\<lambda>(k, a). plain_text k \<and> wf_address a) (gn_addresses n) \<and> strict_json (PDict (gn_properties n)) \<and>
     (\<forall>s. gn_description n = Some s \<longrightarrow> plain_text s) \<and>
     inherits (gn_properties n) (gn_confidence n) (gn_scope n) (gn_relevance n)"

definition wf_link :: "glink \<Rightarrow> bool" where
  "wf_link l \<longleftrightarrow> plain_text (lk_source l) \<and> plain_text (lk_target l) \<and> plain_text (lk_kind l) \<and> strict_json (PDict (lk_properties l)) \<and>
     (\<forall>s. lk_description l = Some s \<longrightarrow> plain_text s) \<and> (\<exists>r. inherits (lk_properties l) (lk_confidence l) (lk_scope l) r)"

definition artifact_content :: "files \<Rightarrow> artifact \<Rightarrow> bytes \<Rightarrow> bool" where
  "artifact_content fs a content \<longleftrightarrow> (case af_source a of InMemory b \<Rightarrow> b = content | OnDisk name mtime \<Rightarrow> fs name = RegularFile content mtime) \<and>
     af_size a = int (length content) \<and> af_sha256 a = sha256 content"

definition wf_artifact :: "files \<Rightarrow> artifact \<Rightarrow> bool" where
  "wf_artifact fs a \<longleftrightarrow> plain_text (af_id a) \<and> plain_text (af_name a) \<and> af_media_type a \<noteq> [] \<and> (\<exists>content. artifact_content fs a content)"

definition wf_graph :: "files \<Rightarrow> artifact_graph \<Rightarrow> bool" where
  "wf_graph fs g \<longleftrightarrow> plain_text (vg_title g) \<and> vg_categories g \<noteq> [] \<and> distinct (keys (vg_categories g)) \<and>
     list_all (\<lambda>(k, c). k = cg_id c \<and> wf_category c) (vg_categories g) \<and>
     distinct (keys (vg_artifacts g)) \<and> list_all (\<lambda>(k, a). k = af_id a \<and> wf_artifact fs a) (vg_artifacts g) \<and>
     distinct (keys (vg_nodes g)) \<and> list_all (\<lambda>(k, n). k = gn_id n \<and> wf_node (vg_categories g) n) (vg_nodes g) \<and>
     list_all wf_link (vg_links g) \<and> forest g"

lemma bool_case_Inr: "(case v of PBool b \<Rightarrow> F b | _ \<Rightarrow> Inl e) = Inr r \<longleftrightarrow> (\<exists>b. v = PBool b \<and> F b = Inr r)"
  by (cases v) auto

lemma str_case_True: "(case v of PStr s \<Rightarrow> P s | _ \<Rightarrow> False) \<longleftrightarrow> (\<exists>s. v = PStr s \<and> P s)"
  by (cases v) auto

lemma in_keys_Inr: "in_keys v d = Inr b \<longleftrightarrow> \<not> unhashable v \<and> b = (case v of PStr s \<Rightarrow> s \<in> set (keys d) | _ \<Rightarrow> False)"
  by (auto simp: in_keys_def if_Inl_Inr)

lemma Field_wf:
  assumes "Field v spans display description properties confidence scope relevance = Inr f" and "list_all wf_span spans"
  shows "wf_field f"
proof -
  from assms(1) have "fd_value f = v" "fd_spans f = spans" by (auto simp: Field_def bind_res_eq_Inr json_value_def if_Inl_Inr)
  with assms show ?thesis unfolding wf_field_def by blast
qed

lemma node_field_wf: "node_field (k, v) = Inr (k', f) \<Longrightarrow> wf_field_arg v \<Longrightarrow> k' = k \<and> plain_text k \<and> wf_field f"
  by (cases v) (auto simp: node_field_def res_simps intro: Field_wf)

lemma node_address_wf: "node_address (k, v) = Inr (k', a) \<Longrightarrow> wf_address_arg v \<Longrightarrow> k' = k \<and> plain_text k \<and> wf_address a"
  by (cases v) (auto simp: node_address_def res_simps wf_address_def Address_def)

lemma map_res_pairs:
  assumes "map_res F xs = Inr ys" and "list_all (\<lambda>(_, v). P v) xs"
    and "\<And>k v k' y. F (k, v) = Inr (k', y) \<Longrightarrow> P v \<Longrightarrow> k' = k \<and> Q k y"
  shows "list_all (\<lambda>(k, y). Q k y) ys \<and> keys ys = keys xs"
  using assms(1,2)
proof (induction xs arbitrary: ys)
  case (Cons x xs)
  obtain k v where x: "x = (k, v)" by (cases x)
  from Cons.prems(1) obtain k' y ys' where "F (k, v) = Inr (k', y)" "map_res F xs = Inr ys'" "ys = (k', y) # ys'"
    by (auto simp: x bind_res_eq_Inr)
  with Cons assms(3) show ?case by (auto simp: x keys_def)
qed (simp add: keys_def)

lemma make_node_wf:
  assumes "make_node args g = Inr n" and "wf_args args"
  shows "wf_node (vg_categories g) n" and "gn_id n \<notin> set (keys (vg_nodes g))"
proof -
  from assms(1) obtain fields addresses where
    f: "map_res node_field (na_fields args) = Inr fields" "gn_fields n = fields" and
    a: "map_res node_address (na_addresses args) = Inr addresses" "gn_addresses n = addresses" and
    rest: "plain_text (gn_id n)" "plain_text (gn_label n)" "plain_text (gn_kind n)" "gn_category n \<in> set (keys (vg_categories g))"
      "gn_spans n = na_spans args" "strict_json (PDict (gn_properties n))" "\<forall>s. gn_description n = Some s \<longrightarrow> plain_text s"
      "inherits (gn_properties n) (gn_confidence n) (gn_scope n) (gn_relevance n)" "gn_id n \<notin> set (keys (vg_nodes g))"
    unfolding make_node_def
    by (auto simp: bind_res_eq_Inr if_Inl_Inr text_identifier_Inr optional_description_Inr checked_properties_Inr in_keys_Inr
        bool_case_Inr str_case_True) (blast intro: inheritsI)
  have "list_all (\<lambda>(k, f). plain_text k \<and> wf_field f) fields \<and> keys fields = keys (na_fields args)"
    by (rule map_res_pairs [OF f(1), where P = wf_field_arg]) (use assms(2) node_field_wf in \<open>auto simp: wf_args_def\<close>)
  moreover have "list_all (\<lambda>(k, a). plain_text k \<and> wf_address a) addresses \<and> keys addresses = keys (na_addresses args)"
    by (rule map_res_pairs [OF a(1), where P = wf_address_arg]) (use assms(2) node_address_wf in \<open>auto simp: wf_args_def\<close>)
  ultimately show "wf_node (vg_categories g) n" and "gn_id n \<notin> set (keys (vg_nodes g))"
    using rest f(2) a(2) assms(2) by (auto simp: wf_node_def wf_args_def)
qed

lemma path_case_Inr:
  "(case x of NoEntry \<Rightarrow> Inl e | NotAFile \<Rightarrow> Inl e' | RegularFile c m \<Rightarrow> F c m) = Inr r \<longleftrightarrow> (\<exists>c m. x = RegularFile c m \<and> F c m = Inr r)"
  by (cases x) auto

lemma graph_artifact_wf:
  assumes "graph_artifact fs obj aid data path name media_type g = Inr (a, g')"
  shows "wf_artifact fs a" and "af_id a \<notin> set (keys (vg_artifacts g))" and "af_object a = obj"
    and "g' = g\<lparr>vg_artifacts := vg_artifacts g @ [(af_id a, a)]\<rparr>"
proof -
  from assms obtain content source where a: "artifact_source_of fs data path = Inr (source, content)"
    "plain_text (af_id a)" "plain_text (af_name a)" "af_media_type a \<noteq> []" "af_size a = int (length content)"
    "af_sha256 a = sha256 content" "af_source a = source" "af_object a = obj" "af_id a \<notin> set (keys (vg_artifacts g))"
    "g' = g\<lparr>vg_artifacts := vg_artifacts g @ [(af_id a, a)]\<rparr>"
    by (auto simp: graph_artifact_def Artifact_def bind_res_eq_Inr if_Inl_Inr in_keys_Inr text_identifier_Inr str_case_Inr)
  have "case source of InMemory b \<Rightarrow> b = content | OnDisk name mtime \<Rightarrow> fs name = RegularFile content mtime"
    using a(1) by (auto simp: artifact_source_of_def bind_res_eq_Inr Let_def path_case_Inr split: if_splits)
  with a show "wf_artifact fs a" and "af_id a \<notin> set (keys (vg_artifacts g))" and "af_object a = obj"
    and "g' = g\<lparr>vg_artifacts := vg_artifacts g @ [(af_id a, a)]\<rparr>"
    by (auto simp: wf_artifact_def artifact_content_def)
qed

lemma add_categories_wf:
  assumes "fold_res add_category cs acc = Inr out" and "list_all wf_category cs"
    and "distinct (keys acc)" and "list_all (\<lambda>(k, c). k = cg_id c \<and> wf_category c) acc"
  shows "distinct (keys out) \<and> list_all (\<lambda>(k, c). k = cg_id c \<and> wf_category c) out"
  using assms by (induction cs arbitrary: acc) (auto simp: add_category_def bind_res_eq_Inr if_Inl_Inr keys_def)

lemma wf_graph_node_keys:
  assumes "wf_graph fs g" and "k \<in> set (keys (vg_nodes g))"
  shows "plain_text k"
  using assms by (auto simp: wf_graph_def wf_node_def keys_def list_all_iff)

lemma inserted_wf:
  assumes "wf_graph fs g" and "wf_args args" and "insert_node args g = Inr (node, g')"
  shows "wf_graph fs g'"
proof -
  from assms(3) have n: "make_node args g = Inr node" "g' = g\<lparr>vg_nodes := vg_nodes g @ [(gn_id node, node)]\<rparr>"
    by (auto simp: insert_node_def bind_res_eq_Inr)
  with make_node_wf [OF n(1) assms(2)] assms(1) show ?thesis
    by (auto simp: wf_graph_def keys_def forest_def)
qed

lemma contained_wf:
  assumes "wf_graph fs g" and "contain parent child g = Some (Inr g')"
  shows "wf_graph fs g'"
proof -
  have f: "forest g" using assms(1) by (simp add: wf_graph_def)
  from contain_forest [OF f, of parent child] assms(2) have "forest g'" "\<exists>ps. g' = g\<lparr>vg_parents := ps\<rparr>" by auto
  with assms(1) show ?thesis by (auto simp: wf_graph_def)
qed

lemma linked_wf:
  assumes "wf_graph fs g" and "graph_link source target kind properties description confidence scope g = Inr (l, g')"
  shows "wf_graph fs g'"
proof -
  from assms(2) obtain d where l: "lk_source l \<in> set (keys (vg_nodes g))" "lk_target l \<in> set (keys (vg_nodes g))"
    "g' = g\<lparr>vg_links := vg_links g @ [l]\<rparr>" "plain_text (lk_kind l)" "strict_json (PDict (lk_properties l))"
    "\<forall>s. lk_description l = Some s \<longrightarrow> plain_text s"
    "inherited_confidence ''link confidence'' (lk_properties l) confidence = Inr (lk_confidence l)"
    "inherited_scope ''link scope'' (lk_properties l) scope = Inr (lk_scope l)"
    by (auto simp: graph_link_def bind_res_eq_Inr if_Inl_Inr Let_def text_identifier_Inr optional_description_Inr checked_properties_Inr)
  have "\<exists>r. inherits (lk_properties l) (lk_confidence l) (lk_scope l) r"
  proof (cases "legacy_choice (lk_properties l) ''relevance'' relevance_values")
    case PNone
    then have "inherited_relevance [] (lk_properties l) PNone = Inr None"
      by (simp add: inherited_relevance_def or_else_def optional_choice_def)
    from inheritsI [OF l(7,8) this] show ?thesis by blast
  next
    case (PStr r)
    then have "plain_text r \<and> r \<in> set relevance_values"
      by (auto simp: legacy_choice_def relevance_values_def plain_text_def split: pyval.splits if_splits) code_simp+
    with PStr have "inherited_relevance [] (lk_properties l) PNone = Inr (Some r)"
      by (simp add: inherited_relevance_def or_else_def optional_choice_Inr)
    from inheritsI [OF l(7,8) this] show ?thesis by blast
  qed (auto simp: legacy_choice_def split: pyval.splits if_splits)
  with l wf_graph_node_keys [OF assms(1)] have "wf_link l" by (auto simp: wf_link_def)
  with assms(1) l(3) show ?thesis by (auto simp: wf_graph_def forest_def)
qed

lemma built_graph_wf: "built fs g \<Longrightarrow> wf_graph fs g"
proof (induction rule: built.induct)
  case (start cs title g)
  then show ?case
    using add_categories_wf [of cs "[]"] built_forest [OF built.start [OF start]]
    by (auto simp: ArtifactGraph_def bind_res_eq_Inr if_Inl_Inr wf_graph_def text_identifier_Inr keys_def)
next
  case (artifact g obj aid data path name media_type a g')
  with graph_artifact_wf [OF artifact(2)] show ?case by (auto simp: wf_graph_def keys_def forest_def)
next
  case (node g args r g')
  show ?case
  proof (cases "insert_node args g")
    case (Inl e)
    with node show ?thesis by (auto simp: graph_node_def)
  next
    case (Inr p)
    then obtain n g1 where i: "insert_node args g = Inr (n, g1)" by (cases p) simp
    note w = inserted_wf [OF node(4,2) i]
    from node(3) i have "g' = g1 \<or> (\<exists>parent. contain parent (NodeRef n) g1 = Some (Inr g'))"
      by (auto simp: graph_node_def split: option.splits sum.splits)
    with w contained_wf show ?thesis by blast
  qed
next
  case (containment g parent child g')
  then show ?case using contained_wf by blast
next
  case (link g source target kind properties description confidence scope l g')
  then show ?case using linked_wf by blast
qed

section \<open>Reading what was written\<close>

lemma item_simps [simp]:
  "map_of d k = Some x \<Longrightarrow> item (PDict d) k = Inr x"
  "map_of d k = Some x \<Longrightarrow> item_or (PDict d) k y = Inr x" "map_of d k = None \<Longrightarrow> item_or (PDict d) k y = Inr y"
  by (simp_all add: item_def item_or_def dget_item_def from_option_def)

lemma item_or_given: "map_of d k = map_option PStr v \<Longrightarrow> item_or (PDict d) k PNone = Inr (opt_val v)"
  by (cases v) simp_all

lemma placed_append [simp]: "placed new g (ss @ ts) \<longleftrightarrow> placed new g ss \<and> placed new g ts"
  by (simp add: placed_def)

lemma placed_concat: "placed new g (concat sss) \<longleftrightarrow> list_all (placed new g) sss"
  by (induction sss) (simp_all add: placed_def)

lemma read_fields_written:
  assumes "list_all (\<lambda>(k, f). plain_text k \<and> wf_field f) fds" and "list_all (placed new g) (map (fd_spans \<circ> snd) fds)"
  shows "map_res (read_field g) (map (\<lambda>(k, f). (k, field_to_dict f)) fds) = Inr (map (\<lambda>(k, f). (k, ReadyField (moved_field new f))) fds)"
    and "map_res node_field (map (\<lambda>(k, f). (k, ReadyField (moved_field new f))) fds) = Inr (map (\<lambda>(k, f). (k, moved_field new f)) fds)"
  using assms by (induction fds) (auto simp: read_field_written node_field_def text_identifier_def)

lemma read_addresses_written:
  assumes "list_all (\<lambda>(k, a). plain_text k \<and> wf_address a) ads"
  shows "map_res read_address (map (\<lambda>(k, a). (k, address_to_dict a)) ads) = Inr (map (\<lambda>(k, a). (k, ReadyAddress a)) ads)"
    and "map_res node_address (map (\<lambda>(k, a). (k, ReadyAddress a)) ads) = Inr ads"
  using assms by (induction ads) (auto simp: read_address_def address_to_dict_def wf_address_def node_address_def text_identifier_def)

lemma text_identifier_plain [simp]: "plain_text s \<Longrightarrow> text_identifier what (PStr s) = Inr s"
  by (simp add: text_identifier_def)

lemma optional_description_plain: "(\<forall>s. r = Some s \<longrightarrow> plain_text s) \<Longrightarrow> optional_description what (opt_val r) = Inr r"
  by (simp add: optional_description_Inr)

lemma read_node_written:
  assumes "wf_node (vg_categories g) n" and "gn_id n \<notin> set (keys (vg_nodes g))" and "placed new g (node_spans n)"
  shows "read_node (node_to_dict ps n) g = Inr (g\<lparr>vg_nodes := vg_nodes g @ [(gn_id n, moved_node new n)]\<rparr>)"
proof -
  let ?v = "node_to_dict ps n"
  note w = assms(1) [unfolded wf_node_def]
  have p: "placed new g (gn_spans n)" "list_all (placed new g) (map (fd_spans \<circ> snd) (gn_fields n))"
    using assms(3) by (simp_all add: node_spans_def placed_concat)
  have f: "list_all (\<lambda>(k, f). plain_text k \<and> wf_field f) (gn_fields n)" and a: "list_all (\<lambda>(k, a). plain_text k \<and> wf_address a) (gn_addresses n)"
    using w by blast+
  have "read_spans g ?v = Inr (map (moved_span new) (gn_spans n))"
    using read_spans_written [OF p(1)] by (simp add: read_spans_def node_to_dict_def elements_def from_option_def)
  moreover have "item_or ?v ''fields'' (PDict []) = Inr (PDict (map (\<lambda>(k, f). (k, field_to_dict f)) (gn_fields n)))"
    "item_or ?v ''addresses'' (PDict []) = Inr (PDict (map (\<lambda>(k, a). (k, address_to_dict a)) (gn_addresses n)))"
    "item ?v ''id'' = Inr (PStr (gn_id n))" "item ?v ''label'' = Inr (PStr (gn_label n))" "item ?v ''kind'' = Inr (PStr (gn_kind n))"
    "item ?v ''category'' = Inr (PStr (gn_category n))" "item_or ?v ''properties'' (PDict []) = Inr (PDict (gn_properties n))"
    by (simp_all add: node_to_dict_def)
  moreover have "item_or ?v ''description'' PNone = Inr (opt_val (gn_description n))"
    "item_or ?v ''confidence'' PNone = Inr (opt_val (gn_confidence n))" "item_or ?v ''scope'' PNone = Inr (opt_val (gn_scope n))"
    "item_or ?v ''relevance'' PNone = Inr (opt_val (gn_relevance n))"
    unfolding node_to_dict_def by (rule item_or_given; simp)+
  moreover have "item_or ?v ''contributes_to_coverage'' (PBool True) = Inr (PBool (gn_contributes n))"
    by (simp add: node_to_dict_def item_or_def)
  moreover have "checked_properties ''node properties'' (PDict (gn_properties n)) = Inr (gn_properties n)"
    using w by (simp only: checked_properties_Inr py_dict_PDict)
  moreover have "in_keys (PStr (gn_category n)) (vg_categories g) = Inr True" using w by (simp add: in_keys_def)
  ultimately show ?thesis
    using w assms(2) read_fields_written [OF f p(2)] read_addresses_written [OF a]
    by (simp add: read_node_def dict_items_def insert_node_def make_node_def or_else_def optional_description_plain inherits_def moved_node_def)
qed

lemma read_nodes_written:
  assumes "list_all (\<lambda>(k, n). k = gn_id n \<and> wf_node (vg_categories g) n) ns" and "distinct (keys (vg_nodes g @ ns))"
    and "list_all (placed new g) (map (node_spans \<circ> snd) ns)"
  shows "fold_res read_node (map (node_to_dict ps \<circ> snd) ns) g =
    Inr (g\<lparr>vg_nodes := vg_nodes g @ map (\<lambda>(k, n). (k, moved_node new n)) ns\<rparr>)"
  using assms
proof (induction ns arbitrary: g)
  case (Cons kn ns)
  obtain n where kn: "kn = (gn_id n, n)" using Cons.prems(1) by (cases kn) simp
  let ?g = "g\<lparr>vg_nodes := vg_nodes g @ [(gn_id n, moved_node new n)]\<rparr>"
  have "read_node (node_to_dict ps n) g = Inr ?g"
    by (rule read_node_written) (use Cons.prems in \<open>auto simp: kn keys_def\<close>)
  moreover have "fold_res read_node (map (node_to_dict ps \<circ> snd) ns) ?g =
    Inr (?g\<lparr>vg_nodes := vg_nodes ?g @ map (\<lambda>(k, n). (k, moved_node new n)) ns\<rparr>)"
    by (rule Cons.IH) (use Cons.prems in \<open>auto simp: kn keys_def placed_def\<close>)
  ultimately show ?case by (simp add: kn o_def)
qed simp

text \<open>An artifact comes back as an artifact in memory with the same identifier, texts, size and digest.\<close>

definition same_artifact :: "artifact \<Rightarrow> artifact \<Rightarrow> bool" where
  "same_artifact a b \<longleftrightarrow> af_id b = af_id a \<and> af_name b = af_name a \<and> af_media_type b = af_media_type a \<and> af_size b = af_size a \<and>
     af_sha256 b = af_sha256 a"

lemma artifact_content_read:
  assumes "artifact_content fs a content"
  shows "artifact_read fs a (PInt 0) PNone = Inr content"
  using assms by (auto simp: artifact_content_def artifact_read_def py_int_def or_else_def split: artifact_source.splits)

lemma read_artifact_written:
  assumes "wf_artifact fs a" and "artifact_to_dict fs True a = Inr v" and "af_id a \<notin> set (keys (vg_artifacts g))"
  shows "\<exists>b. same_artifact a b \<and> read_artifact fs' data v (obj, g) = Inr (Suc obj, g\<lparr>vg_artifacts := vg_artifacts g @ [(af_id b, b)]\<rparr>) \<and>
    (\<forall>fs''. artifact_to_dict fs'' True b = Inr v)"
proof -
  from assms(1) obtain content where c: "artifact_content fs a content" and w: "plain_text (af_id a)" "plain_text (af_name a)" "af_media_type a \<noteq> []"
    by (auto simp: wf_artifact_def)
  have size: "af_size a = int (length content)" "af_sha256 a = sha256 content" using c by (simp_all add: artifact_content_def)
  let ?b = "a\<lparr>af_object := obj, af_source := InMemory content\<rparr>"
  let ?g = "g\<lparr>vg_artifacts := vg_artifacts g @ [(af_id ?b, ?b)]\<rparr>"
  have b: "artifact_content fs'' ?b content" for fs'' using size by (simp add: artifact_content_def)
  have v: "v = PDict [(''id'', PStr (af_id a)), (''name'', PStr (af_name a)), (''size'', PInt (af_size a)),
      (''sha256'', PStr (af_sha256 a)), (''media_type'', PStr (af_media_type a)), (''data_base64'', PStr (b64encode content))]"
    using assms(2) artifact_content_read [OF c] by (simp add: artifact_to_dict_def)
  have "Artifact fs' obj (PStr (af_id a)) (PBytes content) PNone (PStr (af_name a)) (PStr (af_media_type a)) = Inr ?b"
    using w size by (simp add: Artifact_def or_else_def artifact_source_of_def py_bytes_def)
  then have "graph_artifact fs' obj (PStr (af_id a)) (PBytes content) PNone (PStr (af_name a)) (PStr (af_media_type a)) g = Inr (?b, ?g)"
    using assms(3) by (simp add: graph_artifact_def in_keys_def)
  then have "read_artifact fs' data v (obj, g) = Inr (Suc obj, ?g)"
    by (simp add: v read_artifact_def read_source_def b64_roundtrip dget_item_def from_option_def item_or_def)
  moreover have "artifact_to_dict fs'' True ?b = Inr v" for fs''
    using artifact_content_read [OF b] by (simp add: artifact_to_dict_def v)
  ultimately show ?thesis by (intro exI [of _ ?b]) (simp add: same_artifact_def)
qed

text \<open>The artifacts of two graphs, in order and under the same identifiers.\<close>

definition same_artifacts :: "(string \<times> artifact) list \<Rightarrow> (string \<times> artifact) list \<Rightarrow> bool" where
  "same_artifacts as bs \<longleftrightarrow> list_all2 (\<lambda>(k, a) (k', b). k' = k \<and> same_artifact a b) as bs"

lemma read_artifacts_written:
  assumes "list_all (\<lambda>(k, a). k = af_id a \<and> wf_artifact fs a) as" and "map_res (artifact_to_dict fs True \<circ> snd) as = Inr vs"
    and "distinct (keys (vg_artifacts g @ as))"
  shows "\<exists>bs. same_artifacts as bs \<and>
    fold_res (read_artifact fs' data) vs (obj, g) = Inr (obj + length as, g\<lparr>vg_artifacts := vg_artifacts g @ bs\<rparr>) \<and>
    (\<forall>fs''. map_res (artifact_to_dict fs'' True \<circ> snd) bs = Inr vs)"
  using assms
proof (induction as arbitrary: vs obj g)
  case (Cons ka as)
  obtain a where ka: "ka = (af_id a, a)" using Cons.prems(1) by (cases ka) simp
  from Cons.prems(2) obtain v vs' where vs: "artifact_to_dict fs True a = Inr v" "map_res (artifact_to_dict fs True \<circ> snd) as = Inr vs'" "vs = v # vs'"
    by (auto simp: ka bind_res_eq_Inr o_def)
  have w: "wf_artifact fs a" "af_id a \<notin> set (keys (vg_artifacts g))" using Cons.prems(1,3) by (auto simp: ka keys_def)
  from read_artifact_written [OF w(1) vs(1) w(2)] obtain b where b: "same_artifact a b"
    "read_artifact fs' data v (obj, g) = Inr (Suc obj, g\<lparr>vg_artifacts := vg_artifacts g @ [(af_id b, b)]\<rparr>)"
    "\<And>fs''. artifact_to_dict fs'' True b = Inr v" by blast
  have key: "af_id b = af_id a" using b(1) by (simp add: same_artifact_def)
  have "list_all (\<lambda>(k, a). k = af_id a \<and> wf_artifact fs a) as" using Cons.prems(1) by simp
  moreover have "distinct (keys (vg_artifacts (g\<lparr>vg_artifacts := vg_artifacts g @ [(af_id b, b)]\<rparr>) @ as))"
    using Cons.prems(3) by (simp add: ka key keys_def)
  ultimately obtain bs where "same_artifacts as bs" "\<And>fs''. map_res (artifact_to_dict fs'' True \<circ> snd) bs = Inr vs'"
    "fold_res (read_artifact fs' data) vs' (Suc obj, g\<lparr>vg_artifacts := vg_artifacts g @ [(af_id b, b)]\<rparr>) =
      Inr (Suc obj + length as, g\<lparr>vg_artifacts := (vg_artifacts g @ [(af_id b, b)]) @ bs\<rparr>)"
    using Cons.IH [OF _ vs(2), of "g\<lparr>vg_artifacts := vg_artifacts g @ [(af_id b, b)]\<rparr>" "Suc obj"] by (auto simp: o_def)
  with b key show ?case by (intro exI [of _ "(af_id b, b) # bs"]) (simp add: ka vs(3) same_artifacts_def o_def)
qed (simp add: same_artifacts_def)

lemma same_artifacts_keys: "same_artifacts as bs \<Longrightarrow> keys bs = keys as"
  unfolding same_artifacts_def keys_def by (induction rule: list_all2_induct) auto

lemma same_artifacts_found:
  assumes "same_artifacts as bs" and "map_of as k = Some a"
  shows "\<exists>b. map_of bs k = Some b \<and> same_artifact a b"
  using assms unfolding same_artifacts_def by (induction rule: list_all2_induct) (auto split: if_splits)

text \<open>The parents that are read back: those of the serialised nodes, in the order of the nodes.\<close>

definition written_parents :: "(string \<times> string) list \<Rightarrow> (string \<times> gnode) list \<Rightarrow> (string \<times> string) list" where
  "written_parents ps ns = concat (map (\<lambda>(k, _). case map_of ps k of None \<Rightarrow> [] | Some p \<Rightarrow> [(k, p)]) ns)"

lemma written_parents_simps [simp]:
  "written_parents ps [] = []"
  "written_parents ps ((k, n) # ns) = (case map_of ps k of None \<Rightarrow> [] | Some p \<Rightarrow> [(k, p)]) @ written_parents ps ns"
  by (simp_all add: written_parents_def)

lemma map_of_written_parents: "map_of (written_parents ps ns) k = (if k \<in> set (keys ns) then map_of ps k else None)"
  by (induction ns) (auto simp: keys_def map_of_append map_add_def split: option.splits, force+)

text \<open>Where the edges are a part of a forest's, \<open>contain\<close> accepts a further edge of the forest.\<close>

lemma contain_part:
  assumes "forest (g\<lparr>vg_parents := ps\<rparr>)" and "set (vg_parents g) \<subseteq> set ps" and "distinct (keys (vg_parents g))"
    and "map_of ps c = Some p" and "c \<notin> set (keys (vg_parents g))" and "plain_text c" and "plain_text p"
  shows "contain (IdRef (PStr p)) (IdRef (PStr c)) g = Some (Inr (g\<lparr>vg_parents := vg_parents g @ [(c, p)]\<rparr>))"
proof -
  let ?E = "parent_edges (vg_parents g)" and ?F = "parent_edges ps"
  have dist: "distinct (keys ps)" using assms(1) by (simp add: forest_def)
  have sub: "?E \<subseteq> ?F"
    using assms(2) dist by (auto simp: parent_edges_def keys_def dest: map_of_SomeD)
  have acyc: "acyclic ?F" using assms(1) by (simp add: forest_def)
  have nodes: "\<forall>(c, p) \<in> set ps. c \<in> set (keys (vg_nodes g)) \<and> p \<in> set (keys (vg_nodes g))" using assms(1) by (simp add: forest_def)
  have "forest g"
    using acyclic_subset [OF acyc sub] assms(2,3) nodes by (auto simp: forest_def)
  moreover have "containable g p c"
  proof -
    have "(c, p) \<in> ?F" using assms(4) by (simp add: parent_edges_def)
    then have "p \<noteq> c" "(p, c) \<notin> ?E\<^sup>+"
      using acyc sub by (auto simp: acyclic_def dest: trancl_mono trancl_into_trancl2)
    moreover have "p \<in> set (keys (vg_nodes g))" "c \<in> set (keys (vg_nodes g))"
      using nodes map_of_SomeD [OF assms(4)] by auto
    ultimately show ?thesis using assms(5) by (simp add: containable_def)
  qed
  ultimately show ?thesis
    using contain_ids_forest [of g p c] assms(6,7) by (auto simp: contain_def node_ref_id_def)
qed

lemma read_parent_written:
  "read_parent (node_to_dict ps n) g = (case map_of ps (gn_id n) of None \<Rightarrow> Some (Inr g)
     | Some p \<Rightarrow> if p = [] then Some (Inr g) else contain (IdRef (PStr p)) (IdRef (PStr (gn_id n))) g)"
proof -
  have "item_or (node_to_dict ps n) ''parent'' PNone = Inr (opt_val (map_of ps (gn_id n)))"
    unfolding node_to_dict_def by (rule item_or_given; simp)+
  moreover have "item (node_to_dict ps n) ''id'' = Inr (PStr (gn_id n))" by (simp add: node_to_dict_def)
  ultimately show ?thesis by (auto simp: read_parent_def split: option.splits)
qed

lemma read_parents_written:
  assumes "list_all (\<lambda>(k, n). k = gn_id n) ns" and "distinct (keys ns)" and "set (keys ns) \<inter> set (keys (vg_parents g)) = {}"
    and "forest (g\<lparr>vg_parents := ps\<rparr>)" and "set (vg_parents g) \<subseteq> set ps" and "distinct (keys (vg_parents g))"
    and "\<forall>(c, p) \<in> set ps. plain_text c \<and> plain_text p"
  shows "fold_opt read_parent (map (node_to_dict ps \<circ> snd) ns) g = Some (Inr (g\<lparr>vg_parents := vg_parents g @ written_parents ps ns\<rparr>))"
  using assms
proof (induction ns arbitrary: g)
  case (Cons kn ns)
  obtain n where kn: "kn = (gn_id n, n)" using Cons.prems(1) by (cases kn) simp
  show ?case
  proof (cases "map_of ps (gn_id n)")
    case None
    have "fold_opt read_parent (map (node_to_dict ps \<circ> snd) ns) g = Some (Inr (g\<lparr>vg_parents := vg_parents g @ written_parents ps ns\<rparr>))"
      by (rule Cons.IH) (use Cons.prems in \<open>auto simp: kn keys_def\<close>)
    with None show ?thesis by (simp add: kn read_parent_written o_def)
  next
    case (Some p)
    let ?g = "g\<lparr>vg_parents := vg_parents g @ [(gn_id n, p)]\<rparr>"
    have mem: "(gn_id n, p) \<in> set ps" using Some by (rule map_of_SomeD)
    have "contain (IdRef (PStr p)) (IdRef (PStr (gn_id n))) g = Some (Inr ?g)"
      by (rule contain_part [OF Cons.prems(4,5,6) Some]) (use Cons.prems(3,7) mem in \<open>auto simp: kn keys_def\<close>)
    moreover have "fold_opt read_parent (map (node_to_dict ps \<circ> snd) ns) ?g =
        Some (Inr (?g\<lparr>vg_parents := vg_parents ?g @ written_parents ps ns\<rparr>))"
      by (rule Cons.IH) (use Cons.prems mem in \<open>auto simp: kn keys_def\<close>)
    moreover have "p \<noteq> []" using Cons.prems(7) mem by (auto simp: plain_text_def)
    ultimately show ?thesis using Some by (simp add: kn read_parent_written o_def)
  qed
qed simp

lemma read_link_written:
  assumes "wf_link l" and "lk_source l \<in> set (keys (vg_nodes g))" and "lk_target l \<in> set (keys (vg_nodes g))"
  shows "read_link (link_to_dict l) g = Inr (g\<lparr>vg_links := vg_links g @ [l]\<rparr>)"
proof -
  let ?v = "link_to_dict l"
  note w = assms(1) [unfolded wf_link_def]
  have "item ?v ''source'' = Inr (PStr (lk_source l))" "item ?v ''target'' = Inr (PStr (lk_target l))" "item ?v ''kind'' = Inr (PStr (lk_kind l))"
    "item_or ?v ''properties'' (PDict []) = Inr (PDict (lk_properties l))"
    by (simp_all add: link_to_dict_def)
  moreover have "item_or ?v ''description'' PNone = Inr (opt_val (lk_description l))"
    "item_or ?v ''confidence'' PNone = Inr (opt_val (lk_confidence l))" "item_or ?v ''scope'' PNone = Inr (opt_val (lk_scope l))"
    unfolding link_to_dict_def by (rule item_or_given; simp)+
  moreover have "checked_properties ''link properties'' (PDict (lk_properties l)) = Inr (lk_properties l)"
    using w by (simp only: checked_properties_Inr py_dict_PDict)
  moreover have "inherited_confidence ''link confidence'' (lk_properties l) (opt_val (lk_confidence l)) = Inr (lk_confidence l)"
    "inherited_scope ''link scope'' (lk_properties l) (opt_val (lk_scope l)) = Inr (lk_scope l)"
    using w by (auto simp: inherits_def)
  ultimately show ?thesis
    using w assms(2,3) by (simp add: read_link_def graph_link_def node_ref_id_def optional_description_plain Let_def)
qed

lemma read_links_written:
  assumes "list_all wf_link ls" and "list_all (\<lambda>l. lk_source l \<in> set (keys (vg_nodes g)) \<and> lk_target l \<in> set (keys (vg_nodes g))) ls"
  shows "fold_res read_link (map link_to_dict ls) g = Inr (g\<lparr>vg_links := vg_links g @ ls\<rparr>)"
  using assms by (induction ls arbitrary: g) (simp_all add: read_link_written)

lemma add_categories_again:
  assumes "list_all (\<lambda>(k, c). k = cg_id c) cs" and "distinct (keys (acc @ cs))"
  shows "fold_res add_category (map snd cs) acc = Inr (acc @ cs)"
  using assms by (induction cs arbitrary: acc) (auto simp: add_category_def keys_def, force)

lemma read_categories_written:
  assumes "list_all (\<lambda>(k, c). k = cg_id c \<and> wf_category c) cs"
  shows "map_res read_category (map (category_to_dict \<circ> snd) cs) = Inr (map snd cs)"
  using assms by (induction cs) (auto simp: read_category_def category_to_dict_def wf_category_def)

section \<open>The round trip\<close>

definition graph_spans :: "artifact_graph \<Rightarrow> span list" where
  "graph_spans g = concat (map (node_spans \<circ> snd) (vg_nodes g))"

lemma check_spans_checked:
  "fold_res (check_span g) ss seen = Inr r \<Longrightarrow> list_all (\<lambda>s. sp_artifact s \<in> snd ` set (vg_artifacts g) \<and> sp_end s \<le> af_size (sp_artifact s)) ss"
  by (induction ss arbitrary: seen) (auto simp: bind_res_eq_Inr check_span_def if_Inl_Inr)

lemma check_spans_moved:
  assumes "fold_res (check_span g) ss seen = Inr r"
    and "list_all (\<lambda>s. new (af_id (sp_artifact s)) \<in> snd ` set (vg_artifacts g') \<and>
      af_size (new (af_id (sp_artifact s))) = af_size (sp_artifact s)) ss"
  shows "fold_res (check_span g') (map (moved_span new) ss) seen = Inr r"
  using assms
proof (induction ss arbitrary: seen)
  case (Cons s ss)
  then obtain seen' where s: "check_span g s seen = Inr seen'" "fold_res (check_span g) ss seen' = Inr r"
    by (auto simp: bind_res_eq_Inr)
  have "check_span g' (moved_span new s) seen = Inr seen'"
    using s(1) Cons.prems(2) by (auto simp: check_span_def moved_span_def if_Inl_Inr)
  with s(2) Cons show ?case by simp
qed simp

lemma moved_node_simps [simp]:
  "gn_id (moved_node new n) = gn_id n" "node_spans (moved_node new n) = map (moved_span new) (node_spans n)"
  by (induction "gn_fields n") (auto simp: moved_node_def node_spans_def moved_field_def map_concat comp_def split_def)

lemma node_to_dict_moved:
  assumes "\<And>s. s \<in> set (node_spans n) \<Longrightarrow> af_id (new (af_id (sp_artifact s))) = af_id (sp_artifact s)"
    and "map_of qs (gn_id n) = map_of ps (gn_id n)"
  shows "node_to_dict qs (moved_node new n) = node_to_dict ps n"
proof -
  have s: "span_to_dict (moved_span new s) = span_to_dict s" if "s \<in> set (node_spans n)" for s
    using assms(1) [OF that] by (simp add: span_to_dict_def moved_span_def)
  have f: "field_to_dict (moved_field new f) = field_to_dict f" if "(k, f) \<in> set (gn_fields n)" for k f
  proof -
    have "map span_to_dict (map (moved_span new) (fd_spans f)) = map span_to_dict (fd_spans f)"
      using that by (force simp: node_spans_def intro!: s)
    then show ?thesis by (simp add: field_to_dict_def moved_field_def)
  qed
  have "map span_to_dict (map (moved_span new) (gn_spans n)) = map span_to_dict (gn_spans n)"
    by (auto simp: node_spans_def intro!: s)
  moreover have "map (\<lambda>(k, f). (k, field_to_dict f)) (map (\<lambda>(k, f). (k, moved_field new f)) (gn_fields n)) =
      map (\<lambda>(k, f). (k, field_to_dict f)) (gn_fields n)"
    by (auto simp: f)
  ultimately show ?thesis
    using assms(2) by (simp add: node_to_dict_def moved_node_def comp_def)
qed

text \<open>\<open>from_dict\<close> always returns: what it contains into is a forest.\<close>

lemma read_parent_total: "forest g \<Longrightarrow> \<exists>r. read_parent v g = Some r \<and> (\<forall>g'. r = Inr g' \<longrightarrow> forest g')"
  using contain_forest [of g] by (fastforce simp: read_parent_def split: sum.split)

lemma read_parents_total: "forest g \<Longrightarrow> fold_opt read_parent vs g \<noteq> None"
proof (induction vs arbitrary: g)
  case (Cons v vs)
  from read_parent_total [OF Cons.prems, of v] obtain r where r: "read_parent v g = Some r" "\<And>g'. r = Inr g' \<Longrightarrow> forest g'" by blast
  with Cons.IH show ?case by (cases r) simp_all
qed simp

lemma read_contents_forest:
  assumes "read_contents fs obj v data = Inr (g, ns)"
  shows "forest g"
proof -
  from assms obtain title cs g0 as obj' g1 ns' where g: "ArtifactGraph title cs = Inr g0"
    "fold_res (read_artifact fs data) as (obj, g0) = Inr (obj', g1)" "fold_res read_node ns' g1 = Inr g"
    by (auto simp: read_contents_def bind_res_eq_Inr if_Inl_Inr)
  have "vg_parents g0 = []" using g(1) by (auto simp: ArtifactGraph_def bind_res_eq_Inr if_Inl_Inr)
  with fold_res_invariant [OF g(2), of "\<lambda>(_, g). vg_parents g = []"] have "vg_parents g1 = []"
    by (fastforce simp: read_artifact_def graph_artifact_def bind_res_eq_Inr if_Inl_Inr split: pyval.splits)
  with fold_res_invariant [OF g(3), of "\<lambda>g. vg_parents g = []"] have "vg_parents g = []"
    by (fastforce simp: read_node_def insert_node_def bind_res_eq_Inr)
  then show ?thesis by (simp add: forest_def parent_edges_def acyclic_def keys_def)
qed

text \<open>C35 \<open>from_dict\<close> always returns, with a graph or with an exception: on every Python value, well-formed or not, with any
  \<open>artifact_data\<close> and on any file system, none of the loops of \<open>contain\<close> it runs goes on forever, although the parents
  in the dictionary may be cyclic.\<close>

theorem from_dict_returns: "from_dict fs obj v data \<noteq> None"
proof (cases "read_contents fs obj v data")
  case (Inr p)
  obtain g ns where p: "p = (g, ns)" by (cases p)
  from read_parents_total [OF read_contents_forest [OF Inr [unfolded p]]]
  obtain r where "fold_opt read_parent ns g = Some r" by blast
  with Inr p show ?thesis by (cases r) (simp_all add: from_dict_def)
qed (simp add: from_dict_def)

lemma span_moved:
  assumes "wf_graph fs g" and "same_artifacts (vg_artifacts g) bs" and "sp_artifact s \<in> snd ` set (vg_artifacts g)"
  shows "\<exists>b. map_of bs (af_id (sp_artifact s)) = Some b \<and> same_artifact (sp_artifact s) b"
proof -
  let ?a = "sp_artifact s"
  from assms(1,3) have "(af_id ?a, ?a) \<in> set (vg_artifacts g)" "distinct (keys (vg_artifacts g))"
    by (auto simp: wf_graph_def list_all_iff)
  then have "map_of (vg_artifacts g) (af_id ?a) = Some ?a" by (simp add: keys_def)
  from same_artifacts_found [OF assms(2) this] show ?thesis .
qed

lemma wf_node_spans: "wf_node cs n \<Longrightarrow> list_all wf_span (node_spans n)"
  by (fastforce simp: node_spans_def wf_node_def wf_field_def list_all_iff)

lemma wf_graph_spans: "wf_graph fs g \<Longrightarrow> list_all wf_span (graph_spans g)"
  using wf_node_spans by (fastforce simp: wf_graph_def graph_spans_def list_all_iff)

text \<open>What a valid graph's spans become over the artifacts read back.\<close>

lemma spans_moved:
  assumes "wf_graph fs g" and "same_artifacts (vg_artifacts g) bs" and "validate_graph g = Inr ()"
    and "new = (\<lambda>k. the (map_of bs k))"
  shows "list_all (\<lambda>s. wf_span s \<and> map_of bs (af_id (sp_artifact s)) = Some (new (af_id (sp_artifact s))) \<and>
    same_artifact (sp_artifact s) (new (af_id (sp_artifact s)))) (graph_spans g)"
proof -
  from assms(3) have "list_all (\<lambda>s. sp_artifact s \<in> snd ` set (vg_artifacts g) \<and> sp_end s \<le> af_size (sp_artifact s)) (graph_spans g)"
    by (auto simp: validate_graph_def bind_res_eq_Inr graph_spans_def intro: check_spans_checked)
  with wf_graph_spans [OF assms(1)] span_moved [OF assms(1,2)] assms(4) show ?thesis by (fastforce simp: list_all_iff)
qed

lemma validate_moved:
  assumes "wf_graph fs g" and "validate_graph g = Inr ()" and "same_artifacts (vg_artifacts g) bs" and "new = (\<lambda>k. the (map_of bs k))"
    and "vg_artifacts g' = bs" and "vg_nodes g' = map (\<lambda>(k, n). (k, moved_node new n)) (vg_nodes g)"
    and "set (vg_parents g') \<subseteq> set (vg_parents g)" and "vg_links g' = vg_links g"
  shows "validate_graph g' = Inr ()"
proof -
  note sp = spans_moved [OF assms(1,3,2,4)]
  have keys: "keys (vg_nodes g') = keys (vg_nodes g)" using assms(6) by (simp add: keys_def split_def)
  have spans: "concat (map (node_spans \<circ> snd) (vg_nodes g')) = map (moved_span new) (graph_spans g)"
    by (simp add: assms(6) graph_spans_def map_concat comp_def split_def)
  from assms(2) obtain r where r: "fold_res (check_span g) (graph_spans g) [] = Inr r"
    and rest: "\<forall>(c, p) \<in> set (vg_parents g). c \<in> set (keys (vg_nodes g)) \<and> p \<in> set (keys (vg_nodes g))"
      "\<exists>us. map_res (check_graph_link g) (vg_links g) = Inr us"
    by (auto simp: validate_graph_def bind_res_eq_Inr graph_spans_def if_Inl_Inr list_all_iff)
  have "new (af_id (sp_artifact s)) \<in> snd ` set bs" if "map_of bs (af_id (sp_artifact s)) = Some (new (af_id (sp_artifact s)))" for s
    using map_of_SomeD [OF that] by force
  then have "list_all (\<lambda>s. new (af_id (sp_artifact s)) \<in> snd ` set (vg_artifacts g') \<and>
      af_size (new (af_id (sp_artifact s))) = af_size (sp_artifact s)) (graph_spans g)"
    using sp by (auto simp: assms(5) list_all_iff same_artifact_def)
  from check_spans_moved [OF r this] have "fold_res (check_span g') (concat (map (node_spans \<circ> snd) (vg_nodes g'))) [] = Inr r"
    by (simp add: spans)
  moreover have "check_graph_link g' = check_graph_link g" by (simp add: fun_eq_iff check_graph_link_def keys)
  moreover have "list_all (\<lambda>(c, p). c \<in> set (keys (vg_nodes g')) \<and> p \<in> set (keys (vg_nodes g'))) (vg_parents g')"
    using rest(1) assms(7) by (auto simp: keys list_all_iff)
  ultimately show ?thesis using rest(2) by (auto simp: validate_graph_def assms(8))
qed

lemma wf_graph_parents:
  assumes "wf_graph fs g"
  shows "\<forall>(c, p) \<in> set (vg_parents g). plain_text c \<and> plain_text p"
  using assms wf_graph_node_keys [OF assms] by (fastforce simp: wf_graph_def forest_def)

lemma written_parents_subset: "set (written_parents ps ns) \<subseteq> set ps"
  by (auto simp: written_parents_def dest: map_of_SomeD [OF sym] split: option.splits)

lemma map_of_written_parents_forest:
  assumes "forest g"
  shows "map_of (written_parents (vg_parents g) (vg_nodes g)) = map_of (vg_parents g)"
proof
  fix k
  have "map_of (vg_parents g) k = None" if "k \<notin> set (keys (vg_nodes g))"
    using assms that by (auto simp: forest_def map_of_eq_None_iff)
  then show "map_of (written_parents (vg_parents g) (vg_nodes g)) k = map_of (vg_parents g) k"
    by (simp add: map_of_written_parents)
qed

text \<open>The graph that is read back, and the steps that make it.\<close>

definition moved_graph :: "(string \<times> artifact) list \<Rightarrow> artifact_graph \<Rightarrow> artifact_graph" where
  "moved_graph bs g = \<lparr>vg_title = vg_title g, vg_artifacts = bs,
     vg_nodes = map (\<lambda>(k, n). (k, moved_node (\<lambda>k. the (map_of bs k)) n)) (vg_nodes g), vg_links = vg_links g,
     vg_parents = written_parents (vg_parents g) (vg_nodes g), vg_categories = vg_categories g\<rparr>"

lemma moved_graph_valid:
  assumes "wf_graph fs g" and "validate_graph g = Inr ()" and "same_artifacts (vg_artifacts g) bs"
  shows "validate_graph (moved_graph bs g) = Inr ()"
  by (rule validate_moved [OF assms refl]) (simp_all add: moved_graph_def written_parents_subset)

lemma moved_graph_dict:
  assumes "wf_graph fs g" and "graph_to_dict fs True g = Inr v" and "same_artifacts (vg_artifacts g) bs"
    and "map_res (artifact_to_dict fs True \<circ> snd) (vg_artifacts g) = Inr vs" and "map_res (artifact_to_dict fs' True \<circ> snd) bs = Inr vs"
  shows "graph_to_dict fs' True (moved_graph bs g) = Inr v"
proof -
  let ?new = "\<lambda>k. the (map_of bs k)"
  have valid: "validate_graph g = Inr ()" using assms(2) by (auto simp: graph_to_dict_def bind_res_eq_Inr)
  have "node_to_dict (vg_parents (moved_graph bs g)) (moved_node ?new n) = node_to_dict (vg_parents g) n" if "(k, n) \<in> set (vg_nodes g)" for k n
  proof (rule node_to_dict_moved)
    fix s assume "s \<in> set (node_spans n)"
    with that have "s \<in> set (graph_spans g)" by (force simp: graph_spans_def)
    with spans_moved [OF assms(1,3) valid refl] show "af_id (?new (af_id (sp_artifact s))) = af_id (sp_artifact s)"
      by (auto simp: list_all_iff same_artifact_def)
  qed (use assms(1) in \<open>simp add: moved_graph_def map_of_written_parents_forest wf_graph_def\<close>)
  then have "map (node_to_dict (vg_parents (moved_graph bs g)) \<circ> snd) (vg_nodes (moved_graph bs g)) =
      map (node_to_dict (vg_parents g) \<circ> snd) (vg_nodes g)"
    by (auto simp: moved_graph_def)
  with moved_graph_valid [OF assms(1) valid assms(3)] assms(2,4,5) valid show ?thesis
    by (simp add: graph_to_dict_def) (simp add: moved_graph_def)
qed

lemma ArtifactGraph_again:
  assumes "wf_graph fs g"
  shows "ArtifactGraph (PStr (vg_title g)) (map snd (vg_categories g)) =
    Inr \<lparr>vg_title = vg_title g, vg_artifacts = [], vg_nodes = [], vg_links = [], vg_parents = [], vg_categories = vg_categories g\<rparr>"
proof -
  have "fold_res add_category (map snd (vg_categories g)) [] = Inr ([] @ vg_categories g)"
    by (rule add_categories_again) (use assms in \<open>auto simp: wf_graph_def list_all_iff\<close>)
  with assms show ?thesis by (simp add: ArtifactGraph_def wf_graph_def)
qed

lemma read_contents_written:
  assumes "wf_graph fs g" and "graph_to_dict fs True g = Inr v"
  shows "\<exists>bs vs. same_artifacts (vg_artifacts g) bs \<and> map_res (artifact_to_dict fs True \<circ> snd) (vg_artifacts g) = Inr vs \<and>
    (\<forall>fs''. map_res (artifact_to_dict fs'' True \<circ> snd) bs = Inr vs) \<and> item_or v ''links'' (PTuple []) = Inr (PList (map link_to_dict (vg_links g))) \<and>
    read_contents fs' obj v data = Inr (moved_graph bs g\<lparr>vg_parents := [], vg_links := []\<rparr>, map (node_to_dict (vg_parents g) \<circ> snd) (vg_nodes g))"
proof -
  from assms(2) obtain vs where vs: "map_res (artifact_to_dict fs True \<circ> snd) (vg_artifacts g) = Inr vs" and valid: "validate_graph g = Inr ()"
    and v: "v = PDict [(''format'', PStr graph_format), (''version'', PInt 2), (''title'', PStr (vg_title g)),
       (''categories'', PList (map (category_to_dict \<circ> snd) (vg_categories g))), (''artifacts'', PList vs),
       (''nodes'', PList (map (node_to_dict (vg_parents g) \<circ> snd) (vg_nodes g))), (''links'', PList (map link_to_dict (vg_links g)))]"
    by (auto simp: graph_to_dict_def bind_res_eq_Inr)
  note w = assms(1) [unfolded wf_graph_def]
  let ?g0 = "\<lparr>vg_title = vg_title g, vg_artifacts = [], vg_nodes = [], vg_links = [], vg_parents = [], vg_categories = vg_categories g\<rparr>"
  from w have as: "list_all (\<lambda>(k, a). k = af_id a \<and> wf_artifact fs a) (vg_artifacts g)" "distinct (keys (vg_artifacts ?g0 @ vg_artifacts g))"
    by simp_all
  from read_artifacts_written [OF as(1) vs as(2), of fs' data obj] obtain bs where bs: "same_artifacts (vg_artifacts g) bs"
    "\<forall>fs''. map_res (artifact_to_dict fs'' True \<circ> snd) bs = Inr vs"
    "fold_res (read_artifact fs' data) vs (obj, ?g0) = Inr (obj + length (vg_artifacts g), ?g0\<lparr>vg_artifacts := bs\<rparr>)"
    by auto
  let ?new = "\<lambda>k. the (map_of bs k)" and ?g1 = "?g0\<lparr>vg_artifacts := bs\<rparr>"
  have "placed ?new ?g1 (graph_spans g)"
    using spans_moved [OF assms(1) bs(1) valid refl] by (auto simp: placed_def list_all_iff)
  then have "list_all (placed ?new ?g1) (map (node_spans \<circ> snd) (vg_nodes g))" by (simp add: graph_spans_def placed_concat)
  moreover have "list_all (\<lambda>(k, n). k = gn_id n \<and> wf_node (vg_categories ?g1) n) (vg_nodes g)" "distinct (keys (vg_nodes ?g1 @ vg_nodes g))"
    using w by simp_all
  ultimately have "fold_res read_node (map (node_to_dict (vg_parents g) \<circ> snd) (vg_nodes g)) ?g1 =
      Inr (moved_graph bs g\<lparr>vg_parents := [], vg_links := []\<rparr>)"
    by (subst read_nodes_written [where new = ?new]) (simp_all add: moved_graph_def)
  moreover have "map_res read_category (map (category_to_dict \<circ> snd) (vg_categories g)) = Inr (map snd (vg_categories g))"
    by (rule read_categories_written) (use w in blast)
  ultimately have "read_contents fs' obj v data = Inr (moved_graph bs g\<lparr>vg_parents := [], vg_links := []\<rparr>, map (node_to_dict (vg_parents g) \<circ> snd) (vg_nodes g))"
    using bs(3) ArtifactGraph_again [OF assms(1)]
    by (simp add: read_contents_def v supported_version_def elements_def from_option_def)
  moreover have "item_or v ''links'' (PTuple []) = Inr (PList (map link_to_dict (vg_links g)))" by (simp add: v)
  ultimately show ?thesis using bs(1,2) vs by blast
qed

lemma checked_links:
  "map_res (check_graph_link g) ls = Inr us \<Longrightarrow>
     list_all (\<lambda>l. lk_source l \<in> set (keys (vg_nodes g)) \<and> lk_target l \<in> set (keys (vg_nodes g))) ls"
  by (induction ls arbitrary: us) (auto simp: bind_res_eq_Inr check_graph_link_def if_Inl_Inr)

lemma from_dict_written:
  assumes "wf_graph fs g" and "graph_to_dict fs True g = Inr v"
  shows "\<exists>bs vs. same_artifacts (vg_artifacts g) bs \<and> map_res (artifact_to_dict fs True \<circ> snd) (vg_artifacts g) = Inr vs \<and>
    (\<forall>fs''. map_res (artifact_to_dict fs'' True \<circ> snd) bs = Inr vs) \<and> from_dict fs' obj v data = Some (Inr (moved_graph bs g))"
proof -
  from read_contents_written [OF assms] obtain bs vs where b: "same_artifacts (vg_artifacts g) bs"
    "map_res (artifact_to_dict fs True \<circ> snd) (vg_artifacts g) = Inr vs" "\<forall>fs''. map_res (artifact_to_dict fs'' True \<circ> snd) bs = Inr vs"
    and links: "item_or v ''links'' (PTuple []) = Inr (PList (map link_to_dict (vg_links g)))"
    and rc: "read_contents fs' obj v data = Inr (moved_graph bs g\<lparr>vg_parents := [], vg_links := []\<rparr>, map (node_to_dict (vg_parents g) \<circ> snd) (vg_nodes g))"
    by blast
  note w = assms(1) [unfolded wf_graph_def]
  have valid: "validate_graph g = Inr ()" using assms(2) by (auto simp: graph_to_dict_def bind_res_eq_Inr)
  have keys: "keys (vg_nodes (moved_graph bs g)) = keys (vg_nodes g)" by (simp add: moved_graph_def keys_def split_def)
  have "fold_opt read_parent (map (node_to_dict (vg_parents g) \<circ> snd) (vg_nodes g)) (moved_graph bs g\<lparr>vg_parents := [], vg_links := []\<rparr>) =
      Some (Inr (moved_graph bs g\<lparr>vg_links := []\<rparr>))"
  proof (subst read_parents_written)
    show "forest (moved_graph bs g\<lparr>vg_parents := [], vg_links := []\<rparr>\<lparr>vg_parents := vg_parents g\<rparr>)"
      using w by (simp add: forest_def keys)
    show "\<forall>(c, p) \<in> set (vg_parents g). plain_text c \<and> plain_text p" by (rule wf_graph_parents [OF assms(1)])
  qed (use w in \<open>auto simp: list_all_iff keys_def moved_graph_def\<close>)
  moreover have "list_all (\<lambda>l. lk_source l \<in> set (keys (vg_nodes g)) \<and> lk_target l \<in> set (keys (vg_nodes g))) (vg_links g)"
  proof -
    from valid obtain us where "map_res (check_graph_link g) (vg_links g) = Inr us" by (auto simp: validate_graph_def bind_res_eq_Inr if_Inl_Inr)
    then show ?thesis by (rule checked_links)
  qed
  then have "fold_res read_link (map link_to_dict (vg_links g)) (moved_graph bs g\<lparr>vg_links := []\<rparr>) = Inr (moved_graph bs g)"
    using w by (subst read_links_written) (simp_all add: keys, simp add: moved_graph_def)
  then have "read_links v (moved_graph bs g\<lparr>vg_links := []\<rparr>) = Inr (moved_graph bs g)"
    using links moved_graph_valid [OF assms(1) valid b(1)] by (simp add: read_links_def elements_def from_option_def)
  ultimately have "from_dict fs' obj v data = Some (Inr (moved_graph bs g))" using rc by (simp add: from_dict_def)
  with b show ?thesis by blast
qed

text \<open>C36 An artifact graph written with its bytes is read back: for every graph that the operations can make and every
  dictionary \<open>to_dict(include_data=True)\<close> writes for it, \<open>from_dict\<close> returns a graph -- with any \<open>artifact_data\<close> and on
  any file system, since the bytes are in the dictionary -- with the same title, categories, links, node identifiers and
  parents, artifacts with the same identifiers, texts, sizes and digests, and writing that graph gives the same dictionary.\<close>

theorem from_dict_to_dict:
  assumes "built fs g" and "graph_to_dict fs True g = Inr v"
  shows "\<exists>g'. from_dict fs' obj v data = Some (Inr g') \<and> vg_title g' = vg_title g \<and> vg_categories g' = vg_categories g \<and>
    vg_links g' = vg_links g \<and> keys (vg_nodes g') = keys (vg_nodes g) \<and> map_of (vg_parents g') = map_of (vg_parents g) \<and>
    same_artifacts (vg_artifacts g) (vg_artifacts g') \<and> graph_to_dict fs'' True g' = Inr v"
proof -
  have w: "wf_graph fs g" using assms(1) by (rule built_graph_wf)
  from from_dict_written [OF w assms(2)] obtain bs vs where b: "same_artifacts (vg_artifacts g) bs"
    "map_res (artifact_to_dict fs True \<circ> snd) (vg_artifacts g) = Inr vs" "map_res (artifact_to_dict fs'' True \<circ> snd) bs = Inr vs"
    "from_dict fs' obj v data = Some (Inr (moved_graph bs g))" by blast
  from moved_graph_dict [OF w assms(2) b(1,2,3)] b(1,4) map_of_written_parents_forest [of g] w show ?thesis
    by (intro exI [of _ "moved_graph bs g"]) (simp add: moved_graph_def wf_graph_def keys_def split_def)
qed

text \<open>A fourth node over the bytes of an artifact.\<close>

definition sample_bin :: "string \<Rightarrow> artifact" where
  "sample_bin hash = \<lparr>af_object = 0, af_id = ''bin'', af_name = ''bin'', af_media_type = ''application/octet-stream'', af_size = 3,
     af_sha256 = hash, af_source = InMemory [1, 2, 3]\<rparr>"

definition sample_span :: "string \<Rightarrow> span" where
  "sample_span hash = \<lparr>sp_artifact = sample_bin hash, sp_start = 1, sp_end = 3, sp_id = Some ''s'', sp_label = None, sp_role = None\<rparr>"

definition sample_binary :: "string \<Rightarrow> artifact_graph" where
  "sample_binary hash = then_node (sample_args ''d'' (Some (IdRef (PStr ''c'')))\<lparr>na_spans := [sample_span hash]\<rparr>)
     (sample_graph\<lparr>vg_artifacts := [(''bin'', sample_bin hash)]\<rparr>)"

definition sample_dict :: "string \<Rightarrow> pyval" where
  "sample_dict hash = (case graph_to_dict (\<lambda>_. NoEntry) True (sample_binary hash) of Inl _ \<Rightarrow> PNone | Inr v \<Rightarrow> v)"

lemma sample_dict_written: "graph_to_dict (\<lambda>_. NoEntry) True (sample_binary hash) = Inr (sample_dict hash)"
proof -
  have "isl (graph_to_dict (\<lambda>_. NoEntry) True (sample_binary hash)) = False" by code_simp
  then show ?thesis by (cases "graph_to_dict (\<lambda>_. NoEntry) True (sample_binary hash)") (simp_all add: sample_dict_def)
qed

lemma sample_binary_built: "built fs (sample_binary (sha256 [1, 2, 3]))"
proof -
  let ?a = "sample_bin (sha256 [1, 2, 3])"
  have none: "vg_artifacts sample_graph = []" by code_simp
  have "text_identifier what (PStr ''bin'') = Inr ''bin''" for what by (rule text_identifier_plain) code_simp
  then have "graph_artifact fs 0 (PStr ''bin'') (PBytes [1, 2, 3]) PNone PNone (PStr ''application/octet-stream'') sample_graph =
    Inr (?a, sample_graph\<lparr>vg_artifacts := vg_artifacts sample_graph @ [(af_id ?a, ?a)]\<rparr>)"
    by (simp add: graph_artifact_def in_keys_def none keys_def Artifact_def or_else_def artifact_source_of_def py_bytes_def sample_bin_def)
  from built.artifact [OF sample_graph_built this] none have "built fs (sample_graph\<lparr>vg_artifacts := [(''bin'', ?a)]\<rparr>)"
    by (simp add: sample_bin_def)
  moreover have "wf_span (sample_span hash)" for hash
    using text_identifier_plain [of "''s''"] unfolding wf_span_def sample_span_def
    by (intro exI [of _ "PInt 1"] exI [of _ "PInt 3"] exI [of _ "PStr ''s''"] exI [of _ PNone])
      (simp add: Span_def py_int_def optional_identifier_def optional_description_def text_identifier_def plain_text_def, code_simp)
  then have "wf_args (sample_args ''d'' (Some (IdRef (PStr ''c'')))\<lparr>na_spans := [sample_span hash]\<rparr>)" for hash
    by (simp add: wf_args_def sample_args_def keys_def)
  ultimately show ?thesis by (simp add: sample_binary_def then_node_built)
qed

theorem from_dict_to_dict_witness:
  "\<exists>g'. from_dict (\<lambda>_. NotAFile) 5 (sample_dict (sha256 [1, 2, 3])) [] = Some (Inr g') \<and>
     keys (vg_nodes g') = [''a'', ''b'', ''c'', ''d''] \<and> map_of (vg_parents g') ''d'' = Some ''c''"
proof -
  have "keys (vg_nodes (sample_binary hash)) = [''a'', ''b'', ''c'', ''d''] \<and> map_of (vg_parents (sample_binary hash)) ''d'' = Some ''c''" for hash
    by code_simp
  with from_dict_to_dict [OF sample_binary_built sample_dict_written, of "\<lambda>_. NotAFile" 5 "[]"] show ?thesis
    by fastforce
qed

end
