(* ===== verification/Viz_Schema.thy ===== *)
theory Viz_Schema
  imports Artifact_Json Json
begin

text \<open>
  The descriptor format of the visualiser (\<open>viz/_schema.py\<close>, \<open>viz/_bundled_schema.py\<close>): the validator, the lookups, and the
  decoder that reads the fields of a binary record as a descriptor says. Bytes are words; integers are read from them in
  little-endian order. What validation guarantees about decoding is in \<open>Schema_Decoding\<close>. The decoder is only given
  schemas the validator accepted; descriptors it would reject, where the code would use a float or a truth value as an
  offset, are left out by taking offsets as integers.
\<close>

section \<open>The validator\<close>

definition encoding_sizes :: "(string \<times> int) list" where
  "encoding_sizes = [(''u8'', 1), (''u16le'', 2), (''u32le'', 4), (''i32le'', 4), (''u64le'', 8), (''i64le'', 8),
     (''u64le-hi32'', 8), (''u64le-lo32'', 8)]"

definition variable_encodings :: "string list" where
  "variable_encodings = [''bytes-hex'']"

definition root_keys :: "string list" where
  "root_keys = [''format'', ''version'', ''id'', ''nodes'', ''links'', ''records'', ''lookups'', ''rules'']"

definition field_keys :: "string list" where
  "field_keys = [''id'', ''computed'', ''offset'', ''size'', ''encoding'', ''display'', ''description'', ''value_map'',
     ''confidence'', ''scope'', ''relevance'']"

definition schema_text :: "string \<Rightarrow> pyval \<Rightarrow> string res" where
  "schema_text what v =
     (case v of
        PStr s \<Rightarrow>
          if s = [] \<or> strip s \<noteq> s then Inl (ValueError (what @ '' must be a non-empty string without surrounding whitespace''))
          else Inr s
      | _ \<Rightarrow> Inl (ValueError (what @ '' must be a non-empty string without surrounding whitespace'')))"

text \<open>\<open>v in s\<close> for a set of strings\<close>

definition in_texts :: "pyval \<Rightarrow> string list \<Rightarrow> bool res" where
  "in_texts v ss = in_keys v (map (\<lambda>s. (s, ())) ss)"

text \<open>\<open>v is not None and v not in s\<close> raises.\<close>

definition check_choice :: "string \<Rightarrow> string list \<Rightarrow> pyval \<Rightarrow> unit res" where
  "check_choice what ss v =
     (if v = PNone then Inr ()
      else bind_res (in_texts v ss) (\<lambda>known. if \<not> known then Inl (ValueError (what @ '' is unsupported'')) else Inr ()))"

definition check_texts :: "string \<Rightarrow> (string \<times> pyval) list \<Rightarrow> string list \<Rightarrow> unit res" where
  "check_texts what d names = bind_res (map_res (\<lambda>k. schema_text what (dget d k)) names) (\<lambda>_. Inr ())"

text \<open>\<open>if key in d: _text(d[key])\<close>\<close>

definition check_given_text :: "string \<Rightarrow> (string \<times> pyval) list \<Rightarrow> string \<Rightarrow> unit res" where
  "check_given_text what d k =
     (case map_of d k of None \<Rightarrow> Inr () | Some v \<Rightarrow> bind_res (schema_text what v) (\<lambda>_. Inr ()))"

definition check_node_descriptor :: "string \<times> pyval \<Rightarrow> unit res" where
  "check_node_descriptor = (\<lambda>(i, v).
     bind_res (schema_text ''node descriptor id'' (PStr i)) (\<lambda>_.
     case v of
       PDict d \<Rightarrow>
         if set (keys d) \<noteq> {''kind'', ''category'', ''description''}
         then Inl (ValueError ''node descriptor must contain kind, category, and description'')
         else check_texts ''node descriptor'' d [''kind'', ''category'', ''description'']
     | _ \<Rightarrow> Inl (ValueError ''node descriptor must contain kind, category, and description'')))"

definition check_link_descriptor :: "string \<times> pyval \<Rightarrow> unit res" where
  "check_link_descriptor = (\<lambda>(i, v).
     bind_res (schema_text ''link descriptor id'' (PStr i)) (\<lambda>_.
     case v of
       PDict d \<Rightarrow>
         if \<not> set (keys d) \<subseteq> {''description'', ''confidence'', ''scope''} then Inl (ValueError ''link descriptor has unsupported keys'')
         else
           bind_res (schema_text ''link descriptor description'' (dget d ''description'')) (\<lambda>_.
           bind_res (check_choice ''link descriptor confidence'' confidence_values (dget d ''confidence'')) (\<lambda>_.
           check_given_text ''link descriptor scope'' d ''scope''))
     | _ \<Rightarrow> Inl (ValueError ''link descriptor has unsupported keys'')))"

text \<open>The part of a record field that is read from bytes.\<close>

definition check_layout :: "int \<Rightarrow> (string \<times> pyval) list \<Rightarrow> unit res" where
  "check_layout record_size d =
     (if \<not> {''offset'', ''size'', ''encoding''} \<subseteq> set (keys d) then Inl (ValueError ''field requires offset, size, and encoding'')
      else case (dget d ''offset'', dget d ''size'') of
          (PInt offset, PInt n) \<Rightarrow>
            if offset < 0 \<or> n \<le> 0 \<or> record_size < offset \<or> record_size - offset < n then Inl (ValueError ''field is outside its record'')
            else
              bind_res (in_keys (dget d ''encoding'') encoding_sizes) (\<lambda>fixed.
              bind_res (in_texts (dget d ''encoding'') variable_encodings) (\<lambda>variable.
              if \<not> fixed \<and> \<not> variable then Inl (ValueError ''field uses an unknown encoding'')
              else if fixed \<and> (case dget d ''encoding'' of PStr e \<Rightarrow> map_of encoding_sizes e \<noteq> Some n | _ \<Rightarrow> True)
              then Inl (ValueError ''field encoding does not match its size'')
              else
                bind_res (check_choice ''field display'' [''hex'', ''hex-nonnegative''] (dget d ''display'')) (\<lambda>_.
                case dget d ''value_map'' of
                  PNone \<Rightarrow> Inr ()
                | PDict _ \<Rightarrow> Inr ()
                | _ \<Rightarrow> Inl (ValueError ''field value_map must be an object with string keys''))))
        | _ \<Rightarrow> Inl (ValueError ''field offset and size must be integers''))"

text \<open>One turn of the loop over the fields of a record; the state is the set of identifiers seen.\<close>

definition check_record_field :: "int \<Rightarrow> pyval \<Rightarrow> string list \<Rightarrow> string list res" where
  "check_record_field record_size v seen =
     (case v of
        PDict d \<Rightarrow>
          bind_res (schema_text ''record descriptor field id'' (dget d ''id'')) (\<lambda>i.
          if i \<in> set seen then Inl (ValueError ''record descriptor has duplicate field'')
          else if \<not> set (keys d) \<subseteq> set field_keys then Inl (ValueError ''field has unknown keys'')
          else
            bind_res (schema_text ''field description'' (dget d ''description'')) (\<lambda>_.
            bind_res (check_choice ''field confidence'' confidence_values (dget d ''confidence'')) (\<lambda>_.
            bind_res (check_given_text ''field scope'' d ''scope'') (\<lambda>_.
            bind_res (check_choice ''field relevance'' relevance_values (dget d ''relevance'')) (\<lambda>_.
            case map_of d ''computed'' of
              Some (PBool True) \<Rightarrow>
                if {''offset'', ''size'', ''encoding'', ''display'', ''value_map''} \<inter> set (keys d) \<noteq> {}
                then Inl (ValueError ''computed field cannot contain a layout'') else Inr (i # seen)
            | Some (PBool False) \<Rightarrow> bind_res (check_layout record_size d) (\<lambda>_. Inr (i # seen))
            | None \<Rightarrow> bind_res (check_layout record_size d) (\<lambda>_. Inr (i # seen))
            | _ \<Rightarrow> Inl (ValueError ''field computed must be boolean''))))))
      | _ \<Rightarrow> Inl (ValueError ''record descriptor field must be an object''))"

definition check_record :: "string \<times> pyval \<Rightarrow> unit res" where
  "check_record = (\<lambda>(i, v).
     bind_res (schema_text ''record descriptor id'' (PStr i)) (\<lambda>_.
     case v of
       PDict d \<Rightarrow>
         if set (keys d) \<noteq> {''size'', ''fields''} then Inl (ValueError ''record descriptor must contain size and fields'')
         else
           bind_res (py_int (ValueError ''record descriptor size must be a positive integer'') (dget d ''size'')) (\<lambda>n.
           if n \<le> 0 then Inl (ValueError ''record descriptor size must be a positive integer'')
           else (case dget d ''fields'' of
               PList fs \<Rightarrow>
                 if fs = [] then Inl (ValueError ''record descriptor fields must be a non-empty array'')
                 else bind_res (fold_res (check_record_field n) fs []) (\<lambda>_. Inr ())
             | _ \<Rightarrow> Inl (ValueError ''record descriptor fields must be a non-empty array'')))
     | _ \<Rightarrow> Inl (ValueError ''record descriptor must contain size and fields'')))"

text \<open>\<open>json.dumps(v, allow_nan=False)\<close>, which raises at the first value it cannot write.\<close>

fun strict_dumps :: "pyval \<Rightarrow> unit res" where
  "strict_dumps PNone = Inr ()"
| "strict_dumps (PBool _) = Inr ()"
| "strict_dumps (PInt _) = Inr ()"
| "strict_dumps (PFloat f) = (case f of PyFin _ _ \<Rightarrow> Inr () | _ \<Rightarrow> Inl (ValueError ''Out of range float values are not JSON compliant''))"
| "strict_dumps (PStr _) = Inr ()"
| "strict_dumps (PTuple vs) = bind_res (map_res strict_dumps vs) (\<lambda>_. Inr ())"
| "strict_dumps (PList vs) = bind_res (map_res strict_dumps vs) (\<lambda>_. Inr ())"
| "strict_dumps (PDict d) = bind_res (map_res (\<lambda>(_, v). strict_dumps v) d) (\<lambda>_. Inr ())"
| "strict_dumps _ = Inl (TypeError ''Object is not JSON serializable'')"

definition matcher_keys :: "string list" where
  "matcher_keys = [''equals'', ''prefixes'', ''contains'']"

definition check_matcher :: "(string \<times> pyval) list \<Rightarrow> string \<Rightarrow> nat \<Rightarrow> nat res" where
  "check_matcher d k matchers =
     (case map_of d k of
        None \<Rightarrow> Inr matchers
      | Some (PList items) \<Rightarrow>
          if items = [] then Inl (ValueError ''schema rule matcher must be a non-empty array'')
          else bind_res (map_res (schema_text ''schema rule matcher item'') items) (\<lambda>_. Inr (Suc matchers))
      | _ \<Rightarrow> Inl (ValueError ''schema rule matcher must be a non-empty array''))"

definition check_rule :: "pyval \<Rightarrow> unit res" where
  "check_rule v =
     (case v of
        PDict d \<Rightarrow>
          if ''value'' \<notin> set (keys d) then Inl (ValueError ''schema rule entries must be objects with a value'')
          else if \<not> set (keys d) \<subseteq> insert ''value'' (set matcher_keys) then Inl (ValueError ''schema rule has unknown matcher keys'')
          else
            bind_res (schema_text ''schema rule value'' (dget d ''value'')) (\<lambda>_.
            bind_res (fold_res (check_matcher d) matcher_keys 0) (\<lambda>matchers.
            if matchers \<noteq> 1 then Inl (ValueError ''schema rule entry must use exactly one matcher'') else Inr ()))
      | _ \<Rightarrow> Inl (ValueError ''schema rule entries must be objects with a value''))"

definition check_rules :: "string \<times> pyval \<Rightarrow> unit res" where
  "check_rules = (\<lambda>(i, v).
     bind_res (schema_text ''rule id'' (PStr i)) (\<lambda>_.
     case v of
       PList rules \<Rightarrow> bind_res (map_res check_rule rules) (\<lambda>_. Inr ())
     | _ \<Rightarrow> Inl (ValueError ''schema rule must be an array'')))"

definition validate_schema :: "pyval \<Rightarrow> pyval res" where
  "validate_schema v =
     (case v of
        PDict d \<Rightarrow>
          if \<not> set (keys d) \<subseteq> set root_keys then Inl (ValueError ''visualization schema has unknown top-level keys'')
          else if \<not> py_eq (dget d ''format'') (PStr ''npunlock.viz-schema'') \<or> \<not> py_eq (dget d ''version'') (PInt 1)
          then Inl (ValueError ''unsupported visualization schema format or version'')
          else
            bind_res (schema_text ''schema id'' (dget d ''id'')) (\<lambda>_.
            case (dget d ''nodes'', dget d ''records'') of
              (PDict nodes, PDict records) \<Rightarrow>
                bind_res (map_res check_node_descriptor nodes) (\<lambda>_.
                bind_res (from_option (ValueError ''visualization schema links must be an object'')
                  (case item_or v ''links'' (PDict []) of Inr (PDict l) \<Rightarrow> Some l | _ \<Rightarrow> None)) (\<lambda>links.
                bind_res (map_res check_link_descriptor links) (\<lambda>_.
                bind_res (map_res check_record records) (\<lambda>_.
                case (item_or v ''lookups'' (PDict []), item_or v ''rules'' (PDict [])) of
                  (Inr (PDict lookups), Inr (PDict rules)) \<Rightarrow>
                    bind_res (strict_dumps (PDict lookups)) (\<lambda>_.
                    bind_res (map_res check_rules rules) (\<lambda>_. Inr v))
                | _ \<Rightarrow> Inl (ValueError ''visualization schema lookups and rules must be objects'')))))
            | _ \<Rightarrow> Inl (ValueError ''visualization schema nodes and records must be objects''))
      | _ \<Rightarrow> Inl (ValueError ''visualization schema must be a JSON object''))"

text \<open>\<open>load_bundled_schema\<close>; the texts of the bundled resources are an argument. The cache around it changes nothing.\<close>

definition bundled_schemas :: "string list" where
  "bundled_schemas = [''elf.json'', ''npu3720-act-compiler-8.3.json'']"

definition load_bundled_schema :: "(string \<Rightarrow> string option) \<Rightarrow> string \<Rightarrow> pyval res" where
  "load_bundled_schema resources name =
     (if name \<notin> set bundled_schemas then Inl (ValueError ''unknown bundled visualization schema'')
      else case resources name of
          None \<Rightarrow> Inl (ValueError ''cannot load bundled visualization schema'')
        | Some t \<Rightarrow>
            (case json_loads t of
               None \<Rightarrow> Inl (ValueError ''cannot load bundled visualization schema'')
             | Some v \<Rightarrow> validate_schema v))"

section \<open>Lookups\<close>

text \<open>The metadata are returned as dictionaries. \<open>KeyError\<close> and \<open>TypeError\<close> are turned into \<open>ValueError\<close>.\<close>

definition catch_lookup :: "string \<Rightarrow> 'a res \<Rightarrow> 'a res" where
  "catch_lookup what r =
     (case r of Inl (KeyError _) \<Rightarrow> Inl (ValueError what) | Inl (TypeError _) \<Rightarrow> Inl (ValueError what) | _ \<Rightarrow> r)"

definition node_metadata :: "pyval \<Rightarrow> string \<Rightarrow> (string \<times> pyval) list res" where
  "node_metadata schema node_id = catch_lookup ''schema has no node descriptor'' (
     bind_res (item schema ''nodes'') (\<lambda>nodes.
     bind_res (item nodes node_id) (\<lambda>node.
     bind_res (item node ''kind'') (\<lambda>kind.
     bind_res (item node ''category'') (\<lambda>category.
     bind_res (item node ''description'') (\<lambda>description.
     Inr [(''kind'', kind), (''category'', category), (''description'', description)]))))))"

text \<open>\<open>{key: d[key] for key in ks if key in d}\<close>\<close>

definition chosen :: "string list \<Rightarrow> (string \<times> pyval) list \<Rightarrow> (string \<times> pyval) list" where
  "chosen ks d = concat (map (\<lambda>k. case map_of d k of None \<Rightarrow> [] | Some v \<Rightarrow> [(k, v)]) ks)"

definition link_metadata :: "pyval \<Rightarrow> string \<Rightarrow> (string \<times> pyval) list option res" where
  "link_metadata schema link_id =
     bind_res (item_or schema ''links'' (PDict [])) (\<lambda>links.
     bind_res (item_or links link_id PNone) (\<lambda>link.
     case link of
       PNone \<Rightarrow> Inr None
     | PDict d \<Rightarrow> Inr (Some (chosen [''description'', ''confidence'', ''scope''] d))
     | _ \<Rightarrow> Inl (ValueError ''schema link descriptor is not an object'')))"

definition lookup :: "pyval \<Rightarrow> string \<Rightarrow> string \<Rightarrow> pyval \<Rightarrow> pyval res" where
  "lookup schema lookup_id key otherwise =
     bind_res (item_or schema ''lookups'' (PDict [])) (\<lambda>lookups.
     bind_res (item_or lookups lookup_id (PDict [])) (\<lambda>vs.
     case vs of
       PDict d \<Rightarrow> item_or (PDict d) key otherwise
     | _ \<Rightarrow> Inl (ValueError ''schema lookup is not an object'')))"

text \<open>Whether a rule of a validated schema matches a text in lower case.\<close>

definition matcher :: "(string \<times> pyval) list \<Rightarrow> string \<Rightarrow> (string \<Rightarrow> bool) \<Rightarrow> bool" where
  "matcher d k P =
     (case map_of d k of
        Some (PList items) \<Rightarrow> list_ex (\<lambda>v. case v of PStr s \<Rightarrow> P s | _ \<Rightarrow> False) items
      | _ \<Rightarrow> False)"

definition rule_matches :: "string \<Rightarrow> (string \<times> pyval) list \<Rightarrow> bool" where
  "rule_matches lowered d \<longleftrightarrow>
     matcher d ''equals'' (\<lambda>s. s = lowered) \<or> matcher d ''prefixes'' (startswith lowered) \<or>
     matcher d ''contains'' (\<lambda>s. contains_str s lowered)"

fun first_rule :: "string \<Rightarrow> pyval list \<Rightarrow> string \<Rightarrow> pyval res" where
  "first_rule lowered [] otherwise = Inr (PStr otherwise)"
| "first_rule lowered (v # vs) otherwise =
     (case v of
        PDict d \<Rightarrow> if rule_matches lowered d then dget_item d ''value'' else first_rule lowered vs otherwise
      | _ \<Rightarrow> Inl (TypeError ''argument is not iterable''))"

definition match_rule :: "pyval \<Rightarrow> string \<Rightarrow> string \<Rightarrow> string \<Rightarrow> pyval res" where
  "match_rule schema rule_id txt otherwise =
     bind_res (item_or schema ''rules'' (PDict [])) (\<lambda>rules.
     bind_res (item_or rules rule_id (PList [])) (\<lambda>vs.
     bind_res (elements vs) (\<lambda>vs. first_rule (lower txt) vs otherwise)))"

section \<open>Decoding records\<close>

text \<open>\<open>int.from_bytes(raw, "little")\<close>, unsigned and signed\<close>

fun le_value :: "bytes \<Rightarrow> int" where
  "le_value [] = 0"
| "le_value (b # bs) = uint b + 256 * le_value bs"

definition le_signed :: "bytes \<Rightarrow> int" where
  "le_signed bs = (let n = le_value bs in if 256 ^ length bs \<le> 2 * n then n - 256 ^ length bs else n)"

text \<open>\<open>raw.hex(" ")\<close> and \<open>hex(i)\<close>\<close>

definition hex_byte :: "8 word \<Rightarrow> string" where
  "hex_byte b = [hex_char (unat b div 16), hex_char (unat b mod 16)]"

fun hex_nat :: "nat \<Rightarrow> string" where
  "hex_nat n = (if n < 16 then [hex_char n] else hex_nat (n div 16) @ [hex_char (n mod 16)])"

declare hex_nat.simps [simp del]

definition hex_int :: "int \<Rightarrow> string" where
  "hex_int i = (if i < 0 then ''-0x'' @ hex_nat (nat (- i)) else ''0x'' @ hex_nat (nat i))"

definition read_value :: "pyval \<Rightarrow> bytes \<Rightarrow> pyval" where
  "read_value encoding raw =
     (if encoding = PStr ''bytes-hex'' then PStr (str_join '' '' (map hex_byte raw))
      else if encoding = PStr ''i32le'' \<or> encoding = PStr ''i64le'' then PInt (le_signed raw)
      else if encoding = PStr ''u64le-hi32'' then PInt (le_value raw div 2 ^ 32)
      else if encoding = PStr ''u64le-lo32'' then PInt (le_value raw mod 2 ^ 32)
      else PInt (le_value raw))"

text \<open>\<open>value_map.get(str(value), value)\<close>, where the value is one that was read\<close>

fun value_text :: "pyval \<Rightarrow> string" where
  "value_text (PInt i) = int_str i"
| "value_text (PStr s) = s"
| "value_text _ = []"

definition mapped_value :: "pyval \<Rightarrow> pyval \<Rightarrow> pyval res" where
  "mapped_value value_map v = (if value_map = PNone then Inr v else item_or value_map (value_text v) v)"

text \<open>\<open>hex\<close> of a value that was read or comes from a value map, and the two kinds of display\<close>

definition display_hex :: "pyval \<Rightarrow> pyval res" where
  "display_hex v =
     (case v of
        PInt i \<Rightarrow> Inr (PStr (hex_int i))
      | PBool b \<Rightarrow> Inr (PStr (hex_int (of_bool b)))
      | _ \<Rightarrow> Inl (TypeError ''object cannot be interpreted as an integer''))"

definition display_nonnegative :: "pyval \<Rightarrow> pyval res" where
  "display_nonnegative v =
     (case v of
        PInt i \<Rightarrow> Inr (PStr (if 0 \<le> i then hex_int i else int_str i))
      | PFloat (PyFin q s) \<Rightarrow> if 0 \<le> q then Inl (TypeError ''object cannot be interpreted as an integer'') else Inr (PStr s)
      | PFloat PyNaN \<Rightarrow> Inr (PStr ''nan'')
      | PFloat (PyInf negative) \<Rightarrow>
          if negative then Inr (PStr ''-inf'') else Inl (TypeError ''object cannot be interpreted as an integer'')
      | _ \<Rightarrow> display_hex v)"

definition display_value :: "pyval \<Rightarrow> pyval \<Rightarrow> pyval res" where
  "display_value display_kind v =
     (if display_kind = PStr ''hex'' then display_hex v
      else if display_kind = PStr ''hex-nonnegative'' then display_nonnegative v else Inr PNone)"

definition inherited_keys :: "string list" where
  "inherited_keys = [''confidence'', ''scope'', ''relevance'']"

definition is_computed :: "(string \<times> pyval) list \<Rightarrow> bool" where
  "is_computed d \<longleftrightarrow> truthy (case map_of d ''computed'' of None \<Rightarrow> PBool False | Some v \<Rightarrow> v)"

definition layout_int :: "(string \<times> pyval) list \<Rightarrow> string \<Rightarrow> int res" where
  "layout_int d k = bind_res (dget_item d k) (py_int (TypeError ''slice indices must be integers''))"

text \<open>A field that is read from \<open>data[start:end]\<close>.\<close>

definition read_layout :: "artifact \<Rightarrow> bytes \<Rightarrow> int \<Rightarrow> (string \<times> pyval) list \<Rightarrow> gfield res" where
  "read_layout a data base d =
     bind_res (layout_int d ''offset'') (\<lambda>offset.
     bind_res (layout_int d ''size'') (\<lambda>n.
     let start = base + offset; stop = start + n; raw = take (nat n) (drop (nat start) data) in
     bind_res (dget_item d ''encoding'') (\<lambda>encoding.
     bind_res (mapped_value (dget d ''value_map'') (read_value encoding raw)) (\<lambda>v.
     bind_res (display_value (dget d ''display'') v) (\<lambda>display.
     bind_res (Span a (PInt start) (PInt stop) PNone PNone PNone) (\<lambda>s.
     bind_res (dget_item d ''description'') (\<lambda>description.
     Field v [s] display description (PDict (chosen inherited_keys d)) PNone PNone PNone)))))))"

definition field_name :: "pyval \<Rightarrow> string res" where
  "field_name v = (case v of PStr s \<Rightarrow> Inr s | _ \<Rightarrow> Inl (TypeError ''field ids are strings''))"

definition decode_field ::
  "artifact \<Rightarrow> bytes \<Rightarrow> int \<Rightarrow> (string \<times> pyval) list \<Rightarrow> pyval \<Rightarrow> (string \<times> gfield) list \<Rightarrow> (string \<times> gfield) list res" where
  "decode_field a data base computed v fs =
     (case v of
        PDict d \<Rightarrow>
          bind_res (dget_item d ''id'') (\<lambda>i.
          bind_res (field_name i) (\<lambda>i.
          if is_computed d then
            if i \<notin> set (keys computed) then Inl (ValueError ''computed field was not supplied'')
            else
              bind_res (dget_item d ''description'') (\<lambda>description.
              bind_res (Field (dget computed i) [] PNone description (PDict (chosen inherited_keys d)) PNone PNone PNone) (\<lambda>f.
              Inr (dict_set i f fs)))
          else bind_res (read_layout a data base d) (\<lambda>f. Inr (dict_set i f fs))))
      | _ \<Rightarrow> Inl (TypeError ''descriptors are objects''))"

fun computed_id :: "pyval \<Rightarrow> string list" where
  "computed_id (PDict d) = (case dget d ''id'' of PStr i \<Rightarrow> if is_computed d then [i] else [] | _ \<Rightarrow> [])"
| "computed_id _ = []"

definition find_record :: "pyval \<Rightarrow> string \<Rightarrow> pyval res" where
  "find_record schema record_id = catch_lookup ''schema has no record descriptor'' (
     bind_res (item schema ''records'') (\<lambda>records. item records record_id))"

definition decode_record_fields ::
  "pyval \<Rightarrow> string \<Rightarrow> artifact \<Rightarrow> bytes \<Rightarrow> pyval \<Rightarrow> (string \<times> pyval) list \<Rightarrow> (string \<times> gfield) list res" where
  "decode_record_fields schema record_id a data base computed =
     bind_res (find_record schema record_id) (\<lambda>r.
     bind_res (item r ''size'') (\<lambda>n.
     bind_res (py_int (ValueError ''record base must be a non-negative integer'') base) (\<lambda>base.
     if base < 0 then Inl (ValueError ''record base must be a non-negative integer'')
     else
       bind_res (py_int (TypeError ''record sizes are integers'') n) (\<lambda>n.
       if int (length data) < base \<or> int (length data) - base < n \<or> af_size a < base + n
       then Inl (ValueError ''record is outside artifact'')
       else
         bind_res (item r ''fields'') (\<lambda>fs.
         bind_res (elements fs) (\<lambda>fs.
         bind_res (fold_res (decode_field a data base computed) fs []) (\<lambda>result.
         if \<not> set (keys computed) \<subseteq> set (concat (map computed_id fs)) then Inl (ValueError ''unused computed fields'')
         else Inr result)))))))"

end
