(* ===== verification/Schema_Decoding.thy ===== *)
theory Schema_Decoding
  imports Viz_Schema
begin

text \<open>
  Decoding records of validated schemas (\<open>viz/_schema.py\<close>): what the validator guarantees about a record descriptor, and
  the theorem that the decoder then does what the descriptor says and raises only for stated reasons.
\<close>

section \<open>What a validated record descriptor says\<close>

definition field_id :: "(string \<times> pyval) list \<Rightarrow> string" where
  "field_id d = (case dget d ''id'' of PStr i \<Rightarrow> i | _ \<Rightarrow> [])"

definition int_entry :: "(string \<times> pyval) list \<Rightarrow> string \<Rightarrow> int" where
  "int_entry d k = (case dget d k of PInt i \<Rightarrow> i | _ \<Rightarrow> 0)"

text \<open>The value a field of a record at \<open>base\<close> has in some bytes, and whether the display of the field can show a value.\<close>

definition described_value :: "bytes \<Rightarrow> int \<Rightarrow> (string \<times> pyval) list \<Rightarrow> pyval" where
  "described_value data base d =
     (let v = read_value (dget d ''encoding'') (take (nat (int_entry d ''size'')) (drop (nat (base + int_entry d ''offset'')) data))
      in case dget d ''value_map'' of PDict m \<Rightarrow> (case map_of m (value_text v) of None \<Rightarrow> v | Some x \<Rightarrow> x) | _ \<Rightarrow> v)"

definition displayable :: "(string \<times> pyval) list \<Rightarrow> pyval \<Rightarrow> bool" where
  "displayable d v \<longleftrightarrow> \<not> isl (display_value (dget d ''display'') v)"

definition good_layout :: "int \<Rightarrow> (string \<times> pyval) list \<Rightarrow> bool" where
  "good_layout n d \<longleftrightarrow> (\<exists>offset k e. map_of d ''offset'' = Some (PInt offset) \<and> map_of d ''size'' = Some (PInt k) \<and>
     map_of d ''encoding'' = Some (PStr e) \<and> 0 \<le> offset \<and> 0 < k \<and> offset + k \<le> n \<and>
     (map_of encoding_sizes e = Some k \<or> e \<in> set variable_encodings)) \<and>
     (dget d ''value_map'' = PNone \<or> (\<exists>m. dget d ''value_map'' = PDict m))"

definition good_field :: "int \<Rightarrow> (string \<times> pyval) list \<Rightarrow> bool" where
  "good_field n d \<longleftrightarrow> (\<exists>i. map_of d ''id'' = Some (PStr i)) \<and> (\<exists>t. map_of d ''description'' = Some (PStr t) \<and> plain_text t) \<and>
     (\<forall>k \<in> set inherited_keys. \<forall>v. map_of d k = Some v \<longrightarrow> v = PNone \<or> is_str v) \<and>
     (\<not> is_computed d \<longrightarrow> good_layout n d)"

lemma schema_text_Inr [res_simps]: "schema_text what v = Inr s \<longleftrightarrow> v = PStr s \<and> plain_text s"
  by (cases v) (auto simp: schema_text_def plain_text_def)

lemma dget_PStr: "dget d k = PStr s \<longleftrightarrow> map_of d k = Some (PStr s)"
  by (auto simp: dget_def split: option.splits)

lemma dget_PInt: "dget d k = PInt i \<longleftrightarrow> map_of d k = Some (PInt i)"
  by (auto simp: dget_def split: option.splits)

lemma in_keys_True: "in_keys v d = Inr True \<Longrightarrow> \<exists>s. v = PStr s \<and> s \<in> set (keys d)"
  by (cases v) (auto simp: in_keys_def split: if_splits)

lemma check_choice_Inr: "check_choice what ss v = Inr () \<Longrightarrow> v = PNone \<or> is_str v"
  by (auto simp: check_choice_def in_texts_def bind_res_eq_Inr if_Inl_Inr is_str_iff dest!: in_keys_True split: if_splits)

lemma check_layout_good:
  assumes "check_layout n d = Inr ()"
  shows "good_layout n d"
proof -
  obtain offset k where ints: "dget d ''offset'' = PInt offset" "dget d ''size'' = PInt k"
    using assms unfolding check_layout_def by (auto simp: if_Inl_Inr split: pyval.splits)
  from assms ints have rest: "0 \<le> offset" "0 < k" "offset + k \<le> n"
    and enc: "\<exists>fixed variable. in_keys (dget d ''encoding'') encoding_sizes = Inr fixed \<and>
      in_texts (dget d ''encoding'') variable_encodings = Inr variable \<and> (fixed \<or> variable) \<and>
      (fixed \<longrightarrow> (case dget d ''encoding'' of PStr e \<Rightarrow> map_of encoding_sizes e = Some k | _ \<Rightarrow> False))"
    and vm: "dget d ''value_map'' = PNone \<or> (\<exists>m. dget d ''value_map'' = PDict m)"
    unfolding check_layout_def
    by (auto simp: if_Inl_Inr bind_res_eq_Inr split: pyval.splits)
  from enc obtain e where e: "dget d ''encoding'' = PStr e" "map_of encoding_sizes e = Some k \<or> e \<in> set variable_encodings"
    by (auto simp: in_texts_def keys_def dest!: in_keys_True split: pyval.splits)
  with ints rest vm show ?thesis by (auto simp: good_layout_def dget_PStr dget_PInt)
qed

lemma check_record_field_good:
  assumes "check_record_field n v seen = Inr out"
  shows "\<exists>d. v = PDict d \<and> good_field n d \<and> field_id d \<notin> set seen \<and> out = field_id d # seen"
proof -
  from assms obtain d where v: "v = PDict d" by (auto simp: check_record_field_def dict_case_Inr)
  from assms obtain i where i: "dget d ''id'' = PStr i" "i \<notin> set seen" "\<exists>t. dget d ''description'' = PStr t \<and> plain_text t"
    and c: "check_choice ''field confidence'' confidence_values (dget d ''confidence'') = Inr ()"
      "check_given_text ''field scope'' d ''scope'' = Inr ()"
      "check_choice ''field relevance'' relevance_values (dget d ''relevance'') = Inr ()"
    and rest: "(case map_of d ''computed'' of
              Some (PBool True) \<Rightarrow>
                if {''offset'', ''size'', ''encoding'', ''display'', ''value_map''} \<inter> set (keys d) \<noteq> {}
                then Inl (ValueError ''computed field cannot contain a layout'') else Inr (i # seen)
            | Some (PBool False) \<Rightarrow> bind_res (check_layout n d) (\<lambda>_. Inr (i # seen))
            | None \<Rightarrow> bind_res (check_layout n d) (\<lambda>_. Inr (i # seen))
            | _ \<Rightarrow> Inl (ValueError ''field computed must be boolean'')) = Inr out"
    by (auto simp: check_record_field_def v bind_res_eq_Inr schema_text_Inr if_Inl_Inr)
  have "v = PNone \<or> is_str v" if "k \<in> set inherited_keys" "map_of d k = Some v" for k v
    using that c by (auto simp: inherited_keys_def check_given_text_def schema_text_Inr bind_res_eq_Inr dget_Some dest: check_choice_Inr)
  moreover have "out = i # seen \<and> (\<not> is_computed d \<longrightarrow> good_layout n d)"
    using rest by (auto simp: is_computed_def bind_res_eq_Inr if_Inl_Inr intro: check_layout_good split: option.splits pyval.splits bool.splits)
  ultimately show ?thesis using i v by (auto simp: good_field_def field_id_def dget_PStr dget_Some)
qed

lemma check_fields_good:
  assumes "fold_res (check_record_field n) fs seen = Inr out"
  shows "\<exists>ds. fs = map PDict ds \<and> list_all (good_field n) ds \<and> distinct (map field_id ds) \<and> set (map field_id ds) \<inter> set seen = {}"
  using assms
proof (induction fs arbitrary: seen)
  case (Cons v fs)
  from Cons.prems obtain seen' where s: "check_record_field n v seen = Inr seen'" "fold_res (check_record_field n) fs seen' = Inr out"
    by (auto simp: bind_res_eq_Inr)
  from check_record_field_good [OF s(1)] obtain d where d: "v = PDict d" "good_field n d" "field_id d \<notin> set seen" "seen' = field_id d # seen"
    by blast
  from Cons.IH [OF s(2)] obtain ds where "fs = map PDict ds" "list_all (good_field n) ds" "distinct (map field_id ds)"
    "set (map field_id ds) \<inter> set seen' = {}" by blast
  with d show ?case by (intro exI [of _ "d # ds"]) auto
qed simp

section \<open>Decoding what a validated descriptor says\<close>

lemma inherited_accepted:
  "\<exists>r. inherited_confidence what d PNone = Inr r" "\<exists>r. inherited_scope what d PNone = Inr r" "\<exists>r. inherited_relevance what d PNone = Inr r"
proof -
  have "list_all plain_text (confidence_values @ relevance_values)" by code_simp
  then have plain: "s \<in> set confidence_values \<or> s \<in> set relevance_values \<Longrightarrow> plain_text s" for s by (auto simp: list_all_iff)
  have "\<exists>r. optional_choice what choices (or_else PNone (legacy_choice d k choices)) = Inr r" if "\<And>s. s \<in> set choices \<Longrightarrow> plain_text s" for k choices
    using that by (auto simp: legacy_choice_def or_else_def optional_choice_def text_identifier_def split: pyval.splits)
  with plain show "\<exists>r. inherited_confidence what d PNone = Inr r" "\<exists>r. inherited_relevance what d PNone = Inr r"
    by (simp_all add: inherited_confidence_def inherited_relevance_def)
  show "\<exists>r. inherited_scope what d PNone = Inr r"
    by (auto simp: inherited_scope_def legacy_text_def or_else_def optional_description_def split: pyval.splits)
qed

lemma chosen_values: "(k, v) \<in> set (chosen ks d) \<Longrightarrow> k \<in> set ks \<and> map_of d k = Some v"
  by (auto simp: chosen_def split: option.splits)

text \<open>The fields the decoder makes: only the value and the display can be refused.\<close>

lemma described_field:
  assumes "good_field n d" and "display = PNone \<or> is_str display"
  shows "bind_res (dget_item d ''description'') (\<lambda>t. Field v ss display t (PDict (chosen inherited_keys d)) PNone PNone PNone) = Inr f \<Longrightarrow>
      fd_value f = v \<and> fd_spans f = ss"
    and "(\<exists>f. bind_res (dget_item d ''description'') (\<lambda>t. Field v ss display t (PDict (chosen inherited_keys d)) PNone PNone PNone) = Inr f) \<longleftrightarrow> strict_json v"
proof -
  obtain t where t: "map_of d ''description'' = Some (PStr t)" "plain_text t" using assms(1) by (auto simp: good_field_def)
  have "strict_json x" if "(k, x) \<in> set (chosen inherited_keys d)" for k x
  proof -
    have "x = PNone \<or> is_str x" using chosen_values [OF that] assms(1) unfolding good_field_def by blast
    then show ?thesis by (auto simp: is_str_iff)
  qed
  then have "strict_json (PDict (chosen inherited_keys d))" by (auto simp: list_all_iff)
  then have p: "checked_properties ''field properties'' (PDict (chosen inherited_keys d)) = Inr (chosen inherited_keys d)"
    by (simp only: checked_properties_def py_dict_def json_value_def) simp
  from inherited_accepted [of _ "chosen inherited_keys d"] obtain r1 r2 r3 where
    r: "inherited_confidence ''field confidence'' (chosen inherited_keys d) PNone = Inr r1"
      "inherited_scope ''field scope'' (chosen inherited_keys d) PNone = Inr r2"
      "inherited_relevance ''field relevance'' (chosen inherited_keys d) PNone = Inr r3" by metis
  have disp: "\<exists>s. (case display of PNone \<Rightarrow> Inr None | PStr s \<Rightarrow> Inr (Some s) | _ \<Rightarrow> Inl e) = Inr s" for e :: pyexn
    using assms(2) by (auto simp: is_str_iff)
  have desc: "optional_description ''field description'' (PStr t) = Inr (Some t)" using t(2) by (simp add: optional_description_def)
  show "(\<exists>f. bind_res (dget_item d ''description'') (\<lambda>t. Field v ss display t (PDict (chosen inherited_keys d)) PNone PNone PNone) = Inr f) \<longleftrightarrow> strict_json v"
    using disp by (auto simp: dget_item_def from_option_def t(1) Field_def json_value_def p r desc bind_res_eq_Inr if_Inl_Inr)
  show "bind_res (dget_item d ''description'') (\<lambda>t. Field v ss display t (PDict (chosen inherited_keys d)) PNone PNone PNone) = Inr f \<Longrightarrow>
      fd_value f = v \<and> fd_spans f = ss"
    by (auto simp: Field_def json_value_def bind_res_eq_Inr if_Inl_Inr)
qed

text \<open>One field, without the dictionary it goes into.\<close>

definition decode_one :: "artifact \<Rightarrow> bytes \<Rightarrow> int \<Rightarrow> (string \<times> pyval) list \<Rightarrow> (string \<times> pyval) list \<Rightarrow> gfield res" where
  "decode_one a data base computed d =
     (if is_computed d then
        if field_id d \<notin> set (keys computed) then Inl (ValueError ''computed field was not supplied'')
        else bind_res (dget_item d ''description'') (\<lambda>t. Field (dget computed (field_id d)) [] PNone t (PDict (chosen inherited_keys d)) PNone PNone PNone)
      else read_layout a data base d)"

definition decoded_value :: "bytes \<Rightarrow> int \<Rightarrow> (string \<times> pyval) list \<Rightarrow> (string \<times> pyval) list \<Rightarrow> pyval" where
  "decoded_value data base computed d = (if is_computed d then dget computed (field_id d) else described_value data base d)"

definition decodable :: "bytes \<Rightarrow> int \<Rightarrow> (string \<times> pyval) list \<Rightarrow> (string \<times> pyval) list \<Rightarrow> bool" where
  "decodable data base computed d \<longleftrightarrow> strict_json (decoded_value data base computed d) \<and>
     (if is_computed d then field_id d \<in> set (keys computed) else displayable d (decoded_value data base computed d))"

lemma decode_field_one:
  assumes "good_field n d"
  shows "decode_field a data base computed (PDict d) fs = bind_res (decode_one a data base computed d) (\<lambda>f. Inr (dict_set (field_id d) f fs))"
proof -
  obtain i where i: "map_of d ''id'' = Some (PStr i)" using assms by (auto simp: good_field_def)
  then show ?thesis
    by (simp add: decode_field_def decode_one_def dget_item_def from_option_def field_name_def field_id_def dget_Some bind_res_assoc)
qed

lemma display_value_str: "display_value k v = Inr r \<Longrightarrow> r = PNone \<or> is_str r"
  by (auto simp: display_value_def display_hex_def display_nonnegative_def is_str_iff split: if_splits pyval.splits pyfloat.splits)

text \<open>The span of a field that is read.\<close>

definition field_span :: "artifact \<Rightarrow> int \<Rightarrow> (string \<times> pyval) list \<Rightarrow> span" where
  "field_span a base d = \<lparr>sp_artifact = a, sp_start = base + int_entry d ''offset'', sp_end = base + int_entry d ''offset'' + int_entry d ''size'',
     sp_id = None, sp_label = None, sp_role = None\<rparr>"

lemma read_layout_described:
  assumes "good_field n d" and "\<not> is_computed d" and "0 \<le> base"
  shows "read_layout a data base d = bind_res (display_value (dget d ''display'') (described_value data base d)) (\<lambda>display.
    bind_res (dget_item d ''description'') (\<lambda>t. Field (described_value data base d) [field_span a base d] display t (PDict (chosen inherited_keys d)) PNone PNone PNone))"
proof -
  from assms(1,2) obtain offset k e where l: "map_of d ''offset'' = Some (PInt offset)" "map_of d ''size'' = Some (PInt k)"
    "map_of d ''encoding'' = Some (PStr e)" "0 \<le> offset" "0 < k" and vm: "dget d ''value_map'' = PNone \<or> (\<exists>m. dget d ''value_map'' = PDict m)"
    by (auto simp: good_field_def good_layout_def)
  have ints: "int_entry d ''offset'' = offset" "int_entry d ''size'' = k" using l by (simp_all add: int_entry_def dget_Some)
  have "mapped_value (dget d ''value_map'') (read_value (PStr e) (take (nat k) (drop (nat (base + offset)) data))) = Inr (described_value data base d)"
    using vm by (auto simp: mapped_value_def described_value_def ints dget_Some [OF l(3)] item_or_def Let_def)
  moreover have "Span a (PInt (base + offset)) (PInt (base + offset + k)) PNone PNone PNone = Inr (field_span a base d)"
    using l(4,5) assms(3) by (simp add: Span_def py_int_def optional_identifier_def optional_description_def field_span_def ints)
  ultimately show ?thesis
    using l by (simp add: read_layout_def layout_int_def dget_item_def from_option_def py_int_def Let_def)
qed

lemma decode_one_iff:
  assumes "good_field n d" and "0 \<le> base"
  shows "(\<exists>f. decode_one a data base computed d = Inr f) \<longleftrightarrow> decodable data base computed d"
    and "decode_one a data base computed d = Inr f \<Longrightarrow> fd_value f = decoded_value data base computed d \<and>
      fd_spans f = (if is_computed d then [] else [field_span a base d])"
proof -
  let ?v = "described_value data base d"
  show "(\<exists>f. decode_one a data base computed d = Inr f) \<longleftrightarrow> decodable data base computed d"
  proof (cases "is_computed d")
    case True
    then show ?thesis
      using described_field(2) [OF assms(1), of PNone] by (simp add: decode_one_def decodable_def decoded_value_def)
  next
    case False
    then show ?thesis
    proof (cases "display_value (dget d ''display'') ?v")
      case (Inr display)
      with described_field(2) [OF assms(1) display_value_str [OF Inr]] False show ?thesis
        by (simp add: decode_one_def decodable_def decoded_value_def displayable_def read_layout_described [OF assms(1) False assms(2)])
    qed (simp add: decode_one_def decodable_def decoded_value_def displayable_def read_layout_described [OF assms(1) False assms(2)] False)
  qed
  assume one: "decode_one a data base computed d = Inr f"
  show "fd_value f = decoded_value data base computed d \<and> fd_spans f = (if is_computed d then [] else [field_span a base d])"
  proof (cases "is_computed d")
    case True
    with one have "bind_res (dget_item d ''description'') (\<lambda>t. Field (dget computed (field_id d)) [] PNone t
        (PDict (chosen inherited_keys d)) PNone PNone PNone) = Inr f"
      by (simp add: decode_one_def if_Inl_Inr)
    from described_field(1) [OF assms(1) _ this] True show ?thesis by (simp add: decoded_value_def)
  next
    case False
    with one obtain display where "display_value (dget d ''display'') ?v = Inr display"
      "bind_res (dget_item d ''description'') (\<lambda>t. Field ?v [field_span a base d] display t (PDict (chosen inherited_keys d)) PNone PNone PNone) = Inr f"
      by (auto simp: decode_one_def read_layout_described [OF assms(1) False assms(2)] bind_res_eq_Inr)
    with described_field(1) [OF assms(1) display_value_str] False show ?thesis by (simp add: decoded_value_def)
  qed
qed

lemma decode_fields_zip:
  assumes "list_all (good_field n) ds" and "distinct (map field_id ds)" and "set (map field_id ds) \<inter> set (keys acc) = {}"
  shows "fold_res (decode_field a data base computed) (map PDict ds) acc =
    bind_res (map_res (decode_one a data base computed) ds) (\<lambda>fs. Inr (acc @ zip (map field_id ds) fs))"
  using assms
proof (induction ds arbitrary: acc)
  case (Cons d ds)
  have one: "decode_field a data base computed (PDict d) acc = bind_res (decode_one a data base computed d) (\<lambda>f. Inr (acc @ [(field_id d, f)]))"
    using Cons.prems by (simp add: decode_field_one [of n] dict_set_fresh)
  have IH: "fold_res (decode_field a data base computed) (map PDict ds) (acc @ [(field_id d, f)]) =
      bind_res (map_res (decode_one a data base computed) ds) (\<lambda>fs. Inr ((acc @ [(field_id d, f)]) @ zip (map field_id ds) fs))" for f
    by (rule Cons.IH) (use Cons.prems in \<open>auto simp: keys_def\<close>)
  show ?case by (simp add: one IH bind_res_assoc)
qed simp

lemma validated_record:
  assumes "validate_schema schema = Inr s" and "find_record schema record_id = Inr r"
  shows "\<exists>d n ds. r = PDict d \<and> map_of d ''size'' = Some (PInt n) \<and> 0 < n \<and> map_of d ''fields'' = Some (PList (map PDict ds)) \<and>
    list_all (good_field n) ds \<and> distinct (map field_id ds)"
proof -
  from assms(1) obtain sd nodes records us where s: "schema = PDict sd" "dget sd ''records'' = PDict records" "map_res check_record records = Inr us"
    unfolding validate_schema_def by (auto simp: if_Inl_Inr bind_res_eq_Inr split: pyval.splits)
  have "map_of records record_id = Some r"
    using assms(2) s(1,2)
    by (auto simp: find_record_def catch_lookup_def item_def dget_item_def from_option_def dget_def split: option.splits sum.splits pyexn.splits if_splits)
  then have "check_record (record_id, r) = Inr ()"
    using s(3) map_res_unit [of check_record records] by (auto dest: map_of_SomeD)
  then obtain d n fs out where d: "r = PDict d" "dget d ''size'' = PInt n" "0 < n" "dget d ''fields'' = PList fs"
    "fold_res (check_record_field n) fs [] = Inr out"
    unfolding check_record_def by (auto simp: bind_res_eq_Inr if_Inl_Inr py_int_def split: pyval.splits)
  from check_fields_good [OF d(5)] d(1-4) show ?thesis by (auto simp: dget_def split: option.splits)
qed

text \<open>The fields that are computed by the caller.\<close>

lemma computed_ids:
  assumes "list_all (good_field n) ds"
  shows "set (concat (map computed_id (map PDict ds))) = field_id ` {d \<in> set ds. is_computed d}"
proof -
  have "computed_id (PDict d) = (if is_computed d then [field_id d] else [])" if "good_field n d" for d
    using that by (auto simp: good_field_def field_id_def dget_Some)
  with assms show ?thesis by (auto simp: list_all_iff)
qed

text \<open>A decoded field: its value, and the bytes of a field that is read.\<close>

definition field_decoded :: "artifact \<Rightarrow> bytes \<Rightarrow> int \<Rightarrow> int \<Rightarrow> (string \<times> pyval) list \<Rightarrow> (string \<times> pyval) list \<Rightarrow> gfield \<Rightarrow> bool" where
  "field_decoded a data base n computed d f \<longleftrightarrow> fd_value f = decoded_value data base computed d \<and>
     (if is_computed d then fd_spans f = []
      else fd_spans f = [field_span a base d] \<and> base \<le> sp_start (field_span a base d) \<and>
        sp_start (field_span a base d) < sp_end (field_span a base d) \<and> sp_end (field_span a base d) \<le> base + n)"

lemma decode_one_field:
  assumes "good_field n d" and "0 \<le> base" and "decode_one a data base computed d = Inr f"
  shows "field_decoded a data base n computed d f"
proof -
  have "\<not> is_computed d \<Longrightarrow> good_layout n d" using assms(1) by (simp add: good_field_def)
  then have "\<not> is_computed d \<Longrightarrow> 0 \<le> int_entry d ''offset'' \<and> 0 < int_entry d ''size'' \<and> int_entry d ''offset'' + int_entry d ''size'' \<le> n"
    by (auto simp: good_layout_def int_entry_def dget_Some)
  with decode_one_iff(2) [OF assms] show ?thesis by (auto simp: field_decoded_def field_span_def)
qed

text \<open>C37 A record of a validated schema is decoded as its descriptor says, and the decoder raises for no other reason
  than those stated. It succeeds exactly when the record lies in the bytes and in the artifact, the caller supplies
  exactly the computed fields, every value can be written as JSON, and the values that are to be displayed in hexadecimal
  are numbers. Then the result has the fields of the descriptor, in order; a computed field has the value the caller
  gave, and every other field has the value its encoding, offset and size select from the bytes (translated by the value
  map), with one span of the artifact, which is not empty and inside the record.\<close>

theorem decode_validated_record:
  assumes "validate_schema schema = Inr s" and "find_record schema record_id = Inr r"
  shows "\<exists>d n ds. r = PDict d \<and> dget d ''size'' = PInt n \<and> dget d ''fields'' = PList (map PDict ds) \<and>
    ((\<exists>result. decode_record_fields schema record_id a data (PInt base) computed = Inr result) \<longleftrightarrow>
       0 \<le> base \<and> base + n \<le> int (length data) \<and> base + n \<le> af_size a \<and>
       set (keys computed) = field_id ` {d \<in> set ds. is_computed d} \<and> (\<forall>d \<in> set ds. decodable data base computed d)) \<and>
    (\<forall>result. decode_record_fields schema record_id a data (PInt base) computed = Inr result \<longrightarrow>
       keys result = map field_id ds \<and> list_all2 (\<lambda>d (_, f). field_decoded a data base n computed d f) ds result)"
proof -
  from validated_record [OF assms] obtain d n ds where r: "r = PDict d" "map_of d ''size'' = Some (PInt n)" "0 < n"
    "map_of d ''fields'' = Some (PList (map PDict ds))" and good: "list_all (good_field n) ds" and dist: "distinct (map field_id ds)"
    by blast
  let ?D = "decode_record_fields schema record_id a data (PInt base) computed"
  let ?inside = "0 \<le> base \<and> base + n \<le> int (length data) \<and> base + n \<le> af_size a"
  have run: "?D = Inr result \<longleftrightarrow> ?inside \<and> set (keys computed) \<subseteq> field_id ` {d \<in> set ds. is_computed d} \<and>
      (\<exists>fs. map_res (decode_one a data base computed) ds = Inr fs \<and> result = zip (map field_id ds) fs)" for result
  proof -
    have "fold_res (decode_field a data base computed) (map PDict ds) [] =
        bind_res (map_res (decode_one a data base computed) ds) (\<lambda>fs. Inr (zip (map field_id ds) fs))"
      using decode_fields_zip [OF good dist, of "[]"] by simp
    then show ?thesis
      using r computed_ids [OF good]
      by (auto simp: decode_record_fields_def assms(2) item_def dget_item_def from_option_def py_int_def elements_def if_Inl_Inr bind_res_eq_Inr)
  qed
  have all: "(\<exists>fs. map_res (decode_one a data base computed) ds = Inr fs) \<longleftrightarrow> (\<forall>d \<in> set ds. decodable data base computed d)" if "0 \<le> base"
  proof -
    have "(\<exists>f. decode_one a data base computed d = Inr f) \<longleftrightarrow> decodable data base computed d" if "d \<in> set ds" for d
      by (rule decode_one_iff(1) [where n = n]) (use good that \<open>0 \<le> base\<close> in \<open>auto simp: list_all_iff\<close>)
    then show ?thesis by (simp add: map_res_succeeds)
  qed
  have supplied: "field_id ` {d \<in> set ds. is_computed d} \<subseteq> set (keys computed)" if "\<forall>d \<in> set ds. decodable data base computed d"
    using that by (auto simp: decodable_def)
  have iff: "(\<exists>result. ?D = Inr result) \<longleftrightarrow> ?inside \<and> set (keys computed) = field_id ` {d \<in> set ds. is_computed d} \<and>
      (\<forall>d \<in> set ds. decodable data base computed d)"
  proof -
    have "(\<exists>result. ?D = Inr result) \<longleftrightarrow> ?inside \<and> set (keys computed) \<subseteq> field_id ` {d \<in> set ds. is_computed d} \<and>
        (\<exists>fs. map_res (decode_one a data base computed) ds = Inr fs)"
      unfolding run by simp
    with all supplied show ?thesis by (cases "0 \<le> base") (simp_all add: set_eq_subset, metis)
  qed
  have "keys result = map field_id ds \<and> list_all2 (\<lambda>d (_, f). field_decoded a data base n computed d f) ds result"
    if D: "?D = Inr result" for result
  proof -
    from D run obtain fs where fs: "map_res (decode_one a data base computed) ds = Inr fs" "result = zip (map field_id ds) fs" "0 \<le> base" by blast
    from fs(1) have "list_all2 (\<lambda>d f. decode_one a data base computed d = Inr f) ds fs" by (simp add: map_res_eq_Inr)
    then have "list_all2 (field_decoded a data base n computed) ds fs"
      using good decode_one_field [OF _ fs(3)] by (auto simp: list_all2_conv_all_nth list_all_length)
    with fs(2) show ?thesis by (auto simp: keys_def list_all2_conv_all_nth)
  qed
  with iff r show ?thesis by (intro exI [of _ d] exI [of _ n] exI [of _ ds]) (simp add: dget_Some)
qed

text \<open>A schema with one record: a computed index, a byte shown in hexadecimal and two bytes shown as text.\<close>

definition sample_field :: "string \<Rightarrow> (string \<times> pyval) list \<Rightarrow> pyval" where
  "sample_field i d = PDict ([(''id'', PStr i), (''description'', PStr ''d'')] @ d)"

definition sample_schema :: "string \<Rightarrow> pyval" where
  "sample_schema display = PDict [(''format'', PStr ''npunlock.viz-schema''), (''version'', PInt 1), (''id'', PStr ''s''),
     (''nodes'', PDict []), (''records'', PDict [(''r'', PDict [(''size'', PInt 4), (''fields'', PList
       [sample_field ''index'' [(''computed'', PBool True)],
        sample_field ''word'' [(''offset'', PInt 0), (''size'', PInt 2), (''encoding'', PStr ''u16le''), (''display'', PStr ''hex'')],
        sample_field ''raw'' [(''offset'', PInt 2), (''size'', PInt 2), (''encoding'', PStr ''bytes-hex''), (''display'', PStr display)]])])])]"

definition sample_file :: artifact where
  "sample_file = \<lparr>af_object = 0, af_id = ''a'', af_name = ''a'', af_media_type = ''m'', af_size = 6, af_sha256 = [], af_source = InMemory []\<rparr>"

definition plain_schema :: pyval where
  "plain_schema = PDict [(''format'', PStr ''npunlock.viz-schema''), (''version'', PInt 1), (''id'', PStr ''s''),
     (''nodes'', PDict []), (''records'', PDict [(''r'', PDict [(''size'', PInt 4), (''fields'', PList
       [sample_field ''index'' [(''computed'', PBool True)],
        sample_field ''word'' [(''offset'', PInt 1), (''size'', PInt 2), (''encoding'', PStr ''u16le''), (''display'', PStr ''hex'')]])])])]"

theorem decode_validated_record_witness:
  "(\<exists>result. decode_record_fields plain_schema ''r'' sample_file [0, 0, 1, 2, 3, 4] (PInt 1) [(''index'', PInt 9)] = Inr result \<and>
     keys result = [''index'', ''word''] \<and> map (fd_value \<circ> snd) result = [PInt 9, PInt 513])"
proof -
  obtain s where s: "validate_schema plain_schema = Inr s"
  proof -
    have "isl (validate_schema plain_schema) = False" by code_simp
    with that show ?thesis by (cases "validate_schema plain_schema") auto
  qed
  obtain r where r: "find_record plain_schema ''r'' = Inr r"
  proof -
    have "isl (find_record plain_schema ''r'') = False" by code_simp
    with that show ?thesis by (cases "find_record plain_schema ''r''") auto
  qed
  let ?D = "decode_record_fields plain_schema ''r'' sample_file [0, 0, 1, 2, 3, 4] (PInt 1) [(''index'', PInt 9)]"
  obtain result where D: "?D = Inr result"
  proof -
    have "isl ?D = False" by code_simp
    with that show ?thesis by (cases ?D) auto
  qed
  from decode_validated_record [OF s r, of sample_file "[0, 0, 1, 2, 3, 4]" 1 "[(''index'', PInt 9)]"] D
  obtain d ds where rd: "r = PDict d" "dget d ''fields'' = PList (map PDict ds)" "keys result = map field_id ds" by auto
  have "(case find_record plain_schema ''r'' of Inr (PDict d) \<Rightarrow>
      (case dget d ''fields'' of PList vs \<Rightarrow> map (\<lambda>v. case v of PDict d \<Rightarrow> field_id d | _ \<Rightarrow> []) vs | _ \<Rightarrow> []) | _ \<Rightarrow> []) = [''index'', ''word'']"
    by code_simp
  with r rd have "keys result = [''index'', ''word'']" by (simp add: comp_def)
  moreover have "(case ?D of Inr fs \<Rightarrow> map (fd_value \<circ> snd) fs | _ \<Rightarrow> []) = [PInt 9, PInt 513]" by code_simp
  ultimately show ?thesis using D by simp
qed

text \<open>The validator does not relate the display of a field to its encoding: a valid schema can ask for a text in
  hexadecimal, and the decoder then raises \<open>TypeError\<close> on every record.\<close>

lemma validated_display_may_raise:
  "\<not> isl (validate_schema (sample_schema ''hex'')) \<and>
   decode_record_fields (sample_schema ''hex'') ''r'' sample_file [0, 0, 1, 2, 3, 4] (PInt 0) [(''index'', PInt 9)] =
     Inl (TypeError ''object cannot be interpreted as an integer'')"
  by code_simp

end
