(* ===== verification/Viz_Elf.thy ===== *)
theory Viz_Elf
  imports Viz_Schema Native_Library
begin

text \<open>
  The ELF reader of the visualiser (\<open>viz/npunlock.py\<close>): \<open>struct.unpack_from\<close>, null-terminated names, the section table, and
  the symbols and relocations of a parsed file. The theorem shows that reading never leaves the bytes. In a name,
  a character beyond code point 255 and a broken UTF-8 sequence each become one question mark.
\<close>

section \<open>Reading bytes\<close>

text \<open>A format is the list of the widths of its items, and whether they are signed.\<close>

type_synonym struct_format = "(nat \<times> bool) list"

definition format_size :: "struct_format \<Rightarrow> nat" where
  "format_size fmt = sum_list (map fst fmt)"

fun unpack :: "struct_format \<Rightarrow> bytes \<Rightarrow> int list" where
  "unpack [] bs = []"
| "unpack ((n, sig) # fmt) bs = (if sig then le_signed (take n bs) else le_value (take n bs)) # unpack fmt (drop n bs)"

text \<open>\<open>struct.unpack_from(format, data, offset)\<close>; a negative offset counts from the end.\<close>

definition unpack_from :: "struct_format \<Rightarrow> bytes \<Rightarrow> int \<Rightarrow> int list res" where
  "unpack_from fmt data offset =
     (let i = (if offset < 0 then offset + int (length data) else offset) in
      if i < 0 \<or> int (length data) < i + int (format_size fmt) then Inl (StructError ''unpack_from requires a larger buffer'')
      else Inr (unpack fmt (drop (nat i) data)))"

abbreviation "u8 \<equiv> (1::nat, False)"
abbreviation "u16 \<equiv> (2::nat, False)"
abbreviation "u32 \<equiv> (4::nat, False)"
abbreviation "u64 \<equiv> (8::nat, False)"
abbreviation "i64 \<equiv> (8::nat, True)"

definition bounded :: "bytes \<Rightarrow> int \<Rightarrow> int \<Rightarrow> string \<Rightarrow> unit res" where
  "bounded data offset n what =
     (if offset < 0 \<or> n < 0 \<or> int (length data) < offset \<or> int (length data) - offset < n
      then Inl (ValueError (what @ '' is outside the ELF file'')) else Inr ())"

text \<open>\<open>data[i:j]\<close> for offsets that are not negative\<close>

definition byte_slice :: "bytes \<Rightarrow> int \<Rightarrow> int \<Rightarrow> bytes" where
  "byte_slice data i j = take (nat (j - i)) (drop (nat i) data)"

text \<open>\<open>raw.decode("utf-8", errors="replace")\<close>: a lead byte takes the continuation bytes it allows, as far as they are there; what is
  not a whole character, or is beyond code point 255, becomes one question mark.\<close>

definition continues :: "nat \<Rightarrow> nat \<Rightarrow> nat \<Rightarrow> bool" where
  "continues lead i c \<longleftrightarrow>
     (if i \<noteq> 0 then 128 \<le> c \<and> c < 192
      else (if lead = 0xE0 then 160 else if lead = 0xF0 then 144 else 128) \<le> c \<and>
        c < (if lead = 0xED then 160 else if lead = 0xF4 then 144 else 192))"

definition needed :: "nat \<Rightarrow> nat" where
  "needed lead = (if lead < 194 \<or> 244 < lead then 0 else if lead < 224 then 1 else if lead < 240 then 2 else 3)"

definition trailing :: "nat \<Rightarrow> bytes \<Rightarrow> nat" where
  "trailing lead bs = length (takeWhile (\<lambda>(i, c). continues lead i (unat c)) (enum (take (needed lead) bs)))"

fun decode_replace :: "bytes \<Rightarrow> string" where
  "decode_replace [] = []"
| "decode_replace (b # bs) =
     (let lead = unat b in
      if lead < 128 then char_of lead # decode_replace bs
      else
        (if (lead = 194 \<or> lead = 195) \<and> trailing lead bs = 1 then char_of ((lead - 192) * 64 + (unat (hd bs) - 128)) else CHR ''?'')
        # decode_replace (drop (trailing lead bs) bs))"

definition cstring :: "bytes \<Rightarrow> int \<Rightarrow> int \<Rightarrow> string \<Rightarrow> string res" where
  "cstring data offset limit what =
     (if offset < 0 \<or> limit \<le> offset then Inl (ValueError (what @ '' offset is outside its string table''))
      else
        let window = byte_slice data offset limit; text_bytes = takeWhile (\<lambda>b. b \<noteq> 0) window in
        if length text_bytes = length window then Inl (ValueError (what @ '' is not null-terminated''))
        else Inr (decode_replace text_bytes))"

section \<open>The section table\<close>

record elf_section =
  es_index :: nat
  es_name :: string
  es_header_offset :: int
  es_type :: int
  es_flags :: int
  es_address :: int
  es_offset :: int
  es_size :: int
  es_link :: int
  es_info :: int
  es_alignment :: int
  es_entry_size :: int

record elf_file =
  ef_class :: int
  ef_header_size :: int
  ef_section_offset :: int
  ef_section_entry_size :: int
  ef_sections :: "elf_section list"
  ef_entry :: int
  ef_machine :: int
  ef_type :: int

text \<open>The header fields of both classes, with the sizes and the section format each class expects.\<close>

record elf_header =
  eh_type :: int
  eh_machine :: int
  eh_entry :: int
  eh_section_offset :: int
  eh_header_size :: int
  eh_section_entry_size :: int
  eh_section_count :: int
  eh_section_names :: int
  eh_expected_header :: int
  eh_expected_section :: int
  eh_section_format :: struct_format

definition elf32_section_format :: struct_format where
  "elf32_section_format = replicate 10 u32"

definition elf64_section_format :: struct_format where
  "elf64_section_format = [u32, u32, u64, u64, u64, u64, u32, u32, u64, u64]"

text \<open>The first item, two items and three items of what was unpacked\<close>

definition item1 :: "int list \<Rightarrow> int" where "item1 vs = vs ! 0"
definition item2 :: "int list \<Rightarrow> int" where "item2 vs = vs ! 1"
definition item3 :: "int list \<Rightarrow> int" where "item3 vs = vs ! 2"

definition elf32_header :: "bytes \<Rightarrow> elf_header res" where
  "elf32_header data =
     (if length data < 52 then Inl (ValueError ''ELF32 header is truncated'')
      else
        bind_res (unpack_from [u16, u16] data 16) (\<lambda>kind.
        bind_res (unpack_from [u32, u32] data 24) (\<lambda>entry.
        bind_res (unpack_from [u32] data 32) (\<lambda>sections.
        bind_res (unpack_from [u16] data 40) (\<lambda>header.
        bind_res (unpack_from [u16, u16, u16] data 46) (\<lambda>shape.
        Inr \<lparr>eh_type = item1 kind, eh_machine = item2 kind, eh_entry = item1 entry, eh_section_offset = item1 sections,
          eh_header_size = item1 header, eh_section_entry_size = item1 shape, eh_section_count = item2 shape,
          eh_section_names = item3 shape, eh_expected_header = 52, eh_expected_section = 40,
          eh_section_format = elf32_section_format\<rparr>))))))"

definition elf64_header :: "bytes \<Rightarrow> elf_header res" where
  "elf64_header data =
     (if length data < 64 then Inl (ValueError ''ELF64 header is truncated'')
      else
        bind_res (unpack_from [u16, u16] data 16) (\<lambda>kind.
        bind_res (unpack_from [u64] data 24) (\<lambda>entry.
        bind_res (unpack_from [u64] data 40) (\<lambda>sections.
        bind_res (unpack_from [u16] data 52) (\<lambda>header.
        bind_res (unpack_from [u16, u16, u16] data 58) (\<lambda>shape.
        Inr \<lparr>eh_type = item1 kind, eh_machine = item2 kind, eh_entry = item1 entry, eh_section_offset = item1 sections,
          eh_header_size = item1 header, eh_section_entry_size = item1 shape, eh_section_count = item2 shape,
          eh_section_names = item3 shape, eh_expected_header = 64, eh_expected_section = 64,
          eh_section_format = elf64_section_format\<rparr>))))))"

definition elf_header_of :: "bytes \<Rightarrow> elf_header res" where
  "elf_header_of data =
     (if length data < 16 \<or> take 4 data \<noteq> [0x7F, 0x45, 0x4C, 0x46] \<or> data ! 5 \<noteq> 1
      then Inl (ValueError ''artifact is not a little-endian ELF file'')
      else if data ! 4 = 1 then elf32_header data
      else if data ! 4 = 2 then elf64_header data
      else Inl (ValueError ''unsupported ELF class''))"

text \<open>One turn of the loop over the sections.\<close>

definition parse_section :: "bytes \<Rightarrow> elf_header \<Rightarrow> int \<Rightarrow> int \<Rightarrow> nat \<times> int list \<Rightarrow> elf_section res" where
  "parse_section data h name_offset name_size = (\<lambda>(index, raw).
     bind_res (if raw ! 1 \<noteq> 8 then bounded data (raw ! 4) (raw ! 5) ''section'' else Inr ()) (\<lambda>_.
     bind_res (cstring data (name_offset + raw ! 0) (name_offset + name_size) ''section name'') (\<lambda>name.
     Inr \<lparr>es_index = index, es_name = name, es_header_offset = eh_section_offset h + int index * eh_section_entry_size h,
       es_type = raw ! 1, es_flags = raw ! 2, es_address = raw ! 3, es_offset = raw ! 4, es_size = raw ! 5, es_link = raw ! 6,
       es_info = raw ! 7, es_alignment = raw ! 8, es_entry_size = raw ! 9\<rparr>)))"

definition parse_elf :: "bytes \<Rightarrow> elf_file res" where
  "parse_elf data =
     bind_res (elf_header_of data) (\<lambda>h.
     if eh_header_size h \<noteq> eh_expected_header h \<or> eh_section_entry_size h \<noteq> eh_expected_section h \<or> eh_section_count h = 0
     then Inl (ValueError ''ELF header or section-table shape is unsupported'')
     else
       bind_res (bounded data (eh_section_offset h) (eh_section_count h * eh_section_entry_size h) ''section table'') (\<lambda>_.
       if eh_section_count h \<le> eh_section_names h then Inl (ValueError ''ELF section-name table index is out of range'')
       else
         bind_res (map_res (\<lambda>index. unpack_from (eh_section_format h) data (eh_section_offset h + int index * eh_section_entry_size h))
           [0..<nat (eh_section_count h)]) (\<lambda>raws.
         let name_raw = raws ! nat (eh_section_names h) in
         bind_res (bounded data (name_raw ! 4) (name_raw ! 5) ''section-name table'') (\<lambda>_.
         bind_res (map_res (parse_section data h (name_raw ! 4) (name_raw ! 5)) (enum raws)) (\<lambda>sections.
         Inr \<lparr>ef_class = uint (data ! 4), ef_header_size = eh_header_size h, ef_section_offset = eh_section_offset h,
           ef_section_entry_size = eh_section_entry_size h, ef_sections = sections, ef_entry = eh_entry h,
           ef_machine = eh_machine h, ef_type = eh_type h\<rparr>)))))"

section \<open>Symbols and relocations\<close>

definition elf_section_at :: "elf_file \<Rightarrow> int \<Rightarrow> elf_section option" where
  "elf_section_at elf i = (if 0 \<le> i \<and> i < int (length (ef_sections elf)) then Some (ef_sections elf ! nat i) else None)"

definition entries :: "elf_section \<Rightarrow> int \<Rightarrow> nat list" where
  "entries s n = [0..<nat (es_size s div n)]"

text \<open>A symbol: its name, the index of its section and its value. \<open>None\<close> where the loop continues.\<close>

definition parse_symbol :: "bytes \<Rightarrow> elf_file \<Rightarrow> elf_section \<Rightarrow> elf_section \<Rightarrow> nat \<Rightarrow> (string \<times> int \<times> int) option res" where
  "parse_symbol data elf s names index =
     (let offset = es_offset s + int index * es_entry_size s in
      bind_res
        (if ef_class elf = 2 \<and> 24 \<le> es_entry_size s then
           bind_res (unpack_from [u32, u8, u8, u16, u64, u64] data offset) (\<lambda>vs. Inr (Some (vs ! 0, vs ! 3, vs ! 4)))
         else if ef_class elf = 1 \<and> 16 \<le> es_entry_size s then
           bind_res (unpack_from [u32, u32, u32, u8, u8, u16] data offset) (\<lambda>vs. Inr (Some (vs ! 0, vs ! 5, vs ! 1)))
         else Inr None) (\<lambda>r.
      case r of
        None \<Rightarrow> Inr None
      | Some (name_offset, section_index, v) \<Rightarrow>
          (case cstring data (es_offset names + name_offset) (es_offset names + es_size names) ''symbol name'' of
             Inr name \<Rightarrow> Inr (Some (name, section_index, v))
           | Inl (ValueError _) \<Rightarrow> Inr (Some (''<invalid>'', section_index, v))
           | Inl e \<Rightarrow> Inl e)))"

type_synonym symbol_table = "((int \<times> int) \<times> (string \<times> int \<times> int)) list"

definition section_symbols :: "bytes \<Rightarrow> elf_file \<Rightarrow> elf_section \<Rightarrow> symbol_table res" where
  "section_symbols data elf s =
     (if es_type s \<noteq> 2 \<or> es_entry_size s = 0 \<or> int (length (ef_sections elf)) \<le> es_link s then Inr []
      else case elf_section_at elf (es_link s) of
          None \<Rightarrow> Inl IndexError
        | Some names \<Rightarrow>
            if es_type names \<noteq> 3 then Inr []
            else
              bind_res (map_res (\<lambda>index. bind_res (parse_symbol data elf s names index) (\<lambda>r. Inr (index, r))) (entries s (es_entry_size s))) (\<lambda>rs.
              Inr (concat (map (\<lambda>(index, r). case r of None \<Rightarrow> [] | Some x \<Rightarrow> [((int (es_index s), int index), x)]) rs))))"

definition elf_symbols :: "bytes \<Rightarrow> elf_file \<Rightarrow> symbol_table res" where
  "elf_symbols data elf = bind_res (map_res (section_symbols data elf) (ef_sections elf)) (\<lambda>tables. Inr (concat tables))"

text \<open>A relocation: its index, offset, symbol, type and addend.\<close>

type_synonym relocation = "nat \<times> int \<times> int \<times> int \<times> int"

definition parse_relocation :: "bytes \<Rightarrow> elf_section \<Rightarrow> nat \<Rightarrow> relocation res" where
  "parse_relocation data s index =
     bind_res (unpack_from [u64, u64, i64] data (es_offset s + int index * 24)) (\<lambda>vs.
     Inr (index, vs ! 0, vs ! 1 div 2 ^ 32, vs ! 1 mod 2 ^ 32, vs ! 2))"

definition relocations :: "bytes \<Rightarrow> elf_file \<Rightarrow> elf_section \<Rightarrow> relocation list res" where
  "relocations data elf s =
     (if ef_class elf \<noteq> 2 \<or> es_type s \<noteq> 4 \<or> es_entry_size s \<noteq> 24 then Inr []
      else map_res (parse_relocation data s) (entries s 24))"

definition find_section :: "elf_file \<Rightarrow> string \<Rightarrow> elf_section option" where
  "find_section elf name = List.find (\<lambda>s. es_name s = name) (ef_sections elf)"

section \<open>Reading stays inside the bytes\<close>

lemma le_value_nonneg [simp]: "0 \<le> le_value bs"
  by (induction bs) simp_all

lemma unpack_length [simp]: "length (unpack fmt bs) = length fmt"
  by (induction fmt bs rule: unpack.induct) simp_all

lemma unpack_unsigned: "list_all (\<lambda>(_, sig). \<not> sig) fmt \<Longrightarrow> list_all (\<lambda>i. 0 \<le> i) (unpack fmt bs)"
  by (induction fmt bs rule: unpack.induct) auto

lemma unpack_from_inside:
  "0 \<le> offset \<Longrightarrow> offset + int (format_size fmt) \<le> int (length data) \<Longrightarrow> unpack_from fmt data offset = Inr (unpack fmt (drop (nat offset) data))"
  by (simp add: unpack_from_def)

lemma bounded_Inr [res_simps]:
  "bounded data offset n what = Inr u \<longleftrightarrow> 0 \<le> offset \<and> 0 \<le> n \<and> offset + n \<le> int (length data)"
  by (auto simp: bounded_def)

text \<open>A result that is a value or a \<open>ValueError\<close>\<close>

definition value_or_error :: "'a res \<Rightarrow> bool" where
  "value_or_error r \<longleftrightarrow> (\<forall>e. r = Inl e \<longrightarrow> (\<exists>m. e = ValueError m))"

lemma value_or_error_simps [simp]:
  "value_or_error (Inr x)" "value_or_error (Inl (ValueError m))" "value_or_error (if b then r else t) \<longleftrightarrow> (if b then value_or_error r else value_or_error t)"
  by (simp_all add: value_or_error_def)

lemma value_or_error_bind: "value_or_error m \<Longrightarrow> (\<And>x. m = Inr x \<Longrightarrow> value_or_error (f x)) \<Longrightarrow> value_or_error (bind_res m f)"
  by (cases m) (simp_all add: value_or_error_def)

lemma value_or_error_map: "(\<And>x. x \<in> set xs \<Longrightarrow> value_or_error (f x)) \<Longrightarrow> value_or_error (map_res f xs)"
  by (auto simp: value_or_error_def dest!: map_res_raises)

lemma bounded_value_or_error [simp]: "value_or_error (bounded data offset n what)"
  by (simp add: bounded_def)

lemma cstring_value_or_error [simp]: "value_or_error (cstring data offset limit what)"
  by (simp add: cstring_def Let_def)

text \<open>The header is read where the length was checked.\<close>

lemma elf32_header_safe:
  "value_or_error (elf32_header data)"
  "elf32_header data = Inr h \<Longrightarrow> 0 \<le> eh_section_offset h \<and> 0 \<le> eh_section_count h \<and> 0 \<le> eh_section_names h \<and>
     eh_expected_header h = 52 \<and> eh_expected_section h = 40 \<and> eh_section_format h = elf32_section_format \<and> 52 \<le> length data"
  by (auto simp: elf32_header_def unpack_from_inside format_size_def item1_def item2_def item3_def split: if_splits)

lemma elf64_header_safe:
  "value_or_error (elf64_header data)"
  "elf64_header data = Inr h \<Longrightarrow> 0 \<le> eh_section_offset h \<and> 0 \<le> eh_section_count h \<and> 0 \<le> eh_section_names h \<and>
     eh_expected_header h = 64 \<and> eh_expected_section h = 64 \<and> eh_section_format h = elf64_section_format \<and> 64 \<le> length data"
  by (auto simp: elf64_header_def unpack_from_inside format_size_def item1_def item2_def item3_def split: if_splits)

lemma elf_header_safe:
  "value_or_error (elf_header_of data)"
  "elf_header_of data = Inr h \<Longrightarrow> 0 \<le> eh_section_offset h \<and> 0 \<le> eh_section_count h \<and> 0 \<le> eh_section_names h \<and>
     0 < eh_expected_section h \<and> 0 < eh_expected_header h \<and> eh_expected_header h \<le> int (length data) \<and>
     int (format_size (eh_section_format h)) = eh_expected_section h \<and> length (eh_section_format h) = 10 \<and>
     list_all (\<lambda>(_, sig). \<not> sig) (eh_section_format h)"
proof -
  show "value_or_error (elf_header_of data)" by (simp add: elf_header_of_def elf32_header_safe(1) elf64_header_safe(1))
  assume h: "elf_header_of data = Inr h"
  have f32: "format_size elf32_section_format = 40 \<and> length elf32_section_format = 10 \<and> list_all (\<lambda>(_, sig). \<not> sig) elf32_section_format"
    and f64: "format_size elf64_section_format = 64 \<and> length elf64_section_format = 10 \<and> list_all (\<lambda>(_, sig). \<not> sig) elf64_section_format"
    by code_simp+
  from h consider "elf32_header data = Inr h" | "elf64_header data = Inr h" by (auto simp: elf_header_of_def split: if_splits)
  then show "0 \<le> eh_section_offset h \<and> 0 \<le> eh_section_count h \<and> 0 \<le> eh_section_names h \<and>
     0 < eh_expected_section h \<and> 0 < eh_expected_header h \<and> eh_expected_header h \<le> int (length data) \<and>
     int (format_size (eh_section_format h)) = eh_expected_section h \<and> length (eh_section_format h) = 10 \<and>
     list_all (\<lambda>(_, sig). \<not> sig) (eh_section_format h)"
    by cases (use elf32_header_safe(2) [of data h] elf64_header_safe(2) [of data h] f32 f64 in auto)
qed

lemma table_entry_inside:
  assumes "0 < (n::int)" and "0 \<le> k" and "int i < k"
  shows "0 \<le> int i * n \<and> int i * n + n \<le> k * n"
proof -
  have "int i + 1 \<le> k" using assms(3) by simp
  then have "(int i + 1) * n \<le> k * n" using assms(1) by (intro mult_right_mono) simp_all
  then show ?thesis using assms(1) by (simp add: distrib_right)
qed

text \<open>What parsing guarantees of a section.\<close>

definition good_section :: "bytes \<Rightarrow> elf_file \<Rightarrow> nat \<Rightarrow> elf_section \<Rightarrow> bool" where
  "good_section data elf i s \<longleftrightarrow> es_index s = i \<and> es_header_offset s = ef_section_offset elf + int i * ef_section_entry_size elf \<and>
     0 \<le> es_offset s \<and> 0 \<le> es_size s \<and> 0 \<le> es_link s \<and> 0 \<le> es_entry_size s \<and> 0 \<le> es_info s \<and>
     (es_type s \<noteq> 8 \<longrightarrow> es_offset s + es_size s \<le> int (length data))"

definition good_elf :: "bytes \<Rightarrow> elf_file \<Rightarrow> bool" where
  "good_elf data elf \<longleftrightarrow> ef_sections elf \<noteq> [] \<and> ef_header_size elf \<le> int (length data) \<and> 0 < ef_header_size elf \<and> 0 \<le> ef_section_offset elf \<and> 0 < ef_section_entry_size elf \<and>
     ef_section_offset elf + int (length (ef_sections elf)) * ef_section_entry_size elf \<le> int (length data) \<and>
     (\<forall>i < length (ef_sections elf). good_section data elf i (ef_sections elf ! i))"

lemma section_entry_read:
  assumes "elf_header_of data = Inr h" and "int i < eh_section_count h"
    and "bounded data (eh_section_offset h) (eh_section_count h * eh_expected_section h) what = Inr ()"
  shows "unpack_from (eh_section_format h) data (eh_section_offset h + int i * eh_expected_section h) =
    Inr (unpack (eh_section_format h) (drop (nat (eh_section_offset h + int i * eh_expected_section h)) data))"
proof -
  note h = elf_header_safe(2) [OF assms(1)]
  have "0 \<le> int i * eh_expected_section h \<and> int i * eh_expected_section h + eh_expected_section h \<le> eh_section_count h * eh_expected_section h"
    by (rule table_entry_inside) (use h assms(2) in auto)
  with h assms(3) show ?thesis by (intro unpack_from_inside) (auto simp: bounded_Inr)
qed

lemma parse_elf_sections:
  assumes "elf_header_of data = Inr h" and "bounded data (eh_section_offset h) (eh_section_count h * eh_expected_section h) what = Inr ()"
  shows "map_res (\<lambda>index. unpack_from (eh_section_format h) data (eh_section_offset h + int index * eh_expected_section h)) [0..<nat (eh_section_count h)] =
    Inr (map (\<lambda>index. unpack (eh_section_format h) (drop (nat (eh_section_offset h + int index * eh_expected_section h)) data)) [0..<nat (eh_section_count h)])"
  by (rule map_res_total) (use section_entry_read [OF assms(1) _ assms(2)] in auto)

lemma unpacked_nonneg:
  assumes "elf_header_of data = Inr h" and "k < 10"
  shows "0 \<le> unpack (eh_section_format h) bs ! k"
  using unpack_unsigned [of "eh_section_format h" bs] elf_header_safe(2) [OF assms(1)] assms(2) by (auto simp: list_all_length)

lemma parse_elf_good:
  "value_or_error (parse_elf data)" "parse_elf data = Inr elf \<Longrightarrow> good_elf data elf"
proof -
  show "value_or_error (parse_elf data)"
    unfolding parse_elf_def Let_def parse_section_def split_def
    by (intro value_or_error_bind)
      (auto simp: elf_header_safe(1) section_entry_read intro!: value_or_error_bind value_or_error_map)
  assume p: "parse_elf data = Inr elf"
  then obtain h raws sections where h: "elf_header_of data = Inr h" "eh_header_size h = eh_expected_header h"
      "eh_section_entry_size h = eh_expected_section h" "eh_section_count h \<noteq> 0"
      "bounded data (eh_section_offset h) (eh_section_count h * eh_expected_section h) ''section table'' = Inr ()"
    and raws: "map_res (\<lambda>index. unpack_from (eh_section_format h) data (eh_section_offset h + int index * eh_expected_section h)) [0..<nat (eh_section_count h)] = Inr raws"
    and s: "map_res (parse_section data h (raws ! nat (eh_section_names h) ! 4) (raws ! nat (eh_section_names h) ! 5)) (enum raws) = Inr sections"
    and elf: "elf = \<lparr>ef_class = uint (data ! 4), ef_header_size = eh_header_size h, ef_section_offset = eh_section_offset h,
      ef_section_entry_size = eh_section_entry_size h, ef_sections = sections, ef_entry = eh_entry h, ef_machine = eh_machine h, ef_type = eh_type h\<rparr>"
    unfolding parse_elf_def Let_def by (auto simp: bind_res_eq_Inr if_Inl_Inr)
  note hs = elf_header_safe(2) [OF h(1)]
  from raws parse_elf_sections [OF h(1,5)] have raws': "raws = map (\<lambda>index. unpack (eh_section_format h)
      (drop (nat (eh_section_offset h + int index * eh_expected_section h)) data)) [0..<nat (eh_section_count h)]" by simp
  have len: "length sections = nat (eh_section_count h)" using map_res_length [OF s] by (simp add: raws')
  have "good_section data elf i (sections ! i)" if "i < length sections" for i
  proof -
    from that len have i: "i < length raws" by (simp add: raws')
    have "enum raws ! i = (i, raws ! i)" using i by (simp add: nth_enumerate_eq)
    with map_res_nth [OF s, of i] i obtain t where t: "sections ! i = t"
      "parse_section data h (raws ! nat (eh_section_names h) ! 4) (raws ! nat (eh_section_names h) ! 5) (i, raws ! i) = Inr t" by simp
    have "\<And>k. k < 10 \<Longrightarrow> 0 \<le> raws ! i ! k" using i unpacked_nonneg [OF h(1)] by (simp add: raws')
    then show ?thesis
      unfolding t(1) using t(2) by (auto simp: parse_section_def good_section_def elf bind_res_eq_Inr bounded_Inr split: if_splits)
  qed
  with h hs len show "good_elf data elf" by (auto simp: good_elf_def elf bounded_Inr)
qed

text \<open>The entries of a section that is not empty in the file lie in the file.\<close>

lemma entry_inside:
  assumes "good_section data elf i s" and "es_type s \<noteq> 8" and "0 < n" and "index \<in> set (entries s n)"
  shows "0 \<le> es_offset s + int index * n \<and> es_offset s + int index * n + n \<le> es_offset s + es_size s \<and>
    es_offset s + es_size s \<le> int (length data)"
proof -
  have s: "0 \<le> es_offset s" "0 \<le> es_size s" "es_offset s + es_size s \<le> int (length data)" using assms(1,2) by (auto simp: good_section_def)
  have "int index < es_size s div n" using assms(4) by (auto simp: entries_def)
  then have "0 \<le> int index * n \<and> int index * n + n \<le> es_size s div n * n"
    by (intro table_entry_inside) (use assms(3) in auto)
  moreover have "es_size s div n * n \<le> es_size s" using assms(3) by (simp add: minus_mod_eq_div_mult [symmetric])
  ultimately show ?thesis using s by linarith
qed

lemma relocations_read:
  assumes "good_section data elf i s"
  shows "\<exists>rs. relocations data elf s = Inr rs"
proof -
  have "\<exists>r. parse_relocation data s index = Inr r" if "es_type s = 4" "index \<in> set (entries s 24)" for index
  proof -
    have "unpack_from [u64, u64, i64] data (es_offset s + int index * 24) = Inr (unpack [u64, u64, i64] (drop (nat (es_offset s + int index * 24)) data))"
      by (rule unpack_from_inside) (use entry_inside [OF assms _ _ that(2)] that(1) in \<open>auto simp: format_size_def\<close>)
    then show ?thesis by (simp add: parse_relocation_def)
  qed
  then show ?thesis by (auto simp: relocations_def map_res_succeeds)
qed

lemma parse_symbol_read:
  assumes "good_section data elf i s" and "es_type s \<noteq> 8" and "index \<in> set (entries s (es_entry_size s))"
  shows "\<exists>r. parse_symbol data elf s names index = Inr r"
proof -
  have unp: "\<exists>vs. unpack_from fmt data (es_offset s + int index * es_entry_size s) = Inr vs" if "int (format_size fmt) \<le> es_entry_size s" "fmt \<noteq> []" "0 < es_entry_size s" for fmt
    using entry_inside [OF assms(1,2) that(3) assms(3)] that(1)
      unpack_from_inside [of "es_offset s + int index * es_entry_size s" fmt data] by auto
  have c: "\<exists>x. (case cstring data a b w of Inr name \<Rightarrow> Inr (Some (name, k, v)) | Inl (ValueError _) \<Rightarrow> Inr (Some (''<invalid>'', k, v)) | Inl e \<Rightarrow> Inl e) =
      Inr x" for a b w and k v :: int
  proof (cases "cstring data a b w")
    case (Inl e)
    with cstring_value_or_error [of data a b w] show ?thesis by (auto simp: value_or_error_def)
  qed simp
  have sizes: "format_size [u32, u8, u8, u16, u64, u64] = 24" "format_size [u32, u32, u32, u8, u8, u16] = 16" by (simp_all add: format_size_def)
  consider "ef_class elf = 2 \<and> 24 \<le> es_entry_size s" | "\<not> (ef_class elf = 2 \<and> 24 \<le> es_entry_size s)" "ef_class elf = 1 \<and> 16 \<le> es_entry_size s"
    | "\<not> (ef_class elf = 2 \<and> 24 \<le> es_entry_size s)" "\<not> (ef_class elf = 1 \<and> 16 \<le> es_entry_size s)" by blast
  then show ?thesis
  proof cases
    case 1
    with unp [of "[u32, u8, u8, u16, u64, u64]"] sizes obtain vs where
      "unpack_from [u32, u8, u8, u16, u64, u64] data (es_offset s + int index * es_entry_size s) = Inr vs" by auto
    with 1 c show ?thesis by (simp add: parse_symbol_def)
  next
    case 2
    with unp [of "[u32, u32, u32, u8, u8, u16]"] sizes obtain vs where
      "unpack_from [u32, u32, u32, u8, u8, u16] data (es_offset s + int index * es_entry_size s) = Inr vs" by auto
    with 2 c show ?thesis by (simp add: parse_symbol_def)
  next
    case 3
    then show ?thesis by (simp only: parse_symbol_def Let_def if_False) simp
  qed
qed

lemma elf_symbols_read:
  assumes "good_elf data elf"
  shows "\<exists>syms. elf_symbols data elf = Inr syms"
proof -
  have "\<exists>t. section_symbols data elf s = Inr t" if s: "s \<in> set (ef_sections elf)" for s
  proof -
    from s assms obtain i where g: "good_section data elf i s" by (auto simp: in_set_conv_nth good_elf_def)
    then have "0 \<le> es_link s" by (simp add: good_section_def)
    then have link: "es_link s < int (length (ef_sections elf)) \<Longrightarrow> elf_section_at elf (es_link s) = Some (ef_sections elf ! nat (es_link s))"
      by (simp add: elf_section_at_def)
    show ?thesis
    proof (cases "es_type s \<noteq> 2 \<or> es_entry_size s = 0 \<or> int (length (ef_sections elf)) \<le> es_link s")
      case False
      let ?names = "ef_sections elf ! nat (es_link s)"
      have "\<exists>r. parse_symbol data elf s ?names index = Inr r" if "index \<in> set (entries s (es_entry_size s))" for index
        by (rule parse_symbol_read [OF g _ that]) (use False in simp)
      then have "\<exists>rs. map_res (\<lambda>index. bind_res (parse_symbol data elf s ?names index) (\<lambda>r. Inr (index, r))) (entries s (es_entry_size s)) = Inr rs"
        by (simp add: map_res_succeeds bind_res_eq_Inr)
      with False link show ?thesis by (auto simp: section_symbols_def)
    qed (simp add: section_symbols_def)
  qed
  then have "\<exists>ts. map_res (section_symbols data elf) (ef_sections elf) = Inr ts" by (simp add: map_res_succeeds)
  then show ?thesis by (auto simp: elf_symbols_def)
qed

text \<open>C38 The ELF reader never reads outside the file. On any bytes \<open>_parse_elf\<close> returns or raises \<open>ValueError\<close>; no
  \<open>struct.error\<close> escapes. In a file it accepts, the header and the section table lie in the bytes, sections are numbered in
  order with their headers in the table, every section that has contents in the file lies in it, and reading all symbols
  and the relocations of every section succeeds.\<close>

theorem parse_elf_safe:
  "(\<forall>e. parse_elf data = Inl e \<longrightarrow> (\<exists>m. e = ValueError m)) \<and>
   (\<forall>elf. parse_elf data = Inr elf \<longrightarrow>
      ef_sections elf \<noteq> [] \<and> ef_header_size elf \<le> int (length data) \<and> 0 \<le> ef_section_offset elf \<and>
      ef_section_offset elf + int (length (ef_sections elf)) * ef_section_entry_size elf \<le> int (length data) \<and>
      (\<forall>i < length (ef_sections elf). es_index (ef_sections elf ! i) = i \<and>
         es_header_offset (ef_sections elf ! i) = ef_section_offset elf + int i * ef_section_entry_size elf \<and>
         0 \<le> es_offset (ef_sections elf ! i) \<and> 0 \<le> es_size (ef_sections elf ! i) \<and>
         (es_type (ef_sections elf ! i) \<noteq> 8 \<longrightarrow> es_offset (ef_sections elf ! i) + es_size (ef_sections elf ! i) \<le> int (length data))) \<and>
      (\<exists>syms. elf_symbols data elf = Inr syms) \<and> (\<forall>s \<in> set (ef_sections elf). \<exists>rs. relocations data elf s = Inr rs))"
proof (intro conjI allI impI)
  fix e assume "parse_elf data = Inl e"
  with parse_elf_good(1) [of data] show "\<exists>m. e = ValueError m" by (simp add: value_or_error_def)
next
  fix elf assume "parse_elf data = Inr elf"
  then have g: "good_elf data elf" by (rule parse_elf_good(2))
  show "ef_sections elf \<noteq> []" "ef_header_size elf \<le> int (length data)" "0 \<le> ef_section_offset elf"
    "ef_section_offset elf + int (length (ef_sections elf)) * ef_section_entry_size elf \<le> int (length data)"
    using g by (simp_all add: good_elf_def)
  show "\<exists>syms. elf_symbols data elf = Inr syms" by (rule elf_symbols_read [OF g])
  show "\<forall>s \<in> set (ef_sections elf). \<exists>rs. relocations data elf s = Inr rs"
    using g relocations_read by (fastforce simp: good_elf_def in_set_conv_nth)
  fix i assume "i < length (ef_sections elf)"
  with g have s: "good_section data elf i (ef_sections elf ! i)" by (simp add: good_elf_def)
  show "es_index (ef_sections elf ! i) = i" "es_header_offset (ef_sections elf ! i) = ef_section_offset elf + int i * ef_section_entry_size elf"
    "0 \<le> es_offset (ef_sections elf ! i)" "0 \<le> es_size (ef_sections elf ! i)"
    using s by (simp_all add: good_section_def)
  assume "es_type (ef_sections elf ! i) \<noteq> 8"
  with s show "es_offset (ef_sections elf ! i) + es_size (ef_sections elf ! i) \<le> int (length data)" by (simp add: good_section_def)
qed

text \<open>A file of one section, which holds the section names.\<close>

definition sample_elf :: bytes where
  "sample_elf = [0x7F, 0x45, 0x4C, 0x46, 2, 1] @ replicate 10 0 @ [1, 0, 62, 0] @ replicate 20 0 @ [64] @ replicate 11 0 @
     [64] @ replicate 5 0 @ [64, 0, 1, 0, 0, 0] @
     [1, 0, 0, 0, 3, 0, 0, 0] @ replicate 16 0 @ [128] @ replicate 7 0 @ [4] @ replicate 31 0 @ [0, 97, 98, 0]"

theorem parse_elf_safe_witness:
  "\<exists>elf. parse_elf sample_elf = Inr elf \<and> length (ef_sections elf) = 1 \<and> es_name (ef_sections elf ! 0) = ''ab'' \<and>
     es_offset (ef_sections elf ! 0) + es_size (ef_sections elf ! 0) \<le> int (length sample_elf)"
proof -
  have "(case parse_elf sample_elf of Inr elf \<Rightarrow> map (\<lambda>s. (es_name s, es_type s)) (ef_sections elf) | Inl _ \<Rightarrow> []) = [(''ab'', 3)]"
    by code_simp
  then obtain elf where elf: "parse_elf sample_elf = Inr elf" "map (\<lambda>s. (es_name s, es_type s)) (ef_sections elf) = [(''ab'', 3)]"
    by (cases "parse_elf sample_elf") auto
  then have "length (ef_sections elf) = 1" "es_name (ef_sections elf ! 0) = ''ab''" "es_type (ef_sections elf ! 0) = 3" by auto
  with elf(1) parse_elf_safe [of sample_elf] show ?thesis by auto
qed

end
