(* ===== verification/Graph_Builder.thy ===== *)
theory Graph_Builder
  imports Artifact_Roundtrip Schema_Decoding Viz_Elf
begin

text \<open>
  Code that builds an artifact graph step by step (\<open>viz/npunlock.py\<close>): a step takes the graph and raises, or returns a value
  and the graph. A step that raises loses the graph, which its callers never use again. The rules show that a composed
  step keeps the invariant of graphs that operations make, and what it returns.
\<close>

section \<open>Steps\<close>

type_synonym 'a act = "artifact_graph \<Rightarrow> ('a \<times> artifact_graph) res"

definition act_return :: "'a \<Rightarrow> 'a act" where
  "act_return x = (\<lambda>g. Inr (x, g))"

definition act_lift :: "'a res \<Rightarrow> 'a act" where
  "act_lift r = (\<lambda>g. bind_res r (\<lambda>x. Inr (x, g)))"

definition act_bind :: "'a act \<Rightarrow> ('a \<Rightarrow> 'b act) \<Rightarrow> 'b act" where
  "act_bind m f = (\<lambda>g. bind_res (m g) (\<lambda>(x, g'). f x g'))"

fun act_fold :: "('a \<Rightarrow> 's \<Rightarrow> 's act) \<Rightarrow> 'a list \<Rightarrow> 's \<Rightarrow> 's act" where
  "act_fold f [] s = act_return s"
| "act_fold f (x # xs) s = act_bind (f x s) (act_fold f xs)"

definition act_graph :: "artifact_graph act" where
  "act_graph = (\<lambda>g. Inr (g, g))"

text \<open>\<open>graph.node\<close>, which always returns on the graphs of this development, \<open>graph.link\<close> and \<open>graph.artifact\<close>\<close>

definition act_node :: "node_args \<Rightarrow> gnode act" where
  "act_node args = (\<lambda>g.
     case graph_node args g of
       Some (Inr n, g') \<Rightarrow> Inr (n, g')
     | Some (Inl e, _) \<Rightarrow> Inl e
     | None \<Rightarrow> Inl (RuntimeError ''no result''))"

definition act_link_with :: "node_ref \<Rightarrow> node_ref \<Rightarrow> pyval \<Rightarrow> pyval \<Rightarrow> (string \<times> pyval) list \<Rightarrow> unit act" where
  "act_link_with source target kind properties m = (\<lambda>g.
     bind_res (graph_link source target kind properties (dget m ''description'') (dget m ''confidence'') (dget m ''scope'') g)
       (\<lambda>(_, g'). Inr ((), g')))"

text \<open>A new artifact is an object of its own.\<close>

definition fresh_object :: "artifact_graph \<Rightarrow> nat" where
  "fresh_object g = sum_list (map (\<lambda>(_, a). Suc (af_object a)) (vg_artifacts g))"

definition act_artifact :: "files \<Rightarrow> string \<Rightarrow> pyval \<Rightarrow> pyval \<Rightarrow> artifact act" where
  "act_artifact fs aid data name =
     (\<lambda>g. graph_artifact fs (fresh_object g) (PStr aid) data PNone name (PStr ''application/octet-stream'') g)"

section \<open>Arguments\<close>

text \<open>The two bundled schemas\<close>

record viz_schemas =
  vs_elf :: pyval
  vs_npu :: pyval

text \<open>\<open>graph.node(id, label=..., **metadata)\<close>\<close>

definition entity_args :: "string \<Rightarrow> string \<Rightarrow> (string \<times> pyval) list \<Rightarrow> node_args" where
  "entity_args nid label m = \<lparr>na_id = PStr nid, na_label = PStr label, na_description = dget m ''description'',
     na_kind = dget m ''kind'', na_category = dget m ''category'', na_spans = [], na_properties = PNone, na_fields = [],
     na_addresses = [], na_parent = None, na_confidence = PNone, na_scope = PNone, na_relevance = PNone,
     na_contributes = PBool True\<rparr>"

definition ready_fields :: "(string \<times> gfield) list \<Rightarrow> (string \<times> field_arg) list" where
  "ready_fields = map (\<lambda>(k, f). (k, ReadyField f))"

definition virtual_address :: "string \<Rightarrow> int \<Rightarrow> (string \<times> address_arg) list res" where
  "virtual_address name v = bind_res (Address (PStr ''virtual'') (PInt v)) (\<lambda>a. Inr [(name, ReadyAddress a)])"

text \<open>\<open>Span(artifact, i, j)\<close>\<close>

definition plain_span :: "artifact \<Rightarrow> int \<Rightarrow> int \<Rightarrow> span list res" where
  "plain_span a i j = bind_res (Span a (PInt i) (PInt j) PNone PNone PNone) (\<lambda>s. Inr [s])"

definition named_span :: "artifact \<Rightarrow> int \<Rightarrow> int \<Rightarrow> string \<Rightarrow> string \<Rightarrow> string \<Rightarrow> span res" where
  "named_span a i j sid label role = Span a (PInt i) (PInt j) (PStr sid) (PStr label) (PStr role)"

definition dot :: string where
  "dot = [CHR '' '', CHR 0xB7, CHR '' '']"

text \<open>\<open>d[k]\<close>\<close>

definition entry :: "('k \<times> 'v) list \<Rightarrow> 'k \<Rightarrow> 'v res" where
  "entry d k = from_option (KeyError ''key'') (map_of d k)"

definition field_value :: "(string \<times> gfield) list \<Rightarrow> string \<Rightarrow> pyval res" where
  "field_value fs k = bind_res (entry fs k) (\<lambda>f. Inr (fd_value f))"

text \<open>A field value in arithmetic\<close>

definition int_value :: "pyval \<Rightarrow> int res" where
  "int_value v = (case v of PInt i \<Rightarrow> Inr i | PBool b \<Rightarrow> Inr (of_bool b) | _ \<Rightarrow> Inl (TypeError ''unsupported operand type(s)''))"

text \<open>\<open>_link\<close>: the metadata of the first schema that has any\<close>

definition link_texts :: "viz_schemas \<Rightarrow> string \<Rightarrow> (string \<times> pyval) list res" where
  "link_texts vs kind =
     bind_res (link_metadata (vs_npu vs) kind) (\<lambda>m.
     case m of
       Some (e # es) \<Rightarrow> Inr (e # es)
     | _ \<Rightarrow> bind_res (link_metadata (vs_elf vs) kind) (\<lambda>m'. Inr (case m' of None \<Rightarrow> [] | Some d \<Rightarrow> d)))"

definition act_link :: "viz_schemas \<Rightarrow> node_ref \<Rightarrow> node_ref \<Rightarrow> string \<Rightarrow> pyval \<Rightarrow> unit act" where
  "act_link vs source target kind properties =
     act_bind (act_lift (link_texts vs kind)) (\<lambda>m. act_link_with source target (PStr kind) properties m)"

section \<open>What steps keep\<close>

text \<open>The nodes without a parent are the images of the two files.\<close>

definition image_ids :: "string list" where
  "image_ids = [''native.elf'', ''kernel.elf'']"

definition below_images :: "artifact_graph \<Rightarrow> bool" where
  "below_images g \<longleftrightarrow> (\<forall>k \<in> set (keys (vg_nodes g)). map_of (vg_parents g) k = None \<longrightarrow> k \<in> set image_ids)"

definition view :: "files \<Rightarrow> artifact_graph \<Rightarrow> bool" where
  "view fs g \<longleftrightarrow> built fs g \<and> below_images g"

definition hangs :: "node_args \<Rightarrow> bool" where
  "hangs args \<longleftrightarrow> (na_parent args = None \<longrightarrow> na_id args \<in> PStr ` set image_ids)"

lemma hangs_below [simp]: "hangs (args\<lparr>na_parent := Some p\<rparr>)" "hangs (args\<lparr>na_parent := Some p, na_confidence := c, na_scope := s\<rparr>)"
  by (simp_all add: hangs_def)

text \<open>A step keeps this of a graph that operations made, and returns a value with a property.\<close>

definition keeps :: "files \<Rightarrow> 'a act \<Rightarrow> ('a \<Rightarrow> bool) \<Rightarrow> bool" where
  "keeps fs m V \<longleftrightarrow> (\<forall>g x g'. view fs g \<longrightarrow> m g = Inr (x, g') \<longrightarrow> view fs g' \<and> V x)"

named_theorems keeps_rules

lemma keeps_return [keeps_rules]: "V x \<Longrightarrow> keeps fs (act_return x) V"
  by (simp add: keeps_def act_return_def)

lemma keeps_lift [keeps_rules]: "(\<And>x. r = Inr x \<Longrightarrow> V x) \<Longrightarrow> keeps fs (act_lift r) V"
  by (auto simp: keeps_def act_lift_def bind_res_eq_Inr)

lemma keeps_bind: "keeps fs m V \<Longrightarrow> (\<And>x. V x \<Longrightarrow> keeps fs (f x) W) \<Longrightarrow> keeps fs (act_bind m f) W"
proof -
  assume m: "keeps fs m V" and f: "\<And>x. V x \<Longrightarrow> keeps fs (f x) W"
  show "keeps fs (act_bind m f) W"
    unfolding keeps_def
  proof (intro allI impI)
    fix g y g' assume g: "view fs g" and run: "act_bind m f g = Inr (y, g')"
    from run obtain x g1 where "m g = Inr (x, g1)" "f x g1 = Inr (y, g')" by (auto simp: act_bind_def bind_res_eq_Inr)
    with m f g show "view fs g' \<and> W y" unfolding keeps_def by blast
  qed
qed

lemma keeps_bind_any [keeps_rules]: "keeps fs m (\<lambda>_. True) \<Longrightarrow> (\<And>x. keeps fs (f x) W) \<Longrightarrow> keeps fs (act_bind m f) W"
  by (rule keeps_bind)

lemma keeps_weaken: "keeps fs m V \<Longrightarrow> (\<And>x. V x \<Longrightarrow> W x) \<Longrightarrow> keeps fs m W"
  by (auto simp: keeps_def)

lemma keeps_lift_bind: "(\<And>x. r = Inr x \<Longrightarrow> keeps fs (f x) W) \<Longrightarrow> keeps fs (act_bind (act_lift r) f) W"
  by (rule keeps_bind [where V = "\<lambda>x. r = Inr x"]) (auto intro: keeps_lift)

lemma keeps_fold: "V s \<Longrightarrow> (\<And>x s. V s \<Longrightarrow> keeps fs (f x s) V) \<Longrightarrow> keeps fs (act_fold f xs s) V"
proof (induction xs arbitrary: s)
  case (Cons x xs)
  then show ?case by (auto intro: keeps_bind)
qed (simp add: keeps_return)

lemma keeps_fold_any [keeps_rules]: "(\<And>x s. keeps fs (f x s) (\<lambda>_. True)) \<Longrightarrow> keeps fs (act_fold f xs s) (\<lambda>_. True)"
  by (rule keeps_fold) simp_all

lemma keeps_if [keeps_rules]: "(b \<Longrightarrow> keeps fs m V) \<Longrightarrow> (\<not> b \<Longrightarrow> keeps fs m' V) \<Longrightarrow> keeps fs (if b then m else m') V"
  by simp

lemma keeps_option [keeps_rules]:
  "(v = None \<Longrightarrow> keeps fs m V) \<Longrightarrow> (\<And>x. v = Some x \<Longrightarrow> keeps fs (f x) V) \<Longrightarrow> keeps fs (case v of None \<Rightarrow> m | Some x \<Rightarrow> f x) V"
  by (cases v) simp_all

lemma keeps_pair [keeps_rules]: "(\<And>x y. p = (x, y) \<Longrightarrow> keeps fs (f x y) V) \<Longrightarrow> keeps fs (case p of (x, y) \<Rightarrow> f x y) V"
  by (cases p) simp

lemma keeps_let [keeps_rules]: "keeps fs (f x) V \<Longrightarrow> keeps fs (let y = x in f y) V"
  by (simp add: Let_def)

lemma keeps_graph [keeps_rules]: "V = (\<lambda>_. True) \<Longrightarrow> keeps fs act_graph V"
  by (simp add: keeps_def act_graph_def)

lemma keeps_artifact [keeps_rules]: "V = (\<lambda>_. True) \<Longrightarrow> keeps fs (act_artifact fs aid data name) V"
proof -
  have fresh: "fresh_object g \<notin> af_object ` snd ` set (vg_artifacts g)" for g
  proof -
    have "Suc (af_object a) \<le> fresh_object g" if "(k, a) \<in> set (vg_artifacts g)" for k a
      unfolding fresh_object_def using that by (intro member_le_sum_list) (force, simp)
    then show ?thesis by force
  qed
  have "below_images g'" if "below_images g" "graph_artifact fs obj aid' data path name mt g = Inr (a, g')" for g g' obj aid' path mt a
    using that by (auto simp: graph_artifact_def bind_res_eq_Inr if_Inl_Inr below_images_def)
  then have "view fs g'" if "view fs g" "act_artifact fs aid data name g = Inr (a, g')" for g g' a
    using that built.artifact [OF _ _ fresh] unfolding view_def act_artifact_def by blast
  then show "V = (\<lambda>_. True) \<Longrightarrow> keeps fs (act_artifact fs aid data name) V" by (auto simp: keeps_def)
qed

lemma graph_node_below:
  assumes "below_images g" and "graph_node args g = Some (Inr n, g')"
    and "hangs args"
  shows "below_images g'"
proof -
  from assms(2) obtain g1 where n: "insert_node args g = Inr (n, g1)"
    by (auto simp: graph_node_def split: sum.splits option.splits)
  then have g1: "g1 = g\<lparr>vg_nodes := vg_nodes g @ [(gn_id n, n)]\<rparr>" and id: "na_id args = PStr (gn_id n)"
    by (auto simp: insert_node_def make_node_def bind_res_eq_Inr if_Inl_Inr bool_case_Inr text_identifier_Inr Let_def)
  show ?thesis
  proof (cases "na_parent args")
    case None
    with assms n g1 id show ?thesis by (auto simp: graph_node_def below_images_def hangs_def keys_def) (metis fst_conv)
  next
    case (Some parent)
    with assms(2) n have c: "contain parent (NodeRef n) g1 = Some (Inr g')"
      by (auto simp: graph_node_def split: sum.splits option.splits)
    then obtain p where "g' = g1\<lparr>vg_parents := vg_parents g1 @ [(gn_id n, p)]\<rparr>"
      by (auto simp: contain_def contain_ids_def node_ref_id_def split: sum.splits option.splits if_splits bool.splits)
    with assms(1) g1 show ?thesis by (auto simp: below_images_def keys_def map_add_def split: option.splits)
  qed
qed

lemma keeps_node [keeps_rules]:
  assumes "wf_args args" and "hangs args" and "V = (\<lambda>_. True)"
  shows "keeps fs (act_node args) V"
  unfolding keeps_def view_def using assms(1,3) graph_node_below [OF _ _ assms(2)]
  by (auto simp: act_node_def split: option.splits sum.splits intro: built.node)

lemma keeps_link_with [keeps_rules]: "V = (\<lambda>_. True) \<Longrightarrow> keeps fs (act_link_with source target kind properties m) V"
proof -
  have "below_images g'" if "below_images g" "graph_link source target kind' properties d c s g = Inr (l, g')" for g g' kind' d c s l
    using that by (auto simp: graph_link_def bind_res_eq_Inr if_Inl_Inr below_images_def Let_def)
  then show "V = (\<lambda>_. True) \<Longrightarrow> keeps fs (act_link_with source target kind properties m) V"
    by (auto simp: keeps_def view_def act_link_with_def bind_res_eq_Inr intro: built.link)
qed

lemma keeps_link [keeps_rules]: "V = (\<lambda>_. True) \<Longrightarrow> keeps fs (act_link vs source target kind properties) V"
  unfolding act_link_def by (auto intro!: keeps_rules)

text \<open>The parts of the arguments are made by their constructors.\<close>

definition good_fields :: "(string \<times> gfield) list \<Rightarrow> bool" where
  "good_fields fs \<longleftrightarrow> distinct (keys fs) \<and> list_all (\<lambda>(_, f). wf_field f) fs"

definition good_addresses :: "(string \<times> address_arg) list \<Rightarrow> bool" where
  "good_addresses ads \<longleftrightarrow> distinct (keys ads) \<and> list_all (\<lambda>(_, a). wf_address_arg a) ads"

lemma wf_entity_args [simp]: "wf_args (entity_args nid label m)"
  by (simp add: wf_args_def entity_args_def keys_def)

lemma wf_args_update [simp]:
  "wf_args args \<Longrightarrow> wf_args (args\<lparr>na_parent := p\<rparr>)" "wf_args args \<Longrightarrow> wf_args (args\<lparr>na_properties := v\<rparr>)"
  "wf_args args \<Longrightarrow> wf_args (args\<lparr>na_contributes := v\<rparr>)" "wf_args args \<Longrightarrow> wf_args (args\<lparr>na_confidence := v\<rparr>)"
  "wf_args args \<Longrightarrow> wf_args (args\<lparr>na_scope := v\<rparr>)"
  "wf_args args \<Longrightarrow> list_all wf_span ss \<Longrightarrow> wf_args (args\<lparr>na_spans := ss\<rparr>)"
  "wf_args args \<Longrightarrow> good_fields fs \<Longrightarrow> wf_args (args\<lparr>na_fields := ready_fields fs\<rparr>)"
  "wf_args args \<Longrightarrow> good_addresses ads \<Longrightarrow> wf_args (args\<lparr>na_addresses := ads\<rparr>)"
  by (auto simp: wf_args_def good_fields_def good_addresses_def ready_fields_def keys_def list_all_iff split_def comp_def)

lemma wf_span_made: "Span a i j sid label role = Inr s \<Longrightarrow> wf_span s"
proof -
  assume "Span a i j sid label role = Inr s"
  moreover from this have "sp_artifact s = a" by (auto simp: Span_def bind_res_eq_Inr if_Inl_Inr)
  ultimately show ?thesis unfolding wf_span_def by blast
qed

lemma plain_span_wf: "plain_span a i j = Inr ss \<Longrightarrow> list_all wf_span ss"
  by (auto simp: plain_span_def bind_res_eq_Inr dest: wf_span_made)

lemma named_span_wf: "named_span a i j sid label role = Inr s \<Longrightarrow> wf_span s"
  by (auto simp: named_span_def dest: wf_span_made)

lemma Address_wf: "Address space v = Inr a \<Longrightarrow> wf_address a"
  by (auto simp: Address_def wf_address_def bind_res_eq_Inr if_Inl_Inr py_int_Inr text_identifier_Inr)

lemma virtual_address_good: "virtual_address name v = Inr ads \<Longrightarrow> good_addresses ads"
  by (auto simp: virtual_address_def good_addresses_def bind_res_eq_Inr keys_def dest: Address_wf)

lemma no_addresses_good [simp]: "good_addresses []"
  by (simp add: good_addresses_def keys_def)

lemma good_fields_Nil [simp]: "good_fields []"
  by (simp add: good_fields_def keys_def)

lemma good_fields_set: "good_fields fs \<Longrightarrow> wf_field f \<Longrightarrow> good_fields (dict_set k f fs)"
proof -
  assume fs: "good_fields fs" and f: "wf_field f"
  have "list_all (\<lambda>(_, f). wf_field f) (dict_set k f fs)" using fs f by (induction fs) (auto simp: good_fields_def keys_def)
  with fs show "good_fields (dict_set k f fs)" by (simp add: good_fields_def distinct_keys_dict_set)
qed

lemma decode_field_good:
  assumes "decode_field a data base computed v fs = Inr fs'" and "good_fields fs"
  shows "good_fields fs'"
proof -
  from assms(1) obtain d i f where "fs' = dict_set i f fs" and
    "(\<exists>w p t. Field w [] PNone t p PNone PNone PNone = Inr f) \<or> read_layout a data base d = Inr f"
    by (auto simp: decode_field_def bind_res_eq_Inr if_Inl_Inr dict_case_Inr split: if_splits) blast
  moreover have "wf_field f" if "read_layout a data base d = Inr f" for f
    using that by (auto simp: read_layout_def bind_res_eq_Inr Let_def intro!: Field_wf dest: wf_span_made)
  ultimately show ?thesis using assms(2) by (auto intro!: good_fields_set dest: Field_wf)
qed

lemma decoded_fields_good: "decode_record_fields schema record_id a data base computed = Inr fs \<Longrightarrow> good_fields fs"
  by (auto simp: decode_record_fields_def bind_res_eq_Inr if_Inl_Inr
      intro: decode_field_good elim!: fold_res_invariant [where P = good_fields])

end
