(* ===== verification/Viz_Evidence.thy ===== *)
theory Viz_Evidence
  imports Graph_Builder
begin

text \<open>
  The evidence the core of the package hands to the visualiser (\<open>viz/evidence.py\<close>): the validator of its plain mapping. A
  check returns what it has read: an endpoint, a group, a symbol is then a tuple of numbers and texts, and the sets of the
  code are lists of what was added. A JSON array is a list or a tuple.
\<close>

section \<open>Values\<close>

definition evidence_format :: string where
  "evidence_format = ''npunlock.viz-evidence''"

definition source_contracts :: "(string \<times> pyval) list" where
  "source_contracts = [(''act_groups'', PStr ''npunlock.prepared-act-groups.v1''), (''group_coverage'', PStr ''patchblob.group-coverage.v1''),
     (''exact_relations'', PStr ''patchblob.exact-relations.v1''), (''graph_io'', PStr ''patchblob.graph-io-symbols.v1''),
     (''topology'', PStr ''npunlock.native-topology-proposal.v1'')]"

definition evidence_endpoint_kinds :: "string list" where
  "evidence_endpoint_kinds = [''act_group'', ''dpu_invariant'', ''graph_input'', ''graph_output'']"

definition evidence_relation_kinds :: "string list" where
  "evidence_relation_kinds = [''act_to_output'', ''act_to_act'', ''act_to_dpu'', ''act_to_dpu_via_dma'', ''act_to_act_via_dma'', ''dpu_to_act'',
     ''graph_input_to_act_via_dma'']"

definition evidence_coverage_kinds :: "string list" where
  "evidence_coverage_kinds = [''direct_output'', ''act_consumer'', ''dpu_consumer'', ''dma_dpu_consumer'', ''dma_act_consumer'']"

definition evidence_states :: "string list" where
  "evidence_states = [''not_observed'', ''incomplete'', ''complete'']"

definition ev_integer :: "int \<Rightarrow> pyval \<Rightarrow> int res" where
  "ev_integer least v =
     (case v of
        PInt i \<Rightarrow> if i < least then Inl (ValueError ''must be an integer of at least the minimum'') else Inr i
      | _ \<Rightarrow> Inl (ValueError ''must be an integer of at least the minimum''))"

definition ev_text :: "pyval \<Rightarrow> string res" where
  "ev_text v =
     (case v of
        PStr s \<Rightarrow> if s = [] then Inl (ValueError ''must be a non-empty string'') else Inr s
      | _ \<Rightarrow> Inl (ValueError ''must be a non-empty string''))"

definition ev_sequence :: "pyval \<Rightarrow> pyval list res" where
  "ev_sequence v = (case v of PList vs \<Rightarrow> Inr vs | PTuple vs \<Rightarrow> Inr vs | _ \<Rightarrow> Inl (ValueError ''must be an array''))"

definition ev_indices :: "pyval \<Rightarrow> int list res" where
  "ev_indices v = bind_res (ev_sequence v) (map_res (ev_integer 0))"

text \<open>\<open>isinstance(v, Mapping) and set(v) == names\<close>\<close>

definition ev_mapping :: "string list \<Rightarrow> string \<Rightarrow> pyval \<Rightarrow> (string \<times> pyval) list res" where
  "ev_mapping names what v =
     (case v of PDict d \<Rightarrow> if set (keys d) \<noteq> set names then Inl (ValueError what) else Inr d | _ \<Rightarrow> Inl (ValueError what))"

text \<open>\<open>v in names\<close>, where it is a text\<close>

definition ev_choice :: "string list \<Rightarrow> string \<Rightarrow> pyval \<Rightarrow> string res" where
  "ev_choice names what v =
     bind_res (in_texts v names) (\<lambda>known.
     case v of PStr s \<Rightarrow> if known then Inr s else Inl (ValueError what) | _ \<Rightarrow> Inl (ValueError what))"

text \<open>\<open>if d[k] is not None: f(d[k])\<close>\<close>

definition ev_optional :: "(pyval \<Rightarrow> 'a res) \<Rightarrow> pyval \<Rightarrow> 'a option res" where
  "ev_optional f v = (if v = PNone then Inr None else bind_res (f v) (\<lambda>x. Inr (Some x)))"

section \<open>Groups\<close>

text \<open>A group: its index and how many invocations it has. The state is the indices seen.\<close>

definition check_act_group :: "pyval \<Rightarrow> (int \<times> nat) list \<Rightarrow> (int \<times> nat) list res" where
  "check_act_group v seen =
     bind_res (ev_mapping [''index'', ''invocation_indices'', ''range_indices'', ''input_count'', ''input_dtypes'', ''output_dtype'',
       ''input_element_counts'', ''output_element_count'', ''scalar_input_indices''] ''evidence group has an invalid shape'' v) (\<lambda>d.
     bind_res (ev_integer 0 (dget d ''index'')) (\<lambda>index.
     if index \<in> fst ` set seen then Inl (ValueError ''evidence group indices must be unique'')
     else if index \<noteq> int (length seen) then Inl (ValueError ''evidence groups must be ordered contiguously from zero'')
     else
       bind_res (ev_indices (dget d ''invocation_indices'')) (\<lambda>invocations.
       bind_res (ev_indices (dget d ''range_indices'')) (\<lambda>ranges.
       if invocations = [] \<or> length invocations \<noteq> length ranges
       then Inl (ValueError ''evidence group invocation and range indices must be non-empty and aligned'')
       else
         bind_res (map_res (\<lambda>k. ev_optional (ev_integer 1) (dget d k)) [''input_count'', ''output_element_count'']) (\<lambda>_.
         bind_res (ev_optional (\<lambda>v. bind_res (ev_sequence v) (map_res ev_text)) (dget d ''input_dtypes'')) (\<lambda>_.
         bind_res (map_res (\<lambda>k. ev_optional ev_indices (dget d k)) [''input_element_counts'', ''scalar_input_indices'']) (\<lambda>_.
         bind_res (ev_optional ev_text (dget d ''output_dtype'')) (\<lambda>_.
         Inr (seen @ [(index, length invocations)])))))))))"

definition check_act_groups :: "pyval \<Rightarrow> (int \<times> nat) list res" where
  "check_act_groups v =
     bind_res (ev_sequence v) (\<lambda>vs.
     bind_res (fold_res check_act_group vs []) (\<lambda>groups.
     if fst ` set groups \<noteq> set (map int [0..<length groups])
     then Inl (ValueError ''evidence group indices must be contiguous from zero'') else Inr groups))"

section \<open>Relations and graph symbols\<close>

type_synonym endpoint = "string \<times> int \<times> int option"

definition check_endpoint :: "pyval \<Rightarrow> endpoint res" where
  "check_endpoint v =
     bind_res (ev_mapping [''kind'', ''primary_index'', ''secondary_index''] ''invalid endpoint shape'' v) (\<lambda>d.
     bind_res (ev_choice evidence_endpoint_kinds ''unsupported endpoint kind'' (dget d ''kind'')) (\<lambda>kind.
     bind_res (ev_integer 0 (dget d ''primary_index'')) (\<lambda>primary.
     bind_res (ev_optional (ev_integer 0) (dget d ''secondary_index'')) (\<lambda>secondary.
     Inr (kind, primary, secondary)))))"

definition check_relation :: "pyval \<Rightarrow> endpoint list res" where
  "check_relation v =
     bind_res (ev_mapping [''kind'', ''source'', ''destination'', ''evidence_count''] ''exact relation has an invalid shape'' v) (\<lambda>d.
     bind_res (ev_choice evidence_relation_kinds ''exact relation kind is unsupported'' (dget d ''kind'')) (\<lambda>_.
     bind_res (check_endpoint (dget d ''source'')) (\<lambda>source.
     bind_res (check_endpoint (dget d ''destination'')) (\<lambda>destination.
     bind_res (ev_integer 1 (dget d ''evidence_count'')) (\<lambda>_. Inr [source, destination])))))"

definition symbol_endpoint :: "string \<Rightarrow> int \<Rightarrow> int \<Rightarrow> endpoint" where
  "symbol_endpoint kind table_index symbol_index =
     (''graph_'' @ kind, symbol_index, if kind = ''input'' then Some table_index else None)"

definition check_symbol :: "pyval \<Rightarrow> endpoint list \<Rightarrow> endpoint list res" where
  "check_symbol v seen =
     bind_res (ev_mapping [''kind'', ''symbol_table_index'', ''symbol_index'', ''size_bytes'', ''name'']
       ''graph I/O symbol has an invalid shape'' v) (\<lambda>d.
     bind_res (ev_choice [''input'', ''output''] ''graph I/O symbol kind must be input or output'' (dget d ''kind'')) (\<lambda>kind.
     bind_res (ev_integer 0 (dget d ''symbol_table_index'')) (\<lambda>table_index.
     bind_res (ev_integer 0 (dget d ''symbol_index'')) (\<lambda>symbol_index.
     bind_res (ev_integer 1 (dget d ''size_bytes'')) (\<lambda>_.
     bind_res (ev_text (dget d ''name'')) (\<lambda>_.
     if symbol_endpoint kind table_index symbol_index \<in> set seen then Inl (ValueError ''graph I/O endpoint identities must be unique'')
     else Inr (symbol_endpoint kind table_index symbol_index # seen)))))))"

definition check_known :: "int set \<Rightarrow> endpoint list \<Rightarrow> endpoint \<Rightarrow> unit res" where
  "check_known groups symbols = (\<lambda>(kind, primary, secondary).
     if kind = ''act_group'' \<and> (primary \<notin> groups \<or> secondary \<noteq> None)
     then Inl (ValueError ''exact relation references an unknown or malformed ACT group'')
     else if kind = ''dpu_invariant'' \<and> secondary \<noteq> None
     then Inl (ValueError ''DPU relation endpoints cannot have a secondary index'')
     else if startswith kind ''graph_'' \<and> (kind, primary, secondary) \<notin> set symbols
     then Inl (ValueError ''exact relation references an unknown graph I/O endpoint'')
     else Inr ())"

section \<open>Coverage\<close>

definition check_state :: "string \<times> pyval \<Rightarrow> unit res" where
  "check_state = (\<lambda>(kind, v).
     bind_res (ev_mapping [''state'', ''unresolved''] ''group coverage kind has an invalid shape'' v) (\<lambda>d.
     bind_res (ev_choice evidence_states ''group coverage kind has an invalid state'' (dget d ''state'')) (\<lambda>_.
     bind_res (ev_sequence (dget d ''unresolved'')) (\<lambda>vs.
     bind_res (map_res ev_text vs) (\<lambda>_. Inr ())))))"

definition check_coverage :: "(int \<times> nat) list \<Rightarrow> pyval \<Rightarrow> int list \<Rightarrow> int list res" where
  "check_coverage groups v seen =
     bind_res (ev_mapping [''group_index'', ''invocation_count'', ''kinds'', ''properties''] ''group coverage has an invalid shape'' v) (\<lambda>d.
     bind_res (ev_integer 0 (dget d ''group_index'')) (\<lambda>index.
     if index \<in> set seen then Inl (ValueError ''group coverage indices must be unique'')
     else if index \<notin> fst ` set groups then Inl (ValueError ''group coverage references an unknown ACT group'')
     else
       bind_res (ev_integer 0 (dget d ''invocation_count'')) (\<lambda>count.
       bind_res (ev_mapping evidence_coverage_kinds ''group coverage kinds are incomplete or unsupported'' (dget d ''kinds'')) (\<lambda>states.
       bind_res (map_res check_state states) (\<lambda>_.
       if \<not> is_dict (dget d ''properties'') then Inl (ValueError ''group coverage kinds and properties must be objects'')
       else if count \<noteq> int (snd (groups ! nat index))
       then Inl (ValueError ''group coverage invocation count does not match the ACT group'')
       else Inr (index # seen))))))"

section \<open>The topology proposal\<close>

definition check_candidates :: "int set \<Rightarrow> pyval \<Rightarrow> int list list res" where
  "check_candidates groups v =
     bind_res (ev_sequence v) (map_res (\<lambda>entry.
       bind_res (ev_indices entry) (\<lambda>indices.
       if list_all (\<lambda>i. i \<in> groups) indices then Inr indices else Inl (ValueError ''topology references an unknown ACT group''))))"

definition expected_status :: "int list list \<Rightarrow> bool \<Rightarrow> string" where
  "expected_status assignments truncated =
     (if assignments = [] then ''none'' else if length assignments = 1 \<and> \<not> truncated then ''unique'' else ''ambiguous'')"

definition check_topology_review :: "int set \<Rightarrow> nat \<Rightarrow> string \<Rightarrow> int list list \<Rightarrow> pyval \<Rightarrow> int list res" where
  "check_topology_review groups n status assignments v =
     bind_res (ev_mapping [''status'', ''group_indices'', ''coverage_kinds''] ''topology review has an invalid shape'' v) (\<lambda>d.
     if dget d ''status'' \<noteq> PStr ''complete'' then Inl (ValueError ''topology review must be complete'')
     else
       bind_res (ev_indices (dget d ''group_indices'')) (\<lambda>reviewed.
       bind_res (elements (dget d ''coverage_kinds'')) (\<lambda>vs.
       bind_res (map_res ev_text vs) (\<lambda>kinds.
       if length reviewed \<noteq> n \<or> length kinds \<noteq> n \<or> \<not> list_all (\<lambda>i. i \<in> groups) reviewed
       then Inl (ValueError ''topology review must align with names and known groups'')
       else if status \<noteq> ''unique'' \<or> reviewed \<noteq> hd assignments \<or> \<not> list_all (\<lambda>k. k \<in> set evidence_coverage_kinds) kinds
       then Inl (ValueError ''topology review must match the unique proposal and supported coverage kinds'')
       else Inr reviewed))))"

definition check_topology :: "int set \<Rightarrow> pyval \<Rightarrow> unit res" where
  "check_topology groups v =
     bind_res (ev_mapping [''status'', ''reason'', ''names'', ''contract_candidates'', ''viable_candidates'', ''assignments'', ''truncated'', ''review'']
       ''topology evidence has an invalid shape'' v) (\<lambda>d.
     bind_res (ev_choice [''none'', ''unique'', ''ambiguous''] ''topology evidence has an invalid status'' (dget d ''status'')) (\<lambda>status.
     bind_res (ev_text (dget d ''reason'')) (\<lambda>_.
     bind_res (ev_sequence (dget d ''names'')) (\<lambda>vs.
     bind_res (map_res ev_text vs) (\<lambda>names.
     bind_res (check_candidates groups (dget d ''contract_candidates'')) (\<lambda>contract.
     bind_res (check_candidates groups (dget d ''viable_candidates'')) (\<lambda>viable.
     bind_res (check_candidates groups (dget d ''assignments'')) (\<lambda>assignments.
     if length contract \<noteq> length names \<or> length viable \<noteq> length names
     then Inl (ValueError ''topology candidate lists must align with names'')
     else (case dget d ''truncated'' of
         PBool truncated \<Rightarrow>
           if list_ex (\<lambda>a. length a \<noteq> length names) assignments then Inl (ValueError ''topology assignments must align with names'')
           else if status \<noteq> expected_status assignments truncated
           then Inl (ValueError ''topology status does not match its assignments'')
           else if dget d ''review'' = PNone then Inr ()
           else bind_res (check_topology_review groups (length names) status assignments (dget d ''review'')) (\<lambda>_. Inr ())
       | _ \<Rightarrow> Inl (ValueError ''topology truncated must be boolean''))))))))))"

section \<open>The projection\<close>

definition evidence_keys :: "string list" where
  "evidence_keys = [''format'', ''version'', ''artifact'', ''sources'', ''groups'', ''group_coverage'', ''exact_relations'', ''graph_io'', ''topology'']"

definition check_identity :: "pyval \<Rightarrow> unit res" where
  "check_identity v =
     bind_res (ev_mapping [''id'', ''size'', ''sha256''] ''evidence artifact identity is invalid'' v) (\<lambda>d.
     bind_res (ev_text (dget d ''id'')) (\<lambda>_.
     bind_res (ev_integer 1 (dget d ''size'')) (\<lambda>_.
     bind_res (ev_text (dget d ''sha256'')) (\<lambda>sha.
     if length sha \<noteq> 64 \<or> \<not> list_all (\<lambda>c. c \<in> set ''0123456789abcdef'') sha
     then Inl (ValueError ''evidence artifact sha256 must be lowercase hexadecimal'') else Inr ()))))"

definition validate_evidence :: "pyval \<Rightarrow> (string \<times> pyval) list res" where
  "validate_evidence v =
     bind_res (ev_mapping evidence_keys ''npunlock visualization evidence has an invalid top-level shape'' v) (\<lambda>d.
     if dget d ''format'' \<noteq> PStr evidence_format \<or> \<not> py_eq (dget d ''version'') (PInt 1)
     then Inl (ValueError ''unsupported npunlock visualization evidence format or version'')
     else
       bind_res (check_identity (dget d ''artifact'')) (\<lambda>_.
       if \<not> py_eq (dget d ''sources'') (PDict source_contracts) then Inl (ValueError ''evidence source contracts are unsupported or incomplete'')
       else
         bind_res (check_act_groups (dget d ''groups'')) (\<lambda>groups.
         bind_res (ev_sequence (dget d ''exact_relations'')) (\<lambda>relations.
         bind_res (map_res check_relation relations) (\<lambda>endpoints.
         bind_res (ev_sequence (dget d ''graph_io'')) (\<lambda>symbols.
         bind_res (fold_res check_symbol symbols []) (\<lambda>io.
         bind_res (map_res (check_known (fst ` set groups) io) (concat endpoints)) (\<lambda>_.
         bind_res (ev_sequence (dget d ''group_coverage'')) (\<lambda>coverage.
         bind_res (fold_res (check_coverage groups) coverage []) (\<lambda>covered.
         if set covered \<noteq> fst ` set groups then Inl (ValueError ''group coverage must contain every and only declared ACT group'')
         else bind_res (check_topology (fst ` set groups) (dget d ''topology'')) (\<lambda>_. Inr d)))))))))))"

end
