(* ===== verification/Elf_Graph.thy ===== *)
theory Elf_Graph
  imports Graph_Builder
begin

text \<open>
  The part of an artifact graph that every ELF file has (\<open>viz/npunlock.py\<close>): the image, its header and section table, a node
  for every section, symbol and relocation, and the links between them. Sections and symbols are looked up by their
  numbers, as the dictionaries of the code do.
\<close>

section \<open>Sections\<close>

definition section_category :: "viz_schemas \<Rightarrow> string \<Rightarrow> pyval res" where
  "section_category vs name =
     bind_res (match_rule (vs_npu vs) ''section_categories'' name []) (\<lambda>category.
     if truthy category then Inr category else match_rule (vs_elf vs) ''section_categories'' name ''unknown'')"

definition section_description :: "viz_schemas \<Rightarrow> elf_section \<Rightarrow> pyval res" where
  "section_description vs s =
     bind_res (lookup (vs_npu vs) ''section_descriptions'' (es_name s) PNone) (\<lambda>d1.
     bind_res (if d1 = PNone then lookup (vs_elf vs) ''section_descriptions'' (es_name s) PNone else Inr d1) (\<lambda>d2.
     bind_res (if d2 = PNone then lookup (vs_elf vs) ''section_type_descriptions'' (int_str (es_type s)) PNone else Inr d2) (\<lambda>d3.
     if truthy d3 then Inr d3 else lookup (vs_elf vs) ''defaults'' ''section_description'' PNone)))"

definition header_span :: "artifact \<Rightarrow> string \<Rightarrow> elf_file \<Rightarrow> elf_section \<Rightarrow> span res" where
  "header_span a prefix elf s =
     named_span a (es_header_offset s) (es_header_offset s + ef_section_entry_size elf)
       (prefix @ ''.section.'' @ nat_str (es_index s) @ ''.header'') ''section-header entry'' ''record''"

definition payload_span :: "artifact \<Rightarrow> string \<Rightarrow> elf_section \<Rightarrow> span res" where
  "payload_span a prefix s =
     named_span a (es_offset s) (es_offset s + es_size s)
       (prefix @ ''.section.'' @ nat_str (es_index s) @ ''.payload'') ''section contents'' ''payload''"

definition section_spans :: "artifact \<Rightarrow> string \<Rightarrow> elf_file \<Rightarrow> elf_section \<Rightarrow> span list res" where
  "section_spans a prefix elf s =
     bind_res (header_span a prefix elf s) (\<lambda>h.
     if es_type s \<noteq> 8 \<and> es_size s \<noteq> 0 then bind_res (payload_span a prefix s) (\<lambda>p. Inr [h, p]) else Inr [h])"

text \<open>The first section, empty and without a name\<close>

definition null_section :: "elf_section \<Rightarrow> bool" where
  "null_section s \<longleftrightarrow> es_index s = 0 \<and> es_name s = [] \<and> es_type s = 0 \<and> es_size s = 0"

definition sentinel_properties :: "string \<Rightarrow> pyval" where
  "sentinel_properties scope =
     PDict [(''confidence'', PStr ''confirmed''), (''relevance'', PStr ''irrelevant''), (''relevance_scope'', PStr scope)]"

definition section_metadata :: "viz_schemas \<Rightarrow> elf_section \<Rightarrow> (string \<times> pyval) list res" where
  "section_metadata vs s =
     bind_res (node_metadata (vs_elf vs) ''section'') (\<lambda>m.
     bind_res (section_category vs (es_name s)) (\<lambda>category.
     bind_res (section_description vs s) (\<lambda>description.
     Inr (dict_set ''description''
       (if null_section s then PStr ''ELF null-section sentinel. It has no payload or target in the supported interpretation.'' else description)
       (dict_set ''category'' category m)))))"

type_synonym section_nodes = "(int \<times> gnode) list"

text \<open>One turn of the loop over the sections.\<close>

definition add_section ::
  "viz_schemas \<Rightarrow> artifact \<Rightarrow> bytes \<Rightarrow> string \<Rightarrow> elf_file \<Rightarrow> gnode \<Rightarrow> elf_section \<Rightarrow> section_nodes \<Rightarrow> section_nodes act" where
  "add_section vs a data prefix elf table s nodes =
     act_bind (act_lift (section_spans a prefix elf s)) (\<lambda>spans.
     act_bind (act_lift (decode_record_fields (vs_elf vs) (''elf'' @ int_str (ef_class elf * 32) @ ''_section_header'') a data
       (PInt (es_header_offset s)) [(''index'', PInt (int (es_index s)))])) (\<lambda>fs.
     act_bind (act_lift (section_metadata vs s)) (\<lambda>m.
     act_bind (act_lift (if es_address s \<noteq> 0 then virtual_address ''section virtual'' (es_address s) else Inr [])) (\<lambda>ads.
     act_bind (act_node (entity_args (prefix @ ''.section.'' @ nat_str (es_index s))
         (if es_name s \<noteq> [] then es_name s else ''section '' @ nat_str (es_index s) @ '' (null)'') m
         \<lparr>na_spans := spans, na_fields := ready_fields fs, na_addresses := ads,
          na_properties := (if null_section s then sentinel_properties ''ELF null-section sentinel; extended numbering is unsupported'' else PDict []),
          na_parent := Some (NodeRef table)\<rparr>)) (\<lambda>n.
     act_return (dict_set (int (es_index s)) n nodes))))))"

definition image_properties :: "elf_file \<Rightarrow> bytes \<Rightarrow> pyval" where
  "image_properties elf data =
     PDict [(''format'', PStr (''ELF'' @ int_str (ef_class elf * 32))), (''byte_order'', PStr ''little-endian''),
       (''file_size'', PInt (int (length data))), (''object_type'', PInt (ef_type elf)), (''machine'', PInt (ef_machine elf)),
       (''section_count'', PInt (int (length (ef_sections elf))))]"

definition add_elf_nodes :: "viz_schemas \<Rightarrow> artifact \<Rightarrow> bytes \<Rightarrow> string \<Rightarrow> (elf_file \<times> section_nodes) act" where
  "add_elf_nodes vs a data prefix =
     act_bind (act_lift (parse_elf data)) (\<lambda>elf.
     act_bind (act_lift (named_span a 0 (int (length data)) (prefix @ ''.elf.complete'') ''complete artifact'' ''container'')) (\<lambda>complete.
     act_bind (act_lift (node_metadata (vs_elf vs) ''elf_image'')) (\<lambda>m.
     act_bind (act_node (entity_args (prefix @ ''.elf'') (af_name a @ dot @ ''ELF'' @ int_str (ef_class elf * 32)) m
       \<lparr>na_spans := [complete], na_properties := image_properties elf data, na_contributes := PBool False\<rparr>)) (\<lambda>image.
     act_bind (act_lift (named_span a 0 (ef_header_size elf) (prefix @ ''.header.bytes'') ''ELF header'' ''record'')) (\<lambda>header.
     act_bind (act_lift (decode_record_fields (vs_elf vs) (''elf'' @ int_str (ef_class elf * 32) @ ''_header'') a data (PInt 0) [])) (\<lambda>fs.
     act_bind (act_lift (virtual_address ''entry'' (ef_entry elf))) (\<lambda>ads.
     act_bind (act_lift (node_metadata (vs_elf vs) ''elf_header'')) (\<lambda>m.
     act_bind (act_node (entity_args (prefix @ ''.header'') ''ELF header'' m
       \<lparr>na_spans := [header], na_fields := ready_fields fs, na_addresses := ads, na_parent := Some (NodeRef image)\<rparr>)) (\<lambda>_.
     act_bind (act_lift (named_span a (ef_section_offset elf)
       (ef_section_offset elf + int (length (ef_sections elf)) * ef_section_entry_size elf)
       (prefix @ ''.sections.table'') ''section-header table'' ''table'')) (\<lambda>whole.
     act_bind (act_lift (node_metadata (vs_elf vs) ''section_table'')) (\<lambda>m.
     act_bind (act_node (entity_args (prefix @ ''.sections'') (''Section table'' @ dot @ nat_str (length (ef_sections elf)) @ '' entries'') m
       \<lparr>na_spans := [whole], na_parent := Some (NodeRef image)\<rparr>)) (\<lambda>table.
     act_bind (act_fold (add_section vs a data prefix elf table) (ef_sections elf) []) (\<lambda>nodes.
     act_return (elf, nodes))))))))))))))"

section \<open>Symbols\<close>

type_synonym symbol_nodes = "((int \<times> int) \<times> gnode) list"

text \<open>The symbols that some relocation uses.\<close>

definition section_references :: "bytes \<Rightarrow> elf_file \<Rightarrow> elf_section \<Rightarrow> (int \<times> int) list res" where
  "section_references data elf s =
     bind_res (relocations data elf s) (\<lambda>rs. Inr (map (\<lambda>(_, _, sy, _, _). (es_link s, sy)) rs))"

definition referenced_symbols :: "bytes \<Rightarrow> elf_file \<Rightarrow> (int \<times> int) list res" where
  "referenced_symbols data elf = bind_res (map_res (section_references data elf) (ef_sections elf)) (\<lambda>rs. Inr (concat rs))"

definition unused_null :: "(int \<times> int) list \<Rightarrow> int \<times> int \<Rightarrow> (string \<times> gfield) list \<Rightarrow> bool" where
  "unused_null referenced key fs \<longleftrightarrow>
     snd key = 0 \<and> key \<notin> set referenced \<and> list_all (\<lambda>(_, f). py_eq (fd_value f) (PInt 0)) fs"

definition add_symbol ::
  "viz_schemas \<Rightarrow> artifact \<Rightarrow> bytes \<Rightarrow> elf_file \<Rightarrow> section_nodes \<Rightarrow> string \<Rightarrow> (int \<times> int) list \<Rightarrow> (int \<times> int) \<times> string \<times> int \<times> int \<Rightarrow>
     symbol_nodes \<Rightarrow> symbol_nodes act" where
  "add_symbol vs a data elf nodes prefix referenced = (\<lambda>(key, name, section_index, v) result.
     act_bind (act_lift (from_option IndexError (elf_section_at elf (fst key)))) (\<lambda>table.
     let offset = es_offset table + snd key * es_entry_size table in
     act_bind (act_lift (decode_record_fields (vs_elf vs) (''elf'' @ int_str (ef_class elf * 32) @ ''_symbol'') a data (PInt offset) [])) (\<lambda>fs.
     act_bind (act_lift (node_metadata (vs_elf vs) ''symbol'')) (\<lambda>m.
     let unused = unused_null referenced key fs;
         m' = (if unused then dict_set ''description'' (PStr ''All-zero ELF null-symbol sentinel. No relocation in this artifact references it.'') m else m) in
     act_bind (act_lift (plain_span a offset (offset + es_entry_size table))) (\<lambda>spans.
     act_bind (act_lift (if v \<noteq> 0 then virtual_address ''symbol value'' v else Inr [])) (\<lambda>ads.
     act_bind (act_lift (entry nodes (fst key))) (\<lambda>parent.
     act_bind (act_node (entity_args (prefix @ ''.symbol.'' @ int_str (fst key) @ ''.'' @ int_str (snd key))
         (if name \<noteq> [] then name else ''symbol '' @ int_str (snd key) @ '' (null)'') m'
         \<lparr>na_spans := spans, na_fields := ready_fields fs, na_addresses := ads,
          na_properties := (if unused then sentinel_properties ''unreferenced all-zero ELF null-symbol sentinel'' else PDict []),
          na_parent := Some (NodeRef parent)\<rparr>)) (\<lambda>n.
     act_bind
       (if section_index \<noteq> 0 then
          (case map_of nodes section_index of
             None \<Rightarrow> act_return ()
           | Some s \<Rightarrow> act_link vs (NodeRef n) (NodeRef s) ''defined_in_section'' PNone)
        else act_return ()) (\<lambda>_.
     act_return (dict_set key n result))))))))))"

definition annotate_symbols ::
  "viz_schemas \<Rightarrow> artifact \<Rightarrow> bytes \<Rightarrow> elf_file \<Rightarrow> section_nodes \<Rightarrow> string \<Rightarrow> symbol_nodes act" where
  "annotate_symbols vs a data elf nodes prefix =
     act_bind (act_lift (elf_symbols data elf)) (\<lambda>symbols.
     act_bind (act_lift (referenced_symbols data elf)) (\<lambda>referenced.
     act_fold (add_symbol vs a data elf nodes prefix referenced) symbols []))"

section \<open>Relocations\<close>

type_synonym relocation_nodes = "((nat \<times> nat) \<times> gnode) list"

text \<open>A link to a node if there is one\<close>

definition link_if :: "viz_schemas \<Rightarrow> gnode \<Rightarrow> gnode option \<Rightarrow> string \<Rightarrow> unit act" where
  "link_if vs n target kind =
     (case target of None \<Rightarrow> act_return () | Some t \<Rightarrow> act_link vs (NodeRef n) (NodeRef t) kind PNone)"

definition add_relocation ::
  "viz_schemas \<Rightarrow> artifact \<Rightarrow> bytes \<Rightarrow> section_nodes \<Rightarrow> symbol_nodes \<Rightarrow> string \<Rightarrow> symbol_table \<Rightarrow> elf_section \<Rightarrow> relocation \<Rightarrow>
     relocation_nodes \<Rightarrow> relocation_nodes act" where
  "add_relocation vs a data nodes symbol_nodes prefix symbols s = (\<lambda>(index, _, sy, _, _) result.
     let offset = es_offset s + int index * 24; found = map_of symbols (es_link s, sy);
         name = (case found of Some (n, _, _) \<Rightarrow> n | None \<Rightarrow> ''symbol '' @ int_str sy) in
     act_bind (act_lift (plain_span a offset (offset + 24))) (\<lambda>spans.
     act_bind (act_lift (decode_record_fields (vs_npu vs) ''elf64_rela'' a data (PInt offset) [])) (\<lambda>fs.
     act_bind (act_lift (entry nodes (int (es_index s)))) (\<lambda>parent.
     act_bind (act_lift (node_metadata (vs_npu vs) ''rela'')) (\<lambda>m.
     act_bind (act_node (entity_args (prefix @ ''.relocation.'' @ nat_str (es_index s) @ ''.'' @ nat_str index)
         (es_name s @ ''['' @ nat_str index @ '']'' @ dot @ name) m
         \<lparr>na_spans := spans, na_fields := ready_fields fs, na_properties := PDict [(''symbol'', PStr name)],
          na_parent := Some (NodeRef parent)\<rparr>)) (\<lambda>n.
     act_bind (link_if vs n (map_of nodes (es_info s)) ''patches_section'') (\<lambda>_.
     act_bind (link_if vs n (map_of symbol_nodes (es_link s, sy)) ''uses_symbol'') (\<lambda>_.
     act_bind (link_if vs n (case found of Some (_, i, _) \<Rightarrow> if i \<noteq> 0 then map_of nodes i else None | None \<Rightarrow> None) ''references_section'') (\<lambda>_.
     act_return (dict_set (es_index s, index) n result))))))))))"

definition add_section_relocations ::
  "viz_schemas \<Rightarrow> artifact \<Rightarrow> bytes \<Rightarrow> elf_file \<Rightarrow> section_nodes \<Rightarrow> symbol_nodes \<Rightarrow> string \<Rightarrow> symbol_table \<Rightarrow> elf_section \<Rightarrow>
     relocation_nodes \<Rightarrow> relocation_nodes act" where
  "add_section_relocations vs a data elf nodes symbol_nodes prefix symbols s result =
     act_bind (act_lift (relocations data elf s)) (\<lambda>rs.
     act_fold (add_relocation vs a data nodes symbol_nodes prefix symbols s) rs result)"

definition annotate_relocations ::
  "viz_schemas \<Rightarrow> artifact \<Rightarrow> bytes \<Rightarrow> elf_file \<Rightarrow> section_nodes \<Rightarrow> symbol_nodes \<Rightarrow> string \<Rightarrow> relocation_nodes act" where
  "annotate_relocations vs a data elf nodes symbol_nodes prefix =
     act_bind (act_lift (elf_symbols data elf)) (\<lambda>symbols.
     act_fold (add_section_relocations vs a data elf nodes symbol_nodes prefix symbols) (ef_sections elf) [])"

section \<open>What they keep\<close>

lemma section_spans_wf: "section_spans a prefix elf s = Inr ss \<Longrightarrow> list_all wf_span ss"
  by (auto simp: section_spans_def header_span_def payload_span_def bind_res_eq_Inr dest: named_span_wf split: if_splits)

lemma given_address_good: "(if b then virtual_address name v else Inr []) = Inr ads \<Longrightarrow> good_addresses ads"
  by (auto simp: virtual_address_good split: if_splits)

lemmas made = section_spans_wf given_address_good virtual_address_good named_span_wf plain_span_wf decoded_fields_good

lemma keeps_link_if [keeps_rules]: "V = (\<lambda>_. True) \<Longrightarrow> keeps fs (link_if vs n target kind) V"
  by (auto simp: link_if_def intro!: keeps_rules)

lemma keeps_add_section: "keeps fs (add_section vs a data prefix elf table s nodes) (\<lambda>_. True)"
  unfolding add_section_def by (intro keeps_lift_bind keeps_rules) (auto dest!: made)

lemma image_hangs:
  "prefix @ ''.elf'' \<in> set image_ids \<Longrightarrow>
   hangs (entity_args (prefix @ ''.elf'') label m\<lparr>na_spans := ss, na_properties := v, na_contributes := c\<rparr>)"
  by (simp add: hangs_def entity_args_def)

lemma keeps_add_elf_nodes [keeps_rules]:
  "prefix @ ''.elf'' \<in> set image_ids \<Longrightarrow> V = (\<lambda>_. True) \<Longrightarrow> keeps fs (add_elf_nodes vs a data prefix) V"
  unfolding add_elf_nodes_def by (hypsubst, intro image_hangs keeps_lift_bind keeps_add_section keeps_rules) (auto dest!: made)

lemma keeps_add_symbol: "keeps fs (add_symbol vs a data elf nodes prefix referenced sy result) (\<lambda>_. True)"
  unfolding add_symbol_def split_def Let_def by (intro keeps_lift_bind keeps_rules) (auto dest!: made)

lemma keeps_annotate_symbols [keeps_rules]: "V = (\<lambda>_. True) \<Longrightarrow> keeps fs (annotate_symbols vs a data elf nodes prefix) V"
  unfolding annotate_symbols_def by (hypsubst, intro keeps_lift_bind keeps_fold_any keeps_add_symbol)

lemma keeps_add_relocation: "keeps fs (add_relocation vs a data nodes symbol_nodes prefix symbols s r result) (\<lambda>_. True)"
  unfolding add_relocation_def split_def Let_def by (intro keeps_lift_bind keeps_rules) (auto dest!: made)

lemma keeps_annotate_relocations [keeps_rules]: "V = (\<lambda>_. True) \<Longrightarrow> keeps fs (annotate_relocations vs a data elf nodes symbol_nodes prefix) V"
  unfolding annotate_relocations_def add_section_relocations_def
  by (hypsubst, intro keeps_lift_bind keeps_fold_any keeps_add_relocation)

end
