(* ===== verification/Core_Evidence.thy ===== *)
theory Core_Evidence
  imports Viz_Evidence Elf_Graph
begin

text \<open>
  The nodes and links that validated evidence adds to the graph of an NPU blob (\<open>viz/npunlock.py\<close>,
  \<open>_attach_core_evidence\<close>). Numbers and texts of the evidence are read as its validator reads them.
\<close>

section \<open>Nodes\<close>

definition act_lookup :: "string \<Rightarrow> gnode option act" where
  "act_lookup nid = act_bind act_graph (\<lambda>g. act_return (map_of (vg_nodes g) nid))"

definition evidence_scope :: "artifact \<Rightarrow> string" where
  "evidence_scope a = ''exact native artifact sha256:'' @ af_sha256 a"

definition evidence_node :: "viz_schemas \<Rightarrow> artifact \<Rightarrow> string \<Rightarrow> string \<Rightarrow> string \<Rightarrow> (string \<times> pyval) list \<Rightarrow> gnode \<Rightarrow> string \<Rightarrow> gnode act" where
  "evidence_node vs a name label descriptor properties parent confidence =
     act_bind (act_lift (node_metadata (vs_npu vs) descriptor)) (\<lambda>m.
     act_node (entity_args (af_id a @ ''.evidence'' @ name) label m
       \<lparr>na_properties := PDict properties, na_parent := Some (NodeRef parent),
        na_confidence := PStr confidence, na_scope := PStr (evidence_scope a)\<rparr>))"

definition chosen_items :: "string list \<Rightarrow> pyval \<Rightarrow> (string \<times> pyval) list res" where
  "chosen_items names v = map_res (\<lambda>k. bind_res (item v k) (\<lambda>x. Inr (k, x))) names"

text \<open>A link to the numbered node of a kind, where there is one.\<close>

definition link_existing :: "viz_schemas \<Rightarrow> gnode \<Rightarrow> string \<Rightarrow> string \<Rightarrow> unit act" where
  "link_existing vs n nid kind = act_bind (act_lookup nid) (\<lambda>target. link_if vs n target kind)"

section \<open>Groups\<close>

type_synonym group_nodes = "(int \<times> gnode) list"

definition add_coverage :: "pyval \<Rightarrow> (int \<times> pyval) list \<Rightarrow> (int \<times> pyval) list res" where
  "add_coverage v d = bind_res (bind_res (item v ''group_index'') (ev_integer 0)) (\<lambda>i. Inr (dict_set i v d))"

definition group_properties :: "(int \<times> pyval) list \<Rightarrow> int \<Rightarrow> pyval \<Rightarrow> (string \<times> pyval) list res" where
  "group_properties covered index v =
     bind_res (entry covered index) (\<lambda>coverage.
     bind_res (chosen_items [''invocation_indices'', ''range_indices'', ''input_count'', ''input_dtypes'', ''output_dtype'',
       ''input_element_counts'', ''output_element_count'', ''scalar_input_indices''] v) (\<lambda>d.
     bind_res (item coverage ''kinds'') (\<lambda>kinds.
     bind_res (item coverage ''properties'') (\<lambda>details.
     Inr (d @ [(''coverage'', kinds), (''coverage_details'', details)])))))"

definition add_group ::
  "viz_schemas \<Rightarrow> artifact \<Rightarrow> gnode \<Rightarrow> (int \<times> pyval) list \<Rightarrow> pyval \<Rightarrow> group_nodes \<Rightarrow> group_nodes act" where
  "add_group vs a parent covered v groups =
     act_bind (act_lift (bind_res (item v ''index'') (ev_integer 0))) (\<lambda>index.
     act_bind (act_lift (group_properties covered index v)) (\<lambda>properties.
     act_bind (evidence_node vs a (''.act-group.'' @ int_str index) (''validated ACT group '' @ int_str index) ''act_group'' properties parent ''confirmed'') (\<lambda>n.
     act_bind (act_lift (bind_res (item v ''invocation_indices'') ev_indices)) (\<lambda>invocations.
     act_bind (act_fold (\<lambda>i _. link_existing vs n (af_id a @ ''.invocation.'' @ int_str i) ''contains_invocation'') invocations ()) (\<lambda>_.
     act_bind (act_lift (bind_res (item v ''range_indices'') ev_indices)) (\<lambda>ranges.
     act_bind (act_fold (\<lambda>i _. link_existing vs n (af_id a @ ''.range.'' @ int_str i) ''contains_range'') ranges ()) (\<lambda>_.
     act_return (dict_set index n groups))))))))"

section \<open>Graph inputs and outputs\<close>

type_synonym endpoint_nodes = "(endpoint \<times> gnode) list"

definition add_io :: "viz_schemas \<Rightarrow> artifact \<Rightarrow> gnode \<Rightarrow> pyval \<Rightarrow> endpoint_nodes \<Rightarrow> endpoint_nodes act" where
  "add_io vs a parent v endpoints =
     act_bind (act_lift (bind_res (item v ''kind'') ev_text)) (\<lambda>kind.
     act_bind (act_lift (bind_res (item v ''symbol_table_index'') (ev_integer 0))) (\<lambda>table_index.
     act_bind (act_lift (bind_res (item v ''symbol_index'') (ev_integer 0))) (\<lambda>symbol_index.
     act_bind (act_lift (bind_res (item v ''name'') ev_text)) (\<lambda>name.
     act_bind (act_lift (item v ''size_bytes'')) (\<lambda>size_bytes.
     act_bind (evidence_node vs a (''.graph-'' @ kind @ ''.'' @ int_str table_index @ ''.'' @ int_str symbol_index)
       (''graph '' @ kind @ dot @ name) (''graph_'' @ kind)
       [(''name'', PStr name), (''size_bytes'', size_bytes), (''symbol_table_index'', PInt table_index), (''symbol_index'', PInt symbol_index)]
       parent ''confirmed'') (\<lambda>n.
     act_bind (link_existing vs n (af_id a @ ''.symbol.'' @ int_str table_index @ ''.'' @ int_str symbol_index) ''represented_by_symbol'') (\<lambda>_.
     act_return (dict_set (symbol_endpoint kind table_index symbol_index) n endpoints))))))))"

section \<open>Relations\<close>

text \<open>\<open>endpoint_node\<close>: the node of an endpoint, which is made if it is a DPU invariant without a record.\<close>

definition endpoint_node :: "viz_schemas \<Rightarrow> artifact \<Rightarrow> gnode \<Rightarrow> pyval \<Rightarrow> endpoint_nodes \<Rightarrow> (gnode \<times> endpoint_nodes) act" where
  "endpoint_node vs a parent v endpoints =
     act_bind (act_lift (check_endpoint v)) (\<lambda>key.
     case map_of endpoints key of
       Some n \<Rightarrow> act_return (n, endpoints)
     | None \<Rightarrow>
         if fst key \<noteq> ''dpu_invariant'' then act_lift (Inl (ValueError ''core evidence endpoint has no projected entity''))
         else
           act_bind (act_lookup (af_id a @ ''.dpu-invariant.'' @ int_str (fst (snd key)))) (\<lambda>physical.
           case physical of
             Some n \<Rightarrow> act_return (n, dict_set key n endpoints)
           | None \<Rightarrow>
               act_bind (evidence_node vs a (''.dpu-invariant.'' @ int_str (fst (snd key)))
                 (''DPU invariant '' @ int_str (fst (snd key)) @ '' endpoint'') ''dpu_endpoint''
                 [(''invariant_index'', PInt (fst (snd key)))] parent ''unresolved'') (\<lambda>n.
               act_return (n, dict_set key n endpoints))))"

definition add_relation :: "viz_schemas \<Rightarrow> artifact \<Rightarrow> gnode \<Rightarrow> pyval \<Rightarrow> pyval \<Rightarrow> endpoint_nodes \<Rightarrow> endpoint_nodes act" where
  "add_relation vs a parent sources v endpoints =
     act_bind (act_lift (item v ''source'')) (\<lambda>s.
     act_bind (endpoint_node vs a parent s endpoints) (\<lambda>(source, endpoints1).
     act_bind (act_lift (item v ''destination'')) (\<lambda>d.
     act_bind (endpoint_node vs a parent d endpoints1) (\<lambda>(destination, endpoints2).
     act_bind (act_lift (bind_res (item v ''kind'') ev_text)) (\<lambda>kind.
     act_bind (act_lift (item v ''evidence_count'')) (\<lambda>count.
     act_bind (act_lift (item sources ''exact_relations'')) (\<lambda>contract.
     act_bind (act_link vs (NodeRef source) (NodeRef destination) kind
       (PDict [(''evidence_count'', count), (''source_contract'', contract)])) (\<lambda>_.
     act_return endpoints2))))))))"

section \<open>The topology proposal\<close>

text \<open>The group a name is bound to: the reviewed one, else that of the only assignment.\<close>

definition bound_group :: "int list option \<Rightarrow> int list option \<Rightarrow> nat \<Rightarrow> int option res" where
  "bound_group reviewed unique index =
     (case reviewed of
        Some gs \<Rightarrow> bind_res (from_option IndexError (py_nth gs (int index))) (\<lambda>i. Inr (Some i))
      | None \<Rightarrow> (case unique of
            Some gs \<Rightarrow> bind_res (from_option IndexError (py_nth gs (int index))) (\<lambda>i. Inr (Some i))
          | None \<Rightarrow> Inr None))"

definition binding_confidence :: "'a option \<Rightarrow> 'b option \<Rightarrow> string" where
  "binding_confidence reviewed unique =
     (if reviewed \<noteq> None then ''confirmed'' else if unique \<noteq> None then ''strong-inference'' else ''unresolved'')"

text \<open>A review as the loop uses it: its group indices, and the coverage kinds as values.\<close>

definition read_review :: "pyval \<Rightarrow> (int list \<times> pyval) option res" where
  "read_review v =
     (if v = PNone then Inr None
      else bind_res (bind_res (item v ''group_indices'') ev_indices) (\<lambda>gs.
        bind_res (item v ''coverage_kinds'') (\<lambda>kinds. Inr (Some (gs, kinds)))))"

definition binding_properties :: "pyval list \<Rightarrow> pyval list \<Rightarrow> (int list \<times> pyval) option \<Rightarrow> nat \<Rightarrow> (string \<times> pyval) list res" where
  "binding_properties contract viable review index =
     bind_res (from_option IndexError (py_nth contract (int index))) (\<lambda>c.
     bind_res (from_option IndexError (py_nth viable (int index))) (\<lambda>v.
     bind_res (case review of None \<Rightarrow> Inr [] | Some (_, kinds) \<Rightarrow> bind_res (py_index kinds index) (\<lambda>k. Inr [(''reviewed_coverage_kind'', k)])) (\<lambda>reviewed.
     Inr ([(''contract_candidates'', c), (''viable_candidates'', v)] @ reviewed))))"

definition add_binding ::
  "viz_schemas \<Rightarrow> artifact \<Rightarrow> gnode \<Rightarrow> group_nodes \<Rightarrow> pyval list \<Rightarrow> pyval list \<Rightarrow> (int list \<times> pyval) option \<Rightarrow> int list option \<Rightarrow>
     nat \<times> pyval \<Rightarrow> unit \<Rightarrow> unit act" where
  "add_binding vs a proposal groups contract viable review unique = (\<lambda>(index, name) _.
     act_bind (act_lift (binding_properties contract viable review index)) (\<lambda>properties.
     act_bind (act_lift (ev_text name)) (\<lambda>label.
     act_bind (evidence_node vs a (''.topology.binding.'' @ nat_str index) label ''topology_binding'' properties proposal
       (binding_confidence review unique)) (\<lambda>n.
     act_bind (act_lift (bound_group (map_option fst review) unique index)) (\<lambda>group_index.
     case group_index of
       None \<Rightarrow> act_return ()
     | Some i \<Rightarrow>
         act_bind (act_lift (entry groups i)) (\<lambda>group.
         act_link vs (NodeRef n) (NodeRef group) (if review \<noteq> None then ''reviewed_group_assignment'' else ''proposes_group'')
           (PDict [(''diagnostic_only'', PBool True)])))))))"

definition add_topology :: "viz_schemas \<Rightarrow> artifact \<Rightarrow> gnode \<Rightarrow> pyval \<Rightarrow> group_nodes \<Rightarrow> pyval \<Rightarrow> unit act" where
  "add_topology vs a parent sources groups v =
     act_bind (act_lift (bind_res (item v ''status'') ev_text)) (\<lambda>status.
     act_bind (act_lift (chosen_items [''reason'', ''assignments'', ''truncated''] v)) (\<lambda>d.
     act_bind (act_lift (item sources ''topology'')) (\<lambda>contract.
     act_bind (evidence_node vs a ''.topology'' (''native topology'' @ dot @ status) ''topology_proposal''
       ((''status'', PStr status) # d @ [(''source_contract'', contract)]) parent
       (if status = ''unique'' then ''strong-inference'' else ''unresolved'')) (\<lambda>proposal.
     act_bind (act_lift (bind_res (item v ''review'') read_review)) (\<lambda>review.
     act_bind (act_lift (if status = ''unique''
       then bind_res (item v ''assignments'') (\<lambda>x. bind_res (py_index x 0) (\<lambda>y. bind_res (ev_indices y) (\<lambda>gs. Inr (Some gs))))
       else Inr None)) (\<lambda>unique.
     act_bind (act_lift (bind_res (item v ''names'') ev_sequence)) (\<lambda>names.
     act_bind (act_lift (bind_res (item v ''contract_candidates'') ev_sequence)) (\<lambda>contracts.
     act_bind (act_lift (bind_res (item v ''viable_candidates'') ev_sequence)) (\<lambda>viable.
     act_fold (add_binding vs a proposal groups contracts viable review unique) (enum names) ())))))))))"

section \<open>The evidence of a blob\<close>

definition check_subject :: "artifact \<Rightarrow> pyval \<Rightarrow> unit res" where
  "check_subject a identity =
     bind_res (item identity ''id'') (\<lambda>i.
     if i \<noteq> PStr (af_id a) then Inl (ValueError ''core evidence targets another artifact'')
     else
       bind_res (item identity ''size'') (\<lambda>n.
       bind_res (item identity ''sha256'') (\<lambda>sha.
       if n \<noteq> PInt (af_size a) \<or> sha \<noteq> PStr (af_sha256 a)
       then Inl (ValueError ''core evidence does not match the native artifact size and SHA-256'') else Inr ())))"

definition evidence_properties :: "artifact \<Rightarrow> (string \<times> pyval) list \<Rightarrow> (string \<times> pyval) list" where
  "evidence_properties a d =
     [(''projection_format'', dget d ''format''), (''projection_version'', dget d ''version''),
      (''artifact_sha256'', PStr (af_sha256 a)), (''source_contracts'', dget d ''sources''), (''diagnostic_only'', PBool True)]"

definition attach_core_evidence :: "viz_schemas \<Rightarrow> artifact \<Rightarrow> pyval \<Rightarrow> unit act" where
  "attach_core_evidence vs a evidence =
     act_bind (act_lift (validate_evidence evidence)) (\<lambda>d.
     act_bind (act_lift (check_subject a (dget d ''artifact''))) (\<lambda>_.
     act_bind act_graph (\<lambda>g.
     act_bind (act_lift (entry (vg_nodes g) (af_id a @ ''.elf''))) (\<lambda>image.
     act_bind (evidence_node vs a [] ''validated core evidence'' ''core_evidence'' (evidence_properties a d) image ''confirmed'') (\<lambda>parent.
     act_bind (act_lift (bind_res (ev_sequence (dget d ''group_coverage'')) (\<lambda>cs. fold_res add_coverage cs []))) (\<lambda>covered.
     act_bind (act_lift (ev_sequence (dget d ''groups''))) (\<lambda>gs.
     act_bind (act_fold (add_group vs a parent covered) gs []) (\<lambda>groups.
     act_bind (act_lift (ev_sequence (dget d ''graph_io''))) (\<lambda>symbols.
     act_bind (act_fold (add_io vs a parent) symbols (map (\<lambda>(i, n). ((''act_group'', i, None), n)) groups)) (\<lambda>endpoints.
     act_bind (act_lift (ev_sequence (dget d ''exact_relations''))) (\<lambda>relations.
     act_bind (act_fold (add_relation vs a parent (dget d ''sources'')) relations endpoints) (\<lambda>_.
     add_topology vs a parent (dget d ''sources'') groups (dget d ''topology'')))))))))))))"

section \<open>What they keep\<close>

lemma keeps_lookup [keeps_rules]: "V = (\<lambda>_. True) \<Longrightarrow> keeps fs (act_lookup nid) V"
  unfolding act_lookup_def by (auto intro!: keeps_rules)

lemma keeps_evidence_node [keeps_rules]:
  "V = (\<lambda>_. True) \<Longrightarrow> keeps fs (evidence_node vs a name label descriptor properties parent confidence) V"
  unfolding evidence_node_def by (auto intro!: keeps_rules)

lemma keeps_link_existing [keeps_rules]: "V = (\<lambda>_. True) \<Longrightarrow> keeps fs (link_existing vs n nid kind) V"
  unfolding link_existing_def by (auto intro!: keeps_rules)

lemma keeps_group: "keeps fs (add_group vs a parent covered v groups) (\<lambda>_. True)"
  unfolding add_group_def by (intro keeps_rules) auto

lemma keeps_io: "keeps fs (add_io vs a parent v endpoints) (\<lambda>_. True)"
  unfolding add_io_def by (intro keeps_rules) auto

lemma keeps_endpoint_node [keeps_rules]: "V = (\<lambda>_. True) \<Longrightarrow> keeps fs (endpoint_node vs a parent v endpoints) V"
  unfolding endpoint_node_def by (hypsubst, intro keeps_rules) auto

lemma keeps_relation: "keeps fs (add_relation vs a parent sources v endpoints) (\<lambda>_. True)"
  unfolding add_relation_def split_def by (intro keeps_rules) auto

lemma keeps_binding: "keeps fs (add_binding vs a proposal groups contract viable review unique x u) (\<lambda>_. True)"
  unfolding add_binding_def split_def by (intro keeps_rules) auto

lemma keeps_topology: "keeps fs (add_topology vs a parent sources groups v) (\<lambda>_. True)"
  unfolding add_topology_def by (intro keeps_binding keeps_rules) auto

lemma keeps_core_evidence [keeps_rules]: "V = (\<lambda>_. True) \<Longrightarrow> keeps fs (attach_core_evidence vs a evidence) V"
  unfolding attach_core_evidence_def by (hypsubst, intro keeps_group keeps_io keeps_relation keeps_topology keeps_rules) auto

end
