(* ===== verification/Evidence_Resolved.thy ===== *)
theory Evidence_Resolved
  imports Core_Evidence
begin

text \<open>
  Steps that build a graph and raise no exception of a failed lookup, with rules that compose them, and what the validator
  of evidence has read where it accepts (\<open>viz/evidence.py\<close>). \<open>Evidence_Attached\<close> puts the two together.
\<close>

section \<open>Steps without a failed lookup\<close>

text \<open>The exceptions of a lookup that fails\<close>

fun dangling :: "pyexn \<Rightarrow> bool" where
  "dangling (KeyError _) = True"
| "dangling IndexError = True"
| "dangling (ValueError s) = (s = ''core evidence endpoint has no projected entity'')"
| "dangling _ = False"

definition tame :: "'a res \<Rightarrow> bool" where
  "tame r \<longleftrightarrow> (\<forall>e. r = Inl e \<longrightarrow> \<not> dangling e)"

named_theorems tame_rules

lemma tame_Inr [tame_rules]: "tame (Inr x)"
  by (simp add: tame_def)

lemma tame_Inl [tame_rules]: "\<not> dangling e \<Longrightarrow> tame (Inl e)"
  by (simp add: tame_def)

lemma tame_bind [tame_rules]: "tame r \<Longrightarrow> (\<And>x. r = Inr x \<Longrightarrow> tame (f x)) \<Longrightarrow> tame (bind_res r f)"
  by (auto simp: tame_def bind_res_eq_Inl)

lemma tame_map [tame_rules]: "(\<And>x. x \<in> set xs \<Longrightarrow> tame (f x)) \<Longrightarrow> tame (map_res f xs)"
  by (auto simp: tame_def dest: map_res_raises)

lemma tame_fold [tame_rules]: "(\<And>x s. tame (f x s)) \<Longrightarrow> tame (fold_res f xs s)"
  by (induction xs arbitrary: s) (auto intro!: tame_rules)

lemma tame_if [tame_rules]: "tame r \<Longrightarrow> tame r' \<Longrightarrow> tame (if b then r else r')"
  by simp

lemma tame_option [tame_rules]: "\<not> dangling e \<Longrightarrow> tame (from_option e v)"
  by (auto simp: tame_def from_option_def split: option.splits)

lemma tame_text [tame_rules]: "what @ '' must be a non-empty string without surrounding whitespace'' \<noteq> ''core evidence endpoint has no projected entity'' \<Longrightarrow>
    tame (text_identifier what v)"
  by (auto simp: text_identifier_def tame_def split: pyval.splits if_splits)

lemma tame_description [tame_rules]: "what @ '' must be non-empty and have no surrounding whitespace'' \<noteq> ''core evidence endpoint has no projected entity'' \<Longrightarrow>
    tame (optional_description what v)"
  by (auto simp: optional_description_def tame_def split: pyval.splits if_splits)

lemma tame_dict: "tame (py_dict v)"
proof -
  have pair: "tame (pair_item x d)" for x d
    by (cases "py_iter x") (auto simp: pair_item_def tame_def split: list.splits pyval.splits)
  then have "tame (bind_res (from_option (TypeError ''object is not iterable'') (py_iter v)) (\<lambda>items. fold_res pair_item items []))" for v
    by (intro tame_bind tame_option tame_fold) simp_all
  then show ?thesis unfolding py_dict_def by (cases v) (simp_all add: tame_Inr del: py_iter.simps)
qed

lemma tame_properties [tame_rules]:
  "what @ '' must be JSON-serializable'' \<noteq> ''core evidence endpoint has no projected entity'' \<Longrightarrow> tame (checked_properties what v)"
  unfolding checked_properties_def json_value_def by (intro tame_rules tame_dict) simp_all

lemma tame_in_keys [tame_rules]: "tame (in_keys v d)"
  by (auto simp: in_keys_def tame_def)

lemma tame_confidence [tame_rules]:
  "what @ '' must be one of the choices'' \<noteq> ''core evidence endpoint has no projected entity'' \<Longrightarrow>
   what @ '' must be a non-empty string without surrounding whitespace'' \<noteq> ''core evidence endpoint has no projected entity'' \<Longrightarrow>
   tame (inherited_confidence what d v)"
  "what @ '' must be one of the choices'' \<noteq> ''core evidence endpoint has no projected entity'' \<Longrightarrow>
   what @ '' must be a non-empty string without surrounding whitespace'' \<noteq> ''core evidence endpoint has no projected entity'' \<Longrightarrow>
   tame (inherited_relevance what d v)"
  unfolding inherited_confidence_def inherited_relevance_def optional_choice_def by (auto intro!: tame_rules)

lemma tame_scope [tame_rules]:
  "what @ '' must be non-empty and have no surrounding whitespace'' \<noteq> ''core evidence endpoint has no projected entity'' \<Longrightarrow>
   tame (inherited_scope what d v)"
  unfolding inherited_scope_def by (rule tame_description)

definition sound :: "'a act \<Rightarrow> ('a \<Rightarrow> bool) \<Rightarrow> bool" where
  "sound m V \<longleftrightarrow> (\<forall>g. tame (m g) \<and> (\<forall>x g'. m g = Inr (x, g') \<longrightarrow> V x))"

named_theorems sound_rules

lemma sound_return [sound_rules]: "V x \<Longrightarrow> sound (act_return x) V"
  by (auto simp: sound_def act_return_def intro: tame_rules)

lemma sound_bind: "sound m V \<Longrightarrow> (\<And>x. V x \<Longrightarrow> sound (f x) W) \<Longrightarrow> sound (act_bind m f) W"
proof -
  assume m: "sound m V" and f: "\<And>x. V x \<Longrightarrow> sound (f x) W"
  have "tame (act_bind m f g) \<and> (\<forall>y g'. act_bind m f g = Inr (y, g') \<longrightarrow> W y)" for g
  proof (cases "m g")
    case (Inl e)
    with m show ?thesis by (simp add: sound_def act_bind_def tame_def)
  next
    case (Inr r)
    obtain x g1 where r: "r = (x, g1)" by fastforce
    with Inr m have "V x" by (auto simp: sound_def)
    from f [OF this] Inr r show ?thesis by (simp add: sound_def act_bind_def)
  qed
  then show "sound (act_bind m f) W" by (simp add: sound_def)
qed

lemma sound_any [sound_rules]: "sound m (\<lambda>_. True) \<Longrightarrow> (\<And>x. sound (f x) W) \<Longrightarrow> sound (act_bind m f) W"
  by (rule sound_bind)

lemma sound_lift [sound_rules]: "tame r \<Longrightarrow> (\<And>x. r = Inr x \<Longrightarrow> sound (f x) W) \<Longrightarrow> sound (act_bind (act_lift r) f) W"
  unfolding sound_def act_bind_def act_lift_def by (auto simp: bind_res_eq_Inr intro!: tame_rules)

lemma sound_fold: "V s \<Longrightarrow> (\<And>x s. x \<in> set xs \<Longrightarrow> V s \<Longrightarrow> sound (f x s) V) \<Longrightarrow> sound (act_fold f xs s) V"
proof (induction xs arbitrary: s)
  case (Cons x xs)
  then show ?case by (auto intro!: sound_bind)
qed (simp add: sound_return)

lemma sound_weaken: "sound m V \<Longrightarrow> (\<And>x. V x \<Longrightarrow> W x) \<Longrightarrow> sound m W"
  by (auto simp: sound_def)

lemma sound_if [sound_rules]: "(b \<Longrightarrow> sound m V) \<Longrightarrow> (\<not> b \<Longrightarrow> sound m' V) \<Longrightarrow> sound (if b then m else m') V"
  by simp

lemma tame_node:
  assumes "na_fields args = []" and "na_addresses args = []"
  shows "tame (act_node args g)"
proof -
  have bool: "tame (case na_contributes args of PBool b \<Rightarrow> F b | _ \<Rightarrow> Inl (TypeError t))" if "\<And>b. tame (F b)" for F :: "bool \<Rightarrow> gnode res" and t
    using that by (cases "na_contributes args") (simp_all add: tame_Inl)
  have "tame (insert_node args g)"
    unfolding insert_node_def make_node_def assms map_res.simps by (intro tame_rules bool) simp_all
  moreover have "tame r" if "contain p c g = Some r" for p c g r
  proof -
    have "tame (node_ref_id n)" for n
      unfolding node_ref_id_def by (cases n) (auto intro!: tame_rules)
    moreover have "tame r" if "contain_ids i j g = Some r" for i j
      using that by (auto simp: contain_ids_def tame_def split: if_splits option.splits bool.splits)
    ultimately show ?thesis using that by (auto simp: contain_def tame_def split: sum.splits)
  qed
  ultimately show ?thesis by (auto simp: act_node_def graph_node_def tame_def split: sum.splits option.splits)
qed

definition keyed :: "'a res \<Rightarrow> bool" where
  "keyed r \<longleftrightarrow> (\<forall>e. r = Inl e \<longrightarrow> (\<exists>k. e = KeyError k) \<or> \<not> dangling e)"

lemma keyed_bind: "keyed r \<Longrightarrow> (\<And>x. keyed (f x)) \<Longrightarrow> keyed (bind_res r f)"
  by (auto simp: keyed_def bind_res_eq_Inl)

lemma keyed_item: "keyed (item v k)"
  by (cases v) (auto simp: keyed_def item_def dget_item_def from_option_def split: option.splits)

lemma keyed_Inr: "keyed (Inr x)"
  by (simp add: keyed_def)

lemma tame_catch: "keyed r \<Longrightarrow> tame (catch_lookup ''schema has no node descriptor'' r)"
  by (cases r) (auto simp: keyed_def catch_lookup_def tame_def split: pyexn.splits)

lemma tame_metadata [tame_rules]: "tame (node_metadata schema k)"
  unfolding node_metadata_def by (intro tame_catch keyed_bind keyed_item keyed_Inr)

lemma sound_link [sound_rules]: "V = (\<lambda>_. True) \<Longrightarrow> sound (act_link vs source target kind properties) V"
proof -
  have "tame (link_metadata schema kind)" for schema
    unfolding link_metadata_def item_or_def by (intro tame_rules) (auto split: pyval.splits intro!: tame_rules)
  then have texts: "tame (link_texts vs kind)"
    unfolding link_texts_def by (intro tame_rules) (auto split: option.splits list.splits intro!: tame_rules)
  have "tame (graph_link source target k properties d c s g)" for k d c s g
    unfolding graph_link_def node_ref_id_def by (intro tame_rules) (auto simp: Let_def split: node_ref.splits intro!: tame_rules)
  then have "sound (act_link_with source target (PStr kind) properties m) (\<lambda>_. True)" for m
    unfolding sound_def act_link_with_def by (auto intro!: tame_rules)
  with texts show "V = (\<lambda>_. True) \<Longrightarrow> sound (act_link vs source target kind properties) V"
    unfolding act_link_def by (auto intro!: sound_lift)
qed

lemma sound_evidence_node [sound_rules]: "V = (\<lambda>_. True) \<Longrightarrow> sound (evidence_node vs a name label k properties parent confidence) V"
  unfolding evidence_node_def
  by (intro sound_lift tame_metadata) (auto simp: sound_def entity_args_def intro!: tame_node)

lemma sound_lookup [sound_rules]: "V = (\<lambda>_. True) \<Longrightarrow> sound (act_lookup nid) V"
  by (auto simp: act_lookup_def act_bind_def act_graph_def act_return_def sound_def intro: tame_rules)

lemma sound_link_existing [sound_rules]: "V = (\<lambda>_. True) \<Longrightarrow> sound (link_existing vs n nid kind) V"
  unfolding link_existing_def link_if_def by (auto split: option.splits intro!: sound_rules)

section \<open>What validation reads\<close>

lemma ev_mapping_item: "ev_mapping names what v = Inr d \<Longrightarrow> k \<in> set names \<Longrightarrow> item v k = Inr (dget d k)"
proof -
  assume "ev_mapping names what v = Inr d" and k: "k \<in> set names"
  then have v: "v = PDict d" and "set (keys d) = set names" by (auto simp: ev_mapping_def if_Inl_Inr dict_case_Inr)
  with k have "k \<in> fst ` set d" by (simp add: keys_def)
  then have "map_of d k \<noteq> None" by (simp add: map_of_eq_None_iff)
  with v show ?thesis by (auto simp: item_def dget_item_def dget_def from_option_def)
qed

lemma ev_optional_None: "ev_optional f PNone = Inr None"
  by (simp add: ev_optional_def)

lemma check_act_groupD:
  assumes "check_act_group v seen = Inr seen'"
  shows "\<exists>d invocations ranges. seen' = seen @ [(int (length seen), length invocations)] \<and>
    bind_res (item v ''index'') (ev_integer 0) = Inr (int (length seen)) \<and>
    bind_res (item v ''invocation_indices'') ev_indices = Inr invocations \<and> bind_res (item v ''range_indices'') ev_indices = Inr ranges \<and>
    chosen_items [''invocation_indices'', ''range_indices'', ''input_count'', ''input_dtypes'', ''output_dtype'',
       ''input_element_counts'', ''output_element_count'', ''scalar_input_indices''] v = Inr d"
proof -
  from assms obtain d invocations ranges where d: "ev_mapping [''index'', ''invocation_indices'', ''range_indices'', ''input_count'', ''input_dtypes'',
       ''output_dtype'', ''input_element_counts'', ''output_element_count'', ''scalar_input_indices''] ''evidence group has an invalid shape'' v = Inr d"
    and "ev_integer 0 (dget d ''index'') = Inr (int (length seen))"
    and "ev_indices (dget d ''invocation_indices'') = Inr invocations" "ev_indices (dget d ''range_indices'') = Inr ranges"
    and "seen @ [(int (length seen), length invocations)] = seen'"
    unfolding check_act_group_def bind_res_eq_Inr if_Inl_Inr sum.inject not_not by (elim exE conjE) metis
  then show ?thesis by (simp add: ev_mapping_item [OF d] chosen_items_def)
qed

lemma ev_choice_text: "ev_choice names what v = Inr s \<Longrightarrow> v = PStr s \<and> s \<in> set names"
  by (cases v) (auto simp: ev_choice_def in_texts_def in_keys_def keys_def comp_def bind_res_eq_Inr split: if_splits)

lemma check_endpoint_kind: "check_endpoint v = Inr e \<Longrightarrow> fst e \<in> set evidence_endpoint_kinds"
  by (auto simp: check_endpoint_def bind_res_eq_Inr dest: ev_choice_text)

lemma check_relationD:
  assumes "check_relation v = Inr es"
  shows "\<exists>s t source target kind count. es = [source, target] \<and> item v ''source'' = Inr s \<and> check_endpoint s = Inr source \<and>
    item v ''destination'' = Inr t \<and> check_endpoint t = Inr target \<and> bind_res (item v ''kind'') ev_text = Inr kind \<and>
    item v ''evidence_count'' = Inr count"
proof -
  from assms obtain d kind source target where d: "ev_mapping [''kind'', ''source'', ''destination'', ''evidence_count''] ''exact relation has an invalid shape'' v = Inr d"
    and k: "ev_choice evidence_relation_kinds ''exact relation kind is unsupported'' (dget d ''kind'') = Inr kind"
    and "check_endpoint (dget d ''source'') = Inr source" "check_endpoint (dget d ''destination'') = Inr target" "es = [source, target]"
    unfolding check_relation_def by (auto simp: bind_res_eq_Inr)
  moreover from ev_choice_text [OF k] have "ev_text (dget d ''kind'') = Inr kind" by (auto simp: ev_text_def evidence_relation_kinds_def)
  ultimately show ?thesis by (simp add: ev_mapping_item [OF d])
qed

lemma check_symbolD:
  assumes "check_symbol v seen = Inr seen'"
  shows "\<exists>kind i j name n. seen' = symbol_endpoint kind i j # seen \<and> bind_res (item v ''kind'') ev_text = Inr kind \<and>
    bind_res (item v ''symbol_table_index'') (ev_integer 0) = Inr i \<and> bind_res (item v ''symbol_index'') (ev_integer 0) = Inr j \<and>
    bind_res (item v ''name'') ev_text = Inr name \<and> item v ''size_bytes'' = Inr n"
proof -
  from assms obtain d kind i j name where d: "ev_mapping [''kind'', ''symbol_table_index'', ''symbol_index'', ''size_bytes'', ''name'']
       ''graph I/O symbol has an invalid shape'' v = Inr d"
    and k: "ev_choice [''input'', ''output''] ''graph I/O symbol kind must be input or output'' (dget d ''kind'') = Inr kind"
    and "ev_integer 0 (dget d ''symbol_table_index'') = Inr i" "ev_integer 0 (dget d ''symbol_index'') = Inr j"
    and "ev_text (dget d ''name'') = Inr name" "seen' = symbol_endpoint kind i j # seen"
    unfolding check_symbol_def by (auto simp: bind_res_eq_Inr if_Inl_Inr)
  moreover from ev_choice_text [OF k] have "ev_text (dget d ''kind'') = Inr kind" by (auto simp: ev_text_def)
  ultimately show ?thesis by (simp add: ev_mapping_item [OF d])
qed

lemma check_coverageD:
  assumes "check_coverage groups v seen = Inr seen'"
  shows "\<exists>i kinds details. seen' = i # seen \<and> bind_res (item v ''group_index'') (ev_integer 0) = Inr i \<and>
    item v ''kinds'' = Inr kinds \<and> item v ''properties'' = Inr details"
proof -
  from assms obtain d i where d: "ev_mapping [''group_index'', ''invocation_count'', ''kinds'', ''properties''] ''group coverage has an invalid shape'' v = Inr d"
    and "ev_integer 0 (dget d ''group_index'') = Inr i" "seen' = i # seen"
    unfolding check_coverage_def by (auto simp: bind_res_eq_Inr if_Inl_Inr)
  then show ?thesis by (simp add: ev_mapping_item [OF d])
qed

end
