(* ===== verification/Evidence_Attached.thy ===== *)
theory Evidence_Attached
  imports Evidence_Resolved
begin

text \<open>
  Validated evidence has no dangling references: from what the validator has read follows that no lookup of
  \<open>_attach_core_evidence\<close> (\<open>viz/npunlock.py\<close>) fails.
\<close>

section \<open>What validation reads of the topology\<close>

lemma act_lift_Inr [simp]: "act_bind (act_lift (Inr x)) f = f x"
  by (simp add: act_bind_def act_lift_def)

lemma act_bind_graph: "act_bind act_graph f g = f g g"
  by (simp add: act_bind_def act_graph_def)

lemma ev_sequence_index: "ev_sequence v = Inr vs \<Longrightarrow> i < length vs \<Longrightarrow> py_index v i = Inr (vs ! i)"
  by (cases v) (auto simp: ev_sequence_def py_index_def)

lemma check_candidatesD:
  assumes "check_candidates groups v = Inr xs"
  shows "\<exists>vs. ev_sequence v = Inr vs \<and> list_all2 (\<lambda>x is'. ev_indices x = Inr is' \<and> set is' \<subseteq> groups) vs xs"
  using assms
  by (fastforce simp: check_candidates_def bind_res_eq_Inr map_res_eq_Inr list_all_iff elim!: list_all2_mono split: if_splits)

lemma check_topology_reviewD:
  assumes "check_topology_review groups n status assignments v = Inr gs"
  shows "bind_res (item v ''group_indices'') ev_indices = Inr gs \<and> set gs \<subseteq> groups \<and> length gs = n \<and>
    (\<exists>kinds ks. item v ''coverage_kinds'' = Inr kinds \<and> elements kinds = Inr ks \<and> length ks = n)"
proof -
  from assms obtain d ks texts where d: "ev_mapping [''status'', ''group_indices'', ''coverage_kinds''] ''topology review has an invalid shape'' v = Inr d"
    and r: "ev_indices (dget d ''group_indices'') = Inr gs" "elements (dget d ''coverage_kinds'') = Inr ks" "map_res ev_text ks = Inr texts"
      "length gs = n" "length texts = n" "list_all (\<lambda>i. i \<in> groups) gs"
    unfolding check_topology_review_def by (auto simp: bind_res_eq_Inr if_Inl_Inr)
  with map_res_length [OF r(3)] show ?thesis by (auto simp: ev_mapping_item [OF d] list_all_iff)
qed

text \<open>What the attachment reads of the topology proposal, for a number of names and the known groups.\<close>

definition topology_read :: "int set \<Rightarrow> pyval \<Rightarrow> bool" where
  "topology_read groups v \<longleftrightarrow> (\<exists>status details names contract viable r.
     bind_res (item v ''status'') ev_text = Inr status \<and> chosen_items [''reason'', ''assignments'', ''truncated''] v = Inr details \<and>
     bind_res (item v ''names'') ev_sequence = Inr names \<and> (\<forall>x \<in> set names. \<exists>t. ev_text x = Inr t) \<and>
     bind_res (item v ''contract_candidates'') ev_sequence = Inr contract \<and> length contract = length names \<and>
     bind_res (item v ''viable_candidates'') ev_sequence = Inr viable \<and> length viable = length names \<and>
     (status = ''unique'' \<longrightarrow> (\<exists>x y gs. item v ''assignments'' = Inr x \<and> py_index x 0 = Inr y \<and> ev_indices y = Inr gs \<and>
        length gs = length names \<and> set gs \<subseteq> groups)) \<and>
     item v ''review'' = Inr r \<and>
     (r \<noteq> PNone \<longrightarrow> (\<exists>gs kinds ks. bind_res (item r ''group_indices'') ev_indices = Inr gs \<and> set gs \<subseteq> groups \<and>
        length gs = length names \<and> item r ''coverage_kinds'' = Inr kinds \<and> elements kinds = Inr ks \<and> length ks = length names)))"

lemma check_topologyD:
  assumes "check_topology groups v = Inr ()"
  shows "topology_read groups v"
proof -
  from assms obtain d status vs names contract viable assignments truncated where
    d: "ev_mapping [''status'', ''reason'', ''names'', ''contract_candidates'', ''viable_candidates'', ''assignments'', ''truncated'', ''review'']
       ''topology evidence has an invalid shape'' v = Inr d"
    and st: "ev_choice [''none'', ''unique'', ''ambiguous''] ''topology evidence has an invalid status'' (dget d ''status'') = Inr status"
    and names: "ev_sequence (dget d ''names'') = Inr vs" "map_res ev_text vs = Inr names"
    and cs: "check_candidates groups (dget d ''contract_candidates'') = Inr contract" "check_candidates groups (dget d ''viable_candidates'') = Inr viable"
      "check_candidates groups (dget d ''assignments'') = Inr assignments"
    and l: "\<not> (length contract \<noteq> length names \<or> length viable \<noteq> length names)" "\<not> list_ex (\<lambda>a. length a \<noteq> length names) assignments"
    and expected: "\<not> status \<noteq> expected_status assignments truncated"
    and review: "(if dget d ''review'' = PNone then Inr ()
       else bind_res (check_topology_review groups (length names) status assignments (dget d ''review'')) (\<lambda>_. Inr ())) = Inr ()"
    unfolding check_topology_def bind_res_eq_Inr if_Inl_Inr bool_case_Inr by (elim exE conjE) (rule that, assumption+)
  from l have lengths: "length contract = length names" "length viable = length names" "\<forall>a \<in> set assignments. length a = length names"
    by (auto simp: list_ex_iff)
  from review have review: "dget d ''review'' = PNone \<or> (\<exists>gs. check_topology_review groups (length names) status assignments (dget d ''review'') = Inr gs)"
    by (auto simp: bind_res_eq_Inr split: if_splits)
  note read = ev_mapping_item [OF d]
  from ev_choice_text [OF st] have "ev_text (dget d ''status'') = Inr status" by (auto simp: ev_text_def)
  moreover have "\<exists>t. ev_text x = Inr t" if "x \<in> set vs" for x
    using names(2) that map_res_succeeds [of ev_text vs] by blast
  moreover have "length vs = length names" using map_res_length [OF names(2)] by simp
  moreover from check_candidatesD [OF cs(1)] lengths obtain contract' where "ev_sequence (dget d ''contract_candidates'') = Inr contract'"
    "length contract' = length names" by (auto dest: list_all2_lengthD)
  moreover from check_candidatesD [OF cs(2)] lengths obtain viable' where "ev_sequence (dget d ''viable_candidates'') = Inr viable'"
    "length viable' = length names" by (auto dest: list_all2_lengthD)
  moreover have "\<exists>y gs. py_index (dget d ''assignments'') 0 = Inr y \<and> ev_indices y = Inr gs \<and> length gs = length names \<and> set gs \<subseteq> groups"
    if "status = ''unique''"
  proof -
    from that expected obtain gs where gs: "assignments = [gs]"
      by (cases assignments) (auto simp: expected_status_def split: if_splits)
    from check_candidatesD [OF cs(3)] gs obtain x where "ev_sequence (dget d ''assignments'') = Inr [x]" "ev_indices x = Inr gs" "set gs \<subseteq> groups"
      by (auto simp: list_all2_Cons2)
    with gs lengths(3) ev_sequence_index [of _ "[x]" 0] show ?thesis by fastforce
  qed
  moreover have "dget d ''review'' \<noteq> PNone \<longrightarrow> (\<exists>gs kinds ks. bind_res (item (dget d ''review'') ''group_indices'') ev_indices = Inr gs \<and>
      set gs \<subseteq> groups \<and> length gs = length names \<and> item (dget d ''review'') ''coverage_kinds'' = Inr kinds \<and> elements kinds = Inr ks \<and>
      length ks = length names)"
    using review check_topology_reviewD by blast
  moreover have "chosen_items [''reason'', ''assignments'', ''truncated''] v =
      Inr [(''reason'', dget d ''reason''), (''assignments'', dget d ''assignments''), (''truncated'', dget d ''truncated'')]"
    by (simp add: read chosen_items_def)
  ultimately show ?thesis using names(1) unfolding topology_read_def
    by (simp add: read)
qed

section \<open>Attaching\<close>

definition covers :: "(int \<times> pyval) list \<Rightarrow> int \<Rightarrow> bool" where
  "covers covered i \<longleftrightarrow> (\<exists>c kinds details. map_of covered i = Some c \<and> item c ''kinds'' = Inr kinds \<and> item c ''properties'' = Inr details)"

lemma coverage_read:
  assumes "fold_res (check_coverage groups) vs seen = Inr seen'" and "\<forall>i \<in> set seen. covers covered i"
  shows "\<exists>covered'. fold_res add_coverage vs covered = Inr covered' \<and> (\<forall>i \<in> set seen'. covers covered' i)"
  using assms
proof (induction vs arbitrary: seen covered)
  case (Cons v vs)
  then obtain seen1 where one: "check_coverage groups v seen = Inr seen1" and rest: "fold_res (check_coverage groups) vs seen1 = Inr seen'"
    by (auto simp: bind_res_eq_Inr)
  from check_coverageD [OF one] obtain i kinds details where i: "seen1 = i # seen" "bind_res (item v ''group_index'') (ev_integer 0) = Inr i"
    "item v ''kinds'' = Inr kinds" "item v ''properties'' = Inr details" by blast
  then have "add_coverage v covered = Inr (dict_set i v covered)" by (simp add: add_coverage_def)
  moreover have "\<forall>j \<in> set seen1. covers (dict_set i v covered) j" using Cons.prems(2) i by (auto simp: covers_def)
  ultimately show ?case using Cons.IH [OF rest] by simp
qed simp

lemma sound_group:
  assumes "check_act_group v seen = Inr seen'" and "covers covered (int (length seen))"
  shows "sound (add_group vs a parent covered v groups) (\<lambda>groups'. set (keys groups') = insert (int (length seen)) (set (keys groups)))"
proof -
  from check_act_groupD [OF assms(1)] obtain d invocations ranges where r: "bind_res (item v ''index'') (ev_integer 0) = Inr (int (length seen))"
    "bind_res (item v ''invocation_indices'') ev_indices = Inr invocations" "bind_res (item v ''range_indices'') ev_indices = Inr ranges"
    "chosen_items [''invocation_indices'', ''range_indices'', ''input_count'', ''input_dtypes'', ''output_dtype'',
       ''input_element_counts'', ''output_element_count'', ''scalar_input_indices''] v = Inr d" by blast
  from assms(2) obtain p where p: "group_properties covered (int (length seen)) v = Inr p"
    by (auto simp: covers_def group_properties_def entry_def r from_option_def)
  show ?thesis unfolding add_group_def r p act_lift_Inr
    by (intro sound_rules sound_fold) (auto simp: set_keys_dict_set)
qed

lemma group_lengths: "fold_res check_act_group vs seen = Inr out \<Longrightarrow> length out = length seen + length vs"
  by (induction vs arbitrary: seen) (fastforce simp: bind_res_eq_Inr dest!: check_act_groupD)+

lemma sound_groups:
  assumes "fold_res check_act_group vs seen = Inr out" and "\<And>i. i < length out \<Longrightarrow> covers covered (int i)"
    and "set (keys groups) = int ` {..<length seen}"
  shows "sound (act_fold (add_group schemas a parent covered) vs groups) (\<lambda>groups'. set (keys groups') = int ` {..<length out})"
  using assms
proof (induction vs arbitrary: seen groups)
  case Nil
  then show ?case by (simp add: sound_return)
next
  case (Cons v vs)
  then obtain seen1 where one: "check_act_group v seen = Inr seen1" and rest: "fold_res check_act_group vs seen1 = Inr out"
    by (auto simp: bind_res_eq_Inr)
  from check_act_groupD [OF one] have l: "length seen1 = Suc (length seen)" by auto
  with group_lengths [OF rest] have "covers covered (int (length seen))" by (intro Cons.prems(2)) simp
  from sound_group [OF one this] have "sound (add_group schemas a parent covered v groups) (\<lambda>groups'. set (keys groups') = int ` {..<length seen1})"
    by (rule sound_weaken) (auto simp: Cons.prems(3) l lessThan_Suc)
  then show ?case unfolding act_fold.simps by (rule sound_bind) (rule Cons.IH [OF rest Cons.prems(2)])
qed

lemma sound_io:
  assumes "fold_res check_symbol vs seen = Inr out" and "set seen \<union> E \<subseteq> set (keys endpoints)"
  shows "sound (act_fold (add_io schemas a parent) vs endpoints) (\<lambda>endpoints'. set out \<union> E \<subseteq> set (keys endpoints'))"
  using assms
proof (induction vs arbitrary: seen endpoints)
  case Nil
  then show ?case by (simp add: sound_return)
next
  case (Cons v vs)
  then obtain seen1 where one: "check_symbol v seen = Inr seen1" and rest: "fold_res check_symbol vs seen1 = Inr out"
    by (auto simp: bind_res_eq_Inr)
  from check_symbolD [OF one] obtain kind i j name n where r: "seen1 = symbol_endpoint kind i j # seen" "bind_res (item v ''kind'') ev_text = Inr kind"
    "bind_res (item v ''symbol_table_index'') (ev_integer 0) = Inr i" "bind_res (item v ''symbol_index'') (ev_integer 0) = Inr j"
    "bind_res (item v ''name'') ev_text = Inr name" "item v ''size_bytes'' = Inr n" by blast
  have "sound (add_io schemas a parent v endpoints) (\<lambda>endpoints'. set seen1 \<union> E \<subseteq> set (keys endpoints'))"
    unfolding add_io_def r act_lift_Inr using Cons.prems(2) by (intro sound_rules) (auto simp: set_keys_dict_set)
  then show ?case unfolding act_fold.simps by (rule sound_bind) (rule Cons.IH [OF rest])
qed

text \<open>An endpoint that validation knows: a node of the map, or an invariant.\<close>

definition known_endpoint :: "endpoint_nodes \<Rightarrow> endpoint \<Rightarrow> bool" where
  "known_endpoint endpoints e \<longleftrightarrow> fst e = ''dpu_invariant'' \<or> e \<in> set (keys endpoints)"

lemma check_known_endpoint:
  assumes "check_known groups io e = Inr ()" and "fst e \<in> set evidence_endpoint_kinds"
    and "set io \<union> (\<lambda>i. (''act_group'', i, None)) ` groups \<subseteq> set (keys endpoints)"
  shows "known_endpoint endpoints e"
proof -
  obtain kind i j where e: "e = (kind, i, j)" by (cases e)
  from assms(2) e consider "kind = ''act_group''" | "kind = ''dpu_invariant''" | "kind = ''graph_input''" | "kind = ''graph_output''"
    by (auto simp: evidence_endpoint_kinds_def)
  then show ?thesis
  proof cases
    case 1
    with assms(1) e have "i \<in> groups" "j = None" by (simp_all add: check_known_def split: if_splits)
    with assms(3) e 1 show ?thesis by (auto simp: known_endpoint_def)
  next
    case 2
    with e show ?thesis by (simp add: known_endpoint_def)
  next
    case 3
    with assms(1) e have "e \<in> set io" by (simp add: check_known_def startswith_def split: if_splits)
    with assms(3) show ?thesis by (auto simp: known_endpoint_def)
  next
    case 4
    with assms(1) e have "e \<in> set io" by (simp add: check_known_def startswith_def split: if_splits)
    with assms(3) show ?thesis by (auto simp: known_endpoint_def)
  qed
qed

lemma sound_endpoint:
  assumes "check_endpoint v = Inr e" and "known_endpoint endpoints e"
  shows "sound (endpoint_node schemas a parent v endpoints) (\<lambda>(_, endpoints'). set (keys endpoints) \<subseteq> set (keys endpoints'))"
proof (cases "map_of endpoints e")
  case (Some n)
  then show ?thesis by (simp add: endpoint_node_def assms(1) sound_return)
next
  case None
  then have "e \<notin> set (keys endpoints)" by (simp add: keys_def map_of_eq_None_iff)
  with assms(2) have "fst e = ''dpu_invariant''" by (simp add: known_endpoint_def)
  then show ?thesis
    unfolding endpoint_node_def assms(1) act_lift_Inr None option.case
    by (intro sound_rules) (auto simp: set_keys_dict_set intro!: sound_rules split: option.splits)
qed

lemma known_more: "known_endpoint endpoints e \<Longrightarrow> set (keys endpoints) \<subseteq> set (keys endpoints') \<Longrightarrow> known_endpoint endpoints' e"
  by (auto simp: known_endpoint_def)

lemma sound_relation:
  assumes "check_relation v = Inr es" and "\<forall>e \<in> set es. known_endpoint endpoints e" and "item sources ''exact_relations'' = Inr contract"
  shows "sound (add_relation schemas a parent sources v endpoints) (\<lambda>endpoints'. set (keys endpoints) \<subseteq> set (keys endpoints'))"
proof -
  from check_relationD [OF assms(1)] obtain s t source target kind count where r: "es = [source, target]" "item v ''source'' = Inr s"
    "check_endpoint s = Inr source" "item v ''destination'' = Inr t" "check_endpoint t = Inr target"
    "bind_res (item v ''kind'') ev_text = Inr kind" "item v ''evidence_count'' = Inr count" by blast
  have rest: "sound (case y of (destination, endpoints2) \<Rightarrow>
      act_bind (act_link schemas (NodeRef n) (NodeRef destination) kind (PDict [(''evidence_count'', count), (''source_contract'', contract)]))
        (\<lambda>_. act_return endpoints2)) (\<lambda>endpoints'. set (keys endpoints) \<subseteq> set (keys endpoints'))"
    if "case y of (_, endpoints2) \<Rightarrow> set (keys endpoints) \<subseteq> set (keys endpoints2)" for n y
    using that by (cases y) (auto intro!: sound_rules)
  have "sound (case x of (source, endpoints1) \<Rightarrow>
      act_bind (endpoint_node schemas a parent t endpoints1) (\<lambda>(destination, endpoints2).
      act_bind (act_link schemas (NodeRef source) (NodeRef destination) kind (PDict [(''evidence_count'', count), (''source_contract'', contract)]))
        (\<lambda>_. act_return endpoints2))) (\<lambda>endpoints'. set (keys endpoints) \<subseteq> set (keys endpoints'))"
    if x: "case x of (_, endpoints1) \<Rightarrow> set (keys endpoints) \<subseteq> set (keys endpoints1)" for x
  proof (cases x)
    case (Pair n endpoints1)
    with x assms(2) r(1) have "known_endpoint endpoints1 target" by (auto intro: known_more)
    from sound_endpoint [OF r(5) this] have "sound (endpoint_node schemas a parent t endpoints1)
        (\<lambda>(_, endpoints2). set (keys endpoints) \<subseteq> set (keys endpoints2))"
      by (rule sound_weaken) (use x Pair in auto)
    with Pair show ?thesis by (auto intro: sound_bind rest)
  qed
  moreover have "known_endpoint endpoints source" using assms(2) r(1) by simp
  ultimately show ?thesis
    unfolding add_relation_def r assms(3) act_lift_Inr using sound_endpoint [OF r(3)] by (intro sound_bind)
qed

lemma sound_relations:
  assumes "map_res check_relation vs = Inr ess" and "\<forall>e \<in> set (concat ess). known_endpoint endpoints e"
    and "item sources ''exact_relations'' = Inr contract"
  shows "sound (act_fold (add_relation schemas a parent sources) vs endpoints) (\<lambda>_. True)"
proof -
  have each: "\<exists>es. check_relation v = Inr es \<and> set es \<subseteq> set (concat ess)" if "v \<in> set vs" for v
    using assms(1) that by (fastforce simp: map_res_eq_Inr list_all2_conv_all_nth in_set_conv_nth)
  have "sound (add_relation schemas a parent sources v s) (\<lambda>s'. set (keys endpoints) \<subseteq> set (keys s'))"
    if v: "v \<in> set vs" and s: "set (keys endpoints) \<subseteq> set (keys s)" for v s
  proof -
    from each [OF v] obtain es where es: "check_relation v = Inr es" "set es \<subseteq> set (concat ess)" by blast
    with assms(2) s have "\<forall>e \<in> set es. known_endpoint s e" by (meson known_more subsetD)
    from sound_relation [OF es(1) this assms(3)] show ?thesis by (rule sound_weaken) (use s in blast)
  qed
  then have "sound (act_fold (add_relation schemas a parent sources) vs endpoints) (\<lambda>s. set (keys endpoints) \<subseteq> set (keys s))"
    by (intro sound_fold) auto
  then show ?thesis by (rule sound_weaken) simp
qed

text \<open>What a binding uses at its index\<close>

definition binding_ready :: "group_nodes \<Rightarrow> (int list \<times> pyval) option \<Rightarrow> int list option \<Rightarrow> nat \<Rightarrow> bool" where
  "binding_ready groups review unique i \<longleftrightarrow>
     (case review of None \<Rightarrow> True | Some (gs, kinds) \<Rightarrow> i < length gs \<and> gs ! i \<in> set (keys groups) \<and> (\<exists>k. py_index kinds i = Inr k)) \<and>
     (case unique of None \<Rightarrow> True | Some gs \<Rightarrow> i < length gs \<and> gs ! i \<in> set (keys groups))"

lemma sound_binding:
  assumes "i < length contract" and "i < length viable" and "ev_text name = Inr label" and "binding_ready groups review unique i"
  shows "sound (add_binding schemas a proposal groups contract viable review unique (i, name) u) (\<lambda>_. True)"
proof -
  obtain p where p: "binding_properties contract viable review i = Inr p"
    using assms by (cases review) (auto simp: binding_properties_def py_nth_nonneg from_option_def binding_ready_def)
  obtain b where b: "bound_group (map_option fst review) unique i = Inr b" "b = None \<or> (\<exists>j. b = Some j \<and> j \<in> set (keys groups))"
    using assms(4) by (cases review; cases unique) (auto simp: bound_group_def py_nth_nonneg from_option_def binding_ready_def)
  have entry: "tame (entry groups j)" if "j \<in> set (keys groups)" for j
  proof -
    from that have "map_of groups j \<noteq> None" by (simp add: keys_def map_of_eq_None_iff)
    then show ?thesis by (auto simp: entry_def from_option_def tame_def)
  qed
  show ?thesis
    unfolding add_binding_def split_def fst_conv snd_conv p b(1) assms(3) act_lift_Inr
    using b(2) entry by (intro sound_rules) (auto intro!: sound_rules)
qed

text \<open>The coverage kinds of a review are a list. Validation iterates over them, which a dictionary also allows.\<close>

definition listed_kinds :: "pyval \<Rightarrow> bool" where
  "listed_kinds v \<longleftrightarrow> (case bind_res (item v ''review'') (\<lambda>r. item r ''coverage_kinds'') of Inr kinds \<Rightarrow> \<not> is_dict kinds | Inl _ \<Rightarrow> True)"

lemma elements_index: "elements v = Inr vs \<Longrightarrow> \<not> is_dict v \<Longrightarrow> i < length vs \<Longrightarrow> py_index v i = Inr (vs ! i)"
  by (cases v) (auto simp: elements_def py_index_def from_option_def split: option.splits)

lemma sound_topology:
  assumes "topology_read (set (keys groups)) v" and "item sources ''topology'' = Inr contract" and "listed_kinds v"
  shows "sound (add_topology schemas a parent sources groups v) (\<lambda>_. True)"
proof -
  from assms(1) obtain status details names cs viable r where
    r: "bind_res (item v ''status'') ev_text = Inr status" "chosen_items [''reason'', ''assignments'', ''truncated''] v = Inr details"
      "bind_res (item v ''names'') ev_sequence = Inr names" "bind_res (item v ''contract_candidates'') ev_sequence = Inr cs"
      "bind_res (item v ''viable_candidates'') ev_sequence = Inr viable" "item v ''review'' = Inr r"
    and names: "\<forall>x \<in> set names. \<exists>t. ev_text x = Inr t" "length cs = length names" "length viable = length names"
    and unique: "status = ''unique'' \<longrightarrow> (\<exists>x y gs. item v ''assignments'' = Inr x \<and> py_index x 0 = Inr y \<and> ev_indices y = Inr gs \<and>
        length gs = length names \<and> set gs \<subseteq> set (keys groups))"
    and review: "r \<noteq> PNone \<longrightarrow> (\<exists>gs kinds ks. bind_res (item r ''group_indices'') ev_indices = Inr gs \<and> set gs \<subseteq> set (keys groups) \<and>
        length gs = length names \<and> item r ''coverage_kinds'' = Inr kinds \<and> elements kinds = Inr ks \<and> length ks = length names)"
    unfolding topology_read_def by blast
  obtain rev where rev: "read_review r = Inr rev"
    and ready: "\<forall>i < length names. binding_ready groups rev None i"
  proof (cases "r = PNone")
    case True
    with that [of None] show ?thesis by (simp add: read_review_def binding_ready_def)
  next
    case False
    with review obtain gs kinds ks where gs: "bind_res (item r ''group_indices'') ev_indices = Inr gs" "set gs \<subseteq> set (keys groups)"
      "length gs = length names" "item r ''coverage_kinds'' = Inr kinds" "elements kinds = Inr ks" "length ks = length names" by blast
    moreover from assms(3) r(6) gs(4) have "\<not> is_dict kinds" by (simp add: listed_kinds_def)
    ultimately show ?thesis using that [of "Some (gs, kinds)"] False
      by (simp add: read_review_def binding_ready_def elements_index subset_iff)
  qed
  obtain only where only: "(if status = ''unique''
       then bind_res (item v ''assignments'') (\<lambda>x. bind_res (py_index x 0) (\<lambda>y. bind_res (ev_indices y) (\<lambda>gs. Inr (Some gs))))
       else Inr None) = Inr only"
    and "\<forall>i < length names. binding_ready groups None only i"
  proof (cases "status = ''unique''")
    case True
    with unique obtain x y gs where "item v ''assignments'' = Inr x" "py_index x 0 = Inr y" "ev_indices y = Inr gs"
      "length gs = length names" "set gs \<subseteq> set (keys groups)" by blast
    with True that [of "Some gs"] show ?thesis by (simp add: binding_ready_def subset_iff)
  next
    case False
    with that [of None] show ?thesis by (simp add: binding_ready_def)
  qed
  with ready have ready: "binding_ready groups rev only i" if "i < length names" for i using that by (simp add: binding_ready_def)
  have binding: "sound (add_binding schemas a proposal groups cs viable rev only x u) (\<lambda>_. True)"
    if "x \<in> set (enum names)" for x u proposal
  proof -
    obtain i name where x: "x = (i, name)" by (cases x)
    with that have i: "i < length names" "name \<in> set names" by (auto simp: in_set_enum)
    with names(1) obtain label where "ev_text name = Inr label" by blast
    with i(1) names(2,3) ready x show ?thesis by (auto intro: sound_binding)
  qed
  have review': "bind_res (item v ''review'') read_review = Inr rev" using r(6) rev by simp
  show ?thesis
    unfolding add_topology_def r(1-5) review' assms(2) only act_lift_Inr
    by (intro sound_any sound_evidence_node refl sound_fold binding TrueI)
qed

section \<open>No dangling references\<close>

definition named_once :: "pyval \<Rightarrow> bool" where
  "named_once v \<longleftrightarrow> (case v of PDict d \<Rightarrow> distinct (keys d) | _ \<Rightarrow> True)"

lemma source_item:
  assumes "py_eq v (PDict source_contracts)" and "named_once v" and "k \<in> set (keys source_contracts)"
  shows "\<exists>x. item v k = Inr x"
proof -
  from assms(1) obtain d where v: "v = PDict d" and len: "length d = length source_contracts"
    and sub: "\<forall>(k, x) \<in> set d. map_of source_contracts k \<noteq> None"
    by (cases v) (auto simp: list_all_iff split: option.splits pyfloat.splits)
  from sub have "set (keys d) \<subseteq> set (keys source_contracts)" by (auto simp: keys_def map_of_eq_None_iff)
  moreover have "card (set (keys d)) = length d" using assms(2) v distinct_card [of "keys d"] by (simp add: named_once_def keys_def)
  moreover have "card (set (keys source_contracts)) \<le> length source_contracts" 
    using card_length [of "keys source_contracts"] by (simp add: keys_def)
  ultimately have "set (keys d) = set (keys source_contracts)" using len by (intro card_seteq) auto
  with assms(3) v have "map_of d k \<noteq> None" by (simp add: keys_def map_of_eq_None_iff)
  with v show ?thesis by (auto simp: item_def dget_item_def from_option_def)
qed

lemma validated_parts:
  assumes "validate_evidence v = Inr d"
  shows "\<exists>gs groups relations ess symbols io cs covered.
    py_eq (dget d ''sources'') (PDict source_contracts) \<and>
    ev_sequence (dget d ''groups'') = Inr gs \<and> fold_res check_act_group gs [] = Inr groups \<and> fst ` set groups = int ` {..<length groups} \<and>
    ev_sequence (dget d ''exact_relations'') = Inr relations \<and> map_res check_relation relations = Inr ess \<and>
    ev_sequence (dget d ''graph_io'') = Inr symbols \<and> fold_res check_symbol symbols [] = Inr io \<and>
    (\<forall>e \<in> set (concat ess). check_known (fst ` set groups) io e = Inr () \<and> fst e \<in> set evidence_endpoint_kinds) \<and>
    ev_sequence (dget d ''group_coverage'') = Inr cs \<and> fold_res (check_coverage groups) cs [] = Inr covered \<and>
    set covered = fst ` set groups \<and> topology_read (fst ` set groups) (dget d ''topology'')"
proof -
  from assms obtain d' groups relations ess symbols io us cs covered t where
    "ev_mapping evidence_keys ''npunlock visualization evidence has an invalid top-level shape'' v = Inr d'" and d': "d' = d"
    and sources: "\<not> \<not> py_eq (dget d' ''sources'') (PDict source_contracts)"
    and groups: "check_act_groups (dget d' ''groups'') = Inr groups"
    and relations: "ev_sequence (dget d' ''exact_relations'') = Inr relations" "map_res check_relation relations = Inr ess"
    and symbols: "ev_sequence (dget d' ''graph_io'') = Inr symbols" "fold_res check_symbol symbols [] = Inr io"
    and known: "map_res (check_known (fst ` set groups) io) (concat ess) = Inr us"
    and coverage: "ev_sequence (dget d' ''group_coverage'') = Inr cs" "fold_res (check_coverage groups) cs [] = Inr covered"
      "\<not> set covered \<noteq> fst ` set groups"
    and topology: "check_topology (fst ` set groups) (dget d' ''topology'') = Inr t"
    unfolding validate_evidence_def bind_res_eq_Inr if_Inl_Inr sum.inject by (elim exE conjE) (rule that, assumption+)
  from groups obtain gs where gs: "ev_sequence (dget d' ''groups'') = Inr gs" "fold_res check_act_group gs [] = Inr groups"
    "fst ` set groups = set (map int [0..<length groups])"
    by (auto simp: check_act_groups_def bind_res_eq_Inr if_Inl_Inr)
  have one: "check_known (fst ` set groups) io e = Inr ()" if "e \<in> set (concat ess)" for e
    using known map_res_unit [of "check_known (fst ` set groups) io" "concat ess"] that by blast
  have kind: "fst e \<in> set evidence_endpoint_kinds" if "e \<in> set (concat ess)" for e
  proof -
    from that obtain es where es: "es \<in> set ess" "e \<in> set es" by auto
    with relations(2) obtain x where "check_relation x = Inr es" by (auto simp: map_res_eq_Inr list_all2_conv_all_nth in_set_conv_nth)
    from check_relationD [OF this] es(2) show ?thesis by (auto dest: check_endpoint_kind)
  qed
  from one kind have "\<forall>e \<in> set (concat ess). check_known (fst ` set groups) io e = Inr () \<and> fst e \<in> set evidence_endpoint_kinds" by blast
  moreover have "fst ` set groups = int ` {..<length groups}" using gs(3) by (auto simp: atLeast0LessThan)
  moreover have "topology_read (fst ` set groups) (dget d' ''topology'')" using topology by (intro check_topologyD) simp
  moreover from coverage(3) have "set covered = fst ` set groups" by simp
  ultimately show ?thesis using sources gs(1,2) relations symbols coverage(1,2) unfolding d' not_not
    by - (intro exI conjI, assumption+)
qed

lemma validated_identity:
  assumes "validate_evidence v = Inr d"
  shows "tame (check_subject a (dget d ''artifact''))"
proof -
  from assms have "check_identity (dget d ''artifact'') = Inr ()"
    unfolding validate_evidence_def bind_res_eq_Inr if_Inl_Inr by (elim exE conjE) simp
  then obtain i where i: "ev_mapping [''id'', ''size'', ''sha256''] ''evidence artifact identity is invalid'' (dget d ''artifact'') = Inr i"
    by (auto simp: check_identity_def bind_res_eq_Inr)
  show ?thesis unfolding check_subject_def by (simp add: ev_mapping_item [OF i] tame_def)
qed

text \<open>C39 Validated evidence has no dangling references. Where evidence passes the validator, attaching it to the graph of a
  blob never fails in a lookup: every group has its coverage, every endpoint of a relation is a group, a graph input or output of the
  evidence or a DPU invariant, every name of the topology proposal has its candidates, and every group that an
  assignment or a review binds a name to was made. (The blob has its image node; a dictionary has distinct keys; and the coverage kinds of
  a review are an array, which the validator does not check.)\<close>

theorem evidence_resolves:
  assumes "validate_evidence v = Inr d" and "af_id a @ ''.elf'' \<in> set (keys (vg_nodes g))"
    and "named_once (dget d ''sources'')" and "listed_kinds (dget d ''topology'')"
  shows "\<not> (\<exists>e. attach_core_evidence schemas a v g = Inl e \<and> dangling e)"
proof -
  from validated_parts [OF assms(1)] obtain gs groups relations ess symbols io cs covered where
    sources: "py_eq (dget d ''sources'') (PDict source_contracts)"
    and gs: "ev_sequence (dget d ''groups'') = Inr gs" "fold_res check_act_group gs [] = Inr groups" "fst ` set groups = int ` {..<length groups}"
    and relations: "ev_sequence (dget d ''exact_relations'') = Inr relations" "map_res check_relation relations = Inr ess"
    and symbols: "ev_sequence (dget d ''graph_io'') = Inr symbols" "fold_res check_symbol symbols [] = Inr io"
    and known: "\<forall>e \<in> set (concat ess). check_known (fst ` set groups) io e = Inr () \<and> fst e \<in> set evidence_endpoint_kinds"
    and cs: "ev_sequence (dget d ''group_coverage'') = Inr cs" "fold_res (check_coverage groups) cs [] = Inr covered" "set covered = fst ` set groups"
    and topology: "topology_read (fst ` set groups) (dget d ''topology'')" by (elim exE conjE) (rule that, assumption+)
  have "''exact_relations'' \<in> set (keys source_contracts)" "''topology'' \<in> set (keys source_contracts)"
    by (simp_all add: source_contracts_def keys_def)
  then obtain rc tc where item: "item (dget d ''sources'') ''exact_relations'' = Inr rc" "item (dget d ''sources'') ''topology'' = Inr tc"
    using source_item [OF sources assms(3)] by blast
  from coverage_read [OF cs(2), of "[]"] obtain coverage where coverage: "fold_res add_coverage cs [] = Inr coverage"
    "\<forall>i \<in> set covered. covers coverage i" by auto
  have "af_id a @ ''.elf'' \<in> fst ` set (vg_nodes g)" using assms(2) by (simp add: keys_def)
  then obtain image where image: "entry (vg_nodes g) (af_id a @ ''.elf'') = Inr image"
    by (cases "map_of (vg_nodes g) (af_id a @ ''.elf'')") (auto simp: entry_def from_option_def map_of_eq_None_iff)
  let ?E = "\<lambda>gn. (\<lambda>i. (''act_group'', i, None)) ` set (keys gn)"
  have made: "sound (act_fold (add_group schemas a parent coverage) gs []) (\<lambda>gn. set (keys gn) = fst ` set groups)" for parent
    using sound_groups [OF gs(2), of coverage "[]"] coverage(2) cs(3) gs(3) by (auto simp: keys_def)
  have endpoints: "sound (act_fold (add_io schemas a parent) symbols (map (\<lambda>(i, n). ((''act_group'', i, None), n)) gn))
      (\<lambda>en. set io \<union> ?E gn \<subseteq> set (keys en))" for parent gn
    by (rule sound_io [OF symbols(2)]) (force simp: keys_def)
  have related: "sound (act_fold (add_relation schemas a parent (dget d ''sources'')) relations en) (\<lambda>_. True)"
    if "set io \<subseteq> set (keys en)" "(\<lambda>i. (''act_group'', i, None)) ` fst ` set groups \<subseteq> set (keys en)" for parent en
  proof (rule sound_relations [OF relations(2) _ item(1)], rule ballI)
    fix e assume "e \<in> set (concat ess)"
    with known have "check_known (fst ` set groups) io e = Inr ()" "fst e \<in> set evidence_endpoint_kinds" by blast+
    then show "known_endpoint en e" using that by (intro check_known_endpoint) simp_all
  qed
  have proposed: "sound (add_topology schemas a parent (dget d ''sources'') gn (dget d ''topology'')) (\<lambda>_. True)"
    if "set (keys gn) = fst ` set groups" for parent gn
    using topology that by (intro sound_topology [OF _ item(2) assms(4)]) simp
  have rest: "sound (act_bind (act_fold (add_group schemas a parent coverage) gs []) (\<lambda>gn.
      act_bind (act_fold (add_io schemas a parent) symbols (map (\<lambda>(i, n). ((''act_group'', i, None), n)) gn)) (\<lambda>en.
      act_bind (act_fold (add_relation schemas a parent (dget d ''sources'')) relations en) (\<lambda>_.
      add_topology schemas a parent (dget d ''sources'') gn (dget d ''topology''))))) (\<lambda>_. True)" for parent
    by (rule sound_bind [OF made], rule sound_bind [OF endpoints], rule sound_any) (auto intro: related proposed)
  have "tame (attach_core_evidence schemas a v g)"
  proof (cases "check_subject a (dget d ''artifact'')")
    case (Inl e)
    with validated_identity [OF assms(1), of a] show ?thesis
      by (simp add: attach_core_evidence_def assms(1) act_bind_def act_lift_def tame_def)
  next
    case (Inr u)
    have "attach_core_evidence schemas a v g =
      act_bind (evidence_node schemas a [] ''validated core evidence'' ''core_evidence'' (evidence_properties a d) image ''confirmed'') (\<lambda>parent.
      act_bind (act_fold (add_group schemas a parent coverage) gs []) (\<lambda>gn.
      act_bind (act_fold (add_io schemas a parent) symbols (map (\<lambda>(i, n). ((''act_group'', i, None), n)) gn)) (\<lambda>en.
      act_bind (act_fold (add_relation schemas a parent (dget d ''sources'')) relations en) (\<lambda>_.
      add_topology schemas a parent (dget d ''sources'') gn (dget d ''topology''))))) g"
      by (simp add: attach_core_evidence_def assms(1) Inr cs(1) coverage(1) gs(1) symbols(1) relations(1) act_bind_graph image)
    moreover have "sound (act_bind (evidence_node schemas a [] ''validated core evidence'' ''core_evidence'' (evidence_properties a d) image ''confirmed'') (\<lambda>parent.
      act_bind (act_fold (add_group schemas a parent coverage) gs []) (\<lambda>gn.
      act_bind (act_fold (add_io schemas a parent) symbols (map (\<lambda>(i, n). ((''act_group'', i, None), n)) gn)) (\<lambda>en.
      act_bind (act_fold (add_relation schemas a parent (dget d ''sources'')) relations en) (\<lambda>_.
      add_topology schemas a parent (dget d ''sources'') gn (dget d ''topology'')))))) (\<lambda>_. True)"
      by (intro sound_any sound_evidence_node refl rest)
    ultimately show ?thesis by (simp add: sound_def)
  qed
  then show ?thesis by (auto simp: tame_def)
qed

text \<open>The validator iterates over the coverage kinds of a review, so that it accepts a dictionary, whose lookup by position fails.\<close>

lemma mapped_kinds_dangle:
  "check_topology_review {0} 1 ''unique'' [[0]]
     (PDict [(''status'', PStr ''complete''), (''group_indices'', PList [PInt 0]), (''coverage_kinds'', PDict [(''direct_output'', PNone)])]) = Inr [0] \<and>
   binding_properties [PList []] [PList []] (Some ([0], PDict [(''direct_output'', PNone)])) 0 = Inl (KeyError ''0'')"
  by code_simp

text \<open>Evidence of one group, which reads a graph input and feeds a DPU invariant, for a graph with only the image.\<close>

definition sample_endpoint :: "string \<Rightarrow> int \<Rightarrow> pyval \<Rightarrow> pyval" where
  "sample_endpoint kind i j = PDict [(''kind'', PStr kind), (''primary_index'', PInt i), (''secondary_index'', j)]"

definition sample_relation :: "string \<Rightarrow> pyval \<Rightarrow> pyval \<Rightarrow> pyval" where
  "sample_relation kind source target =
     PDict [(''kind'', PStr kind), (''source'', source), (''destination'', target), (''evidence_count'', PInt 1)]"

definition sample_evidence :: pyval where
  "sample_evidence = PDict [(''format'', PStr evidence_format), (''version'', PInt 1),
     (''artifact'', PDict [(''id'', PStr ''a''), (''size'', PInt 6), (''sha256'', PStr (replicate 64 (CHR ''0'')))]),
     (''sources'', PDict source_contracts),
     (''groups'', PList [PDict [(''index'', PInt 0), (''invocation_indices'', PList [PInt 4]), (''range_indices'', PList [PInt 2]),
        (''input_count'', PInt 1), (''input_dtypes'', PNone), (''output_dtype'', PNone), (''input_element_counts'', PNone),
        (''output_element_count'', PNone), (''scalar_input_indices'', PNone)]]),
     (''group_coverage'', PList [PDict [(''group_index'', PInt 0), (''invocation_count'', PInt 1),
        (''kinds'', PDict (map (\<lambda>k. (k, PDict [(''state'', PStr ''complete''), (''unresolved'', PList [])])) evidence_coverage_kinds)),
        (''properties'', PDict [])]]),
     (''exact_relations'', PList
        [sample_relation ''graph_input_to_act_via_dma'' (sample_endpoint ''graph_input'' 7 (PInt 5)) (sample_endpoint ''act_group'' 0 PNone),
         sample_relation ''act_to_dpu'' (sample_endpoint ''act_group'' 0 PNone) (sample_endpoint ''dpu_invariant'' 3 PNone)]),
     (''graph_io'', PList [PDict [(''kind'', PStr ''input''), (''symbol_table_index'', PInt 5), (''symbol_index'', PInt 7),
        (''size_bytes'', PInt 4), (''name'', PStr ''x'')]]),
     (''topology'', PDict [(''status'', PStr ''unique''), (''reason'', PStr ''r''), (''names'', PList [PStr ''n'']),
        (''contract_candidates'', PList [PList [PInt 0]]), (''viable_candidates'', PList [PList [PInt 0]]),
        (''assignments'', PList [PList [PInt 0]]), (''truncated'', PBool False),
        (''review'', PDict [(''status'', PStr ''complete''), (''group_indices'', PList [PInt 0]), (''coverage_kinds'', PList [PStr ''dpu_consumer''])])])]"

definition evidence_schemas :: viz_schemas where
  "evidence_schemas = \<lparr>vs_elf = PDict [], vs_npu = PDict [(''nodes'', PDict
     (map (\<lambda>k. (k, PDict [(''kind'', PStr k), (''category'', PStr ''metadata''), (''description'', PStr ''d'')]))
       [''core_evidence'', ''act_group'', ''graph_input'', ''dpu_endpoint'', ''topology_proposal'', ''topology_binding'']))]\<rparr>"

definition evidence_artifact :: artifact where
  "evidence_artifact = sample_file\<lparr>af_sha256 := replicate 64 (CHR ''0'')\<rparr>"

definition image_graph :: artifact_graph where
  "image_graph = \<lparr>vg_title = ''t'', vg_artifacts = [], vg_nodes = [(''a.elf'', \<lparr>gn_id = ''a.elf'', gn_label = ''i'', gn_kind = ''k'',
     gn_category = ''metadata'', gn_spans = [], gn_properties = [], gn_fields = [], gn_addresses = [], gn_description = None,
     gn_confidence = None, gn_scope = None, gn_relevance = None, gn_contributes = False\<rparr>)],
     vg_links = [], vg_parents = [], vg_categories = map (\<lambda>c. (cg_id c, c)) default_categories\<rparr>"

theorem evidence_resolves_witness:
  "\<not> (\<exists>e. attach_core_evidence evidence_schemas evidence_artifact sample_evidence image_graph = Inl e \<and> dangling e) \<and>
   (case attach_core_evidence evidence_schemas evidence_artifact sample_evidence image_graph of
      Inr (_, g) \<Rightarrow> keys (vg_nodes g) = [''a.elf'', ''a.evidence'', ''a.evidence.act-group.0'', ''a.evidence.graph-input.5.7'',
        ''a.evidence.dpu-invariant.3'', ''a.evidence.topology'', ''a.evidence.topology.binding.0''] \<and>
        map lk_kind (vg_links g) = [''graph_input_to_act_via_dma'', ''act_to_dpu'', ''reviewed_group_assignment'']
    | Inl _ \<Rightarrow> False)"
proof
  have "isl (validate_evidence sample_evidence) = False" by code_simp
  then obtain d where d: "validate_evidence sample_evidence = Inr d" by (cases "validate_evidence sample_evidence") auto
  then have items: "PDict d = sample_evidence"
    by (auto simp: validate_evidence_def ev_mapping_def bind_res_eq_Inr if_Inl_Inr split: pyval.splits)
  have "case sample_evidence of PDict d \<Rightarrow> named_once (dget d ''sources'') \<and> listed_kinds (dget d ''topology'') | _ \<Rightarrow> True" by code_simp
  then have "named_once (dget d ''sources'')" "listed_kinds (dget d ''topology'')" by (simp_all flip: items)
  moreover have "af_id evidence_artifact @ ''.elf'' \<in> set (keys (vg_nodes image_graph))" by code_simp
  ultimately show "\<not> (\<exists>e. attach_core_evidence evidence_schemas evidence_artifact sample_evidence image_graph = Inl e \<and> dangling e)"
    by (intro evidence_resolves [OF d])
qed code_simp

end
