(* ===== verification/Native_Records.thy ===== *)
theory Native_Records
  imports Elf_Graph
begin

text \<open>
  The records of a compiled NPU graph in its artifact graph (\<open>viz/npunlock.py\<close>): compatibility and version notes, DMA tasks
  and DPU invariants, ACT ranges and invocations, and the parameter blocks of the invocations. Where the code computes
  with a decoded field, the field holds an integer; a value map that makes it something else raises here.
\<close>

section \<open>Native metadata\<close>

text \<open>\<open>token.partition("=")\<close> of the tokens between semicolons, with their positions\<close>

fun split_tokens :: "bytes \<Rightarrow> bytes list" where
  "split_tokens [] = [[]]"
| "split_tokens (b # bs) =
     (if b = 0x3B then [] # split_tokens bs
      else case split_tokens bs of t # ts \<Rightarrow> (b # t) # ts | [] \<Rightarrow> [[b]])"

text \<open>The loop ends at the end of the content: a final empty token is not read.\<close>

definition content_tokens :: "bytes \<Rightarrow> bytes list" where
  "content_tokens bs = (let ts = split_tokens bs in if last ts = [] then butlast ts else ts)"

definition add_token ::
  "viz_schemas \<Rightarrow> artifact \<Rightarrow> int \<Rightarrow> bytes \<Rightarrow> int \<times> (string \<times> gfield) list \<Rightarrow> (int \<times> (string \<times> gfield) list) res" where
  "add_token vs a start token = (\<lambda>(cursor, fs).
     let stop = cursor + int (length token);
         (key, delimiter, v) = partition_str (CHR ''='') (decode_replace token);
         field_id = (if delimiter \<and> key \<notin> set (keys fs) then key else ''token_'' @ nat_str (length fs)) in
     bind_res (lookup (vs_npu vs) ''compatibility_fields'' key
       (PStr ''Unrecognized compatibility token preserved without interpretation.'')) (\<lambda>description.
     bind_res (plain_span a (start + cursor) (start + stop)) (\<lambda>ss.
     bind_res (Field (PStr (if delimiter then v else decode_replace token)) ss PNone description PNone PNone PNone PNone) (\<lambda>f.
     Inr (stop + 1, dict_set field_id f fs)))))"

definition compatibility_fields :: "viz_schemas \<Rightarrow> artifact \<Rightarrow> int \<Rightarrow> bytes \<Rightarrow> (string \<times> gfield) list res" where
  "compatibility_fields vs a start payload =
     (let content = (if payload \<noteq> [] \<and> last payload = 0 then butlast payload else payload) in
      bind_res (fold_res (add_token vs a start) (content_tokens content) (0, [])) (\<lambda>(_, fs). Inr fs))"

definition add_compatibility :: "viz_schemas \<Rightarrow> artifact \<Rightarrow> bytes \<Rightarrow> elf_file \<Rightarrow> section_nodes \<Rightarrow> string \<Rightarrow> unit act" where
  "add_compatibility vs a data elf nodes prefix =
     (case find_section elf ''compatibility_string'' of
        None \<Rightarrow> act_return ()
      | Some s \<Rightarrow>
          if es_size s = 0 then act_return ()
          else
            act_bind (act_lift (compatibility_fields vs a (es_offset s) (byte_slice data (es_offset s) (es_offset s + es_size s)))) (\<lambda>fs.
            act_bind (act_lift (plain_span a (es_offset s) (es_offset s + es_size s))) (\<lambda>spans.
            act_bind (act_lift (entry nodes (int (es_index s)))) (\<lambda>parent.
            act_bind (act_lift (node_metadata (vs_npu vs) ''compatibility'')) (\<lambda>m.
            act_bind (act_node (entity_args (prefix @ ''.compatibility'') ''native compatibility'' m
              \<lparr>na_spans := spans, na_fields := ready_fields fs, na_parent := Some (NodeRef parent)\<rparr>)) (\<lambda>_.
            act_return ()))))))"

text \<open>A section of a fixed size that is one record\<close>

definition add_record_section ::
  "viz_schemas \<Rightarrow> artifact \<Rightarrow> bytes \<Rightarrow> elf_file \<Rightarrow> section_nodes \<Rightarrow> string \<Rightarrow> int \<Rightarrow> (elf_section \<Rightarrow> string) \<Rightarrow> string \<Rightarrow> string \<Rightarrow> unit act" where
  "add_record_section vs a data elf nodes name n node_id label record_name =
     (case find_section elf name of
        None \<Rightarrow> act_return ()
      | Some s \<Rightarrow>
          if es_size s \<noteq> n then act_return ()
          else
            act_bind (act_lift (plain_span a (es_offset s) (es_offset s + es_size s))) (\<lambda>spans.
            act_bind (act_lift (decode_record_fields (vs_npu vs) record_name a data (PInt (es_offset s)) [])) (\<lambda>fs.
            act_bind (act_lift (entry nodes (int (es_index s)))) (\<lambda>parent.
            act_bind (act_lift (node_metadata (vs_npu vs) record_name)) (\<lambda>m.
            act_bind (act_node (entity_args (node_id s) label m
              \<lparr>na_spans := spans, na_fields := ready_fields fs, na_parent := Some (NodeRef parent)\<rparr>)) (\<lambda>_.
            act_return ()))))))"

definition annotate_native_metadata :: "viz_schemas \<Rightarrow> artifact \<Rightarrow> bytes \<Rightarrow> elf_file \<Rightarrow> section_nodes \<Rightarrow> string \<Rightarrow> unit act" where
  "annotate_native_metadata vs a data elf nodes prefix =
     act_bind (add_compatibility vs a data elf nodes prefix) (\<lambda>_.
     act_bind (add_record_section vs a data elf nodes ''.note.LoaderABIVersion'' 32
       (\<lambda>s. prefix @ ''.version-note.'' @ nat_str (es_index s)) ''loader ABI version'' ''version_note'') (\<lambda>_.
     act_bind (add_record_section vs a data elf nodes ''.note.MappedInferenceVersion'' 32
       (\<lambda>s. prefix @ ''.version-note.'' @ nat_str (es_index s)) ''mapped-inference version'' ''version_note'') (\<lambda>_.
     add_record_section vs a data elf nodes ''.meta.PlatformInfo'' 40
       (\<lambda>_. prefix @ ''.platform-info'') ''NPU platform contract'' ''platform_info'')))"

section \<open>DMA tasks and DPU invariants\<close>

text \<open>\<open>_with_field_properties\<close> and \<open>_mark_fields_irrelevant\<close>\<close>

definition irrelevant_field :: "string \<Rightarrow> gfield \<Rightarrow> gfield res" where
  "irrelevant_field scope f =
     Field (fd_value f) (fd_spans f) (opt_val (fd_display f)) (opt_val (fd_description f))
       (PDict (dict_set ''scope'' (PStr scope) (dict_set ''relevance'' (PStr ''irrelevant'') (fd_properties f)))) PNone PNone PNone"

definition mark_irrelevant :: "string list \<Rightarrow> string \<Rightarrow> (string \<times> gfield) list \<Rightarrow> (string \<times> gfield) list res" where
  "mark_irrelevant names scope fs =
     fold_res (\<lambda>name fs. bind_res (entry fs name) (\<lambda>f. bind_res (irrelevant_field scope f) (\<lambda>f'. Inr (dict_set name f' fs)))) names fs"

definition type0_fields :: "string list" where
  "type0_fields = [''type1_source_width'', ''type1_source_stride'', ''type1_destination_width'', ''type1_destination_stride'',
     ''type1_post_mask'', ''type1_wait_mask'']"

definition type1_fields :: "string list" where
  "type1_fields = [''type0_post_or_type1_source_width'', ''type0_wait_or_type1_destination_width'']"

definition dma_fields :: "int \<Rightarrow> (string \<times> gfield) list \<Rightarrow> (string \<times> gfield) list res" where
  "dma_fields transfer_type fs =
     (if transfer_type = 0 then mark_irrelevant type0_fields ''not applicable to DMA transfer type 0'' fs
      else if transfer_type = 1
      then mark_irrelevant type1_fields ''redundant packed view; decomposed DMA type-1 fields are authoritative'' fs
      else Inr fs)"

definition dma_prefix :: string where
  "dma_prefix = ''.text.dmaTasks''"

definition dma_suffix :: "elf_section \<Rightarrow> string" where
  "dma_suffix s = (if startswith (es_name s) dma_prefix then drop (length dma_prefix) (es_name s) else es_name s)"

definition is_dma_section :: "elf_section \<Rightarrow> bool" where
  "is_dma_section s \<longleftrightarrow> startswith (es_name s) dma_prefix \<and> dma_suffix s \<noteq> [] \<and> list_all is_digit (dma_suffix s) \<and> es_size s mod 0x80 = 0"

type_synonym record_nodes = "((nat \<times> nat) \<times> gnode) list"

definition add_dma_task ::
  "viz_schemas \<Rightarrow> artifact \<Rightarrow> bytes \<Rightarrow> section_nodes \<Rightarrow> string \<Rightarrow> elf_section \<Rightarrow> nat \<Rightarrow> record_nodes \<Rightarrow> record_nodes act" where
  "add_dma_task vs a data nodes prefix s index result =
     (let offset = es_offset s + int index * 0x80 in
      act_bind (act_lift (decode_record_fields (vs_npu vs) ''dma_task'' a data (PInt offset) [])) (\<lambda>fs0.
      act_bind (act_lift (bind_res (field_value fs0 ''config'') int_value)) (\<lambda>config.
      act_bind (act_lift (field_value fs0 ''planes_and_task_id'')) (\<lambda>planes.
      act_bind (act_lift (dma_fields (config mod 4) fs0)) (\<lambda>fs.
      act_bind (act_lift (plain_span a offset (offset + 0x80))) (\<lambda>spans.
      act_bind (act_lift (int_value planes)) (\<lambda>planes_and_id.
      act_bind (act_lift (entry nodes (int (es_index s)))) (\<lambda>parent.
      act_bind (act_lift (node_metadata (vs_npu vs) ''dma_task'')) (\<lambda>m.
      act_bind (act_node (entity_args (prefix @ ''.dma.'' @ nat_str (es_index s) @ ''.'' @ nat_str index)
          (''DMA engine '' @ dma_suffix s @ dot @ ''task '' @ nat_str index) m
          \<lparr>na_spans := spans, na_fields := ready_fields fs,
           na_properties := PDict [(''engine_index'', PInt (int (str_nat (dma_suffix s)))), (''task_index'', PInt (int index)),
             (''transfer_type'', PInt (config mod 4)), (''plane_count'', PInt (planes_and_id mod 256)),
             (''task_id'', PInt (planes_and_id div 256))],
           na_parent := Some (NodeRef parent)\<rparr>)) (\<lambda>n.
      act_return (dict_set (es_index s, index) n result)))))))))))"

definition add_dma_tasks ::
  "viz_schemas \<Rightarrow> artifact \<Rightarrow> bytes \<Rightarrow> section_nodes \<Rightarrow> string \<Rightarrow> elf_section \<Rightarrow> record_nodes \<Rightarrow> record_nodes act" where
  "add_dma_tasks vs a data nodes prefix s result =
     (if is_dma_section s then act_fold (add_dma_task vs a data nodes prefix s) (entries s 0x80) result else act_return result)"

definition add_invariant ::
  "viz_schemas \<Rightarrow> artifact \<Rightarrow> bytes \<Rightarrow> section_nodes \<Rightarrow> string \<Rightarrow> elf_section \<Rightarrow> nat \<Rightarrow> record_nodes \<Rightarrow> record_nodes act" where
  "add_invariant vs a data nodes prefix s index result =
     (let offset = es_offset s + int index * 0x130 in
      act_bind (act_lift (plain_span a offset (offset + 0x130))) (\<lambda>spans.
      act_bind (act_lift (decode_record_fields (vs_npu vs) ''dpu_invariant'' a data (PInt offset) [])) (\<lambda>fs.
      act_bind (act_lift (entry nodes (int (es_index s)))) (\<lambda>parent.
      act_bind (act_lift (node_metadata (vs_npu vs) ''dpu_invariant'')) (\<lambda>m.
      act_bind (act_node (entity_args (prefix @ ''.dpu-invariant.'' @ nat_str index) (''DPU invariant '' @ nat_str index) m
          \<lparr>na_spans := spans, na_fields := ready_fields fs, na_properties := PDict [(''invariant_index'', PInt (int index))],
           na_parent := Some (NodeRef parent)\<rparr>)) (\<lambda>n.
      act_return (dict_set (es_index s, index) n result)))))))"

definition record_stride :: "elf_section option \<Rightarrow> elf_section \<Rightarrow> int" where
  "record_stride invariants target =
     (if startswith (es_name target) dma_prefix then 0x80
      else case invariants of Some i \<Rightarrow> if es_index target = es_index i then 0x130 else 0 | None \<Rightarrow> 0)"

text \<open>The record a relocation patches, where there is one.\<close>

definition patched_record :: "elf_file \<Rightarrow> elf_section option \<Rightarrow> record_nodes \<Rightarrow> elf_section \<Rightarrow> int \<Rightarrow> gnode option" where
  "patched_record elf invariants records s target_offset =
     (case elf_section_at elf (es_info s) of
        None \<Rightarrow> None
      | Some target \<Rightarrow>
          let stride = record_stride invariants target in
          if stride \<noteq> 0 \<and> target_offset < es_size target then map_of records (es_index target, nat (target_offset div stride)) else None)"

definition link_patched ::
  "viz_schemas \<Rightarrow> elf_file \<Rightarrow> elf_section option \<Rightarrow> record_nodes \<Rightarrow> relocation_nodes \<Rightarrow> elf_section \<Rightarrow> relocation \<Rightarrow> unit \<Rightarrow> unit act" where
  "link_patched vs elf invariants records relocation_nodes s = (\<lambda>(index, target_offset, _, _, _) _.
     case patched_record elf invariants records s target_offset of
       None \<Rightarrow> act_return ()
     | Some target \<Rightarrow>
         act_bind (act_lift (entry relocation_nodes (es_index s, index))) (\<lambda>r. act_link vs (NodeRef r) (NodeRef target) ''patches_field'' PNone))"

definition annotate_routing_records ::
  "viz_schemas \<Rightarrow> artifact \<Rightarrow> bytes \<Rightarrow> elf_file \<Rightarrow> section_nodes \<Rightarrow> relocation_nodes \<Rightarrow> string \<Rightarrow> unit act" where
  "annotate_routing_records vs a data elf nodes relocation_nodes prefix =
     (let invariants = find_section elf ''.text.DPUInvariants'' in
      act_bind (act_fold (add_dma_tasks vs a data nodes prefix) (ef_sections elf) []) (\<lambda>dma.
      act_bind (case invariants of
          None \<Rightarrow> act_return dma
        | Some s \<Rightarrow> if es_size s mod 0x130 = 0 then act_fold (add_invariant vs a data nodes prefix s) (entries s 0x130) dma else act_return dma) (\<lambda>records.
      act_fold (\<lambda>s _. act_bind (act_lift (relocations data elf s)) (\<lambda>rs.
        act_fold (link_patched vs elf invariants records relocation_nodes s) rs ())) (ef_sections elf) ())))"

section \<open>What they keep\<close>

lemma irrelevant_field_wf: "irrelevant_field scope f = Inr f' \<Longrightarrow> wf_field f \<Longrightarrow> wf_field f'"
  unfolding irrelevant_field_def by (erule Field_wf) (simp add: wf_field_def)

lemma good_fields_entry: "good_fields fs \<Longrightarrow> entry fs k = Inr f \<Longrightarrow> wf_field f"
  by (auto simp: good_fields_def entry_def from_option_eq_Inr list_all_iff dest!: map_of_SomeD)

lemma mark_irrelevant_good: "mark_irrelevant names scope fs = Inr fs' \<Longrightarrow> good_fields fs \<Longrightarrow> good_fields fs'"
  unfolding mark_irrelevant_def
  by (rule fold_res_invariant [where P = good_fields], assumption+)
    (auto simp: bind_res_eq_Inr intro!: good_fields_set dest: good_fields_entry irrelevant_field_wf)

lemma dma_fields_good: "dma_fields t fs = Inr fs' \<Longrightarrow> good_fields fs \<Longrightarrow> good_fields fs'"
  by (auto simp: dma_fields_def dest: mark_irrelevant_good split: if_splits)

lemma compatibility_fields_good: "compatibility_fields vs a start payload = Inr fs \<Longrightarrow> good_fields fs"
proof -
  assume "compatibility_fields vs a start payload = Inr fs"
  then obtain cursor tokens where "fold_res (add_token vs a start) tokens (0, []) = Inr (cursor, fs)"
    by (auto simp: compatibility_fields_def Let_def bind_res_eq_Inr)
  moreover have "good_fields (snd s')" if "good_fields (snd s)" "add_token vs a start token s = Inr s'" for token s s'
    using that
    by (auto simp: add_token_def Let_def bind_res_eq_Inr split_def dest!: plain_span_wf intro!: good_fields_set Field_wf)
  ultimately show "good_fields fs"
    using fold_res_invariant [where P = "\<lambda>s. good_fields (snd s)" and f = "add_token vs a start"] by fastforce
qed

lemma keeps_native_metadata [keeps_rules]: "V = (\<lambda>_. True) \<Longrightarrow> keeps fs (annotate_native_metadata vs a data elf nodes prefix) V"
  unfolding annotate_native_metadata_def add_compatibility_def add_record_section_def
  by (hypsubst, intro keeps_lift_bind keeps_rules) (auto dest!: made compatibility_fields_good)

lemma keeps_dma_task: "keeps fs (add_dma_task vs a data nodes prefix s index result) (\<lambda>_. True)"
  unfolding add_dma_task_def Let_def by (intro keeps_lift_bind keeps_rules) (auto dest!: made dma_fields_good)

lemma keeps_invariant: "keeps fs (add_invariant vs a data nodes prefix s index result) (\<lambda>_. True)"
  unfolding add_invariant_def Let_def by (intro keeps_lift_bind keeps_rules) (auto dest!: made)

lemma keeps_link_patched: "keeps fs (link_patched vs elf invariants records relocation_nodes s r u) (\<lambda>_. True)"
  unfolding link_patched_def split_def by (intro keeps_lift_bind keeps_rules) auto

lemma keeps_routing [keeps_rules]: "V = (\<lambda>_. True) \<Longrightarrow> keeps fs (annotate_routing_records vs a data elf nodes relocation_nodes prefix) V"
  unfolding annotate_routing_records_def add_dma_tasks_def Let_def
  by (hypsubst, intro keeps_lift_bind keeps_dma_task keeps_invariant keeps_link_patched keeps_rules) auto

end
