(* ===== verification/Parameter_Records.thy ===== *)
theory Parameter_Records
  imports Native_Records
begin

text \<open>
  The parameter blocks of ACT invocations (\<open>viz/npunlock.py\<close>, \<open>_annotate_parameter_records\<close>): which block an invocation
  selects, the tensor records in it, and the dimension and stride arrays they point to.
\<close>

section \<open>Relocations of the parameters\<close>

text \<open>\<open>d.setdefault(k, []).append(v)\<close> and \<open>d.get(k, [])\<close>\<close>

definition dict_append :: "'k \<Rightarrow> 'v \<Rightarrow> ('k \<times> 'v list) list \<Rightarrow> ('k \<times> 'v list) list" where
  "dict_append k v d = dict_set k ((case map_of d k of None \<Rightarrow> [] | Some vs \<Rightarrow> vs) @ [v]) d"

definition get_list :: "('k \<times> 'v list) list \<Rightarrow> 'k \<Rightarrow> 'v list" where
  "get_list d k = (case map_of d k of None \<Rightarrow> [] | Some vs \<Rightarrow> vs)"

text \<open>The section, index and symbol of a relocation with its addend, by the offset it patches\<close>

type_synonym parameter_relocation = "nat \<times> nat \<times> int \<times> int"

type_synonym parameter_relocations = "(int \<times> parameter_relocation list) list"

type_synonym invocation_relocation = "nat \<times> nat \<times> int"

type_synonym invocation_relocations = "(int \<times> invocation_relocation list) list"

definition add_parameter_relocation :: "elf_section \<Rightarrow> relocation \<Rightarrow> parameter_relocations \<Rightarrow> parameter_relocations" where
  "add_parameter_relocation s = (\<lambda>(index, target, y, kind, addend) d.
     if kind = 4 then dict_append target (es_index s, index, y, addend) d else d)"

definition add_invocation_relocation ::
  "symbol_table \<Rightarrow> elf_section \<Rightarrow> elf_section \<Rightarrow> relocation \<Rightarrow> invocation_relocations \<Rightarrow> invocation_relocations" where
  "add_invocation_relocation symbols params s = (\<lambda>(index, target, y, kind, addend) d.
     case map_of symbols (es_link s, y) of
       Some (_, section_index, _) \<Rightarrow>
         if kind = 4 \<and> section_index = int (es_index params) then dict_append target (es_index s, index, addend) d else d
     | None \<Rightarrow> d)"

definition collect_relocations ::
  "bytes \<Rightarrow> elf_file \<Rightarrow> symbol_table \<Rightarrow> elf_section \<Rightarrow> elf_section \<Rightarrow> elf_section \<Rightarrow> parameter_relocations \<times> invocation_relocations \<Rightarrow>
     (parameter_relocations \<times> invocation_relocations) res" where
  "collect_relocations data elf symbols params invocations s = (\<lambda>(pr, ir).
     bind_res (relocations data elf s) (\<lambda>rs.
     Inr (if es_info s = int (es_index params) then (fold (add_parameter_relocation s) rs pr, ir)
       else if es_info s = int (es_index invocations) then (pr, fold (add_invocation_relocation symbols params s) rs ir)
       else (pr, ir))))"

text \<open>The parameter block an invocation selects, where it selects exactly one inside the section\<close>

definition parameter_base :: "elf_section \<Rightarrow> invocation_relocations \<Rightarrow> nat \<Rightarrow> (nat \<times> invocation_relocation) list" where
  "parameter_base params ir invocation =
     (case get_list ir (int invocation * 0x40 + 4) of
        [m] \<Rightarrow> (case m of (_, _, addend) \<Rightarrow> if 0 \<le> addend \<and> addend < es_size params then [(invocation, m)] else [])
      | _ \<Rightarrow> [])"

definition parameter_bases :: "elf_section \<Rightarrow> invocation_relocations \<Rightarrow> nat \<Rightarrow> (nat \<times> invocation_relocation) list" where
  "parameter_bases params ir n = concat (map (parameter_base params ir) [0..<n])"

text \<open>The end of a block: the next block, or the end of the section\<close>

definition block_limit :: "elf_section \<Rightarrow> (nat \<times> invocation_relocation) list \<Rightarrow> int \<Rightarrow> int" where
  "block_limit params bases base =
     (case filter (\<lambda>c. base < c) (sort (remdups (map (\<lambda>(_, _, _, addend). addend) bases))) of
        [] \<Rightarrow> es_size params
      | c # _ \<Rightarrow> c)"

text \<open>The data relocation of a tensor record: the only special one at its offset\<close>

definition special_relocation :: "elf_file \<Rightarrow> parameter_relocations \<Rightarrow> int \<Rightarrow> parameter_relocation option res" where
  "special_relocation elf pr offset =
     bind_res (map_res (\<lambda>m. bind_res (from_option IndexError (elf_section_at elf (int (fst m)))) (\<lambda>s. Inr (m, s))) (get_list pr offset)) (\<lambda>ms.
     Inr (case filter (\<lambda>(_, s). es_link s = 0xFF20) ms of [(m, _)] \<Rightarrow> Some m | _ \<Rightarrow> None))"

text \<open>The loop over the records of a block. It ends at the first offset without a special relocation, at the latest after
  as many steps as there are offsets with relocations.\<close>

fun record_relocations :: "nat \<Rightarrow> elf_file \<Rightarrow> parameter_relocations \<Rightarrow> int \<Rightarrow> parameter_relocation list res" where
  "record_relocations 0 elf pr offset = Inr []"
| "record_relocations (Suc k) elf pr offset =
     bind_res (special_relocation elf pr offset) (\<lambda>r.
     case r of
       None \<Rightarrow> Inr []
     | Some m \<Rightarrow> bind_res (record_relocations k elf pr (offset + 0x28)) (\<lambda>ms. Inr (m # ms)))"

definition block_records :: "elf_file \<Rightarrow> parameter_relocations \<Rightarrow> int \<Rightarrow> parameter_relocation list res" where
  "block_records elf pr base = record_relocations (Suc (length pr)) elf pr base"

section \<open>Arrays\<close>

text \<open>\<open>rank\<close> as a number and in an f-string, where it is an \<open>int\<close>\<close>

definition rank_number :: "pyval \<Rightarrow> (int \<times> string) option" where
  "rank_number v = (case v of PInt i \<Rightarrow> Some (i, int_str i) | PBool b \<Rightarrow> Some (of_bool b, if b then ''True'' else ''False'') | _ \<Rightarrow> None)"

record array_kind =
  ak_name :: string
  ak_pointer :: int
  ak_record :: string
  ak_node :: string
  ak_item_size :: int

definition array_kinds :: "array_kind list" where
  "array_kinds =
     [\<lparr>ak_name = ''dimensions'', ak_pointer = 0x10, ak_record = ''dimension_entry'', ak_node = ''dimension_array'', ak_item_size = 4\<rparr>,
      \<lparr>ak_name = ''strides'', ak_pointer = 0x14, ak_record = ''stride_entry'', ak_node = ''stride_array'', ak_item_size = 8\<rparr>]"

type_synonym array_nodes = "((string \<times> int \<times> int) \<times> gnode) list"

text \<open>What a tensor's arrays add up to: the nodes made so far, the resolved arrays, and their values\<close>

record resolved_arrays =
  rv_nodes :: array_nodes
  rv_arrays :: "(string \<times> gnode \<times> nat \<times> nat) list"
  rv_values :: "(string \<times> int list) list"

definition axis_fields :: "viz_schemas \<Rightarrow> artifact \<Rightarrow> bytes \<Rightarrow> array_kind \<Rightarrow> int \<Rightarrow> nat \<Rightarrow> (string \<times> gfield) list res" where
  "axis_fields vs a data kind start rank =
     fold_res (\<lambda>axis fs.
       bind_res (decode_record_fields (vs_npu vs) (ak_record kind) a data (PInt (start + int axis * ak_item_size kind)) []) (\<lambda>decoded.
       bind_res (entry decoded ''value'') (\<lambda>f. Inr (dict_set (''axis_'' @ nat_str axis) f fs)))) [0..<rank] []"

definition normal_relocations :: "elf_file \<Rightarrow> symbol_table \<Rightarrow> elf_section \<Rightarrow> parameter_relocation list \<Rightarrow> parameter_relocation list res" where
  "normal_relocations elf symbols params ms =
     bind_res (map_res (\<lambda>m. bind_res (from_option IndexError (elf_section_at elf (int (fst m)))) (\<lambda>s. Inr (m, s))) ms) (\<lambda>ms.
     Inr (map fst (filter (\<lambda>((_, _, y, _), s).
       case map_of symbols (es_link s, y) of Some (_, i, _) \<Rightarrow> i = int (es_index params) | None \<Rightarrow> False) ms)))"

definition array_node ::
  "viz_schemas \<Rightarrow> artifact \<Rightarrow> bytes \<Rightarrow> section_nodes \<Rightarrow> string \<Rightarrow> elf_section \<Rightarrow> pyval \<Rightarrow> int \<times> string \<Rightarrow> array_kind \<Rightarrow> int \<Rightarrow> array_nodes \<Rightarrow>
     (gnode \<times> array_nodes) act" where
  "array_node vs a data nodes prefix params rank = (\<lambda>(r, r_text) kind addend arrays.
     case map_of arrays (ak_name kind, addend, r) of
       Some n \<Rightarrow> act_return (n, arrays)
     | None \<Rightarrow>
         act_bind (act_lift (axis_fields vs a data kind (es_offset params + addend) (nat r))) (\<lambda>fs.
         act_bind (act_lift (plain_span a (es_offset params + addend) (es_offset params + addend + r * ak_item_size kind))) (\<lambda>spans.
         act_bind (act_lift (entry nodes (int (es_index params)))) (\<lambda>parent.
         act_bind (act_lift (node_metadata (vs_npu vs) (ak_node kind))) (\<lambda>m.
         act_bind (act_node (entity_args (prefix @ ''.parameters.'' @ ak_name kind @ ''.'' @ hex_nat (nat addend) @ ''.'' @ r_text)
             (ak_name kind @ dot @ ''rank '' @ r_text) m
             \<lparr>na_spans := spans, na_fields := ready_fields fs,
              na_properties := PDict [(''parameter_offset'', PInt addend), (''rank'', rank)],
              na_parent := Some (NodeRef parent)\<rparr>)) (\<lambda>n.
         act_return (n, dict_set (ak_name kind, addend, r) n arrays)))))))"

definition resolve_array ::
  "viz_schemas \<Rightarrow> artifact \<Rightarrow> bytes \<Rightarrow> elf_file \<Rightarrow> section_nodes \<Rightarrow> string \<Rightarrow> symbol_table \<Rightarrow> elf_section \<Rightarrow> parameter_relocations \<Rightarrow> int \<Rightarrow> pyval \<Rightarrow>
     array_kind \<Rightarrow> resolved_arrays \<Rightarrow> resolved_arrays act" where
  "resolve_array vs a data elf nodes prefix symbols params pr relative rank kind rv =
     act_bind (act_lift (normal_relocations elf symbols params (get_list pr (relative + ak_pointer kind)))) (\<lambda>normal.
     case (rank_number rank, normal) of
       (Some (r, r_text), [(section, index, _, addend)]) \<Rightarrow>
         if \<not> (1 \<le> r \<and> r \<le> 15) \<or> addend < 0 \<or> es_size params < addend \<or> es_size params - addend < r * ak_item_size kind then act_return rv
         else
           act_bind (array_node vs a data nodes prefix params rank (r, r_text) kind addend (rv_nodes rv)) (\<lambda>(n, arrays).
           act_bind (act_lift (map_res (\<lambda>(_, f). int_value (fd_value f)) (gn_fields n))) (\<lambda>values.
           act_return (rv\<lparr>rv_nodes := arrays, rv_arrays := rv_arrays rv @ [(ak_name kind, n, section, index)],
             rv_values := dict_set (ak_name kind) values (rv_values rv)\<rparr>)))
     | _ \<Rightarrow> act_return rv)"

section \<open>The shape of a tensor\<close>

definition element_sizes :: "(int \<times> int) list" where
  "element_sizes = [(1, 4), (2, 2), (5, 4), (6, 2), (7, 1), (9, 4), (10, 2), (11, 1)]"

text \<open>The loop over the axes longer than one, by increasing stride: dense where each stride is the extent below it\<close>

fun dense_axes :: "int list \<Rightarrow> int list \<Rightarrow> nat list \<Rightarrow> int \<Rightarrow> bool" where
  "dense_axes dims strides [] expected = True"
| "dense_axes dims strides (axis # axes) expected =
     (if strides ! axis \<noteq> expected then False else dense_axes dims strides axes (expected * dims ! axis))"

definition dense_layout :: "int list \<Rightarrow> int list \<Rightarrow> int \<Rightarrow> bool" where
  "dense_layout dims strides bits \<longleftrightarrow> list_all (\<lambda>d. 0 < d) dims \<and>
     dense_axes dims strides (sort_key (\<lambda>axis. strides ! axis) (filter (\<lambda>axis. 1 < dims ! axis) [0..<length dims])) bits"

definition int_list :: "int list \<Rightarrow> pyval" where
  "int_list xs = PList (map PInt xs)"

definition shape_properties :: "int list option \<Rightarrow> int list option \<Rightarrow> int \<Rightarrow> (string \<times> pyval) list" where
  "shape_properties dims strides dtype =
     (case (dims, strides, map_of element_sizes dtype) of
        (Some ds, Some ss, Some esize) \<Rightarrow>
          if ds = [] \<or> ss = [] \<or> length ds \<noteq> length ss then []
          else
            let valid = list_all (\<lambda>d. 0 < d) ds in
            [(''dimensions'', int_list ds), (''strides_bits'', int_list ss),
             (''element_count'', if valid then PInt (prod_list ds) else PNone),
             (''span_bytes'', if valid then PInt (prod_list ds * esize) else PNone),
             (''dense_layout'', PBool (dense_layout ds ss (esize * 8)))]
      | _ \<Rightarrow> [])"

section \<open>Blocks\<close>

definition link_array :: "viz_schemas \<Rightarrow> relocation_nodes \<Rightarrow> gnode \<Rightarrow> string \<times> gnode \<times> nat \<times> nat \<Rightarrow> unit \<Rightarrow> unit act" where
  "link_array vs relocation_nodes tensor = (\<lambda>(kind, n, section, index) _.
     act_bind (act_link vs (NodeRef tensor) (NodeRef n) (''uses_'' @ kind) PNone) (\<lambda>_.
     act_bind (act_lift (entry relocation_nodes (section, index))) (\<lambda>r.
     act_link vs (NodeRef r) (NodeRef n) (''resolves_'' @ kind) PNone)))"

text \<open>What the code of a block uses throughout\<close>

record parameter_context =
  pc_schemas :: viz_schemas
  pc_artifact :: artifact
  pc_data :: bytes
  pc_elf :: elf_file
  pc_sections :: section_nodes
  pc_relocations :: relocation_nodes
  pc_prefix :: string
  pc_params :: elf_section
  pc_symbols :: symbol_table
  pc_found :: parameter_relocations

definition add_tensor ::
  "parameter_context \<Rightarrow> gnode \<Rightarrow> nat \<Rightarrow> int \<Rightarrow> nat \<Rightarrow> nat \<times> parameter_relocation \<Rightarrow> array_nodes \<Rightarrow> array_nodes act" where
  "add_tensor c block invocation base tensors = (\<lambda>(index, section, relocation, y, addend) arrays.
     let vs = pc_schemas c; a = pc_artifact c; relative = base + int index * 0x28; offset = es_offset (pc_params c) + relative;
         role = (if index + 1 = tensors then ''output'' else ''input'') in
     act_bind (act_lift (decode_record_fields (vs_npu vs) ''memref_data'' a (pc_data c) (PInt offset) [])) (\<lambda>fs.
     act_bind (act_lift (if 0 \<le> addend then bind_res (Address (PStr ''NNCXM slice offset'') (PInt addend)) (\<lambda>ad. Inr [(''tensor data'', ReadyAddress ad)]) else Inr [])) (\<lambda>ads.
     act_bind (act_lift (field_value fs ''rank'')) (\<lambda>rank.
     act_bind (act_fold (resolve_array vs a (pc_data c) (pc_elf c) (pc_sections c) (pc_prefix c) (pc_symbols c) (pc_params c) (pc_found c) relative rank)
       array_kinds \<lparr>rv_nodes = arrays, rv_arrays = [], rv_values = []\<rparr>) (\<lambda>rv.
     let shape = shape_properties (map_of (rv_values rv) ''dimensions'') (map_of (rv_values rv) ''strides'')
       (le_value (byte_slice (pc_data c) (offset + 0x18) (offset + 0x1C))) in
     act_bind (act_lift (plain_span a offset (offset + 0x28))) (\<lambda>spans.
     act_bind (act_lift (node_metadata (vs_npu vs) ''memref'')) (\<lambda>m.
     act_bind (act_node (entity_args (pc_prefix c @ ''.parameters.'' @ nat_str invocation @ ''.tensor.'' @ nat_str index)
         (role @ '' tensor '' @ nat_str (if role = ''input'' then index else 0)) m
         \<lparr>na_spans := spans, na_fields := ready_fields fs, na_addresses := ads,
          na_properties := PDict ([(''role'', PStr role), (''record_index'', PInt (int index)), (''data_symbol'', PInt y), (''data_addend'', PInt addend)] @ shape),
          na_parent := Some (NodeRef block)\<rparr>)) (\<lambda>tensor.
     act_bind (act_lift (entry (pc_relocations c) (section, relocation))) (\<lambda>r.
     act_bind (act_link vs (NodeRef r) (NodeRef tensor) ''resolves_tensor_data'' PNone) (\<lambda>_.
     act_bind (act_fold (link_array vs (pc_relocations c) tensor) (rv_arrays rv) ()) (\<lambda>_.
     act_return (rv_nodes rv))))))))))))"

definition add_block ::
  "parameter_context \<Rightarrow> gnode list \<Rightarrow> (nat \<times> invocation_relocation) list \<Rightarrow> nat \<times> invocation_relocation \<Rightarrow> array_nodes \<Rightarrow> array_nodes act" where
  "add_block c invocation_nodes bases = (\<lambda>(invocation, section, relocation, base) arrays.
     let vs = pc_schemas c; params = pc_params c; limit = block_limit params bases base in
     act_bind (act_lift (block_records (pc_elf c) (pc_found c) base)) (\<lambda>records.
     if records = [] \<or> limit < base + int (length records) * 0x28 then act_return arrays
     else
       act_bind (act_lift (plain_span (pc_artifact c) (es_offset params + base) (es_offset params + limit))) (\<lambda>spans.
       act_bind (act_lift (entry (pc_sections c) (int (es_index params)))) (\<lambda>parent.
       act_bind (act_lift (node_metadata (vs_npu vs) ''parameter_block'')) (\<lambda>m.
       act_bind (act_node (entity_args (pc_prefix c @ ''.parameters.'' @ nat_str invocation)
           (''invocation '' @ nat_str invocation @ '' parameters'' @ dot @ nat_str (length records) @ '' tensors'') m
           \<lparr>na_spans := spans,
            na_properties := PDict [(''parameter_base'', PInt base), (''parameter_limit'', PInt limit),
              (''tensor_count'', PInt (int (length records))), (''role_rule'', PStr ''inputs followed by one output'')],
            na_parent := Some (NodeRef parent)\<rparr>)) (\<lambda>block.
       act_bind (act_lift (from_option IndexError (py_nth invocation_nodes (int invocation)))) (\<lambda>n.
       act_bind (act_link vs (NodeRef n) (NodeRef block) ''uses_parameters'' PNone) (\<lambda>_.
       act_bind (act_lift (entry (pc_relocations c) (section, relocation))) (\<lambda>r.
       act_bind (act_link vs (NodeRef r) (NodeRef block) ''selects_parameter_block'' PNone) (\<lambda>_.
       act_fold (add_tensor c block invocation base (length records)) (enum records) arrays))))))))))"

definition annotate_parameter_records ::
  "viz_schemas \<Rightarrow> artifact \<Rightarrow> bytes \<Rightarrow> elf_file \<Rightarrow> section_nodes \<Rightarrow> relocation_nodes \<Rightarrow> gnode list \<Rightarrow> string \<Rightarrow> unit act" where
  "annotate_parameter_records vs a data elf nodes relocation_nodes invocation_nodes prefix =
     (case (find_section elf ''.text.KernelParams'', find_section elf ''.text.ActKernelInvocations'') of
        (Some params, Some invocations) \<Rightarrow>
          if es_size params = 0 then act_return ()
          else
            act_bind (act_lift (elf_symbols data elf)) (\<lambda>symbols.
            act_bind (act_lift (fold_res (collect_relocations data elf symbols params invocations) (ef_sections elf) ([], []))) (\<lambda>(pr, ir).
            let bases = parameter_bases params ir (length invocation_nodes);
                c = \<lparr>pc_schemas = vs, pc_artifact = a, pc_data = data, pc_elf = elf, pc_sections = nodes, pc_relocations = relocation_nodes,
                  pc_prefix = prefix, pc_params = params, pc_symbols = symbols, pc_found = pr\<rparr> in
            act_bind (act_fold (add_block c invocation_nodes bases) bases []) (\<lambda>_. act_return ())))
      | _ \<Rightarrow> act_return ())"

section \<open>What they keep\<close>

lemma axis_fields_good: "axis_fields vs a data kind start rank = Inr fs \<Longrightarrow> good_fields fs"
  unfolding axis_fields_def
  by (erule fold_res_invariant [where P = good_fields])
    (auto simp: bind_res_eq_Inr intro!: good_fields_set dest!: decoded_fields_good dest: good_fields_entry)

lemma tensor_address_good:
  "(if b then bind_res (Address space v) (\<lambda>ad. Inr [(name, ReadyAddress ad)]) else Inr []) = Inr ads \<Longrightarrow> good_addresses ads"
  by (auto simp: bind_res_eq_Inr good_addresses_def keys_def dest: Address_wf split: if_splits)

lemma keeps_array_node: "keeps fs (array_node vs a data nodes prefix params rank r kind addend arrays) (\<lambda>_. True)"
  unfolding array_node_def split_def
  by (intro keeps_lift_bind keeps_rules) (auto dest!: made axis_fields_good)

lemma keeps_resolve_array:
  "keeps fs (resolve_array vs a data elf nodes prefix symbols params pr relative rank kind rv) (\<lambda>_. True)"
  unfolding resolve_array_def
  by (intro keeps_lift_bind) (auto split: option.splits list.splits intro!: keeps_array_node keeps_lift_bind keeps_rules)

lemma keeps_add_tensor: "keeps fs (add_tensor c block invocation base n r arrays) (\<lambda>_. True)"
  unfolding add_tensor_def link_array_def Let_def split_def
  by (intro keeps_lift_bind keeps_resolve_array keeps_rules) (auto dest!: made tensor_address_good)

lemma keeps_add_block: "keeps fs (add_block c invocation_nodes bases b arrays) (\<lambda>_. True)"
  unfolding add_block_def Let_def split_def
  by (intro keeps_lift_bind keeps_add_tensor keeps_rules) (auto dest!: made)

lemma keeps_parameter_records [keeps_rules]:
  "V = (\<lambda>_. True) \<Longrightarrow> keeps fs (annotate_parameter_records vs a data elf nodes relocation_nodes invocation_nodes prefix) V"
  unfolding annotate_parameter_records_def
  by (auto split: option.splits intro!: keeps_lift_bind keeps_add_block keeps_rules)

text \<open>The bound on the loop over records is enough: a larger one gives the same records.\<close>

lemma special_relocation_at: "special_relocation elf pr offset = Inr (Some m) \<Longrightarrow> offset \<in> fst ` set pr"
  by (rule ccontr)
    (auto simp: special_relocation_def get_list_def map_of_eq_None_iff [symmetric] split: option.splits)

lemma records_bounded:
  assumes "card {x \<in> fst ` set pr. offset \<le> x} < k"
  shows "record_relocations (k + j) elf pr offset = record_relocations k elf pr offset"
  using assms
proof (induction k arbitrary: offset)
  case (Suc k)
  show ?case
  proof (cases "\<exists>m. special_relocation elf pr offset = Inr (Some m)")
    case True
    then have "offset \<in> fst ` set pr" using special_relocation_at by blast
    then have "offset \<in> {x \<in> fst ` set pr. offset \<le> x}" "offset \<notin> {x \<in> fst ` set pr. offset + 0x28 \<le> x}"
      and "{x \<in> fst ` set pr. offset + 0x28 \<le> x} \<subseteq> {x \<in> fst ` set pr. offset \<le> x}" by auto
    then have "{x \<in> fst ` set pr. offset + 0x28 \<le> x} \<subset> {x \<in> fst ` set pr. offset \<le> x}" by blast
    then have "card {x \<in> fst ` set pr. offset + 0x28 \<le> x} < card {x \<in> fst ` set pr. offset \<le> x}"
      by (simp add: psubset_card_mono)
    with Suc.prems have "card {x \<in> fst ` set pr. offset + 0x28 \<le> x} < k" by simp
    then have "record_relocations (k + j) elf pr (offset + 0x28) = record_relocations k elf pr (offset + 0x28)" by (rule Suc.IH)
    then show ?thesis by simp
  next
    case False
    then show ?thesis by (cases "special_relocation elf pr offset") (auto split: option.splits)
  qed
qed simp

lemma block_records_bound: "record_relocations (Suc (length pr) + j) elf pr base = block_records elf pr base"
proof -
  have "card {x \<in> fst ` set pr. base \<le> x} \<le> card (fst ` set pr)" by (rule card_mono) auto
  also have "\<dots> \<le> length pr" by (metis card_image_le card_length finite_set order_trans)
  finally show ?thesis unfolding block_records_def by (intro records_bounded) simp
qed

end
