(* ===== verification/Native_Graph.thy ===== *)
theory Native_Graph
  imports Parameter_Records Act_Group
begin

text \<open>
  The ACT ranges, code images and invocations of an NPU blob (\<open>viz/npunlock.py\<close>, \<open>_target_contracts\<close> and
  \<open>_annotate_native_records\<close>). A number that is read from a record is an \<open>int\<close>, or the step raises \<open>TypeError\<close>.
\<close>

section \<open>Contracts of patch targets\<close>

definition contract_entry :: "patch_tensor_contract \<Rightarrow> pyval" where
  "contract_entry t = PDict [(''role'', PStr (tc_role t)), (''index'', PInt (tc_index t)), (''dtype'', PStr (tc_dtype t)),
     (''element_count'', PInt (tc_element_count t)), (''span_bytes'', PInt (tc_span_bytes t))]"

fun target_contract :: "target \<Rightarrow> pyval" where
  "target_contract (TargetV2 t) = PList (map contract_entry (p2_tensors t))"
| "target_contract (TargetV1 t) = PDict [(''input_count'', PInt (pt_input_count t)), (''element_count'', PInt (pt_element_count t)),
     (''span_bytes'', PInt (pt_span_bytes t))]"

type_synonym contracts = "(int \<times> (string \<times> pyval) list) list"

definition add_contract :: "nat \<Rightarrow> target \<Rightarrow> contracts \<Rightarrow> contracts" where
  "add_contract group_index t d =
     dict_set (tg_invocation_index t)
       [(''validated_group'', PInt (int group_index)), (''validated_contract'', target_contract t)] d"

definition target_contracts :: "target list list option \<Rightarrow> contracts" where
  "target_contracts groups =
     (case groups of
        None \<Rightarrow> []
      | Some gs \<Rightarrow> fold (\<lambda>(group_index, group) d. fold (add_contract group_index) group d) (enum gs) [])"

section \<open>Ranges\<close>

text \<open>The offset into \<open>.text.KernelText\<close> that a relocation gives the code pointer of a range.\<close>

definition add_code_addend :: "symbol_table \<Rightarrow> elf_section \<Rightarrow> relocation \<Rightarrow> (int \<times> int) list \<Rightarrow> (int \<times> int) list" where
  "add_code_addend symbols s = (\<lambda>(_, target_offset, y, kind, addend) d.
     case map_of symbols (es_link s, y) of
       Some (name, _) \<Rightarrow>
         if target_offset mod 0x18 = 8 \<and> kind = 4 \<and> name = ''sym_kernelTextSection'' then dict_set (target_offset div 0x18) addend d else d
     | None \<Rightarrow> d)"

definition code_addends :: "bytes \<Rightarrow> elf_file \<Rightarrow> symbol_table \<Rightarrow> elf_section option \<Rightarrow> (int \<times> int) list res" where
  "code_addends data elf symbols range_relocations =
     (case range_relocations of
        None \<Rightarrow> Inr []
      | Some s \<Rightarrow> bind_res (relocations data elf s) (\<lambda>rs. Inr (fold (add_code_addend symbols s) rs [])))"

type_synonym code_nodes = "((int \<times> int) \<times> gnode) list"

definition hex_digits :: "int \<Rightarrow> string" where
  "hex_digits i = hex_nat (nat i)"

definition shave_address :: "pyval \<Rightarrow> (string \<times> address_arg) list res" where
  "shave_address v = bind_res (Address (PStr ''SHAVE virtual'') v) (\<lambda>a. Inr [(''SHAVE code'', ReadyAddress a)])"

text \<open>The node of the code a range selects: ranges with the same code share it.\<close>

definition code_node ::
  "viz_schemas \<Rightarrow> artifact \<Rightarrow> section_nodes \<Rightarrow> string \<Rightarrow> elf_section \<Rightarrow> pyval \<Rightarrow> int \<Rightarrow> int \<Rightarrow> code_nodes \<Rightarrow> (gnode \<times> code_nodes) act" where
  "code_node vs a nodes prefix kernel_text va addend code_size codes =
     (case map_of codes (addend, code_size) of
        Some n \<Rightarrow> act_return (n, codes)
      | None \<Rightarrow>
          act_bind (act_lift (plain_span a (es_offset kernel_text + addend) (es_offset kernel_text + addend + code_size))) (\<lambda>spans.
          act_bind (act_lift (shave_address va)) (\<lambda>ads.
          act_bind (act_lift (entry nodes (int (es_index kernel_text)))) (\<lambda>parent.
          act_bind (act_lift (node_metadata (vs_npu vs) ''code_image'')) (\<lambda>m.
          act_bind (act_node (entity_args (prefix @ ''.code.'' @ hex_digits addend @ ''.'' @ hex_digits code_size)
              (''KernelText +0x'' @ hex_digits addend @ dot @ ''0x'' @ hex_digits code_size @ '' bytes'') m
              \<lparr>na_spans := spans, na_addresses := ads,
               na_properties := PDict [(''section_offset'', PInt addend), (''size'', PInt code_size)],
               na_parent := Some (NodeRef parent)\<rparr>)) (\<lambda>n.
          act_return (n, dict_set (addend, code_size) n codes)))))))"

text \<open>\<open>addend is not None and addend >= 0 and code_size > 0 and ...\<close>\<close>

definition selected_code :: "elf_section \<Rightarrow> int option \<Rightarrow> pyval \<Rightarrow> (int \<times> int) option res" where
  "selected_code kernel_text addend code_size =
     (case addend of
        None \<Rightarrow> Inr None
      | Some x \<Rightarrow>
          if x < 0 then Inr None
          else bind_res (int_value code_size) (\<lambda>n. Inr (if 0 < n \<and> x + n \<le> es_size kernel_text then Some (x, n) else None)))"

definition add_range ::
  "viz_schemas \<Rightarrow> artifact \<Rightarrow> bytes \<Rightarrow> section_nodes \<Rightarrow> string \<Rightarrow> elf_section \<Rightarrow> elf_section \<Rightarrow> (int \<times> int) list \<Rightarrow> nat \<Rightarrow>
     gnode list \<times> code_nodes \<Rightarrow> (gnode list \<times> code_nodes) act" where
  "add_range vs a data nodes prefix ranges kernel_text addends index = (\<lambda>(range_nodes, codes).
     let offset = es_offset ranges + int index * 0x18 in
     act_bind (act_lift (decode_record_fields (vs_npu vs) ''act_kernel_range'' a data (PInt offset) [])) (\<lambda>fs.
     act_bind (act_lift (field_value fs ''code_virtual_address'')) (\<lambda>va.
     act_bind (act_lift (field_value fs ''code_size'')) (\<lambda>code_size.
     act_bind (act_lift (plain_span a offset (offset + 0x18))) (\<lambda>spans.
     act_bind (act_lift (shave_address va)) (\<lambda>ads.
     act_bind (act_lift (entry nodes (int (es_index ranges)))) (\<lambda>parent.
     act_bind (act_lift (node_metadata (vs_npu vs) ''act_range'')) (\<lambda>m.
     act_bind (act_node (entity_args (prefix @ ''.range.'' @ nat_str index) (''ACT range '' @ nat_str index) m
         \<lparr>na_spans := spans, na_fields := ready_fields fs, na_addresses := ads,
          na_properties := PDict [(''extent evidence'', PStr ''execution-tested inference'')],
          na_parent := Some (NodeRef parent)\<rparr>)) (\<lambda>n.
     act_bind (act_lift (selected_code kernel_text (map_of addends (int index)) code_size)) (\<lambda>selected.
     case selected of
       None \<Rightarrow> act_return (range_nodes @ [n], codes)
     | Some (addend, extent) \<Rightarrow>
         act_bind (code_node vs a nodes prefix kernel_text va addend extent codes) (\<lambda>(code, codes').
         act_bind (act_link vs (NodeRef n) (NodeRef code) ''selects_code''
           (PDict [(''evidence'', PStr ''KernelText relocation + observed extent'')])) (\<lambda>_.
    act_return (range_nodes @ [n], codes')))))))))))))"

section \<open>Invocations\<close>

definition add_invocation ::
  "viz_schemas \<Rightarrow> artifact \<Rightarrow> bytes \<Rightarrow> section_nodes \<Rightarrow> string \<Rightarrow> elf_section \<Rightarrow> gnode list \<Rightarrow> contracts \<Rightarrow> nat \<Rightarrow> gnode list \<Rightarrow> gnode list act" where
  "add_invocation vs a data nodes prefix invocations range_nodes contracts index invocation_nodes =
     (let offset = es_offset invocations + int index * 0x40 in
      act_bind (act_lift (decode_record_fields (vs_npu vs) ''act_kernel_invocation'' a data (PInt offset) [])) (\<lambda>fs.
      act_bind (act_lift (field_value fs ''selected_range'')) (\<lambda>selected.
      act_bind (act_lift (plain_span a offset (offset + 0x40))) (\<lambda>spans.
      act_bind (act_lift (entry nodes (int (es_index invocations)))) (\<lambda>parent.
      act_bind (act_lift (node_metadata (vs_npu vs) ''act_invocation'')) (\<lambda>m.
      act_bind (act_node (entity_args (prefix @ ''.invocation.'' @ nat_str index) (''ACT invocation '' @ nat_str index) m
          \<lparr>na_spans := spans, na_fields := ready_fields fs,
           na_properties := PDict ((''range_selection_confidence'', PStr ''confirmed for the supported compiler family'') # get_list contracts (int index)),
           na_parent := Some (NodeRef parent)\<rparr>)) (\<lambda>n.
      act_bind (act_lift (int_value selected)) (\<lambda>range_index.
      act_bind
        (if range_index < int (length range_nodes) then
           act_bind (act_lift (from_option IndexError (py_nth range_nodes range_index))) (\<lambda>r.
           act_link vs (NodeRef n) (NodeRef r) ''selects_range'' (PDict [(''evidence'', PStr ''confirmed index field'')]))
         else act_return ()) (\<lambda>_.
      act_return (invocation_nodes @ [n]))))))))))"

section \<open>Relocations that patch them\<close>

definition link_numbered :: "viz_schemas \<Rightarrow> gnode \<Rightarrow> bool \<Rightarrow> gnode list \<Rightarrow> int \<Rightarrow> unit act" where
  "link_numbered vs r patches records index =
     (if patches \<and> index < int (length records) then
        act_bind (act_lift (from_option IndexError (py_nth records index))) (\<lambda>n. act_link vs (NodeRef r) (NodeRef n) ''patches_field'' PNone)
      else act_return ())"

definition link_relocation ::
  "viz_schemas \<Rightarrow> relocation_nodes \<Rightarrow> elf_section \<Rightarrow> elf_section \<Rightarrow> gnode list \<Rightarrow> gnode list \<Rightarrow> elf_section \<Rightarrow> relocation \<Rightarrow> unit \<Rightarrow> unit act" where
  "link_relocation vs relocation_nodes ranges invocations range_nodes invocation_nodes s = (\<lambda>(index, target_offset, _, _, _) _.
     act_bind (act_lift (entry relocation_nodes (es_index s, index))) (\<lambda>r.
     act_bind (link_numbered vs r (es_info s = int (es_index ranges)) range_nodes (target_offset div 0x18)) (\<lambda>_.
     link_numbered vs r (es_info s = int (es_index invocations)) invocation_nodes (target_offset div 0x40))))"

definition relocation_sections_of :: "elf_file \<Rightarrow> elf_section \<Rightarrow> elf_section list" where
  "relocation_sections_of elf target = filter (\<lambda>s. es_type s = 4 \<and> es_info s = int (es_index target)) (ef_sections elf)"

definition annotate_native_records ::
  "viz_schemas \<Rightarrow> artifact \<Rightarrow> bytes \<Rightarrow> elf_file \<Rightarrow> section_nodes \<Rightarrow> relocation_nodes \<Rightarrow> string \<Rightarrow> target list list option \<Rightarrow>
     (gnode list \<times> gnode list) act" where
  "annotate_native_records vs a data elf nodes relocation_nodes prefix groups =
     (case (find_section elf ''.text.ActKernelRanges'', find_section elf ''.text.ActKernelInvocations'', find_section elf ''.text.KernelText'') of
        (Some ranges, Some invocations, Some kernel_text) \<Rightarrow>
          if es_size ranges mod 0x18 \<noteq> 0 \<or> es_size invocations mod 0x40 \<noteq> 0
          then act_lift (Inl (ValueError ''ACT range or invocation section does not use the documented record stride''))
          else
            let range_relocations = (case relocation_sections_of elf ranges of [] \<Rightarrow> None | s # _ \<Rightarrow> Some s) in
            act_bind (act_lift (elf_symbols data elf)) (\<lambda>symbols.
            act_bind (act_lift (code_addends data elf symbols range_relocations)) (\<lambda>addends.
            act_bind (act_fold (add_range vs a data nodes prefix ranges kernel_text addends) (entries ranges 0x18) ([], [])) (\<lambda>(range_nodes, codes).
            act_bind (act_fold (add_invocation vs a data nodes prefix invocations range_nodes (target_contracts groups)) (entries invocations 0x40) []) (\<lambda>invocation_nodes.
            act_bind (act_fold (\<lambda>s _. act_bind (act_lift (relocations data elf s)) (\<lambda>rs.
                act_fold (link_relocation vs relocation_nodes ranges invocations range_nodes invocation_nodes s) rs ()))
              ((case range_relocations of None \<Rightarrow> [] | Some s \<Rightarrow> [s]) @ relocation_sections_of elf invocations) ()) (\<lambda>_.
            act_bind (annotate_parameter_records vs a data elf nodes relocation_nodes invocation_nodes prefix) (\<lambda>_.
            act_return (range_nodes, map snd codes)))))))
      | _ \<Rightarrow> act_return ([], []))"

section \<open>What they keep\<close>

lemma shave_address_good: "shave_address v = Inr ads \<Longrightarrow> good_addresses ads"
  by (auto simp: shave_address_def good_addresses_def bind_res_eq_Inr keys_def dest: Address_wf)

lemma keeps_code_node: "keeps fs (code_node vs a nodes prefix kernel_text va addend code_size codes) (\<lambda>_. True)"
  unfolding code_node_def by (intro keeps_lift_bind keeps_rules) (auto dest!: made shave_address_good)

lemma keeps_range: "keeps fs (add_range vs a data nodes prefix ranges kernel_text addends index s) (\<lambda>_. True)"
  unfolding add_range_def Let_def split_def
  by (intro keeps_lift_bind keeps_code_node keeps_rules) (auto dest!: made shave_address_good)

lemma keeps_invocation: "keeps fs (add_invocation vs a data nodes prefix invocations range_nodes contracts index ns) (\<lambda>_. True)"
  unfolding add_invocation_def Let_def by (intro keeps_lift_bind keeps_rules) (auto dest!: made)

lemma keeps_link_numbered [keeps_rules]: "V = (\<lambda>_. True) \<Longrightarrow> keeps fs (link_numbered vs r b records index) V"
  unfolding link_numbered_def by (hypsubst, intro keeps_lift_bind keeps_rules) auto

lemma keeps_link_relocation: "keeps fs (link_relocation vs relocation_nodes ranges invocations range_nodes invocation_nodes s r u) (\<lambda>_. True)"
  unfolding link_relocation_def split_def by (intro keeps_lift_bind keeps_rules) auto

lemma keeps_native_records [keeps_rules]:
  "V = (\<lambda>_. True) \<Longrightarrow> keeps fs (annotate_native_records vs a data elf nodes relocation_nodes prefix groups) V"
  unfolding annotate_native_records_def Let_def split_def
  by (auto split: option.splits intro!: keeps_lift_bind keeps_range keeps_invocation keeps_link_relocation keeps_rules)

end
