(* ===== verification/Viz_Native.thy ===== *)
theory Viz_Native
  imports Native_Graph Core_Evidence
begin

text \<open>
  The view of an NPU blob and a kernel (\<open>viz/npunlock.py\<close>, \<open>build_npunlock_graph\<close>), composed of the annotations of the
  other theories: a graph that is valid, whose nodes lie below the images of the files, and that survives its JSON form.
\<close>

section \<open>The view\<close>

definition annotate_blob ::
  "files \<Rightarrow> viz_schemas \<Rightarrow> target list list option \<Rightarrow> pyval \<Rightarrow> artifact \<Rightarrow> (artifact \<times> gnode list) act" where
  "annotate_blob fs vs groups evidence a =
     act_bind (act_lift (artifact_read fs a (PInt 0) PNone)) (\<lambda>data.
     act_bind (add_elf_nodes vs a data ''native'') (\<lambda>(elf, nodes).
     act_bind (annotate_symbols vs a data elf nodes ''native'') (\<lambda>symbol_nodes.
     act_bind (annotate_relocations vs a data elf nodes symbol_nodes ''native'') (\<lambda>relocation_nodes.
     act_bind (annotate_native_metadata vs a data elf nodes ''native'') (\<lambda>_.
     act_bind (annotate_routing_records vs a data elf nodes relocation_nodes ''native'') (\<lambda>_.
     act_bind (annotate_native_records vs a data elf nodes relocation_nodes ''native'' groups) (\<lambda>(_, codes).
     act_bind (if evidence \<noteq> PNone then attach_core_evidence vs a evidence else act_return ()) (\<lambda>_.
     act_return (a, codes)))))))))"

definition annotate_native ::
  "files \<Rightarrow> viz_schemas \<Rightarrow> pyval \<Rightarrow> pyval \<Rightarrow> target list list option \<Rightarrow> pyval \<Rightarrow> (artifact \<times> gnode list) act" where
  "annotate_native fs vs native name groups evidence =
     act_bind (act_artifact fs ''native'' native name) (annotate_blob fs vs groups evidence)"

text \<open>A code image of the blob that is the code of the kernel.\<close>

definition identical_code :: "files \<Rightarrow> artifact \<Rightarrow> bytes \<Rightarrow> gnode \<Rightarrow> bool res" where
  "identical_code fs a content code =
     bind_res (from_option IndexError (py_nth (gn_spans code) 0)) (\<lambda>s.
     if sp_end s - sp_start s \<noteq> int (length content) then Inr False
     else bind_res (artifact_read fs a (PInt (sp_start s)) (PInt (sp_end s))) (\<lambda>bs. Inr (bs = content)))"

definition link_identical :: "files \<Rightarrow> viz_schemas \<Rightarrow> artifact \<Rightarrow> gnode \<Rightarrow> bytes \<Rightarrow> gnode \<Rightarrow> unit \<Rightarrow> unit act" where
  "link_identical fs vs a text_node content code _ =
     act_bind (act_lift (identical_code fs a content code)) (\<lambda>same.
     if same then
       act_link vs (NodeRef text_node) (NodeRef code) ''byte_identical_to''
         (PDict [(''evidence'', PStr ''exact executable-image byte comparison'')])
     else act_return ())"

definition annotate_kernel :: "files \<Rightarrow> viz_schemas \<Rightarrow> pyval \<Rightarrow> pyval \<Rightarrow> artifact \<Rightarrow> gnode list \<Rightarrow> unit act" where
  "annotate_kernel fs vs kernel_file name a codes =
     act_bind (act_artifact fs ''kernel'' kernel_file name) (\<lambda>b.
     act_bind (act_lift (artifact_read fs b (PInt 0) PNone)) (\<lambda>data.
     act_bind (add_elf_nodes vs b data ''kernel'') (\<lambda>(elf, nodes).
     act_bind (annotate_symbols vs b data elf nodes ''kernel'') (\<lambda>symbol_nodes.
     act_bind (annotate_relocations vs b data elf nodes symbol_nodes ''kernel'') (\<lambda>_.
     case find_section elf ''.text'' of
       None \<Rightarrow> act_return ()
     | Some s \<Rightarrow>
         if es_size s = 0 then act_return ()
         else
           act_bind (act_lift (entry nodes (int (es_index s)))) (\<lambda>text_node.
           act_fold (link_identical fs vs a text_node (byte_slice data (es_offset s) (es_offset s + es_size s))) codes ()))))))"

definition annotate_files ::
  "files \<Rightarrow> viz_schemas \<Rightarrow> pyval \<Rightarrow> pyval \<Rightarrow> pyval \<Rightarrow> pyval \<Rightarrow> target list list option \<Rightarrow> pyval \<Rightarrow> unit act" where
  "annotate_files fs vs native kernel_file native_name kernel_name groups evidence =
     act_bind (annotate_native fs vs native native_name groups evidence) (\<lambda>(a, codes).
     if kernel_file \<noteq> PNone then annotate_kernel fs vs kernel_file kernel_name a codes else act_return ())"

definition build_npunlock_graph ::
  "files \<Rightarrow> viz_schemas \<Rightarrow> pyval \<Rightarrow> pyval \<Rightarrow> pyval \<Rightarrow> pyval \<Rightarrow> pyval \<Rightarrow> target list list option \<Rightarrow> pyval \<Rightarrow> artifact_graph res" where
  "build_npunlock_graph fs vs native kernel_file title native_name kernel_name groups evidence =
     bind_res (ArtifactGraph title default_categories) (\<lambda>g.
     bind_res (annotate_files fs vs native kernel_file native_name kernel_name groups evidence g) (\<lambda>(_, g').
     bind_res (validate_graph g') (\<lambda>_. Inr g')))"

section \<open>What it is\<close>

lemma keeps_annotate_native: "keeps fs (annotate_native fs vs native name groups evidence) (\<lambda>_. True)"
  unfolding annotate_native_def annotate_blob_def split_def by (intro keeps_rules) (auto simp: image_ids_def)

lemma keeps_annotate_kernel: "keeps fs (annotate_kernel fs vs kernel_file name a codes) (\<lambda>_. True)"
  unfolding annotate_kernel_def link_identical_def split_def by (intro keeps_rules) (auto simp: image_ids_def)

lemma keeps_annotate_files: "keeps fs (annotate_files fs vs native kernel_file native_name kernel_name groups evidence) (\<lambda>_. True)"
  unfolding annotate_files_def split_def by (intro keeps_annotate_native keeps_annotate_kernel keeps_rules) auto

lemma default_categories_wf: "list_all wf_category default_categories"
  by code_simp

lemma built_view:
  assumes "build_npunlock_graph fs vs native kernel_file title native_name kernel_name groups evidence = Inr g"
  shows "view fs g" and "validate_graph g = Inr ()"
proof -
  from assms obtain g0 where g0: "ArtifactGraph title default_categories = Inr g0"
    and run: "annotate_files fs vs native kernel_file native_name kernel_name groups evidence g0 = Inr ((), g)"
    and valid: "validate_graph g = Inr ()"
    by (auto simp: build_npunlock_graph_def bind_res_eq_Inr)
  from g0 default_categories_wf have "built fs g0" by (intro built.start)
  moreover from g0 have "below_images g0" by (auto simp: ArtifactGraph_def bind_res_eq_Inr if_Inl_Inr below_images_def keys_def)
  ultimately have "view fs g0" by (simp add: view_def)
  with keeps_annotate_files run show "view fs g" unfolding keeps_def by blast
  show "validate_graph g = Inr ()" by (rule valid)
qed

text \<open>The graph can be written as JSON: its artifacts have the contents they had.\<close>

lemma valid_graph_written:
  assumes "wf_graph fs g" and "validate_graph g = Inr ()"
  shows "\<exists>v. graph_to_dict fs True g = Inr v"
proof -
  have "\<exists>v. artifact_to_dict fs True a = Inr v" if "(k, a) \<in> set (vg_artifacts g)" for k a
  proof -
    from that assms(1) obtain content where "artifact_content fs a content"
      by (auto simp: wf_graph_def wf_artifact_def list_all_iff)
    from artifact_content_read [OF this] show ?thesis by (simp add: artifact_to_dict_def)
  qed
  then have "\<exists>vs. map_res (artifact_to_dict fs True \<circ> snd) (vg_artifacts g) = Inr vs" by (auto simp: map_res_succeeds)
  with assms(2) show ?thesis by (auto simp: graph_to_dict_def)
qed

text \<open>In a forest every node is below a node without a parent.\<close>

lemma forest_roots:
  assumes "forest g" and "k \<in> set (keys (vg_nodes g))"
  shows "\<exists>r. r \<in> set (keys (vg_nodes g)) \<and> map_of (vg_parents g) r = None \<and> (k, r) \<in> (parent_edges (vg_parents g))\<^sup>*"
proof -
  from assms(1) have "wf ((parent_edges (vg_parents g))\<inverse>)"
    unfolding forest_def by (intro finite_acyclic_wf_converse finite_parent_edges) blast
  then show ?thesis using assms(2)
  proof (induction k rule: wf_induct_rule)
    case (less k)
    show ?case
    proof (cases "map_of (vg_parents g) k")
      case (Some p)
      then have "(k, p) \<in> parent_edges (vg_parents g)" "p \<in> set (keys (vg_nodes g))"
        using assms(1) by (auto simp: parent_edges_def forest_def dest!: map_of_SomeD)
      with less.IH [of p] show ?thesis by (auto intro: converse_rtrancl_into_rtrancl)
    qed (use less.prems in blast)
  qed
qed

text \<open>C40 A view that is built is sound. Its containment is a forest, and following it from any node ends at the image of
  one of the two files; every span lies in a file of the view, span identifiers are unique and links join nodes of the view. The view
  survives its JSON form: it can be written, and reading what is written gives the same nodes, containment and links over
  artifacts with the same names, sizes and hashes, and a graph that is written as the same JSON.\<close>

theorem npunlock_view_sound:
  assumes "build_npunlock_graph fs vs native kernel_file title native_name kernel_name groups evidence = Inr g"
  shows "forest g \<and> validate_graph g = Inr () \<and>
    (\<forall>k \<in> set (keys (vg_nodes g)). \<exists>r \<in> set image_ids. (k, r) \<in> (parent_edges (vg_parents g))\<^sup>*) \<and>
    (\<exists>v. graph_to_dict fs True g = Inr v \<and>
      (\<exists>g'. from_dict fs' obj v data = Some (Inr g') \<and> keys (vg_nodes g') = keys (vg_nodes g) \<and> vg_links g' = vg_links g \<and>
        map_of (vg_parents g') = map_of (vg_parents g) \<and> same_artifacts (vg_artifacts g) (vg_artifacts g') \<and>
        graph_to_dict fs'' True g' = Inr v))"
proof -
  from built_view [OF assms] have valid: "validate_graph g = Inr ()" and below: "below_images g" and w: "wf_graph fs g"
    by (auto simp: view_def intro: built_graph_wf)
  from w have f: "forest g" by (simp add: wf_graph_def)
  have "\<exists>r \<in> set image_ids. (k, r) \<in> (parent_edges (vg_parents g))\<^sup>*" if "k \<in> set (keys (vg_nodes g))" for k
    using forest_roots [OF f that] below unfolding below_images_def by blast
  moreover from valid_graph_written [OF w valid] obtain v where v: "graph_to_dict fs True g = Inr v" by blast
  moreover from from_dict_written [OF w v] obtain bs vs where b: "same_artifacts (vg_artifacts g) bs"
    "map_res (artifact_to_dict fs True \<circ> snd) (vg_artifacts g) = Inr vs" "map_res (artifact_to_dict fs'' True \<circ> snd) bs = Inr vs"
    "from_dict fs' obj v data = Some (Inr (moved_graph bs g))" by blast
  moreover from moved_graph_dict [OF w v b(1,2,3)] have "graph_to_dict fs'' True (moved_graph bs g) = Inr v" .
  moreover have "keys (vg_nodes (moved_graph bs g)) = keys (vg_nodes g)" "vg_links (moved_graph bs g) = vg_links g"
    "map_of (vg_parents (moved_graph bs g)) = map_of (vg_parents g)" "vg_artifacts (moved_graph bs g) = bs"
    using map_of_written_parents_forest [OF f] by (simp_all add: moved_graph_def keys_def split_def)
  ultimately show ?thesis using f valid by (intro conjI ballI exI [of _ v] exI [of _ "moved_graph bs g"]) simp_all
qed

text \<open>The view of a file with one section, under a small schema.\<close>

definition sample_node :: "string \<Rightarrow> pyval" where
  "sample_node kind = PDict [(''kind'', PStr kind), (''category'', PStr ''metadata''), (''description'', PStr ''d'')]"

definition sample_record :: "pyval list \<Rightarrow> pyval" where
  "sample_record fds = PDict [(''size'', PInt 64), (''fields'', PList
     (fds @ [sample_field ''word'' [(''offset'', PInt 4), (''size'', PInt 2), (''encoding'', PStr ''u16le'')]]))]"

definition elf_schema :: pyval where
  "elf_schema = PDict [(''nodes'', PDict (map (\<lambda>k. (k, sample_node k)) [''elf_image'', ''elf_header'', ''section_table'', ''section''])),
     (''records'', PDict [(''elf64_header'', sample_record []),
       (''elf64_section_header'', sample_record [sample_field ''index'' [(''computed'', PBool True)]])])]"

definition small_schemas :: viz_schemas where
  "small_schemas = \<lparr>vs_elf = elf_schema, vs_npu = PDict []\<rparr>"

definition blob_artifact :: "string \<Rightarrow> artifact" where
  "blob_artifact hash = \<lparr>af_object = 0, af_id = ''native'', af_name = ''b'', af_media_type = ''application/octet-stream'',
     af_size = int (length sample_elf), af_sha256 = hash, af_source = InMemory sample_elf\<rparr>"

definition empty_view :: artifact_graph where
  "empty_view = (case ArtifactGraph (PStr ''t'') default_categories of Inr g \<Rightarrow> g
     | Inl _ \<Rightarrow> \<lparr>vg_title = [], vg_artifacts = [], vg_nodes = [], vg_links = [], vg_parents = [], vg_categories = []\<rparr>)"

definition blob_view :: "string \<Rightarrow> artifact_graph" where
  "blob_view hash = (case annotate_blob (\<lambda>_. NoEntry) small_schemas None PNone (blob_artifact hash)
       (empty_view\<lparr>vg_artifacts := [(''native'', blob_artifact hash)]\<rparr>) of Inr (_, g) \<Rightarrow> g | Inl _ \<Rightarrow> empty_view)"

lemma blob_view_made:
  "annotate_blob (\<lambda>_. NoEntry) small_schemas None PNone (blob_artifact hash)
     (empty_view\<lparr>vg_artifacts := [(''native'', blob_artifact hash)]\<rparr>) = Inr ((blob_artifact hash, []), blob_view hash) \<and>
   keys (vg_nodes (blob_view hash)) = [''native.elf'', ''native.header'', ''native.sections'', ''native.section.0''] \<and>
   validate_graph (blob_view hash) = Inr ()"
proof -
  let ?r = "annotate_blob (\<lambda>_. NoEntry) small_schemas None PNone (blob_artifact hash)
     (empty_view\<lparr>vg_artifacts := [(''native'', blob_artifact hash)]\<rparr>)"
  have "(case ?r of
      Inr ((a, codes), g) \<Rightarrow> codes = [] \<and> validate_graph g = Inr () \<and>
        keys (vg_nodes g) = [''native.elf'', ''native.header'', ''native.sections'', ''native.section.0'']
    | Inl _ \<Rightarrow> False)" by code_simp
  then obtain a g where r: "?r = Inr ((a, []), g)" "validate_graph g = Inr ()"
    "keys (vg_nodes g) = [''native.elf'', ''native.header'', ''native.sections'', ''native.section.0'']" by (cases ?r) auto
  from r(1) have "a = blob_artifact hash" by (auto simp: annotate_blob_def act_bind_def act_return_def bind_res_eq_Inr split_def)
  with r show ?thesis by (simp add: blob_view_def)
qed

theorem npunlock_view_sound_witness:
  "\<exists>g. build_npunlock_graph (\<lambda>_. NoEntry) small_schemas (PBytes sample_elf) PNone (PStr ''t'') (PStr ''b'') (PStr ''k'') None PNone = Inr g \<and>
     (\<exists>r \<in> set image_ids. (''native.section.0'', r) \<in> (parent_edges (vg_parents g))\<^sup>*) \<and>
     (\<exists>v g'. graph_to_dict (\<lambda>_. NoEntry) True g = Inr v \<and> from_dict (\<lambda>_. NotAFile) 7 v [] = Some (Inr g') \<and>
        keys (vg_nodes g') = [''native.elf'', ''native.header'', ''native.sections'', ''native.section.0''])"
proof -
  let ?a = "blob_artifact (sha256 sample_elf)"
  have start: "ArtifactGraph (PStr ''t'') default_categories = Inr empty_view" "vg_artifacts empty_view = []"
  proof -
    have "isl (ArtifactGraph (PStr ''t'') default_categories) = False" by code_simp
    then show "ArtifactGraph (PStr ''t'') default_categories = Inr empty_view"
      by (cases "ArtifactGraph (PStr ''t'') default_categories") (simp_all add: empty_view_def)
    show "vg_artifacts empty_view = []" by code_simp
  qed
  have "text_identifier what (PStr ''native'') = Inr ''native''" "text_identifier what (PStr ''b'') = Inr ''b''" for what
    by (rule text_identifier_plain, code_simp)+
  then have "act_artifact (\<lambda>_. NoEntry) ''native'' (PBytes sample_elf) (PStr ''b'') empty_view =
    Inr (?a, empty_view\<lparr>vg_artifacts := [(''native'', ?a)]\<rparr>)"
    by (simp add: act_artifact_def fresh_object_def graph_artifact_def in_keys_def start(2) keys_def Artifact_def or_else_def
        artifact_source_of_def py_bytes_def blob_artifact_def)
  with start(1) blob_view_made [of "sha256 sample_elf"]
  have g: "build_npunlock_graph (\<lambda>_. NoEntry) small_schemas (PBytes sample_elf) PNone (PStr ''t'') (PStr ''b'') (PStr ''k'') None PNone =
      Inr (blob_view (sha256 sample_elf))"
    by (simp add: build_npunlock_graph_def annotate_files_def annotate_native_def act_bind_def act_return_def)
  from npunlock_view_sound [OF g, of "\<lambda>_. NotAFile" 7 "[]" "\<lambda>_. NoEntry"] blob_view_made [of "sha256 sample_elf"] g
  show ?thesis by (intro exI [of _ "blob_view (sha256 sample_elf)"]) fastforce
qed

end
