(* ===== verification/Spec2Isabelle.thy ===== *)
theory Spec2Isabelle
  imports Shape_Laws Topology Execution Reviewed_Ir Compile_Cached Evidence_Attached Viz_Native
begin

text \<open>
  A verification development for npunlock, the Python package (\<open>src/python/npunlock\<close>) that runs custom SHAVE
  kernels on an Intel NPU. The package builds a symbolic graph of tensor operators in which custom nodes stand for
  kernels and borrow an ordinary operator as carrier; serialises it to an OpenVINO IR; has a native library compile
  the IR to an NPU blob; discovers in the blob the groups of ACT invocations the carriers became; assigns these
  groups to the custom nodes; patches the compiled kernels into them; and runs, saves and caches the resulting
  programs. Everything here is Python code of the package; the native library, the file system, NumPy and ZIP
  archives are arguments of the model.

  \<^bold>\<open>From the source to the model.\<close> Data classes are records, with the checks of their constructors as functions of
  the same name that return a value or an exception (\<open>Prelude\<close>: the type \<open>res\<close> is a sum, \<open>bind_res\<close>, \<open>map_res\<close> and
  \<open>fold_res\<close> are sequencing, comprehensions and loops whose body may raise). Dynamically typed arguments and JSON
  values are the datatype \<open>pyval\<close> with Python's \<open>==\<close>, truth and iteration (\<open>Values\<close>). Nodes, which the code shares by
  reference, live in a store (a list) and are named by their position. Integers are unbounded, as in Python; they
  become words only where they cross into C. Exceptions keep their class and the literal part of their message.

  \<^bold>\<open>The theories\<close>, in the order of the pipeline:

  \<^item> \<open>Prelude\<close>, \<open>Values\<close>, \<open>Sha256\<close>, \<open>Json\<close>, \<open>Json_Size\<close>: exceptions, strings, bytes, Python values, SHA-256, and
    \<open>json.dumps\<close> and \<open>json.loads\<close> with the theorem that what is written is read back; bounds on document sizes.
  \<^item> \<open>Tensor\<close> (\<open>tensor.py\<close>), \<open>Kernel\<close> (\<open>kernel.py\<close>), \<open>Symbolic_Graph\<close> and \<open>Shape_Inference\<close> (\<open>graph.py\<close>):
    specs, kernels, nodes, \<open>_topological_nodes\<close>, \<open>Graph\<close>, the constructors and every branch of \<open>_output_specs\<close>.
    \<open>Symbolic_Graph\<close> shows that the depth-first visit sorts or finds a cycle, for every store; \<open>Shape_Inference\<close>
    that built graphs are acyclic; \<open>Shape_Laws\<close> what the inferred shapes mean.
  \<^item> \<open>Ir\<close> (\<open>ir.py\<close>): layers, edges, weights and the XML text of the IR.
  \<^item> \<open>Native\<close> and \<open>Native_Library\<close> (\<open>_native.py\<close>): the data classes of the C boundary and each call of
    \<open>NativeLibraries\<close> over a record \<open>native_lib\<close> of the C entry points, with the encoding to C structures.
  \<^item> \<open>Act_Group\<close>, \<open>Group_Mapping\<close>, \<open>Topology\<close> (\<open>__init__.py\<close>): which ACT groups fit which custom nodes; the
    positional search of \<open>_automatic_group_indices\<close> and the search over native relations of
    \<open>_propose_native_topology_mapping\<close>, each equal to a specification by uniqueness.
  \<^item> \<open>Contracts\<close> (\<open>contracts.py\<close>), \<open>External\<close> (\<open>external.py\<close>): provenance, patch reports, carrier and program
    contracts, reviewed patch bindings.
  \<^item> \<open>Session\<close> (\<open>_native.py\<close>, \<open>__init__.py\<close>): sessions, shared buffers and the execution state of a program over a
    world that records the native calls; threads interleave in an inductive step relation, and the invariants are
    proved by rule induction over the reachable worlds.
  \<^item> \<open>Program\<close>, \<open>Execution\<close>, \<open>Reviewed_Ir\<close> (\<open>__init__.py\<close>): programs and their bundles, running a program with
    copied or shared arrays, programs made from reviewed IR.
  \<^item> \<open>Prepared\<close>, \<open>Build_Plan\<close>, \<open>Prepared_Bundle\<close> (\<open>__init__.py\<close>): \<open>prepare\<close>, the filters and probes that gather
    evidence for a binding, the resolution of bindings and the build that patches every node in turn, and the
    bundles that save a prepared graph.
  \<^item> \<open>Cache\<close> (\<open>cache.py\<close>), \<open>Compile_Cached\<close> (\<open>__init__.py\<close>): the program cache over a directory in which every step
    may fail, and \<open>compile_cached\<close> on top of all the above.
  \<^item> \<open>Base64\<close>, \<open>Artifact\<close>, \<open>Artifact_Graph\<close>, \<open>Artifact_Json\<close>, \<open>Artifact_Roundtrip\<close> (\<open>viz/model.py\<close>): the artifact
    graphs of the visualiser, whose containment is a forest, and their serialisation, which is read back.
  \<^item> \<open>Viz_Schema\<close> (\<open>viz/_schema.py\<close>, \<open>viz/_bundled_schema.py\<close>): the validator of record descriptors and the decoder that
    reads fields from bytes; \<open>Schema_Decoding\<close> shows what a validated descriptor guarantees about decoding.
  \<^item> \<open>Viz_Elf\<close>, \<open>Graph_Builder\<close>, \<open>Elf_Graph\<close>, \<open>Native_Records\<close>, \<open>Parameter_Records\<close>, \<open>Native_Graph\<close>, \<open>Viz_Native\<close>
    (\<open>viz/npunlock.py\<close>): the ELF reader, which stays inside the bytes; steps that build an artifact graph; the nodes of
    sections, symbols and relocations, of DMA tasks and DPU invariants, of parameter blocks with their tensors, of
    ACT ranges, code images and invocations; and \<open>build_npunlock_graph\<close>, whose graphs are valid, hang below the images of
    the files and survive their JSON form.
  \<^item> \<open>Viz_Evidence\<close> (\<open>viz/evidence.py\<close>), \<open>Core_Evidence\<close> (\<open>viz/npunlock.py\<close>): the validator of the evidence the core
    hands to the visualiser and the code that attaches it to a graph; \<open>Evidence_Resolved\<close> and \<open>Evidence_Attached\<close> show that
    validated evidence has no dangling references.

  \<^bold>\<open>What the theorems show.\<close> Each property stands with the component that has it, after a text that states it in
  words. Searches agree with declarative specifications (unique mapping, unique topology); serialisations are exact
  (what is exported is read back, or rejected for a stated reason); state machines keep their invariants under
  every interleaving and every failure; and the composed operations, from \<open>PreparedGraph.build\<close> to \<open>compile_cached\<close>,
  return only what their parts have checked.

  \<^bold>\<open>Interfaces\<close> are locales: \<open>closed_digraph\<close> and \<open>grown_digraph\<close> (what the topological visit needs of a store),
  \<open>codec\<close> (an encoding that decodes to itself) and \<open>wire_format\<close> (what discovery needs of a C structure), each
  interpreted on the model's own functions. The steps that build artifact graphs share two rule collections instead,
  because a rule there relates steps of different types: \<open>keeps_rules\<close> for what a composed step keeps of a graph, and
  \<open>sound_rules\<close> for the exceptions it cannot raise.

  \<^bold>\<open>Bounds and fuel.\<close> The recursive visit of \<open>graph.py\<close> carries the interpreter's recursion limit as a number; more than
  the number of nodes is enough, and less raises. The loop over the tensor records of a parameter block carries a bound
  above the number of relocations, and a larger one gives the same records (\<open>block_records_bound\<close>). Everything else is structurally recursive or has a termination
  proof. The sizes the code limits (1 MiB manifests, 2 GiB blobs, 1024 reports, 64 MiB of reports) are in the
  definitions as they are in the code.

  \<^bold>\<open>Abstractions.\<close> Strings are sequences of code points below 256, so surrogates and wider characters are outside the
  model. The parts of messages an f-string fills in are dropped. A ZIP archive is the list of its members. A
  directory is a map from file names to contents, and its operations fail at the choice of the environment;
  resolving paths, times and file locks are left out. The bundled descriptor schemas of the visualiser are arguments; where
  it computes with a decoded field whose value map made it something other than an integer, the model raises at once; in the names it
  reads from a file, a character beyond code point 255 and a broken UTF-8 sequence each become one question mark. NumPy arrays
  are shape, element type and bytes; a conversion NumPy would do is an argument. The native library answers with
  arbitrary structures; theorems that need more of it say so.

  \<^bold>\<open>Not modelled.\<close> The server and command line of the visualiser (\<open>viz/server.py\<close>, \<open>viz/cli.py\<close>), the command line
  and \<open>doctor.py\<close>, and \<open>setup.py\<close>: report generation and process plumbing. \<open>project_prepared_evidence\<close>
  of \<open>viz/evidence.py\<close>, which copies inspection results of the core into a mapping that is then validated. Loading the DLL and declaring its argument types, and releasing result buffers in
  \<open>_native.py\<close>: \<open>ctypes\<close> declarations. The texts \<open>explain\<close> renders. The projects under \<open>contrib\<close>, \<open>examples\<close> and
  \<open>tools\<close>: applications of the package. The C++ of the native library (\<open>src\<close>, \<open>ABI\<close>)
  and the TypeScript of \<open>frontend\<close>: other languages; the library is seen here through its entry points.
\<close>

end
